(* ===== verification/Go_Errors.thy ===== *)
theory Go_Errors
  imports Main
begin

text \<open>
  The sentinel errors of the program, one datatype per \<open>var (...)\<close> block of
  \<open>errors.New\<close> values, with the package as prefix (\<open>vo_\<close> value objects, \<open>ent_\<close>
  entities, \<open>evt_\<close> events, \<open>pol_\<close> policies, \<open>in_\<close> inbound ports, \<open>out_\<close> outbound
  ports). Go compares sentinels by identity, so two sentinels of different packages
  stay different even where their message text is the same. \<open>go_error\<close> is the
  interface type \<open>error\<close>: \<open>errors.Is(err, pkg.ErrX)\<close> of the source is equality with
  the injected constructor, and an error wrapped by \<open>fmt.Errorf("%w: ...")\<close> is the
  sentinel it wraps (the added text is dropped). \<open>ErrPortRecordInvalid\<close> is the
  package-private sentinel of \<open>internal/application/usecases\<close>, and \<open>ErrOther\<close> stands
  for an error with no sentinel, told apart from all others by every \<open>errors.Is\<close>.
\<close>

text \<open>\<open>src/internal/domain/valueobjects/errors.go\<close>\<close>

datatype valueobjects_error =
    vo_ErrAddressPolicyIDInvalid
  | vo_ErrPaymentReceiptObservationObservedTotalMinorInvalid
  | vo_ErrPaymentReceiptObservationConfirmedTotalMinorInvalid
  | vo_ErrPaymentReceiptObservationUnconfirmedTotalMinorInvalid
  | vo_ErrPaymentReceiptObservationLatestBlockHeightInvalid
  | vo_ErrPaymentReceiptObservationTotalMismatch
  | vo_ErrPaymentReceiptObservationConfirmedExceedsObserved
  | vo_ErrPaymentReceiptObservationUnconfirmedExceedsObserved

text \<open>\<open>src/internal/domain/entities/errors.go\<close>\<close>

datatype entities_error =
    ent_ErrPaymentAddressIDInvalid
  | ent_ErrAddressPolicyIDRequired
  | ent_ErrAddressPolicyChainMismatch
  | ent_ErrAddressPolicyNotEnabled
  | ent_ErrExpectedAmountMinorInvalid
  | ent_ErrChainInvalid
  | ent_ErrNetworkInvalid
  | ent_ErrAddressRequired
  | ent_ErrIssuedAtRequired
  | ent_ErrRequiredConfirmationsInvalid
  | ent_ErrObservedAtRequired
  | ent_ErrPaymentReceiptFailureReasonRequired
  | ent_ErrAddressPolicyMismatch
  | ent_ErrDerivationFailureReasonRequired
  | ent_ErrPaymentAddressAllocationNotIssued
  | ent_ErrExpiresAtRequired

text \<open>\<open>src/internal/domain/events/errors.go\<close>\<close>

datatype events_error =
    evt_ErrPaymentReceiptStatusChangedPaymentAddressIDInvalid
  | evt_ErrPaymentReceiptStatusChangedPreviousStatusRequired
  | evt_ErrPaymentReceiptStatusChangedCurrentStatusRequired
  | evt_ErrPaymentReceiptStatusChangedStatusChangeRequired
  | evt_ErrPaymentReceiptStatusChangedObservedTotalMinorInvalid
  | evt_ErrPaymentReceiptStatusChangedConfirmedTotalMinorInvalid
  | evt_ErrPaymentReceiptStatusChangedUnconfirmedTotalMinorInvalid
  | evt_ErrPaymentReceiptStatusChangedAtRequired

text \<open>\<open>src/internal/domain/policies/errors.go\<close>\<close>

datatype policies_error =
    pol_ErrPaymentAddressAllocationIssuedAtRequired
  | pol_ErrAddressPolicyIDRequired
  | pol_ErrAddressPolicyChainMismatch
  | pol_ErrAddressPolicyNotEnabled
  | pol_ErrExpectedAmountMinorInvalid
  | pol_ErrPaymentReceiptStatusNotificationIDInvalid
  | pol_ErrPaymentReceiptStatusNotificationDeliveredAtRequired
  | pol_ErrPaymentReceiptStatusNotificationCurrentAttemptsInvalid
  | pol_ErrPaymentReceiptStatusNotificationMaxAttemptsInvalid
  | pol_ErrPaymentReceiptStatusNotificationNowRequired
  | pol_ErrPaymentReceiptStatusNotificationFailureReasonRequired
  | pol_ErrPaymentReceiptStatusNotificationRetryDelayInvalid

text \<open>\<open>src/internal/application/ports/inbound/errors.go, the business errors\<close>\<close>

datatype inport_business_error =
    in_ErrChainNotSupported
  | in_ErrInvalidAddressPolicyID
  | in_ErrAddressPolicyNotFound
  | in_ErrAddressPolicyNotEnabled
  | in_ErrAddressPoolExhausted
  | in_ErrInvalidExpectedAmount
  | in_ErrIdempotencyKeyConflict
  | in_ErrPaymentAddressNotFound
  | in_ErrDependencyFailure
  | in_ErrInternalFailure

text \<open>\<open>src/internal/application/ports/inbound/errors.go, the configuration errors\<close>\<close>

datatype inport_config_error =
    in_ErrUnitOfWorkNotConfigured
  | in_ErrIssuedPaymentAddressDeriverNotConfigured
  | in_ErrAddressPolicyReaderNotConfigured
  | in_ErrClockNotConfigured
  | in_ErrPaymentAddressStatusFinderNotConfigured
  | in_ErrBlockchainReceiptObserverNotConfigured
  | in_ErrPaymentReceiptStatusNotifierNotConfigured
  | in_ErrPaymentAddressAllocationStoreNotConfigured
  | in_ErrPaymentAddressIdempotencyStoreNotConfigured
  | in_ErrPaymentReceiptTrackingStoreNotConfigured
  | in_ErrPaymentReceiptStatusOutboxNotConfigured

text \<open>\<open>src/internal/application/ports/inbound/errors.go, the validation and consistency errors\<close>\<close>

datatype inport_consistency_error =
    in_ErrBatchSizeMustBeGreaterThanZero
  | in_ErrMaxAttemptsMustBeGreaterThanZero
  | in_ErrRetryDelayMustBeGreaterThanZero
  | in_ErrPollChainRequiredWhenPollNetworkSet
  | in_ErrPaymentAddressPolicyNotConfigured
  | in_ErrPaymentAddressIDMustBeGreaterThanZero
  | in_ErrPaymentAddressIdempotencyRecordIncomplete
  | in_ErrCompletedIdempotencyRecordMissingIssuedAllocation
  | in_ErrIdempotencyClaimConflictWithoutCompletedRecord
  | in_ErrPaymentAddressAllocationReservationAttemptInvalid
  | in_ErrPaymentAddressAllocationReservationAttemptsRequired

text \<open>\<open>src/internal/application/ports/outbound/payment_address_allocation_store.go\<close>\<close>

datatype allocation_store_error =
    out_ErrAddressIndexExhausted
  | out_ErrPaymentAddressAllocationStoreFailed
  | out_ErrPaymentAddressAllocationNotReserved
  | out_ErrPaymentAddressAllocationPersistedAddressPolicyIDInvalid
  | out_ErrPaymentAddressAllocationPersistedChainInvalid
  | out_ErrPaymentAddressAllocationPersistedNetworkInvalid
  | out_ErrPaymentAddressAllocationPersistedAssetReferenceInvalid
  | out_ErrPaymentAddressAllocationIssuedAtRequired

text \<open>\<open>src/internal/application/ports/outbound/payment_address_idempotency_store.go\<close>\<close>

datatype idempotency_store_error =
    out_ErrPaymentAddressIdempotencyStoreFailed
  | out_ErrPaymentAddressIdempotencyPersistedAddressPolicyIDInvalid
  | out_ErrPaymentAddressIdempotencyKeyExists
  | out_ErrPaymentAddressIdempotencyPersistedChainInvalid
  | out_ErrPaymentAddressIdempotencyChainRequired
  | out_ErrPaymentAddressIdempotencyKeyRequired
  | out_ErrPaymentAddressIdempotencyAddressPolicyIDRequired
  | out_ErrPaymentAddressIdempotencyExpectedAmountInvalid
  | out_ErrPaymentAddressIdempotencyPaymentAddressIDInvalid
  | out_ErrPaymentAddressIdempotencyClaimNotFound

text \<open>\<open>src/internal/application/ports/outbound/payment_receipt_tracking_store.go\<close>\<close>

datatype tracking_store_error =
    out_ErrPaymentReceiptTrackingStoreFailed
  | out_ErrPaymentReceiptTrackingNextPollAtRequired
  | out_ErrPaymentReceiptTrackingAlreadyExists
  | out_ErrPaymentReceiptTrackingClaimNowRequired
  | out_ErrPaymentReceiptTrackingClaimUntilRequired
  | out_ErrPaymentReceiptTrackingClaimLimitInvalid
  | out_ErrPaymentReceiptTrackingClaimStatusesRequired
  | out_ErrPaymentReceiptTrackingClaimStatusRequired
  | out_ErrPaymentReceiptTrackingPolledAtRequired
  | out_ErrPaymentReceiptTrackingNotFound
  | out_ErrPaymentReceiptTrackingPersistedAddressPolicyIDInvalid
  | out_ErrPaymentReceiptTrackingPersistedChainInvalid
  | out_ErrPaymentReceiptTrackingPersistedNetworkInvalid
  | out_ErrPaymentReceiptTrackingPersistedAssetReferenceInvalid
  | out_ErrPaymentReceiptTrackingPersistedStatusInvalid

text \<open>\<open>src/internal/application/ports/outbound/payment_receipt_status_notification_outbox.go\<close>\<close>

datatype outbox_error =
    out_ErrPaymentReceiptStatusNotificationOutboxFailed
  | out_ErrPaymentReceiptStatusNotificationClaimNowRequired
  | out_ErrPaymentReceiptStatusNotificationClaimUntilRequired
  | out_ErrPaymentReceiptStatusNotificationClaimLimitInvalid
  | out_ErrPaymentReceiptStatusNotificationDeliveredAtRequired
  | out_ErrPaymentReceiptStatusNotificationNextAttemptRequired
  | out_ErrPaymentReceiptStatusNotificationDeliveryStatusInvalid
  | out_ErrPaymentReceiptStatusNotificationNotFound
  | out_ErrPaymentReceiptStatusNotificationPersistedAddressPolicyIDInvalid
  | out_ErrPaymentReceiptStatusNotificationPersistedPreviousStatusInvalid
  | out_ErrPaymentReceiptStatusNotificationPersistedCurrentStatusInvalid
  | out_ErrPaymentReceiptStatusNotificationPersistedDeliveryStatusInvalid

text \<open>\<open>src/internal/application/ports/outbound/payment_address_status_finder.go\<close>\<close>

datatype status_finder_error =
    out_ErrPaymentAddressStatusFindFailed
  | out_ErrPaymentAddressStatusIncomplete
  | out_ErrPaymentAddressStatusPersistedAddressPolicyIDInvalid
  | out_ErrPaymentAddressStatusPersistedChainInvalid
  | out_ErrPaymentAddressStatusPersistedNetworkInvalid
  | out_ErrPaymentAddressStatusPersistedReceiptStatusInvalid

text \<open>\<open>src/internal/application/ports/outbound/unit_of_work.go\<close>\<close>

datatype unit_of_work_error =
    out_ErrUnitOfWorkNotConfigured
  | out_ErrUnitOfWorkFailed

text \<open>\<open>src/internal/application/ports/outbound/blockchain_receipt_observer.go\<close>\<close>

datatype receipt_observer_error =
    out_ErrBlockchainReceiptObserverNotConfigured
  | out_ErrBlockchainReceiptObserverInputInvalid
  | out_ErrBlockchainReceiptObserverFailed

text \<open>\<open>src/internal/application/ports/outbound/chain_address_deriver.go\<close>\<close>

datatype chain_deriver_error =
    out_ErrChainAddressDeriverNotConfigured
  | out_ErrChainAddressDerivationInputInvalid
  | out_ErrChainAddressDerivationFailed

text \<open>\<open>src/internal/application/ports/outbound/issued_payment_address_deriver.go\<close>\<close>

datatype issued_deriver_error =
    out_ErrIssuedPaymentAddressDeriverNotConfigured
  | out_ErrIssuedPaymentAddressDerivationInputInvalid
  | out_ErrIssuedPaymentAddressDerivationFailed

text \<open>\<open>src/internal/application/ports/outbound/payment_receipt_status_notifier.go\<close>\<close>

datatype notifier_error =
    out_ErrPaymentReceiptStatusNotificationFailed

datatype go_error =
    VoErr valueobjects_error
  | EntErr entities_error
  | EvtErr events_error
  | PolErr policies_error
  | InBiz inport_business_error
  | InCfg inport_config_error
  | InVal inport_consistency_error
  | OutAlloc allocation_store_error
  | OutIdem idempotency_store_error
  | OutTrack tracking_store_error
  | OutOutbox outbox_error
  | OutFinder status_finder_error
  | OutUow unit_of_work_error
  | OutObserver receipt_observer_error
  | OutChainDeriver chain_deriver_error
  | OutIssuedDeriver issued_deriver_error
  | OutNotifier notifier_error
  | ErrPortRecordInvalid
  | ErrOther

end
