(* ===== verification/Go_Base.thy ===== *)
theory Go_Base
  imports Main "HOL-Library.Word" Go_Errors
begin

text \<open>
  The prelude: the Go types the program's values have, the functions of Go's standard
  library the program calls on them (\<open>strings.TrimSpace\<close>, \<open>strings.ToLower\<close>,
  \<open>time.Time\<close>), the lemma collections of the development, and the generic lemmas on
  strings, signed words and results the components share.
\<close>

named_theorems go_consts \<open>the string constants of the program\<close>
named_theorems go_steps \<open>defining equations of the operations that the proofs unfold\<close>

section \<open>Machine integers and time\<close>

type_synonym int64 = "64 word"
type_synonym int32 = "32 word"
type_synonym uint32 = "32 word"
type_synonym uint8 = "8 word"

text \<open>
  Signed machine integers are words: \<open>+\<close> and \<open>-\<close> wrap, comparisons of the source are
  written on the signed reading \<open>sint\<close>. A \<open>time.Time\<close> is its instant, as the number of
  nanoseconds since Go's zero time (year 1), so that the zero \<open>Time\<close> is 0;
  \<open>UTC()\<close> keeps the instant and only changes how it prints. A \<open>time.Duration\<close>
  is an \<open>int64\<close> of nanoseconds.
\<close>

type_synonym gotime = int
type_synonym duration = int64

definition time_is_zero :: "gotime \<Rightarrow> bool" where
  "time_is_zero t \<longleftrightarrow> t = 0"

definition time_add :: "gotime \<Rightarrow> duration \<Rightarrow> gotime" where
  "time_add t d = t + sint d"

definition time_after :: "gotime \<Rightarrow> gotime \<Rightarrow> bool" where
  "time_after t u \<longleftrightarrow> u < t"

definition unix_epoch_seconds :: int where
  "unix_epoch_seconds = 62135596800"

definition time_unix :: "gotime \<Rightarrow> int64" where
  "time_unix t = word_of_int (t div 1000000000 - unix_epoch_seconds)"

lemma sint64_bounds: "- (2 ^ 63) \<le> sint (x :: int64)" "sint (x :: int64) < 2 ^ 63"
  using sint_ge [of x] sint_lt [of x] by simp_all

lemma sint32_bounds: "- (2 ^ 31) \<le> sint (x :: int32)" "sint (x :: int32) < 2 ^ 31"
  using sint_ge [of x] sint_lt [of x] by simp_all

lemma sint64_add:
  assumes "- (2 ^ 63) \<le> sint x + sint y" and "sint x + sint y < 2 ^ 63"
  shows "sint (x + y :: int64) = sint x + sint y"
proof -
  have "sint (x + y) = signed_take_bit 63 (sint x + sint y)"
    by (simp add: signed_take_bit_add sint_word_ariths)
  then show ?thesis
    using assms by (simp add: signed_take_bit_int_eq_self)
qed

lemma sint64_diff:
  assumes "- (2 ^ 63) \<le> sint x - sint y" and "sint x - sint y < 2 ^ 63"
  shows "sint (x - y :: int64) = sint x - sint y"
proof -
  have "sint (x - y) = signed_take_bit 63 (sint x - sint y)"
    by (simp add: sint_word_ariths)
  then show ?thesis
    using assms by (simp add: signed_take_bit_int_eq_self)
qed

text \<open>
  The sum of two non-negative \<open>int64\<close> either is exact or wraps to a negative number.
\<close>

lemma sint64_add_nonneg:
  assumes "0 \<le> sint x" and "0 \<le> sint (y :: int64)"
  shows "sint (x + y) = sint x + sint y \<or> sint (x + y) < 0"
proof (cases "sint x + sint y < 2 ^ 63")
  case True
  then show ?thesis using assms sint64_add [of x y] by simp
next
  case False
  have "sint (x + y) = signed_take_bit 63 (sint x + sint y)"
    by (simp add: sint_word_ariths)
  moreover have "signed_take_bit 63 (sint x + sint y - 2 ^ 64) = sint x + sint y - 2 ^ 64"
    using False assms sint64_bounds [of x] sint64_bounds [of y]
    by (intro signed_take_bit_int_eq_self) simp_all
  moreover have "signed_take_bit 63 (sint x + sint y) = signed_take_bit 63 (sint x + sint y - 2 ^ 64)"
    by (simp add: signed_take_bit_eq_iff_take_bit_eq take_bit_eq_mod mod_diff_right_eq [symmetric])
  ultimately show ?thesis
    using sint64_bounds [of x] sint64_bounds [of y] by simp
qed

lemma sint32_succ:
  assumes "sint (x :: int32) < 2 ^ 31 - 1"
  shows "sint (x + 1) = sint x + 1"
proof -
  have "sint (x + 1) = signed_take_bit 31 (sint x + 1)"
    by (simp add: sint_word_ariths)
  then show ?thesis
    using assms sint32_bounds [of x] by (simp add: signed_take_bit_int_eq_self)
qed

section \<open>Strings\<close>

text \<open>
  A Go string is its bytes. \<open>strings.TrimSpace\<close> removes the code points of Unicode's
  White_Space property from both ends; \<open>go_spaces\<close> lists their UTF-8 encodings.
  \<open>strings.ToLower\<close> is modelled on the code points whose lower case is ASCII: the
  letters A to Z, U+0130 (bytes C4 B0, to i) and U+212A (bytes E2 84 AA, to k). The other
  code points beyond ASCII are left as they are: every identifier and every table key
  the program compares a lowered string with is ASCII, so they decide nothing there.
\<close>

definition go_spaces :: "string list" where
  "go_spaces =
     [[CHR 0x09], [CHR 0x0A], [CHR 0x0B], [CHR 0x0C], [CHR 0x0D], [CHR 0x20],
      [CHR 0xC2, CHR 0x85], [CHR 0xC2, CHR 0xA0], [CHR 0xE1, CHR 0x9A, CHR 0x80],
      [CHR 0xE2, CHR 0x80, CHR 0x80], [CHR 0xE2, CHR 0x80, CHR 0x81],
      [CHR 0xE2, CHR 0x80, CHR 0x82], [CHR 0xE2, CHR 0x80, CHR 0x83],
      [CHR 0xE2, CHR 0x80, CHR 0x84], [CHR 0xE2, CHR 0x80, CHR 0x85],
      [CHR 0xE2, CHR 0x80, CHR 0x86], [CHR 0xE2, CHR 0x80, CHR 0x87],
      [CHR 0xE2, CHR 0x80, CHR 0x88], [CHR 0xE2, CHR 0x80, CHR 0x89],
      [CHR 0xE2, CHR 0x80, CHR 0x8A], [CHR 0xE2, CHR 0x80, CHR 0xA8],
      [CHR 0xE2, CHR 0x80, CHR 0xA9], [CHR 0xE2, CHR 0x80, CHR 0xAF],
      [CHR 0xE2, CHR 0x81, CHR 0x9F], [CHR 0xE3, CHR 0x80, CHR 0x80]]"

definition has_prefix :: "string \<Rightarrow> string \<Rightarrow> bool" where
  "has_prefix s p \<longleftrightarrow> take (length p) s = p"

definition has_suffix :: "string \<Rightarrow> string \<Rightarrow> bool" where
  "has_suffix s p \<longleftrightarrow> has_prefix (rev s) (rev p)"

definition trim_prefix :: "string \<Rightarrow> string \<Rightarrow> string" where
  "trim_prefix s p = (if has_prefix s p then drop (length p) s else s)"

definition trim_suffix :: "string \<Rightarrow> string \<Rightarrow> string" where
  "trim_suffix s p = (if has_suffix s p then take (length s - length p) s else s)"

fun space_width :: "string list \<Rightarrow> string \<Rightarrow> nat" where
  "space_width [] s = 0"
| "space_width (p # ps) s = (if has_prefix s p then length p else space_width ps s)"

function trim_left :: "string list \<Rightarrow> string \<Rightarrow> string" where
  "trim_left ps s =
     (if space_width ps s = 0 \<or> s = [] then s else trim_left ps (drop (space_width ps s) s))"
  by pat_completeness auto
termination
  by (relation "measure (\<lambda>(ps, s). length s)") auto

declare trim_left.simps [simp del]

definition trim_right :: "string list \<Rightarrow> string \<Rightarrow> string" where
  "trim_right ps s = rev (trim_left (map rev ps) (rev s))"

definition trim_space :: "string \<Rightarrow> string" where
  "trim_space s = trim_right go_spaces (trim_left go_spaces s)"

definition ascii_lower :: "char \<Rightarrow> char" where
  "ascii_lower c =
     (let n = (of_char c :: nat) in if 65 \<le> n \<and> n \<le> 90 then char_of (n + 32) else c)"

fun to_lower :: "string \<Rightarrow> string" where
  "to_lower [] = []"
| "to_lower (c # cs) =
     (if has_prefix (c # cs) [CHR 0xC4, CHR 0xB0] then CHR ''i'' # to_lower (drop 1 cs)
      else if has_prefix (c # cs) [CHR 0xE2, CHR 0x84, CHR 0xAA]
        then CHR ''k'' # to_lower (drop 2 cs)
      else ascii_lower c # to_lower cs)"

declare to_lower.simps(2) [simp del]

subsection \<open>Facts on trimming and lowering\<close>

lemma space_width_eq_0:
  "\<forall>p \<in> set ps. p \<noteq> [] \<Longrightarrow> space_width ps s = 0 \<longleftrightarrow> (\<forall>p \<in> set ps. \<not> has_prefix s p)"
  by (induction ps) auto

lemma space_width_head:
  assumes "\<forall>p \<in> set ps. p \<noteq> [] \<and> hd p \<noteq> c"
  shows "space_width ps (c # cs) = 0"
proof -
  have "\<not> has_prefix (c # cs) p" if "p \<in> set ps" for p
    using assms that by (cases p) (auto simp: has_prefix_def)
  then show ?thesis
    using assms by (simp add: space_width_eq_0)
qed

lemma trim_left_Nil [simp]: "trim_left ps [] = []"
  by (simp add: trim_left.simps)

lemma trim_left_stop: "space_width ps s = 0 \<Longrightarrow> trim_left ps s = s"
  by (simp add: trim_left.simps)

lemma trim_left_result: "trim_left ps s = [] \<or> space_width ps (trim_left ps s) = 0"
proof (induction ps s rule: trim_left.induct)
  case (1 ps s)
  then show ?case by (cases "s = []") (auto simp: trim_left.simps [of ps s])
qed

lemma trim_left_idem [simp]: "trim_left ps (trim_left ps s) = trim_left ps s"
  using trim_left_result [of ps s] by (auto simp: trim_left_stop)

lemma trim_left_suffix: "\<exists>k. trim_left ps s = drop k s"
proof (induction ps s rule: trim_left.induct)
  case (1 ps s)
  show ?case
  proof (cases "space_width ps s = 0 \<or> s = []")
    case True
    then show ?thesis by (auto simp: trim_left.simps [of ps s] intro: exI [of _ 0])
  next
    case False
    with 1 obtain k where "trim_left ps (drop (space_width ps s) s) = drop k (drop (space_width ps s) s)"
      by auto
    then show ?thesis using False
      by (auto simp: trim_left.simps [of ps s])
  qed
qed

lemma trim_right_prefix: "\<exists>k. trim_right ps s = take k s"
proof -
  obtain k where "trim_left (map rev ps) (rev s) = drop k (rev s)"
    using trim_left_suffix by blast
  then have "trim_right ps s = take (length s - k) s"
    by (simp add: trim_right_def rev_drop)
  then show ?thesis by blast
qed

lemma has_prefix_take: "has_prefix (take k s) p \<Longrightarrow> has_prefix s p"
  by (metis has_prefix_def length_take linear min.absorb2 take_all take_take)

lemma go_spaces_nonempty: "\<forall>p \<in> set go_spaces. p \<noteq> []"
  by (simp add: go_spaces_def)

lemma trim_left_trim_space [simp]: "trim_left go_spaces (trim_space s) = trim_space s"
proof -
  let ?u = "trim_left go_spaces s"
  obtain k where t: "trim_space s = take k ?u"
    using trim_right_prefix by (metis trim_space_def)
  have "?u = [] \<or> (\<forall>p \<in> set go_spaces. \<not> has_prefix ?u p)"
    using trim_left_result [of go_spaces s] by (simp add: space_width_eq_0 go_spaces_nonempty)
  then have "trim_space s = [] \<or> (\<forall>p \<in> set go_spaces. \<not> has_prefix (trim_space s) p)"
    unfolding t by (auto dest: has_prefix_take)
  then show ?thesis
    using go_spaces_nonempty by (auto simp: trim_left_stop space_width_eq_0)
qed

lemma trim_space_idem [simp]: "trim_space (trim_space s) = trim_space s"
proof -
  have "trim_right go_spaces (trim_space s) = trim_space s"
    by (simp add: trim_space_def trim_right_def)
  then show ?thesis
    by (metis trim_space_def trim_left_trim_space)
qed

lemma trim_space_Nil [simp]: "trim_space [] = []"
  by (simp add: trim_space_def trim_right_def)

text \<open>A string whose first and last byte are printable ASCII is trimmed already.\<close>

definition printable :: "char \<Rightarrow> bool" where
  "printable c \<longleftrightarrow> 33 \<le> (of_char c :: nat) \<and> (of_char c :: nat) \<le> 126"

lemma go_spaces_not_printable:
  "list_all (\<lambda>p. p \<noteq> [] \<and> \<not> printable (hd p) \<and> \<not> printable (last p)) go_spaces"
  by code_simp

lemma trim_space_printable:
  assumes "s \<noteq> []" and "printable (hd s)" and "printable (last s)"
  shows "trim_space s = s"
proof -
  have 1: "space_width go_spaces s = 0"
    using assms(1,2) go_spaces_not_printable
    by (cases s) (auto simp: list_all_iff intro!: space_width_head)
  have 2: "space_width (map rev go_spaces) (rev s) = 0"
    using assms(1,3) go_spaces_not_printable
    by (cases s rule: rev_cases) (auto simp: list_all_iff hd_rev intro!: space_width_head)
  show ?thesis
    using 1 2 by (simp add: trim_space_def trim_right_def trim_left_stop)
qed

definition plain_char :: "char \<Rightarrow> bool" where
  "plain_char c \<longleftrightarrow> printable c \<and> \<not> (65 \<le> (of_char c :: nat) \<and> (of_char c :: nat) \<le> 90)"

lemma trim_space_plain: "list_all printable s \<Longrightarrow> trim_space s = s"
  by (cases "s = []") (auto simp: list_all_iff intro!: trim_space_printable)

lemma to_lower_Nil [simp]: "to_lower [] = []"
  by simp

lemma to_lower_plain: "list_all plain_char s \<Longrightarrow> to_lower s = s"
  by (induction s)
    (auto simp: to_lower.simps(2) has_prefix_def ascii_lower_def Let_def plain_char_def printable_def)

lemma plain_printable: "list_all plain_char s \<Longrightarrow> list_all printable s"
  by (auto simp: list_all_iff plain_char_def)

section \<open>Decimal numbers\<close>

text \<open>
  \<open>strconv.FormatInt(x, 10)\<close> and \<open>strconv.ParseInt(s, 10, 64)\<close>. Parsing takes an
  optional sign and one or more decimal digits, and fails outside the range of \<open>int64\<close>.
\<close>

definition digit_char :: "nat \<Rightarrow> char" where
  "digit_char d = char_of (48 + d)"

definition char_digit :: "char \<Rightarrow> nat option" where
  "char_digit c =
     (let n = (of_char c :: nat) in if 48 \<le> n \<and> n \<le> 57 then Some (n - 48) else None)"

fun format_nat :: "nat \<Rightarrow> string" where
  "format_nat n =
     (if n < 10 then [digit_char n] else format_nat (n div 10) @ [digit_char (n mod 10)])"

declare format_nat.simps [simp del]

definition format_int :: "int64 \<Rightarrow> string" where
  "format_int x =
     (if sint x < 0 then CHR ''-'' # format_nat (nat (- sint x)) else format_nat (nat (sint x)))"

fun parse_digits :: "nat \<Rightarrow> string \<Rightarrow> nat option" where
  "parse_digits acc [] = Some acc"
| "parse_digits acc (c # cs) =
     (case char_digit c of None \<Rightarrow> None | Some d \<Rightarrow> parse_digits (10 * acc + d) cs)"

definition parse_int64 :: "string \<Rightarrow> int64 option" where
  "parse_int64 s =
     (let neg = (case s of c # _ \<Rightarrow> c = CHR ''-'' | [] \<Rightarrow> False);
          signed = (case s of c # _ \<Rightarrow> c = CHR ''-'' \<or> c = CHR ''+'' | [] \<Rightarrow> False);
          ds = (if signed then tl s else s)
      in if ds = [] then None
         else case parse_digits 0 ds of
             None \<Rightarrow> None
           | Some n \<Rightarrow>
               (let i = (if neg then - int n else int n)
                in if - (2 ^ 63) \<le> i \<and> i < 2 ^ 63 then Some (word_of_int i) else None))"

lemma char_digit_digit_char [simp]: "d < 10 \<Longrightarrow> char_digit (digit_char d) = Some d"
  by (simp add: char_digit_def digit_char_def Let_def)

lemma parse_digits_append:
  "parse_digits acc (xs @ ys) =
     (case parse_digits acc xs of None \<Rightarrow> None | Some n \<Rightarrow> parse_digits n ys)"
  by (induction acc xs rule: parse_digits.induct) (auto split: option.splits)

lemma parse_format_nat: "parse_digits 0 (format_nat n) = Some n"
proof (induction n rule: format_nat.induct)
  case (1 n)
  then show ?case
    by (cases "n < 10")
      (simp_all add: format_nat.simps [of n] parse_digits_append)
qed

lemma format_nat_not_Nil [simp]: "format_nat n \<noteq> []"
  by (subst format_nat.simps) simp

lemma format_nat_digits: "c \<in> set (format_nat n) \<Longrightarrow> 48 \<le> (of_char c :: nat) \<and> (of_char c :: nat) \<le> 57"
proof (induction n rule: format_nat.induct)
  case (1 n)
  have "48 \<le> (of_char (digit_char d) :: nat) \<and> (of_char (digit_char d) :: nat) \<le> 57" if "d < 10" for d
    using that by (simp add: digit_char_def)
  with 1 show ?case
    by (cases "n < 10") (auto simp: format_nat.simps [of n])
qed

lemma parse_format_int: "parse_int64 (format_int x) = Some x"
proof -
  have nosign: "hd (format_nat n) \<noteq> CHR ''-'' \<and> hd (format_nat n) \<noteq> CHR ''+''" for n
    using format_nat_digits [of "hd (format_nat n)" n] by auto
  have "parse_int64 (format_nat n) = Some (word_of_int (int n))" if "int n < 2 ^ 63" for n
  proof (cases "format_nat n")
    case (Cons a list)
    have "parse_digits 0 (a # list) = Some n"
      using parse_format_nat [of n] Cons by simp
    then show ?thesis
      using nosign [of n] that Cons by (simp add: parse_int64_def Let_def del: parse_digits.simps)
  qed simp
  moreover have "parse_int64 (CHR ''-'' # format_nat n) = Some (word_of_int (- int n))"
    if "int n \<le> 2 ^ 63" for n
    using that by (simp add: parse_int64_def Let_def parse_format_nat)
  ultimately show ?thesis
    using sint64_bounds [of x] by (simp add: format_int_def)
qed

section \<open>Results\<close>

text \<open>
  A function of type \<open>(T, error)\<close> returns \<open>go_error + 'a\<close>, one of type
  \<open>(T, bool, error)\<close> returns \<open>go_error + 'a option\<close>, and one of type \<open>error\<close>
  returns \<open>go_error + unit\<close>.
\<close>

type_synonym 'a result = "go_error + 'a"

definition err_is :: "'a result \<Rightarrow> go_error \<Rightarrow> bool" where
  "err_is r e \<longleftrightarrow> (case r of Inl e' \<Rightarrow> e' = e | Inr _ \<Rightarrow> False)"

fun is_ok :: "'a result \<Rightarrow> bool" where
  "is_ok (Inl _) = False"
| "is_ok (Inr _) = True"

end
