(* ===== verification/Value_Objects.thy ===== *)
theory Value_Objects
  imports Go_Base
begin

text \<open>
  The value objects of \<open>src/internal/domain/valueobjects\<close>: portable identifiers (chain,
  network, address policy), the closed vocabularies with their parse tables (address
  scheme, receipt status, failure reasons, issuance reference kind), the issuance
  configuration and the receipt observation. Each Go type \<open>type X string\<close> is a string
  here, each constant a named string, and each parse function returns \<open>Some\<close> exactly
  where the source returns \<open>true\<close>. The lemmas show that what a parser accepts is a
  fixed point of the parser, and what an accepted observation satisfies.
\<close>

section \<open>Portable identifiers\<close>

type_synonym ChainID = string
type_synonym NetworkID = string
type_synonym SupportedChain = string
type_synonym AddressPolicyID = string
type_synonym AddressScheme = string
type_synonym PaymentReceiptStatus = string

definition maxIDLength :: nat where
  "maxIDLength = 64"

definition portable_char :: "char \<Rightarrow> bool" where
  "portable_char c \<longleftrightarrow>
     (let n = (of_char c :: nat)
      in 97 \<le> n \<and> n \<le> 122 \<or> 48 \<le> n \<and> n \<le> 57 \<or> c = CHR ''_'' \<or> c = CHR ''-'')"

definition ParseChainID :: "string \<Rightarrow> ChainID option" where
  "ParseChainID raw =
     (let normalized = to_lower (trim_space raw)
      in if normalized = [] \<or> maxIDLength < length normalized then None
         else if list_all portable_char normalized then Some normalized else None)"

definition ParseNetworkID :: "string \<Rightarrow> NetworkID option" where
  "ParseNetworkID raw =
     (let normalized = to_lower (trim_space raw)
      in if normalized = [] \<or> maxIDLength < length normalized then None
         else if list_all portable_char normalized then Some normalized else None)"

definition parseAddressPolicyID :: "string \<Rightarrow> AddressPolicyID option" where
  "parseAddressPolicyID raw =
     (let normalized = to_lower (trim_space raw)
      in if normalized = [] \<or> maxIDLength < length normalized then None
         else if list_all portable_char normalized then Some normalized else None)"

definition NewAddressPolicyID :: "string \<Rightarrow> AddressPolicyID result" where
  "NewAddressPolicyID raw =
     (case parseAddressPolicyID raw of
        None \<Rightarrow> Inl (VoErr vo_ErrAddressPolicyIDInvalid)
      | Some normalized \<Rightarrow> Inr normalized)"

definition AddressPolicyID_Normalize :: "AddressPolicyID \<Rightarrow> AddressPolicyID" where
  "AddressPolicyID_Normalize pid =
     (case parseAddressPolicyID pid of None \<Rightarrow> [] | Some normalized \<Rightarrow> normalized)"

definition AddressPolicyID_IsZero :: "AddressPolicyID \<Rightarrow> bool" where
  "AddressPolicyID_IsZero pid \<longleftrightarrow> AddressPolicyID_Normalize pid = []"

section \<open>Chains and networks\<close>

definition ChainIDBitcoin :: ChainID where [go_consts]: "ChainIDBitcoin = ''bitcoin''"
definition ChainIDEthereum :: ChainID where [go_consts]: "ChainIDEthereum = ''ethereum''"
definition SupportedChainBitcoin :: SupportedChain where
  [go_consts]: "SupportedChainBitcoin = ''bitcoin''"
definition SupportedChainEthereum :: SupportedChain where
  [go_consts]: "SupportedChainEthereum = ''ethereum''"
definition NetworkIDMainnet :: NetworkID where [go_consts]: "NetworkIDMainnet = ''mainnet''"
definition NetworkIDTestnet4 :: NetworkID where [go_consts]: "NetworkIDTestnet4 = ''testnet4''"
definition NetworkIDSepolia :: NetworkID where [go_consts]: "NetworkIDSepolia = ''sepolia''"

definition ParseSupportedChain :: "string \<Rightarrow> SupportedChain option" where
  "ParseSupportedChain raw =
     (case ParseChainID raw of
        None \<Rightarrow> None
      | Some chainID \<Rightarrow>
          if chainID = ChainIDBitcoin then Some SupportedChainBitcoin
          else if chainID = ChainIDEthereum then Some SupportedChainEthereum
          else None)"

definition EthereumCreate2AddressPolicyID :: "NetworkID \<Rightarrow> AddressPolicyID" where
  "EthereumCreate2AddressPolicyID network =
     (case ParseNetworkID network of
        None \<Rightarrow> []
      | Some normalized \<Rightarrow>
          if normalized = NetworkIDMainnet then ''ethereum-mainnet-create2''
          else if normalized = NetworkIDSepolia then ''ethereum-sepolia-create2''
          else ''ethereum-'' @ normalized @ ''-create2'')"

definition EthereumUSDTCreate2AddressPolicyID :: "NetworkID \<Rightarrow> AddressPolicyID" where
  "EthereumUSDTCreate2AddressPolicyID network =
     (case ParseNetworkID network of
        None \<Rightarrow> []
      | Some normalized \<Rightarrow>
          if normalized = NetworkIDMainnet then ''ethereum-mainnet-usdt-create2''
          else if normalized = NetworkIDSepolia then ''ethereum-sepolia-usdt-create2''
          else ''ethereum-'' @ normalized @ ''-usdt-create2'')"

section \<open>Closed vocabularies\<close>

definition AddressSchemeLegacy :: AddressScheme where [go_consts]: "AddressSchemeLegacy = ''legacy''"
definition AddressSchemeSegwit :: AddressScheme where [go_consts]: "AddressSchemeSegwit = ''segwit''"
definition AddressSchemeNativeSegwit :: AddressScheme where
  [go_consts]: "AddressSchemeNativeSegwit = ''nativeSegwit''"
definition AddressSchemeTaproot :: AddressScheme where [go_consts]: "AddressSchemeTaproot = ''taproot''"
definition AddressSchemeCreate2 :: AddressScheme where [go_consts]: "AddressSchemeCreate2 = ''create2''"

definition addressSchemes :: "(string \<times> AddressScheme) list" where
  "addressSchemes =
     [(''legacy'', AddressSchemeLegacy), (''segwit'', AddressSchemeSegwit),
      (''nativesegwit'', AddressSchemeNativeSegwit), (''taproot'', AddressSchemeTaproot),
      (''create2'', AddressSchemeCreate2)]"

definition ParseAddressScheme :: "string \<Rightarrow> AddressScheme option" where
  "ParseAddressScheme raw = map_of addressSchemes (to_lower (trim_space raw))"

definition AddressScheme_Normalize :: "AddressScheme \<Rightarrow> AddressScheme" where
  "AddressScheme_Normalize s =
     (case ParseAddressScheme s of Some normalized \<Rightarrow> normalized | None \<Rightarrow> trim_space s)"

definition AddressScheme_IsZero :: "AddressScheme \<Rightarrow> bool" where
  "AddressScheme_IsZero s \<longleftrightarrow> trim_space s = []"

definition AddressScheme_IsCreate2 :: "AddressScheme \<Rightarrow> bool" where
  "AddressScheme_IsCreate2 s \<longleftrightarrow> AddressScheme_Normalize s = AddressSchemeCreate2"

definition PaymentReceiptStatusWatching :: PaymentReceiptStatus where
  [go_consts]: "PaymentReceiptStatusWatching = ''watching''"
definition PaymentReceiptStatusPartiallyPaid :: PaymentReceiptStatus where
  [go_consts]: "PaymentReceiptStatusPartiallyPaid = ''partially_paid''"
definition PaymentReceiptStatusPaidUnconfirmed :: PaymentReceiptStatus where
  [go_consts]: "PaymentReceiptStatusPaidUnconfirmed = ''paid_unconfirmed''"
definition PaymentReceiptStatusPaidUnconfirmedReverted :: PaymentReceiptStatus where
  [go_consts]: "PaymentReceiptStatusPaidUnconfirmedReverted = ''paid_unconfirmed_reverted''"
definition PaymentReceiptStatusPaidConfirmed :: PaymentReceiptStatus where
  [go_consts]: "PaymentReceiptStatusPaidConfirmed = ''paid_confirmed''"
definition PaymentReceiptStatusFailedExpired :: PaymentReceiptStatus where
  [go_consts]: "PaymentReceiptStatusFailedExpired = ''failed_expired''"

definition paymentReceiptStatuses :: "(string \<times> PaymentReceiptStatus) list" where
  "paymentReceiptStatuses =
     [(''watching'', PaymentReceiptStatusWatching),
      (''partially_paid'', PaymentReceiptStatusPartiallyPaid),
      (''paid_unconfirmed'', PaymentReceiptStatusPaidUnconfirmed),
      (''paid_unconfirmed_reverted'', PaymentReceiptStatusPaidUnconfirmedReverted),
      (''paid_confirmed'', PaymentReceiptStatusPaidConfirmed),
      (''failed_expired'', PaymentReceiptStatusFailedExpired)]"

definition ParsePaymentReceiptStatus :: "string \<Rightarrow> PaymentReceiptStatus option" where
  "ParsePaymentReceiptStatus raw = map_of paymentReceiptStatuses (to_lower (trim_space raw))"

type_synonym PaymentAddressAllocationStatus = string

definition PaymentAddressAllocationStatusReserved :: PaymentAddressAllocationStatus where
  [go_consts]: "PaymentAddressAllocationStatusReserved = ''reserved''"
definition PaymentAddressAllocationStatusIssued :: PaymentAddressAllocationStatus where
  [go_consts]: "PaymentAddressAllocationStatusIssued = ''issued''"
definition PaymentAddressAllocationStatusDerivationFailed :: PaymentAddressAllocationStatus where
  [go_consts]: "PaymentAddressAllocationStatusDerivationFailed = ''derivation_failed''"

type_synonym PaymentReceiptTrackingFailureReason = string

definition ReasonTrackingInvalid :: PaymentReceiptTrackingFailureReason where
  [go_consts]: "ReasonTrackingInvalid = ''tracking_invalid''"
definition ReasonLatestBlockHeightUnavailable :: PaymentReceiptTrackingFailureReason where
  [go_consts]: "ReasonLatestBlockHeightUnavailable = ''latest_block_height_unavailable''"
definition ReasonObservationFailed :: PaymentReceiptTrackingFailureReason where
  [go_consts]: "ReasonObservationFailed = ''observation_failed''"
definition ReasonTrackingUpdateFailed :: PaymentReceiptTrackingFailureReason where
  [go_consts]: "ReasonTrackingUpdateFailed = ''tracking_update_failed''"
definition ReasonPaymentWindowExpired :: PaymentReceiptTrackingFailureReason where
  [go_consts]: "ReasonPaymentWindowExpired = ''payment_window_expired''"
definition ReasonProcessingFailed :: PaymentReceiptTrackingFailureReason where
  [go_consts]: "ReasonProcessingFailed = ''processing_failed''"

definition paymentReceiptTrackingFailureReasons ::
  "(string \<times> PaymentReceiptTrackingFailureReason) list" where
  "paymentReceiptTrackingFailureReasons =
     [(''tracking_invalid'', ReasonTrackingInvalid),
      (''latest_block_height_unavailable'', ReasonLatestBlockHeightUnavailable),
      (''observation_failed'', ReasonObservationFailed),
      (''tracking_update_failed'', ReasonTrackingUpdateFailed),
      (''payment_window_expired'', ReasonPaymentWindowExpired),
      (''processing_failed'', ReasonProcessingFailed)]"

definition ParsePaymentReceiptTrackingFailureReason ::
  "string \<Rightarrow> PaymentReceiptTrackingFailureReason option" where
  "ParsePaymentReceiptTrackingFailureReason raw =
     (let normalized = to_lower (trim_space raw)
      in if normalized = [] then None else map_of paymentReceiptTrackingFailureReasons normalized)"

definition TrackingFailureReason_IsZero :: "PaymentReceiptTrackingFailureReason \<Rightarrow> bool" where
  "TrackingFailureReason_IsZero r \<longleftrightarrow> trim_space r = []"

definition TrackingFailureReason_Message :: "PaymentReceiptTrackingFailureReason \<Rightarrow> string" where
  "TrackingFailureReason_Message r =
     (if r = ReasonTrackingInvalid then ''receipt tracking is invalid''
      else if r = ReasonLatestBlockHeightUnavailable then ''latest block height unavailable''
      else if r = ReasonObservationFailed then ''receipt observation failed''
      else if r = ReasonTrackingUpdateFailed then ''receipt tracking update failed''
      else if r = ReasonPaymentWindowExpired then ''payment window expired''
      else if r = ReasonProcessingFailed then ''receipt processing failed''
      else [])"

type_synonym DerivationFailureReason = string

definition DerivationFailureReasonDerivationFailed :: DerivationFailureReason where
  [go_consts]: "DerivationFailureReasonDerivationFailed = ''derivation_failed''"

definition derivationFailureReasons :: "(string \<times> DerivationFailureReason) list" where
  "derivationFailureReasons = [(''derivation_failed'', DerivationFailureReasonDerivationFailed)]"

definition ParseDerivationFailureReason :: "string \<Rightarrow> DerivationFailureReason option" where
  "ParseDerivationFailureReason raw =
     (let normalized = to_lower (trim_space raw)
      in if normalized = [] then None else map_of derivationFailureReasons normalized)"

definition DerivationFailureReason_IsZero :: "DerivationFailureReason \<Rightarrow> bool" where
  "DerivationFailureReason_IsZero r \<longleftrightarrow> trim_space r = []"

definition DerivationFailureReason_Message :: "DerivationFailureReason \<Rightarrow> string" where
  "DerivationFailureReason_Message r =
     (if r = DerivationFailureReasonDerivationFailed then ''payment address derivation failed''
      else [])"

type_synonym IssuanceRefKind = string

definition IssuanceRefKindHDPathAbsolute :: IssuanceRefKind where
  [go_consts]: "IssuanceRefKindHDPathAbsolute = ''hd_path_absolute''"
definition IssuanceRefKindCreate2Salt :: IssuanceRefKind where
  [go_consts]: "IssuanceRefKindCreate2Salt = ''create2_salt''"

definition issuanceRefKinds :: "(string \<times> IssuanceRefKind) list" where
  "issuanceRefKinds =
     [(''hd_path_absolute'', IssuanceRefKindHDPathAbsolute),
      (''create2_salt'', IssuanceRefKindCreate2Salt)]"

definition ParseIssuanceRefKind :: "string \<Rightarrow> IssuanceRefKind option" where
  "ParseIssuanceRefKind raw =
     (let normalized = to_lower (trim_space raw)
      in if normalized = [] then None else map_of issuanceRefKinds normalized)"

definition IssuanceRefKind_IsZero :: "IssuanceRefKind \<Rightarrow> bool" where
  "IssuanceRefKind_IsZero k \<longleftrightarrow> trim_space k = []"

section \<open>Issuance configuration\<close>

record AddressIssuanceConfig =
  cfg_AddressSpaceRef :: string
  cfg_IssuanceRefPrefix :: string

definition normalizeIssuanceRefPrefix :: "string \<Rightarrow> string" where
  "normalizeIssuanceRefPrefix raw = trim_suffix (trim_space raw) ''/''"

definition AddressIssuanceConfig_Normalize :: "AddressIssuanceConfig \<Rightarrow> AddressIssuanceConfig" where
  "AddressIssuanceConfig_Normalize c =
     c\<lparr>cfg_AddressSpaceRef := trim_space (cfg_AddressSpaceRef c),
       cfg_IssuanceRefPrefix := normalizeIssuanceRefPrefix (cfg_IssuanceRefPrefix c)\<rparr>"

section \<open>Receipt observations\<close>

record PaymentReceiptObservation =
  obs_ObservedTotalMinor :: int64
  obs_ConfirmedTotalMinor :: int64
  obs_UnconfirmedTotalMinor :: int64
  obs_LatestBlockHeight :: int64

definition PaymentReceiptObservation_Validate :: "PaymentReceiptObservation \<Rightarrow> unit result" where
  "PaymentReceiptObservation_Validate ob =
     (if sint (obs_ObservedTotalMinor ob) < 0
        then Inl (VoErr vo_ErrPaymentReceiptObservationObservedTotalMinorInvalid)
      else if sint (obs_ConfirmedTotalMinor ob) < 0
        then Inl (VoErr vo_ErrPaymentReceiptObservationConfirmedTotalMinorInvalid)
      else if sint (obs_UnconfirmedTotalMinor ob) < 0
        then Inl (VoErr vo_ErrPaymentReceiptObservationUnconfirmedTotalMinorInvalid)
      else if sint (obs_LatestBlockHeight ob) < 0
        then Inl (VoErr vo_ErrPaymentReceiptObservationLatestBlockHeightInvalid)
      else if obs_ConfirmedTotalMinor ob + obs_UnconfirmedTotalMinor ob \<noteq> obs_ObservedTotalMinor ob
        then Inl (VoErr vo_ErrPaymentReceiptObservationTotalMismatch)
      else if sint (obs_ConfirmedTotalMinor ob) > sint (obs_ObservedTotalMinor ob)
        then Inl (VoErr vo_ErrPaymentReceiptObservationConfirmedExceedsObserved)
      else if sint (obs_UnconfirmedTotalMinor ob) > sint (obs_ObservedTotalMinor ob)
        then Inl (VoErr vo_ErrPaymentReceiptObservationUnconfirmedExceedsObserved)
      else Inr ())"

section \<open>Lemmas\<close>

definition portable_id :: "string \<Rightarrow> bool" where
  "portable_id s \<longleftrightarrow> s \<noteq> [] \<and> length s \<le> maxIDLength \<and> list_all portable_char s"

lemma portable_plain: "portable_char c \<Longrightarrow> plain_char c"
  by (auto simp: portable_char_def plain_char_def printable_def Let_def)

lemma portable_id_normal:
  assumes "portable_id s"
  shows "trim_space s = s" and "to_lower s = s"
proof -
  have p: "list_all plain_char s"
    using assms portable_plain by (auto simp: portable_id_def list_all_iff)
  show "trim_space s = s" by (rule trim_space_plain [OF plain_printable [OF p]])
  show "to_lower s = s" by (rule to_lower_plain [OF p])
qed

text \<open>The three identifier parsers are the same function.\<close>

lemma parse_id_eq [simp]:
  "ParseNetworkID = ParseChainID" "parseAddressPolicyID = ParseChainID"
  by (simp_all add: fun_eq_iff ParseNetworkID_def ParseChainID_def parseAddressPolicyID_def)

lemma ParseChainID_portable: "ParseChainID raw = Some v \<Longrightarrow> portable_id v"
  by (auto simp: ParseChainID_def Let_def portable_id_def split: if_splits)

lemma ParseChainID_of_portable: "portable_id v \<Longrightarrow> ParseChainID v = Some v"
  using portable_id_normal [of v] by (auto simp: ParseChainID_def Let_def portable_id_def)

lemma ParseChainID_iff_portable: "ParseChainID v = Some v \<longleftrightarrow> portable_id v"
  using ParseChainID_portable ParseChainID_of_portable by blast

lemma ParseChainID_idem: "ParseChainID raw = Some v \<Longrightarrow> ParseChainID v = Some v"
  by (simp add: ParseChainID_portable ParseChainID_of_portable)

lemma ParseChainID_not_Nil [simp]: "ParseChainID raw \<noteq> Some []"
  using ParseChainID_portable [of raw "[]"] by (auto simp: portable_id_def)

lemma ParseChainID_Nil [simp]: "ParseChainID [] = None"
  by (simp add: ParseChainID_def)

lemma ParseSupportedChain_cases:
  "ParseSupportedChain raw = Some c \<Longrightarrow> c = SupportedChainBitcoin \<or> c = SupportedChainEthereum"
  by (auto simp: ParseSupportedChain_def split: option.splits if_splits)

lemma supported_chain_portable [simp]:
  "portable_id SupportedChainBitcoin" "portable_id SupportedChainEthereum"
  by (simp_all add: portable_id_def portable_char_def maxIDLength_def go_consts Let_def)

lemma supported_chain_eq: "ChainIDBitcoin = SupportedChainBitcoin" "ChainIDEthereum = SupportedChainEthereum"
  by (simp_all add: go_consts)

lemma supported_chain_distinct [simp]:
  "SupportedChainBitcoin \<noteq> SupportedChainEthereum" "SupportedChainEthereum \<noteq> SupportedChainBitcoin"
  by (simp_all add: go_consts)

lemma ParseSupportedChain_self [simp]:
  "ParseSupportedChain SupportedChainBitcoin = Some SupportedChainBitcoin"
  "ParseSupportedChain SupportedChainEthereum = Some SupportedChainEthereum"
  by (simp_all add: ParseSupportedChain_def ParseChainID_of_portable supported_chain_eq)

lemma ParseSupportedChain_idem: "ParseSupportedChain raw = Some c \<Longrightarrow> ParseSupportedChain c = Some c"
  by (drule ParseSupportedChain_cases) auto

lemma ParseSupportedChain_portable: "ParseSupportedChain raw = Some c \<Longrightarrow> portable_id c"
  by (auto dest!: ParseSupportedChain_cases)

lemma ParseSupportedChain_ParseChainID:
  "ParseSupportedChain raw = Some c \<Longrightarrow> ParseChainID raw = Some c"
  by (auto simp: ParseSupportedChain_def supported_chain_eq split: option.splits if_splits)

lemma AddressPolicyID_Normalize_idem [simp]:
  "AddressPolicyID_Normalize (AddressPolicyID_Normalize p) = AddressPolicyID_Normalize p"
  by (auto simp: AddressPolicyID_Normalize_def ParseChainID_idem split: option.splits)

lemma AddressPolicyID_Normalize_portable:
  "portable_id p \<Longrightarrow> AddressPolicyID_Normalize p = p"
  by (simp add: AddressPolicyID_Normalize_def ParseChainID_of_portable)

lemma AddressPolicyID_not_zero:
  "\<not> AddressPolicyID_IsZero p \<longleftrightarrow> portable_id (AddressPolicyID_Normalize p)"
  by (auto simp: AddressPolicyID_IsZero_def AddressPolicyID_Normalize_def portable_id_def
      dest: ParseChainID_portable split: option.splits)

lemma NewAddressPolicyID_Inr:
  "NewAddressPolicyID raw = Inr v \<longleftrightarrow> ParseChainID raw = Some v"
  by (auto simp: NewAddressPolicyID_def split: option.splits)

text \<open>
  The vocabularies are fixed points too: a scheme, status or reason that was parsed
  parses to itself.
\<close>

lemma ParseAddressScheme_cases:
  "ParseAddressScheme raw = Some v \<Longrightarrow>
     v \<in> {AddressSchemeLegacy, AddressSchemeSegwit, AddressSchemeNativeSegwit,
          AddressSchemeTaproot, AddressSchemeCreate2}"
  by (auto simp: ParseAddressScheme_def addressSchemes_def split: if_splits)

lemma ParseAddressScheme_self:
  "ParseAddressScheme AddressSchemeLegacy = Some AddressSchemeLegacy"
  "ParseAddressScheme AddressSchemeSegwit = Some AddressSchemeSegwit"
  "ParseAddressScheme AddressSchemeNativeSegwit = Some AddressSchemeNativeSegwit"
  "ParseAddressScheme AddressSchemeTaproot = Some AddressSchemeTaproot"
  "ParseAddressScheme AddressSchemeCreate2 = Some AddressSchemeCreate2"
  by code_simp+

lemma ParseAddressScheme_idem: "ParseAddressScheme raw = Some v \<Longrightarrow> ParseAddressScheme v = Some v"
  by (drule ParseAddressScheme_cases) (auto simp: ParseAddressScheme_self)

lemma AddressScheme_Normalize_idem [simp]:
  "AddressScheme_Normalize (AddressScheme_Normalize s) = AddressScheme_Normalize s"
proof (cases "ParseAddressScheme s")
  case None
  then have "ParseAddressScheme (trim_space s) = None"
    by (simp add: ParseAddressScheme_def)
  with None show ?thesis by (simp add: AddressScheme_Normalize_def)
next
  case (Some v)
  then show ?thesis by (simp add: AddressScheme_Normalize_def ParseAddressScheme_idem)
qed

lemma AddressScheme_Normalize_parsed:
  "ParseAddressScheme s = Some v \<Longrightarrow> AddressScheme_Normalize s = v"
  by (simp add: AddressScheme_Normalize_def)

definition receipt_statuses :: "PaymentReceiptStatus list" where
  "receipt_statuses = map snd paymentReceiptStatuses"

lemma receipt_status_self: "list_all (\<lambda>s. ParsePaymentReceiptStatus s = Some s) receipt_statuses"
  by code_simp

lemma ParsePaymentReceiptStatus_mem:
  "ParsePaymentReceiptStatus raw = Some v \<Longrightarrow> v \<in> set receipt_statuses"
  by (auto simp: ParsePaymentReceiptStatus_def receipt_statuses_def dest!: map_of_SomeD intro: rev_image_eqI)

lemma ParsePaymentReceiptStatus_of_mem:
  "v \<in> set receipt_statuses \<Longrightarrow> ParsePaymentReceiptStatus v = Some v"
  using receipt_status_self by (simp add: list_all_iff)

lemma receipt_statuses_set:
  "set receipt_statuses =
     {PaymentReceiptStatusWatching, PaymentReceiptStatusPartiallyPaid,
      PaymentReceiptStatusPaidUnconfirmed, PaymentReceiptStatusPaidUnconfirmedReverted,
      PaymentReceiptStatusPaidConfirmed, PaymentReceiptStatusFailedExpired}"
  by (simp add: receipt_statuses_def paymentReceiptStatuses_def)

lemma receipt_statuses_distinct: "distinct ([] # receipt_statuses)"
  by code_simp

lemma receipt_status_neq [simp]:
  "PaymentReceiptStatusWatching \<noteq> PaymentReceiptStatusPartiallyPaid"
  "PaymentReceiptStatusWatching \<noteq> PaymentReceiptStatusPaidUnconfirmed"
  "PaymentReceiptStatusWatching \<noteq> PaymentReceiptStatusPaidUnconfirmedReverted"
  "PaymentReceiptStatusWatching \<noteq> PaymentReceiptStatusPaidConfirmed"
  "PaymentReceiptStatusWatching \<noteq> PaymentReceiptStatusFailedExpired"
  "PaymentReceiptStatusPartiallyPaid \<noteq> PaymentReceiptStatusPaidUnconfirmed"
  "PaymentReceiptStatusPartiallyPaid \<noteq> PaymentReceiptStatusPaidUnconfirmedReverted"
  "PaymentReceiptStatusPartiallyPaid \<noteq> PaymentReceiptStatusPaidConfirmed"
  "PaymentReceiptStatusPartiallyPaid \<noteq> PaymentReceiptStatusFailedExpired"
  "PaymentReceiptStatusPaidUnconfirmed \<noteq> PaymentReceiptStatusPaidUnconfirmedReverted"
  "PaymentReceiptStatusPaidUnconfirmed \<noteq> PaymentReceiptStatusPaidConfirmed"
  "PaymentReceiptStatusPaidUnconfirmed \<noteq> PaymentReceiptStatusFailedExpired"
  "PaymentReceiptStatusPaidUnconfirmedReverted \<noteq> PaymentReceiptStatusPaidConfirmed"
  "PaymentReceiptStatusPaidUnconfirmedReverted \<noteq> PaymentReceiptStatusFailedExpired"
  "PaymentReceiptStatusPaidConfirmed \<noteq> PaymentReceiptStatusFailedExpired"
  by (simp_all add: go_consts)

lemmas receipt_status_neq_sym [simp] = receipt_status_neq [symmetric]

definition tracking_failure_reasons :: "PaymentReceiptTrackingFailureReason list" where
  "tracking_failure_reasons = map snd paymentReceiptTrackingFailureReasons"

lemma tracking_reason_self:
  "list_all (\<lambda>r. ParsePaymentReceiptTrackingFailureReason r = Some r \<and> \<not> TrackingFailureReason_IsZero r)
     tracking_failure_reasons"
  by code_simp

lemma ParseTrackingFailureReason_mem:
  "ParsePaymentReceiptTrackingFailureReason raw = Some v \<Longrightarrow> v \<in> set tracking_failure_reasons"
  by (auto simp: ParsePaymentReceiptTrackingFailureReason_def tracking_failure_reasons_def Let_def
      split: if_splits dest!: map_of_SomeD intro: rev_image_eqI)

lemma tracking_reasons_not_zero [simp]:
  "\<not> TrackingFailureReason_IsZero ReasonTrackingInvalid"
  "\<not> TrackingFailureReason_IsZero ReasonLatestBlockHeightUnavailable"
  "\<not> TrackingFailureReason_IsZero ReasonObservationFailed"
  "\<not> TrackingFailureReason_IsZero ReasonTrackingUpdateFailed"
  "\<not> TrackingFailureReason_IsZero ReasonPaymentWindowExpired"
  "\<not> TrackingFailureReason_IsZero ReasonProcessingFailed"
  using tracking_reason_self
  by (simp_all add: tracking_failure_reasons_def paymentReceiptTrackingFailureReasons_def)

lemma derivation_reason_not_zero [simp]:
  "\<not> DerivationFailureReason_IsZero DerivationFailureReasonDerivationFailed"
  by code_simp

text \<open>
  An accepted observation has non-negative totals that add up as integers: the wrap-around
  of the sum cannot hide an inconsistent observation, because a wrapped sum is negative.
\<close>

definition observation_valid :: "PaymentReceiptObservation \<Rightarrow> bool" where
  "observation_valid ob \<longleftrightarrow>
     0 \<le> sint (obs_ObservedTotalMinor ob) \<and> 0 \<le> sint (obs_ConfirmedTotalMinor ob) \<and>
     0 \<le> sint (obs_UnconfirmedTotalMinor ob) \<and> 0 \<le> sint (obs_LatestBlockHeight ob) \<and>
     sint (obs_ConfirmedTotalMinor ob) + sint (obs_UnconfirmedTotalMinor ob) =
       sint (obs_ObservedTotalMinor ob)"

lemma Validate_Inr_iff: "PaymentReceiptObservation_Validate ob = Inr () \<longleftrightarrow> observation_valid ob"
proof
  assume v: "PaymentReceiptObservation_Validate ob = Inr ()"
  then have nn: "0 \<le> sint (obs_ConfirmedTotalMinor ob)" "0 \<le> sint (obs_UnconfirmedTotalMinor ob)"
      "0 \<le> sint (obs_ObservedTotalMinor ob)" "0 \<le> sint (obs_LatestBlockHeight ob)"
    and eq: "obs_ConfirmedTotalMinor ob + obs_UnconfirmedTotalMinor ob = obs_ObservedTotalMinor ob"
    by (auto simp: PaymentReceiptObservation_Validate_def split: if_splits)
  from sint64_add_nonneg [OF nn(1,2)] nn(3) eq nn show "observation_valid ob"
    by (auto simp: observation_valid_def)
next
  assume v: "observation_valid ob"
  then have "sint (obs_ConfirmedTotalMinor ob + obs_UnconfirmedTotalMinor ob) =
      sint (obs_ObservedTotalMinor ob)"
    using sint64_bounds [of "obs_ObservedTotalMinor ob"]
    by (subst sint64_add) (auto simp: observation_valid_def)
  then have "obs_ConfirmedTotalMinor ob + obs_UnconfirmedTotalMinor ob = obs_ObservedTotalMinor ob"
    by (rule signed_word_eqI)
  with v show "PaymentReceiptObservation_Validate ob = Inr ()"
    by (auto simp: PaymentReceiptObservation_Validate_def observation_valid_def)
qed

end
