(* ===== verification/Entities.thy ===== *)
theory Entities
  imports Value_Objects
begin

text \<open>
  The entities of \<open>src/internal/domain/entities\<close> and the event of
  \<open>src/internal/domain/events\<close>: the payment address allocation with its transitions
  reserved, issued, derivation failed, and the payment receipt tracking with its
  observation, failure and expiry transitions. A \<open>*time.Time\<close> is an option. The lemmas
  show the functional behaviour of every constructor and transition, the well-formedness
  invariant of a tracking, and what each transition does to the status.
\<close>

section \<open>The status changed event\<close>

record PaymentReceiptStatusChanged =
  evt_PaymentAddressID :: int64
  evt_PreviousStatus :: PaymentReceiptStatus
  evt_CurrentStatus :: PaymentReceiptStatus
  evt_ObservedTotalMinor :: int64
  evt_ConfirmedTotalMinor :: int64
  evt_UnconfirmedTotalMinor :: int64
  evt_StatusChangedAt :: gotime

definition NewPaymentReceiptStatusChanged ::
  "int64 \<Rightarrow> PaymentReceiptStatus \<Rightarrow> PaymentReceiptStatus \<Rightarrow> int64 \<Rightarrow> int64 \<Rightarrow> int64 \<Rightarrow> gotime
     \<Rightarrow> PaymentReceiptStatusChanged result" where
  "NewPaymentReceiptStatusChanged paymentAddressID previousStatus currentStatus
       observedTotalMinor confirmedTotalMinor unconfirmedTotalMinor statusChangedAt =
     (if sint paymentAddressID \<le> 0
        then Inl (EvtErr evt_ErrPaymentReceiptStatusChangedPaymentAddressIDInvalid)
      else if previousStatus = []
        then Inl (EvtErr evt_ErrPaymentReceiptStatusChangedPreviousStatusRequired)
      else if currentStatus = []
        then Inl (EvtErr evt_ErrPaymentReceiptStatusChangedCurrentStatusRequired)
      else if previousStatus = currentStatus
        then Inl (EvtErr evt_ErrPaymentReceiptStatusChangedStatusChangeRequired)
      else if sint observedTotalMinor < 0
        then Inl (EvtErr evt_ErrPaymentReceiptStatusChangedObservedTotalMinorInvalid)
      else if sint confirmedTotalMinor < 0
        then Inl (EvtErr evt_ErrPaymentReceiptStatusChangedConfirmedTotalMinorInvalid)
      else if sint unconfirmedTotalMinor < 0
        then Inl (EvtErr evt_ErrPaymentReceiptStatusChangedUnconfirmedTotalMinorInvalid)
      else if time_is_zero statusChangedAt
        then Inl (EvtErr evt_ErrPaymentReceiptStatusChangedAtRequired)
      else Inr \<lparr>evt_PaymentAddressID = paymentAddressID,
                evt_PreviousStatus = previousStatus,
                evt_CurrentStatus = currentStatus,
                evt_ObservedTotalMinor = observedTotalMinor,
                evt_ConfirmedTotalMinor = confirmedTotalMinor,
                evt_UnconfirmedTotalMinor = unconfirmedTotalMinor,
                evt_StatusChangedAt = statusChangedAt\<rparr>)"

section \<open>Receipt tracking\<close>

record PaymentReceiptTracking =
  trk_TrackingID :: int64
  trk_PaymentAddressID :: int64
  trk_AddressPolicyID :: AddressPolicyID
  trk_Chain :: ChainID
  trk_Network :: NetworkID
  trk_Address :: string
  trk_AssetReference :: string
  trk_IssuedAt :: gotime
  trk_ExpectedAmountMinor :: int64
  trk_RequiredConfirmations :: int32
  trk_Status :: PaymentReceiptStatus
  trk_ObservedTotalMinor :: int64
  trk_ConfirmedTotalMinor :: int64
  trk_UnconfirmedTotalMinor :: int64
  trk_LastObservedBlockHeight :: int64
  trk_FirstObservedAt :: "gotime option"
  trk_PaidAt :: "gotime option"
  trk_ConfirmedAt :: "gotime option"
  trk_ExpiresAt :: "gotime option"
  trk_LastFailureReason :: PaymentReceiptTrackingFailureReason

definition NewPaymentReceiptTracking ::
  "int64 \<Rightarrow> AddressPolicyID \<Rightarrow> ChainID \<Rightarrow> NetworkID \<Rightarrow> string \<Rightarrow> string \<Rightarrow> gotime \<Rightarrow> int64 \<Rightarrow> int32
     \<Rightarrow> PaymentReceiptTracking result" where
  "NewPaymentReceiptTracking paymentAddressID addressPolicyID chain network address
       assetReference issuedAt expectedAmountMinor requiredConfirmations =
     (let normalizedPolicyID = AddressPolicyID_Normalize addressPolicyID;
          normalizedAddress = trim_space address;
          normalizedAssetReference = trim_space assetReference
      in if sint paymentAddressID \<le> 0 then Inl (EntErr ent_ErrPaymentAddressIDInvalid)
         else if AddressPolicyID_IsZero normalizedPolicyID
           then Inl (EntErr ent_ErrAddressPolicyIDRequired)
         else case ParseChainID chain of
             None \<Rightarrow> Inl (EntErr ent_ErrChainInvalid)
           | Some normalizedChain \<Rightarrow>
         (case ParseNetworkID network of
             None \<Rightarrow> Inl (EntErr ent_ErrNetworkInvalid)
           | Some normalizedNetwork \<Rightarrow>
         if normalizedAddress = [] then Inl (EntErr ent_ErrAddressRequired)
         else if time_is_zero issuedAt then Inl (EntErr ent_ErrIssuedAtRequired)
         else if sint expectedAmountMinor \<le> 0 then Inl (EntErr ent_ErrExpectedAmountMinorInvalid)
         else if sint requiredConfirmations \<le> 0
           then Inl (EntErr ent_ErrRequiredConfirmationsInvalid)
         else Inr \<lparr>trk_TrackingID = 0,
                   trk_PaymentAddressID = paymentAddressID,
                   trk_AddressPolicyID = normalizedPolicyID,
                   trk_Chain = normalizedChain,
                   trk_Network = normalizedNetwork,
                   trk_Address = normalizedAddress,
                   trk_AssetReference = normalizedAssetReference,
                   trk_IssuedAt = issuedAt,
                   trk_ExpectedAmountMinor = expectedAmountMinor,
                   trk_RequiredConfirmations = requiredConfirmations,
                   trk_Status = PaymentReceiptStatusWatching,
                   trk_ObservedTotalMinor = 0,
                   trk_ConfirmedTotalMinor = 0,
                   trk_UnconfirmedTotalMinor = 0,
                   trk_LastObservedBlockHeight = 0,
                   trk_FirstObservedAt = None,
                   trk_PaidAt = None,
                   trk_ConfirmedAt = None,
                   trk_ExpiresAt = None,
                   trk_LastFailureReason = []\<rparr>))"

definition decidePaymentReceiptStatus ::
  "PaymentReceiptTracking \<Rightarrow> PaymentReceiptObservation \<Rightarrow> PaymentReceiptStatus" where
  "decidePaymentReceiptStatus t ob =
     (if sint (trk_ExpectedAmountMinor t) \<le> sint (obs_ConfirmedTotalMinor ob)
        then PaymentReceiptStatusPaidConfirmed
      else if sint (trk_ExpectedAmountMinor t) \<le> sint (obs_ObservedTotalMinor ob)
        then PaymentReceiptStatusPaidUnconfirmed
      else if trk_PaidAt t \<noteq> None then PaymentReceiptStatusPaidUnconfirmedReverted
      else if obs_ObservedTotalMinor ob = 0 then PaymentReceiptStatusWatching
      else PaymentReceiptStatusPartiallyPaid)"

definition ApplyObservation ::
  "PaymentReceiptTracking \<Rightarrow> PaymentReceiptObservation \<Rightarrow> gotime \<Rightarrow> PaymentReceiptTracking result" where
  "ApplyObservation t ob observedAt =
     (case PaymentReceiptObservation_Validate ob of
        Inl e \<Rightarrow> Inl e
      | Inr _ \<Rightarrow>
          if time_is_zero observedAt then Inl (EntErr ent_ErrObservedAtRequired)
          else
            (let u0 = t\<lparr>trk_ObservedTotalMinor := obs_ObservedTotalMinor ob,
                        trk_ConfirmedTotalMinor := obs_ConfirmedTotalMinor ob,
                        trk_UnconfirmedTotalMinor := obs_UnconfirmedTotalMinor ob,
                        trk_LastObservedBlockHeight := obs_LatestBlockHeight ob,
                        trk_LastFailureReason := []\<rparr>;
                 u1 = (if 0 < sint (obs_ObservedTotalMinor ob) \<and> trk_FirstObservedAt u0 = None
                       then u0\<lparr>trk_FirstObservedAt := Some observedAt\<rparr> else u0);
                 u2 = (if sint (trk_ExpectedAmountMinor u1) \<le> sint (obs_ObservedTotalMinor ob)
                          \<and> trk_PaidAt u1 = None
                       then u1\<lparr>trk_PaidAt := Some observedAt\<rparr> else u1);
                 u3 = (if sint (trk_ExpectedAmountMinor u2) \<le> sint (obs_ConfirmedTotalMinor ob)
                          \<and> trk_ConfirmedAt u2 = None
                       then u2\<lparr>trk_ConfirmedAt := Some observedAt\<rparr> else u2)
             in Inr (u3\<lparr>trk_Status := decidePaymentReceiptStatus u3 ob\<rparr>)))"

definition MarkPollingFailure ::
  "PaymentReceiptTracking \<Rightarrow> PaymentReceiptTrackingFailureReason \<Rightarrow> PaymentReceiptTracking result" where
  "MarkPollingFailure t reason =
     (if TrackingFailureReason_IsZero reason
        then Inl (EntErr ent_ErrPaymentReceiptFailureReasonRequired)
      else Inr (t\<lparr>trk_LastFailureReason := reason\<rparr>))"

definition IsExpired :: "PaymentReceiptTracking \<Rightarrow> gotime \<Rightarrow> bool" where
  "IsExpired t now =
     (case trk_ExpiresAt t of
        None \<Rightarrow> False
      | Some expiresAt \<Rightarrow> if time_is_zero now then False else \<not> time_after expiresAt now)"

definition CanExpireByPaymentWindow :: "PaymentReceiptTracking \<Rightarrow> bool" where
  "CanExpireByPaymentWindow t \<longleftrightarrow> trk_PaidAt t = None"

definition MarkExpired ::
  "PaymentReceiptTracking \<Rightarrow> PaymentReceiptTrackingFailureReason \<Rightarrow> PaymentReceiptTracking result" where
  "MarkExpired t reason =
     (if TrackingFailureReason_IsZero reason
        then Inl (EntErr ent_ErrPaymentReceiptFailureReasonRequired)
      else Inr (t\<lparr>trk_Status := PaymentReceiptStatusFailedExpired,
                  trk_LastFailureReason := reason\<rparr>))"

definition ExpireIfDue ::
  "PaymentReceiptTracking \<Rightarrow> gotime \<Rightarrow> (PaymentReceiptTracking \<times> bool) result" where
  "ExpireIfDue t now =
     (if \<not> CanExpireByPaymentWindow t then Inr (t, False)
      else if \<not> IsExpired t now then Inr (t, False)
      else case MarkExpired t ReasonPaymentWindowExpired of
          Inl e \<Rightarrow> Inl e
        | Inr expiredTracking \<Rightarrow> Inr (expiredTracking, True))"

definition StatusChangedEvent ::
  "PaymentReceiptTracking \<Rightarrow> PaymentReceiptStatus \<Rightarrow> gotime
     \<Rightarrow> PaymentReceiptStatusChanged option result" where
  "StatusChangedEvent t previousStatus changedAt =
     (if previousStatus = trk_Status t then Inr None
      else case NewPaymentReceiptStatusChanged (trk_PaymentAddressID t) previousStatus
             (trk_Status t) (trk_ObservedTotalMinor t) (trk_ConfirmedTotalMinor t)
             (trk_UnconfirmedTotalMinor t) changedAt of
          Inl e \<Rightarrow> Inl e
        | Inr event \<Rightarrow> Inr (Some event))"

section \<open>Address allocation\<close>

record PaymentAddressAllocation =
  alc_PaymentAddressID :: int64
  alc_AddressPolicyID :: AddressPolicyID
  alc_SlotIndex :: uint32
  alc_ExpectedAmountMinor :: int64
  alc_CustomerReference :: string
  alc_Status :: PaymentAddressAllocationStatus
  alc_Chain :: SupportedChain
  alc_Network :: NetworkID
  alc_Scheme :: AddressScheme
  alc_AssetReference :: string
  alc_Address :: string
  alc_DerivationFailureReason :: DerivationFailureReason

definition NewPaymentAddressAllocation ::
  "int64 \<Rightarrow> AddressPolicyID \<Rightarrow> uint32 \<Rightarrow> int64 \<Rightarrow> string \<Rightarrow> PaymentAddressAllocation result" where
  "NewPaymentAddressAllocation paymentAddressID addressPolicyID slotIndex
       expectedAmountMinor customerReference =
     (let normalizedPolicyID = AddressPolicyID_Normalize addressPolicyID
      in if sint paymentAddressID \<le> 0 then Inl (EntErr ent_ErrPaymentAddressIDInvalid)
         else if AddressPolicyID_IsZero normalizedPolicyID
           then Inl (EntErr ent_ErrAddressPolicyIDRequired)
         else if sint expectedAmountMinor \<le> 0 then Inl (EntErr ent_ErrExpectedAmountMinorInvalid)
         else Inr \<lparr>alc_PaymentAddressID = paymentAddressID,
                   alc_AddressPolicyID = normalizedPolicyID,
                   alc_SlotIndex = slotIndex,
                   alc_ExpectedAmountMinor = expectedAmountMinor,
                   alc_CustomerReference = trim_space customerReference,
                   alc_Status = PaymentAddressAllocationStatusReserved,
                   alc_Chain = [], alc_Network = [], alc_Scheme = [],
                   alc_AssetReference = [], alc_Address = [],
                   alc_DerivationFailureReason = []\<rparr>)"

definition MarkIssued ::
  "PaymentAddressAllocation \<Rightarrow> AddressPolicyID \<Rightarrow> SupportedChain \<Rightarrow> NetworkID \<Rightarrow> AddressScheme
     \<Rightarrow> string \<Rightarrow> string \<Rightarrow> PaymentAddressAllocation result" where
  "MarkIssued a addressPolicyID chain network scheme assetReference address =
     (let normalizedPolicyID = AddressPolicyID_Normalize addressPolicyID;
          normalizedScheme = AddressScheme_Normalize scheme;
          normalizedAssetReference = trim_space assetReference;
          normalizedAddress = trim_space address
      in if AddressPolicyID_IsZero normalizedPolicyID
           then Inl (EntErr ent_ErrAddressPolicyIDRequired)
         else if normalizedPolicyID \<noteq> alc_AddressPolicyID a
           then Inl (EntErr ent_ErrAddressPolicyMismatch)
         else if normalizedAddress = [] then Inl (EntErr ent_ErrAddressRequired)
         else Inr (a\<lparr>alc_Status := PaymentAddressAllocationStatusIssued,
                     alc_Chain := chain,
                     alc_Network := network,
                     alc_Scheme := normalizedScheme,
                     alc_AssetReference := normalizedAssetReference,
                     alc_Address := normalizedAddress,
                     alc_DerivationFailureReason := []\<rparr>))"

definition MarkDerivationFailed ::
  "PaymentAddressAllocation \<Rightarrow> DerivationFailureReason \<Rightarrow> PaymentAddressAllocation result" where
  "MarkDerivationFailed a reason =
     (if DerivationFailureReason_IsZero reason
        then Inl (EntErr ent_ErrDerivationFailureReasonRequired)
      else Inr (a\<lparr>alc_Status := PaymentAddressAllocationStatusDerivationFailed,
                  alc_DerivationFailureReason := reason,
                  alc_Chain := [], alc_Network := [], alc_Scheme := [],
                  alc_AssetReference := [], alc_Address := []\<rparr>))"

definition IssueReceiptTracking ::
  "PaymentAddressAllocation \<Rightarrow> gotime \<Rightarrow> int32 \<Rightarrow> gotime \<Rightarrow> PaymentReceiptTracking result" where
  "IssueReceiptTracking a issuedAt requiredConfirmations expiresAt =
     (if alc_Status a \<noteq> PaymentAddressAllocationStatusIssued
        then Inl (EntErr ent_ErrPaymentAddressAllocationNotIssued)
      else if time_is_zero expiresAt then Inl (EntErr ent_ErrExpiresAtRequired)
      else case ParseChainID (alc_Chain a) of
          None \<Rightarrow> Inl (EntErr ent_ErrChainInvalid)
        | Some chainID \<Rightarrow>
      (case ParseNetworkID (alc_Network a) of
          None \<Rightarrow> Inl (EntErr ent_ErrNetworkInvalid)
        | Some networkID \<Rightarrow>
      (case NewPaymentReceiptTracking (alc_PaymentAddressID a) (alc_AddressPolicyID a) chainID
              networkID (alc_Address a) (alc_AssetReference a) issuedAt
              (alc_ExpectedAmountMinor a) requiredConfirmations of
          Inl e \<Rightarrow> Inl e
        | Inr tracking \<Rightarrow> Inr (tracking\<lparr>trk_ExpiresAt := Some expiresAt\<rparr>))))"

section \<open>Characteristic facts\<close>

lemma ApplyObservation_Inr_iff:
  "(\<exists>t'. ApplyObservation t ob now = Inr t') \<longleftrightarrow> observation_valid ob \<and> now \<noteq> 0"
  by (cases "PaymentReceiptObservation_Validate ob")
    (auto simp: ApplyObservation_def time_is_zero_def Let_def simp flip: Validate_Inr_iff)

lemma ApplyObservation_valid:
  "ApplyObservation t ob now = Inr t' \<Longrightarrow> observation_valid ob \<and> now \<noteq> 0"
  using ApplyObservation_Inr_iff by blast

text \<open>
  The tracking with an observation recorded, before its status is decided: the totals are
  overwritten, a timestamp is only set when its threshold is met for the first time.
\<close>

definition observed_fields ::
  "PaymentReceiptTracking \<Rightarrow> PaymentReceiptObservation \<Rightarrow> gotime \<Rightarrow> PaymentReceiptTracking" where
  "observed_fields t ob now =
     t\<lparr>trk_ObservedTotalMinor := obs_ObservedTotalMinor ob,
       trk_ConfirmedTotalMinor := obs_ConfirmedTotalMinor ob,
       trk_UnconfirmedTotalMinor := obs_UnconfirmedTotalMinor ob,
       trk_LastObservedBlockHeight := obs_LatestBlockHeight ob,
       trk_LastFailureReason := [],
       trk_FirstObservedAt :=
         (if 0 < sint (obs_ObservedTotalMinor ob) \<and> trk_FirstObservedAt t = None
          then Some now else trk_FirstObservedAt t),
       trk_PaidAt :=
         (if sint (trk_ExpectedAmountMinor t) \<le> sint (obs_ObservedTotalMinor ob) \<and> trk_PaidAt t = None
          then Some now else trk_PaidAt t),
       trk_ConfirmedAt :=
         (if sint (trk_ExpectedAmountMinor t) \<le> sint (obs_ConfirmedTotalMinor ob)
             \<and> trk_ConfirmedAt t = None
          then Some now else trk_ConfirmedAt t)\<rparr>"

definition observed_tracking ::
  "PaymentReceiptTracking \<Rightarrow> PaymentReceiptObservation \<Rightarrow> gotime \<Rightarrow> PaymentReceiptTracking" where
  "observed_tracking t ob now =
     (observed_fields t ob now)
       \<lparr>trk_Status := decidePaymentReceiptStatus (observed_fields t ob now) ob\<rparr>"

text \<open>A conditional update of one field is an update by a conditional value.\<close>

lemma if_update:
  "(if c then t\<lparr>trk_FirstObservedAt := x\<rparr> else t) =
     t\<lparr>trk_FirstObservedAt := if c then x else trk_FirstObservedAt t\<rparr>"
  "(if c then t\<lparr>trk_PaidAt := x\<rparr> else t) = t\<lparr>trk_PaidAt := if c then x else trk_PaidAt t\<rparr>"
  "(if c then t\<lparr>trk_ConfirmedAt := x\<rparr> else t) =
     t\<lparr>trk_ConfirmedAt := if c then x else trk_ConfirmedAt t\<rparr>"
  by simp_all

lemma ApplyObservation_valid_eq:
  assumes "observation_valid ob" and "now \<noteq> 0"
  shows "ApplyObservation t ob now = Inr (observed_tracking t ob now)"
proof -
  have v: "PaymentReceiptObservation_Validate ob = Inr ()"
    using assms(1) by (simp add: Validate_Inr_iff)
  show ?thesis
    unfolding ApplyObservation_def v if_update observed_tracking_def observed_fields_def
    using assms(2) by (simp add: time_is_zero_def Let_def)
qed

lemma ApplyObservation_Inr:
  "ApplyObservation t ob now = Inr t' \<longleftrightarrow>
     observation_valid ob \<and> now \<noteq> 0 \<and> t' = observed_tracking t ob now"
  using ApplyObservation_Inr_iff [of t ob now] ApplyObservation_valid_eq [of ob now t] by auto

lemma observed_tracking_simps [simp]:
  "trk_TrackingID (observed_tracking t ob now) = trk_TrackingID t"
  "trk_PaymentAddressID (observed_tracking t ob now) = trk_PaymentAddressID t"
  "trk_AddressPolicyID (observed_tracking t ob now) = trk_AddressPolicyID t"
  "trk_Chain (observed_tracking t ob now) = trk_Chain t"
  "trk_Network (observed_tracking t ob now) = trk_Network t"
  "trk_Address (observed_tracking t ob now) = trk_Address t"
  "trk_AssetReference (observed_tracking t ob now) = trk_AssetReference t"
  "trk_IssuedAt (observed_tracking t ob now) = trk_IssuedAt t"
  "trk_ExpectedAmountMinor (observed_tracking t ob now) = trk_ExpectedAmountMinor t"
  "trk_RequiredConfirmations (observed_tracking t ob now) = trk_RequiredConfirmations t"
  "trk_ObservedTotalMinor (observed_tracking t ob now) = obs_ObservedTotalMinor ob"
  "trk_ConfirmedTotalMinor (observed_tracking t ob now) = obs_ConfirmedTotalMinor ob"
  "trk_UnconfirmedTotalMinor (observed_tracking t ob now) = obs_UnconfirmedTotalMinor ob"
  "trk_LastObservedBlockHeight (observed_tracking t ob now) = obs_LatestBlockHeight ob"
  "trk_ExpiresAt (observed_tracking t ob now) = trk_ExpiresAt t"
  "trk_LastFailureReason (observed_tracking t ob now) = []"
  "trk_FirstObservedAt (observed_tracking t ob now) =
     (if 0 < sint (obs_ObservedTotalMinor ob) \<and> trk_FirstObservedAt t = None
      then Some now else trk_FirstObservedAt t)"
  "trk_PaidAt (observed_tracking t ob now) =
     (if sint (trk_ExpectedAmountMinor t) \<le> sint (obs_ObservedTotalMinor ob) \<and> trk_PaidAt t = None
      then Some now else trk_PaidAt t)"
  "trk_ConfirmedAt (observed_tracking t ob now) =
     (if sint (trk_ExpectedAmountMinor t) \<le> sint (obs_ConfirmedTotalMinor ob) \<and> trk_ConfirmedAt t = None
      then Some now else trk_ConfirmedAt t)"
  by (simp_all add: observed_tracking_def observed_fields_def)

lemma observed_tracking_status:
  "trk_Status (observed_tracking t ob now) =
     decidePaymentReceiptStatus (observed_tracking t ob now) ob"
  by (simp add: observed_tracking_def decidePaymentReceiptStatus_def)

lemma ExpireIfDue_cases:
  "ExpireIfDue t now =
     Inr (if trk_PaidAt t = None \<and> IsExpired t now
          then (t\<lparr>trk_Status := PaymentReceiptStatusFailedExpired,
                  trk_LastFailureReason := ReasonPaymentWindowExpired\<rparr>, True)
          else (t, False))"
  by (simp add: ExpireIfDue_def CanExpireByPaymentWindow_def MarkExpired_def)

lemma IsExpired_iff:
  "IsExpired t now \<longleftrightarrow> (\<exists>e. trk_ExpiresAt t = Some e \<and> now \<noteq> 0 \<and> e \<le> now)"
  by (auto simp: IsExpired_def time_is_zero_def time_after_def split: option.splits)

lemma NewPaymentReceiptTracking_Inr_iff:
  "NewPaymentReceiptTracking pid pol ch net adr asset at amt conf = Inr t \<longleftrightarrow>
     0 < sint pid \<and> \<not> AddressPolicyID_IsZero (AddressPolicyID_Normalize pol) \<and>
     trim_space adr \<noteq> [] \<and> at \<noteq> 0 \<and> 0 < sint amt \<and> 0 < sint conf \<and>
     (\<exists>ch' net'. ParseChainID ch = Some ch' \<and> ParseChainID net = Some net' \<and>
       t = \<lparr>trk_TrackingID = 0, trk_PaymentAddressID = pid,
            trk_AddressPolicyID = AddressPolicyID_Normalize pol,
            trk_Chain = ch', trk_Network = net', trk_Address = trim_space adr,
            trk_AssetReference = trim_space asset, trk_IssuedAt = at,
            trk_ExpectedAmountMinor = amt, trk_RequiredConfirmations = conf,
            trk_Status = PaymentReceiptStatusWatching,
            trk_ObservedTotalMinor = 0, trk_ConfirmedTotalMinor = 0,
            trk_UnconfirmedTotalMinor = 0, trk_LastObservedBlockHeight = 0,
            trk_FirstObservedAt = None, trk_PaidAt = None, trk_ConfirmedAt = None,
            trk_ExpiresAt = None, trk_LastFailureReason = []\<rparr>)"
  by (auto simp: NewPaymentReceiptTracking_def Let_def time_is_zero_def not_le
      split: option.splits if_splits)

section \<open>Well-formed trackings\<close>

text \<open>
  What the status of a tracking says about its amounts and its timestamps, and how the
  timestamps follow one another.
\<close>

definition status_consistent :: "PaymentReceiptTracking \<Rightarrow> bool" where
  "status_consistent t \<longleftrightarrow>
     (let expected = sint (trk_ExpectedAmountMinor t);
          observed = sint (trk_ObservedTotalMinor t);
          confirmed = sint (trk_ConfirmedTotalMinor t);
          st = trk_Status t
      in if st = PaymentReceiptStatusWatching then observed = 0 \<and> trk_PaidAt t = None
         else if st = PaymentReceiptStatusPartiallyPaid
           then 0 < observed \<and> observed < expected \<and> trk_PaidAt t = None
         else if st = PaymentReceiptStatusPaidUnconfirmed
           then expected \<le> observed \<and> confirmed < expected \<and> trk_PaidAt t \<noteq> None
         else if st = PaymentReceiptStatusPaidUnconfirmedReverted
           then observed < expected \<and> trk_PaidAt t \<noteq> None
         else if st = PaymentReceiptStatusPaidConfirmed
           then expected \<le> confirmed \<and> trk_ConfirmedAt t \<noteq> None
         else st = PaymentReceiptStatusFailedExpired \<and> observed < expected \<and> trk_PaidAt t = None)"

definition wf_tracking :: "PaymentReceiptTracking \<Rightarrow> bool" where
  "wf_tracking t \<longleftrightarrow>
     0 < sint (trk_PaymentAddressID t) \<and>
     0 < sint (trk_ExpectedAmountMinor t) \<and>
     0 < sint (trk_RequiredConfirmations t) \<and>
     0 \<le> sint (trk_ConfirmedTotalMinor t) \<and> 0 \<le> sint (trk_UnconfirmedTotalMinor t) \<and>
     sint (trk_ConfirmedTotalMinor t) + sint (trk_UnconfirmedTotalMinor t) =
       sint (trk_ObservedTotalMinor t) \<and>
     0 \<le> sint (trk_LastObservedBlockHeight t) \<and>
     (trk_ConfirmedAt t \<noteq> None \<longrightarrow> trk_PaidAt t \<noteq> None) \<and>
     (trk_PaidAt t \<noteq> None \<longrightarrow> trk_FirstObservedAt t \<noteq> None) \<and>
     status_consistent t"

lemma wf_tracking_status: "wf_tracking t \<Longrightarrow> trk_Status t \<in> set receipt_statuses"
  by (auto simp: wf_tracking_def status_consistent_def Let_def receipt_statuses_set split: if_splits)

lemma wf_NewPaymentReceiptTracking:
  "NewPaymentReceiptTracking pid pol ch net adr asset at amt conf = Inr t \<Longrightarrow> wf_tracking t"
  by (auto simp: NewPaymentReceiptTracking_Inr_iff wf_tracking_def status_consistent_def Let_def)

lemma decide_consistent:
  assumes "trk_PaidAt t = None \<Longrightarrow> sint (obs_ObservedTotalMinor ob) < sint (trk_ExpectedAmountMinor t)"
    and "sint (trk_ExpectedAmountMinor t) \<le> sint (obs_ConfirmedTotalMinor ob) \<Longrightarrow> trk_ConfirmedAt t \<noteq> None"
    and "trk_ObservedTotalMinor t = obs_ObservedTotalMinor ob"
    and "trk_ConfirmedTotalMinor t = obs_ConfirmedTotalMinor ob"
    and "observation_valid ob" and "trk_Status t = decidePaymentReceiptStatus t ob"
  shows "status_consistent t"
proof -
  have "obs_ObservedTotalMinor ob \<noteq> 0 \<Longrightarrow> 0 < sint (obs_ObservedTotalMinor ob)"
    using assms(5) signed_word_eqI [of "obs_ObservedTotalMinor ob" 0]
    by (auto simp: observation_valid_def order_less_le)
  with assms show ?thesis
    by (auto simp: status_consistent_def decidePaymentReceiptStatus_def Let_def not_le not_less)
qed

lemma wf_observed_tracking:
  assumes wf: "wf_tracking t" and ob: "observation_valid ob"
  shows "wf_tracking (observed_tracking t ob now)"
proof -
  have le: "sint (obs_ConfirmedTotalMinor ob) \<le> sint (obs_ObservedTotalMinor ob)"
    using ob by (simp add: observation_valid_def)
  have "status_consistent (observed_tracking t ob now)"
    by (rule decide_consistent [where ob = ob])
      (auto simp: ob observed_tracking_status split: if_splits)
  then show ?thesis
    using wf ob le by (auto simp: wf_tracking_def observation_valid_def)
qed

lemma wf_ApplyObservation:
  "wf_tracking t \<Longrightarrow> ApplyObservation t ob now = Inr t' \<Longrightarrow> wf_tracking t'"
  by (auto simp: ApplyObservation_Inr intro: wf_observed_tracking)

lemma wf_MarkPollingFailure:
  "wf_tracking t \<Longrightarrow> MarkPollingFailure t r = Inr t' \<Longrightarrow> wf_tracking t'"
  by (auto simp: MarkPollingFailure_def wf_tracking_def status_consistent_def Let_def split: if_splits)

text \<open>Applying the same observation again changes nothing.\<close>

lemma observed_tracking_again:
  "observed_tracking (observed_tracking t ob now) ob now' = observed_tracking t ob now"
  by (auto simp: PaymentReceiptTracking.equality observed_tracking_status decidePaymentReceiptStatus_def)

lemma wf_unpaid_below_expected:
  assumes "wf_tracking t" and "trk_PaidAt t = None"
  shows "sint (trk_ObservedTotalMinor t) < sint (trk_ExpectedAmountMinor t)"
  using assms by (auto simp: wf_tracking_def status_consistent_def Let_def split: if_splits)

lemma wf_ExpireIfDue:
  assumes "wf_tracking t" and "ExpireIfDue t now = Inr (t', b)"
  shows "wf_tracking t'"
  using assms wf_unpaid_below_expected [of t]
  by (auto simp: ExpireIfDue_cases wf_tracking_def status_consistent_def Let_def split: if_splits)

lemma receipt_statuses_nonempty: "st \<in> set receipt_statuses \<Longrightarrow> st \<noteq> []"
  using receipt_statuses_distinct by auto

lemma StatusChangedEvent_wf:
  assumes "wf_tracking t" and "prev \<in> set receipt_statuses" and "now \<noteq> 0"
  shows "StatusChangedEvent t prev now =
     Inr (if prev = trk_Status t then None
          else Some \<lparr>evt_PaymentAddressID = trk_PaymentAddressID t,
                     evt_PreviousStatus = prev, evt_CurrentStatus = trk_Status t,
                     evt_ObservedTotalMinor = trk_ObservedTotalMinor t,
                     evt_ConfirmedTotalMinor = trk_ConfirmedTotalMinor t,
                     evt_UnconfirmedTotalMinor = trk_UnconfirmedTotalMinor t,
                     evt_StatusChangedAt = now\<rparr>)"
  using assms wf_tracking_status [OF assms(1)]
  by (auto simp: StatusChangedEvent_def NewPaymentReceiptStatusChanged_def time_is_zero_def
      wf_tracking_def dest: receipt_statuses_nonempty)

text \<open>The allocation's transitions.\<close>

lemma MarkIssued_Inr_iff:
  "MarkIssued a pol ch net sch asset adr = Inr a' \<longleftrightarrow>
     \<not> AddressPolicyID_IsZero (AddressPolicyID_Normalize pol) \<and>
     AddressPolicyID_Normalize pol = alc_AddressPolicyID a \<and> trim_space adr \<noteq> [] \<and>
     a' = a\<lparr>alc_Status := PaymentAddressAllocationStatusIssued, alc_Chain := ch, alc_Network := net,
            alc_Scheme := AddressScheme_Normalize sch, alc_AssetReference := trim_space asset,
            alc_Address := trim_space adr, alc_DerivationFailureReason := []\<rparr>"
  by (auto simp: MarkIssued_def Let_def)

lemma IssueReceiptTracking_Inr_iff:
  "IssueReceiptTracking a at conf expires = Inr t \<longleftrightarrow>
     alc_Status a = PaymentAddressAllocationStatusIssued \<and> expires \<noteq> 0 \<and>
     (\<exists>ch net t0. ParseChainID (alc_Chain a) = Some ch \<and> ParseChainID (alc_Network a) = Some net \<and>
        NewPaymentReceiptTracking (alc_PaymentAddressID a) (alc_AddressPolicyID a) ch net
          (alc_Address a) (alc_AssetReference a) at (alc_ExpectedAmountMinor a) conf = Inr t0 \<and>
        t = t0\<lparr>trk_ExpiresAt := Some expires\<rparr>)"
  by (auto simp: IssueReceiptTracking_def time_is_zero_def split: option.splits sum.splits)

lemma wf_IssueReceiptTracking:
  "IssueReceiptTracking a at conf expires = Inr t \<Longrightarrow> wf_tracking t"
  by (auto simp: IssueReceiptTracking_Inr_iff wf_tracking_def status_consistent_def Let_def
      dest!: wf_NewPaymentReceiptTracking)

text \<open>
  An allocation with a normalised policy, a positive identity and amount, issued on a
  supported chain and a portable network, always yields a tracking.
\<close>

lemma IssueReceiptTracking_succeeds:
  assumes "alc_Status a = PaymentAddressAllocationStatusIssued"
    and "portable_id (alc_Chain a)" and "portable_id (alc_Network a)"
    and "portable_id (alc_AddressPolicyID a)" and "trim_space (alc_Address a) \<noteq> []"
    and "0 < sint (alc_PaymentAddressID a)" and "0 < sint (alc_ExpectedAmountMinor a)"
    and "0 < sint conf" and "at \<noteq> 0" and "expires \<noteq> 0"
  shows "\<exists>t. IssueReceiptTracking a at conf expires = Inr t"
  using assms
  by (simp add: IssueReceiptTracking_Inr_iff NewPaymentReceiptTracking_Inr_iff
      ParseChainID_of_portable AddressPolicyID_not_zero AddressPolicyID_Normalize_portable)

end
