(* ===== verification/Policies.thy ===== *)
theory Policies
  imports Entities
begin

text \<open>
  The policies of \<open>src/internal/domain/policies\<close>: the address issuance policy with its
  normal form and validation, the issuance plan with its receipt terms per scope, and the
  statuses the poller picks up. A Go map that is only read while ranging over it is given
  as the list of its entries in the order of that iteration (Go leaves the order open); a
  map that is built is a partial function.
\<close>

section \<open>Address issuance policy\<close>

record AddressIssuancePolicy =
  aip_AddressPolicyID :: AddressPolicyID
  aip_Chain :: SupportedChain
  aip_Network :: NetworkID
  aip_Scheme :: AddressScheme
  aip_AssetReference :: string
  aip_Decimals :: uint8
  aip_Enabled :: bool
  aip_IssuanceConfig :: AddressIssuanceConfig

definition AddressIssuancePolicy_Normalize :: "AddressIssuancePolicy \<Rightarrow> AddressIssuancePolicy" where
  "AddressIssuancePolicy_Normalize p =
     (let p1 = p\<lparr>aip_AddressPolicyID := AddressPolicyID_Normalize (aip_AddressPolicyID p),
                 aip_IssuanceConfig := AddressIssuanceConfig_Normalize (aip_IssuanceConfig p)\<rparr>;
          p2 = (case ParseSupportedChain (aip_Chain p1) of
                  Some normalizedChain \<Rightarrow> p1\<lparr>aip_Chain := normalizedChain\<rparr>
                | None \<Rightarrow> p1);
          p3 = (case ParseNetworkID (aip_Network p2) of
                  Some normalizedNetwork \<Rightarrow> p2\<lparr>aip_Network := normalizedNetwork\<rparr>
                | None \<Rightarrow> p2\<lparr>aip_Network := to_lower (trim_space (aip_Network p2))\<rparr>);
          p4 = p3\<lparr>aip_Scheme := AddressScheme_Normalize (aip_Scheme p3),
                  aip_AssetReference := trim_space (aip_AssetReference p3)\<rparr>
      in if aip_Chain p4 = SupportedChainEthereum \<and> aip_AssetReference p4 \<noteq> []
         then p4\<lparr>aip_AssetReference := to_lower (aip_AssetReference p4)\<rparr> else p4)"

definition AddressIssuancePolicy_IsEnabled :: "AddressIssuancePolicy \<Rightarrow> bool" where
  "AddressIssuancePolicy_IsEnabled p = aip_Enabled (AddressIssuancePolicy_Normalize p)"

definition ValidateForAllocationIssuance ::
  "AddressIssuancePolicy \<Rightarrow> SupportedChain \<Rightarrow> int64 \<Rightarrow> AddressIssuancePolicy result" where
  "ValidateForAllocationIssuance p requestedChain expectedAmountMinor =
     (let normalized = AddressIssuancePolicy_Normalize p
      in if AddressPolicyID_IsZero (aip_AddressPolicyID normalized)
           then Inl (PolErr pol_ErrAddressPolicyIDRequired)
         else if aip_Chain normalized \<noteq> requestedChain
           then Inl (PolErr pol_ErrAddressPolicyChainMismatch)
         else if \<not> AddressIssuancePolicy_IsEnabled normalized
           then Inl (PolErr pol_ErrAddressPolicyNotEnabled)
         else if sint expectedAmountMinor \<le> 0
           then Inl (PolErr pol_ErrExpectedAmountMinorInvalid)
         else Inr normalized)"

section \<open>Issuance plan\<close>

datatype ReservationAttempt = ReopenFailed | ReserveFreshSlot | OtherAttempt string

record PaymentReceiptTermsScope =
  scope_Chain :: SupportedChain
  scope_Network :: NetworkID

record PaymentAddressAllocationReservation =
  rsv_IssuancePolicy :: AddressIssuancePolicy
  rsv_ExpectedAmountMinor :: int64
  rsv_CustomerReference :: string

record PaymentReceiptIssuanceTerms =
  terms_RequiredConfirmations :: int32
  terms_ExpiresAt :: gotime

record PaymentAddressAllocationIssuancePlan =
  plan_Reservation :: PaymentAddressAllocationReservation
  plan_ReservationAttempts :: "ReservationAttempt list"
  plan_ReceiptTerms :: PaymentReceiptIssuanceTerms

record PaymentAddressAllocationIssuancePolicy =
  ipol_requiredConfirmationsByScope :: "PaymentReceiptTermsScope \<rightharpoonup> int32"
  ipol_receiptExpiresAfterByScope :: "PaymentReceiptTermsScope \<rightharpoonup> duration"

definition defaultPaymentReceiptRequiredConfirmations :: int32 where
  "defaultPaymentReceiptRequiredConfirmations = 1"

definition defaultPaymentReceiptExpiresAfter :: duration where
  "defaultPaymentReceiptExpiresAfter = 7 * 24 * 3600 * 1000000000"

definition normalizePaymentReceiptTermsScope ::
  "PaymentReceiptTermsScope \<Rightarrow> PaymentReceiptTermsScope option" where
  "normalizePaymentReceiptTermsScope scope =
     (case ParseSupportedChain (scope_Chain scope) of
        None \<Rightarrow> None
      | Some normalizedChain \<Rightarrow>
          (case ParseNetworkID (scope_Network scope) of
             None \<Rightarrow> None
           | Some normalizedNetwork \<Rightarrow>
               Some \<lparr>scope_Chain = normalizedChain, scope_Network = normalizedNetwork\<rparr>))"

text \<open>The two loops of the constructor differ only in the type of the values.\<close>

fun keep_positive_scopes ::
  "(PaymentReceiptTermsScope \<times> ('w::len) word) list \<Rightarrow> (PaymentReceiptTermsScope \<rightharpoonup> 'w word)
     \<Rightarrow> (PaymentReceiptTermsScope \<rightharpoonup> 'w word)" where
  "keep_positive_scopes [] m = m"
| "keep_positive_scopes ((scope, v) # rest) m =
     (if sint v \<le> 0 then keep_positive_scopes rest m
      else case normalizePaymentReceiptTermsScope scope of
          None \<Rightarrow> keep_positive_scopes rest m
        | Some normalizedScope \<Rightarrow> keep_positive_scopes rest (m(normalizedScope \<mapsto> v)))"

definition NewPaymentAddressAllocationIssuancePolicy ::
  "(PaymentReceiptTermsScope \<times> int32) list \<Rightarrow> (PaymentReceiptTermsScope \<times> duration) list
     \<Rightarrow> PaymentAddressAllocationIssuancePolicy" where
  "NewPaymentAddressAllocationIssuancePolicy requiredConfirmationsByScope receiptExpiresAfterByScope =
     \<lparr>ipol_requiredConfirmationsByScope = keep_positive_scopes requiredConfirmationsByScope Map.empty,
      ipol_receiptExpiresAfterByScope = keep_positive_scopes receiptExpiresAfterByScope Map.empty\<rparr>"

definition requiredConfirmationsForScope ::
  "PaymentAddressAllocationIssuancePolicy \<Rightarrow> SupportedChain \<Rightarrow> NetworkID \<Rightarrow> int32" where
  "requiredConfirmationsForScope p chain network =
     (case normalizePaymentReceiptTermsScope \<lparr>scope_Chain = chain, scope_Network = network\<rparr> of
        None \<Rightarrow> defaultPaymentReceiptRequiredConfirmations
      | Some scope \<Rightarrow>
          (case ipol_requiredConfirmationsByScope p scope of
             None \<Rightarrow> defaultPaymentReceiptRequiredConfirmations
           | Some configured \<Rightarrow>
               if 0 < sint configured then configured else defaultPaymentReceiptRequiredConfirmations))"

definition receiptExpiresAfterForScope ::
  "PaymentAddressAllocationIssuancePolicy \<Rightarrow> SupportedChain \<Rightarrow> NetworkID \<Rightarrow> duration" where
  "receiptExpiresAfterForScope p chain network =
     (case normalizePaymentReceiptTermsScope \<lparr>scope_Chain = chain, scope_Network = network\<rparr> of
        None \<Rightarrow> defaultPaymentReceiptExpiresAfter
      | Some scope \<Rightarrow>
          (case ipol_receiptExpiresAfterByScope p scope of
             None \<Rightarrow> defaultPaymentReceiptExpiresAfter
           | Some configured \<Rightarrow>
               if 0 < sint configured then configured else defaultPaymentReceiptExpiresAfter))"

definition Plan ::
  "PaymentAddressAllocationIssuancePolicy \<Rightarrow> AddressIssuancePolicy \<Rightarrow> SupportedChain \<Rightarrow> int64
     \<Rightarrow> string \<Rightarrow> gotime \<Rightarrow> PaymentAddressAllocationIssuancePlan result" where
  "Plan p issuancePolicy requestedChain expectedAmountMinor customerReference issuedAt =
     (if time_is_zero issuedAt then Inl (PolErr pol_ErrPaymentAddressAllocationIssuedAtRequired)
      else case ValidateForAllocationIssuance issuancePolicy requestedChain expectedAmountMinor of
          Inl e \<Rightarrow> Inl e
        | Inr validatedPolicy \<Rightarrow>
            Inr \<lparr>plan_Reservation =
                   \<lparr>rsv_IssuancePolicy = validatedPolicy,
                    rsv_ExpectedAmountMinor = expectedAmountMinor,
                    rsv_CustomerReference = trim_space customerReference\<rparr>,
                 plan_ReservationAttempts = [ReopenFailed, ReserveFreshSlot],
                 plan_ReceiptTerms =
                   \<lparr>terms_RequiredConfirmations =
                      requiredConfirmationsForScope p (aip_Chain validatedPolicy)
                        (aip_Network validatedPolicy),
                    terms_ExpiresAt =
                      time_add issuedAt (receiptExpiresAfterForScope p (aip_Chain validatedPolicy)
                        (aip_Network validatedPolicy))\<rparr>\<rparr>)"

section \<open>Pollable statuses\<close>

definition PollablePaymentReceiptStatuses :: "PaymentReceiptStatus list" where
  "PollablePaymentReceiptStatuses =
     [PaymentReceiptStatusWatching, PaymentReceiptStatusPartiallyPaid,
      PaymentReceiptStatusPaidUnconfirmed, PaymentReceiptStatusPaidUnconfirmedReverted]"

section \<open>Lemmas\<close>

lemma Normalize_fields [simp]:
  "aip_AddressPolicyID (AddressIssuancePolicy_Normalize p) = AddressPolicyID_Normalize (aip_AddressPolicyID p)"
  "aip_Chain (AddressIssuancePolicy_Normalize p) =
     (case ParseSupportedChain (aip_Chain p) of Some c \<Rightarrow> c | None \<Rightarrow> aip_Chain p)"
  "aip_Network (AddressIssuancePolicy_Normalize p) =
     (case ParseChainID (aip_Network p) of Some n \<Rightarrow> n | None \<Rightarrow> to_lower (trim_space (aip_Network p)))"
  "aip_Scheme (AddressIssuancePolicy_Normalize p) = AddressScheme_Normalize (aip_Scheme p)"
  "aip_Decimals (AddressIssuancePolicy_Normalize p) = aip_Decimals p"
  "aip_Enabled (AddressIssuancePolicy_Normalize p) = aip_Enabled p"
  "aip_IssuanceConfig (AddressIssuancePolicy_Normalize p) =
     AddressIssuanceConfig_Normalize (aip_IssuanceConfig p)"
  by (simp_all add: AddressIssuancePolicy_Normalize_def Let_def split: option.splits)

lemma Normalize_asset:
  "aip_AssetReference (AddressIssuancePolicy_Normalize p) =
     (if aip_Chain (AddressIssuancePolicy_Normalize p) = SupportedChainEthereum
      then to_lower (trim_space (aip_AssetReference p)) else trim_space (aip_AssetReference p))"
  by (simp add: AddressIssuancePolicy_Normalize_def Let_def split: option.splits)

lemma IsZero_Normalize [simp]:
  "AddressPolicyID_IsZero (AddressPolicyID_Normalize x) = AddressPolicyID_IsZero x"
  by (simp add: AddressPolicyID_IsZero_def)

lemma ValidateForAllocationIssuance_Inr_iff:
  "ValidateForAllocationIssuance p ch amt = Inr v \<longleftrightarrow>
     v = AddressIssuancePolicy_Normalize p \<and> \<not> AddressPolicyID_IsZero (aip_AddressPolicyID v) \<and>
     aip_Chain v = ch \<and> aip_Enabled p \<and> 0 < sint amt"
  by (simp add: ValidateForAllocationIssuance_def Let_def AddressIssuancePolicy_IsEnabled_def
      not_le not_less conj_commute) auto

lemma Plan_Inr_iff:
  "Plan p ip ch amt ref at = Inr plan \<longleftrightarrow>
     at \<noteq> 0 \<and>
     (\<exists>v. ValidateForAllocationIssuance ip ch amt = Inr v \<and>
        plan = \<lparr>plan_Reservation = \<lparr>rsv_IssuancePolicy = v, rsv_ExpectedAmountMinor = amt,
                                    rsv_CustomerReference = trim_space ref\<rparr>,
               plan_ReservationAttempts = [ReopenFailed, ReserveFreshSlot],
               plan_ReceiptTerms =
                 \<lparr>terms_RequiredConfirmations = requiredConfirmationsForScope p (aip_Chain v) (aip_Network v),
                  terms_ExpiresAt = time_add at (receiptExpiresAfterForScope p (aip_Chain v) (aip_Network v))\<rparr>\<rparr>)"
  by (auto simp: Plan_def time_is_zero_def split: sum.splits)

lemma default_terms_positive:
  "0 < sint defaultPaymentReceiptRequiredConfirmations" "0 < sint defaultPaymentReceiptExpiresAfter"
  by (simp_all add: defaultPaymentReceiptRequiredConfirmations_def defaultPaymentReceiptExpiresAfter_def)

lemma terms_positive:
  "0 < sint (requiredConfirmationsForScope p ch net)"
  "0 < sint (receiptExpiresAfterForScope p ch net)"
  by (auto simp: requiredConfirmationsForScope_def receiptExpiresAfterForScope_def
      default_terms_positive split: option.splits)

text \<open>
  The scope table: what is stored for a normalised scope is a positive value of one of its
  entries, and when no two positive entries normalise to the same scope, it does not
  depend on the iteration order.
\<close>

definition scope_entry :: "PaymentReceiptTermsScope \<times> ('w::len) word \<Rightarrow> PaymentReceiptTermsScope option" where
  "scope_entry e = (if sint (snd e) \<le> 0 then None else normalizePaymentReceiptTermsScope (fst e))"

lemma keep_positive_scopes_Cons:
  "keep_positive_scopes (e # es) m =
     keep_positive_scopes es (case scope_entry e of None \<Rightarrow> m | Some k \<Rightarrow> m(k \<mapsto> snd e))"
  by (cases e) (simp add: scope_entry_def split: option.splits)

lemma keep_positive_scopes_lookup:
  "keep_positive_scopes es m k =
     (case filter (\<lambda>e. scope_entry e = Some k) (rev es) of [] \<Rightarrow> m k | e # _ \<Rightarrow> Some (snd e))"
proof (induction es arbitrary: m)
  case (Cons e es)
  then show ?case
    by (auto simp: keep_positive_scopes_Cons split: option.splits list.splits)
qed simp

end
