(* ===== verification/Ports.thy ===== *)
theory Ports
  imports Policies
begin

text \<open>
  The outbound port contracts of \<open>src/internal/application/ports/outbound\<close>: the records the
  use cases exchange with the adapters, the normalisers of \<open>validation.go\<close>, the delivery
  resolution of a webhook notification, the failure-reason normalisers of the SQL adapters
  (\<open>failure_reason_normalizer.go\<close>) and the conversions between records and entities of
  \<open>usecases/port_record_conversions.go\<close>. A normaliser returns \<open>Some\<close> exactly where the
  source returns \<open>true\<close> (no caller reads the string of a \<open>false\<close> result); a
  \<open>*time.Time\<close> is an option. The lemmas show that the ports accept the same vocabularies
  as the domain parsers, that entities survive the conversion to a record and back, and
  what the delivery resolution returns.
\<close>

section \<open>Normalisers\<close>

definition isPortableID :: "string \<Rightarrow> bool" where
  "isPortableID v \<longleftrightarrow>
     (if v = [] \<or> 64 < length v then False
      else list_all (\<lambda>c. let n = (of_char c :: nat)
                        in 97 \<le> n \<and> n \<le> 122 \<or> 48 \<le> n \<and> n \<le> 57 \<or> c = CHR ''_'' \<or> c = CHR ''-'') v)"

definition NormalizeAddressPolicyID :: "string \<Rightarrow> string option" where
  "NormalizeAddressPolicyID raw =
     (let normalized = to_lower (trim_space raw)
      in if isPortableID normalized then Some normalized else None)"

definition NormalizeChainID :: "string \<Rightarrow> string option" where
  "NormalizeChainID raw =
     (let normalized = to_lower (trim_space raw)
      in if isPortableID normalized then Some normalized else None)"

definition NormalizeNetworkID :: "string \<Rightarrow> string option" where
  "NormalizeNetworkID raw =
     (let normalized = to_lower (trim_space raw)
      in if isPortableID normalized then Some normalized else None)"

definition NormalizeSupportedChain :: "string \<Rightarrow> string option" where
  "NormalizeSupportedChain raw =
     (case NormalizeChainID raw of
        None \<Rightarrow> None
      | Some chain \<Rightarrow> if chain = ''bitcoin'' \<or> chain = ''ethereum'' then Some chain else None)"

definition NormalizeAddressScheme :: "string \<Rightarrow> string option" where
  "NormalizeAddressScheme raw =
     map_of [(''legacy'', ''legacy''), (''segwit'', ''segwit''), (''nativesegwit'', ''nativeSegwit''),
             (''taproot'', ''taproot''), (''create2'', ''create2'')] (to_lower (trim_space raw))"

definition NormalizeIssuanceRefKind :: "string \<Rightarrow> string option" where
  "NormalizeIssuanceRefKind raw =
     map_of [(''hd_path_absolute'', ''hd_path_absolute''), (''create2_salt'', ''create2_salt'')]
       (to_lower (trim_space raw))"

definition NormalizePaymentReceiptStatus :: "string \<Rightarrow> string option" where
  "NormalizePaymentReceiptStatus raw =
     map_of [(''watching'', ''watching''), (''partially_paid'', ''partially_paid''),
             (''paid_unconfirmed'', ''paid_unconfirmed''),
             (''paid_unconfirmed_reverted'', ''paid_unconfirmed_reverted''),
             (''paid_confirmed'', ''paid_confirmed''), (''failed_expired'', ''failed_expired'')]
       (to_lower (trim_space raw))"

definition NormalizePaymentReceiptTrackingFailureReason :: "string \<Rightarrow> string option" where
  "NormalizePaymentReceiptTrackingFailureReason raw =
     (let normalized = to_lower (trim_space raw)
      in if normalized = [] then None
         else map_of [(''tracking_invalid'', ''tracking_invalid''),
                      (''latest_block_height_unavailable'', ''latest_block_height_unavailable''),
                      (''observation_failed'', ''observation_failed''),
                      (''tracking_update_failed'', ''tracking_update_failed''),
                      (''payment_window_expired'', ''payment_window_expired''),
                      (''processing_failed'', ''processing_failed'')] normalized)"

definition NormalizeDerivationFailureReason :: "string \<Rightarrow> string option" where
  "NormalizeDerivationFailureReason raw =
     (let normalized = to_lower (trim_space raw)
      in if normalized = [] then None
         else if normalized = ''derivation_failed'' then Some normalized else None)"

definition DeliveryStatusPending :: string where [go_consts]: "DeliveryStatusPending = ''pending''"
definition DeliveryStatusSent :: string where [go_consts]: "DeliveryStatusSent = ''sent''"
definition DeliveryStatusFailed :: string where [go_consts]: "DeliveryStatusFailed = ''failed''"
definition DeliveryFailureReasonDeliveryFailed :: string where
  [go_consts]: "DeliveryFailureReasonDeliveryFailed = ''delivery_failed''"

definition NormalizeDeliveryStatus :: "string \<Rightarrow> string option" where
  "NormalizeDeliveryStatus raw =
     map_of [(''pending'', DeliveryStatusPending), (''sent'', DeliveryStatusSent),
             (''failed'', DeliveryStatusFailed)] (to_lower (trim_space raw))"

definition NormalizeDeliveryFailureReason :: "string \<Rightarrow> string option" where
  "NormalizeDeliveryFailureReason raw =
     (let normalized = to_lower (trim_space raw)
      in if normalized = [] then None
         else map_of [(''delivery_failed'', DeliveryFailureReasonDeliveryFailed)] normalized)"

definition TrackingFailureReasonMessage :: "string \<Rightarrow> string" where
  "TrackingFailureReasonMessage raw =
     (let normalized = to_lower (trim_space raw)
      in if normalized = ''tracking_invalid'' then ''receipt tracking is invalid''
         else if normalized = ''latest_block_height_unavailable'' then ''latest block height unavailable''
         else if normalized = ''observation_failed'' then ''receipt observation failed''
         else if normalized = ''tracking_update_failed'' then ''receipt tracking update failed''
         else if normalized = ''payment_window_expired'' then ''payment window expired''
         else if normalized = ''processing_failed'' then ''receipt processing failed''
         else [])"

definition DeliveryFailureReasonMessage :: "string \<Rightarrow> string" where
  "DeliveryFailureReasonMessage raw =
     (if to_lower (trim_space raw) = DeliveryFailureReasonDeliveryFailed
      then ''receipt webhook delivery failed'' else [])"

subsection \<open>The failure reasons of the SQL adapters\<close>

definition persistedTrackingFailureReason :: "string \<Rightarrow> string" where
  "persistedTrackingFailureReason raw =
     (let normalized = to_lower (trim_space raw)
      in if normalized = [] then []
         else case NormalizePaymentReceiptTrackingFailureReason normalized of
             Some reason \<Rightarrow> reason
           | None \<Rightarrow>
               if normalized \<in> set [''receipt tracking is invalid'', ''issued at is required'']
                 then ''tracking_invalid''
               else if normalized \<in> set [''latest block height unavailable'', ''tip height timeout'']
                 then ''latest_block_height_unavailable''
               else if normalized \<in> set [''receipt observation failed'', ''rpc timeout'']
                 then ''observation_failed''
               else if normalized = ''receipt tracking update failed'' then ''tracking_update_failed''
               else if normalized = ''payment window expired'' then ''payment_window_expired''
               else ''processing_failed'')"

definition persistedDeliveryFailureReason :: "string \<Rightarrow> string" where
  "persistedDeliveryFailureReason raw =
     (let normalized = to_lower (trim_space raw)
      in if normalized = [] then []
         else case NormalizeDeliveryFailureReason normalized of
             Some reason \<Rightarrow> reason
           | None \<Rightarrow> DeliveryFailureReasonDeliveryFailed)"

definition persistedDerivationFailureReason :: "string \<Rightarrow> string" where
  "persistedDerivationFailureReason raw =
     (let normalized = to_lower (trim_space raw)
      in if normalized = [] then []
         else case NormalizeDerivationFailureReason normalized of
             Some reason \<Rightarrow> reason
           | None \<Rightarrow> ''derivation_failed'')"

section \<open>Records\<close>

record AddressPolicyRecord =
  apr_AddressPolicyID :: string
  apr_Chain :: string
  apr_Network :: string
  apr_Scheme :: string
  apr_AssetReference :: string
  apr_Decimals :: uint8
  apr_Enabled :: bool

record AddressIssuancePolicyRecord =
  ipr_AddressPolicyID :: string
  ipr_Chain :: string
  ipr_Network :: string
  ipr_Scheme :: string
  ipr_AssetReference :: string
  ipr_Decimals :: uint8
  ipr_Enabled :: bool
  ipr_AddressSpaceRef :: string
  ipr_IssuanceRefPrefix :: string

record PaymentAddressAllocationRecord =
  ar_PaymentAddressID :: int64
  ar_AddressPolicyID :: string
  ar_SlotIndex :: uint32
  ar_ExpectedAmountMinor :: int64
  ar_CustomerReference :: string
  ar_Status :: string
  ar_Chain :: string
  ar_Network :: string
  ar_Scheme :: string
  ar_AssetReference :: string
  ar_Address :: string
  ar_DerivationFailureReason :: string

record ReservePaymentAddressAllocationInput =
  rin_IssuancePolicy :: AddressIssuancePolicyRecord
  rin_ExpectedAmountMinor :: int64
  rin_CustomerReference :: string

record CompletePaymentAddressAllocationInput =
  cin_Allocation :: PaymentAddressAllocationRecord
  cin_SweepMaterial :: string
  cin_IssuedAt :: gotime

record PaymentAddressIdempotencyRecord =
  idr_Chain :: string
  idr_IdempotencyKey :: string
  idr_AddressPolicyID :: string
  idr_ExpectedAmountMinor :: int64
  idr_CustomerReference :: string
  idr_PaymentAddressID :: int64

record ClaimPaymentAddressIdempotencyInput =
  icl_Chain :: string
  icl_IdempotencyKey :: string
  icl_AddressPolicyID :: string
  icl_ExpectedAmountMinor :: int64
  icl_CustomerReference :: string

record PaymentReceiptTrackingRecord =
  tr_TrackingID :: int64
  tr_PaymentAddressID :: int64
  tr_AddressPolicyID :: string
  tr_Chain :: string
  tr_Network :: string
  tr_Address :: string
  tr_AssetReference :: string
  tr_IssuedAt :: gotime
  tr_ExpectedAmountMinor :: int64
  tr_RequiredConfirmations :: int32
  tr_Status :: string
  tr_ObservedTotalMinor :: int64
  tr_ConfirmedTotalMinor :: int64
  tr_UnconfirmedTotalMinor :: int64
  tr_LastObservedBlockHeight :: int64
  tr_FirstObservedAt :: "gotime option"
  tr_PaidAt :: "gotime option"
  tr_ConfirmedAt :: "gotime option"
  tr_ExpiresAt :: "gotime option"
  tr_LastFailureReason :: string

record ClaimPaymentReceiptTrackingsInput =
  ctr_Now :: gotime
  ctr_Limit :: int64
  ctr_ClaimUntil :: gotime
  ctr_Chain :: string
  ctr_Network :: string
  ctr_Statuses :: "string list"

record PaymentReceiptStatusChangedRecord =
  scr_PaymentAddressID :: int64
  scr_PreviousStatus :: string
  scr_CurrentStatus :: string
  scr_ObservedTotalMinor :: int64
  scr_ConfirmedTotalMinor :: int64
  scr_UnconfirmedTotalMinor :: int64
  scr_StatusChangedAt :: gotime

record OutboxMessage =
  msg_NotificationID :: int64
  msg_PaymentAddressID :: int64
  msg_AddressPolicyID :: string
  msg_CustomerReference :: string
  msg_PreviousStatus :: string
  msg_CurrentStatus :: string
  msg_ObservedTotalMinor :: int64
  msg_ConfirmedTotalMinor :: int64
  msg_UnconfirmedTotalMinor :: int64
  msg_StatusChangedAt :: gotime
  msg_DeliveryStatus :: string
  msg_DeliveryAttempts :: int32
  msg_NextAttemptAt :: gotime
  msg_LastFailureReason :: string
  msg_DeliveredAt :: "gotime option"

record DeliveryResult =
  res_NotificationID :: int64
  res_Status :: string
  res_Attempts :: int32
  res_LastFailureReason :: string
  res_NextAttemptAt :: "gotime option"
  res_DeliveredAt :: "gotime option"

record PaymentAddressStatusRecord =
  psr_PaymentAddressID :: int64
  psr_AddressPolicyID :: string
  psr_ExpectedAmountMinor :: int64
  psr_CustomerReference :: string
  psr_Chain :: string
  psr_Network :: string
  psr_Scheme :: string
  psr_Address :: string
  psr_PaymentStatus :: string
  psr_ObservedTotalMinor :: int64
  psr_ConfirmedTotalMinor :: int64
  psr_UnconfirmedTotalMinor :: int64
  psr_RequiredConfirmations :: int32
  psr_LastObservedBlockHeight :: int64
  psr_IssuedAt :: gotime
  psr_FirstObservedAt :: "gotime option"
  psr_PaidAt :: "gotime option"
  psr_ConfirmedAt :: "gotime option"
  psr_ExpiresAt :: "gotime option"
  psr_LastFailureReason :: string

section \<open>Delivery resolution\<close>

definition MarkPaymentReceiptStatusNotificationSent ::
  "int64 \<Rightarrow> gotime \<Rightarrow> DeliveryResult result" where
  "MarkPaymentReceiptStatusNotificationSent notificationID deliveredAt =
     (if sint notificationID \<le> 0
        then Inl (OutOutbox out_ErrPaymentReceiptStatusNotificationOutboxFailed)
      else if time_is_zero deliveredAt
        then Inl (OutOutbox out_ErrPaymentReceiptStatusNotificationDeliveredAtRequired)
      else Inr \<lparr>res_NotificationID = notificationID, res_Status = DeliveryStatusSent,
                res_Attempts = 0, res_LastFailureReason = [], res_NextAttemptAt = None,
                res_DeliveredAt = Some deliveredAt\<rparr>)"

definition ResolveDeliveryFailure ::
  "int64 \<Rightarrow> int32 \<Rightarrow> int32 \<Rightarrow> gotime \<Rightarrow> duration \<Rightarrow> string \<Rightarrow> DeliveryResult result" where
  "ResolveDeliveryFailure notificationID currentAttempts maxAttempts now retryDelay failureReason =
     (if sint notificationID \<le> 0
        then Inl (OutOutbox out_ErrPaymentReceiptStatusNotificationOutboxFailed)
      else if sint currentAttempts < 0
        then Inl (OutOutbox out_ErrPaymentReceiptStatusNotificationOutboxFailed)
      else if sint maxAttempts \<le> 0
        then Inl (OutOutbox out_ErrPaymentReceiptStatusNotificationOutboxFailed)
      else if time_is_zero now
        then Inl (OutOutbox out_ErrPaymentReceiptStatusNotificationOutboxFailed)
      else case NormalizeDeliveryFailureReason failureReason of
          None \<Rightarrow> Inl (OutOutbox out_ErrPaymentReceiptStatusNotificationOutboxFailed)
        | Some normalizedFailureReason \<Rightarrow>
      (let attempts = currentAttempts + 1
       in if sint maxAttempts \<le> sint attempts
            then Inr \<lparr>res_NotificationID = notificationID, res_Status = DeliveryStatusFailed,
                      res_Attempts = attempts, res_LastFailureReason = normalizedFailureReason,
                      res_NextAttemptAt = None, res_DeliveredAt = None\<rparr>
          else if sint retryDelay \<le> 0
            then Inl (OutOutbox out_ErrPaymentReceiptStatusNotificationOutboxFailed)
          else Inr \<lparr>res_NotificationID = notificationID, res_Status = DeliveryStatusPending,
                    res_Attempts = attempts, res_LastFailureReason = normalizedFailureReason,
                    res_NextAttemptAt = Some (time_add now retryDelay), res_DeliveredAt = None\<rparr>))"

section \<open>Conversions between records and entities\<close>

definition addressIssuancePolicyFromRecord ::
  "AddressIssuancePolicyRecord \<Rightarrow> AddressIssuancePolicy result" where
  "addressIssuancePolicyFromRecord r =
     (case NewAddressPolicyID (ipr_AddressPolicyID r) of
        Inl e \<Rightarrow> Inl e
      | Inr addressPolicyID \<Rightarrow>
     (case ParseSupportedChain (ipr_Chain r) of
        None \<Rightarrow> Inl ErrPortRecordInvalid
      | Some chain \<Rightarrow>
     (case ParseNetworkID (ipr_Network r) of
        None \<Rightarrow> Inl ErrPortRecordInvalid
      | Some network \<Rightarrow>
     (case ParseAddressScheme (ipr_Scheme r) of
        None \<Rightarrow> Inl ErrPortRecordInvalid
      | Some scheme \<Rightarrow>
          Inr (AddressIssuancePolicy_Normalize
            \<lparr>aip_AddressPolicyID = addressPolicyID, aip_Chain = chain, aip_Network = network,
             aip_Scheme = scheme, aip_AssetReference = ipr_AssetReference r,
             aip_Decimals = ipr_Decimals r, aip_Enabled = ipr_Enabled r,
             aip_IssuanceConfig =
               \<lparr>cfg_AddressSpaceRef = ipr_AddressSpaceRef r,
                cfg_IssuanceRefPrefix = ipr_IssuanceRefPrefix r\<rparr>\<rparr>)))))"

definition addressIssuancePolicyRecordFromDomain ::
  "AddressIssuancePolicy \<Rightarrow> AddressIssuancePolicyRecord" where
  "addressIssuancePolicyRecordFromDomain policy =
     (let normalized = AddressIssuancePolicy_Normalize policy
      in \<lparr>ipr_AddressPolicyID = aip_AddressPolicyID normalized,
          ipr_Chain = aip_Chain normalized,
          ipr_Network = aip_Network normalized,
          ipr_Scheme = aip_Scheme normalized,
          ipr_AssetReference = aip_AssetReference normalized,
          ipr_Decimals = aip_Decimals normalized,
          ipr_Enabled = aip_Enabled normalized,
          ipr_AddressSpaceRef = cfg_AddressSpaceRef (aip_IssuanceConfig normalized),
          ipr_IssuanceRefPrefix = cfg_IssuanceRefPrefix (aip_IssuanceConfig normalized)\<rparr>)"

text \<open>
  An optional field of a record: an empty string stays empty, anything else must parse.
\<close>

definition parse_unless_empty :: "(string \<Rightarrow> string option) \<Rightarrow> string \<Rightarrow> string result" where
  "parse_unless_empty parse raw =
     (if raw = [] then Inr []
      else case parse raw of None \<Rightarrow> Inl ErrPortRecordInvalid | Some v \<Rightarrow> Inr v)"

definition paymentAddressAllocationFromRecord ::
  "PaymentAddressAllocationRecord \<Rightarrow> PaymentAddressAllocation result" where
  "paymentAddressAllocationFromRecord r =
     (case NewAddressPolicyID (ar_AddressPolicyID r) of
        Inl e \<Rightarrow> Inl e
      | Inr addressPolicyID \<Rightarrow>
     (case parse_unless_empty ParseSupportedChain (ar_Chain r) of
        Inl e \<Rightarrow> Inl e
      | Inr chain \<Rightarrow>
     (case parse_unless_empty ParseNetworkID (ar_Network r) of
        Inl e \<Rightarrow> Inl e
      | Inr network \<Rightarrow>
     (case parse_unless_empty ParseAddressScheme (ar_Scheme r) of
        Inl e \<Rightarrow> Inl e
      | Inr scheme \<Rightarrow>
     (case parse_unless_empty ParseDerivationFailureReason (ar_DerivationFailureReason r) of
        Inl e \<Rightarrow> Inl e
      | Inr reason \<Rightarrow>
          Inr \<lparr>alc_PaymentAddressID = ar_PaymentAddressID r,
               alc_AddressPolicyID = addressPolicyID,
               alc_SlotIndex = ar_SlotIndex r,
               alc_ExpectedAmountMinor = ar_ExpectedAmountMinor r,
               alc_CustomerReference = ar_CustomerReference r,
               alc_Status = ar_Status r,
               alc_Chain = chain, alc_Network = network, alc_Scheme = scheme,
               alc_AssetReference = ar_AssetReference r,
               alc_Address = ar_Address r,
               alc_DerivationFailureReason = reason\<rparr>)))))"

definition paymentAddressAllocationRecordFromDomain ::
  "PaymentAddressAllocation \<Rightarrow> PaymentAddressAllocationRecord" where
  "paymentAddressAllocationRecordFromDomain a =
     \<lparr>ar_PaymentAddressID = alc_PaymentAddressID a,
      ar_AddressPolicyID = alc_AddressPolicyID a,
      ar_SlotIndex = alc_SlotIndex a,
      ar_ExpectedAmountMinor = alc_ExpectedAmountMinor a,
      ar_CustomerReference = alc_CustomerReference a,
      ar_Status = alc_Status a,
      ar_Chain = alc_Chain a,
      ar_Network = alc_Network a,
      ar_Scheme = alc_Scheme a,
      ar_AssetReference = alc_AssetReference a,
      ar_Address = alc_Address a,
      ar_DerivationFailureReason = alc_DerivationFailureReason a\<rparr>"

definition paymentReceiptTrackingFromRecord ::
  "PaymentReceiptTrackingRecord \<Rightarrow> PaymentReceiptTracking result" where
  "paymentReceiptTrackingFromRecord r =
     (case NewAddressPolicyID (tr_AddressPolicyID r) of
        Inl e \<Rightarrow> Inl e
      | Inr addressPolicyID \<Rightarrow>
     (case ParseChainID (tr_Chain r) of
        None \<Rightarrow> Inl ErrPortRecordInvalid
      | Some chain \<Rightarrow>
     (case ParseNetworkID (tr_Network r) of
        None \<Rightarrow> Inl ErrPortRecordInvalid
      | Some network \<Rightarrow>
     (case ParsePaymentReceiptStatus (tr_Status r) of
        None \<Rightarrow> Inl ErrPortRecordInvalid
      | Some status \<Rightarrow>
     (case parse_unless_empty ParsePaymentReceiptTrackingFailureReason (tr_LastFailureReason r) of
        Inl e \<Rightarrow> Inl e
      | Inr reason \<Rightarrow>
          Inr \<lparr>trk_TrackingID = tr_TrackingID r,
               trk_PaymentAddressID = tr_PaymentAddressID r,
               trk_AddressPolicyID = addressPolicyID,
               trk_Chain = chain,
               trk_Network = network,
               trk_Address = tr_Address r,
               trk_AssetReference = tr_AssetReference r,
               trk_IssuedAt = tr_IssuedAt r,
               trk_ExpectedAmountMinor = tr_ExpectedAmountMinor r,
               trk_RequiredConfirmations = tr_RequiredConfirmations r,
               trk_Status = status,
               trk_ObservedTotalMinor = tr_ObservedTotalMinor r,
               trk_ConfirmedTotalMinor = tr_ConfirmedTotalMinor r,
               trk_UnconfirmedTotalMinor = tr_UnconfirmedTotalMinor r,
               trk_LastObservedBlockHeight = tr_LastObservedBlockHeight r,
               trk_FirstObservedAt = tr_FirstObservedAt r,
               trk_PaidAt = tr_PaidAt r,
               trk_ConfirmedAt = tr_ConfirmedAt r,
               trk_ExpiresAt = tr_ExpiresAt r,
               trk_LastFailureReason = reason\<rparr>)))))"

definition paymentReceiptTrackingRecordFromDomain ::
  "PaymentReceiptTracking \<Rightarrow> PaymentReceiptTrackingRecord" where
  "paymentReceiptTrackingRecordFromDomain t =
     \<lparr>tr_TrackingID = trk_TrackingID t,
      tr_PaymentAddressID = trk_PaymentAddressID t,
      tr_AddressPolicyID = trk_AddressPolicyID t,
      tr_Chain = trk_Chain t,
      tr_Network = trk_Network t,
      tr_Address = trk_Address t,
      tr_AssetReference = trk_AssetReference t,
      tr_IssuedAt = trk_IssuedAt t,
      tr_ExpectedAmountMinor = trk_ExpectedAmountMinor t,
      tr_RequiredConfirmations = trk_RequiredConfirmations t,
      tr_Status = trk_Status t,
      tr_ObservedTotalMinor = trk_ObservedTotalMinor t,
      tr_ConfirmedTotalMinor = trk_ConfirmedTotalMinor t,
      tr_UnconfirmedTotalMinor = trk_UnconfirmedTotalMinor t,
      tr_LastObservedBlockHeight = trk_LastObservedBlockHeight t,
      tr_FirstObservedAt = trk_FirstObservedAt t,
      tr_PaidAt = trk_PaidAt t,
      tr_ConfirmedAt = trk_ConfirmedAt t,
      tr_ExpiresAt = trk_ExpiresAt t,
      tr_LastFailureReason = trk_LastFailureReason t\<rparr>"

definition paymentReceiptStatusChangedRecordFromDomain ::
  "PaymentReceiptStatusChanged \<Rightarrow> PaymentReceiptStatusChangedRecord" where
  "paymentReceiptStatusChangedRecordFromDomain e =
     \<lparr>scr_PaymentAddressID = evt_PaymentAddressID e,
      scr_PreviousStatus = evt_PreviousStatus e,
      scr_CurrentStatus = evt_CurrentStatus e,
      scr_ObservedTotalMinor = evt_ObservedTotalMinor e,
      scr_ConfirmedTotalMinor = evt_ConfirmedTotalMinor e,
      scr_UnconfirmedTotalMinor = evt_UnconfirmedTotalMinor e,
      scr_StatusChangedAt = evt_StatusChangedAt e\<rparr>"

section \<open>The ports speak the domain's vocabulary\<close>

lemma isPortableID_eq [simp]: "isPortableID = portable_id"
  by (simp add: fun_eq_iff isPortableID_def portable_id_def portable_char_def maxIDLength_def
      Let_def not_less list_all_iff)

lemma Normalize_ids_eq [simp]:
  "NormalizeChainID = ParseChainID" "NormalizeNetworkID = ParseChainID"
  "NormalizeAddressPolicyID = ParseChainID"
  by (auto simp: fun_eq_iff NormalizeChainID_def NormalizeNetworkID_def NormalizeAddressPolicyID_def
      ParseChainID_def portable_id_def Let_def)

lemma NormalizeSupportedChain_eq [simp]: "NormalizeSupportedChain = ParseSupportedChain"
  by (auto simp: fun_eq_iff NormalizeSupportedChain_def ParseSupportedChain_def go_consts
      split: option.splits)

lemma Normalize_vocabularies_eq [simp]:
  "NormalizeAddressScheme = ParseAddressScheme"
  "NormalizePaymentReceiptStatus = ParsePaymentReceiptStatus"
  "NormalizePaymentReceiptTrackingFailureReason = ParsePaymentReceiptTrackingFailureReason"
  "NormalizeDerivationFailureReason = ParseDerivationFailureReason"
  by (auto simp: fun_eq_iff NormalizeAddressScheme_def ParseAddressScheme_def addressSchemes_def
      NormalizePaymentReceiptStatus_def ParsePaymentReceiptStatus_def paymentReceiptStatuses_def
      NormalizePaymentReceiptTrackingFailureReason_def ParsePaymentReceiptTrackingFailureReason_def
      paymentReceiptTrackingFailureReasons_def NormalizeDerivationFailureReason_def
      ParseDerivationFailureReason_def derivationFailureReasons_def go_consts Let_def)

text \<open>
  The reasons that a legacy or unknown text of the database is read as are reasons of the
  domain, and a reason that the program wrote is read back unchanged.
\<close>

lemma map_of_some_mem: "map_of xs k = Some v \<Longrightarrow> v \<in> set (map snd xs)"
  by (auto dest!: map_of_SomeD intro: rev_image_eqI)

lemma tracking_reason_literals:
  "list_all (\<lambda>r. r \<in> set tracking_failure_reasons)
     [''tracking_invalid'', ''latest_block_height_unavailable'', ''observation_failed'',
      ''tracking_update_failed'', ''payment_window_expired'', ''processing_failed'']"
  by code_simp

lemma if_mem: "a \<in> S \<Longrightarrow> b \<in> S \<Longrightarrow> (if c then a else b) \<in> S"
  by simp

lemma persistedTrackingFailureReason_mem:
  "persistedTrackingFailureReason raw \<in> insert [] (set tracking_failure_reasons)"
proof (cases "NormalizePaymentReceiptTrackingFailureReason (to_lower (trim_space raw))")
  case None
  show ?thesis
    unfolding persistedTrackingFailureReason_def Let_def None option.case
    using tracking_reason_literals by (intro if_mem) simp_all
next
  case (Some r)
  show ?thesis
    unfolding persistedTrackingFailureReason_def Let_def Some option.case
    using Some ParseTrackingFailureReason_mem by (intro if_mem) auto
qed

lemma persistedTrackingFailureReason_self:
  "r \<in> set tracking_failure_reasons \<Longrightarrow> persistedTrackingFailureReason r = r"
proof -
  have "list_all (\<lambda>r. persistedTrackingFailureReason r = r) tracking_failure_reasons"
    by code_simp
  then show "r \<in> set tracking_failure_reasons \<Longrightarrow> persistedTrackingFailureReason r = r"
    by (simp add: list_all_iff)
qed

lemma persistedTrackingFailureReason_Nil [simp]: "persistedTrackingFailureReason [] = []"
  by (simp add: persistedTrackingFailureReason_def)

lemma persistedDeliveryFailureReason_Nil [simp]: "persistedDeliveryFailureReason [] = []"
  by (simp add: persistedDeliveryFailureReason_def)

lemma persistedDerivationFailureReason_Nil [simp]: "persistedDerivationFailureReason [] = []"
  by (simp add: persistedDerivationFailureReason_def)

section \<open>Entities and records\<close>

lemma parse_unless_empty_stable:
  "(\<And>v. P v \<Longrightarrow> v \<noteq> [] \<Longrightarrow> parse v = Some v) \<Longrightarrow> P v \<Longrightarrow> parse_unless_empty parse v = Inr v"
  by (auto simp: parse_unless_empty_def)

lemma parse_unless_empty_Nil [simp]: "parse_unless_empty parse [] = Inr []"
  by (simp add: parse_unless_empty_def)

text \<open>The fields that a conversion from a record parses are in normal form.\<close>

definition tracking_portable :: "PaymentReceiptTracking \<Rightarrow> bool" where
  "tracking_portable t \<longleftrightarrow>
     portable_id (trk_AddressPolicyID t) \<and> portable_id (trk_Chain t) \<and> portable_id (trk_Network t) \<and>
     trk_Status t \<in> set receipt_statuses \<and>
     (trk_LastFailureReason t = [] \<or> trk_LastFailureReason t \<in> set tracking_failure_reasons)"

definition allocation_portable :: "PaymentAddressAllocation \<Rightarrow> bool" where
  "allocation_portable a \<longleftrightarrow>
     portable_id (alc_AddressPolicyID a) \<and>
     (alc_Chain a = [] \<or> ParseSupportedChain (alc_Chain a) = Some (alc_Chain a)) \<and>
     (alc_Network a = [] \<or> portable_id (alc_Network a)) \<and>
     (alc_Scheme a = [] \<or> ParseAddressScheme (alc_Scheme a) = Some (alc_Scheme a)) \<and>
     (alc_DerivationFailureReason a = [] \<or>
      alc_DerivationFailureReason a = DerivationFailureReasonDerivationFailed)"

lemma ParseDerivationFailureReason_self:
  "ParseDerivationFailureReason DerivationFailureReasonDerivationFailed =
     Some DerivationFailureReasonDerivationFailed"
  by code_simp

lemma ParseDerivationFailureReason_cases:
  "ParseDerivationFailureReason raw = Some r \<Longrightarrow> r = DerivationFailureReasonDerivationFailed"
  by (auto simp: ParseDerivationFailureReason_def derivationFailureReasons_def Let_def split: if_splits)

lemma ParseTrackingFailureReason_self:
  "r \<in> set tracking_failure_reasons \<Longrightarrow> ParsePaymentReceiptTrackingFailureReason r = Some r"
  using tracking_reason_self by (simp add: list_all_iff)

lemma tracking_record_roundtrip:
  "tracking_portable t \<Longrightarrow>
     paymentReceiptTrackingFromRecord (paymentReceiptTrackingRecordFromDomain t) = Inr t"
  by (auto simp: tracking_portable_def paymentReceiptTrackingFromRecord_def
      paymentReceiptTrackingRecordFromDomain_def NewAddressPolicyID_def ParseChainID_of_portable
      ParsePaymentReceiptStatus_of_mem ParseTrackingFailureReason_self parse_unless_empty_def)

lemma tracking_from_record_portable:
  "paymentReceiptTrackingFromRecord r = Inr t \<Longrightarrow> tracking_portable t"
  by (auto simp: tracking_portable_def paymentReceiptTrackingFromRecord_def NewAddressPolicyID_def
      parse_unless_empty_def dest: ParseChainID_portable ParsePaymentReceiptStatus_mem
      ParseTrackingFailureReason_mem split: option.splits if_splits sum.splits)

lemma allocation_record_roundtrip:
  "allocation_portable a \<Longrightarrow>
     paymentAddressAllocationFromRecord (paymentAddressAllocationRecordFromDomain a) = Inr a"
  by (auto simp: allocation_portable_def paymentAddressAllocationFromRecord_def
      paymentAddressAllocationRecordFromDomain_def NewAddressPolicyID_def ParseChainID_of_portable
      ParseDerivationFailureReason_self parse_unless_empty_def)

lemma allocation_from_record_portable:
  "paymentAddressAllocationFromRecord r = Inr a \<Longrightarrow> allocation_portable a"
  by (auto simp: allocation_portable_def paymentAddressAllocationFromRecord_def NewAddressPolicyID_def
      parse_unless_empty_def ParseDerivationFailureReason_self dest: ParseChainID_portable
      ParseSupportedChain_idem ParseAddressScheme_idem ParseDerivationFailureReason_cases
      split: option.splits if_splits sum.splits)

text \<open>
  A policy whose prefix has no trailing slash left is unchanged by a round trip. The
  normalisation of the prefix strips one slash each time, so without that condition it is
  not idempotent.
\<close>

definition policy_normal :: "AddressIssuancePolicy \<Rightarrow> bool" where
  "policy_normal p \<longleftrightarrow>
     AddressIssuancePolicy_Normalize p = p \<and> portable_id (aip_AddressPolicyID p) \<and>
     ParseSupportedChain (aip_Chain p) = Some (aip_Chain p) \<and> portable_id (aip_Network p) \<and>
     ParseAddressScheme (aip_Scheme p) = Some (aip_Scheme p)"

lemma policy_record_roundtrip:
  "policy_normal p \<Longrightarrow>
     addressIssuancePolicyFromRecord (addressIssuancePolicyRecordFromDomain p) = Inr p"
proof -
  assume n: "policy_normal p"
  have "\<lparr>aip_AddressPolicyID = aip_AddressPolicyID p, aip_Chain = aip_Chain p,
      aip_Network = aip_Network p, aip_Scheme = aip_Scheme p,
      aip_AssetReference = aip_AssetReference p, aip_Decimals = aip_Decimals p,
      aip_Enabled = aip_Enabled p,
      aip_IssuanceConfig = \<lparr>cfg_AddressSpaceRef = cfg_AddressSpaceRef (aip_IssuanceConfig p),
        cfg_IssuanceRefPrefix = cfg_IssuanceRefPrefix (aip_IssuanceConfig p)\<rparr>\<rparr> = p"
    by (cases p; cases "aip_IssuanceConfig p") simp
  note eq = this
  show ?thesis
    using n unfolding policy_normal_def
    by (simp only: addressIssuancePolicyFromRecord_def NewAddressPolicyID_def parse_id_eq
        addressIssuancePolicyRecordFromDomain_def Let_def ParseChainID_of_portable
        AddressIssuancePolicyRecord.simps option.case sum.case eq)
qed

lemma prefix_normalisation_strips_one_slash:
  "normalizeIssuanceRefPrefix ''m//'' = ''m/''"
  "normalizeIssuanceRefPrefix (normalizeIssuanceRefPrefix ''m//'') = ''m''"
  by code_simp+

lemma policy_from_record_fields:
  assumes "addressIssuancePolicyFromRecord r = Inr p"
  shows "portable_id (aip_AddressPolicyID p)"
    and "ParseSupportedChain (aip_Chain p) = Some (aip_Chain p)"
    and "portable_id (aip_Network p)"
    and "ParseAddressScheme (aip_Scheme p) = Some (aip_Scheme p)"
    and "aip_Enabled p = ipr_Enabled r"
    and "aip_Decimals p = ipr_Decimals r"
    and "ParseChainID (ipr_AddressPolicyID r) = Some (aip_AddressPolicyID p)"
    and "ParseSupportedChain (ipr_Chain r) = Some (aip_Chain p)"
  using assms
  by (auto simp: addressIssuancePolicyFromRecord_def NewAddressPolicyID_def
      AddressPolicyID_Normalize_portable ParseChainID_portable ParseSupportedChain_idem
      ParseChainID_idem ParseAddressScheme_idem AddressScheme_Normalize_parsed
      split: option.splits)

section \<open>What the delivery resolution returns\<close>

lemma ResolveDeliveryFailure_Inr_iff:
  "ResolveDeliveryFailure nid cur mx now delay DeliveryFailureReasonDeliveryFailed = Inr r \<longleftrightarrow>
     0 < sint nid \<and> 0 \<le> sint cur \<and> 0 < sint mx \<and> now \<noteq> 0 \<and>
     (if sint mx \<le> sint (cur + 1)
      then r = \<lparr>res_NotificationID = nid, res_Status = DeliveryStatusFailed, res_Attempts = cur + 1,
               res_LastFailureReason = DeliveryFailureReasonDeliveryFailed,
               res_NextAttemptAt = None, res_DeliveredAt = None\<rparr>
      else 0 < sint delay \<and>
           r = \<lparr>res_NotificationID = nid, res_Status = DeliveryStatusPending, res_Attempts = cur + 1,
               res_LastFailureReason = DeliveryFailureReasonDeliveryFailed,
               res_NextAttemptAt = Some (time_add now delay), res_DeliveredAt = None\<rparr>)"
proof -
  have "NormalizeDeliveryFailureReason DeliveryFailureReasonDeliveryFailed =
      Some DeliveryFailureReasonDeliveryFailed"
    by code_simp
  then show ?thesis
    by (auto simp: ResolveDeliveryFailure_def time_is_zero_def Let_def not_le not_less)
qed

lemma MarkSent_Inr_iff:
  "MarkPaymentReceiptStatusNotificationSent nid at = Inr r \<longleftrightarrow>
     0 < sint nid \<and> at \<noteq> 0 \<and>
     r = \<lparr>res_NotificationID = nid, res_Status = DeliveryStatusSent, res_Attempts = 0,
         res_LastFailureReason = [], res_NextAttemptAt = None, res_DeliveredAt = Some at\<rparr>"
  by (auto simp: MarkPaymentReceiptStatusNotificationSent_def time_is_zero_def not_le)

lemma delivery_status_neq [simp]:
  "DeliveryStatusPending \<noteq> DeliveryStatusSent" "DeliveryStatusSent \<noteq> DeliveryStatusPending"
  "DeliveryStatusPending \<noteq> DeliveryStatusFailed" "DeliveryStatusFailed \<noteq> DeliveryStatusPending"
  "DeliveryStatusSent \<noteq> DeliveryStatusFailed" "DeliveryStatusFailed \<noteq> DeliveryStatusSent"
  by (simp_all add: go_consts)

text \<open>
  The attempt counter is an \<open>int32\<close>: a notification that is still below its limit can
  never wrap it, since the limit itself is an \<open>int32\<close>.
\<close>

lemma attempts_no_wrap:
  assumes "0 \<le> sint (cur :: int32)" and "sint cur < sint (mx :: int32)"
  shows "sint (cur + 1) = sint cur + 1"
  using assms sint32_bounds [of mx] by (intro sint32_succ) simp

end
