(* ===== verification/Payment_Lifecycle.thy ===== *)
theory Payment_Lifecycle
  imports Ports
begin

text \<open>
  The life of a receipt tracking as a step relation. A step is what one poll of the tracking
  does to the entity (\<open>processTracking\<close> of \<open>run_receipt_polling_cycle_use_case.go\<close>): an
  observation is applied and the payment window is checked, or a failure reason is noted. Only
  trackings in a pollable status are polled. The abstract machine below it has the six statuses
  of \<open>valueobjects/payment_receipt_status.go\<close> as its states; the lemmas give the simulation,
  the invariant of every reachable tracking and what never changes along a run.
\<close>

section \<open>Steps and runs\<close>

inductive poll_step :: "PaymentReceiptTracking \<Rightarrow> PaymentReceiptTracking \<Rightarrow> bool" where
  poll_observed:
    "trk_Status t \<in> set PollablePaymentReceiptStatuses \<Longrightarrow> ApplyObservation t ob now = Inr u \<Longrightarrow>
     ExpireIfDue u now = Inr (v, expired) \<Longrightarrow> poll_step t v"
| poll_failed:
    "trk_Status t \<in> set PollablePaymentReceiptStatuses \<Longrightarrow>
     reason \<in> set tracking_failure_reasons \<Longrightarrow> MarkPollingFailure t reason = Inr v \<Longrightarrow> poll_step t v"

inductive_cases poll_stepE: "poll_step t v"

inductive poll_run :: "PaymentReceiptTracking \<Rightarrow> PaymentReceiptTracking \<Rightarrow> bool" where
  run_refl: "poll_run t t"
| run_step: "poll_run t u \<Longrightarrow> poll_step u v \<Longrightarrow> poll_run t v"

lemma poll_run_one: "poll_step t u \<Longrightarrow> poll_run t u"
  by (blast intro: poll_run.intros)

lemma poll_run_trans: "poll_run t u \<Longrightarrow> poll_run u v \<Longrightarrow> poll_run t v"
  by (rotate_tac, induction rule: poll_run.induct) (auto intro: poll_run.intros)

lemma pollable_set:
  "set PollablePaymentReceiptStatuses =
     {PaymentReceiptStatusWatching, PaymentReceiptStatusPartiallyPaid,
      PaymentReceiptStatusPaidUnconfirmed, PaymentReceiptStatusPaidUnconfirmedReverted}"
  by (simp add: PollablePaymentReceiptStatuses_def)

text \<open>A step is an observation with its window check, or a note of failure.\<close>

lemma poll_step_cases:
  assumes "poll_step t v"
  obtains ob now where "observation_valid ob" and "now \<noteq> 0"
      and "v = (if trk_PaidAt (observed_tracking t ob now) = None \<and>
                   IsExpired (observed_tracking t ob now) now
                then (observed_tracking t ob now)\<lparr>trk_Status := PaymentReceiptStatusFailedExpired,
                       trk_LastFailureReason := ReasonPaymentWindowExpired\<rparr>
                else observed_tracking t ob now)"
    | reason where "reason \<in> set tracking_failure_reasons" and "v = t\<lparr>trk_LastFailureReason := reason\<rparr>"
  using assms
proof (cases rule: poll_step.cases)
  case (poll_observed ob now u expired)
  then show ?thesis
    using that(1) by (auto simp: ApplyObservation_Inr ExpireIfDue_cases split: if_splits)
next
  case (poll_failed reason)
  then show ?thesis
    using that(2) by (auto simp: MarkPollingFailure_def split: if_splits)
qed

lemma poll_reasons_mem [simp]:
  "ReasonTrackingInvalid \<in> set tracking_failure_reasons"
  "ReasonLatestBlockHeightUnavailable \<in> set tracking_failure_reasons"
  "ReasonObservationFailed \<in> set tracking_failure_reasons"
  "ReasonTrackingUpdateFailed \<in> set tracking_failure_reasons"
  "ReasonPaymentWindowExpired \<in> set tracking_failure_reasons"
  by (simp_all add: tracking_failure_reasons_def paymentReceiptTrackingFailureReasons_def)

section \<open>The invariant of every reachable tracking\<close>

lemma poll_step_wf: "poll_step t v \<Longrightarrow> wf_tracking t \<Longrightarrow> wf_tracking v"
  by (auto elim!: poll_stepE dest: wf_ApplyObservation wf_ExpireIfDue wf_MarkPollingFailure)

lemma poll_run_wf: "poll_run t v \<Longrightarrow> wf_tracking t \<Longrightarrow> wf_tracking v"
  by (induction rule: poll_run.induct) (auto dest: poll_step_wf)

section \<open>What a run never changes\<close>

definition receipt_terms ::
  "PaymentReceiptTracking \<Rightarrow> int64 \<times> int64 \<times> string \<times> string \<times> string \<times> string \<times> string \<times> gotime \<times>
     int64 \<times> int32 \<times> gotime option" where
  "receipt_terms t =
     (trk_TrackingID t, trk_PaymentAddressID t, trk_AddressPolicyID t, trk_Chain t, trk_Network t,
      trk_Address t, trk_AssetReference t, trk_IssuedAt t, trk_ExpectedAmountMinor t,
      trk_RequiredConfirmations t, trk_ExpiresAt t)"

lemma poll_step_terms: "poll_step t v \<Longrightarrow> receipt_terms v = receipt_terms t"
  by (erule poll_step_cases) (simp_all add: receipt_terms_def)

lemma poll_run_terms: "poll_run t v \<Longrightarrow> receipt_terms v = receipt_terms t"
  by (induction rule: poll_run.induct) (auto dest: poll_step_terms)

lemma poll_step_milestones:
  assumes "poll_step t v"
  shows "trk_FirstObservedAt t = Some a \<Longrightarrow> trk_FirstObservedAt v = Some a"
    and "trk_PaidAt t = Some b \<Longrightarrow> trk_PaidAt v = Some b"
    and "trk_ConfirmedAt t = Some c \<Longrightarrow> trk_ConfirmedAt v = Some c"
  using assms by (auto elim!: poll_step_cases)

lemma poll_run_milestones:
  assumes "poll_run t v"
  shows "(trk_FirstObservedAt t = Some a \<longrightarrow> trk_FirstObservedAt v = Some a) \<and>
    (trk_PaidAt t = Some b \<longrightarrow> trk_PaidAt v = Some b) \<and>
    (trk_ConfirmedAt t = Some c \<longrightarrow> trk_ConfirmedAt v = Some c)"
  using assms by (induction rule: poll_run.induct) (auto dest: poll_step_milestones)

section \<open>The abstract status machine\<close>

datatype phase = Watching | Partial | Paid | Reverted | Confirmed | Expired

definition phase_of :: "PaymentReceiptStatus \<Rightarrow> phase option" where
  "phase_of st =
     map_of [(PaymentReceiptStatusWatching, Watching), (PaymentReceiptStatusPartiallyPaid, Partial),
             (PaymentReceiptStatusPaidUnconfirmed, Paid),
             (PaymentReceiptStatusPaidUnconfirmedReverted, Reverted),
             (PaymentReceiptStatusPaidConfirmed, Confirmed),
             (PaymentReceiptStatusFailedExpired, Expired)] st"

text \<open>
  Before the first full payment everything but a reversion is possible; afterwards the window
  no longer matters; a confirmed or expired receipt is final.
\<close>

fun phase_next :: "phase \<Rightarrow> phase list" where
  "phase_next Watching = [Watching, Partial, Paid, Confirmed, Expired]"
| "phase_next Partial = [Watching, Partial, Paid, Confirmed, Expired]"
| "phase_next Paid = [Paid, Reverted, Confirmed]"
| "phase_next Reverted = [Paid, Reverted, Confirmed]"
| "phase_next Confirmed = []"
| "phase_next Expired = []"

inductive phase_run :: "phase \<Rightarrow> phase \<Rightarrow> bool" where
  phase_refl: "phase_run p p"
| phase_step: "phase_run p q \<Longrightarrow> r \<in> set (phase_next q) \<Longrightarrow> phase_run p r"

lemma phase_of_simps [simp]:
  "phase_of PaymentReceiptStatusWatching = Some Watching"
  "phase_of PaymentReceiptStatusPartiallyPaid = Some Partial"
  "phase_of PaymentReceiptStatusPaidUnconfirmed = Some Paid"
  "phase_of PaymentReceiptStatusPaidUnconfirmedReverted = Some Reverted"
  "phase_of PaymentReceiptStatusPaidConfirmed = Some Confirmed"
  "phase_of PaymentReceiptStatusFailedExpired = Some Expired"
  by (simp_all add: phase_of_def)

lemma phase_of_wf: "wf_tracking t \<Longrightarrow> \<exists>p. phase_of (trk_Status t) = Some p"
  by (drule wf_tracking_status) (auto simp: receipt_statuses_set)

text \<open>The phase of a polled tracking is settled by whether it was ever fully paid.\<close>

lemma pollable_phase:
  assumes "wf_tracking t" and "trk_Status t \<in> set PollablePaymentReceiptStatuses"
  shows "if trk_PaidAt t = None
    then phase_of (trk_Status t) = Some Watching \<or> phase_of (trk_Status t) = Some Partial
    else phase_of (trk_Status t) = Some Paid \<or> phase_of (trk_Status t) = Some Reverted"
  using assms by (auto simp: pollable_set wf_tracking_def status_consistent_def Let_def)

lemma observed_phase:
  assumes "observation_valid ob"
  shows "phase_of (trk_Status (observed_tracking t ob now)) \<in>
    Some ` (if trk_PaidAt t = None then {Watching, Partial, Paid, Confirmed} else {Paid, Reverted, Confirmed})"
  by (auto simp: observed_tracking_status decidePaymentReceiptStatus_def)

lemma poll_step_phase:
  assumes s: "poll_step t v" and wf: "wf_tracking t"
  shows "\<exists>p q. phase_of (trk_Status t) = Some p \<and> phase_of (trk_Status v) = Some q \<and> q \<in> set (phase_next p)"
proof -
  have pollable: "trk_Status t \<in> set PollablePaymentReceiptStatuses"
    using s by (cases rule: poll_step.cases)
  note p = pollable_phase [OF wf pollable]
  show ?thesis
    using s
  proof (cases rule: poll_step_cases)
    case (1 ob now)
    show ?thesis
      using observed_phase [OF 1(1), of t now] p unfolding 1(3) by (auto split: if_splits)
  next
    case (2 reason)
    then show ?thesis
      using p by (auto split: if_splits)
  qed
qed

lemma poll_run_phase:
  assumes "poll_run t v" and "wf_tracking t"
  shows "\<exists>p q. phase_of (trk_Status t) = Some p \<and> phase_of (trk_Status v) = Some q \<and> phase_run p q"
  using assms
proof (induction rule: poll_run.induct)
  case (run_refl t)
  then show ?case
    using phase_of_wf [of t] by (auto intro: phase_refl)
next
  case (run_step t u v)
  then obtain p q where "phase_of (trk_Status t) = Some p" "phase_of (trk_Status u) = Some q" "phase_run p q"
    by blast
  moreover obtain q' r where "phase_of (trk_Status u) = Some q'" "phase_of (trk_Status v) = Some r"
    "r \<in> set (phase_next q')"
    using poll_step_phase [OF run_step(2) poll_run_wf [OF run_step(1,4)]] by blast
  ultimately show ?case
    by (auto intro: phase_step)
qed

lemma phase_run_paid: "phase_run p q \<Longrightarrow> p \<in> {Paid, Reverted, Confirmed} \<Longrightarrow> q \<in> {Paid, Reverted, Confirmed}"
  by (induction rule: phase_run.induct) auto

lemma phase_run_final: "phase_run p q \<Longrightarrow> phase_next p = [] \<Longrightarrow> q = p"
  by (induction rule: phase_run.induct) auto

text \<open>What a step saves can be written to a record and read back.\<close>

lemma poll_step_portable:
  assumes s: "poll_step t v" and p: "tracking_portable t"
  shows "tracking_portable v"
proof -
  have st: "trk_Status (observed_tracking t ob now) \<in> set receipt_statuses" for ob now
    by (auto simp: observed_tracking_status decidePaymentReceiptStatus_def receipt_statuses_set)
  show ?thesis
    using s
  proof (cases rule: poll_step_cases)
    case (1 ob now)
    then show ?thesis
      using p st [of ob now] by (simp add: tracking_portable_def receipt_statuses_set)
  next
    case (2 reason)
    then show ?thesis
      using p by (simp add: tracking_portable_def)
  qed
qed

end
