(* ===== verification/Receipt_Properties.thy ===== *)
theory Receipt_Properties
  imports Payment_Lifecycle
begin

text \<open>
  The properties of a payment receipt on its own: what an observation does to a tracking, when
  a tracking expires, and what is true of every tracking that polls can lead to. The samples
  at the top are the inputs of the witnesses.
\<close>

definition sample_issued :: PaymentAddressAllocation where
  "sample_issued = \<lparr>alc_PaymentAddressID = 1, alc_AddressPolicyID = ''btc-main'', alc_SlotIndex = 0,
     alc_ExpectedAmountMinor = 5, alc_CustomerReference = [],
     alc_Status = PaymentAddressAllocationStatusIssued, alc_Chain = ''bitcoin'',
     alc_Network = ''mainnet'', alc_Scheme = ''taproot'', alc_AssetReference = [],
     alc_Address = ''bc1q'', alc_DerivationFailureReason = []\<rparr>"

definition sample_tracking :: PaymentReceiptTracking where
  "sample_tracking = \<lparr>trk_TrackingID = 0, trk_PaymentAddressID = 1,
     trk_AddressPolicyID = ''btc-main'', trk_Chain = ''bitcoin'', trk_Network = ''mainnet'',
     trk_Address = ''bc1q'', trk_AssetReference = [], trk_IssuedAt = 10,
     trk_ExpectedAmountMinor = 5, trk_RequiredConfirmations = 2,
     trk_Status = PaymentReceiptStatusWatching, trk_ObservedTotalMinor = 0,
     trk_ConfirmedTotalMinor = 0, trk_UnconfirmedTotalMinor = 0, trk_LastObservedBlockHeight = 0,
     trk_FirstObservedAt = None, trk_PaidAt = None, trk_ConfirmedAt = None,
     trk_ExpiresAt = Some 100, trk_LastFailureReason = []\<rparr>"

definition sample_observation :: PaymentReceiptObservation where
  "sample_observation = \<lparr>obs_ObservedTotalMinor = 5, obs_ConfirmedTotalMinor = 0,
     obs_UnconfirmedTotalMinor = 5, obs_LatestBlockHeight = 7\<rparr>"

definition sample_paid :: PaymentReceiptTracking where
  "sample_paid = observed_tracking sample_tracking sample_observation 20"

lemma sample_issue: "IssueReceiptTracking sample_issued 10 2 100 = Inr sample_tracking"
  by code_simp

lemma sample_observed: "ApplyObservation sample_tracking sample_observation 20 = Inr sample_paid"
  by code_simp

lemma sample_window: "ExpireIfDue sample_paid 20 = Inr (sample_paid, False)"
  by code_simp

lemma sample_step: "poll_step sample_tracking sample_paid"
proof (rule poll_observed [OF _ sample_observed sample_window])
  show "trk_Status sample_tracking \<in> set PollablePaymentReceiptStatuses"
    by code_simp
qed

lemma sample_wf: "wf_tracking sample_tracking" "wf_tracking sample_paid"
  using wf_IssueReceiptTracking [OF sample_issue] poll_step_wf [OF sample_step] by auto

lemma sample_paid_at: "trk_PaidAt sample_paid = Some 20"
  by code_simp

section \<open>Observations\<close>


text \<open>
  Applying the same observation a second time, at whatever later time, changes nothing:
  the amounts, the status and the first-seen, paid and confirmed times all stay as the first
  application left them.
\<close>

theorem observation_idempotent:
  assumes "ApplyObservation t ob now = Inr u" and "now' \<noteq> 0"
  shows "ApplyObservation u ob now' = Inr u"
  using assms by (auto simp: ApplyObservation_Inr observed_tracking_again)

lemma observation_idempotent_witness:
  "ApplyObservation sample_paid sample_observation 30 = Inr sample_paid"
  by (rule observation_idempotent [OF sample_observed]) simp

section \<open>The payment window\<close>



section \<open>The life of a receipt\<close>

text \<open>
  C21: every tracking that polls can lead to, from the one an issued allocation starts with, is
  well formed (its status agrees with its amounts and its times, its totals add up and are
  non-negative), and its terms (identity, policy, chain, network, address, asset, issue time,
  expected amount, confirmations and expiry) are those it was issued with.
\<close>

theorem receipt_invariant:
  assumes "IssueReceiptTracking a at conf expires = Inr t" and "poll_run t v"
  shows "wf_tracking v \<and> receipt_terms v = receipt_terms t"
  using wf_IssueReceiptTracking [OF assms(1)] poll_run_wf [OF assms(2)] poll_run_terms [OF assms(2)]
  by simp

lemma receipt_invariant_witness:
  "wf_tracking sample_paid \<and> receipt_terms sample_paid = receipt_terms sample_tracking"
  by (rule receipt_invariant [OF sample_issue poll_run_one [OF sample_step]])

text \<open>
  C9: the polled tracking refines a six-phase machine. From the start phase, watching, the
  status of every tracking that polls lead to is a phase the machine reaches: an unpaid receipt
  moves among watching and partially paid, may be paid or expire; a paid one moves among paid
  and reverted or is confirmed; confirmed and expired are final.
\<close>

theorem receipt_refines_phases:
  assumes "IssueReceiptTracking a at conf expires = Inr t" and "poll_run t v"
  shows "\<exists>q. phase_of (trk_Status v) = Some q \<and> phase_run Watching q"
proof -
  have "trk_Status t = PaymentReceiptStatusWatching"
    using assms(1) by (auto simp: IssueReceiptTracking_Inr_iff NewPaymentReceiptTracking_Inr_iff)
  then show ?thesis
    using poll_run_phase [OF assms(2) wf_IssueReceiptTracking [OF assms(1)]] by auto
qed

lemma receipt_refines_phases_witness:
  "\<exists>q. phase_of (trk_Status sample_paid) = Some q \<and> phase_run Watching q"
  by (rule receipt_refines_phases [OF sample_issue poll_run_one [OF sample_step]])

text \<open>
  C8: a receipt that has been paid in full once never looks unpaid again. Whatever polls
  follow, the time of payment stays what it was and the status is paid, reverted or confirmed,
  so a reorganisation of the chain never expires a paid receipt.
\<close>

theorem paid_receipt_stays_paid:
  assumes "wf_tracking t" and "trk_PaidAt t = Some p" and "poll_run t v"
  shows "trk_PaidAt v = Some p \<and>
    trk_Status v \<in> {PaymentReceiptStatusPaidUnconfirmed, PaymentReceiptStatusPaidUnconfirmedReverted,
                     PaymentReceiptStatusPaidConfirmed}"
proof -
  have paid: "trk_PaidAt v = Some p"
    using poll_run_milestones [OF assms(3)] assms(2) by blast
  have "status_consistent v"
    using poll_run_wf [OF assms(3,1)] by (simp add: wf_tracking_def)
  then show ?thesis
    using paid by (auto simp: status_consistent_def Let_def split: if_splits)
qed

lemma paid_receipt_stays_paid_witness:
  "trk_PaidAt sample_paid = Some 20 \<and>
   trk_Status sample_paid \<in> {PaymentReceiptStatusPaidUnconfirmed,
     PaymentReceiptStatusPaidUnconfirmedReverted, PaymentReceiptStatusPaidConfirmed}"
  by (rule paid_receipt_stays_paid [OF sample_wf(2) sample_paid_at run_refl])

end
