(* ===== verification/Sql_Db.thy ===== *)
theory Sql_Db
  imports Ports
begin

text \<open>
  The database below the stores: the tables that the migrations of
  \<open>deployments/postgresql/migrations\<close> leave behind, the effect of one SQL statement and
  the unit of work of \<open>adapters/outbound/persistence/postgres/unit_of_work.go\<close>. A table is
  the list of its rows, \<open>NULL\<close> is \<open>None\<close>, and a statement fails when it would break a
  constraint of the schema (a CHECK, UNIQUE, NOT NULL or foreign key). What the source cannot
  know is a parameter of the environment: whether a statement fails for any other reason
  (\<open>env_fault\<close>), which rows another session holds locked (\<open>env_locked\<close>, read by
  \<open>SKIP LOCKED\<close>), how a commit ends (\<open>env_commit\<close>), what other sessions committed before a
  transaction starts (\<open>env_others\<close>) and the clocks. A transaction is atomic: the row
  locks it takes keep others away from the rows it writes. Sequences are not rolled back.
  Columns that no statement reads (\<open>created_at\<close>, \<open>updated_at\<close>) and the microsecond
  resolution of a timestamp are left out.
\<close>

section \<open>Tables\<close>

record AllocRow =
  al_id :: int64
  al_policy :: string
  al_space_ref :: string
  al_slot :: int
  al_expected :: int64
  al_customer :: "string option"
  al_chain :: "string option"
  al_network :: "string option"
  al_scheme :: "string option"
  al_asset :: "string option"
  al_address :: "string option"
  al_sweep :: "string option"
  al_status :: string
  al_failure :: "string option"
  al_reserved_at :: gotime
  al_issued_at :: "gotime option"

record CursorRow =
  cu_policy :: string
  cu_space_ref :: string
  cu_next :: int

record TrackRow =
  pt_id :: int64
  pt_payment_address_id :: int64
  pt_policy :: string
  pt_chain :: string
  pt_network :: string
  pt_address :: string
  pt_asset :: "string option"
  pt_issued_at :: "gotime option"
  pt_expires_at :: gotime
  pt_expected :: int64
  pt_confirmations :: int32
  pt_status :: string
  pt_observed :: int64
  pt_confirmed :: int64
  pt_unconfirmed :: int64
  pt_height :: int64
  pt_first_observed_at :: "gotime option"
  pt_paid_at :: "gotime option"
  pt_confirmed_at :: "gotime option"
  pt_last_error :: "string option"
  pt_last_polled_at :: "gotime option"
  pt_next_poll_at :: gotime
  pt_lease_until :: "gotime option"

record NotifRow =
  nt_id :: int64
  nt_payment_address_id :: int64
  nt_customer :: "string option"
  nt_previous :: string
  nt_current :: string
  nt_observed :: int64
  nt_confirmed :: int64
  nt_unconfirmed :: int64
  nt_changed_at :: gotime
  nt_status :: string
  nt_attempts :: int32
  nt_next_attempt_at :: gotime
  nt_lease_until :: "gotime option"
  nt_last_error :: "string option"
  nt_delivered_at :: "gotime option"

record KeyRow =
  ik_chain :: string
  ik_key :: string
  ik_policy :: string
  ik_expected :: int64
  ik_customer :: "string option"
  ik_payment_address_id :: "int64 option"

record DB =
  db_allocations :: "AllocRow list"
  db_cursors :: "CursorRow list"
  db_trackings :: "TrackRow list"
  db_notifications :: "NotifRow list"
  db_keys :: "KeyRow list"
  db_alloc_seq :: nat
  db_track_seq :: nat
  db_notif_seq :: nat

definition empty_db :: DB where
  "empty_db = \<lparr>db_allocations = [], db_cursors = [], db_trackings = [], db_notifications = [],
     db_keys = [], db_alloc_seq = 0, db_track_seq = 0, db_notif_seq = 0\<rparr>"

section \<open>Schema constraints\<close>

definition nonblank :: "string option \<Rightarrow> bool" where
  "nonblank v = (case v of None \<Rightarrow> True | Some s \<Rightarrow> list_ex (\<lambda>c. c \<noteq> CHR '' '') s)"

definition alloc_row_ok :: "AllocRow \<Rightarrow> bool" where
  "alloc_row_ok r \<longleftrightarrow>
     0 \<le> al_slot r \<and> al_slot r \<le> 2147483647 \<and> 0 < sint (al_expected r) \<and>
     al_status r \<in> set [''reserved'', ''issued'', ''derivation_failed''] \<and>
     (al_status r = ''issued'' \<longrightarrow> al_sweep r \<noteq> None) \<and> nonblank (al_asset r)"

definition alloc_address_key :: "AllocRow \<Rightarrow> (string \<times> string) option" where
  "alloc_address_key r =
     (case (al_chain r, al_address r) of (Some c, Some a) \<Rightarrow> Some (c, a) | _ \<Rightarrow> None)"

definition allocations_ok :: "AllocRow list \<Rightarrow> bool" where
  "allocations_ok rows \<longleftrightarrow>
     list_all alloc_row_ok rows \<and> distinct (map al_id rows) \<and>
     distinct (map (\<lambda>r. (al_policy r, al_space_ref r, al_slot r)) rows) \<and>
     distinct (List.map_filter alloc_address_key rows)"

definition cursors_ok :: "CursorRow list \<Rightarrow> bool" where
  "cursors_ok rows \<longleftrightarrow>
     list_all (\<lambda>r. 0 \<le> cu_next r \<and> cu_next r \<le> 2147483648) rows \<and>
     distinct (map (\<lambda>r. (cu_policy r, cu_space_ref r)) rows)"

definition receipt_status_names :: "string list" where
  "receipt_status_names =
     [''watching'', ''partially_paid'', ''paid_unconfirmed'', ''paid_unconfirmed_reverted'',
      ''paid_confirmed'', ''failed_expired'']"

definition track_row_ok :: "AllocRow list \<Rightarrow> TrackRow \<Rightarrow> bool" where
  "track_row_ok allocs r \<longleftrightarrow>
     pt_payment_address_id r \<in> set (map al_id allocs) \<and>
     0 < sint (pt_expected r) \<and> 1 \<le> sint (pt_confirmations r) \<and>
     pt_status r \<in> set receipt_status_names \<and>
     0 \<le> sint (pt_observed r) \<and> 0 \<le> sint (pt_confirmed r) \<and> 0 \<le> sint (pt_unconfirmed r) \<and>
     0 \<le> sint (pt_height r) \<and> nonblank (pt_asset r)"

definition trackings_ok :: "AllocRow list \<Rightarrow> TrackRow list \<Rightarrow> bool" where
  "trackings_ok allocs rows \<longleftrightarrow>
     list_all (track_row_ok allocs) rows \<and> distinct (map pt_id rows) \<and>
     distinct (map pt_payment_address_id rows) \<and>
     distinct (map (\<lambda>r. (pt_chain r, pt_address r)) rows)"

definition notif_row_ok :: "AllocRow list \<Rightarrow> NotifRow \<Rightarrow> bool" where
  "notif_row_ok allocs r \<longleftrightarrow>
     nt_payment_address_id r \<in> set (map al_id allocs) \<and>
     nt_previous r \<in> set receipt_status_names \<and> nt_current r \<in> set receipt_status_names \<and>
     0 \<le> sint (nt_observed r) \<and> 0 \<le> sint (nt_confirmed r) \<and> 0 \<le> sint (nt_unconfirmed r) \<and>
     nt_status r \<in> set [''pending'', ''sent'', ''failed''] \<and> 0 \<le> sint (nt_attempts r)"

definition notifications_ok :: "AllocRow list \<Rightarrow> NotifRow list \<Rightarrow> bool" where
  "notifications_ok allocs rows \<longleftrightarrow>
     list_all (notif_row_ok allocs) rows \<and> distinct (map nt_id rows)"

definition key_row_ok :: "AllocRow list \<Rightarrow> KeyRow \<Rightarrow> bool" where
  "key_row_ok allocs r \<longleftrightarrow>
     0 < sint (ik_expected r) \<and>
     (case ik_payment_address_id r of None \<Rightarrow> True | Some i \<Rightarrow> i \<in> set (map al_id allocs))"

definition key_id :: "KeyRow \<Rightarrow> string \<times> string" where
  "key_id r = (ik_chain r, ik_key r)"

definition keys_ok :: "AllocRow list \<Rightarrow> KeyRow list \<Rightarrow> bool" where
  "keys_ok allocs rows \<longleftrightarrow> list_all (key_row_ok allocs) rows \<and> distinct (map key_id rows)"

definition schema_ok :: "DB \<Rightarrow> bool" where
  "schema_ok d \<longleftrightarrow>
     allocations_ok (db_allocations d) \<and> cursors_ok (db_cursors d) \<and>
     trackings_ok (db_allocations d) (db_trackings d) \<and>
     notifications_ok (db_allocations d) (db_notifications d) \<and>
     keys_ok (db_allocations d) (db_keys d)"

section \<open>Statements\<close>

datatype sql_error = UniqueViolation string | SqlFailed

type_synonym 'a stmt = "gotime \<Rightarrow> DB \<Rightarrow> (sql_error + 'a) \<times> DB"

text \<open>Writing a table back, when the new rows satisfy its constraints.\<close>

definition put_allocations :: "AllocRow list \<Rightarrow> 'a \<Rightarrow> DB \<Rightarrow> (sql_error + 'a) \<times> DB" where
  "put_allocations rows x d =
     (if allocations_ok rows then (Inr x, d\<lparr>db_allocations := rows\<rparr>) else (Inl SqlFailed, d))"

definition put_cursors :: "CursorRow list \<Rightarrow> 'a \<Rightarrow> DB \<Rightarrow> (sql_error + 'a) \<times> DB" where
  "put_cursors rows x d =
     (if cursors_ok rows then (Inr x, d\<lparr>db_cursors := rows\<rparr>) else (Inl SqlFailed, d))"

definition put_trackings :: "TrackRow list \<Rightarrow> 'a \<Rightarrow> DB \<Rightarrow> (sql_error + 'a) \<times> DB" where
  "put_trackings rows x d =
     (if trackings_ok (db_allocations d) rows then (Inr x, d\<lparr>db_trackings := rows\<rparr>)
      else (Inl SqlFailed, d))"

definition put_notifications :: "NotifRow list \<Rightarrow> 'a \<Rightarrow> DB \<Rightarrow> (sql_error + 'a) \<times> DB" where
  "put_notifications rows x d =
     (if notifications_ok (db_allocations d) rows then (Inr x, d\<lparr>db_notifications := rows\<rparr>)
      else (Inl SqlFailed, d))"

definition put_keys :: "KeyRow list \<Rightarrow> 'a \<Rightarrow> DB \<Rightarrow> (sql_error + 'a) \<times> DB" where
  "put_keys rows x d =
     (if keys_ok (db_allocations d) rows then (Inr x, d\<lparr>db_keys := rows\<rparr>)
      else (Inl SqlFailed, d))"

text \<open>\<open>UPDATE ... WHERE\<close>: the new rows and the number of rows affected.\<close>

definition update_where :: "('r \<Rightarrow> bool) \<Rightarrow> ('r \<Rightarrow> 'r) \<Rightarrow> 'r list \<Rightarrow> 'r list" where
  "update_where p f rows = map (\<lambda>r. if p r then f r else r) rows"

definition count_where :: "('r \<Rightarrow> bool) \<Rightarrow> 'r list \<Rightarrow> nat" where
  "count_where p rows = length (filter p rows)"

text \<open>The next value of a \<open>BIGSERIAL\<close> column; a sequence fails beyond its maximum.\<close>

definition next_serial :: "nat \<Rightarrow> int64 option" where
  "next_serial s = (if int s < 2 ^ 63 - 1 then Some (word_of_int (int s + 1)) else None)"

section \<open>Sessions and transactions\<close>

datatype commit_outcome = Committed | Aborted | CommittedUnacknowledged

record Env =
  env_clock :: "nat \<Rightarrow> gotime"
  env_now :: "nat \<Rightarrow> gotime"
  env_fault :: "nat \<Rightarrow> bool"
  env_locked :: "nat \<Rightarrow> int64 \<Rightarrow> bool"
  env_commit :: "nat \<Rightarrow> commit_outcome"
  env_others :: "nat \<Rightarrow> DB \<Rightarrow> DB"

text \<open>
  The world is the database, the number of external steps taken so far (the position in
  the oracles of the environment) and the \<open>NOW()\<close> of the open transaction.
  \<open>env_clock\<close> is the clock of the process (\<open>Clock.NowUTC\<close>), \<open>env_now\<close> the clock of the
  database.
\<close>

record World =
  w_db :: DB
  w_step :: nat
  w_now :: gotime

definition tick :: "World \<Rightarrow> World" where
  "tick w = w\<lparr>w_step := Suc (w_step w)\<rparr>"

definition exec_sql :: "Env \<Rightarrow> 'a stmt \<Rightarrow> World \<Rightarrow> (sql_error + 'a) \<times> World" where
  "exec_sql env stmt w =
     (if env_fault env (w_step w) then (Inl SqlFailed, tick w)
      else case stmt (w_now w) (w_db w) of (r, d) \<Rightarrow> (r, (tick w)\<lparr>w_db := d\<rparr>))"

definition read_clock :: "Env \<Rightarrow> World \<Rightarrow> gotime \<times> World" where
  "read_clock env w = (env_clock env (w_step w), tick w)"

definition keep_sequences :: "DB \<Rightarrow> DB \<Rightarrow> DB" where
  "keep_sequences before after =
     before\<lparr>db_alloc_seq := db_alloc_seq after, db_track_seq := db_track_seq after,
            db_notif_seq := db_notif_seq after\<rparr>"

definition begin_tx :: "Env \<Rightarrow> World \<Rightarrow> World" where
  "begin_tx env w =
     (tick w)\<lparr>w_db := env_others env (w_step w) (w_db w), w_now := env_now env (w_step w)\<rparr>"

definition WithinTransaction ::
  "Env \<Rightarrow> (World \<Rightarrow> 'a result \<times> World) \<Rightarrow> World \<Rightarrow> 'a result \<times> World" where
  "WithinTransaction env fn w =
     (if env_fault env (w_step w) then (Inl (OutUow out_ErrUnitOfWorkFailed), tick w)
      else
        (let w1 = begin_tx env w
         in case fn w1 of
             (Inl err, w2) \<Rightarrow> (Inl err, w2\<lparr>w_db := keep_sequences (w_db w1) (w_db w2)\<rparr>)
           | (Inr x, w2) \<Rightarrow>
               (case env_commit env (w_step w2) of
                  Committed \<Rightarrow> (Inr x, tick w2)
                | Aborted \<Rightarrow>
                    (Inl (OutUow out_ErrUnitOfWorkFailed),
                     (tick w2)\<lparr>w_db := keep_sequences (w_db w1) (w_db w2)\<rparr>)
                | CommittedUnacknowledged \<Rightarrow>
                    (Inl (OutUow out_ErrUnitOfWorkFailed), tick w2))))"

definition quiet :: "Env \<Rightarrow> bool" where
  "quiet env \<longleftrightarrow> (\<forall>n. \<not> env_fault env n) \<and> (\<forall>n i. \<not> env_locked env n i) \<and>
     (\<forall>n. env_commit env n = Committed) \<and> (\<forall>n d. env_others env n d = d)"

section \<open>Reading the rows of a result\<close>

text \<open>The loop \<open>for rows.Next()\<close>: the first row that cannot be read ends it with its error.\<close>

fun map_results :: "('r \<Rightarrow> 'a result) \<Rightarrow> 'r list \<Rightarrow> 'a list result" where
  "map_results f [] = Inr []"
| "map_results f (r # rs) =
     (case f r of
        Inl e \<Rightarrow> Inl e
      | Inr x \<Rightarrow> (case map_results f rs of Inl e \<Rightarrow> Inl e | Inr xs \<Rightarrow> Inr (x # xs)))"

lemma map_results_Inr: "(\<And>r. r \<in> set rs \<Longrightarrow> f r = Inr (g r)) \<Longrightarrow> map_results f rs = Inr (map g rs)"
  by (induction rs) auto

lemma map_results_Inr_iff:
  "map_results f rs = Inr xs \<longleftrightarrow> list_all2 (\<lambda>r x. f r = Inr x) rs xs"
proof (induction rs arbitrary: xs)
  case (Cons r rs)
  show ?case
    by (cases xs) (auto simp: Cons.IH [symmetric] split: sum.splits)
qed auto

lemma map_results_length: "map_results f rs = Inr xs \<Longrightarrow> length xs = length rs"
  by (auto simp: map_results_Inr_iff dest: list_all2_lengthD)

text \<open>\<open>ORDER BY t ASC, id ASC ... LIMIT n\<close>, as two stable sorts.\<close>

definition first_due :: "('r \<Rightarrow> gotime) \<Rightarrow> ('r \<Rightarrow> int64) \<Rightarrow> int64 \<Rightarrow> 'r list \<Rightarrow> 'r list" where
  "first_due at rid limit rows = take (nat (sint limit)) (sort_key at (sort_key (\<lambda>r. sint (rid r)) rows))"

lemma set_first_due: "set (first_due at rid limit rows) \<subseteq> set rows"
  unfolding first_due_def by (metis set_sort set_take_subset)

lemma length_first_due: "length (first_due at rid limit rows) \<le> nat (sint limit)"
  by (simp add: first_due_def)

lemma set_first_due_all:
  "int (length rows) \<le> sint limit \<Longrightarrow> set (first_due at rid limit rows) = set rows"
  by (simp add: first_due_def)

section \<open>Invariants of the database\<close>

text \<open>
  Beyond the schema: identities are handed out by the sequences, and a cursor is above every
  slot that was ever reserved for its policy and address space.
\<close>

definition serials_ok :: "DB \<Rightarrow> bool" where
  "serials_ok d \<longleftrightarrow>
     (\<forall>r \<in> set (db_allocations d). 0 < sint (al_id r) \<and> sint (al_id r) \<le> int (db_alloc_seq d)) \<and>
     (\<forall>r \<in> set (db_trackings d). 0 < sint (pt_id r) \<and> sint (pt_id r) \<le> int (db_track_seq d)) \<and>
     (\<forall>r \<in> set (db_notifications d). 0 < sint (nt_id r) \<and> sint (nt_id r) \<le> int (db_notif_seq d))"

definition cursors_ahead :: "DB \<Rightarrow> bool" where
  "cursors_ahead d \<longleftrightarrow>
     (\<forall>c \<in> set (db_cursors d). \<forall>r \<in> set (db_allocations d).
        al_policy r = cu_policy c \<and> al_space_ref r = cu_space_ref c \<longrightarrow> al_slot r < cu_next c)"

definition db_inv :: "DB \<Rightarrow> bool" where
  "db_inv d \<longleftrightarrow> schema_ok d \<and> serials_ok d \<and> cursors_ahead d"

definition others_keep :: "(DB \<Rightarrow> bool) \<Rightarrow> Env \<Rightarrow> bool" where
  "others_keep P env \<longleftrightarrow> (\<forall>n d. P d \<longrightarrow> P (env_others env n d))"

lemma db_inv_empty: "db_inv empty_db"
  by (simp add: db_inv_def empty_db_def schema_ok_def allocations_ok_def cursors_ok_def
      trackings_ok_def notifications_ok_def keys_ok_def serials_ok_def cursors_ahead_def
      List.map_filter_def)

lemma map_update_where [simp]:
  "(\<And>r. p r \<Longrightarrow> g (f r) = g r) \<Longrightarrow> map g (update_where p f rows) = map g rows"
  by (simp add: update_where_def)

lemma set_update_where:
  "r \<in> set (update_where p f rows) \<longleftrightarrow> (\<exists>x \<in> set rows. r = (if p x then f x else x))"
  by (auto simp: update_where_def)

lemma length_update_where [simp]: "length (update_where p f rows) = length rows"
  by (simp add: update_where_def)

lemma update_where_none: "\<forall>r \<in> set rows. \<not> p r \<Longrightarrow> update_where p f rows = rows"
  by (simp add: update_where_def cong: map_cong)

lemma count_where_0: "count_where p rows = 0 \<longleftrightarrow> (\<forall>r \<in> set rows. \<not> p r)"
  by (simp add: count_where_def filter_empty_conv)

lemma sint_word_of_int64:
  "- (2 ^ 63) \<le> x \<Longrightarrow> x < 2 ^ 63 \<Longrightarrow> sint (word_of_int x :: int64) = x"
  by (subst sint_sbintrunc') (simp add: signed_take_bit_int_eq_self)

lemma next_serial_sint:
  assumes "next_serial s = Some i"
  shows "sint i = int s + 1"
proof -
  have "int s < 2 ^ 63 - 1" and i: "i = word_of_int (int s + 1)"
    using assms by (auto simp: next_serial_def split: if_splits)
  then show ?thesis
    unfolding i by (intro sint_word_of_int64) simp_all
qed

lemma tick_simps [simp]: "w_db (tick w) = w_db w" "w_step (tick w) = Suc (w_step w)" "w_now (tick w) = w_now w"
  by (simp_all add: tick_def)

lemma world_db_update [simp]: "w_db (w\<lparr>w_db := d\<rparr>) = d" "w_step (w\<lparr>w_db := d\<rparr>) = w_step w"
  by simp_all

lemma exec_sql_Inr_iff:
  "exec_sql env stmt w = (Inr x, w') \<longleftrightarrow>
     \<not> env_fault env (w_step w) \<and>
     (\<exists>d. stmt (w_now w) (w_db w) = (Inr x, d) \<and> w' = (tick w)\<lparr>w_db := d\<rparr>)"
  by (auto simp: exec_sql_def split: prod.split)

text \<open>
  A call that is followed by more work only when it succeeds: the error path returns, so a
  final success comes from a success of the call.
\<close>

lemma bind_Inr_iff:
  "(case p of (r, w1) \<Rightarrow> (case r of Inl e \<Rightarrow> (Inl (f e), g e w1) | Inr y \<Rightarrow> h y w1)) = (Inr z, w') \<longleftrightarrow>
     (\<exists>y w1. p = (Inr y, w1) \<and> h y w1 = (Inr z, w'))"
  by (auto split: prod.split sum.split)

lemma check_Inr_iff:
  "(case r of Inl e \<Rightarrow> (Inl (f e), w1) | Inr y \<Rightarrow> h y) = (Inr z, w') \<longleftrightarrow>
     (\<exists>y. r = Inr y \<and> h y = (Inr z, w'))"
  by (auto split: sum.split)

lemma put_Inr_iff:
  "put_allocations rows x d = (Inr y, d') \<longleftrightarrow> allocations_ok rows \<and> y = x \<and> d' = d\<lparr>db_allocations := rows\<rparr>"
  "put_cursors crows x d = (Inr y, d') \<longleftrightarrow> cursors_ok crows \<and> y = x \<and> d' = d\<lparr>db_cursors := crows\<rparr>"
  "put_trackings trows x d = (Inr y, d') \<longleftrightarrow>
     trackings_ok (db_allocations d) trows \<and> y = x \<and> d' = d\<lparr>db_trackings := trows\<rparr>"
  "put_notifications nrows x d = (Inr y, d') \<longleftrightarrow>
     notifications_ok (db_allocations d) nrows \<and> y = x \<and> d' = d\<lparr>db_notifications := nrows\<rparr>"
  "put_keys krows x d = (Inr y, d') \<longleftrightarrow>
     keys_ok (db_allocations d) krows \<and> y = x \<and> d' = d\<lparr>db_keys := krows\<rparr>"
  by (auto simp: put_allocations_def put_cursors_def put_trackings_def put_notifications_def put_keys_def)

section \<open>What a transition of the database guarantees\<close>

text \<open>
  A guarantee relates the database before and after a step. It is a preorder, and it holds
  for a transaction that is rolled back and only leaves its sequence numbers behind. A
  method has to establish it when it succeeds; when it fails, the transaction around it is
  rolled back, so that all that matters is that sequences do not fall.
\<close>

definition seqs_le :: "DB \<Rightarrow> DB \<Rightarrow> bool" where
  "seqs_le d d' \<longleftrightarrow>
     db_alloc_seq d \<le> db_alloc_seq d' \<and> db_track_seq d \<le> db_track_seq d' \<and>
     db_notif_seq d \<le> db_notif_seq d'"

definition stmt_rel :: "(DB \<Rightarrow> DB \<Rightarrow> bool) \<Rightarrow> 'a stmt \<Rightarrow> bool" where
  "stmt_rel R stmt \<longleftrightarrow> (\<forall>now d. R d (snd (stmt now d)))"

definition world_rel :: "(DB \<Rightarrow> DB \<Rightarrow> bool) \<Rightarrow> (World \<Rightarrow> 'a \<times> World) \<Rightarrow> bool" where
  "world_rel R f \<longleftrightarrow> (\<forall>w r w'. f w = (r, w') \<longrightarrow> R (w_db w) (w_db w'))"

definition ok_rel :: "(DB \<Rightarrow> DB \<Rightarrow> bool) \<Rightarrow> (World \<Rightarrow> ('e + 'a) \<times> World) \<Rightarrow> bool" where
  "ok_rel R f \<longleftrightarrow> (\<forall>w x w'. f w = (Inr x, w') \<longrightarrow> R (w_db w) (w_db w'))"

definition others_rel :: "(DB \<Rightarrow> DB \<Rightarrow> bool) \<Rightarrow> Env \<Rightarrow> bool" where
  "others_rel R env \<longleftrightarrow> (\<forall>n d. R d (env_others env n d))"

lemma stmt_relI: "(\<And>now d. R d (snd (stmt now d))) \<Longrightarrow> stmt_rel R stmt"
  by (simp add: stmt_rel_def)

lemma world_relI: "(\<And>w r w'. f w = (r, w') \<Longrightarrow> R (w_db w) (w_db w')) \<Longrightarrow> world_rel R f"
  by (simp add: world_rel_def)

lemma world_relD: "world_rel R f \<Longrightarrow> f w = (r, w') \<Longrightarrow> R (w_db w) (w_db w')"
  by (simp add: world_rel_def)

lemma ok_relI: "(\<And>w x w'. f w = (Inr x, w') \<Longrightarrow> R (w_db w) (w_db w')) \<Longrightarrow> ok_rel R f"
  by (simp add: ok_rel_def)

lemma ok_relD: "ok_rel R f \<Longrightarrow> f w = (Inr x, w') \<Longrightarrow> R (w_db w) (w_db w')"
  by (simp add: ok_rel_def)

lemma world_rel_ok: "world_rel R f \<Longrightarrow> ok_rel R f"
  by (simp add: world_rel_def ok_rel_def)

lemma keep_sequences_simps [simp]:
  "db_allocations (keep_sequences d d') = db_allocations d"
  "db_cursors (keep_sequences d d') = db_cursors d"
  "db_trackings (keep_sequences d d') = db_trackings d"
  "db_notifications (keep_sequences d d') = db_notifications d"
  "db_keys (keep_sequences d d') = db_keys d"
  "db_alloc_seq (keep_sequences d d') = db_alloc_seq d'"
  "db_track_seq (keep_sequences d d') = db_track_seq d'"
  "db_notif_seq (keep_sequences d d') = db_notif_seq d'"
  by (simp_all add: keep_sequences_def)

locale db_guarantee =
  fixes R :: "DB \<Rightarrow> DB \<Rightarrow> bool"
  assumes refl: "R d d"
    and trans: "R d d' \<Longrightarrow> R d' d'' \<Longrightarrow> R d d''"
    and lost: "seqs_le d d' \<Longrightarrow> R d (keep_sequences d d')"
begin

lemma exec_sql_rel: "stmt_rel R stmt \<Longrightarrow> world_rel R (exec_sql env stmt)"
  by (rule world_relI) (auto simp: stmt_rel_def exec_sql_def refl split: if_splits prod.splits, metis snd_conv)

lemma read_clock_rel: "world_rel R (read_clock env)"
  by (rule world_relI) (auto simp: read_clock_def refl)

lemma read_only_rel: "(\<And>now d. snd (stmt now d) = d) \<Longrightarrow> stmt_rel R stmt"
  by (rule stmt_relI) (simp add: refl)

lemma WithinTransaction_rel:
  assumes body: "ok_rel R fn" and seqs: "world_rel seqs_le fn" and others: "others_rel R env"
  shows "world_rel R (WithinTransaction env fn)"
proof (rule world_relI)
  fix w r w'
  assume w': "WithinTransaction env fn w = (r, w')"
  let ?w1 = "begin_tx env w"
  have 1: "R (w_db w) (w_db ?w1)"
    using others by (simp add: begin_tx_def others_rel_def)
  obtain x w2 where fn: "fn ?w1 = (x, w2)"
    by (cases "fn ?w1")
  have 2: "R (w_db w) (keep_sequences (w_db ?w1) (w_db w2))"
    by (rule trans [OF 1 lost [OF world_relD [OF seqs fn]]])
  have 3: "R (w_db w) (w_db w2)" if "x = Inr y" for y
    using trans [OF 1 ok_relD [OF body fn [unfolded that]]] .
  show "R (w_db w) (w_db w')"
    using w' 2 3 refl [of "w_db w"] fn
    by (auto simp: WithinTransaction_def Let_def split: if_splits sum.splits commit_outcome.splits)
qed

end

interpretation seqs: db_guarantee seqs_le
  by unfold_locales (auto simp: seqs_le_def)

text \<open>
  The guarantee of every store: sequences never fall, the invariant is kept, an issued
  allocation and a completed idempotency key stay as they are, and no allocation disappears.
\<close>

definition db_keeps :: "DB \<Rightarrow> DB \<Rightarrow> bool" where
  "db_keeps d d' \<longleftrightarrow>
     db_inv d' \<and>
     (\<forall>r \<in> set (db_allocations d). al_status r = ''issued'' \<longrightarrow> r \<in> set (db_allocations d')) \<and>
     (\<forall>k \<in> set (db_keys d). ik_payment_address_id k \<noteq> None \<longrightarrow> k \<in> set (db_keys d')) \<and>
     set (map al_id (db_allocations d)) \<subseteq> set (map al_id (db_allocations d'))"

definition db_step :: "DB \<Rightarrow> DB \<Rightarrow> bool" where
  "db_step d d' \<longleftrightarrow> seqs_le d d' \<and> (db_inv d \<longrightarrow> db_keeps d d')"

lemma serials_ok_grow:
  assumes "serials_ok d" and "db_allocations d' = db_allocations d"
    and "db_trackings d' = db_trackings d" and "db_notifications d' = db_notifications d"
    and "seqs_le d d'"
  shows "serials_ok d'"
  using assms unfolding serials_ok_def seqs_le_def by (simp, meson of_nat_mono order_trans zle_int)

lemma db_keeps_trans: "db_keeps d d' \<Longrightarrow> db_keeps d' d'' \<Longrightarrow> db_keeps d d''"
  unfolding db_keeps_def by (elim conjE, intro conjI; meson subset_trans)

lemma db_step_trans: "db_step d d' \<Longrightarrow> db_step d' d'' \<Longrightarrow> db_step d d''"
  unfolding db_step_def using db_keeps_trans seqs.trans by (metis db_keeps_def)

lemma db_step_lost:
  assumes "seqs_le d d'"
  shows "db_step d (keep_sequences d d')"
proof -
  have le: "seqs_le d (keep_sequences d d')"
    by (rule seqs.lost [OF assms])
  have "serials_ok (keep_sequences d d')" if "serials_ok d"
    by (rule serials_ok_grow [OF that]) (simp_all add: le)
  with le show ?thesis
    unfolding db_step_def db_keeps_def db_inv_def schema_ok_def cursors_ahead_def keep_sequences_simps
    by blast
qed

interpretation steps: db_guarantee db_step
proof
  show "db_step d d" for d
    by (simp add: db_step_def db_keeps_def seqs.refl)
qed (fact db_step_trans db_step_lost)+

lemma db_step_seqs: "db_step d d' \<Longrightarrow> seqs_le d d'"
  by (simp add: db_step_def)

section \<open>Values of nullable columns\<close>

definition coalesce :: "string option \<Rightarrow> string" where
  "coalesce v = (case v of None \<Rightarrow> [] | Some s \<Rightarrow> s)"

text \<open>\<open>nullIfEmpty\<close> of \<open>payment_address_allocation_store.go\<close>, shared by the stores.\<close>

definition nullIfEmpty :: "string \<Rightarrow> string option" where
  "nullIfEmpty value = (let trimmed = trim_space value in if trimmed = [] then None else Some trimmed)"

lemma coalesce_nullIfEmpty [simp]: "coalesce (nullIfEmpty v) = trim_space v"
  by (simp add: coalesce_def nullIfEmpty_def Let_def)

lemma coalesce_simps [simp]: "coalesce None = []" "coalesce (Some s) = s"
  by (simp_all add: coalesce_def)

lemma nullIfEmpty_trim: "nullIfEmpty (trim_space v) = nullIfEmpty v"
  by (simp add: nullIfEmpty_def)

lemma nullIfEmpty_Nil [simp]: "nullIfEmpty [] = None"
  by (simp add: nullIfEmpty_def)

lemma nonblank_nullIfEmpty [simp]: "nonblank (nullIfEmpty v)"
proof (cases "trim_space v = []")
  case False
  have "\<exists>c \<in> set (trim_space v). c \<noteq> CHR '' ''"
  proof (rule ccontr)
    assume "\<not> ?thesis"
    then have "hd (trim_space v) = CHR '' ''"
      using False by (cases "trim_space v") auto
    then have "has_prefix (trim_space v) [CHR 0x20]"
      using False by (cases "trim_space v") (auto simp: has_prefix_def)
    moreover have "[CHR 0x20] \<in> set go_spaces"
      by (simp add: go_spaces_def)
    ultimately have "space_width go_spaces (trim_space v) \<noteq> 0"
      using go_spaces_nonempty by (auto simp: space_width_eq_0)
    then show False
      using False trim_left_trim_space [of v] trim_left_result [of go_spaces "trim_space v"] by auto
  qed
  then show ?thesis
    using False by (auto simp: nonblank_def nullIfEmpty_def list_ex_iff)
qed (simp add: nonblank_def nullIfEmpty_def)

end
