(* ===== verification/Allocation_Store.thy ===== *)
theory Allocation_Store
  imports Sql_Db
begin

text \<open>
  The allocation store of \<open>adapters/outbound/persistence/postgres/payment_address_allocation_store.go\<close>
  (the file of \<open>cloudflarepostgres\<close> is the same but for its package): each SQL statement is a
  function on the database, each method runs its statements in the order of the source and
  returns on the first error. The lemmas show that every method keeps the guarantee of the
  database, what a fresh reservation writes, and that a reserved slot is never handed out
  again.
\<close>

section \<open>Statements\<close>

definition sql_select_issued :: "int64 \<Rightarrow> AllocRow option stmt" where
  "sql_select_issued pid now d =
     (Inr (find (\<lambda>r. al_id r = pid \<and> al_status r = ''issued'') (db_allocations d)), d)"

definition sql_complete_allocation ::
  "PaymentAddressAllocationRecord \<Rightarrow> string option \<Rightarrow> string \<Rightarrow> gotime \<Rightarrow> nat stmt" where
  "sql_complete_allocation a asset sweep issuedAt now d =
     (let p = (\<lambda>r. al_id r = ar_PaymentAddressID a \<and> al_status r = ''reserved'')
      in put_allocations
           (update_where p
              (\<lambda>r. r\<lparr>al_chain := Some (ar_Chain a), al_network := Some (ar_Network a),
                     al_scheme := Some (ar_Scheme a), al_address := Some (trim_space (ar_Address a)),
                     al_asset := asset, al_sweep := Some sweep, al_failure := None,
                     al_status := ''issued'', al_issued_at := Some issuedAt\<rparr>)
              (db_allocations d))
           (count_where p (db_allocations d)) d)"

definition sql_mark_derivation_failed :: "int64 \<Rightarrow> string option \<Rightarrow> nat stmt" where
  "sql_mark_derivation_failed pid reason now d =
     (let p = (\<lambda>r. al_id r = pid \<and> al_status r = ''reserved'')
      in put_allocations
           (update_where p (\<lambda>r. r\<lparr>al_failure := reason, al_status := ''derivation_failed''\<rparr>)
              (db_allocations d))
           (count_where p (db_allocations d)) d)"

definition sql_select_failed ::
  "(int64 \<Rightarrow> bool) \<Rightarrow> string \<Rightarrow> string \<Rightarrow> (int64 \<times> int) option stmt" where
  "sql_select_failed locked policy space now d =
     (Inr (case sort_key al_reserved_at (sort_key (\<lambda>r. sint (al_id r))
              (filter (\<lambda>r. al_policy r = policy \<and> al_space_ref r = space \<and>
                           al_status r = ''derivation_failed'' \<and> \<not> locked (al_id r))
                 (db_allocations d))) of
             [] \<Rightarrow> None
           | r # _ \<Rightarrow> Some (al_id r, al_slot r)), d)"

definition sql_reopen :: "int64 \<Rightarrow> int64 \<Rightarrow> string option \<Rightarrow> nat stmt" where
  "sql_reopen pid expected customer now d =
     (let p = (\<lambda>r. al_id r = pid)
      in put_allocations
           (update_where p
              (\<lambda>r. r\<lparr>al_status := ''reserved'', al_expected := expected, al_customer := customer,
                     al_chain := None, al_network := None, al_scheme := None, al_asset := None,
                     al_address := None, al_sweep := None, al_failure := None,
                     al_reserved_at := now, al_issued_at := None\<rparr>)
              (db_allocations d))
           (count_where p (db_allocations d)) d)"

definition first_free_slot :: "string \<Rightarrow> string \<Rightarrow> AllocRow list \<Rightarrow> int" where
  "first_free_slot policy space rows =
     (case map al_slot (filter (\<lambda>r. al_policy r = policy \<and> al_space_ref r = space) rows) of
        [] \<Rightarrow> 0
      | s # ss \<Rightarrow> fold max ss s + 1)"

definition cursor_of :: "string \<Rightarrow> string \<Rightarrow> CursorRow \<Rightarrow> bool" where
  "cursor_of policy space c \<longleftrightarrow> cu_policy c = policy \<and> cu_space_ref c = space"

definition sql_ensure_cursor :: "string \<Rightarrow> string \<Rightarrow> unit stmt" where
  "sql_ensure_cursor policy space now d =
     (if list_ex (cursor_of policy space) (db_cursors d) then (Inr (), d)
      else put_cursors
             (db_cursors d @
                [\<lparr>cu_policy = policy, cu_space_ref = space,
                  cu_next = first_free_slot policy space (db_allocations d)\<rparr>]) () d)"

definition sql_select_cursor :: "string \<Rightarrow> string \<Rightarrow> int option stmt" where
  "sql_select_cursor policy space now d =
     (Inr (map_option cu_next (find (cursor_of policy space) (db_cursors d))), d)"

definition sql_insert_allocation ::
  "string \<Rightarrow> string \<Rightarrow> int \<Rightarrow> int64 \<Rightarrow> string option \<Rightarrow> int64 stmt" where
  "sql_insert_allocation policy space slot expected customer now d =
     (case next_serial (db_alloc_seq d) of
        None \<Rightarrow> (Inl SqlFailed, d)
      | Some i \<Rightarrow>
          put_allocations
            (db_allocations d @
               [\<lparr>al_id = i, al_policy = policy, al_space_ref = space, al_slot = slot,
                 al_expected = expected, al_customer = customer, al_chain = None, al_network = None,
                 al_scheme = None, al_asset = None, al_address = None, al_sweep = None,
                 al_status = ''reserved'', al_failure = None, al_reserved_at = now,
                 al_issued_at = None\<rparr>])
            i (d\<lparr>db_alloc_seq := Suc (db_alloc_seq d)\<rparr>))"

definition sql_advance_cursor :: "string \<Rightarrow> string \<Rightarrow> unit stmt" where
  "sql_advance_cursor policy space now d =
     put_cursors (update_where (cursor_of policy space) (\<lambda>c. c\<lparr>cu_next := cu_next c + 1\<rparr>) (db_cursors d)) () d"

section \<open>Methods\<close>

definition maxSlotIndex :: int where "maxSlotIndex = 0x7fffffff"

definition scan_issued_allocation :: "AllocRow \<Rightarrow> PaymentAddressAllocationRecord option result" where
  "scan_issued_allocation r =
     (if al_slot r < 0 \<or> maxSlotIndex < al_slot r then Inl (OutAlloc out_ErrAddressIndexExhausted)
      else case NormalizeSupportedChain (coalesce (al_chain r)) of
          None \<Rightarrow> Inl (OutAlloc out_ErrPaymentAddressAllocationPersistedChainInvalid)
        | Some chain \<Rightarrow>
      (case NormalizeAddressPolicyID (al_policy r) of
          None \<Rightarrow> Inl (OutAlloc out_ErrPaymentAddressAllocationPersistedAddressPolicyIDInvalid)
        | Some parsedAddressPolicyID \<Rightarrow>
      (case NormalizeNetworkID (coalesce (al_network r)) of
          None \<Rightarrow> Inl (OutAlloc out_ErrPaymentAddressAllocationPersistedNetworkInvalid)
        | Some network \<Rightarrow>
      (case NormalizeAddressScheme (coalesce (al_scheme r)) of
          None \<Rightarrow> Inl (OutAlloc out_ErrPaymentAddressAllocationStoreFailed)
        | Some normalizedScheme \<Rightarrow>
            Inr (Some \<lparr>ar_PaymentAddressID = al_id r,
                       ar_AddressPolicyID = parsedAddressPolicyID,
                       ar_SlotIndex = word_of_int (al_slot r),
                       ar_ExpectedAmountMinor = al_expected r,
                       ar_CustomerReference = coalesce (al_customer r),
                       ar_Status = ''issued'',
                       ar_Chain = chain,
                       ar_Network = network,
                       ar_Scheme = normalizedScheme,
                       ar_AssetReference = trim_space (coalesce (al_asset r)),
                       ar_Address = trim_space (coalesce (al_address r)),
                       ar_DerivationFailureReason =
                         persistedDerivationFailureReason (coalesce (al_failure r))\<rparr>)))))"

definition AllocationStore_FindIssuedByID ::
  "Env \<Rightarrow> int64 \<Rightarrow> World \<Rightarrow> PaymentAddressAllocationRecord option result \<times> World" where
  "AllocationStore_FindIssuedByID env paymentAddressID w =
     (if sint paymentAddressID \<le> 0 then (Inr None, w)
      else case exec_sql env (sql_select_issued paymentAddressID) w of
          (Inl _, w1) \<Rightarrow> (Inl (OutAlloc out_ErrPaymentAddressAllocationStoreFailed), w1)
        | (Inr None, w1) \<Rightarrow> (Inr None, w1)
        | (Inr (Some r), w1) \<Rightarrow> (scan_issued_allocation r, w1))"

definition AllocationStore_Complete ::
  "Env \<Rightarrow> CompletePaymentAddressAllocationInput \<Rightarrow> World \<Rightarrow> unit result \<times> World" where
  "AllocationStore_Complete env input w =
     (if time_is_zero (cin_IssuedAt input)
        then (Inl (OutAlloc out_ErrPaymentAddressAllocationIssuedAtRequired), w)
      else
        (let sweepMaterialJSON = trim_space (cin_SweepMaterial input);
             assetReference = trim_space (ar_AssetReference (cin_Allocation input))
         in if sweepMaterialJSON = []
              then (Inl (OutAlloc out_ErrPaymentAddressAllocationStoreFailed), w)
            else case exec_sql env
                   (sql_complete_allocation (cin_Allocation input) (nullIfEmpty assetReference)
                      sweepMaterialJSON (cin_IssuedAt input)) w of
                (Inl _, w1) \<Rightarrow> (Inl (OutAlloc out_ErrPaymentAddressAllocationStoreFailed), w1)
              | (Inr rowsAffected, w1) \<Rightarrow>
                  if rowsAffected = 0
                    then (Inl (OutAlloc out_ErrPaymentAddressAllocationNotReserved), w1)
                  else (Inr (), w1)))"

definition AllocationStore_MarkDerivationFailed ::
  "Env \<Rightarrow> PaymentAddressAllocationRecord \<Rightarrow> World \<Rightarrow> unit result \<times> World" where
  "AllocationStore_MarkDerivationFailed env allocation w =
     (case exec_sql env (sql_mark_derivation_failed (ar_PaymentAddressID allocation)
              (nullIfEmpty (ar_DerivationFailureReason allocation))) w of
        (Inl _, w1) \<Rightarrow> (Inl (OutAlloc out_ErrPaymentAddressAllocationStoreFailed), w1)
      | (Inr rowsAffected, w1) \<Rightarrow>
          if rowsAffected = 0 then (Inl (OutAlloc out_ErrPaymentAddressAllocationNotReserved), w1)
          else (Inr (), w1))"

definition reserved_record ::
  "int64 \<Rightarrow> string \<Rightarrow> int \<Rightarrow> int64 \<Rightarrow> string \<Rightarrow> PaymentAddressAllocationRecord" where
  "reserved_record pid policy slot expected customer =
     \<lparr>ar_PaymentAddressID = pid, ar_AddressPolicyID = policy, ar_SlotIndex = word_of_int slot,
      ar_ExpectedAmountMinor = expected, ar_CustomerReference = customer,
      ar_Status = PaymentAddressAllocationStatusReserved, ar_Chain = [], ar_Network = [],
      ar_Scheme = [], ar_AssetReference = [], ar_Address = [], ar_DerivationFailureReason = []\<rparr>"

definition AllocationStore_ReopenFailedReservation ::
  "Env \<Rightarrow> ReservePaymentAddressAllocationInput \<Rightarrow> World
     \<Rightarrow> PaymentAddressAllocationRecord option result \<times> World" where
  "AllocationStore_ReopenFailedReservation env input w =
     (let customerReference = trim_space (rin_CustomerReference input);
          addressPolicyID = ipr_AddressPolicyID (rin_IssuancePolicy input);
          addressSpaceRef = trim_space (ipr_AddressSpaceRef (rin_IssuancePolicy input))
      in case exec_sql env
             (sql_select_failed (env_locked env (w_step w)) addressPolicyID addressSpaceRef) w of
          (Inl _, w1) \<Rightarrow> (Inl (OutAlloc out_ErrPaymentAddressAllocationStoreFailed), w1)
        | (Inr None, w1) \<Rightarrow> (Inr None, w1)
        | (Inr (Some (paymentAddressID, slotIndex)), w1) \<Rightarrow>
            if slotIndex < 0 \<or> maxSlotIndex < slotIndex
              then (Inl (OutAlloc out_ErrAddressIndexExhausted), w1)
            else case exec_sql env (sql_reopen paymentAddressID (rin_ExpectedAmountMinor input)
                        (nullIfEmpty customerReference)) w1 of
                (Inl _, w2) \<Rightarrow> (Inl (OutAlloc out_ErrPaymentAddressAllocationStoreFailed), w2)
              | (Inr _, w2) \<Rightarrow>
                  (Inr (Some (reserved_record paymentAddressID addressPolicyID slotIndex
                                (rin_ExpectedAmountMinor input) customerReference)), w2))"

definition AllocationStore_ReserveFresh ::
  "Env \<Rightarrow> ReservePaymentAddressAllocationInput \<Rightarrow> World
     \<Rightarrow> PaymentAddressAllocationRecord result \<times> World" where
  "AllocationStore_ReserveFresh env input w =
     (let customerReference = trim_space (rin_CustomerReference input);
          addressPolicyID = ipr_AddressPolicyID (rin_IssuancePolicy input);
          addressSpaceRef = trim_space (ipr_AddressSpaceRef (rin_IssuancePolicy input));
          failed = Inl (OutAlloc out_ErrPaymentAddressAllocationStoreFailed)
      in case exec_sql env (sql_ensure_cursor addressPolicyID addressSpaceRef) w of
          (Inl _, w1) \<Rightarrow> (failed, w1)
        | (Inr _, w1) \<Rightarrow>
      (case exec_sql env (sql_select_cursor addressPolicyID addressSpaceRef) w1 of
          (Inl _, w2) \<Rightarrow> (failed, w2)
        | (Inr None, w2) \<Rightarrow> (failed, w2)
        | (Inr (Some nextIndex), w2) \<Rightarrow>
      if maxSlotIndex < nextIndex then (Inl (OutAlloc out_ErrAddressIndexExhausted), w2)
      else
      (case exec_sql env (sql_insert_allocation addressPolicyID addressSpaceRef nextIndex
              (rin_ExpectedAmountMinor input) (nullIfEmpty customerReference)) w2 of
          (Inl _, w3) \<Rightarrow> (failed, w3)
        | (Inr paymentAddressID, w3) \<Rightarrow>
      (case exec_sql env (sql_advance_cursor addressPolicyID addressSpaceRef) w3 of
          (Inl _, w4) \<Rightarrow> (failed, w4)
        | (Inr _, w4) \<Rightarrow>
            (Inr (reserved_record paymentAddressID addressPolicyID nextIndex
                    (rin_ExpectedAmountMinor input) customerReference), w4)))))"

section \<open>Facts on the statements\<close>

lemma fold_max_ge: "(s :: int) \<le> fold max ss s \<and> (\<forall>x \<in> set ss. x \<le> fold max ss s)"
proof (induction ss arbitrary: s)
  case (Cons x xs)
  have "max x s \<le> fold max xs (max x s)" and "\<forall>y \<in> set xs. y \<le> fold max xs (max x s)"
    using Cons.IH [of "max x s"] by auto
  then show ?case by auto
qed simp

lemma first_free_slot_above:
  assumes "r \<in> set rows" and "al_policy r = policy" and "al_space_ref r = space"
  shows "al_slot r < first_free_slot policy space rows"
proof -
  let ?ss = "map al_slot (filter (\<lambda>r. al_policy r = policy \<and> al_space_ref r = space) rows)"
  have "al_slot r \<in> set ?ss"
    using assms by auto
  then show ?thesis
    using fold_max_ge [of "hd ?ss" "tl ?ss"]
    by (cases ?ss) (auto simp: first_free_slot_def simp del: map_eq_Cons_conv)
qed

text \<open>
  Rewriting allocation rows under their identities: the other tables only see the set of
  identities, and the cursors only see policy, address space and slot.
\<close>

lemma put_allocations_update_step:
  assumes keep: "\<And>r. p r \<Longrightarrow> al_id (f r) = al_id r \<and> al_policy (f r) = al_policy r \<and>
      al_space_ref (f r) = al_space_ref r \<and> al_slot (f r) = al_slot r"
    and notissued: "\<And>r. db_inv d \<Longrightarrow> r \<in> set (db_allocations d) \<Longrightarrow> p r \<Longrightarrow> al_status r \<noteq> ''issued''"
  shows "db_step d (snd (put_allocations (update_where p f (db_allocations d)) n d))"
proof (cases "allocations_ok (update_where p f (db_allocations d))")
  case True
  let ?rows = "update_where p f (db_allocations d)"
  have ids: "map al_id ?rows = map al_id (db_allocations d)"
    using keep by simp
  then have ids': "al_id ` set ?rows = al_id ` set (db_allocations d)"
    by (metis list.set_map)
  have issued: "r \<in> set ?rows"
    if "db_inv d" "r \<in> set (db_allocations d)" "al_status r = ''issued''" for r
    using notissued [OF that(1,2)] that(2,3) by (auto simp: set_update_where intro!: bexI [of _ r])
  have "track_row_ok ?rows = track_row_ok (db_allocations d)"
    "notif_row_ok ?rows = notif_row_ok (db_allocations d)"
    "key_row_ok ?rows = key_row_ok (db_allocations d)"
    by (rule ext, simp only: track_row_ok_def notif_row_ok_def key_row_ok_def ids)+
  note rows = this
  have "trackings_ok ?rows = trackings_ok (db_allocations d)"
    "notifications_ok ?rows = notifications_ok (db_allocations d)"
    "keys_ok ?rows = keys_ok (db_allocations d)"
    by (rule ext, simp only: trackings_ok_def notifications_ok_def keys_ok_def rows)+
  moreover have same: "\<exists>x \<in> set (db_allocations d). al_id r = al_id x \<and> al_policy r = al_policy x \<and>
      al_space_ref r = al_space_ref x \<and> al_slot r = al_slot x" if "r \<in> set ?rows" for r
    using that keep unfolding set_update_where by (auto split: if_splits)
  moreover have "serials_ok (d\<lparr>db_allocations := ?rows\<rparr>)" if s: "serials_ok d"
    using s unfolding serials_ok_def by (auto dest!: same)
  moreover have "cursors_ahead (d\<lparr>db_allocations := ?rows\<rparr>)" if c: "cursors_ahead d"
    using c unfolding cursors_ahead_def by (auto dest!: same)
  ultimately have "db_inv (d\<lparr>db_allocations := ?rows\<rparr>)" if "db_inv d"
    using that True by (simp add: db_inv_def schema_ok_def)
  then have "db_step d (d\<lparr>db_allocations := ?rows\<rparr>)"
    unfolding db_step_def db_keeps_def using issued ids' by (simp add: seqs_le_def)
  with True show ?thesis
    by (simp add: put_allocations_def)
next
  case False
  then show ?thesis
    using steps.refl by (simp add: put_allocations_def)
qed

lemma sql_complete_allocation_step: "stmt_rel db_step (sql_complete_allocation a asset sweep at)"
  by (rule stmt_relI) (auto simp: sql_complete_allocation_def Let_def intro!: put_allocations_update_step)

lemma sql_mark_derivation_failed_step: "stmt_rel db_step (sql_mark_derivation_failed pid reason)"
  by (rule stmt_relI) (auto simp: sql_mark_derivation_failed_def Let_def intro!: put_allocations_update_step)

lemma sql_ensure_cursor_step: "stmt_rel db_step (sql_ensure_cursor policy space)"
proof (rule stmt_relI)
  fix now and d :: DB
  let ?c = "\<lparr>cu_policy = policy, cu_space_ref = space,
      cu_next = first_free_slot policy space (db_allocations d)\<rparr>"
  have "cursors_ahead (d\<lparr>db_cursors := db_cursors d @ [?c]\<rparr>)" if "cursors_ahead d"
    using that first_free_slot_above by (auto simp: cursors_ahead_def)
  then show "db_step d (snd (sql_ensure_cursor policy space now d))"
    by (auto simp: sql_ensure_cursor_def put_cursors_def db_step_def db_keeps_def db_inv_def schema_ok_def
        serials_ok_def seqs_le_def)
qed

lemma sql_advance_cursor_step: "stmt_rel db_step (sql_advance_cursor policy space)"
proof (rule stmt_relI)
  fix now and d :: DB
  let ?rows = "update_where (cursor_of policy space) (\<lambda>c. c\<lparr>cu_next := cu_next c + 1\<rparr>) (db_cursors d)"
  have "cursors_ahead (d\<lparr>db_cursors := ?rows\<rparr>)" if "cursors_ahead d"
    using that by (force simp: cursors_ahead_def set_update_where)
  then show "db_step d (snd (sql_advance_cursor policy space now d))"
    by (auto simp: sql_advance_cursor_def put_cursors_def db_step_def db_keeps_def db_inv_def schema_ok_def
        serials_ok_def seqs_le_def)
qed

lemma sql_reads_step:
  "stmt_rel db_step (sql_select_issued pid)"
  "stmt_rel db_step (sql_select_failed locked policy space)"
  "stmt_rel db_step (sql_select_cursor policy space)"
  by (rule steps.read_only_rel, simp add: sql_select_issued_def sql_select_failed_def
      sql_select_cursor_def)+

lemma stmt_rel_seqs: "stmt_rel db_step stmt \<Longrightarrow> stmt_rel seqs_le stmt"
  by (simp add: stmt_rel_def db_step_def)

lemma sql_insert_allocation_seqs: "stmt_rel seqs_le (sql_insert_allocation policy space slot expected customer)"
  by (rule stmt_relI)
    (auto simp: sql_insert_allocation_def put_allocations_def seqs_le_def split: option.split)

lemma sql_reopen_seqs: "stmt_rel seqs_le (sql_reopen pid expected customer)"
  by (rule stmt_relI) (simp add: sql_reopen_def put_allocations_def seqs_le_def Let_def)

text \<open>
  The cursor that \<open>ReserveFresh\<close> reads: the stored one, or the one it would create.
\<close>

definition next_slot :: "string \<Rightarrow> string \<Rightarrow> DB \<Rightarrow> int" where
  "next_slot policy space d =
     (case find (cursor_of policy space) (db_cursors d) of
        Some c \<Rightarrow> cu_next c
      | None \<Rightarrow> first_free_slot policy space (db_allocations d))"

lemma next_slot_above:
  assumes "cursors_ahead d" and "r \<in> set (db_allocations d)"
    and "al_policy r = policy" and "al_space_ref r = space"
  shows "al_slot r < next_slot policy space d"
  using assms first_free_slot_above
  by (auto simp: next_slot_def cursors_ahead_def cursor_of_def find_Some_iff split: option.split)

definition fresh_row :: "string \<Rightarrow> string \<Rightarrow> int \<Rightarrow> int64 \<Rightarrow> string option \<Rightarrow> int64 \<Rightarrow> gotime \<Rightarrow> AllocRow" where
  "fresh_row policy space slot expected customer i now =
     \<lparr>al_id = i, al_policy = policy, al_space_ref = space, al_slot = slot, al_expected = expected,
      al_customer = customer, al_chain = None, al_network = None, al_scheme = None, al_asset = None,
      al_address = None, al_sweep = None, al_status = ''reserved'', al_failure = None,
      al_reserved_at = now, al_issued_at = None\<rparr>"

lemma fresh_row_simps [simp]:
  "al_id (fresh_row p s n e c i now) = i" "al_policy (fresh_row p s n e c i now) = p"
  "al_space_ref (fresh_row p s n e c i now) = s" "al_slot (fresh_row p s n e c i now) = n"
  "al_status (fresh_row p s n e c i now) = ''reserved''" "al_expected (fresh_row p s n e c i now) = e"
  "al_customer (fresh_row p s n e c i now) = c" "alloc_address_key (fresh_row p s n e c i now) = None"
  by (simp_all add: fresh_row_def alloc_address_key_def)

lemma map_filter_snoc_None: "f x = None \<Longrightarrow> List.map_filter f (xs @ [x]) = List.map_filter f xs"
  by (simp add: List.map_filter_def)

text \<open>A reservation at or above the cursor is accepted by the schema, with a new identity.\<close>

lemma allocations_ok_fresh:
  assumes ok: "allocations_ok rows" and below: "\<And>r. r \<in> set rows \<Longrightarrow> sint (al_id r) \<le> int s"
    and i: "next_serial s = Some i" and e: "0 < sint e" and n: "0 \<le> n" "n \<le> maxSlotIndex"
    and slots: "\<And>r. r \<in> set rows \<Longrightarrow> al_policy r = p \<Longrightarrow> al_space_ref r = sp \<Longrightarrow> al_slot r \<noteq> n"
  shows "allocations_ok (rows @ [fresh_row p sp n e c i now])"
proof -
  have "i \<notin> set (map al_id rows)"
    using below next_serial_sint [OF i] by force
  moreover have "alloc_row_ok (fresh_row p sp n e c i now)"
    using e n by (simp add: alloc_row_ok_def maxSlotIndex_def fresh_row_def nonblank_def)
  ultimately show ?thesis
    using ok slots by (auto simp: allocations_ok_def map_filter_snoc_None)
qed

lemma schema_more_allocations:
  assumes "schema_ok d" and "allocations_ok rows"
    and "set (map al_id (db_allocations d)) \<subseteq> set (map al_id rows)"
  shows "schema_ok (d\<lparr>db_allocations := rows, db_alloc_seq := n\<rparr>)"
proof -
  have "track_row_ok rows t" if "track_row_ok (db_allocations d) t" for t
    using that assms(3) unfolding track_row_ok_def by blast
  moreover have "notif_row_ok rows t" if "notif_row_ok (db_allocations d) t" for t
    using that assms(3) unfolding notif_row_ok_def by blast
  moreover have "key_row_ok rows t" if "key_row_ok (db_allocations d) t" for t
    using that assms(3) by (auto simp: key_row_ok_def split: option.splits)
  ultimately show ?thesis
    using assms(1,2)
    by (auto simp: schema_ok_def trackings_ok_def notifications_ok_def keys_ok_def list_all_iff)
qed

section \<open>What the methods do\<close>

definition with_cursor :: "string \<Rightarrow> string \<Rightarrow> DB \<Rightarrow> CursorRow list" where
  "with_cursor policy space d =
     (if list_ex (cursor_of policy space) (db_cursors d) then db_cursors d
      else db_cursors d @ [\<lparr>cu_policy = policy, cu_space_ref = space,
                            cu_next = first_free_slot policy space (db_allocations d)\<rparr>])"

definition advanced_cursors :: "string \<Rightarrow> string \<Rightarrow> DB \<Rightarrow> CursorRow list" where
  "advanced_cursors policy space d =
     update_where (cursor_of policy space) (\<lambda>c. c\<lparr>cu_next := cu_next c + 1\<rparr>) (with_cursor policy space d)"

lemma sql_ensure_cursor_Inr:
  "sql_ensure_cursor policy space now d = (Inr u, d') \<Longrightarrow>
     d' = d\<lparr>db_cursors := with_cursor policy space d\<rparr>"
  by (auto simp: sql_ensure_cursor_def with_cursor_def put_Inr_iff split: if_splits)

lemma find_with_cursor:
  "find (cursor_of policy space) (with_cursor policy space d) =
     Some \<lparr>cu_policy = policy, cu_space_ref = space, cu_next = next_slot policy space d\<rparr>"
proof (cases "list_ex (cursor_of policy space) (db_cursors d)")
  case True
  then obtain c where "find (cursor_of policy space) (db_cursors d) = Some c"
    by (metis find_None_iff list_ex_iff option.exhaust)
  moreover from this have "cursor_of policy space c"
    by (auto simp: find_Some_iff)
  ultimately show ?thesis
    using True by (cases c) (simp add: with_cursor_def next_slot_def cursor_of_def)
next
  case False
  then have "find (cursor_of policy space) (db_cursors d) = None"
    by (auto simp: find_None_iff list_ex_iff)
  moreover have "find P (xs @ [x]) = (if P x then Some x else None)"
    if "find P xs = None" for P and xs :: "CursorRow list" and x
    using that by (induction xs) (auto split: if_splits)
  ultimately show ?thesis
    using False by (simp add: with_cursor_def next_slot_def cursor_of_def)
qed

lemma ReserveFresh_Inr:
  assumes "AllocationStore_ReserveFresh env input w = (Inr rec, w')"
  defines "p \<equiv> ipr_AddressPolicyID (rin_IssuancePolicy input)"
    and "s \<equiv> trim_space (ipr_AddressSpaceRef (rin_IssuancePolicy input))"
    and "cust \<equiv> trim_space (rin_CustomerReference input)"
  obtains i where "next_serial (db_alloc_seq (w_db w)) = Some i"
    and "next_slot p s (w_db w) \<le> maxSlotIndex"
    and "rec = reserved_record i p (next_slot p s (w_db w)) (rin_ExpectedAmountMinor input) cust"
    and "allocations_ok (db_allocations (w_db w) @ [fresh_row p s (next_slot p s (w_db w))
           (rin_ExpectedAmountMinor input) (nullIfEmpty cust) i (w_now w)])"
    and "cursors_ok (advanced_cursors p s (w_db w))"
    and "w_now w' = w_now w"
    and "w_db w' = (w_db w)\<lparr>db_allocations := db_allocations (w_db w) @
             [fresh_row p s (next_slot p s (w_db w)) (rin_ExpectedAmountMinor input)
                (nullIfEmpty cust) i (w_now w)],
           db_alloc_seq := Suc (db_alloc_seq (w_db w)),
           db_cursors := advanced_cursors p s (w_db w)\<rparr>"
  using assms
  by (auto simp: AllocationStore_ReserveFresh_def Let_def exec_sql_Inr_iff sql_select_cursor_def
      find_with_cursor sql_insert_allocation_def put_Inr_iff sql_advance_cursor_def
      advanced_cursors_def fresh_row_def dest!: sql_ensure_cursor_Inr
      split: prod.splits sum.splits option.splits if_splits)

lemma with_cursor_ok: "c \<in> set (with_cursor policy space d) \<Longrightarrow> cursors_ahead d \<Longrightarrow>
    r \<in> set (db_allocations d) \<Longrightarrow> al_policy r = cu_policy c \<Longrightarrow> al_space_ref r = cu_space_ref c \<Longrightarrow>
    al_slot r < cu_next c"
  using first_free_slot_above [of r "db_allocations d"]
  by (auto simp: with_cursor_def cursors_ahead_def split: if_splits)

lemma with_cursor_unique:
  assumes "cursors_ok (db_cursors d)" and c: "c \<in> set (with_cursor p s d)" "cursor_of p s c"
  shows "cu_next c = next_slot p s d"
proof -
  let ?k = "\<lambda>c. (cu_policy c, cu_space_ref c)"
  have "distinct (map ?k (with_cursor p s d))"
    using assms(1) by (auto simp: cursors_ok_def with_cursor_def cursor_of_def list_ex_iff)
  then have inj: "inj_on ?k (set (with_cursor p s d))"
    by (simp add: distinct_map)
  obtain c' where c': "find (cursor_of p s) (with_cursor p s d) = Some c'" "cu_next c' = next_slot p s d"
    by (simp add: find_with_cursor)
  then have "c' \<in> set (with_cursor p s d)" "cursor_of p s c'"
    by (auto simp: find_Some_iff)
  with c inj have "c = c'"
    by (auto simp: cursor_of_def inj_on_def)
  with c' show ?thesis by simp
qed

lemma ReserveFresh_step: "ok_rel db_step (AllocationStore_ReserveFresh env input)"
proof (rule ok_relI)
  fix w rec w'
  assume R: "AllocationStore_ReserveFresh env input w = (Inr rec, w')"
  define p where "p = ipr_AddressPolicyID (rin_IssuancePolicy input)"
  define s where "s = trim_space (ipr_AddressSpaceRef (rin_IssuancePolicy input))"
  define d where "d = w_db w"
  obtain i e c now where i: "next_serial (db_alloc_seq d) = Some i"
    and ok: "allocations_ok (db_allocations d @ [fresh_row p s (next_slot p s d) e c i now])"
    and cs: "cursors_ok (advanced_cursors p s d)"
    and d': "w_db w' = d\<lparr>db_allocations := db_allocations d @ [fresh_row p s (next_slot p s d) e c i now],
       db_alloc_seq := Suc (db_alloc_seq d), db_cursors := advanced_cursors p s d\<rparr>"
    using ReserveFresh_Inr [OF R] unfolding p_def s_def d_def by metis
  let ?r = "fresh_row p s (next_slot p s d) e c i now"
  let ?d1 = "d\<lparr>db_allocations := db_allocations d @ [?r], db_alloc_seq := Suc (db_alloc_seq d)\<rparr>"
  have "schema_ok (w_db w')" if "schema_ok d"
    using schema_more_allocations [OF that ok] cs unfolding d' by (auto simp: schema_ok_def)
  moreover have "serials_ok (w_db w')" if "serials_ok d"
    using that next_serial_sint [OF i] unfolding d' by (auto simp: serials_ok_def)
  moreover have "cursors_ahead (w_db w')" if ahead: "cursors_ahead d" "cursors_ok (db_cursors d)"
  proof -
    have "al_slot r < cu_next cu"
      if cu: "cu \<in> set (advanced_cursors p s d)" and r: "r \<in> set (db_allocations d) \<or> r = ?r"
        and eq: "al_policy r = cu_policy cu" "al_space_ref r = cu_space_ref cu" for r cu
    proof -
      obtain c0 where c0: "c0 \<in> set (with_cursor p s d)"
        and cu': "cu = (if cursor_of p s c0 then c0\<lparr>cu_next := cu_next c0 + 1\<rparr> else c0)"
        using cu by (auto simp: advanced_cursors_def set_update_where)
      show ?thesis
      proof (cases "r = ?r")
        case True
        have "cu_policy c0 = cu_policy cu" "cu_space_ref c0 = cu_space_ref cu"
          unfolding cu' by simp_all
        with eq True have co: "cursor_of p s c0"
          by (simp add: cursor_of_def)
        have "cu_next c0 = next_slot p s d"
          using with_cursor_unique [OF ahead(2) c0 co] .
        with True cu' co show ?thesis by simp
      next
        case False
        with r with_cursor_ok [OF c0 ahead(1)] eq cu' show ?thesis
          by (force split: if_splits)
      qed
    qed
    then show ?thesis unfolding d' cursors_ahead_def by fastforce
  qed
  ultimately have inv: "db_inv (w_db w')" if "db_inv d"
    using that by (simp add: db_inv_def schema_ok_def)
  have "seqs_le d (w_db w')" and keep: "set (db_allocations d) \<subseteq> set (db_allocations (w_db w'))"
    "db_keys (w_db w') = db_keys d"
    by (auto simp: seqs_le_def d')
  with inv show "db_step (w_db w) (w_db w')"
    unfolding d_def [symmetric] db_step_def db_keeps_def by auto
qed

definition failed_reservations :: "(int64 \<Rightarrow> bool) \<Rightarrow> string \<Rightarrow> string \<Rightarrow> DB \<Rightarrow> AllocRow list" where
  "failed_reservations locked policy space d =
     sort_key al_reserved_at (sort_key (\<lambda>r. sint (al_id r))
       (filter (\<lambda>r. al_policy r = policy \<and> al_space_ref r = space \<and>
                    al_status r = ''derivation_failed'' \<and> \<not> locked (al_id r)) (db_allocations d)))"

lemma failed_reservations_set:
  "r \<in> set (failed_reservations locked policy space d) \<longleftrightarrow>
     r \<in> set (db_allocations d) \<and> al_policy r = policy \<and> al_space_ref r = space \<and>
     al_status r = ''derivation_failed'' \<and> \<not> locked (al_id r)"
  by (simp add: failed_reservations_def)

lemma sql_select_failed_eq:
  "sql_select_failed locked policy space now d =
     (Inr (case failed_reservations locked policy space d of [] \<Rightarrow> None
           | r # _ \<Rightarrow> Some (al_id r, al_slot r)), d)"
  unfolding sql_select_failed_def failed_reservations_def ..

lemma sql_select_failed_Some:
  assumes "sql_select_failed locked policy space now d = (Inr (Some (pid, slot)), d')"
  shows "d' = d \<and> (\<exists>r \<in> set (db_allocations d). al_id r = pid \<and> al_slot r = slot \<and>
     al_policy r = policy \<and> al_space_ref r = space \<and> al_status r = ''derivation_failed'' \<and> \<not> locked pid)"
proof (cases "failed_reservations locked policy space d")
  case Nil
  with assms show ?thesis by (simp add: sql_select_failed_eq)
next
  case (Cons r rs)
  then have "r \<in> set (failed_reservations locked policy space d)" by simp
  with Cons assms show ?thesis
    by (auto simp: sql_select_failed_eq failed_reservations_set)
qed

lemma db_inv_ids: "db_inv d \<Longrightarrow> r \<in> set (db_allocations d) \<Longrightarrow> r' \<in> set (db_allocations d) \<Longrightarrow>
    al_id r = al_id r' \<Longrightarrow> r = r'"
  by (auto simp: db_inv_def schema_ok_def allocations_ok_def distinct_map inj_on_def)

lemma sql_reopen_step:
  assumes "r \<in> set (db_allocations d)" and "al_id r = pid" and "al_status r \<noteq> ''issued''"
    and "sql_reopen pid e c now d = (x, d')"
  shows "db_step d d'"
proof -
  have "db_step d (snd (sql_reopen pid e c now d))"
    unfolding sql_reopen_def Let_def
    by (rule put_allocations_update_step) (use assms(1-3) db_inv_ids in auto)
  then show ?thesis using assms(4) by simp
qed

text \<open>
  The facts that a proof on a method combines: every statement grows the sequences, and the
  ones that are not \<open>ReserveFresh\<close>'s keep the invariant one by one.
\<close>

lemmas allocation_stmt_steps =
  sql_complete_allocation_step sql_mark_derivation_failed_step sql_ensure_cursor_step
  sql_advance_cursor_step sql_reads_step

lemmas allocation_stmt_seqs =
  allocation_stmt_steps [THEN stmt_rel_seqs] sql_insert_allocation_seqs sql_reopen_seqs

lemmas allocation_exec_seqs = allocation_stmt_seqs [THEN seqs.exec_sql_rel, THEN world_relD]

lemmas allocation_exec_steps = allocation_stmt_steps [THEN steps.exec_sql_rel, THEN world_relD]

lemma FindIssuedByID_seqs: "world_rel seqs_le (AllocationStore_FindIssuedByID env pid)"
  by (rule world_relI)
    (auto simp: AllocationStore_FindIssuedByID_def seqs.refl dest: allocation_exec_seqs
      split: if_splits prod.splits sum.splits option.splits)

lemma FindIssuedByID_db: "AllocationStore_FindIssuedByID env pid w = (r, w') \<Longrightarrow> w_db w' = w_db w"
  by (auto simp: AllocationStore_FindIssuedByID_def exec_sql_def sql_select_issued_def
      split: if_splits prod.splits sum.splits option.splits)

lemma Complete_seqs: "world_rel seqs_le (AllocationStore_Complete env input)"
  by (rule world_relI)
    (auto simp: AllocationStore_Complete_def Let_def seqs.refl dest: allocation_exec_seqs
      split: if_splits prod.splits sum.splits)

lemma Complete_step: "ok_rel db_step (AllocationStore_Complete env input)"
  by (rule ok_relI)
    (auto simp: AllocationStore_Complete_def Let_def dest: allocation_exec_steps
      split: if_splits prod.splits sum.splits)

lemma MarkDerivationFailed_seqs: "world_rel seqs_le (AllocationStore_MarkDerivationFailed env a)"
  by (rule world_relI)
    (auto simp: AllocationStore_MarkDerivationFailed_def dest: allocation_exec_seqs
      split: if_splits prod.splits sum.splits)

lemma MarkDerivationFailed_step: "ok_rel db_step (AllocationStore_MarkDerivationFailed env a)"
  by (rule ok_relI)
    (auto simp: AllocationStore_MarkDerivationFailed_def dest: allocation_exec_steps
      split: if_splits prod.splits sum.splits)

lemma Reopen_seqs: "world_rel seqs_le (AllocationStore_ReopenFailedReservation env input)"
  by (rule world_relI)
    (auto simp: AllocationStore_ReopenFailedReservation_def Let_def seqs.refl
      dest!: allocation_exec_seqs intro: seqs.trans
      split: if_splits prod.splits sum.splits option.splits)

lemma Reopen_step: "ok_rel db_step (AllocationStore_ReopenFailedReservation env input)"
proof (rule ok_relI)
  fix w x w'
  assume R: "AllocationStore_ReopenFailedReservation env input w = (Inr x, w')"
  then show "db_step (w_db w) (w_db w')"
    by (auto simp: AllocationStore_ReopenFailedReservation_def Let_def exec_sql_Inr_iff
        dest!: sql_select_failed_Some split: if_splits prod.splits sum.splits option.splits)
      (auto simp: sql_select_failed_def steps.refl intro: sql_reopen_step)
qed

lemma ReserveFresh_seqs: "world_rel seqs_le (AllocationStore_ReserveFresh env input)"
  by (rule world_relI)
    (auto simp: AllocationStore_ReserveFresh_def Let_def seqs.refl
      dest!: allocation_exec_seqs intro: seqs.trans
      split: if_splits prod.splits sum.splits option.splits)

end
