(* ===== verification/Idempotency_Store.thy ===== *)
theory Idempotency_Store
  imports Sql_Db
begin

text \<open>
  The idempotency key store of
  \<open>adapters/outbound/persistence/postgres/payment_address_idempotency_store.go\<close>: find, claim,
  complete and release of a key. A claim is a row with no payment address yet; completing
  it sets the address once, releasing it deletes it. The lemmas give the effect of each
  method on the key table and the guarantee that a completed key never changes.
\<close>

section \<open>Statements\<close>

definition pkName :: string where "pkName = ''pk_payment_address_idempotency_keys''"

definition sql_select_key :: "string \<Rightarrow> string \<Rightarrow> KeyRow option stmt" where
  "sql_select_key chain key now d = (Inr (find (\<lambda>r. key_id r = (chain, key)) (db_keys d)), d)"

text \<open>
  The row is checked before it is written, and the primary key is the one unique
  constraint of the table.
\<close>

definition sql_insert_key ::
  "string \<Rightarrow> string \<Rightarrow> string \<Rightarrow> int64 \<Rightarrow> string option \<Rightarrow> unit stmt" where
  "sql_insert_key chain key policy expected customer now d =
     (let row = \<lparr>ik_chain = chain, ik_key = key, ik_policy = policy, ik_expected = expected,
                 ik_customer = customer, ik_payment_address_id = None\<rparr>
      in if \<not> key_row_ok (db_allocations d) row then (Inl SqlFailed, d)
         else if (chain, key) \<in> set (map key_id (db_keys d)) then (Inl (UniqueViolation pkName), d)
         else put_keys (db_keys d @ [row]) () d)"

definition sql_complete_key :: "string \<Rightarrow> string \<Rightarrow> int64 \<Rightarrow> nat stmt" where
  "sql_complete_key chain key pid now d =
     (let p = (\<lambda>r. key_id r = (chain, key) \<and> ik_payment_address_id r = None)
      in put_keys (update_where p (\<lambda>r. r\<lparr>ik_payment_address_id := Some pid\<rparr>) (db_keys d))
           (count_where p (db_keys d)) d)"

definition sql_delete_key :: "string \<Rightarrow> string \<Rightarrow> nat stmt" where
  "sql_delete_key chain key now d =
     (let p = (\<lambda>r. key_id r = (chain, key) \<and> ik_payment_address_id r = None)
      in put_keys (filter (\<lambda>r. \<not> p r) (db_keys d)) (count_where p (db_keys d)) d)"

section \<open>Methods\<close>

definition scan_key :: "string \<Rightarrow> KeyRow \<Rightarrow> PaymentAddressIdempotencyRecord option result" where
  "scan_key idempotencyKey r =
     (case NormalizeSupportedChain (ik_chain r) of
        None \<Rightarrow> Inl (OutIdem out_ErrPaymentAddressIdempotencyPersistedChainInvalid)
      | Some chain \<Rightarrow>
     (case NormalizeAddressPolicyID (ik_policy r) of
        None \<Rightarrow> Inl (OutIdem out_ErrPaymentAddressIdempotencyPersistedAddressPolicyIDInvalid)
      | Some parsedAddressPolicyID \<Rightarrow>
          Inr (Some \<lparr>idr_Chain = chain, idr_IdempotencyKey = idempotencyKey,
                     idr_AddressPolicyID = parsedAddressPolicyID,
                     idr_ExpectedAmountMinor = ik_expected r,
                     idr_CustomerReference = coalesce (ik_customer r),
                     idr_PaymentAddressID =
                       (case ik_payment_address_id r of None \<Rightarrow> 0 | Some i \<Rightarrow> i)\<rparr>)))"

definition IdempotencyStore_FindByKey ::
  "Env \<Rightarrow> string \<Rightarrow> string \<Rightarrow> World \<Rightarrow> PaymentAddressIdempotencyRecord option result \<times> World" where
  "IdempotencyStore_FindByKey env chain rawKey w =
     (let idempotencyKey = trim_space rawKey
      in if idempotencyKey = [] then (Inr None, w)
         else case exec_sql env (sql_select_key chain idempotencyKey) w of
             (Inl _, w1) \<Rightarrow> (Inl (OutIdem out_ErrPaymentAddressIdempotencyStoreFailed), w1)
           | (Inr None, w1) \<Rightarrow> (Inr None, w1)
           | (Inr (Some r), w1) \<Rightarrow> (scan_key idempotencyKey r, w1))"

definition isPaymentAddressIdempotencyDuplicateKey :: "sql_error \<Rightarrow> bool" where
  "isPaymentAddressIdempotencyDuplicateKey err =
     (case err of UniqueViolation constraint \<Rightarrow> constraint = pkName | SqlFailed \<Rightarrow> False)"

definition IdempotencyStore_Claim ::
  "Env \<Rightarrow> ClaimPaymentAddressIdempotencyInput \<Rightarrow> World
     \<Rightarrow> PaymentAddressIdempotencyRecord result \<times> World" where
  "IdempotencyStore_Claim env input w =
     (let idempotencyKey = trim_space (icl_IdempotencyKey input);
          customerReference = trim_space (icl_CustomerReference input)
      in if icl_Chain input = []
           then (Inl (OutIdem out_ErrPaymentAddressIdempotencyChainRequired), w)
         else if idempotencyKey = []
           then (Inl (OutIdem out_ErrPaymentAddressIdempotencyKeyRequired), w)
         else case NormalizeAddressPolicyID (icl_AddressPolicyID input) of
             None \<Rightarrow> (Inl (OutIdem out_ErrPaymentAddressIdempotencyAddressPolicyIDRequired), w)
           | Some addressPolicyID \<Rightarrow>
         if sint (icl_ExpectedAmountMinor input) \<le> 0
           then (Inl (OutIdem out_ErrPaymentAddressIdempotencyExpectedAmountInvalid), w)
         else (case exec_sql env (sql_insert_key (icl_Chain input) idempotencyKey addressPolicyID
                     (icl_ExpectedAmountMinor input) (nullIfEmpty customerReference)) w of
             (Inl err, w1) \<Rightarrow>
               if isPaymentAddressIdempotencyDuplicateKey err
                 then (Inl (OutIdem out_ErrPaymentAddressIdempotencyKeyExists), w1)
               else (Inl (OutIdem out_ErrPaymentAddressIdempotencyStoreFailed), w1)
           | (Inr _, w1) \<Rightarrow>
               (Inr \<lparr>idr_Chain = icl_Chain input, idr_IdempotencyKey = idempotencyKey,
                     idr_AddressPolicyID = addressPolicyID,
                     idr_ExpectedAmountMinor = icl_ExpectedAmountMinor input,
                     idr_CustomerReference = customerReference, idr_PaymentAddressID = 0\<rparr>, w1)))"

definition IdempotencyStore_Complete ::
  "Env \<Rightarrow> string \<Rightarrow> string \<Rightarrow> int64 \<Rightarrow> World \<Rightarrow> unit result \<times> World" where
  "IdempotencyStore_Complete env chain rawKey paymentAddressID w =
     (let idempotencyKey = trim_space rawKey
      in if chain = [] then (Inl (OutIdem out_ErrPaymentAddressIdempotencyChainRequired), w)
         else if idempotencyKey = []
           then (Inl (OutIdem out_ErrPaymentAddressIdempotencyKeyRequired), w)
         else if sint paymentAddressID \<le> 0
           then (Inl (OutIdem out_ErrPaymentAddressIdempotencyPaymentAddressIDInvalid), w)
         else case exec_sql env (sql_complete_key chain idempotencyKey paymentAddressID) w of
             (Inl _, w1) \<Rightarrow> (Inl (OutIdem out_ErrPaymentAddressIdempotencyStoreFailed), w1)
           | (Inr rowsAffected, w1) \<Rightarrow>
               if rowsAffected = 0
                 then (Inl (OutIdem out_ErrPaymentAddressIdempotencyClaimNotFound), w1)
               else (Inr (), w1))"

definition IdempotencyStore_Release ::
  "Env \<Rightarrow> string \<Rightarrow> string \<Rightarrow> World \<Rightarrow> unit result \<times> World" where
  "IdempotencyStore_Release env chain rawKey w =
     (let idempotencyKey = trim_space rawKey
      in if chain = [] then (Inl (OutIdem out_ErrPaymentAddressIdempotencyChainRequired), w)
         else if idempotencyKey = []
           then (Inl (OutIdem out_ErrPaymentAddressIdempotencyKeyRequired), w)
         else case exec_sql env (sql_delete_key chain idempotencyKey) w of
             (Inl _, w1) \<Rightarrow> (Inl (OutIdem out_ErrPaymentAddressIdempotencyStoreFailed), w1)
           | (Inr rowsAffected, w1) \<Rightarrow>
               if rowsAffected = 0
                 then (Inl (OutIdem out_ErrPaymentAddressIdempotencyClaimNotFound), w1)
               else (Inr (), w1))"

section \<open>Guarantees\<close>

lemma put_keys_step:
  assumes "\<And>k. k \<in> set (db_keys d) \<Longrightarrow> ik_payment_address_id k \<noteq> None \<Longrightarrow> k \<in> set rows"
  shows "db_step d (snd (put_keys rows x d))"
  using assms
  by (auto simp: put_keys_def db_step_def db_keeps_def db_inv_def schema_ok_def serials_ok_def
      cursors_ahead_def seqs_le_def)

lemma sql_key_steps:
  "stmt_rel db_step (sql_select_key chain key)"
  "stmt_rel db_step (sql_insert_key chain key policy expected customer)"
  "stmt_rel db_step (sql_complete_key chain key pid)"
  "stmt_rel db_step (sql_delete_key chain key)"
proof -
  show "stmt_rel db_step (sql_select_key chain key)"
    by (rule steps.read_only_rel) (simp add: sql_select_key_def)
  show "stmt_rel db_step (sql_insert_key chain key policy expected customer)"
    by (rule stmt_relI) (simp add: sql_insert_key_def Let_def steps.refl put_keys_step)
  show "stmt_rel db_step (sql_complete_key chain key pid)"
    by (rule stmt_relI, unfold sql_complete_key_def Let_def, rule put_keys_step)
      (force simp: set_update_where)
  show "stmt_rel db_step (sql_delete_key chain key)"
    by (rule stmt_relI) (auto simp: sql_delete_key_def Let_def intro!: put_keys_step)
qed

lemmas key_exec_steps = sql_key_steps [THEN steps.exec_sql_rel, THEN world_relD]

text \<open>Every method of this store keeps the guarantee, whether it succeeds or fails.\<close>

lemma idempotency_steps:
  "world_rel db_step (IdempotencyStore_FindByKey env chain key)"
  "world_rel db_step (IdempotencyStore_Claim env input)"
  "world_rel db_step (IdempotencyStore_Complete env chain key pid)"
  "world_rel db_step (IdempotencyStore_Release env chain key)"
  by (rule world_relI;
      auto simp: IdempotencyStore_FindByKey_def IdempotencyStore_Claim_def
        IdempotencyStore_Complete_def IdempotencyStore_Release_def Let_def steps.refl
      dest: key_exec_steps split: if_splits prod.splits sum.splits option.splits)+

lemma world_rel_seqs: "world_rel db_step f \<Longrightarrow> world_rel seqs_le f"
  by (simp add: world_rel_def db_step_def)

lemma FindByKey_db: "IdempotencyStore_FindByKey env chain key w = (r, w') \<Longrightarrow> w_db w' = w_db w"
  by (auto simp: IdempotencyStore_FindByKey_def Let_def exec_sql_def sql_select_key_def
      split: if_splits prod.splits sum.splits option.splits)

section \<open>Effects\<close>

lemma Claim_Inr_iff:
  "IdempotencyStore_Claim env input w = (Inr rec, w') \<longleftrightarrow>
     icl_Chain input \<noteq> [] \<and> trim_space (icl_IdempotencyKey input) \<noteq> [] \<and>
     0 < sint (icl_ExpectedAmountMinor input) \<and> \<not> env_fault env (w_step w) \<and>
     (\<exists>pol row.
        ParseChainID (icl_AddressPolicyID input) = Some pol \<and>
        row = \<lparr>ik_chain = icl_Chain input, ik_key = trim_space (icl_IdempotencyKey input),
              ik_policy = pol, ik_expected = icl_ExpectedAmountMinor input,
              ik_customer = nullIfEmpty (trim_space (icl_CustomerReference input)),
              ik_payment_address_id = None\<rparr> \<and>
        key_id row \<notin> set (map key_id (db_keys (w_db w))) \<and>
        keys_ok (db_allocations (w_db w)) (db_keys (w_db w) @ [row]) \<and>
        rec = \<lparr>idr_Chain = icl_Chain input, idr_IdempotencyKey = trim_space (icl_IdempotencyKey input),
              idr_AddressPolicyID = pol, idr_ExpectedAmountMinor = icl_ExpectedAmountMinor input,
              idr_CustomerReference = trim_space (icl_CustomerReference input),
              idr_PaymentAddressID = 0\<rparr> \<and>
        w' = (tick w)\<lparr>w_db := (w_db w)\<lparr>db_keys := db_keys (w_db w) @ [row]\<rparr>\<rparr>)"
  by (auto simp: IdempotencyStore_Claim_def Let_def exec_sql_def sql_insert_key_def put_keys_def
      key_row_ok_def key_id_def keys_ok_def split: if_splits prod.splits sum.splits option.splits)

text \<open>
  A key that is taken is reported as such, and only then (the insert is the first statement
  that could fail, and it fails on the primary key alone).
\<close>

lemma Claim_KeyExists_iff:
  "fst (IdempotencyStore_Claim env input w) = Inl (OutIdem out_ErrPaymentAddressIdempotencyKeyExists) \<longleftrightarrow>
     icl_Chain input \<noteq> [] \<and> trim_space (icl_IdempotencyKey input) \<noteq> [] \<and>
     0 < sint (icl_ExpectedAmountMinor input) \<and> \<not> env_fault env (w_step w) \<and>
     ParseChainID (icl_AddressPolicyID input) \<noteq> None \<and>
     (icl_Chain input, trim_space (icl_IdempotencyKey input)) \<in> set (map key_id (db_keys (w_db w)))"
  by (auto simp: IdempotencyStore_Claim_def Let_def exec_sql_def sql_insert_key_def put_keys_def
      key_row_ok_def isPaymentAddressIdempotencyDuplicateKey_def
      split: if_splits prod.splits sum.splits option.splits)

end
