(* ===== verification/Tracking_Store.thy ===== *)
theory Tracking_Store
  imports Sql_Db
begin

text \<open>
  The receipt tracking store of
  \<open>adapters/outbound/persistence/postgres/payment_receipt_tracking_store.go\<close>: a tracking is
  created once per payment address, due trackings are claimed by setting a lease, and saving
  a tracking releases its lease. The rows of \<open>RETURNING\<close> are listed in the order of the
  \<open>due\<close> query. The lemmas give the effect of each method, that what was saved is read back,
  and that a claimed tracking is not claimed again before its lease ends.
\<close>

section \<open>Statements\<close>

definition track_row_of ::
  "PaymentReceiptTrackingRecord \<Rightarrow> int64 \<Rightarrow> gotime \<Rightarrow> gotime \<Rightarrow> TrackRow" where
  "track_row_of t i expiresAt nextPollAt =
     \<lparr>pt_id = i, pt_payment_address_id = tr_PaymentAddressID t, pt_policy = tr_AddressPolicyID t,
      pt_chain = tr_Chain t, pt_network = tr_Network t, pt_address = tr_Address t,
      pt_asset = nullIfEmpty (trim_space (tr_AssetReference t)),
      pt_issued_at = Some (tr_IssuedAt t), pt_expires_at = expiresAt,
      pt_expected = tr_ExpectedAmountMinor t, pt_confirmations = tr_RequiredConfirmations t,
      pt_status = tr_Status t, pt_observed = tr_ObservedTotalMinor t,
      pt_confirmed = tr_ConfirmedTotalMinor t, pt_unconfirmed = tr_UnconfirmedTotalMinor t,
      pt_height = tr_LastObservedBlockHeight t, pt_first_observed_at = tr_FirstObservedAt t,
      pt_paid_at = tr_PaidAt t, pt_confirmed_at = tr_ConfirmedAt t,
      pt_last_error = nullIfEmpty (tr_LastFailureReason t),
      pt_last_polled_at = None, pt_next_poll_at = nextPollAt, pt_lease_until = None\<rparr>"

text \<open>
  The default of \<open>id\<close> takes a number from the sequence first; a NULL \<open>expires_at\<close> or a failed
  CHECK is an error, and a row for the same payment address makes the insert a no-op.
\<close>

definition sql_insert_tracking :: "PaymentReceiptTrackingRecord \<Rightarrow> gotime \<Rightarrow> nat stmt" where
  "sql_insert_tracking t nextPollAt now d =
     (case next_serial (db_track_seq d) of
        None \<Rightarrow> (Inl SqlFailed, d)
      | Some i \<Rightarrow>
          (let d1 = d\<lparr>db_track_seq := Suc (db_track_seq d)\<rparr>
           in case tr_ExpiresAt t of
               None \<Rightarrow> (Inl SqlFailed, d1)
             | Some expiresAt \<Rightarrow>
                 (let row = track_row_of t i expiresAt nextPollAt
                  in if tr_PaymentAddressID t \<in> set (map pt_payment_address_id (db_trackings d))
                       then (if track_row_ok (db_allocations d) row then (Inr 0, d1)
                             else (Inl SqlFailed, d1))
                     else put_trackings (db_trackings d @ [row]) 1 d1)))"

definition tracking_due :: "ClaimPaymentReceiptTrackingsInput \<Rightarrow> (int64 \<Rightarrow> bool) \<Rightarrow> TrackRow \<Rightarrow> bool" where
  "tracking_due input locked r \<longleftrightarrow>
     (let chainFilter = to_lower (trim_space (ctr_Chain input));
          networkFilter = to_lower (trim_space (ctr_Network input))
      in pt_next_poll_at r \<le> ctr_Now input \<and>
         (case pt_lease_until r of None \<Rightarrow> True | Some until \<Rightarrow> until \<le> ctr_Now input) \<and>
         pt_status r \<in> set (ctr_Statuses input) \<and>
         (chainFilter = [] \<or> pt_chain r = chainFilter) \<and>
         (networkFilter = [] \<or> pt_network r = networkFilter) \<and>
         \<not> locked (pt_id r))"

definition due_trackings ::
  "ClaimPaymentReceiptTrackingsInput \<Rightarrow> (int64 \<Rightarrow> bool) \<Rightarrow> DB \<Rightarrow> TrackRow list" where
  "due_trackings input locked d =
     first_due pt_next_poll_at pt_id (ctr_Limit input)
       (filter (tracking_due input locked) (db_trackings d))"

definition sql_claim_trackings ::
  "ClaimPaymentReceiptTrackingsInput \<Rightarrow> (int64 \<Rightarrow> bool) \<Rightarrow> TrackRow list stmt" where
  "sql_claim_trackings input locked now d =
     (let due = due_trackings input locked d
      in put_trackings
           (update_where (\<lambda>r. pt_id r \<in> set (map pt_id due))
              (\<lambda>r. r\<lparr>pt_lease_until := Some (ctr_ClaimUntil input)\<rparr>) (db_trackings d))
           (map (\<lambda>r. r\<lparr>pt_lease_until := Some (ctr_ClaimUntil input)\<rparr>) due) d)"

definition saved_row :: "PaymentReceiptTrackingRecord \<Rightarrow> gotime \<Rightarrow> gotime \<Rightarrow> gotime \<Rightarrow> TrackRow \<Rightarrow> TrackRow" where
  "saved_row t expiresAt polledAt nextPollAt r =
     r\<lparr>pt_status := tr_Status t, pt_observed := tr_ObservedTotalMinor t,
       pt_confirmed := tr_ConfirmedTotalMinor t, pt_unconfirmed := tr_UnconfirmedTotalMinor t,
       pt_height := tr_LastObservedBlockHeight t, pt_first_observed_at := tr_FirstObservedAt t,
       pt_paid_at := tr_PaidAt t, pt_confirmed_at := tr_ConfirmedAt t,
       pt_expires_at := expiresAt, pt_last_error := nullIfEmpty (tr_LastFailureReason t),
       pt_last_polled_at := Some polledAt, pt_next_poll_at := nextPollAt, pt_lease_until := None\<rparr>"

definition sql_save_tracking :: "PaymentReceiptTrackingRecord \<Rightarrow> gotime \<Rightarrow> gotime \<Rightarrow> nat stmt" where
  "sql_save_tracking t polledAt nextPollAt now d =
     (let p = (\<lambda>r. pt_payment_address_id r = tr_PaymentAddressID t);
          n = count_where p (db_trackings d)
      in case tr_ExpiresAt t of
          None \<Rightarrow> if n = 0 then (Inr 0, d) else (Inl SqlFailed, d)
        | Some expiresAt \<Rightarrow>
            put_trackings (update_where p (saved_row t expiresAt polledAt nextPollAt) (db_trackings d)) n d)"

section \<open>Methods\<close>

definition TrackingStore_Create ::
  "Env \<Rightarrow> PaymentReceiptTrackingRecord \<Rightarrow> gotime \<Rightarrow> World \<Rightarrow> unit result \<times> World" where
  "TrackingStore_Create env tracking nextPollAt w =
     (if time_is_zero nextPollAt
        then (Inl (OutTrack out_ErrPaymentReceiptTrackingNextPollAtRequired), w)
      else case exec_sql env (sql_insert_tracking tracking nextPollAt) w of
          (Inl _, w1) \<Rightarrow> (Inl (OutTrack out_ErrPaymentReceiptTrackingStoreFailed), w1)
        | (Inr rowsAffected, w1) \<Rightarrow>
            if rowsAffected = 0 then (Inl (OutTrack out_ErrPaymentReceiptTrackingAlreadyExists), w1)
            else (Inr (), w1))"

definition scanPaymentReceiptTracking :: "TrackRow \<Rightarrow> PaymentReceiptTrackingRecord result" where
  "scanPaymentReceiptTracking r =
     (case NormalizeChainID (pt_chain r) of
        None \<Rightarrow> Inl (OutTrack out_ErrPaymentReceiptTrackingPersistedChainInvalid)
      | Some chain \<Rightarrow>
     (case NormalizeAddressPolicyID (pt_policy r) of
        None \<Rightarrow> Inl (OutTrack out_ErrPaymentReceiptTrackingPersistedAddressPolicyIDInvalid)
      | Some parsedAddressPolicyID \<Rightarrow>
     (case NormalizeNetworkID (pt_network r) of
        None \<Rightarrow> Inl (OutTrack out_ErrPaymentReceiptTrackingPersistedNetworkInvalid)
      | Some network \<Rightarrow>
     (case NormalizePaymentReceiptStatus (pt_status r) of
        None \<Rightarrow> Inl (OutTrack out_ErrPaymentReceiptTrackingPersistedStatusInvalid)
      | Some status \<Rightarrow>
          Inr \<lparr>tr_TrackingID = pt_id r, tr_PaymentAddressID = pt_payment_address_id r,
               tr_AddressPolicyID = parsedAddressPolicyID, tr_Chain = chain, tr_Network = network,
               tr_Address = pt_address r,
               tr_AssetReference = trim_space (coalesce (pt_asset r)),
               tr_IssuedAt = (case pt_issued_at r of None \<Rightarrow> 0 | Some t \<Rightarrow> t),
               tr_ExpectedAmountMinor = pt_expected r,
               tr_RequiredConfirmations = pt_confirmations r,
               tr_Status = status, tr_ObservedTotalMinor = pt_observed r,
               tr_ConfirmedTotalMinor = pt_confirmed r, tr_UnconfirmedTotalMinor = pt_unconfirmed r,
               tr_LastObservedBlockHeight = pt_height r,
               tr_FirstObservedAt = pt_first_observed_at r, tr_PaidAt = pt_paid_at r,
               tr_ConfirmedAt = pt_confirmed_at r, tr_ExpiresAt = Some (pt_expires_at r),
               tr_LastFailureReason =
                 persistedTrackingFailureReason (coalesce (pt_last_error r))\<rparr>))))"

definition TrackingStore_ClaimDue ::
  "Env \<Rightarrow> ClaimPaymentReceiptTrackingsInput \<Rightarrow> World
     \<Rightarrow> PaymentReceiptTrackingRecord list result \<times> World" where
  "TrackingStore_ClaimDue env input w =
     (if time_is_zero (ctr_Now input)
        then (Inl (OutTrack out_ErrPaymentReceiptTrackingClaimNowRequired), w)
      else if time_is_zero (ctr_ClaimUntil input)
        then (Inl (OutTrack out_ErrPaymentReceiptTrackingClaimUntilRequired), w)
      else if sint (ctr_Limit input) \<le> 0
        then (Inl (OutTrack out_ErrPaymentReceiptTrackingClaimLimitInvalid), w)
      else if ctr_Statuses input = []
        then (Inl (OutTrack out_ErrPaymentReceiptTrackingClaimStatusesRequired), w)
      else if [] \<in> set (ctr_Statuses input)
        then (Inl (OutTrack out_ErrPaymentReceiptTrackingClaimStatusRequired), w)
      else case exec_sql env (sql_claim_trackings input (env_locked env (w_step w))) w of
          (Inl _, w1) \<Rightarrow> (Inl (OutTrack out_ErrPaymentReceiptTrackingStoreFailed), w1)
        | (Inr rows, w1) \<Rightarrow> (map_results scanPaymentReceiptTracking rows, w1))"

definition TrackingStore_Save ::
  "Env \<Rightarrow> PaymentReceiptTrackingRecord \<Rightarrow> gotime \<Rightarrow> gotime \<Rightarrow> World \<Rightarrow> unit result \<times> World" where
  "TrackingStore_Save env tracking polledAt nextPollAt w =
     (if time_is_zero polledAt
        then (Inl (OutTrack out_ErrPaymentReceiptTrackingPolledAtRequired), w)
      else if time_is_zero nextPollAt
        then (Inl (OutTrack out_ErrPaymentReceiptTrackingNextPollAtRequired), w)
      else case exec_sql env (sql_save_tracking tracking polledAt nextPollAt) w of
          (Inl _, w1) \<Rightarrow> (Inl (OutTrack out_ErrPaymentReceiptTrackingStoreFailed), w1)
        | (Inr rowsAffected, w1) \<Rightarrow>
            if rowsAffected = 0 then (Inl (OutTrack out_ErrPaymentReceiptTrackingNotFound), w1)
            else (Inr (), w1))"

section \<open>Guarantees\<close>

lemma put_trackings_step:
  assumes "\<And>r. r \<in> set rows \<Longrightarrow>
      (\<exists>x \<in> set (db_trackings d). pt_id r = pt_id x) \<or>
      0 < sint (pt_id r) \<and> sint (pt_id r) \<le> int n"
    and "db_track_seq d \<le> n"
  shows "db_step d (snd (put_trackings rows x (d\<lparr>db_track_seq := n\<rparr>)))"
proof -
  have "serials_ok (d\<lparr>db_track_seq := n\<rparr>)" if "serials_ok d"
    using that assms(2) by (force simp: serials_ok_def)
  moreover have "serials_ok (d\<lparr>db_track_seq := n, db_trackings := rows\<rparr>)" if s: "serials_ok d"
  proof -
    have "0 < sint (pt_id r) \<and> sint (pt_id r) \<le> int n" if "r \<in> set rows" for r
      using assms(1) [OF that] s assms(2) by (force simp: serials_ok_def)
    with s show ?thesis by (simp add: serials_ok_def)
  qed
  ultimately show ?thesis
    using assms(2)
    by (simp add: put_trackings_def db_step_def db_keeps_def db_inv_def schema_ok_def
        cursors_ahead_def seqs_le_def)
qed

lemma put_trackings_same_step:
  assumes "\<And>r. r \<in> set rows \<Longrightarrow> \<exists>x \<in> set (db_trackings d). pt_id r = pt_id x"
  shows "db_step d (snd (put_trackings rows x d))"
  using put_trackings_step [of rows d "db_track_seq d" x] assms by simp

lemma track_seq_step: "db_track_seq d \<le> n \<Longrightarrow> db_step d (d\<lparr>db_track_seq := n\<rparr>)"
  using db_step_lost [of d "d\<lparr>db_track_seq := n\<rparr>"]
  by (simp add: seqs_le_def keep_sequences_def)

lemma sql_tracking_steps:
  "stmt_rel db_step (sql_insert_tracking t nextPollAt)"
  "stmt_rel db_step (sql_claim_trackings input locked)"
  "stmt_rel db_step (sql_save_tracking t polledAt nextPollAt)"
proof -
  show "stmt_rel db_step (sql_insert_tracking t nextPollAt)"
    by (rule stmt_relI)
      (auto simp: sql_insert_tracking_def Let_def steps.refl track_row_of_def next_serial_sint
        intro!: track_seq_step put_trackings_step split: option.split)
  show "stmt_rel db_step (sql_claim_trackings input locked)"
    by (rule stmt_relI, unfold sql_claim_trackings_def Let_def, rule put_trackings_same_step)
      (force simp: set_update_where)
  show "stmt_rel db_step (sql_save_tracking t polledAt nextPollAt)"
    by (rule stmt_relI)
      (auto simp: sql_save_tracking_def Let_def steps.refl set_update_where saved_row_def
        intro!: put_trackings_same_step split: option.split; blast)
qed

lemmas tracking_exec_steps = sql_tracking_steps [THEN steps.exec_sql_rel, THEN world_relD]

lemma tracking_steps:
  "world_rel db_step (TrackingStore_Create env t at)"
  "world_rel db_step (TrackingStore_ClaimDue env input)"
  "world_rel db_step (TrackingStore_Save env t polledAt nextPollAt)"
  by (rule world_relI;
      auto simp: TrackingStore_Create_def TrackingStore_ClaimDue_def TrackingStore_Save_def steps.refl
      dest: tracking_exec_steps split: if_splits prod.splits sum.splits)+

section \<open>Reading back what was written\<close>

lemma reason_roundtrip:
  assumes "r = [] \<or> r \<in> set tracking_failure_reasons"
  shows "persistedTrackingFailureReason (trim_space r) = r"
proof -
  have "list_all (\<lambda>r. trim_space r = r) tracking_failure_reasons"
    by code_simp
  then have "trim_space r = r"
    using assms by (auto simp: list_all_iff)
  then show ?thesis
    using assms persistedTrackingFailureReason_self by auto
qed

text \<open>A tracking that is stored is read back as it is, with the identity the insert gave it.\<close>

lemma scan_created:
  assumes "tracking_portable t" and "trk_ExpiresAt t = Some e"
    and "trim_space (trk_AssetReference t) = trk_AssetReference t"
  shows "scanPaymentReceiptTracking (track_row_of (paymentReceiptTrackingRecordFromDomain t) i e n) =
     Inr (paymentReceiptTrackingRecordFromDomain (t\<lparr>trk_TrackingID := i\<rparr>))"
  using assms
  by (auto simp: scanPaymentReceiptTracking_def track_row_of_def paymentReceiptTrackingRecordFromDomain_def
      tracking_portable_def ParseChainID_of_portable ParsePaymentReceiptStatus_of_mem reason_roundtrip)

definition same_identity :: "PaymentReceiptTracking \<Rightarrow> PaymentReceiptTracking \<Rightarrow> bool" where
  "same_identity t u \<longleftrightarrow>
     trk_TrackingID t = trk_TrackingID u \<and> trk_PaymentAddressID t = trk_PaymentAddressID u \<and>
     trk_AddressPolicyID t = trk_AddressPolicyID u \<and> trk_Chain t = trk_Chain u \<and>
     trk_Network t = trk_Network u \<and> trk_Address t = trk_Address u \<and>
     trk_AssetReference t = trk_AssetReference u \<and> trk_IssuedAt t = trk_IssuedAt u \<and>
     trk_ExpectedAmountMinor t = trk_ExpectedAmountMinor u \<and>
     trk_RequiredConfirmations t = trk_RequiredConfirmations u"

definition row_tracking :: "TrackRow \<Rightarrow> PaymentReceiptTracking result" where
  "row_tracking r =
     (case scanPaymentReceiptTracking r of
        Inl e \<Rightarrow> Inl e
      | Inr rec \<Rightarrow> paymentReceiptTrackingFromRecord rec)"

lemma row_tracking_Inr:
  assumes "row_tracking r = Inr t"
  shows "ParseChainID (pt_chain r) = Some (trk_Chain t) \<and>
    ParseChainID (pt_policy r) = Some (trk_AddressPolicyID t) \<and>
    ParseChainID (pt_network r) = Some (trk_Network t) \<and>
    pt_id r = trk_TrackingID t \<and> pt_payment_address_id r = trk_PaymentAddressID t \<and>
    pt_address r = trk_Address t \<and> trim_space (coalesce (pt_asset r)) = trk_AssetReference t \<and>
    (case pt_issued_at r of None \<Rightarrow> 0 | Some t \<Rightarrow> t) = trk_IssuedAt t \<and>
    pt_expected r = trk_ExpectedAmountMinor t \<and> pt_confirmations r = trk_RequiredConfirmations t \<and>
    trk_ExpiresAt t = Some (pt_expires_at r) \<and>
    ParsePaymentReceiptStatus (pt_status r) = Some (trk_Status t) \<and> tracking_portable t"
proof -
  obtain rec where s: "scanPaymentReceiptTracking r = Inr rec"
    and f: "paymentReceiptTrackingFromRecord rec = Inr t"
    using assms by (auto simp: row_tracking_def split: sum.splits)
  have rec: "ParseChainID (pt_chain r) = Some (tr_Chain rec)"
    "ParseChainID (pt_policy r) = Some (tr_AddressPolicyID rec)"
    "ParseChainID (pt_network r) = Some (tr_Network rec)"
    "ParsePaymentReceiptStatus (pt_status r) = Some (tr_Status rec)"
    and fields: "pt_id r = tr_TrackingID rec" "pt_payment_address_id r = tr_PaymentAddressID rec"
    "pt_address r = tr_Address rec" "trim_space (coalesce (pt_asset r)) = tr_AssetReference rec"
    "(case pt_issued_at r of None \<Rightarrow> 0 | Some t \<Rightarrow> t) = tr_IssuedAt rec"
    "pt_expected r = tr_ExpectedAmountMinor rec" "pt_confirmations r = tr_RequiredConfirmations rec"
    "tr_ExpiresAt rec = Some (pt_expires_at r)"
    using s by (auto simp: scanPaymentReceiptTracking_def split: option.splits)
  note idem = rec(1-3) [THEN ParseChainID_idem]
    ParsePaymentReceiptStatus_of_mem [OF ParsePaymentReceiptStatus_mem [OF rec(4)]]
  show ?thesis
    using f rec fields idem tracking_from_record_portable [OF f]
    by (auto simp: paymentReceiptTrackingFromRecord_def NewAddressPolicyID_def split: sum.splits)
qed

text \<open>
  Saving writes every field of a tracking that a transition can change; the others come from
  the row.
\<close>

lemma row_tracking_saved:
  assumes r: "row_tracking r = Inr t" and same: "same_identity t u"
    and u: "tracking_portable u" "trk_ExpiresAt u = Some e"
  shows "row_tracking (saved_row (paymentReceiptTrackingRecordFromDomain u) e p n r) = Inr u"
proof -
  have "scanPaymentReceiptTracking (saved_row (paymentReceiptTrackingRecordFromDomain u) e p n r) =
      Inr (paymentReceiptTrackingRecordFromDomain u)"
    using row_tracking_Inr [OF r] same u
    by (auto simp: scanPaymentReceiptTracking_def saved_row_def paymentReceiptTrackingRecordFromDomain_def
        tracking_portable_def ParsePaymentReceiptStatus_of_mem reason_roundtrip same_identity_def)
  then show ?thesis
    by (simp add: row_tracking_def tracking_record_roundtrip [OF u(1)])
qed

section \<open>Claims are exclusive\<close>

lemma first_due_due:
  "r \<in> set (due_trackings input locked d) \<Longrightarrow> r \<in> set (db_trackings d) \<and> tracking_due input locked r"
  using set_first_due unfolding due_trackings_def by fastforce

text \<open>
  After a claim, the claimed rows carry the lease, all others are as before, and whatever a
  later claim finds due before the lease ends was not part of the first one.
\<close>

lemma claim_exclusive:
  assumes claim: "sql_claim_trackings input locked now d = (Inr rows, d')"
    and due: "r \<in> set (due_trackings input' locked' d')"
    and lease: "ctr_Now input' < ctr_ClaimUntil input"
  shows "pt_id r \<notin> set (map pt_id rows)"
proof
  assume mem: "pt_id r \<in> set (map pt_id rows)"
  let ?due = "due_trackings input locked d"
  have rows: "map pt_id rows = map pt_id ?due"
    and d': "db_trackings d' = update_where (\<lambda>r. pt_id r \<in> set (map pt_id ?due))
        (\<lambda>r. r\<lparr>pt_lease_until := Some (ctr_ClaimUntil input)\<rparr>) (db_trackings d)"
    using claim by (auto simp: sql_claim_trackings_def Let_def put_Inr_iff)
  have r: "r \<in> set (db_trackings d')" and "tracking_due input' locked' r"
    using first_due_due [OF due] by auto
  obtain x where x: "r = (if pt_id x \<in> set (map pt_id ?due)
      then x\<lparr>pt_lease_until := Some (ctr_ClaimUntil input)\<rparr> else x)"
    using r unfolding d' set_update_where by blast
  then have "pt_id r = pt_id x"
    by simp
  with x mem have "pt_lease_until r = Some (ctr_ClaimUntil input)"
    unfolding rows by simp
  then show False
    using \<open>tracking_due input' locked' r\<close> lease by (simp add: tracking_due_def Let_def)
qed

lemma claim_rows:
  assumes "sql_claim_trackings input locked now d = (Inr rows, d')"
  shows "length rows \<le> nat (sint (ctr_Limit input))"
    and "\<forall>r \<in> set rows. pt_status r \<in> set (ctr_Statuses input) \<and> pt_next_poll_at r \<le> ctr_Now input"
proof -
  have rows: "rows = map (\<lambda>r. r\<lparr>pt_lease_until := Some (ctr_ClaimUntil input)\<rparr>) (due_trackings input locked d)"
    using assms by (auto simp: sql_claim_trackings_def Let_def put_Inr_iff)
  show "length rows \<le> nat (sint (ctr_Limit input))"
    by (simp add: rows due_trackings_def length_first_due)
  show "\<forall>r \<in> set rows. pt_status r \<in> set (ctr_Statuses input) \<and> pt_next_poll_at r \<le> ctr_Now input"
    using first_due_due unfolding rows by (fastforce simp: tracking_due_def Let_def)
qed

end
