(* ===== verification/Allocate_UseCase.thy ===== *)
theory Allocate_UseCase
  imports Allocation_Store Idempotency_Store Tracking_Store
begin

text \<open>
  The allocation of a payment address,
  \<open>application/usecases/allocate_payment_address_use_case.go\<close>. A dependency that may be
  \<open>nil\<close> is an option; the transaction scope tells which of its stores are there. The deriver
  and the policy reader are pure: the derivation computes an address from a policy and a
  slot, the reader looks a policy up in a table fixed at start-up. The variables that the
  transaction bodies assign are the value the body returns.
\<close>

section \<open>Dependencies and messages\<close>

record TxScope =
  ts_Allocation :: bool
  ts_Idempotency :: bool
  ts_Tracking :: bool
  ts_Outbox :: bool

definition fullTxScope :: TxScope where
  "fullTxScope = \<lparr>ts_Allocation = True, ts_Idempotency = True, ts_Tracking = True, ts_Outbox = True\<rparr>"

record DeriveOutput =
  do_Address :: string
  do_IssuanceRefKind :: string
  do_IssuanceRef :: string
  do_SweepMaterial :: string

record IssuedAddressDeriver =
  iad_SupportsChain :: "string \<Rightarrow> bool"
  iad_DeriveIssuedAddress ::
    "AddressIssuancePolicyRecord \<Rightarrow> PaymentAddressAllocationRecord \<Rightarrow> DeriveOutput result"

record AddressPolicyReader =
  rdr_ListByChain :: "string \<Rightarrow> AddressPolicyRecord list result"
  rdr_FindIssuanceByID :: "string \<Rightarrow> AddressIssuancePolicyRecord option result"

record AllocateDeps =
  ad_unitOfWork :: "TxScope option"
  ad_deriver :: "IssuedAddressDeriver option"
  ad_policyReader :: "AddressPolicyReader option"
  ad_issuancePolicy :: PaymentAddressAllocationIssuancePolicy
  ad_clock :: bool

record AllocateInput =
  ai_Chain :: string
  ai_AddressPolicyID :: string
  ai_ExpectedAmountMinor :: int64
  ai_CustomerReference :: string
  ai_IdempotencyKey :: string

record AllocateResponse =
  arsp_PaymentAddressID :: string
  arsp_AddressPolicyID :: string
  arsp_ExpectedAmountMinor :: int64
  arsp_Chain :: string
  arsp_Network :: string
  arsp_Scheme :: string
  arsp_AssetReference :: string
  arsp_Decimals :: uint8
  arsp_Address :: string
  arsp_CustomerReference :: string
  arsp_IdempotencyReplayed :: bool

definition allocation_response ::
  "AddressIssuancePolicy \<Rightarrow> PaymentAddressAllocation \<Rightarrow> bool \<Rightarrow> AllocateResponse" where
  "allocation_response policy a replayed =
     \<lparr>arsp_PaymentAddressID = format_int (alc_PaymentAddressID a),
      arsp_AddressPolicyID = aip_AddressPolicyID policy,
      arsp_ExpectedAmountMinor = alc_ExpectedAmountMinor a,
      arsp_Chain = alc_Chain a, arsp_Network = alc_Network a, arsp_Scheme = alc_Scheme a,
      arsp_AssetReference = trim_space (aip_AssetReference policy),
      arsp_Decimals = aip_Decimals policy, arsp_Address = alc_Address a,
      arsp_CustomerReference = alc_CustomerReference a,
      arsp_IdempotencyReplayed = replayed\<rparr>"

section \<open>Replay of a completed key\<close>

definition replay_body ::
  "Env \<Rightarrow> TxScope \<Rightarrow> AllocateInput \<Rightarrow> AddressPolicyID \<Rightarrow> World
     \<Rightarrow> PaymentAddressAllocation option result \<times> World" where
  "replay_body env scope input addressPolicyID w =
     (if \<not> ts_Allocation scope then (Inl (InCfg in_ErrPaymentAddressAllocationStoreNotConfigured), w)
      else if \<not> ts_Idempotency scope then (Inl (InCfg in_ErrPaymentAddressIdempotencyStoreNotConfigured), w)
      else case IdempotencyStore_FindByKey env (ai_Chain input) (ai_IdempotencyKey input) w of
          (Inl _, w1) \<Rightarrow> (Inl (InBiz in_ErrDependencyFailure), w1)
        | (Inr None, w1) \<Rightarrow> (Inr None, w1)
        | (Inr (Some rec), w1) \<Rightarrow>
      if sint (idr_PaymentAddressID rec) \<le> 0
        then (Inl (InVal in_ErrPaymentAddressIdempotencyRecordIncomplete), w1)
      else if idr_AddressPolicyID rec \<noteq> addressPolicyID \<or>
              idr_ExpectedAmountMinor rec \<noteq> ai_ExpectedAmountMinor input \<or>
              idr_CustomerReference rec \<noteq> ai_CustomerReference input
        then (Inl (InBiz in_ErrIdempotencyKeyConflict), w1)
      else (case AllocationStore_FindIssuedByID env (idr_PaymentAddressID rec) w1 of
          (Inl _, w2) \<Rightarrow> (Inl (InBiz in_ErrDependencyFailure), w2)
        | (Inr None, w2) \<Rightarrow>
            (Inl (InVal in_ErrCompletedIdempotencyRecordMissingIssuedAllocation), w2)
        | (Inr (Some allocationRecord), w2) \<Rightarrow>
            (case paymentAddressAllocationFromRecord allocationRecord of
               Inl _ \<Rightarrow> (Inl (InBiz in_ErrInternalFailure), w2)
             | Inr existingAllocation \<Rightarrow> (Inr (Some existingAllocation), w2))))"

definition replay_error :: "go_error \<Rightarrow> go_error" where
  "replay_error err =
     (if err = InCfg in_ErrPaymentAddressAllocationStoreNotConfigured then err
      else if err = InCfg in_ErrPaymentAddressIdempotencyStoreNotConfigured then err
      else if err = InVal in_ErrPaymentAddressIdempotencyRecordIncomplete then err
      else if err = InBiz in_ErrIdempotencyKeyConflict then err
      else if err = InVal in_ErrCompletedIdempotencyRecordMissingIssuedAllocation then err
      else if err = InBiz in_ErrInternalFailure then err
      else InBiz in_ErrDependencyFailure)"

definition loadReplayedAllocationResponse ::
  "Env \<Rightarrow> TxScope \<Rightarrow> AddressPolicyReader \<Rightarrow> AllocateInput \<Rightarrow> AddressPolicyID \<Rightarrow> World
     \<Rightarrow> AllocateResponse option result \<times> World" where
  "loadReplayedAllocationResponse env scope reader input addressPolicyID w =
     (if ai_IdempotencyKey input = [] then (Inr None, w)
      else case WithinTransaction env (replay_body env scope input addressPolicyID) w of
          (Inl err, w1) \<Rightarrow> (Inl (replay_error err), w1)
        | (Inr None, w1) \<Rightarrow> (Inr None, w1)
        | (Inr (Some allocation), w1) \<Rightarrow>
            (case rdr_FindIssuanceByID reader (alc_AddressPolicyID allocation) of
               Inl _ \<Rightarrow> (Inl (InBiz in_ErrDependencyFailure), w1)
             | Inr None \<Rightarrow> (Inl (InBiz in_ErrAddressPolicyNotFound), w1)
             | Inr (Some policyRecord) \<Rightarrow>
                 (case addressIssuancePolicyFromRecord policyRecord of
                    Inl _ \<Rightarrow> (Inl (InBiz in_ErrInternalFailure), w1)
                  | Inr policy \<Rightarrow>
                      if sint (alc_PaymentAddressID allocation) \<le> 0
                        then (Inl (InVal in_ErrPaymentAddressIDMustBeGreaterThanZero), w1)
                      else (Inr (Some (allocation_response policy allocation True)), w1))))"

section \<open>Issuing an allocation\<close>

fun reserveAllocation ::
  "Env \<Rightarrow> ReservePaymentAddressAllocationInput \<Rightarrow> ReservationAttempt list \<Rightarrow> World
     \<Rightarrow> PaymentAddressAllocation result \<times> World" where
  "reserveAllocation env reserveInput [] w =
     (Inl (InVal in_ErrPaymentAddressAllocationReservationAttemptsRequired), w)"
| "reserveAllocation env reserveInput (ReopenFailed # attempts) w =
     (case AllocationStore_ReopenFailedReservation env reserveInput w of
        (Inl _, w1) \<Rightarrow> (Inl (InBiz in_ErrDependencyFailure), w1)
      | (Inr None, w1) \<Rightarrow> reserveAllocation env reserveInput attempts w1
      | (Inr (Some reopenedRecord), w1) \<Rightarrow>
          (case paymentAddressAllocationFromRecord reopenedRecord of
             Inl _ \<Rightarrow> (Inl (InBiz in_ErrInternalFailure), w1)
           | Inr reopenedAllocation \<Rightarrow> (Inr reopenedAllocation, w1)))"
| "reserveAllocation env reserveInput (ReserveFreshSlot # attempts) w =
     (case AllocationStore_ReserveFresh env reserveInput w of
        (Inl err, w1) \<Rightarrow>
          if err = OutAlloc out_ErrAddressIndexExhausted then (Inl err, w1)
          else (Inl (InBiz in_ErrDependencyFailure), w1)
      | (Inr allocationRecord, w1) \<Rightarrow>
          (case paymentAddressAllocationFromRecord allocationRecord of
             Inl _ \<Rightarrow> (Inl (InBiz in_ErrInternalFailure), w1)
           | Inr allocation \<Rightarrow> (Inr allocation, w1)))"
| "reserveAllocation env reserveInput (OtherAttempt s # attempts) w =
     (Inl (InVal in_ErrPaymentAddressAllocationReservationAttemptInvalid), w)"

definition handleDerivationFailure ::
  "Env \<Rightarrow> AllocateInput \<Rightarrow> PaymentAddressAllocation \<Rightarrow> go_error \<Rightarrow> World \<Rightarrow> go_error \<times> World" where
  "handleDerivationFailure env input allocation finalErr w =
     (case MarkDerivationFailed allocation DerivationFailureReasonDerivationFailed of
        Inl _ \<Rightarrow> (InBiz in_ErrInternalFailure, w)
      | Inr failedAllocation \<Rightarrow>
     (case AllocationStore_MarkDerivationFailed env
             (paymentAddressAllocationRecordFromDomain failedAllocation) w of
        (Inl _, w1) \<Rightarrow> (InBiz in_ErrDependencyFailure, w1)
      | (Inr _, w1) \<Rightarrow>
          if ai_IdempotencyKey input = [] then (finalErr, w1)
          else (case IdempotencyStore_Release env (ai_Chain input) (ai_IdempotencyKey input) w1 of
              (Inl _, w2) \<Rightarrow> (InBiz in_ErrDependencyFailure, w2)
            | (Inr _, w2) \<Rightarrow> (finalErr, w2))))"

definition claim_key ::
  "Env \<Rightarrow> AllocateInput \<Rightarrow> PaymentAddressAllocationReservation \<Rightarrow> World \<Rightarrow> unit result \<times> World" where
  "claim_key env input reservation w =
     (if ai_IdempotencyKey input = [] then (Inr (), w)
      else case IdempotencyStore_Claim env
             \<lparr>icl_Chain = ai_Chain input, icl_IdempotencyKey = ai_IdempotencyKey input,
              icl_AddressPolicyID = aip_AddressPolicyID (rsv_IssuancePolicy reservation),
              icl_ExpectedAmountMinor = rsv_ExpectedAmountMinor reservation,
              icl_CustomerReference = rsv_CustomerReference reservation\<rparr> w of
          (Inl err, w1) \<Rightarrow>
            if err = OutIdem out_ErrPaymentAddressIdempotencyKeyExists then (Inl err, w1)
            else (Inl (InBiz in_ErrDependencyFailure), w1)
        | (Inr _, w1) \<Rightarrow> (Inr (), w1))"

definition complete_key :: "Env \<Rightarrow> AllocateInput \<Rightarrow> int64 \<Rightarrow> World \<Rightarrow> unit result \<times> World" where
  "complete_key env input paymentAddressID w =
     (if ai_IdempotencyKey input = [] then (Inr (), w)
      else case IdempotencyStore_Complete env (ai_Chain input) (ai_IdempotencyKey input)
             paymentAddressID w of
          (Inl _, w1) \<Rightarrow> (Inl (InBiz in_ErrDependencyFailure), w1)
        | (Inr _, w1) \<Rightarrow> (Inr (), w1))"

text \<open>
  What follows a successful derivation: the allocation is marked issued, written, its receipt
  tracking is created and the idempotency key is completed.
\<close>

definition finish_issuance ::
  "Env \<Rightarrow> AllocateInput \<Rightarrow> PaymentAddressAllocationIssuancePlan \<Rightarrow> gotime \<Rightarrow> PaymentAddressAllocation
     \<Rightarrow> string \<Rightarrow> World \<Rightarrow> PaymentAddressAllocation result \<times> World" where
  "finish_issuance env input plan issuedAt issuedAllocation sweepMaterial w =
     (case AllocationStore_Complete env
             \<lparr>cin_Allocation = paymentAddressAllocationRecordFromDomain issuedAllocation,
              cin_SweepMaterial = sweepMaterial, cin_IssuedAt = issuedAt\<rparr> w of
        (Inl _, w1) \<Rightarrow> (Inl (InBiz in_ErrDependencyFailure), w1)
      | (Inr _, w1) \<Rightarrow>
     (case IssueReceiptTracking issuedAllocation issuedAt
             (terms_RequiredConfirmations (plan_ReceiptTerms plan))
             (terms_ExpiresAt (plan_ReceiptTerms plan)) of
        Inl _ \<Rightarrow> (Inl (InBiz in_ErrInternalFailure), w1)
      | Inr receiptTracking \<Rightarrow>
     (case TrackingStore_Create env (paymentReceiptTrackingRecordFromDomain receiptTracking)
             issuedAt w1 of
        (Inl _, w2) \<Rightarrow> (Inl (InBiz in_ErrDependencyFailure), w2)
      | (Inr _, w2) \<Rightarrow>
     (case complete_key env input (alc_PaymentAddressID issuedAllocation) w2 of
        (Inl e, w3) \<Rightarrow> (Inl e, w3)
      | (Inr _, w3) \<Rightarrow> (Inr issuedAllocation, w3)))))"

definition derive_and_issue ::
  "Env \<Rightarrow> IssuedAddressDeriver \<Rightarrow> AllocateInput \<Rightarrow> PaymentAddressAllocationIssuancePlan \<Rightarrow> gotime
     \<Rightarrow> PaymentAddressAllocation \<Rightarrow> World \<Rightarrow> PaymentAddressAllocation result \<times> World" where
  "derive_and_issue env deriver input plan issuedAt allocation w =
     (let policy = rsv_IssuancePolicy (plan_Reservation plan)
      in case iad_DeriveIssuedAddress deriver (addressIssuancePolicyRecordFromDomain policy)
             (paymentAddressAllocationRecordFromDomain allocation) of
          Inl _ \<Rightarrow>
            (case handleDerivationFailure env input allocation (InBiz in_ErrDependencyFailure) w of
               (e, w1) \<Rightarrow> (Inl e, w1))
        | Inr derived \<Rightarrow>
            (let assetReference = trim_space (aip_AssetReference (AddressIssuancePolicy_Normalize policy))
             in case MarkIssued allocation (aip_AddressPolicyID policy) (aip_Chain policy)
                    (aip_Network policy) (aip_Scheme policy) assetReference (do_Address derived) of
                 Inl _ \<Rightarrow>
                   (case handleDerivationFailure env input allocation (InBiz in_ErrInternalFailure) w of
                      (e, w1) \<Rightarrow> (Inl e, w1))
               | Inr issuedAllocation \<Rightarrow>
                   finish_issuance env input plan issuedAt issuedAllocation
                     (do_SweepMaterial derived) w))"

definition issue_body ::
  "Env \<Rightarrow> TxScope \<Rightarrow> IssuedAddressDeriver \<Rightarrow> AllocateInput \<Rightarrow> PaymentAddressAllocationIssuancePlan
     \<Rightarrow> gotime \<Rightarrow> World \<Rightarrow> PaymentAddressAllocation result \<times> World" where
  "issue_body env scope deriver input plan issuedAt w =
     (let reservation = plan_Reservation plan;
          reserveInput = \<lparr>rin_IssuancePolicy = addressIssuancePolicyRecordFromDomain (rsv_IssuancePolicy reservation),
                          rin_ExpectedAmountMinor = rsv_ExpectedAmountMinor reservation,
                          rin_CustomerReference = rsv_CustomerReference reservation\<rparr>
      in if \<not> ts_Allocation scope then (Inl (InCfg in_ErrPaymentAddressAllocationStoreNotConfigured), w)
         else if \<not> ts_Idempotency scope then (Inl (InCfg in_ErrPaymentAddressIdempotencyStoreNotConfigured), w)
         else if \<not> ts_Tracking scope then (Inl (InCfg in_ErrPaymentReceiptTrackingStoreNotConfigured), w)
         else case claim_key env input reservation w of
             (Inl e, w1) \<Rightarrow> (Inl e, w1)
           | (Inr _, w1) \<Rightarrow>
         (case reserveAllocation env reserveInput (plan_ReservationAttempts plan) w1 of
             (Inl e, w2) \<Rightarrow> (Inl e, w2)
           | (Inr allocation, w2) \<Rightarrow> derive_and_issue env deriver input plan issuedAt allocation w2))"

definition issue_error :: "go_error \<Rightarrow> go_error" where
  "issue_error err =
     (if err = OutIdem out_ErrPaymentAddressIdempotencyKeyExists then err
      else if err = OutAlloc out_ErrAddressIndexExhausted then err
      else if err = InCfg in_ErrPaymentAddressAllocationStoreNotConfigured then err
      else if err = InCfg in_ErrPaymentAddressIdempotencyStoreNotConfigured then err
      else if err = InCfg in_ErrPaymentReceiptTrackingStoreNotConfigured then err
      else if err = InVal in_ErrPaymentAddressAllocationReservationAttemptInvalid then err
      else if err = InVal in_ErrPaymentAddressAllocationReservationAttemptsRequired then err
      else if err = InBiz in_ErrDependencyFailure then err
      else if err = InBiz in_ErrInternalFailure then err
      else InBiz in_ErrDependencyFailure)"

definition issueAllocation ::
  "Env \<Rightarrow> TxScope \<Rightarrow> IssuedAddressDeriver \<Rightarrow> AllocateInput \<Rightarrow> PaymentAddressAllocationIssuancePlan
     \<Rightarrow> gotime \<Rightarrow> World \<Rightarrow> PaymentAddressAllocation result \<times> World" where
  "issueAllocation env scope deriver input plan issuedAt w =
     (case WithinTransaction env (issue_body env scope deriver input plan issuedAt) w of
        (Inl err, w1) \<Rightarrow> (Inl (issue_error err), w1)
      | (Inr issuedAllocation, w1) \<Rightarrow> (Inr issuedAllocation, w1))"

section \<open>The use case\<close>

definition plan_error :: "go_error \<Rightarrow> go_error" where
  "plan_error err =
     (if err = PolErr pol_ErrAddressPolicyChainMismatch then InBiz in_ErrAddressPolicyNotFound
      else if err = PolErr pol_ErrAddressPolicyNotEnabled then InBiz in_ErrAddressPolicyNotEnabled
      else if err = PolErr pol_ErrExpectedAmountMinorInvalid then InBiz in_ErrInvalidExpectedAmount
      else InBiz in_ErrInternalFailure)"

definition allocate_issued ::
  "Env \<Rightarrow> TxScope \<Rightarrow> IssuedAddressDeriver \<Rightarrow> AddressPolicyReader \<Rightarrow> AllocateInput \<Rightarrow> AddressPolicyID
     \<Rightarrow> AddressIssuancePolicy \<Rightarrow> PaymentAddressAllocationIssuancePlan \<Rightarrow> gotime \<Rightarrow> World
     \<Rightarrow> AllocateResponse result \<times> World" where
  "allocate_issued env scope deriver reader input addressPolicyID policy plan issuedAt w =
     (case issueAllocation env scope deriver input plan issuedAt w of
        (Inl err, w1) \<Rightarrow>
          if err = OutIdem out_ErrPaymentAddressIdempotencyKeyExists then
            (case loadReplayedAllocationResponse env scope reader input addressPolicyID w1 of
               (Inl lookupErr, w2) \<Rightarrow> (Inl lookupErr, w2)
             | (Inr (Some response), w2) \<Rightarrow> (Inr response, w2)
             | (Inr None, w2) \<Rightarrow>
                 (Inl (InVal in_ErrIdempotencyClaimConflictWithoutCompletedRecord), w2))
          else if err = OutAlloc out_ErrAddressIndexExhausted
            then (Inl (InBiz in_ErrAddressPoolExhausted), w1)
          else (Inl err, w1)
      | (Inr issuedAllocation, w1) \<Rightarrow>
          if sint (alc_PaymentAddressID issuedAllocation) \<le> 0
            then (Inl (InVal in_ErrPaymentAddressIDMustBeGreaterThanZero), w1)
          else (Inr (allocation_response policy issuedAllocation False), w1))"

definition allocate_fresh ::
  "Env \<Rightarrow> TxScope \<Rightarrow> IssuedAddressDeriver \<Rightarrow> AddressPolicyReader
     \<Rightarrow> PaymentAddressAllocationIssuancePolicy \<Rightarrow> AllocateInput \<Rightarrow> SupportedChain \<Rightarrow> AddressPolicyID
     \<Rightarrow> World \<Rightarrow> AllocateResponse result \<times> World" where
  "allocate_fresh env scope deriver reader issuancePolicy input requestedChain addressPolicyID w =
     (case rdr_FindIssuanceByID reader addressPolicyID of
        Inl _ \<Rightarrow> (Inl (InBiz in_ErrDependencyFailure), w)
      | Inr None \<Rightarrow> (Inl (InBiz in_ErrAddressPolicyNotFound), w)
      | Inr (Some policyRecord) \<Rightarrow>
     (case addressIssuancePolicyFromRecord policyRecord of
        Inl _ \<Rightarrow> (Inl (InBiz in_ErrInternalFailure), w)
      | Inr policy \<Rightarrow>
     (case read_clock env w of (issuedAt, w1) \<Rightarrow>
     (case Plan issuancePolicy policy requestedChain (ai_ExpectedAmountMinor input)
             (ai_CustomerReference input) issuedAt of
        Inl err \<Rightarrow> (Inl (plan_error err), w1)
      | Inr plan \<Rightarrow>
          allocate_issued env scope deriver reader input addressPolicyID policy plan issuedAt w1))))"

definition Allocate_Execute ::
  "Env \<Rightarrow> AllocateDeps \<Rightarrow> AllocateInput \<Rightarrow> World \<Rightarrow> AllocateResponse result \<times> World" where
  "Allocate_Execute env deps input0 w =
     (case ad_unitOfWork deps of
        None \<Rightarrow> (Inl (InCfg in_ErrUnitOfWorkNotConfigured), w)
      | Some scope \<Rightarrow>
     (case ad_deriver deps of
        None \<Rightarrow> (Inl (InCfg in_ErrIssuedPaymentAddressDeriverNotConfigured), w)
      | Some deriver \<Rightarrow>
     (case ad_policyReader deps of
        None \<Rightarrow> (Inl (InCfg in_ErrAddressPolicyReaderNotConfigured), w)
      | Some reader \<Rightarrow>
     if \<not> ad_clock deps then (Inl (InCfg in_ErrClockNotConfigured), w)
     else
     (case ParseSupportedChain (ai_Chain input0) of
        None \<Rightarrow> (Inl (InBiz in_ErrChainNotSupported), w)
      | Some requestedChain \<Rightarrow>
          (let input = input0\<lparr>ai_Chain := requestedChain\<rparr>
           in if \<not> iad_SupportsChain deriver requestedChain
                then (Inl (InBiz in_ErrChainNotSupported), w)
              else case NewAddressPolicyID (ai_AddressPolicyID input) of
                  Inl _ \<Rightarrow> (Inl (InBiz in_ErrInvalidAddressPolicyID), w)
                | Inr addressPolicyID \<Rightarrow>
              (case loadReplayedAllocationResponse env scope reader input addressPolicyID w of
                  (Inl err, w1) \<Rightarrow> (Inl err, w1)
                | (Inr (Some response), w1) \<Rightarrow> (Inr response, w1)
                | (Inr None, w1) \<Rightarrow>
                    allocate_fresh env scope deriver reader (ad_issuancePolicy deps) input
                      requestedChain addressPolicyID w1))))))"

section \<open>Every path keeps the guarantee of the database\<close>

lemmas store_seqs =
  Reopen_seqs [THEN world_relD] ReserveFresh_seqs [THEN world_relD] Complete_seqs [THEN world_relD]
  MarkDerivationFailed_seqs [THEN world_relD] FindIssuedByID_seqs [THEN world_relD]
  idempotency_steps [THEN world_rel_seqs, THEN world_relD]
  tracking_steps [THEN world_rel_seqs, THEN world_relD]

lemmas store_steps =
  Reopen_step [THEN ok_relD] ReserveFresh_step [THEN ok_relD] Complete_step [THEN ok_relD]
  idempotency_steps [THEN world_relD] tracking_steps [THEN world_relD]

lemma replay_body_db: "replay_body env scope input pid w = (r, w') \<Longrightarrow> w_db w' = w_db w"
  by (auto simp: replay_body_def dest!: FindByKey_db FindIssuedByID_db
      split: if_splits prod.splits sum.splits option.splits)

lemma reserveAllocation_seqs: "world_rel seqs_le (reserveAllocation env input attempts)"
proof (rule world_relI)
  show "seqs_le (w_db w) (w_db w')" if "reserveAllocation env input attempts w = (r, w')" for w r w'
    using that
    by (induction env input attempts w rule: reserveAllocation.induct)
      (auto simp: seqs.refl dest!: store_seqs intro: seqs.trans
        split: prod.splits sum.splits option.splits if_splits)
qed

lemma reserveAllocation_step: "ok_rel db_step (reserveAllocation env input attempts)"
proof (rule ok_relI)
  show "db_step (w_db w) (w_db w')" if "reserveAllocation env input attempts w = (Inr a, w')" for w a w'
    using that
    by (induction env input attempts w rule: reserveAllocation.induct)
      (auto dest: store_steps intro: steps.trans
        split: prod.splits sum.splits option.splits if_splits)
qed

lemma claim_key_step: "world_rel db_step (claim_key env input rsv)"
  by (rule world_relI)
    (auto simp: claim_key_def steps.refl dest: store_steps split: if_splits prod.splits sum.splits)

lemma complete_key_step: "world_rel db_step (complete_key env input pid)"
  by (rule world_relI)
    (auto simp: complete_key_def steps.refl dest: store_steps split: if_splits prod.splits sum.splits)

lemma handleDerivationFailure_seqs:
  "handleDerivationFailure env input a e w = (e', w') \<Longrightarrow> seqs_le (w_db w) (w_db w')"
  by (auto simp: handleDerivationFailure_def seqs.refl dest!: store_seqs intro: seqs.trans
      split: sum.splits prod.splits if_splits)

lemma finish_issuance_seqs: "world_rel seqs_le (finish_issuance env input plan at a sweep)"
  by (rule world_relI)
    (auto simp: finish_issuance_def dest!: store_seqs complete_key_step [THEN world_rel_seqs, THEN world_relD]
      intro: seqs.trans split: sum.splits prod.splits)

lemma finish_issuance_step: "ok_rel db_step (finish_issuance env input plan at a sweep)"
  by (rule ok_relI)
    (auto simp: finish_issuance_def dest!: store_steps complete_key_step [THEN world_relD]
      intro: steps.trans split: sum.splits prod.splits)

lemma derive_and_issue_seqs: "world_rel seqs_le (derive_and_issue env deriver input plan at a)"
  by (rule world_relI)
    (auto simp: derive_and_issue_def Let_def
      dest: handleDerivationFailure_seqs finish_issuance_seqs [THEN world_relD]
      split: sum.splits prod.splits)

lemma derive_and_issue_step: "ok_rel db_step (derive_and_issue env deriver input plan at a)"
  by (rule ok_relI)
    (auto simp: derive_and_issue_def Let_def dest: finish_issuance_step [THEN ok_relD]
      split: sum.splits prod.splits)

lemma issue_body_seqs: "world_rel seqs_le (issue_body env scope deriver input plan at)"
  by (rule world_relI)
    (auto simp: issue_body_def Let_def seqs.refl
      dest!: claim_key_step [THEN world_rel_seqs, THEN world_relD] reserveAllocation_seqs [THEN world_relD]
        derive_and_issue_seqs [THEN world_relD]
      intro: seqs.trans split: sum.splits prod.splits if_splits)

lemma issue_body_step: "ok_rel db_step (issue_body env scope deriver input plan at)"
  by (rule ok_relI)
    (auto simp: issue_body_def Let_def
      dest!: claim_key_step [THEN world_relD] reserveAllocation_step [THEN ok_relD]
        derive_and_issue_step [THEN ok_relD]
      intro: steps.trans split: sum.splits prod.splits if_splits)

context db_guarantee
begin

text \<open>A transaction that only reads leaves no trace of its own.\<close>

lemma read_transaction_rel:
  assumes "\<And>w r w'. fn w = (r, w') \<Longrightarrow> w_db w' = w_db w" and "others_rel R env"
  shows "world_rel R (WithinTransaction env fn)"
proof (rule WithinTransaction_rel [OF _ _ assms(2)])
  show "ok_rel R fn" by (rule ok_relI) (auto dest: assms(1) simp: refl)
  show "world_rel seqs_le fn" by (rule world_relI) (auto dest: assms(1) simp: seqs_le_def)
qed

lemma loadReplayed_rel:
  assumes "others_rel R env"
  shows "world_rel R (loadReplayedAllocationResponse env scope reader input pid)"
proof (rule world_relI)
  have tx: "R (w_db w) (w_db w')"
    if "WithinTransaction env (replay_body env scope input pid) w = (r, w')" for w r w'
    by (rule world_relD [OF read_transaction_rel that]) (auto intro: replay_body_db assms)
  show "R (w_db w) (w_db w')"
    if "loadReplayedAllocationResponse env scope reader input pid w = (r, w')" for w r w'
    using that
    by (auto simp: loadReplayedAllocationResponse_def refl dest: tx
        split: if_splits prod.splits sum.splits option.splits)
qed

end

text \<open>
  A guarantee that every successful issuance satisfies is one of the whole use case: what else
  it does is read, or rolled back.
\<close>

locale allocation_guarantee = db_guarantee +
  fixes plan_ok :: "AllocateInput \<Rightarrow> PaymentAddressAllocationIssuancePlan \<Rightarrow> bool"
  assumes issue_rel: "plan_ok input plan \<Longrightarrow> ok_rel R (issue_body env scope deriver input plan at)"
    and planned: "addressIssuancePolicyFromRecord rec = Inr policy \<Longrightarrow>
      Plan ipol policy (ai_Chain input) amt cust at = Inr plan \<Longrightarrow> plan_ok input plan"
begin

lemma issueAllocation_rel:
  assumes o: "others_rel R env" and p: "plan_ok input plan"
  shows "world_rel R (issueAllocation env scope deriver input plan at)"
  by (rule world_relI)
    (auto simp: issueAllocation_def split: prod.splits sum.splits
      dest: WithinTransaction_rel [OF issue_rel [OF p] issue_body_seqs o, THEN world_relD])

lemma allocate_issued_rel:
  assumes o: "others_rel R env" and p: "plan_ok input plan"
    and a: "allocate_issued env scope deriver reader input pid policy plan at w = (r, w')"
  shows "R (w_db w) (w_db w')"
  using a
  by (auto simp: allocate_issued_def dest!: loadReplayed_rel [OF o, THEN world_relD]
      issueAllocation_rel [OF o p, THEN world_relD] intro: trans
      split: if_splits prod.splits sum.splits option.splits)

lemma allocate_fresh_rel:
  assumes o: "others_rel R env" and chain: "ai_Chain input = chain"
  shows "world_rel R (allocate_fresh env scope deriver reader ipol input chain pid)"
proof (rule world_relI)
  show "R (w_db w) (w_db w')"
    if "allocate_fresh env scope deriver reader ipol input chain pid w = (r, w')" for w r w'
    using that chain
    by (auto simp: allocate_fresh_def read_clock_def refl dest!: allocate_issued_rel [OF o, rotated]
        intro: planned split: if_splits prod.splits sum.splits option.splits)
qed

lemma Allocate_Execute_rel:
  assumes o: "others_rel R env"
  shows "world_rel R (Allocate_Execute env deps input)"
proof (rule world_relI)
  note s = loadReplayed_rel [OF o, THEN world_relD]
  have f: "R (w_db w) (w_db w')"
    if "allocate_fresh env scope deriver reader ipol (input\<lparr>ai_Chain := chain\<rparr>) chain pid w = (r, w')"
    for scope deriver reader ipol chain pid w r w'
    by (rule world_relD [OF allocate_fresh_rel [OF o] that]) simp
  show "R (w_db w) (w_db w')" if "Allocate_Execute env deps input w = (r, w')" for w r w'
    using that
    by (auto simp: Allocate_Execute_def Let_def refl dest!: s f intro: trans
        split: if_splits prod.splits sum.splits option.splits)
qed

end

interpretation allocation_steps: allocation_guarantee db_step "\<lambda>_ _. True"
  by unfold_locales (simp_all add: issue_body_step)

lemmas loadReplayed_step = steps.loadReplayed_rel
lemmas Allocate_Execute_step = allocation_steps.Allocate_Execute_rel

end
