(* ===== verification/Policy_Reader.thy ===== *)
theory Policy_Reader
  imports Allocate_UseCase
begin

text \<open>
  The policy reader of \<open>adapters/outbound/policy/address_policy_reader.go\<close>: the table that is
  built once from the configured policies, normalising each and keeping the first of every
  identifier. The locale \<open>policy_reader\<close> is the contract the use cases rely on: a lookup
  finds the policy of exactly that identifier, in normal form; the constructor's reader is
  shown to satisfy it.
\<close>

section \<open>The constructor and the methods\<close>

record ReaderState =
  rd_ordered :: "AddressPolicyRecord list"
  rd_issuanceByID :: "string \<rightharpoonup> AddressIssuancePolicyRecord"

definition normalized_policy_record ::
  "AddressIssuancePolicyRecord \<Rightarrow> AddressIssuancePolicyRecord option" where
  "normalized_policy_record p =
     (case NormalizeAddressPolicyID (ipr_AddressPolicyID p) of
        None \<Rightarrow> None
      | Some addressPolicyID \<Rightarrow>
     (case NormalizeSupportedChain (ipr_Chain p) of
        None \<Rightarrow> None
      | Some chain \<Rightarrow>
     (case NormalizeNetworkID (ipr_Network p) of
        None \<Rightarrow> None
      | Some network \<Rightarrow>
     (case NormalizeAddressScheme (ipr_Scheme p) of
        None \<Rightarrow> None
      | Some scheme \<Rightarrow>
          (let asset = trim_space (ipr_AssetReference p)
           in Some (p\<lparr>ipr_AddressPolicyID := addressPolicyID, ipr_Chain := chain,
                      ipr_Network := network, ipr_Scheme := scheme,
                      ipr_AssetReference :=
                        (if chain = ''ethereum'' \<and> asset \<noteq> [] then to_lower asset else asset),
                      ipr_AddressSpaceRef := trim_space (ipr_AddressSpaceRef p),
                      ipr_IssuanceRefPrefix :=
                        trim_suffix (trim_space (ipr_IssuanceRefPrefix p)) ''/''\<rparr>))))))"

definition listed_policy :: "AddressIssuancePolicyRecord \<Rightarrow> AddressPolicyRecord" where
  "listed_policy p =
     \<lparr>apr_AddressPolicyID = ipr_AddressPolicyID p, apr_Chain = ipr_Chain p,
      apr_Network = ipr_Network p, apr_Scheme = ipr_Scheme p,
      apr_AssetReference = ipr_AssetReference p, apr_Decimals = ipr_Decimals p,
      apr_Enabled = ipr_Enabled p\<rparr>"

definition reader_add :: "AddressIssuancePolicyRecord \<Rightarrow> ReaderState \<Rightarrow> ReaderState" where
  "reader_add issuancePolicy st =
     (case NormalizeAddressPolicyID (ipr_AddressPolicyID issuancePolicy) of
        None \<Rightarrow> st
      | Some addressPolicyID \<Rightarrow>
          if rd_issuanceByID st addressPolicyID \<noteq> None then st
          else (case normalized_policy_record issuancePolicy of
              None \<Rightarrow> st
            | Some p \<Rightarrow>
                st\<lparr>rd_ordered := rd_ordered st @ [listed_policy p],
                   rd_issuanceByID := (rd_issuanceByID st)(ipr_AddressPolicyID p \<mapsto> p)\<rparr>))"

definition reader_build :: "AddressIssuancePolicyRecord list \<Rightarrow> ReaderState" where
  "reader_build issuancePolicies =
     fold reader_add issuancePolicies \<lparr>rd_ordered = [], rd_issuanceByID = Map.empty\<rparr>"

definition reader_ListByChain :: "ReaderState \<Rightarrow> string \<Rightarrow> AddressPolicyRecord list result" where
  "reader_ListByChain st chain =
     (case NormalizeSupportedChain chain of
        None \<Rightarrow> Inr []
      | Some normalizedChain \<Rightarrow> Inr (filter (\<lambda>p. apr_Chain p = normalizedChain) (rd_ordered st)))"

definition reader_FindIssuanceByID ::
  "ReaderState \<Rightarrow> string \<Rightarrow> AddressIssuancePolicyRecord option result" where
  "reader_FindIssuanceByID st addressPolicyID =
     (case NormalizeAddressPolicyID addressPolicyID of
        None \<Rightarrow> Inr None
      | Some normalizedID \<Rightarrow> Inr (rd_issuanceByID st normalizedID))"

definition NewAddressPolicyReader :: "AddressIssuancePolicyRecord list \<Rightarrow> AddressPolicyReader" where
  "NewAddressPolicyReader issuancePolicies =
     \<lparr>rdr_ListByChain = reader_ListByChain (reader_build issuancePolicies),
      rdr_FindIssuanceByID = reader_FindIssuanceByID (reader_build issuancePolicies)\<rparr>"

section \<open>The contract of a reader\<close>

definition policy_record_normal :: "AddressIssuancePolicyRecord \<Rightarrow> bool" where
  "policy_record_normal p \<longleftrightarrow>
     portable_id (ipr_AddressPolicyID p) \<and> ParseSupportedChain (ipr_Chain p) = Some (ipr_Chain p) \<and>
     portable_id (ipr_Network p) \<and> ParseAddressScheme (ipr_Scheme p) = Some (ipr_Scheme p)"

locale policy_reader =
  fixes find_issuance :: "string \<Rightarrow> AddressIssuancePolicyRecord option result"
    and list_by_chain :: "string \<Rightarrow> AddressPolicyRecord list result"
  assumes find_total: "\<exists>found. find_issuance pid = Inr found"
    and find_id: "find_issuance pid = Inr (Some p) \<Longrightarrow> ParseChainID pid = Some (ipr_AddressPolicyID p)"
    and find_normal: "find_issuance pid = Inr (Some p) \<Longrightarrow> policy_record_normal p"
    and list_total: "\<exists>ps. list_by_chain chain = Inr ps"
    and list_found: "list_by_chain chain = Inr ps \<Longrightarrow> q \<in> set ps \<Longrightarrow>
      \<exists>p. find_issuance (apr_AddressPolicyID q) = Inr (Some p) \<and> q = listed_policy p \<and>
          ParseSupportedChain chain = Some (ipr_Chain p)"
begin

lemma find_policy:
  assumes "find_issuance pid = Inr (Some p)"
  shows "\<exists>policy. addressIssuancePolicyFromRecord p = Inr policy \<and>
     ParseChainID pid = Some (aip_AddressPolicyID policy) \<and> aip_Chain policy = ipr_Chain p"
proof -
  have n: "policy_record_normal p" and i: "ParseChainID pid = Some (ipr_AddressPolicyID p)"
    using assms find_normal find_id by auto
  show ?thesis
    using n i
    by (simp add: policy_record_normal_def addressIssuancePolicyFromRecord_def NewAddressPolicyID_def
        ParseChainID_of_portable AddressPolicyID_Normalize_portable)
qed

lemma find_same:
  assumes "find_issuance pid = Inr (Some p)" and "ParseChainID pid = Some pid'"
    and "find_issuance pid' = Inr (Some p')"
  shows "ipr_AddressPolicyID p' = ipr_AddressPolicyID p"
  using find_id [OF assms(1)] find_id [OF assms(3)] assms(2) ParseChainID_idem [OF assms(2)] by simp

end

section \<open>The table satisfies the contract\<close>

definition reader_inv :: "ReaderState \<Rightarrow> bool" where
  "reader_inv st \<longleftrightarrow>
     (\<forall>i p. rd_issuanceByID st i = Some p \<longrightarrow> ipr_AddressPolicyID p = i \<and> policy_record_normal p) \<and>
     (\<forall>q \<in> set (rd_ordered st).
        map_option listed_policy (rd_issuanceByID st (apr_AddressPolicyID q)) = Some q) \<and>
     distinct (map apr_AddressPolicyID (rd_ordered st))"

lemma reader_invD:
  assumes "reader_inv st"
  shows "rd_issuanceByID st i = Some p \<Longrightarrow> ipr_AddressPolicyID p = i \<and> policy_record_normal p"
    and "q \<in> set (rd_ordered st) \<Longrightarrow>
      \<exists>p. rd_issuanceByID st (apr_AddressPolicyID q) = Some p \<and> q = listed_policy p"
    and "distinct (map apr_AddressPolicyID (rd_ordered st))"
proof -
  show "rd_issuanceByID st i = Some p \<Longrightarrow> ipr_AddressPolicyID p = i \<and> policy_record_normal p"
    using assms unfolding reader_inv_def by blast
  show "distinct (map apr_AddressPolicyID (rd_ordered st))"
    using assms unfolding reader_inv_def by blast
  assume "q \<in> set (rd_ordered st)"
  then have "map_option listed_policy (rd_issuanceByID st (apr_AddressPolicyID q)) = Some q"
    using assms unfolding reader_inv_def by blast
  then show "\<exists>p. rd_issuanceByID st (apr_AddressPolicyID q) = Some p \<and> q = listed_policy p"
    by (cases "rd_issuanceByID st (apr_AddressPolicyID q)") simp_all
qed

lemma normalized_policy_record_Some:
  assumes "normalized_policy_record p = Some q"
  shows "ParseChainID (ipr_AddressPolicyID p) = Some (ipr_AddressPolicyID q)"
    and "portable_id (ipr_AddressPolicyID q)"
    and "ParseSupportedChain (ipr_Chain q) = Some (ipr_Chain q)"
    and "portable_id (ipr_Network q)"
    and "ParseAddressScheme (ipr_Scheme q) = Some (ipr_Scheme q)"
  using assms
  by (auto simp: normalized_policy_record_def Let_def ParseSupportedChain_idem ParseAddressScheme_idem
      ParseChainID_portable split: option.splits)

lemma listed_policy_id [simp]: "apr_AddressPolicyID (listed_policy p) = ipr_AddressPolicyID p"
  by (simp add: listed_policy_def)

lemma reader_add_inv:
  assumes inv: "reader_inv st"
  shows "reader_inv (reader_add p st)"
proof (cases "ParseChainID (ipr_AddressPolicyID p)")
  case None
  with inv show ?thesis by (simp add: reader_add_def)
next
  case (Some pid)
  show ?thesis
  proof (cases "rd_issuanceByID st pid \<noteq> None \<or> normalized_policy_record p = None")
    case True
    with inv Some show ?thesis by (auto simp: reader_add_def)
  next
    case False
    then obtain q where q: "normalized_policy_record p = Some q" and new: "rd_issuanceByID st pid = None"
      by auto
    note n = normalized_policy_record_Some [OF q]
    have pid: "ipr_AddressPolicyID q = pid"
      using n(1) Some by simp
    have fresh: "pid \<notin> set (map apr_AddressPolicyID (rd_ordered st))"
      using reader_invD(2) [OF inv] new by force
    have "reader_add p st = st\<lparr>rd_ordered := rd_ordered st @ [listed_policy q],
        rd_issuanceByID := (rd_issuanceByID st)(pid \<mapsto> q)\<rparr>"
      using Some new q pid by (simp add: reader_add_def)
    moreover have "policy_record_normal q"
      using n(2-5) by (simp add: policy_record_normal_def)
    moreover have "apr_AddressPolicyID r \<noteq> pid" if "r \<in> set (rd_ordered st)" for r
      using fresh that by auto
    ultimately show ?thesis
      using reader_invD [OF inv] pid fresh unfolding reader_inv_def
      by (intro conjI) (auto, blast+)
  qed
qed

lemma reader_build_inv: "reader_inv (reader_build ps)"
proof -
  have "reader_inv (fold reader_add ps st)" if "reader_inv st" for st
    using that by (induction ps arbitrary: st) (simp_all add: reader_add_inv)
  moreover have "reader_inv \<lparr>rd_ordered = [], rd_issuanceByID = Map.empty\<rparr>"
    by (simp add: reader_inv_def)
  ultimately show ?thesis
    by (simp add: reader_build_def)
qed

interpretation configured: policy_reader
  "rdr_FindIssuanceByID (NewAddressPolicyReader ps)" "rdr_ListByChain (NewAddressPolicyReader ps)"
  for ps
proof -
  have inv: "reader_inv (reader_build ps)"
    by (rule reader_build_inv)
  show "policy_reader (rdr_FindIssuanceByID (NewAddressPolicyReader ps))
      (rdr_ListByChain (NewAddressPolicyReader ps))"
  proof
    fix pid p chain qs q
    show "\<exists>found. rdr_FindIssuanceByID (NewAddressPolicyReader ps) pid = Inr found"
      by (simp add: NewAddressPolicyReader_def reader_FindIssuanceByID_def split: option.split)
    show "\<exists>qs. rdr_ListByChain (NewAddressPolicyReader ps) chain = Inr qs"
      by (simp add: NewAddressPolicyReader_def reader_ListByChain_def split: option.split)
    show "rdr_FindIssuanceByID (NewAddressPolicyReader ps) pid = Inr (Some p) \<Longrightarrow>
        ParseChainID pid = Some (ipr_AddressPolicyID p)"
      using reader_invD(1) [OF inv]
      by (auto simp: NewAddressPolicyReader_def reader_FindIssuanceByID_def split: option.splits)
    show "rdr_FindIssuanceByID (NewAddressPolicyReader ps) pid = Inr (Some p) \<Longrightarrow> policy_record_normal p"
      using reader_invD(1) [OF inv]
      by (auto simp: NewAddressPolicyReader_def reader_FindIssuanceByID_def split: option.splits)
    show "rdr_ListByChain (NewAddressPolicyReader ps) chain = Inr qs \<Longrightarrow> q \<in> set qs \<Longrightarrow>
        \<exists>p. rdr_FindIssuanceByID (NewAddressPolicyReader ps) (apr_AddressPolicyID q) = Inr (Some p) \<and>
            q = listed_policy p \<and> ParseSupportedChain chain = Some (ipr_Chain p)"
    proof -
      assume l: "rdr_ListByChain (NewAddressPolicyReader ps) chain = Inr qs" and q: "q \<in> set qs"
      obtain c where c: "ParseSupportedChain chain = Some c" and "q \<in> set (rd_ordered (reader_build ps))"
        and qc: "apr_Chain q = c"
        using l q by (auto simp: NewAddressPolicyReader_def reader_ListByChain_def split: option.splits)
      then obtain p where p: "rd_issuanceByID (reader_build ps) (apr_AddressPolicyID q) = Some p"
        and lp: "q = listed_policy p"
        using reader_invD(2) [OF inv] by blast
      have pid: "ipr_AddressPolicyID p = apr_AddressPolicyID q" and "policy_record_normal p"
        using reader_invD(1) [OF inv p] by auto
      then have "ParseChainID (apr_AddressPolicyID q) = Some (apr_AddressPolicyID q)"
        by (auto simp: policy_record_normal_def ParseChainID_of_portable)
      with p lp c qc show ?thesis
        by (auto simp: NewAddressPolicyReader_def reader_FindIssuanceByID_def listed_policy_def)
    qed
  qed
qed

end
