(* ===== verification/Outbox_Store.thy ===== *)
theory Outbox_Store
  imports Sql_Db
begin

text \<open>
  The notification outbox of
  \<open>adapters/outbound/persistence/postgres/payment_receipt_status_notification_outbox_store.go\<close>:
  a status change is enqueued as a pending notification, pending ones that are due are
  claimed under a lease, and the result of a delivery is saved. The lemmas give the effect of
  each method, that a notification that was sent or has failed is never claimed again, and
  that a claim is exclusive until its lease ends.
\<close>

section \<open>Statements\<close>

definition notif_row_of ::
  "PaymentReceiptStatusChangedRecord \<Rightarrow> string option \<Rightarrow> int64 \<Rightarrow> gotime \<Rightarrow> NotifRow" where
  "notif_row_of e customer i now =
     \<lparr>nt_id = i, nt_payment_address_id = scr_PaymentAddressID e, nt_customer = customer,
      nt_previous = scr_PreviousStatus e, nt_current = scr_CurrentStatus e,
      nt_observed = scr_ObservedTotalMinor e, nt_confirmed = scr_ConfirmedTotalMinor e,
      nt_unconfirmed = scr_UnconfirmedTotalMinor e, nt_changed_at = scr_StatusChangedAt e,
      nt_status = ''pending'', nt_attempts = 0, nt_next_attempt_at = now, nt_lease_until = None,
      nt_last_error = None, nt_delivered_at = None\<rparr>"

definition sql_enqueue :: "PaymentReceiptStatusChangedRecord \<Rightarrow> nat stmt" where
  "sql_enqueue e now d =
     (case find (\<lambda>a. al_id a = scr_PaymentAddressID e) (db_allocations d) of
        None \<Rightarrow> (Inr 0, d)
      | Some a \<Rightarrow>
          (case next_serial (db_notif_seq d) of
             None \<Rightarrow> (Inl SqlFailed, d)
           | Some i \<Rightarrow>
               put_notifications (db_notifications d @ [notif_row_of e (al_customer a) i now]) 1
                 (d\<lparr>db_notif_seq := Suc (db_notif_seq d)\<rparr>)))"

definition notification_due :: "gotime \<Rightarrow> (int64 \<Rightarrow> bool) \<Rightarrow> NotifRow \<Rightarrow> bool" where
  "notification_due at locked r \<longleftrightarrow>
     nt_status r = ''pending'' \<and> nt_next_attempt_at r \<le> at \<and>
     (case nt_lease_until r of None \<Rightarrow> True | Some until \<Rightarrow> until \<le> at) \<and> \<not> locked (nt_id r)"

definition due_notifications :: "gotime \<Rightarrow> int64 \<Rightarrow> (int64 \<Rightarrow> bool) \<Rightarrow> DB \<Rightarrow> NotifRow list" where
  "due_notifications at limit locked d =
     first_due nt_next_attempt_at nt_id limit (filter (notification_due at locked) (db_notifications d))"

text \<open>
  The update joins the allocation of the notification; the foreign key makes that join total,
  and its address policy is returned with the row.
\<close>

definition sql_claim_notifications ::
  "gotime \<Rightarrow> int64 \<Rightarrow> gotime \<Rightarrow> (int64 \<Rightarrow> bool) \<Rightarrow> (NotifRow \<times> string) list stmt" where
  "sql_claim_notifications at limit until locked now d =
     (let joined = List.map_filter
            (\<lambda>r. map_option (\<lambda>a. (r, al_policy a))
               (find (\<lambda>a. al_id a = nt_payment_address_id r) (db_allocations d)))
            (due_notifications at limit locked d)
      in put_notifications
           (update_where (\<lambda>r. nt_id r \<in> set (map (nt_id \<circ> fst) joined))
              (\<lambda>r. r\<lparr>nt_lease_until := Some until\<rparr>) (db_notifications d))
           (map (\<lambda>(r, pol). (r\<lparr>nt_lease_until := Some until\<rparr>, pol)) joined) d)"

definition sql_update_notification :: "int64 \<Rightarrow> (NotifRow \<Rightarrow> NotifRow) \<Rightarrow> nat stmt" where
  "sql_update_notification nid f now d =
     put_notifications (update_where (\<lambda>r. nt_id r = nid) f (db_notifications d))
       (count_where (\<lambda>r. nt_id r = nid) (db_notifications d)) d"

definition set_sent :: "gotime \<Rightarrow> NotifRow \<Rightarrow> NotifRow" where
  "set_sent deliveredAt r =
     r\<lparr>nt_status := ''sent'', nt_delivered_at := Some deliveredAt, nt_lease_until := None,
       nt_last_error := None\<rparr>"

definition set_pending :: "int32 \<Rightarrow> gotime \<Rightarrow> string \<Rightarrow> NotifRow \<Rightarrow> NotifRow" where
  "set_pending attempts nextAttemptAt reason r =
     r\<lparr>nt_status := ''pending'', nt_attempts := attempts, nt_next_attempt_at := nextAttemptAt,
       nt_lease_until := None, nt_last_error := Some reason\<rparr>"

definition set_failed :: "int32 \<Rightarrow> string \<Rightarrow> NotifRow \<Rightarrow> NotifRow" where
  "set_failed attempts reason r =
     r\<lparr>nt_status := ''failed'', nt_attempts := attempts, nt_lease_until := None,
       nt_last_error := Some reason\<rparr>"

section \<open>Methods\<close>

definition Outbox_EnqueueStatusChanged ::
  "Env \<Rightarrow> PaymentReceiptStatusChangedRecord \<Rightarrow> World \<Rightarrow> unit result \<times> World" where
  "Outbox_EnqueueStatusChanged env event w =
     (case exec_sql env (sql_enqueue event) w of
        (Inl _, w1) \<Rightarrow> (Inl (OutOutbox out_ErrPaymentReceiptStatusNotificationOutboxFailed), w1)
      | (Inr rowsAffected, w1) \<Rightarrow>
          if rowsAffected = 0 then (Inl (OutOutbox out_ErrPaymentReceiptStatusNotificationNotFound), w1)
          else (Inr (), w1))"

definition scanOutboxMessage :: "NotifRow \<times> string \<Rightarrow> OutboxMessage result" where
  "scanOutboxMessage rp =
     (let r = fst rp
      in case NormalizeAddressPolicyID (snd rp) of
          None \<Rightarrow> Inl (OutOutbox out_ErrPaymentReceiptStatusNotificationPersistedAddressPolicyIDInvalid)
        | Some parsedAddressPolicyID \<Rightarrow>
      (case NormalizePaymentReceiptStatus (nt_previous r) of
          None \<Rightarrow> Inl (OutOutbox out_ErrPaymentReceiptStatusNotificationPersistedPreviousStatusInvalid)
        | Some previousStatus \<Rightarrow>
      (case NormalizePaymentReceiptStatus (nt_current r) of
          None \<Rightarrow> Inl (OutOutbox out_ErrPaymentReceiptStatusNotificationPersistedCurrentStatusInvalid)
        | Some currentStatus \<Rightarrow>
      (case NormalizeDeliveryStatus (nt_status r) of
          None \<Rightarrow> Inl (OutOutbox out_ErrPaymentReceiptStatusNotificationPersistedDeliveryStatusInvalid)
        | Some deliveryStatus \<Rightarrow>
            Inr \<lparr>msg_NotificationID = nt_id r, msg_PaymentAddressID = nt_payment_address_id r,
                 msg_AddressPolicyID = parsedAddressPolicyID,
                 msg_CustomerReference = coalesce (nt_customer r),
                 msg_PreviousStatus = previousStatus, msg_CurrentStatus = currentStatus,
                 msg_ObservedTotalMinor = nt_observed r, msg_ConfirmedTotalMinor = nt_confirmed r,
                 msg_UnconfirmedTotalMinor = nt_unconfirmed r, msg_StatusChangedAt = nt_changed_at r,
                 msg_DeliveryStatus = deliveryStatus, msg_DeliveryAttempts = nt_attempts r,
                 msg_NextAttemptAt = nt_next_attempt_at r,
                 msg_LastFailureReason = persistedDeliveryFailureReason (coalesce (nt_last_error r)),
                 msg_DeliveredAt = nt_delivered_at r\<rparr>))))"

definition Outbox_ClaimPending ::
  "Env \<Rightarrow> gotime \<Rightarrow> int64 \<Rightarrow> gotime \<Rightarrow> World \<Rightarrow> OutboxMessage list result \<times> World" where
  "Outbox_ClaimPending env now limit claimUntil w =
     (if time_is_zero now
        then (Inl (OutOutbox out_ErrPaymentReceiptStatusNotificationClaimNowRequired), w)
      else if time_is_zero claimUntil
        then (Inl (OutOutbox out_ErrPaymentReceiptStatusNotificationClaimUntilRequired), w)
      else if sint limit \<le> 0
        then (Inl (OutOutbox out_ErrPaymentReceiptStatusNotificationClaimLimitInvalid), w)
      else case exec_sql env
             (sql_claim_notifications now limit claimUntil (env_locked env (w_step w))) w of
          (Inl _, w1) \<Rightarrow> (Inl (OutOutbox out_ErrPaymentReceiptStatusNotificationOutboxFailed), w1)
        | (Inr rows, w1) \<Rightarrow> (map_results scanOutboxMessage rows, w1))"

definition ensureNotificationRowsAffected ::
  "(sql_error + nat) \<times> World \<Rightarrow> unit result \<times> World" where
  "ensureNotificationRowsAffected r =
     (case r of
        (Inl _, w1) \<Rightarrow> (Inl (OutOutbox out_ErrPaymentReceiptStatusNotificationOutboxFailed), w1)
      | (Inr rowsAffected, w1) \<Rightarrow>
          if rowsAffected = 0 then (Inl (OutOutbox out_ErrPaymentReceiptStatusNotificationNotFound), w1)
          else (Inr (), w1))"

definition Outbox_SaveDeliveryResult :: "Env \<Rightarrow> DeliveryResult \<Rightarrow> World \<Rightarrow> unit result \<times> World" where
  "Outbox_SaveDeliveryResult env res w =
     (if res_Status res = DeliveryStatusSent then
        (case res_DeliveredAt res of
           None \<Rightarrow> (Inl (OutOutbox out_ErrPaymentReceiptStatusNotificationDeliveredAtRequired), w)
         | Some deliveredAt \<Rightarrow>
             ensureNotificationRowsAffected
               (exec_sql env (sql_update_notification (res_NotificationID res) (set_sent deliveredAt)) w))
      else if res_Status res = DeliveryStatusPending then
        (case res_NextAttemptAt res of
           None \<Rightarrow> (Inl (OutOutbox out_ErrPaymentReceiptStatusNotificationNextAttemptRequired), w)
         | Some nextAttemptAt \<Rightarrow>
             ensureNotificationRowsAffected
               (exec_sql env
                  (sql_update_notification (res_NotificationID res)
                     (set_pending (res_Attempts res) nextAttemptAt (res_LastFailureReason res))) w))
      else if res_Status res = DeliveryStatusFailed then
        ensureNotificationRowsAffected
          (exec_sql env
             (sql_update_notification (res_NotificationID res)
                (set_failed (res_Attempts res) (res_LastFailureReason res))) w)
      else (Inl (OutOutbox out_ErrPaymentReceiptStatusNotificationDeliveryStatusInvalid), w))"

section \<open>Guarantees\<close>

lemma put_notifications_step:
  assumes "\<And>r. r \<in> set rows \<Longrightarrow>
      (\<exists>x \<in> set (db_notifications d). nt_id r = nt_id x) \<or>
      0 < sint (nt_id r) \<and> sint (nt_id r) \<le> int n"
    and "db_notif_seq d \<le> n"
  shows "db_step d (snd (put_notifications rows x (d\<lparr>db_notif_seq := n\<rparr>)))"
proof -
  have "serials_ok (d\<lparr>db_notif_seq := n\<rparr>)" if "serials_ok d"
    using that assms(2) by (force simp: serials_ok_def)
  moreover have "serials_ok (d\<lparr>db_notif_seq := n, db_notifications := rows\<rparr>)" if s: "serials_ok d"
  proof -
    have "0 < sint (nt_id r) \<and> sint (nt_id r) \<le> int n" if "r \<in> set rows" for r
      using assms(1) [OF that] s assms(2) by (force simp: serials_ok_def)
    with s show ?thesis by (simp add: serials_ok_def)
  qed
  ultimately show ?thesis
    using assms(2)
    by (simp add: put_notifications_def db_step_def db_keeps_def db_inv_def schema_ok_def
        cursors_ahead_def seqs_le_def)
qed

lemma put_notifications_same_step:
  assumes "\<And>r. r \<in> set rows \<Longrightarrow> \<exists>x \<in> set (db_notifications d). nt_id r = nt_id x"
  shows "db_step d (snd (put_notifications rows x d))"
  using put_notifications_step [of rows d "db_notif_seq d" x] assms by simp

lemma sql_notification_steps:
  "stmt_rel db_step (sql_enqueue e)"
  "stmt_rel db_step (sql_claim_notifications at limit until locked)"
  "(\<And>r. nt_id (f r) = nt_id r) \<Longrightarrow> stmt_rel db_step (sql_update_notification nid f)"
proof -
  show "stmt_rel db_step (sql_enqueue e)"
    by (rule stmt_relI)
      (auto simp: sql_enqueue_def steps.refl notif_row_of_def next_serial_sint
        intro!: put_notifications_step split: option.split)
  show "stmt_rel db_step (sql_claim_notifications at limit until locked)"
    by (rule stmt_relI, unfold sql_claim_notifications_def Let_def, rule put_notifications_same_step)
      (force simp: set_update_where)
  show "(\<And>r. nt_id (f r) = nt_id r) \<Longrightarrow> stmt_rel db_step (sql_update_notification nid f)"
    by (rule stmt_relI, unfold sql_update_notification_def, rule put_notifications_same_step)
      (force simp: set_update_where)
qed

lemma set_result_id [simp]:
  "nt_id (set_sent at r) = nt_id r" "nt_id (set_pending n at reason r) = nt_id r"
  "nt_id (set_failed n reason r) = nt_id r"
  by (simp_all add: set_sent_def set_pending_def set_failed_def)

lemmas notification_exec_steps = sql_notification_steps [THEN steps.exec_sql_rel, THEN world_relD]

lemma outbox_steps:
  "world_rel db_step (Outbox_EnqueueStatusChanged env e)"
  "world_rel db_step (Outbox_ClaimPending env now limit until)"
  "world_rel db_step (Outbox_SaveDeliveryResult env res)"
  by (rule world_relI;
      auto simp: Outbox_EnqueueStatusChanged_def Outbox_ClaimPending_def Outbox_SaveDeliveryResult_def
        ensureNotificationRowsAffected_def steps.refl
      dest: notification_exec_steps(1,2) notification_exec_steps(3) [rotated]
      split: if_splits prod.splits sum.splits option.splits)+

section \<open>Effects\<close>

lemma due_notification_due:
  "r \<in> set (due_notifications at limit locked d) \<Longrightarrow>
     r \<in> set (db_notifications d) \<and> notification_due at locked r"
  using set_first_due unfolding due_notifications_def by fastforce

lemma sent_or_failed_not_due:
  "nt_status r \<noteq> ''pending'' \<Longrightarrow> r \<notin> set (due_notifications at limit locked d)"
  by (auto dest: due_notification_due simp: notification_due_def)

definition claimed_notifications ::
  "gotime \<Rightarrow> int64 \<Rightarrow> (int64 \<Rightarrow> bool) \<Rightarrow> DB \<Rightarrow> (NotifRow \<times> string) list" where
  "claimed_notifications at limit locked d =
     List.map_filter
       (\<lambda>r. map_option (\<lambda>a. (r, al_policy a))
          (find (\<lambda>a. al_id a = nt_payment_address_id r) (db_allocations d)))
       (due_notifications at limit locked d)"

lemma sql_claim_notifications_Inr:
  "sql_claim_notifications at limit until locked now d = (Inr rows, d') \<Longrightarrow>
     rows = map (\<lambda>(r, pol). (r\<lparr>nt_lease_until := Some until\<rparr>, pol)) (claimed_notifications at limit locked d) \<and>
     d' = d\<lparr>db_notifications :=
        update_where (\<lambda>r. nt_id r \<in> set (map (nt_id \<circ> fst) (claimed_notifications at limit locked d)))
          (\<lambda>r. r\<lparr>nt_lease_until := Some until\<rparr>) (db_notifications d)\<rparr>"
  unfolding sql_claim_notifications_def claimed_notifications_def Let_def put_Inr_iff by blast

lemma map_filter_total:
  "(\<And>r. r \<in> set rs \<Longrightarrow> f r \<noteq> None) \<Longrightarrow> List.map_filter f rs = map (the \<circ> f) rs"
  by (induction rs) (auto simp: List.map_filter_def)

text \<open>With the foreign key in force, every due notification is claimed.\<close>

lemma claimed_all_due:
  assumes "schema_ok d"
  shows "map fst (claimed_notifications at limit locked d) = due_notifications at limit locked d"
proof -
  let ?f = "\<lambda>r. map_option (\<lambda>a. (r, al_policy a))
      (find (\<lambda>a. al_id a = nt_payment_address_id r) (db_allocations d))"
  have some: "\<exists>a. find (\<lambda>a. al_id a = nt_payment_address_id r) (db_allocations d) = Some a"
    if "r \<in> set (due_notifications at limit locked d)" for r
  proof -
    have "nt_payment_address_id r \<in> set (map al_id (db_allocations d))"
      using due_notification_due [OF that] assms
      by (auto simp: schema_ok_def notifications_ok_def list_all_iff notif_row_ok_def)
    then show ?thesis
      by (cases "find (\<lambda>a. al_id a = nt_payment_address_id r) (db_allocations d)")
        (auto simp: find_None_iff)
  qed
  then have "claimed_notifications at limit locked d = map (the \<circ> ?f) (due_notifications at limit locked d)"
    unfolding claimed_notifications_def by (intro map_filter_total) force
  moreover have "fst ((the \<circ> ?f) r) = r" if "r \<in> set (due_notifications at limit locked d)" for r
    using some [OF that] by auto
  ultimately show ?thesis
    by (simp add: map_idI)
qed

lemma notification_claim_exclusive:
  assumes claim: "sql_claim_notifications at limit until locked now d = (Inr rows, d')"
    and due: "r \<in> set (due_notifications at' limit' locked' d')"
    and lease: "at' < until"
  shows "nt_id r \<notin> set (map (nt_id \<circ> fst) rows)"
proof
  assume mem: "nt_id r \<in> set (map (nt_id \<circ> fst) rows)"
  let ?ids = "set (map (nt_id \<circ> fst) (claimed_notifications at limit locked d))"
  have ids: "set (map (nt_id \<circ> fst) rows) = ?ids"
    using sql_claim_notifications_Inr [OF claim] by (force simp: image_iff)
  have d': "db_notifications d' =
      update_where (\<lambda>r. nt_id r \<in> ?ids) (\<lambda>r. r\<lparr>nt_lease_until := Some until\<rparr>) (db_notifications d)"
    using sql_claim_notifications_Inr [OF claim] by simp
  have "r \<in> set (db_notifications d')" and nd: "notification_due at' locked' r"
    using due_notification_due [OF due] by auto
  then obtain x where x: "r = (if nt_id x \<in> ?ids then x\<lparr>nt_lease_until := Some until\<rparr> else x)"
    unfolding d' set_update_where by blast
  then have "nt_id r = nt_id x"
    by simp
  with x mem have "nt_lease_until r = Some until"
    unfolding ids by simp
  then show False
    using nd lease by (simp add: notification_due_def)
qed

text \<open>
  Saving a result writes that one notification: a sent one keeps its attempts, a retried or
  failed one takes the counter and the reason of the result.
\<close>

lemma SaveDeliveryResult_Inr:
  assumes "Outbox_SaveDeliveryResult env res w = (Inr (), w')"
  shows "\<exists>f. db_notifications (w_db w') =
        update_where (\<lambda>r. nt_id r = res_NotificationID res) f (db_notifications (w_db w)) \<and>
      (\<exists>r \<in> set (db_notifications (w_db w)). nt_id r = res_NotificationID res) \<and>
      (res_Status res = DeliveryStatusSent \<and> (\<exists>at. res_DeliveredAt res = Some at \<and> f = set_sent at) \<or>
       res_Status res = DeliveryStatusPending \<and>
         (\<exists>at. res_NextAttemptAt res = Some at \<and>
            f = set_pending (res_Attempts res) at (res_LastFailureReason res)) \<or>
       res_Status res = DeliveryStatusFailed \<and>
         f = set_failed (res_Attempts res) (res_LastFailureReason res)) \<and>
      w_db w' = (w_db w)\<lparr>db_notifications := db_notifications (w_db w')\<rparr>"
  using assms
  by (auto simp: Outbox_SaveDeliveryResult_def ensureNotificationRowsAffected_def exec_sql_Inr_iff
      sql_update_notification_def put_Inr_iff count_where_0
      split: if_splits prod.splits sum.splits option.splits)

end
