(* ===== verification/Polling_UseCase.thy ===== *)
theory Polling_UseCase
  imports Allocate_UseCase Outbox_Store Payment_Lifecycle
begin

text \<open>
  The receipt polling cycle, \<open>application/usecases/run_receipt_polling_cycle_use_case.go\<close>: due
  trackings are claimed in one transaction, each is observed on its chain and saved in a
  transaction of its own, together with the notification of a changed status. The observer is
  asked over the network, so its answers depend on the moment: they are indexed by the step
  of the world. The two maps of latest block heights and of their errors are the caches. The
  cycle returns its counters also when it stops with an error, as the Go function does.
\<close>

section \<open>Dependencies and messages\<close>

record ObserveChainPaymentAddressInput =
  oci_AssetReference :: string
  oci_Chain :: string
  oci_Network :: string
  oci_Address :: string
  oci_IssuedAt :: gotime
  oci_ObservedTotalMinor :: int64
  oci_ConfirmedTotalMinor :: int64
  oci_UnconfirmedTotalMinor :: int64
  oci_RequiredConfirmations :: int32
  oci_LatestBlockHeight :: int64
  oci_SinceBlockHeight :: int64

record ObservePaymentAddressOutput =
  oo_ObservedTotalMinor :: int64
  oo_ConfirmedTotalMinor :: int64
  oo_UnconfirmedTotalMinor :: int64
  oo_LatestBlockHeight :: int64

record BlockchainReceiptObserver =
  bro_FetchLatestBlockHeight :: "nat \<Rightarrow> string \<Rightarrow> string \<Rightarrow> int64 result"
  bro_ObserveAddress ::
    "nat \<Rightarrow> ObserveChainPaymentAddressInput \<Rightarrow> ObservePaymentAddressOutput result"

record PollDeps =
  pd_unitOfWork :: "TxScope option"
  pd_observer :: "BlockchainReceiptObserver option"
  pd_clock :: bool

record PollInput =
  pin_BatchSize :: int64
  pin_RescheduleInterval :: duration
  pin_ClaimTTL :: duration
  pin_Chain :: string
  pin_Network :: string

record PollOutput =
  pout_ClaimedCount :: int64
  pout_UpdatedCount :: int64
  pout_TerminalFailedCount :: int64
  pout_ProcessingErrorCount :: int64

definition no_poll_output :: PollOutput where
  "no_poll_output = \<lparr>pout_ClaimedCount = 0, pout_UpdatedCount = 0, pout_TerminalFailedCount = 0,
     pout_ProcessingErrorCount = 0\<rparr>"

type_synonym ScopeKey = "ChainID \<times> NetworkID"

record HeightCaches =
  hc_heights :: "ScopeKey \<rightharpoonup> int64"
  hc_errors :: "ScopeKey \<rightharpoonup> go_error"

datatype TrackingResult = TrackingUpdated | TrackingTerminalFailed | TrackingProcessingError

definition pollablePaymentReceiptStatusStrings :: "string list" where
  "pollablePaymentReceiptStatusStrings =
     [PaymentReceiptStatusWatching, PaymentReceiptStatusPartiallyPaid,
      PaymentReceiptStatusPaidUnconfirmed, PaymentReceiptStatusPaidUnconfirmedReverted]"

section \<open>Saving\<close>

definition tracking_save_error :: "go_error \<Rightarrow> go_error" where
  "tracking_save_error err =
     (if err = InCfg in_ErrPaymentReceiptTrackingStoreNotConfigured then err
      else if err = InBiz in_ErrDependencyFailure then err
      else InBiz in_ErrDependencyFailure)"

definition save_failure_body ::
  "Env \<Rightarrow> TxScope \<Rightarrow> PaymentReceiptTracking \<Rightarrow> gotime \<Rightarrow> gotime \<Rightarrow> World \<Rightarrow> unit result \<times> World" where
  "save_failure_body env scope tracking now nextPollAt w =
     (if \<not> ts_Tracking scope then (Inl (InCfg in_ErrPaymentReceiptTrackingStoreNotConfigured), w)
      else case TrackingStore_Save env (paymentReceiptTrackingRecordFromDomain tracking) now nextPollAt w of
          (Inl _, w1) \<Rightarrow> (Inl (InBiz in_ErrDependencyFailure), w1)
        | (Inr _, w1) \<Rightarrow> (Inr (), w1))"

definition savePollingFailure ::
  "Env \<Rightarrow> TxScope \<Rightarrow> PaymentReceiptTracking \<Rightarrow> PaymentReceiptTrackingFailureReason \<Rightarrow> gotime \<Rightarrow> gotime
     \<Rightarrow> World \<Rightarrow> unit result \<times> World" where
  "savePollingFailure env scope tracking reason now nextPollAt w =
     (case MarkPollingFailure tracking reason of
        Inl _ \<Rightarrow> (Inl (InBiz in_ErrInternalFailure), w)
      | Inr trackingWithFailureReason \<Rightarrow>
     (case WithinTransaction env (save_failure_body env scope trackingWithFailureReason now nextPollAt) w of
        (Inl err, w1) \<Rightarrow> (Inl (tracking_save_error err), w1)
      | (Inr _, w1) \<Rightarrow> (Inr (), w1)))"

definition tracking_notify_error :: "go_error \<Rightarrow> go_error" where
  "tracking_notify_error err =
     (if err = InCfg in_ErrPaymentReceiptTrackingStoreNotConfigured then err
      else if err = InCfg in_ErrPaymentReceiptStatusOutboxNotConfigured then err
      else if err = InBiz in_ErrDependencyFailure then err
      else InBiz in_ErrDependencyFailure)"

definition save_and_enqueue_body ::
  "Env \<Rightarrow> TxScope \<Rightarrow> PaymentReceiptTracking \<Rightarrow> PaymentReceiptStatusChanged option \<Rightarrow> gotime \<Rightarrow> gotime
     \<Rightarrow> World \<Rightarrow> unit result \<times> World" where
  "save_and_enqueue_body env scope tracking changed now nextPollAt w =
     (if \<not> ts_Tracking scope then (Inl (InCfg in_ErrPaymentReceiptTrackingStoreNotConfigured), w)
      else case TrackingStore_Save env (paymentReceiptTrackingRecordFromDomain tracking) now nextPollAt w of
          (Inl _, w1) \<Rightarrow> (Inl (InBiz in_ErrDependencyFailure), w1)
        | (Inr _, w1) \<Rightarrow>
      (case changed of
          None \<Rightarrow> (Inr (), w1)
        | Some statusChangedEvent \<Rightarrow>
      if \<not> ts_Outbox scope then (Inl (InCfg in_ErrPaymentReceiptStatusOutboxNotConfigured), w1)
      else (case Outbox_EnqueueStatusChanged env
              (paymentReceiptStatusChangedRecordFromDomain statusChangedEvent) w1 of
          (Inl _, w2) \<Rightarrow> (Inl (InBiz in_ErrDependencyFailure), w2)
        | (Inr _, w2) \<Rightarrow> (Inr (), w2))))"

definition saveTrackingAndMaybeEnqueueStatusChanged ::
  "Env \<Rightarrow> TxScope \<Rightarrow> PaymentReceiptTracking \<Rightarrow> PaymentReceiptStatus \<Rightarrow> gotime \<Rightarrow> gotime
     \<Rightarrow> World \<Rightarrow> unit result \<times> World" where
  "saveTrackingAndMaybeEnqueueStatusChanged env scope tracking previousStatus now nextPollAt w =
     (case StatusChangedEvent tracking previousStatus now of
        Inl _ \<Rightarrow> (Inl (InBiz in_ErrInternalFailure), w)
      | Inr changed \<Rightarrow>
     (case WithinTransaction env (save_and_enqueue_body env scope tracking changed now nextPollAt) w of
        (Inl err, w1) \<Rightarrow> (Inl (tracking_notify_error err), w1)
      | (Inr _, w1) \<Rightarrow> (Inr (), w1)))"

section \<open>One tracking\<close>

definition fetchLatestBlockHeightForTracking ::
  "BlockchainReceiptObserver \<Rightarrow> PaymentReceiptTracking \<Rightarrow> HeightCaches \<Rightarrow> World
     \<Rightarrow> int64 result \<times> HeightCaches \<times> World" where
  "fetchLatestBlockHeightForTracking observer tracking caches w =
     (let scopeKey = (trk_Chain tracking, trk_Network tracking)
      in case hc_heights caches scopeKey of
          Some latestBlockHeight \<Rightarrow> (Inr latestBlockHeight, caches, w)
        | None \<Rightarrow>
      (case hc_errors caches scopeKey of
          Some err \<Rightarrow> (Inl err, caches, w)
        | None \<Rightarrow>
      (case bro_FetchLatestBlockHeight observer (w_step w) (trk_Chain tracking) (trk_Network tracking) of
          Inl err \<Rightarrow> (Inl err, caches\<lparr>hc_errors := (hc_errors caches)(scopeKey \<mapsto> err)\<rparr>, tick w)
        | Inr latestBlockHeight \<Rightarrow>
            (Inr latestBlockHeight,
             caches\<lparr>hc_heights := (hc_heights caches)(scopeKey \<mapsto> latestBlockHeight)\<rparr>, tick w))))"

definition observe_input :: "PaymentReceiptTracking \<Rightarrow> int64 \<Rightarrow> ObserveChainPaymentAddressInput" where
  "observe_input tracking latestBlockHeight =
     \<lparr>oci_AssetReference = trk_AssetReference tracking, oci_Chain = trk_Chain tracking,
      oci_Network = trk_Network tracking, oci_Address = trk_Address tracking,
      oci_IssuedAt = trk_IssuedAt tracking,
      oci_ObservedTotalMinor = trk_ObservedTotalMinor tracking,
      oci_ConfirmedTotalMinor = trk_ConfirmedTotalMinor tracking,
      oci_UnconfirmedTotalMinor = trk_UnconfirmedTotalMinor tracking,
      oci_RequiredConfirmations = trk_RequiredConfirmations tracking,
      oci_LatestBlockHeight = latestBlockHeight,
      oci_SinceBlockHeight = trk_LastObservedBlockHeight tracking\<rparr>"

definition observation_of :: "ObservePaymentAddressOutput \<Rightarrow> PaymentReceiptObservation" where
  "observation_of out =
     \<lparr>obs_ObservedTotalMinor = oo_ObservedTotalMinor out,
      obs_ConfirmedTotalMinor = oo_ConfirmedTotalMinor out,
      obs_UnconfirmedTotalMinor = oo_UnconfirmedTotalMinor out,
      obs_LatestBlockHeight = oo_LatestBlockHeight out\<rparr>"

text \<open>The branch that every failure of a poll takes.\<close>

definition poll_failure ::
  "Env \<Rightarrow> TxScope \<Rightarrow> PaymentReceiptTracking \<Rightarrow> PaymentReceiptTrackingFailureReason \<Rightarrow> gotime \<Rightarrow> gotime
     \<Rightarrow> World \<Rightarrow> TrackingResult result \<times> World" where
  "poll_failure env scope tracking reason now nextPollAt w =
     (case savePollingFailure env scope tracking reason now nextPollAt w of
        (Inl err, w1) \<Rightarrow> (Inl err, w1)
      | (Inr _, w1) \<Rightarrow> (Inr TrackingProcessingError, w1))"

definition record_observation ::
  "Env \<Rightarrow> TxScope \<Rightarrow> PaymentReceiptTracking \<Rightarrow> PaymentReceiptObservation \<Rightarrow> gotime \<Rightarrow> gotime
     \<Rightarrow> World \<Rightarrow> TrackingResult result \<times> World" where
  "record_observation env scope tracking ob now nextPollAt w =
     (case ApplyObservation tracking ob now of
        Inl _ \<Rightarrow> poll_failure env scope tracking ReasonTrackingUpdateFailed now nextPollAt w
      | Inr updatedTracking \<Rightarrow>
     (case ExpireIfDue updatedTracking now of
        Inl _ \<Rightarrow> (Inl (InBiz in_ErrInternalFailure), w)
      | Inr (finalTracking, expired) \<Rightarrow>
          if expired then
            (case saveTrackingAndMaybeEnqueueStatusChanged env scope finalTracking
                    (trk_Status tracking) now nextPollAt w of
               (Inl err, w1) \<Rightarrow> (Inl err, w1)
             | (Inr _, w1) \<Rightarrow> (Inr TrackingTerminalFailed, w1))
          else
            (case saveTrackingAndMaybeEnqueueStatusChanged env scope updatedTracking
                    (trk_Status tracking) now nextPollAt w of
               (Inl err, w1) \<Rightarrow> (Inl err, w1)
             | (Inr _, w1) \<Rightarrow> (Inr TrackingUpdated, w1))))"

definition processTracking ::
  "Env \<Rightarrow> TxScope \<Rightarrow> BlockchainReceiptObserver \<Rightarrow> PaymentReceiptTracking \<Rightarrow> gotime \<Rightarrow> gotime
     \<Rightarrow> HeightCaches \<Rightarrow> World \<Rightarrow> TrackingResult result \<times> HeightCaches \<times> World" where
  "processTracking env scope observer tracking now nextPollAt caches w =
     (if time_is_zero (trk_IssuedAt tracking) then
        (case poll_failure env scope tracking ReasonTrackingInvalid now nextPollAt w of
           (r, w1) \<Rightarrow> (r, caches, w1))
      else case fetchLatestBlockHeightForTracking observer tracking caches w of
          (Inl _, caches1, w1) \<Rightarrow>
            (case poll_failure env scope tracking ReasonLatestBlockHeightUnavailable now nextPollAt w1 of
               (r, w2) \<Rightarrow> (r, caches1, w2))
        | (Inr latestBlockHeight, caches1, w1) \<Rightarrow>
      (case bro_ObserveAddress observer (w_step w1) (observe_input tracking latestBlockHeight) of
          Inl _ \<Rightarrow>
            (case poll_failure env scope tracking ReasonObservationFailed now nextPollAt (tick w1) of
               (r, w2) \<Rightarrow> (r, caches1, w2))
        | Inr observation \<Rightarrow>
            (case record_observation env scope tracking (observation_of observation) now nextPollAt
                    (tick w1) of
               (r, w2) \<Rightarrow> (r, caches1, w2))))"

section \<open>The cycle\<close>

definition poll_claim_body ::
  "Env \<Rightarrow> TxScope \<Rightarrow> PollInput \<Rightarrow> gotime \<Rightarrow> World \<Rightarrow> PaymentReceiptTracking list result \<times> World" where
  "poll_claim_body env scope input now w =
     (if \<not> ts_Tracking scope then (Inl (InCfg in_ErrPaymentReceiptTrackingStoreNotConfigured), w)
      else case TrackingStore_ClaimDue env
             \<lparr>ctr_Now = now, ctr_Limit = pin_BatchSize input,
              ctr_ClaimUntil = time_add now (pin_ClaimTTL input),
              ctr_Chain = pin_Chain input, ctr_Network = pin_Network input,
              ctr_Statuses = pollablePaymentReceiptStatusStrings\<rparr> w of
          (Inl _, w1) \<Rightarrow> (Inl (InBiz in_ErrDependencyFailure), w1)
        | (Inr claimedTrackings, w1) \<Rightarrow>
            (case map_results paymentReceiptTrackingFromRecord claimedTrackings of
               Inl _ \<Rightarrow> (Inl (InBiz in_ErrInternalFailure), w1)
             | Inr trackings \<Rightarrow> (Inr trackings, w1)))"

definition poll_claim_error :: "go_error \<Rightarrow> go_error" where
  "poll_claim_error err =
     (if err = InCfg in_ErrPaymentReceiptTrackingStoreNotConfigured then err
      else if err = InBiz in_ErrDependencyFailure then err
      else if err = InBiz in_ErrInternalFailure then err
      else InBiz in_ErrDependencyFailure)"

definition count_result :: "TrackingResult \<Rightarrow> PollOutput \<Rightarrow> PollOutput" where
  "count_result r out =
     (case r of
        TrackingUpdated \<Rightarrow> out\<lparr>pout_UpdatedCount := pout_UpdatedCount out + 1\<rparr>
      | TrackingTerminalFailed \<Rightarrow> out\<lparr>pout_TerminalFailedCount := pout_TerminalFailedCount out + 1\<rparr>
      | TrackingProcessingError \<Rightarrow>
          out\<lparr>pout_ProcessingErrorCount := pout_ProcessingErrorCount out + 1\<rparr>)"

fun poll_loop ::
  "Env \<Rightarrow> TxScope \<Rightarrow> BlockchainReceiptObserver \<Rightarrow> gotime \<Rightarrow> gotime \<Rightarrow> PaymentReceiptTracking list
     \<Rightarrow> PollOutput \<Rightarrow> HeightCaches \<Rightarrow> World \<Rightarrow> (PollOutput \<times> go_error option) \<times> World" where
  "poll_loop env scope observer now nextPollAt [] out caches w = ((out, None), w)"
| "poll_loop env scope observer now nextPollAt (tracking # trackings) out caches w =
     (case processTracking env scope observer tracking now nextPollAt caches w of
        (Inl err, caches1, w1) \<Rightarrow> ((out, Some err), w1)
      | (Inr r, caches1, w1) \<Rightarrow>
          poll_loop env scope observer now nextPollAt trackings (count_result r out) caches1 w1)"

definition poll_filter :: "PollInput \<Rightarrow> PollInput result" where
  "poll_filter input =
     (if pin_Network input \<noteq> [] \<and> pin_Chain input = []
        then Inl (InVal in_ErrPollChainRequiredWhenPollNetworkSet)
      else case (if pin_Chain input = [] then Some [] else ParseChainID (pin_Chain input)) of
          None \<Rightarrow> Inl (InBiz in_ErrChainNotSupported)
        | Some chain \<Rightarrow>
      (case (if pin_Network input = [] then Some [] else ParseNetworkID (pin_Network input)) of
          None \<Rightarrow> Inl (InBiz in_ErrChainNotSupported)
        | Some network \<Rightarrow> Inr (input\<lparr>pin_Chain := chain, pin_Network := network\<rparr>)))"

definition Poll_Execute ::
  "Env \<Rightarrow> PollDeps \<Rightarrow> PollInput \<Rightarrow> World \<Rightarrow> (PollOutput \<times> go_error option) \<times> World" where
  "Poll_Execute env deps input0 w =
     (case pd_unitOfWork deps of
        None \<Rightarrow> ((no_poll_output, Some (InCfg in_ErrUnitOfWorkNotConfigured)), w)
      | Some scope \<Rightarrow>
     (case pd_observer deps of
        None \<Rightarrow> ((no_poll_output, Some (InCfg in_ErrBlockchainReceiptObserverNotConfigured)), w)
      | Some observer \<Rightarrow>
     if \<not> pd_clock deps then ((no_poll_output, Some (InCfg in_ErrClockNotConfigured)), w)
     else if sint (pin_BatchSize input0) \<le> 0
       then ((no_poll_output, Some (InVal in_ErrBatchSizeMustBeGreaterThanZero)), w)
     else
     (case read_clock env w of (now, w1) \<Rightarrow>
     (case poll_filter input0 of
        Inl err \<Rightarrow> ((no_poll_output, Some err), w1)
      | Inr input \<Rightarrow>
     (case WithinTransaction env (poll_claim_body env scope input now) w1 of
        (Inl err, w2) \<Rightarrow> ((no_poll_output, Some (poll_claim_error err)), w2)
      | (Inr trackings, w2) \<Rightarrow>
          poll_loop env scope observer now (time_add now (pin_RescheduleInterval input)) trackings
            (no_poll_output\<lparr>pout_ClaimedCount := of_nat (length trackings)\<rparr>)
            \<lparr>hc_heights = Map.empty, hc_errors = Map.empty\<rparr> w2)))))"

end
