(* ===== verification/Dispatch_UseCase.thy ===== *)
theory Dispatch_UseCase
  imports Allocate_UseCase Outbox_Store
begin

text \<open>
  The webhook dispatch cycle,
  \<open>application/usecases/run_receipt_webhook_dispatch_cycle_use_case.go\<close>: pending notifications
  are claimed in one transaction, each is sent, and the result of the delivery is saved in a
  transaction of its own. The notifier answers over the network, so its answer is indexed by
  the step of the world. As in the poller, the counters are returned also on an error.
\<close>

section \<open>Dependencies and messages\<close>

record NotifyPaymentReceiptStatusChangedInput =
  nin_NotificationID :: int64
  nin_PaymentAddressID :: int64
  nin_CustomerReference :: string
  nin_AssetReference :: string
  nin_PreviousStatus :: string
  nin_CurrentStatus :: string
  nin_ObservedTotalMinor :: int64
  nin_ConfirmedTotalMinor :: int64
  nin_UnconfirmedTotalMinor :: int64
  nin_StatusChangedAt :: gotime

type_synonym Notifier = "nat \<Rightarrow> NotifyPaymentReceiptStatusChangedInput \<Rightarrow> unit result"

record DispatchDeps =
  dd_unitOfWork :: "TxScope option"
  dd_policyReader :: "AddressPolicyReader option"
  dd_notifier :: "Notifier option"
  dd_clock :: bool

record DispatchInput =
  din_BatchSize :: int64
  din_MaxAttempts :: int32
  din_RetryDelay :: duration
  din_DispatchTTL :: duration

record DispatchOutput =
  dout_ClaimedCount :: int64
  dout_SentCount :: int64
  dout_RetriedCount :: int64
  dout_FailedCount :: int64

definition no_dispatch_output :: DispatchOutput where
  "no_dispatch_output = \<lparr>dout_ClaimedCount = 0, dout_SentCount = 0, dout_RetriedCount = 0,
     dout_FailedCount = 0\<rparr>"

section \<open>One notification\<close>

definition delivery_save_error :: "go_error \<Rightarrow> go_error" where
  "delivery_save_error err =
     (if err = InCfg in_ErrPaymentReceiptStatusOutboxNotConfigured then err
      else if err = InBiz in_ErrDependencyFailure then err
      else InBiz in_ErrDependencyFailure)"

definition save_delivery_body ::
  "Env \<Rightarrow> TxScope \<Rightarrow> DeliveryResult \<Rightarrow> World \<Rightarrow> unit result \<times> World" where
  "save_delivery_body env scope deliveryResult w =
     (if \<not> ts_Outbox scope then (Inl (InCfg in_ErrPaymentReceiptStatusOutboxNotConfigured), w)
      else case Outbox_SaveDeliveryResult env deliveryResult w of
          (Inl _, w1) \<Rightarrow> (Inl (InBiz in_ErrDependencyFailure), w1)
        | (Inr _, w1) \<Rightarrow> (Inr (), w1))"

definition saveDeliveryResult ::
  "Env \<Rightarrow> TxScope \<Rightarrow> DeliveryResult \<Rightarrow> World \<Rightarrow> unit result \<times> World" where
  "saveDeliveryResult env scope deliveryResult w =
     (case WithinTransaction env (save_delivery_body env scope deliveryResult) w of
        (Inl err, w1) \<Rightarrow> (Inl (delivery_save_error err), w1)
      | (Inr _, w1) \<Rightarrow> (Inr (), w1))"

definition notify_input :: "OutboxMessage \<Rightarrow> string \<Rightarrow> NotifyPaymentReceiptStatusChangedInput" where
  "notify_input notification assetReference =
     \<lparr>nin_NotificationID = msg_NotificationID notification,
      nin_PaymentAddressID = msg_PaymentAddressID notification,
      nin_CustomerReference = msg_CustomerReference notification,
      nin_AssetReference = assetReference,
      nin_PreviousStatus = msg_PreviousStatus notification,
      nin_CurrentStatus = msg_CurrentStatus notification,
      nin_ObservedTotalMinor = msg_ObservedTotalMinor notification,
      nin_ConfirmedTotalMinor = msg_ConfirmedTotalMinor notification,
      nin_UnconfirmedTotalMinor = msg_UnconfirmedTotalMinor notification,
      nin_StatusChangedAt = msg_StatusChangedAt notification\<rparr>"

text \<open>Both ends of a delivery: the result is computed, saved, and its status returned.\<close>

definition save_and_return ::
  "Env \<Rightarrow> TxScope \<Rightarrow> DeliveryResult result \<Rightarrow> World \<Rightarrow> string result \<times> World" where
  "save_and_return env scope computed w =
     (case computed of
        Inl _ \<Rightarrow> (Inl (InBiz in_ErrInternalFailure), w)
      | Inr deliveryResult \<Rightarrow>
     (case saveDeliveryResult env scope deliveryResult w of
        (Inl err, w1) \<Rightarrow> (Inl err, w1)
      | (Inr _, w1) \<Rightarrow> (Inr (res_Status deliveryResult), w1)))"

definition processNotification ::
  "Env \<Rightarrow> TxScope \<Rightarrow> AddressPolicyReader \<Rightarrow> Notifier \<Rightarrow> DispatchInput \<Rightarrow> OutboxMessage \<Rightarrow> World
     \<Rightarrow> string result \<times> World" where
  "processNotification env scope reader notifier input notification w =
     (case rdr_FindIssuanceByID reader (msg_AddressPolicyID notification) of
        Inl _ \<Rightarrow> (Inl (InBiz in_ErrDependencyFailure), w)
      | Inr None \<Rightarrow> (Inl (InVal in_ErrPaymentAddressPolicyNotConfigured), w)
      | Inr (Some policy) \<Rightarrow>
     (case notifier (w_step w) (notify_input notification (trim_space (ipr_AssetReference policy))) of
        Inl _ \<Rightarrow>
          (case read_clock env (tick w) of (now, w1) \<Rightarrow>
             save_and_return env scope
               (ResolveDeliveryFailure (msg_NotificationID notification)
                  (msg_DeliveryAttempts notification) (din_MaxAttempts input) now
                  (din_RetryDelay input) DeliveryFailureReasonDeliveryFailed) w1)
      | Inr _ \<Rightarrow>
          (case read_clock env (tick w) of (now, w1) \<Rightarrow>
             save_and_return env scope
               (MarkPaymentReceiptStatusNotificationSent (msg_NotificationID notification) now) w1)))"

section \<open>The cycle\<close>

definition dispatch_claim_body ::
  "Env \<Rightarrow> TxScope \<Rightarrow> DispatchInput \<Rightarrow> gotime \<Rightarrow> World \<Rightarrow> OutboxMessage list result \<times> World" where
  "dispatch_claim_body env scope input claimNow w =
     (if \<not> ts_Outbox scope then (Inl (InCfg in_ErrPaymentReceiptStatusOutboxNotConfigured), w)
      else case Outbox_ClaimPending env claimNow (din_BatchSize input)
             (time_add claimNow (din_DispatchTTL input)) w of
          (Inl _, w1) \<Rightarrow> (Inl (InBiz in_ErrDependencyFailure), w1)
        | (Inr notifications, w1) \<Rightarrow> (Inr notifications, w1))"

definition count_outcome :: "string \<Rightarrow> DispatchOutput \<Rightarrow> DispatchOutput" where
  "count_outcome outcome out =
     (if outcome = DeliveryStatusSent then out\<lparr>dout_SentCount := dout_SentCount out + 1\<rparr>
      else if outcome = DeliveryStatusPending then out\<lparr>dout_RetriedCount := dout_RetriedCount out + 1\<rparr>
      else if outcome = DeliveryStatusFailed then out\<lparr>dout_FailedCount := dout_FailedCount out + 1\<rparr>
      else out)"

fun dispatch_loop ::
  "Env \<Rightarrow> TxScope \<Rightarrow> AddressPolicyReader \<Rightarrow> Notifier \<Rightarrow> DispatchInput \<Rightarrow> OutboxMessage list
     \<Rightarrow> DispatchOutput \<Rightarrow> World \<Rightarrow> (DispatchOutput \<times> go_error option) \<times> World" where
  "dispatch_loop env scope reader notifier input [] out w = ((out, None), w)"
| "dispatch_loop env scope reader notifier input (notification # notifications) out w =
     (case processNotification env scope reader notifier input notification w of
        (Inl err, w1) \<Rightarrow> ((out, Some err), w1)
      | (Inr outcome, w1) \<Rightarrow>
          dispatch_loop env scope reader notifier input notifications (count_outcome outcome out) w1)"

definition Dispatch_Execute ::
  "Env \<Rightarrow> DispatchDeps \<Rightarrow> DispatchInput \<Rightarrow> World \<Rightarrow> (DispatchOutput \<times> go_error option) \<times> World" where
  "Dispatch_Execute env deps input w =
     (case dd_unitOfWork deps of
        None \<Rightarrow> ((no_dispatch_output, Some (InCfg in_ErrUnitOfWorkNotConfigured)), w)
      | Some scope \<Rightarrow>
     (case dd_notifier deps of
        None \<Rightarrow> ((no_dispatch_output, Some (InCfg in_ErrPaymentReceiptStatusNotifierNotConfigured)), w)
      | Some notifier \<Rightarrow>
     (case dd_policyReader deps of
        None \<Rightarrow> ((no_dispatch_output, Some (InCfg in_ErrAddressPolicyReaderNotConfigured)), w)
      | Some reader \<Rightarrow>
     if \<not> dd_clock deps then ((no_dispatch_output, Some (InCfg in_ErrClockNotConfigured)), w)
     else if sint (din_BatchSize input) \<le> 0
       then ((no_dispatch_output, Some (InVal in_ErrBatchSizeMustBeGreaterThanZero)), w)
     else if sint (din_MaxAttempts input) \<le> 0
       then ((no_dispatch_output, Some (InVal in_ErrMaxAttemptsMustBeGreaterThanZero)), w)
     else if sint (din_RetryDelay input) \<le> 0
       then ((no_dispatch_output, Some (InVal in_ErrRetryDelayMustBeGreaterThanZero)), w)
     else
     (case read_clock env w of (claimNow, w1) \<Rightarrow>
     (case WithinTransaction env (dispatch_claim_body env scope input claimNow) w1 of
        (Inl err, w2) \<Rightarrow> ((no_dispatch_output, Some (delivery_save_error err)), w2)
      | (Inr claimedNotifications, w2) \<Rightarrow>
          dispatch_loop env scope reader notifier input claimedNotifications
            (no_dispatch_output\<lparr>dout_ClaimedCount := of_nat (length claimedNotifications)\<rparr>) w2)))))"

end
