(* ===== verification/Sample_Run.thy ===== *)
theory Sample_Run
  imports Policy_Reader Polling_UseCase Dispatch_UseCase
begin

text \<open>
  A concrete deployment, a concrete database and the executions of the use cases on them,
  evaluated: one bitcoin policy, a deriver that answers one address, an environment without
  faults. The witnesses of the properties start from them.
\<close>

definition sample_env :: Env where
  "sample_env = \<lparr>env_clock = (\<lambda>n. 1000), env_now = (\<lambda>n. 1000), env_fault = (\<lambda>n. False),
     env_locked = (\<lambda>n i. False), env_commit = (\<lambda>n. Committed), env_others = (\<lambda>n d. d)\<rparr>"

definition sample_policy :: AddressIssuancePolicyRecord where
  "sample_policy = \<lparr>ipr_AddressPolicyID = ''btc-main'', ipr_Chain = ''bitcoin'',
     ipr_Network = ''mainnet'', ipr_Scheme = ''taproot'', ipr_AssetReference = [], ipr_Decimals = 8,
     ipr_Enabled = True, ipr_AddressSpaceRef = ''xpub'', ipr_IssuanceRefPrefix = ''m''\<rparr>"

definition sample_deriver :: IssuedAddressDeriver where
  "sample_deriver = \<lparr>iad_SupportsChain = (\<lambda>c. True),
     iad_DeriveIssuedAddress = (\<lambda>p a. Inr \<lparr>do_Address = ''bc1q'', do_IssuanceRefKind = [],
       do_IssuanceRef = [], do_SweepMaterial = ''x''\<rparr>)\<rparr>"

definition sample_deps :: AllocateDeps where
  "sample_deps = \<lparr>ad_unitOfWork = Some fullTxScope, ad_deriver = Some sample_deriver,
     ad_policyReader = Some (NewAddressPolicyReader [sample_policy]),
     ad_issuancePolicy = NewPaymentAddressAllocationIssuancePolicy [] [], ad_clock = True\<rparr>"

definition sample_input :: AllocateInput where
  "sample_input = \<lparr>ai_Chain = ''bitcoin'', ai_AddressPolicyID = ''btc-main'',
     ai_ExpectedAmountMinor = 5, ai_CustomerReference = ''c'', ai_IdempotencyKey = ''k''\<rparr>"

definition sample_world :: World where
  "sample_world = \<lparr>w_db = empty_db, w_step = 0, w_now = 0\<rparr>"

definition sample_response :: AllocateResponse where
  "sample_response = \<lparr>arsp_PaymentAddressID = ''1'', arsp_AddressPolicyID = ''btc-main'',
     arsp_ExpectedAmountMinor = 5, arsp_Chain = ''bitcoin'', arsp_Network = ''mainnet'',
     arsp_Scheme = ''taproot'', arsp_AssetReference = [], arsp_Decimals = 8,
     arsp_Address = ''bc1q'', arsp_CustomerReference = ''c'', arsp_IdempotencyReplayed = False\<rparr>"

lemma sample_allocation:
  "fst (Allocate_Execute sample_env sample_deps sample_input sample_world) = Inr sample_response"
  by code_simp

text \<open>
  A database in the middle of its life: one address issued and watched, a reservation whose
  derivation failed, and one notification of a change waiting to be sent.
\<close>

definition sample_alloc_row :: AllocRow where
  "sample_alloc_row = \<lparr>al_id = 1, al_policy = ''btc-main'', al_space_ref = ''xpub'', al_slot = 0,
     al_expected = 5, al_customer = Some ''c'', al_chain = Some ''bitcoin'',
     al_network = Some ''mainnet'', al_scheme = Some ''taproot'', al_asset = None,
     al_address = Some ''bc1q'', al_sweep = Some ''x'', al_status = ''issued'', al_failure = None,
     al_reserved_at = 900, al_issued_at = Some 900\<rparr>"

definition sample_failed_row :: AllocRow where
  "sample_failed_row = \<lparr>al_id = 2, al_policy = ''btc-main'', al_space_ref = ''xpub'', al_slot = 1,
     al_expected = 5, al_customer = None, al_chain = None, al_network = None, al_scheme = None,
     al_asset = None, al_address = None, al_sweep = None, al_status = ''derivation_failed'',
     al_failure = Some ''derivation_failed'', al_reserved_at = 900, al_issued_at = None\<rparr>"

definition sample_track_row :: TrackRow where
  "sample_track_row = \<lparr>pt_id = 1, pt_payment_address_id = 1, pt_policy = ''btc-main'',
     pt_chain = ''bitcoin'', pt_network = ''mainnet'', pt_address = ''bc1q'', pt_asset = None,
     pt_issued_at = Some 900, pt_expires_at = 5000, pt_expected = 5, pt_confirmations = 1,
     pt_status = ''watching'', pt_observed = 0, pt_confirmed = 0, pt_unconfirmed = 0, pt_height = 0,
     pt_first_observed_at = None, pt_paid_at = None, pt_confirmed_at = None, pt_last_error = None,
     pt_last_polled_at = None, pt_next_poll_at = 900, pt_lease_until = None\<rparr>"

definition sample_notif_row :: NotifRow where
  "sample_notif_row = \<lparr>nt_id = 1, nt_payment_address_id = 1, nt_customer = Some ''c'',
     nt_previous = ''watching'', nt_current = ''partially_paid'', nt_observed = 2, nt_confirmed = 0,
     nt_unconfirmed = 2, nt_changed_at = 950, nt_status = ''pending'', nt_attempts = 0,
     nt_next_attempt_at = 950, nt_lease_until = None, nt_last_error = None, nt_delivered_at = None\<rparr>"

definition sample_key_row :: KeyRow where
  "sample_key_row = \<lparr>ik_chain = ''bitcoin'', ik_key = ''k'', ik_policy = ''btc-main'',
     ik_expected = 5, ik_customer = Some ''c'', ik_payment_address_id = Some 1\<rparr>"

definition sample_db :: DB where
  "sample_db = \<lparr>db_allocations = [sample_alloc_row, sample_failed_row],
     db_cursors = [\<lparr>cu_policy = ''btc-main'', cu_space_ref = ''xpub'', cu_next = 2\<rparr>],
     db_trackings = [sample_track_row], db_notifications = [sample_notif_row],
     db_keys = [sample_key_row], db_alloc_seq = 2, db_track_seq = 1, db_notif_seq = 1\<rparr>"

definition sample_live :: World where
  "sample_live = \<lparr>w_db = sample_db, w_step = 0, w_now = 1000\<rparr>"

lemma sample_db_inv: "db_inv sample_db"
proof -
  have "schema_ok sample_db" "serials_ok sample_db"
    by code_simp+
  moreover have "cursors_ahead sample_db"
    by (simp add: cursors_ahead_def sample_db_def sample_alloc_row_def sample_failed_row_def)
  ultimately show ?thesis
    by (simp add: db_inv_def)
qed

definition sample_claim :: ClaimPaymentReceiptTrackingsInput where
  "sample_claim = \<lparr>ctr_Now = 1000, ctr_Limit = 10, ctr_ClaimUntil = 1030, ctr_Chain = [],
     ctr_Network = [], ctr_Statuses = [''watching'']\<rparr>"

definition sample_reserve :: ReservePaymentAddressAllocationInput where
  "sample_reserve = \<lparr>rin_IssuancePolicy = sample_policy, rin_ExpectedAmountMinor = 7,
     rin_CustomerReference = []\<rparr>"

end
