(* ===== verification/Allocate_Effects.thy ===== *)
theory Allocate_Effects
  imports Allocate_UseCase
begin

text \<open>
  What a successful issuance leaves in the database, step by step: the reserved row, the
  issued row, the receipt tracking and the completed idempotency key. The last lemma gives the
  exact effect of the transaction body on the tables.
\<close>

section \<open>What a successful issuance writes\<close>

definition issued_rows :: "DB \<Rightarrow> AllocRow set" where
  "issued_rows d = {r \<in> set (db_allocations d). al_status r = ''issued''}"

definition reserved_entity :: "int64 \<Rightarrow> AddressPolicyID \<Rightarrow> int \<Rightarrow> int64 \<Rightarrow> string \<Rightarrow> PaymentAddressAllocation" where
  "reserved_entity pid pol slot expected customer =
     \<lparr>alc_PaymentAddressID = pid, alc_AddressPolicyID = pol, alc_SlotIndex = word_of_int slot,
      alc_ExpectedAmountMinor = expected, alc_CustomerReference = customer,
      alc_Status = PaymentAddressAllocationStatusReserved, alc_Chain = [], alc_Network = [],
      alc_Scheme = [], alc_AssetReference = [], alc_Address = [], alc_DerivationFailureReason = []\<rparr>"

lemma reserved_record_entity:
  "paymentAddressAllocationFromRecord (reserved_record pid pol slot e c) = Inr a \<longleftrightarrow>
     (\<exists>pol'. ParseChainID pol = Some pol' \<and> a = reserved_entity pid pol' slot e c)"
  by (auto simp: paymentAddressAllocationFromRecord_def reserved_record_def reserved_entity_def
      NewAddressPolicyID_def split: option.splits)

text \<open>
  The row a reservation leaves: reserved for the policy, with the amount and the customer
  of the request.
\<close>

definition reserved_for :: "ReservePaymentAddressAllocationInput \<Rightarrow> int64 \<Rightarrow> int \<Rightarrow> AllocRow \<Rightarrow> bool" where
  "reserved_for input pid slot r \<longleftrightarrow>
     al_id r = pid \<and> al_slot r = slot \<and> al_status r = ''reserved'' \<and>
     al_policy r = ipr_AddressPolicyID (rin_IssuancePolicy input) \<and>
     al_space_ref r = trim_space (ipr_AddressSpaceRef (rin_IssuancePolicy input)) \<and>
     al_expected r = rin_ExpectedAmountMinor input \<and>
     al_customer r = nullIfEmpty (trim_space (rin_CustomerReference input))"

definition reserved_frame :: "DB \<Rightarrow> DB \<Rightarrow> bool" where
  "reserved_frame d d' \<longleftrightarrow>
     db_keys d' = db_keys d \<and> db_trackings d' = db_trackings d \<and>
     db_notifications d' = db_notifications d \<and> issued_rows d' = issued_rows d"

lemma Reopen_Some:
  assumes R: "AllocationStore_ReopenFailedReservation env input w = (Inr (Some rec), w')"
    and inv: "db_inv (w_db w)"
  shows "\<exists>pid slot r. r \<in> set (db_allocations (w_db w')) \<and> reserved_for input pid slot r \<and>
     rec = reserved_record pid (ipr_AddressPolicyID (rin_IssuancePolicy input)) slot
             (rin_ExpectedAmountMinor input) (trim_space (rin_CustomerReference input)) \<and>
     reserved_frame (w_db w) (w_db w')"
proof -
  let ?d = "w_db w" and ?cust = "nullIfEmpty (trim_space (rin_CustomerReference input))"
  obtain pid slot d1 n d2 where
    sel: "sql_select_failed (env_locked env (w_step w)) (ipr_AddressPolicyID (rin_IssuancePolicy input))
        (trim_space (ipr_AddressSpaceRef (rin_IssuancePolicy input))) (w_now w) ?d = (Inr (Some (pid, slot)), d1)"
    and re: "sql_reopen pid (rin_ExpectedAmountMinor input) ?cust (w_now w) d1 = (Inr n, d2)"
    and rec: "rec = reserved_record pid (ipr_AddressPolicyID (rin_IssuancePolicy input)) slot
             (rin_ExpectedAmountMinor input) (trim_space (rin_CustomerReference input))"
    and w': "w_db w' = d2"
    using R by (auto simp: AllocationStore_ReopenFailedReservation_def Let_def exec_sql_Inr_iff
        split: if_splits prod.splits sum.splits option.splits)
  obtain r0 where r0: "r0 \<in> set (db_allocations ?d)" "al_id r0 = pid" "al_slot r0 = slot"
    "al_policy r0 = ipr_AddressPolicyID (rin_IssuancePolicy input)"
    "al_space_ref r0 = trim_space (ipr_AddressSpaceRef (rin_IssuancePolicy input))"
    "al_status r0 = ''derivation_failed''" and d1: "d1 = ?d"
    using sql_select_failed_Some [OF sel] by auto
  let ?f = "\<lambda>r. r\<lparr>al_status := ''reserved'', al_expected := rin_ExpectedAmountMinor input,
      al_customer := ?cust, al_chain := None, al_network := None, al_scheme := None, al_asset := None,
      al_address := None, al_sweep := None, al_failure := None, al_reserved_at := w_now w,
      al_issued_at := None\<rparr>"
  have d2: "d2 = ?d\<lparr>db_allocations := update_where (\<lambda>r. al_id r = pid) ?f (db_allocations ?d)\<rparr>"
    using re by (auto simp: sql_reopen_def put_Inr_iff d1 Let_def)
  have "?f r0 \<in> set (db_allocations d2)" "reserved_for input pid slot (?f r0)"
    using r0 by (auto simp: d2 set_update_where reserved_for_def intro!: bexI [of _ r0])
  moreover have "al_id r \<noteq> pid" if "r \<in> set (db_allocations ?d)" "al_status r = ''issued''" for r
    using db_inv_ids [OF inv that(1) r0(1)] that(2) r0(2,6) by auto
  then have "reserved_frame ?d d2"
    by (force simp: reserved_frame_def d2 issued_rows_def set_update_where)
  ultimately show ?thesis
    using rec w' by blast
qed

lemma Reopen_None:
  "AllocationStore_ReopenFailedReservation env input w = (Inr None, w') \<Longrightarrow> w_db w' = w_db w"
  by (auto simp: AllocationStore_ReopenFailedReservation_def Let_def exec_sql_Inr_iff
      sql_select_failed_def split: if_splits prod.splits sum.splits option.splits)

lemma ReserveFresh_reserved:
  assumes "AllocationStore_ReserveFresh env input w = (Inr rec, w')"
  shows "\<exists>pid slot r. r \<in> set (db_allocations (w_db w')) \<and> reserved_for input pid slot r \<and>
     rec = reserved_record pid (ipr_AddressPolicyID (rin_IssuancePolicy input)) slot
             (rin_ExpectedAmountMinor input) (trim_space (rin_CustomerReference input)) \<and>
     reserved_frame (w_db w) (w_db w')"
proof -
  let ?p = "ipr_AddressPolicyID (rin_IssuancePolicy input)"
  let ?s = "trim_space (ipr_AddressSpaceRef (rin_IssuancePolicy input))"
  let ?n = "next_slot ?p ?s (w_db w)"
  obtain i where rec: "rec = reserved_record i ?p ?n (rin_ExpectedAmountMinor input)
      (trim_space (rin_CustomerReference input))"
    and w': "w_db w' = (w_db w)\<lparr>db_allocations := db_allocations (w_db w) @
             [fresh_row ?p ?s ?n (rin_ExpectedAmountMinor input)
                (nullIfEmpty (trim_space (rin_CustomerReference input))) i (w_now w)],
           db_alloc_seq := Suc (db_alloc_seq (w_db w)),
           db_cursors := advanced_cursors ?p ?s (w_db w)\<rparr>"
    using ReserveFresh_Inr [OF assms] by metis
  let ?r = "fresh_row ?p ?s ?n (rin_ExpectedAmountMinor input)
      (nullIfEmpty (trim_space (rin_CustomerReference input))) i (w_now w)"
  have "reserved_for input i ?n ?r" "?r \<in> set (db_allocations (w_db w'))"
    by (simp_all add: reserved_for_def w')
  moreover have "reserved_frame (w_db w) (w_db w')"
    by (auto simp: reserved_frame_def w' issued_rows_def)
  ultimately show ?thesis
    using rec by blast
qed

lemma reserveAllocation_Inr:
  assumes "reserveAllocation env input attempts w = (Inr a, w')" and "db_inv (w_db w)"
  shows "\<exists>pid pol slot r. r \<in> set (db_allocations (w_db w')) \<and> reserved_for input pid slot r \<and>
     ParseChainID (ipr_AddressPolicyID (rin_IssuancePolicy input)) = Some pol \<and>
     a = reserved_entity pid pol slot (rin_ExpectedAmountMinor input)
           (trim_space (rin_CustomerReference input)) \<and>
     reserved_frame (w_db w) (w_db w')"
  using assms
proof (induction env input attempts w rule: reserveAllocation.induct)
  case (2 env input attempts w)
  show ?case
  proof (cases "AllocationStore_ReopenFailedReservation env input w")
    case (Pair x w1)
    show ?thesis
    proof (cases x)
      case (Inr o')
      show ?thesis
      proof (cases o')
        case None
        then have db: "w_db w1 = w_db w"
          using Pair Inr Reopen_None by metis
        have "reserveAllocation env input attempts w1 = (Inr a, w')"
          using 2(2) Pair Inr None by simp
        from 2(1) [OF Pair [symmetric] Inr None this] show ?thesis
          using 2(3) by (simp add: db)
      next
        case (Some rec)
        with 2(2) Pair Inr Reopen_Some [of env input w rec w1, OF _ 2(3)] show ?thesis
          by (auto simp: reserved_record_entity split: sum.splits)
      qed
    qed (use 2(2) Pair in auto)
  qed
next
  case (3 env input attempts w)
  then show ?case
    using ReserveFresh_reserved [of env input w]
    by (fastforce simp: reserved_record_entity split: prod.splits sum.splits if_splits)
qed auto

text \<open>The row of an allocation that is complete.\<close>

definition issued_row :: "PaymentAddressAllocation \<Rightarrow> string \<Rightarrow> gotime \<Rightarrow> AllocRow \<Rightarrow> AllocRow" where
  "issued_row a sweep at r =
     r\<lparr>al_chain := Some (alc_Chain a), al_network := Some (alc_Network a),
       al_scheme := Some (alc_Scheme a), al_address := Some (trim_space (alc_Address a)),
       al_asset := nullIfEmpty (trim_space (alc_AssetReference a)), al_sweep := Some sweep,
       al_failure := None, al_status := ''issued'', al_issued_at := Some at\<rparr>"

lemma issued_row_simps [simp]:
  "al_id (issued_row a sw at r) = al_id r" "al_policy (issued_row a sw at r) = al_policy r"
  "al_space_ref (issued_row a sw at r) = al_space_ref r" "al_slot (issued_row a sw at r) = al_slot r"
  "al_expected (issued_row a sw at r) = al_expected r" "al_customer (issued_row a sw at r) = al_customer r"
  "al_status (issued_row a sw at r) = ''issued''" "al_chain (issued_row a sw at r) = Some (alc_Chain a)"
  "al_network (issued_row a sw at r) = Some (alc_Network a)"
  "al_scheme (issued_row a sw at r) = Some (alc_Scheme a)"
  "al_address (issued_row a sw at r) = Some (trim_space (alc_Address a))"
  "al_asset (issued_row a sw at r) = nullIfEmpty (trim_space (alc_AssetReference a))"
  "al_failure (issued_row a sw at r) = None" "al_issued_at (issued_row a sw at r) = Some at"
  by (simp_all add: issued_row_def)

lemma AllocationComplete_Inr:
  assumes C: "AllocationStore_Complete env
       \<lparr>cin_Allocation = paymentAddressAllocationRecordFromDomain a, cin_SweepMaterial = sweep,
        cin_IssuedAt = at\<rparr> w = (Inr u, w')"
    and inv: "db_inv (w_db w)" and r: "r \<in> set (db_allocations (w_db w))"
    and id: "al_id r = alc_PaymentAddressID a" and st: "al_status r = ''reserved''"
  shows "issued_rows (w_db w') = insert (issued_row a (trim_space sweep) at r) (issued_rows (w_db w)) \<and>
     db_keys (w_db w') = db_keys (w_db w) \<and> db_trackings (w_db w') = db_trackings (w_db w) \<and>
     db_notifications (w_db w') = db_notifications (w_db w) \<and> at \<noteq> 0 \<and> trim_space sweep \<noteq> []"
proof -
  let ?p = "\<lambda>r. al_id r = alc_PaymentAddressID a \<and> al_status r = ''reserved''"
  let ?f = "issued_row a (trim_space sweep) at"
  have f: "(\<lambda>r. r\<lparr>al_chain := Some (alc_Chain a), al_network := Some (alc_Network a),
       al_scheme := Some (alc_Scheme a), al_address := Some (trim_space (alc_Address a)),
       al_asset := nullIfEmpty (trim_space (alc_AssetReference a)), al_sweep := Some (trim_space sweep),
       al_failure := None, al_status := ''issued'', al_issued_at := Some at\<rparr>) = ?f"
    by (simp add: fun_eq_iff issued_row_def)
  have d': "w_db w' = (w_db w)\<lparr>db_allocations := update_where ?p ?f (db_allocations (w_db w))\<rparr>"
    and g: "at \<noteq> 0" "trim_space sweep \<noteq> []"
    using C by (auto simp: AllocationStore_Complete_def Let_def exec_sql_Inr_iff
        sql_complete_allocation_def put_Inr_iff time_is_zero_def f
        paymentAddressAllocationRecordFromDomain_def
        split: if_splits prod.splits sum.splits)
  have only: "x = r" if "x \<in> set (db_allocations (w_db w))" "?p x" for x
    using db_inv_ids [OF inv that(1) r] that(2) id by simp
  have "issued_rows (w_db w') = insert (?f r) (issued_rows (w_db w))"
  proof (intro set_eqI iffI)
    fix x assume "x \<in> issued_rows (w_db w')"
    then obtain y where "y \<in> set (db_allocations (w_db w))" "x = (if ?p y then ?f y else y)"
      "al_status x = ''issued''"
      by (auto simp: issued_rows_def d' set_update_where)
    then show "x \<in> insert (?f r) (issued_rows (w_db w))"
      using only [of y] by (auto simp: issued_rows_def split: if_splits)
  next
    fix x assume "x \<in> insert (?f r) (issued_rows (w_db w))"
    then show "x \<in> issued_rows (w_db w')"
      using r id st by (force simp: issued_rows_def d' set_update_where)
  qed
  with g show ?thesis by (simp add: d')
qed

lemma TrackingCreate_Inr:
  assumes "TrackingStore_Create env rec at w = (Inr u, w')"
  shows "\<exists>i e. tr_ExpiresAt rec = Some e \<and> at \<noteq> 0 \<and>
     db_trackings (w_db w') = db_trackings (w_db w) @ [track_row_of rec i e at] \<and>
     db_keys (w_db w') = db_keys (w_db w) \<and> db_allocations (w_db w') = db_allocations (w_db w) \<and>
     db_notifications (w_db w') = db_notifications (w_db w)"
  using assms
  by (auto simp: TrackingStore_Create_def exec_sql_Inr_iff sql_insert_tracking_def Let_def put_Inr_iff
      time_is_zero_def split: if_splits prod.splits sum.splits option.splits)

definition completed_keys :: "AllocateInput \<Rightarrow> int64 \<Rightarrow> KeyRow list \<Rightarrow> KeyRow list" where
  "completed_keys input pid ks =
     (if ai_IdempotencyKey input = [] then ks
      else update_where
             (\<lambda>k. key_id k = (ai_Chain input, trim_space (ai_IdempotencyKey input)) \<and>
                  ik_payment_address_id k = None)
             (\<lambda>k. k\<lparr>ik_payment_address_id := Some pid\<rparr>) ks)"

lemma complete_key_Inr:
  assumes "complete_key env input pid w = (Inr u, w')"
  shows "w_db w' = (w_db w)\<lparr>db_keys := completed_keys input pid (db_keys (w_db w))\<rparr>"
proof (cases "ai_IdempotencyKey input = []")
  case True
  with assms show ?thesis by (simp add: complete_key_def completed_keys_def)
next
  case False
  then obtain u' where "IdempotencyStore_Complete env (ai_Chain input) (ai_IdempotencyKey input) pid w = (Inr u', w')"
    using assms by (auto simp: complete_key_def split: prod.splits sum.splits)
  with False show ?thesis
    by (auto simp: completed_keys_def IdempotencyStore_Complete_def Let_def exec_sql_Inr_iff
        sql_complete_key_def put_Inr_iff split: if_splits prod.splits sum.splits)
qed

lemma finish_issuance_Inr:
  assumes F: "finish_issuance env input plan at a sweep w = (Inr b, w')"
    and inv: "db_inv (w_db w)" and r: "r \<in> set (db_allocations (w_db w))"
    and id: "al_id r = alc_PaymentAddressID a" and st: "al_status r = ''reserved''"
  shows "\<exists>trk i e. b = a \<and> at \<noteq> 0 \<and> trim_space sweep \<noteq> [] \<and>
     IssueReceiptTracking a at (terms_RequiredConfirmations (plan_ReceiptTerms plan))
       (terms_ExpiresAt (plan_ReceiptTerms plan)) = Inr trk \<and> trk_ExpiresAt trk = Some e \<and>
     issued_rows (w_db w') = insert (issued_row a (trim_space sweep) at r) (issued_rows (w_db w)) \<and>
     db_trackings (w_db w') = db_trackings (w_db w) @
       [track_row_of (paymentReceiptTrackingRecordFromDomain trk) i e at] \<and>
     db_keys (w_db w') = completed_keys input (alc_PaymentAddressID a) (db_keys (w_db w)) \<and>
     db_notifications (w_db w') = db_notifications (w_db w)"
proof -
  obtain u1 w1 trk u2 w2 u3 where
    c: "AllocationStore_Complete env \<lparr>cin_Allocation = paymentAddressAllocationRecordFromDomain a,
        cin_SweepMaterial = sweep, cin_IssuedAt = at\<rparr> w = (Inr u1, w1)"
    and t: "IssueReceiptTracking a at (terms_RequiredConfirmations (plan_ReceiptTerms plan))
       (terms_ExpiresAt (plan_ReceiptTerms plan)) = Inr trk"
    and cr: "TrackingStore_Create env (paymentReceiptTrackingRecordFromDomain trk) at w1 = (Inr u2, w2)"
    and k: "complete_key env input (alc_PaymentAddressID a) w2 = (Inr u3, w')" and b: "b = a"
    using F unfolding finish_issuance_def bind_Inr_iff check_Inr_iff by blast
  note C = AllocationComplete_Inr [OF c inv r id st]
  obtain i e where "tr_ExpiresAt (paymentReceiptTrackingRecordFromDomain trk) = Some e"
    and T: "db_trackings (w_db w2) = db_trackings (w_db w1) @
        [track_row_of (paymentReceiptTrackingRecordFromDomain trk) i e at]"
      "db_keys (w_db w2) = db_keys (w_db w1)" "db_allocations (w_db w2) = db_allocations (w_db w1)"
      "db_notifications (w_db w2) = db_notifications (w_db w1)"
    using TrackingCreate_Inr [OF cr] by blast
  then have e: "trk_ExpiresAt trk = Some e"
    by (simp add: paymentReceiptTrackingRecordFromDomain_def)
  have "issued_rows (w_db w') = issued_rows (w_db w1)" "db_trackings (w_db w') = db_trackings (w_db w2)"
    "db_keys (w_db w') = completed_keys input (alc_PaymentAddressID a) (db_keys (w_db w1))"
    "db_notifications (w_db w') = db_notifications (w_db w1)"
    using complete_key_Inr [OF k] T by (simp_all add: issued_rows_def completed_keys_def)
  then show ?thesis
    using C t b e T by auto
qed

text \<open>A plan for a request, and the row and the key that stand for an issued allocation.\<close>

definition plan_matches :: "AllocateInput \<Rightarrow> PaymentAddressAllocationIssuancePlan \<Rightarrow> bool" where
  "plan_matches input plan \<longleftrightarrow>
     (let p = rsv_IssuancePolicy (plan_Reservation plan)
      in portable_id (aip_AddressPolicyID p) \<and> aip_Chain p = ai_Chain input \<and>
         ParseSupportedChain (aip_Chain p) = Some (aip_Chain p) \<and> portable_id (aip_Network p) \<and>
         ParseAddressScheme (aip_Scheme p) = Some (aip_Scheme p))"

definition row_of_allocation :: "PaymentAddressAllocation \<Rightarrow> gotime \<Rightarrow> AllocRow \<Rightarrow> bool" where
  "row_of_allocation a at r \<longleftrightarrow>
     al_id r = alc_PaymentAddressID a \<and> al_status r = ''issued'' \<and>
     al_policy r = alc_AddressPolicyID a \<and> word_of_int (al_slot r) = alc_SlotIndex a \<and>
     al_expected r = alc_ExpectedAmountMinor a \<and> al_customer r = nullIfEmpty (alc_CustomerReference a) \<and>
     al_chain r = Some (alc_Chain a) \<and> al_network r = Some (alc_Network a) \<and>
     al_scheme r = Some (alc_Scheme a) \<and> al_address r = Some (alc_Address a) \<and>
     al_asset r = nullIfEmpty (alc_AssetReference a) \<and> al_failure r = None \<and> al_issued_at r = Some at"

definition issued_for ::
  "PaymentAddressAllocationIssuancePlan \<Rightarrow> PaymentAddressAllocation \<Rightarrow> bool" where
  "issued_for plan a \<longleftrightarrow>
     (let rsv = plan_Reservation plan; p = rsv_IssuancePolicy rsv
      in alc_AddressPolicyID a = aip_AddressPolicyID p \<and>
         alc_ExpectedAmountMinor a = rsv_ExpectedAmountMinor rsv \<and>
         alc_CustomerReference a = trim_space (rsv_CustomerReference rsv) \<and>
         alc_Status a = PaymentAddressAllocationStatusIssued \<and>
         alc_Chain a = aip_Chain p \<and> alc_Network a = aip_Network p \<and> alc_Scheme a = aip_Scheme p \<and>
         alc_AssetReference a = trim_space (aip_AssetReference (AddressIssuancePolicy_Normalize p)) \<and>
         alc_Address a \<noteq> [] \<and> trim_space (alc_Address a) = alc_Address a \<and>
         alc_DerivationFailureReason a = [])"

definition completed_key_row ::
  "AllocateInput \<Rightarrow> PaymentAddressAllocationIssuancePlan \<Rightarrow> int64 \<Rightarrow> KeyRow" where
  "completed_key_row input plan pid =
     \<lparr>ik_chain = ai_Chain input, ik_key = trim_space (ai_IdempotencyKey input),
      ik_policy = aip_AddressPolicyID (rsv_IssuancePolicy (plan_Reservation plan)),
      ik_expected = rsv_ExpectedAmountMinor (plan_Reservation plan),
      ik_customer = nullIfEmpty (rsv_CustomerReference (plan_Reservation plan)),
      ik_payment_address_id = Some pid\<rparr>"

declare nullIfEmpty_trim [simp]

lemma claim_key_Inr:
  assumes "claim_key env input rsv w = (Inr u, w')" and "portable_id (aip_AddressPolicyID (rsv_IssuancePolicy rsv))"
  shows "w_db w' = (w_db w)\<lparr>db_keys := db_keys (w_db w) @
      (if ai_IdempotencyKey input = [] then []
       else [\<lparr>ik_chain = ai_Chain input, ik_key = trim_space (ai_IdempotencyKey input),
              ik_policy = aip_AddressPolicyID (rsv_IssuancePolicy rsv),
              ik_expected = rsv_ExpectedAmountMinor rsv,
              ik_customer = nullIfEmpty (rsv_CustomerReference rsv), ik_payment_address_id = None\<rparr>])\<rparr> \<and>
    (ai_IdempotencyKey input \<noteq> [] \<longrightarrow>
       (ai_Chain input, trim_space (ai_IdempotencyKey input)) \<notin> set (map key_id (db_keys (w_db w))))"
proof (cases "ai_IdempotencyKey input = []")
  case True
  with assms show ?thesis by (simp add: claim_key_def)
next
  case False
  with assms obtain rec where "IdempotencyStore_Claim env
      \<lparr>icl_Chain = ai_Chain input, icl_IdempotencyKey = ai_IdempotencyKey input,
       icl_AddressPolicyID = aip_AddressPolicyID (rsv_IssuancePolicy rsv),
       icl_ExpectedAmountMinor = rsv_ExpectedAmountMinor rsv,
       icl_CustomerReference = rsv_CustomerReference rsv\<rparr> w = (Inr rec, w')"
    by (auto simp: claim_key_def split: prod.splits sum.splits if_splits)
  with False assms(2) show ?thesis
    unfolding Claim_Inr_iff by (auto simp: ParseChainID_of_portable key_id_def)
qed

lemma completed_keys_claimed:
  assumes "(ai_Chain input, trim_space (ai_IdempotencyKey input)) \<notin> set (map key_id ks)"
    and "ai_IdempotencyKey input \<noteq> []" and "key_id k = (ai_Chain input, trim_space (ai_IdempotencyKey input))"
    and "ik_payment_address_id k = None"
  shows "completed_keys input pid (ks @ [k]) = ks @ [k\<lparr>ik_payment_address_id := Some pid\<rparr>]"
proof -
  have "map (\<lambda>k. if key_id k = (ai_Chain input, trim_space (ai_IdempotencyKey input)) \<and>
      ik_payment_address_id k = None then k\<lparr>ik_payment_address_id := Some pid\<rparr> else k) ks = ks"
    using assms(1) by (intro map_idI) force
  then show ?thesis
    using assms by (simp add: completed_keys_def update_where_def)
qed

lemma derive_and_issue_Inr:
  assumes D: "derive_and_issue env deriver input plan at a0 w = (Inr a, w')"
  shows "\<exists>derived. MarkIssued a0 (aip_AddressPolicyID (rsv_IssuancePolicy (plan_Reservation plan)))
       (aip_Chain (rsv_IssuancePolicy (plan_Reservation plan)))
       (aip_Network (rsv_IssuancePolicy (plan_Reservation plan)))
       (aip_Scheme (rsv_IssuancePolicy (plan_Reservation plan)))
       (trim_space (aip_AssetReference (AddressIssuancePolicy_Normalize (rsv_IssuancePolicy (plan_Reservation plan)))))
       (do_Address derived) = Inr a \<and>
     iad_DeriveIssuedAddress deriver
       (addressIssuancePolicyRecordFromDomain (rsv_IssuancePolicy (plan_Reservation plan)))
       (paymentAddressAllocationRecordFromDomain a0) = Inr derived \<and>
     finish_issuance env input plan at a (do_SweepMaterial derived) w = (Inr a, w')"
proof -
  have same: "b = c" if "finish_issuance env input plan at c sw w = (Inr b, w')" for b c sw
    using that unfolding finish_issuance_def bind_Inr_iff check_Inr_iff by blast
  show ?thesis
    using D same
    by (auto simp: derive_and_issue_def Let_def split: sum.splits prod.splits)
qed

lemma issue_body_Inr:
  assumes B: "issue_body env scope deriver input plan at w = (Inr a, w')"
    and inv: "db_inv (w_db w)" and plan: "plan_matches input plan"
  shows "\<exists>r trk i e. issued_for plan a \<and> row_of_allocation a at r \<and> r \<in> set (db_allocations (w_db w')) \<and>
     issued_rows (w_db w') = insert r (issued_rows (w_db w)) \<and>
     IssueReceiptTracking a at (terms_RequiredConfirmations (plan_ReceiptTerms plan))
       (terms_ExpiresAt (plan_ReceiptTerms plan)) = Inr trk \<and> trk_ExpiresAt trk = Some e \<and>
     db_trackings (w_db w') = db_trackings (w_db w) @
       [track_row_of (paymentReceiptTrackingRecordFromDomain trk) i e at] \<and>
     db_keys (w_db w') = db_keys (w_db w) @
       (if ai_IdempotencyKey input = [] then []
        else [completed_key_row input plan (alc_PaymentAddressID a)]) \<and>
     db_notifications (w_db w') = db_notifications (w_db w)"
proof -
  let ?rsv = "plan_Reservation plan"
  let ?p = "rsv_IssuancePolicy ?rsv"
  let ?rin = "\<lparr>rin_IssuancePolicy = addressIssuancePolicyRecordFromDomain ?p,
      rin_ExpectedAmountMinor = rsv_ExpectedAmountMinor ?rsv,
      rin_CustomerReference = rsv_CustomerReference ?rsv\<rparr>"
  obtain u w1 a0 w2 where
    k: "claim_key env input ?rsv w = (Inr u, w1)"
    and res: "reserveAllocation env ?rin (plan_ReservationAttempts plan) w1 = (Inr a0, w2)"
    and der: "derive_and_issue env deriver input plan at a0 w2 = (Inr a, w')"
    using B by (auto simp: issue_body_def Let_def split: if_splits prod.splits sum.splits)
  have pol: "portable_id (aip_AddressPolicyID ?p)"
    and sch: "AddressScheme_Normalize (aip_Scheme ?p) = aip_Scheme ?p"
    using plan by (auto simp: plan_matches_def Let_def AddressScheme_Normalize_parsed)
  note K = claim_key_Inr [OF k pol]
  have inv1: "db_inv (w_db w1)"
    using world_relD [OF claim_key_step k] inv by (simp add: db_step_def db_keeps_def)
  have inv2: "db_inv (w_db w2)"
    using ok_relD [OF reserveAllocation_step res] inv1 by (simp add: db_step_def db_keeps_def)
  obtain pid pol' slot r where r: "r \<in> set (db_allocations (w_db w2))" "reserved_for ?rin pid slot r"
    and a0: "a0 = reserved_entity pid pol' slot (rsv_ExpectedAmountMinor ?rsv)
        (trim_space (rsv_CustomerReference ?rsv))"
    and frame: "reserved_frame (w_db w1) (w_db w2)"
    using reserveAllocation_Inr [OF res inv1] by auto
  obtain derived :: DeriveOutput where
    mi: "MarkIssued a0 (aip_AddressPolicyID ?p) (aip_Chain ?p) (aip_Network ?p) (aip_Scheme ?p)
       (trim_space (aip_AssetReference (AddressIssuancePolicy_Normalize ?p))) (do_Address derived) = Inr a"
    and fin: "finish_issuance env input plan at a (do_SweepMaterial derived) w2 = (Inr a, w')"
    using derive_and_issue_Inr [OF der] by blast
  have id: "alc_PaymentAddressID a = pid" and slot: "alc_SlotIndex a = word_of_int slot"
    and isf: "issued_for plan a"
    using mi pol sch
    by (auto simp: MarkIssued_Inr_iff a0 reserved_entity_def issued_for_def Let_def
        AddressPolicyID_Normalize_portable)
  have rid: "al_id r = alc_PaymentAddressID a" and st: "al_status r = ''reserved''"
    using r(2) id by (auto simp: reserved_for_def)
  let ?r = "issued_row a (trim_space (do_SweepMaterial derived)) at r"
  obtain trk i e where F:
    "IssueReceiptTracking a at (terms_RequiredConfirmations (plan_ReceiptTerms plan))
       (terms_ExpiresAt (plan_ReceiptTerms plan)) = Inr trk" "trk_ExpiresAt trk = Some e"
    "issued_rows (w_db w') = insert ?r (issued_rows (w_db w2))"
    "db_trackings (w_db w') = db_trackings (w_db w2) @
       [track_row_of (paymentReceiptTrackingRecordFromDomain trk) i e at]"
    "db_keys (w_db w') = completed_keys input pid (db_keys (w_db w2))"
    "db_notifications (w_db w') = db_notifications (w_db w2)"
    using finish_issuance_Inr [OF fin inv2 r(1) rid st] id by blast
  have row: "row_of_allocation a at ?r"
    using r(2) isf rid slot pol
    by (auto simp: row_of_allocation_def reserved_for_def issued_for_def Let_def
        addressIssuancePolicyRecordFromDomain_def AddressPolicyID_Normalize_portable)
  have keys: "db_keys (w_db w') = db_keys (w_db w) @
       (if ai_IdempotencyKey input = [] then []
        else [completed_key_row input plan (alc_PaymentAddressID a)])"
    using F(5) frame K id
    by (auto simp: reserved_frame_def completed_keys_def [of _ _ "db_keys (w_db w)"] completed_keys_claimed
        key_id_def completed_key_row_def)
  have "?r \<in> set (db_allocations (w_db w'))"
    using F(3) by (auto simp: issued_rows_def)
  moreover have "issued_rows (w_db w') = insert ?r (issued_rows (w_db w))"
    "db_trackings (w_db w2) = db_trackings (w_db w)" "db_notifications (w_db w2) = db_notifications (w_db w)"
    using F(3) frame K by (auto simp: reserved_frame_def issued_rows_def)
  ultimately show ?thesis
    using isf row F keys by metis
qed

end
