(* ===== verification/Issuance_Ledger.thy ===== *)
theory Issuance_Ledger
  imports Allocate_Effects
begin

text \<open>
  The ledger that the allocations, their receipt trackings and the idempotency keys form
  together: an issued allocation always has its tracking, a completed key always names an
  issued allocation of the same request. Each transaction of the program keeps it, whatever
  fails on the way. On top of it, three results on the allocation use case: a key that was
  completed replays the same response for ever, a failed request leaves the tables as they
  were, and a derivation failure is therefore never recorded.
\<close>

section \<open>The ledger\<close>

definition tracking_of_row :: "AllocRow \<Rightarrow> TrackRow \<Rightarrow> bool" where
  "tracking_of_row r t \<longleftrightarrow>
     pt_payment_address_id t = al_id r \<and> pt_policy t = al_policy r \<and>
     al_chain r = Some (pt_chain t) \<and> al_network r = Some (pt_network t) \<and>
     al_address r = Some (pt_address t) \<and> pt_expected t = al_expected r \<and>
     pt_issued_at t = al_issued_at r"

definition key_of_row :: "AllocRow \<Rightarrow> KeyRow \<Rightarrow> bool" where
  "key_of_row r k \<longleftrightarrow>
     ik_payment_address_id k = Some (al_id r) \<and> al_chain r = Some (ik_chain k) \<and>
     al_policy r = ik_policy k \<and> al_expected r = ik_expected k \<and> al_customer r = ik_customer k"

definition issued_entity :: "PaymentAddressAllocation \<Rightarrow> bool" where
  "issued_entity a \<longleftrightarrow>
     allocation_portable a \<and> alc_Status a = PaymentAddressAllocationStatusIssued \<and>
     alc_Chain a \<noteq> [] \<and> alc_Network a \<noteq> [] \<and> alc_Scheme a \<noteq> [] \<and>
     trim_space (alc_Address a) = alc_Address a \<and>
     trim_space (alc_AssetReference a) = alc_AssetReference a \<and>
     trim_space (alc_CustomerReference a) = alc_CustomerReference a \<and>
     alc_DerivationFailureReason a = []"

definition readable_row :: "AllocRow \<Rightarrow> bool" where
  "readable_row r \<longleftrightarrow> (\<exists>a at. issued_entity a \<and> row_of_allocation a at r)"

definition ledger_ok :: "DB \<Rightarrow> bool" where
  "ledger_ok d \<longleftrightarrow>
     (\<forall>r \<in> issued_rows d. readable_row r \<and> (\<exists>t \<in> set (db_trackings d). tracking_of_row r t)) \<and>
     (\<forall>t \<in> set (db_trackings d). \<exists>r \<in> issued_rows d. tracking_of_row r t) \<and>
     (\<forall>k \<in> set (db_keys d). ik_payment_address_id k \<noteq> None \<longrightarrow> (\<exists>r \<in> issued_rows d. key_of_row r k))"

definition ledger_step :: "DB \<Rightarrow> DB \<Rightarrow> bool" where
  "ledger_step d d' \<longleftrightarrow> db_step d d' \<and> (db_inv d \<and> ledger_ok d \<longrightarrow> ledger_ok d')"

interpretation ledger: db_guarantee ledger_step
proof
  show "ledger_step d d" for d
    by (simp add: ledger_step_def steps.refl)
  show "ledger_step d d' \<Longrightarrow> ledger_step d' d'' \<Longrightarrow> ledger_step d d''" for d d' d''
    unfolding ledger_step_def using steps.trans by (metis db_step_def db_keeps_def)
  show "seqs_le d d' \<Longrightarrow> ledger_step d (keep_sequences d d')" for d d'
    using steps.lost [of d d'] by (simp add: ledger_step_def ledger_ok_def issued_rows_def)
qed

lemma ledger_ok_empty: "ledger_ok empty_db"
  by (simp add: ledger_ok_def empty_db_def issued_rows_def)

section \<open>The plan of a request\<close>

lemma Plan_policy:
  assumes "addressIssuancePolicyFromRecord rec = Inr policy"
    and "Plan ipol policy chain amt cust at = Inr plan"
  shows "rsv_IssuancePolicy (plan_Reservation plan) = AddressIssuancePolicy_Normalize policy \<and>
     aip_AddressPolicyID (AddressIssuancePolicy_Normalize policy) = aip_AddressPolicyID policy \<and>
     aip_Chain policy = chain \<and> aip_Chain (AddressIssuancePolicy_Normalize policy) = chain \<and>
     aip_Network (AddressIssuancePolicy_Normalize policy) = aip_Network policy \<and>
     aip_Scheme (AddressIssuancePolicy_Normalize policy) = aip_Scheme policy \<and>
     portable_id (aip_AddressPolicyID policy) \<and> ParseSupportedChain chain = Some chain \<and>
     portable_id (aip_Network policy) \<and> ParseAddressScheme (aip_Scheme policy) = Some (aip_Scheme policy) \<and>
     rsv_ExpectedAmountMinor (plan_Reservation plan) = amt \<and> 0 < sint amt \<and>
     rsv_CustomerReference (plan_Reservation plan) = trim_space cust \<and> at \<noteq> 0"
  using assms(2) policy_from_record_fields [OF assms(1)]
  by (auto simp: Plan_Inr_iff ValidateForAllocationIssuance_Inr_iff AddressPolicyID_Normalize_portable
      ParseChainID_of_portable AddressScheme_Normalize_parsed)

lemma Plan_matches:
  assumes "addressIssuancePolicyFromRecord rec = Inr policy"
    and "Plan ipol policy (ai_Chain input) amt cust at = Inr plan"
  shows "plan_matches input plan"
  using Plan_policy [OF assms] by (auto simp: plan_matches_def Let_def)

lemma portable_id_not_Nil: "portable_id v \<Longrightarrow> v \<noteq> []"
  by (auto simp: portable_id_def)

lemma ParseSupportedChain_Nil [simp]: "ParseSupportedChain [] = None"
  by (simp add: ParseSupportedChain_def)

lemma issued_for_entity:
  assumes "issued_for plan a" and "plan_matches input plan"
  shows "issued_entity a"
proof -
  have "aip_Scheme (rsv_IssuancePolicy (plan_Reservation plan)) \<noteq> []"
    using assms(2) by (auto simp: plan_matches_def Let_def ParseAddressScheme_def addressSchemes_def)
  then show ?thesis
    using assms
    by (auto simp: issued_for_def plan_matches_def Let_def issued_entity_def allocation_portable_def
        ParseSupportedChain_portable dest: portable_id_not_Nil)
qed

lemma IssueReceiptTracking_row:
  assumes t: "IssueReceiptTracking a at conf exp = Inr trk" and a: "issued_entity a"
    and r: "row_of_allocation a at r"
  shows "tracking_of_row r (track_row_of (paymentReceiptTrackingRecordFromDomain trk) i e n)"
proof -
  have p: "portable_id (alc_Chain a)" "portable_id (alc_Network a)" "portable_id (alc_AddressPolicyID a)"
    using a by (auto simp: issued_entity_def allocation_portable_def dest: ParseSupportedChain_portable)
  show ?thesis
    using t r p a
    by (auto simp: IssueReceiptTracking_Inr_iff NewPaymentReceiptTracking_Inr_iff ParseChainID_of_portable
        AddressPolicyID_Normalize_portable tracking_of_row_def track_row_of_def issued_entity_def
        paymentReceiptTrackingRecordFromDomain_def row_of_allocation_def)
qed

lemma completed_key_of_row:
  assumes "issued_for plan a" and "row_of_allocation a at r" and "plan_matches input plan"
  shows "key_of_row r (completed_key_row input plan (alc_PaymentAddressID a))"
  using assms
  by (auto simp: key_of_row_def completed_key_row_def row_of_allocation_def issued_for_def
      plan_matches_def Let_def)

lemma issue_body_ledger:
  assumes plan: "plan_matches input plan"
  shows "ok_rel ledger_step (issue_body env scope deriver input plan at)"
proof (rule ok_relI)
  fix w a w'
  assume B: "issue_body env scope deriver input plan at w = (Inr a, w')"
  have "ledger_ok (w_db w')" if inv: "db_inv (w_db w)" and ok: "ledger_ok (w_db w)"
  proof -
    obtain r trk i e where E: "issued_for plan a" "row_of_allocation a at r"
      "issued_rows (w_db w') = insert r (issued_rows (w_db w))"
      "IssueReceiptTracking a at (terms_RequiredConfirmations (plan_ReceiptTerms plan))
         (terms_ExpiresAt (plan_ReceiptTerms plan)) = Inr trk"
      "db_trackings (w_db w') = db_trackings (w_db w) @
         [track_row_of (paymentReceiptTrackingRecordFromDomain trk) i e at]"
      "db_keys (w_db w') = db_keys (w_db w) @
         (if ai_IdempotencyKey input = [] then []
          else [completed_key_row input plan (alc_PaymentAddressID a)])"
      using issue_body_Inr [OF B inv plan] by blast
    note ent = issued_for_entity [OF E(1) plan]
    note t = IssueReceiptTracking_row [OF E(4) ent E(2)]
    note k = completed_key_of_row [OF E(1,2) plan]
    have "readable_row r"
      using ent E(2) by (auto simp: readable_row_def)
    then show ?thesis
      using ok t k unfolding ledger_ok_def E(3,5,6) by auto
  qed
  then show "ledger_step (w_db w) (w_db w')"
    using ok_relD [OF issue_body_step B] by (simp add: ledger_step_def)
qed

interpretation allocation_ledger: allocation_guarantee ledger_step plan_matches
  by unfold_locales (auto intro: issue_body_ledger Plan_matches)

end
