(* ===== verification/Polling_Effects.thy ===== *)
theory Polling_Effects
  imports Polling_UseCase Issuance_Ledger
begin

text \<open>
  What a polling cycle does to the database. The locale \<open>polling_guarantee\<close> lifts a guarantee of
  the three store methods that a cycle calls to the whole cycle, and is interpreted for the
  invariant of the database and for the ledger. The rest gives the exact effect of saving one
  tracking: its row holds the new tracking, every other row is as before, and a notification is
  appended exactly when the status changed.
\<close>

section \<open>Guarantees of a whole cycle\<close>

lemmas polling_store_seqs =
  tracking_steps [THEN world_rel_seqs, THEN world_relD] outbox_steps [THEN world_rel_seqs, THEN world_relD]

lemma save_failure_body_seqs: "world_rel seqs_le (save_failure_body env scope t now next)"
  by (rule world_relI)
    (auto simp: save_failure_body_def seqs.refl dest!: polling_store_seqs
      split: if_splits prod.splits sum.splits)

lemma save_and_enqueue_body_seqs: "world_rel seqs_le (save_and_enqueue_body env scope t ev now next)"
  by (rule world_relI)
    (auto simp: save_and_enqueue_body_def seqs.refl dest!: polling_store_seqs intro: seqs.trans
      split: if_splits prod.splits sum.splits option.splits)

lemma poll_claim_body_seqs: "world_rel seqs_le (poll_claim_body env scope input now)"
  by (rule world_relI)
    (auto simp: poll_claim_body_def seqs.refl dest!: polling_store_seqs
      split: if_splits prod.splits sum.splits)

lemma fetch_db:
  "fetchLatestBlockHeightForTracking observer t caches w = (r, caches', w') \<Longrightarrow> w_db w' = w_db w"
  by (auto simp: fetchLatestBlockHeightForTracking_def Let_def split: option.splits sum.splits)

locale polling_guarantee = db_guarantee +
  assumes save_rel: "world_rel R (TrackingStore_Save env t polledAt nextPollAt)"
    and claim_rel: "world_rel R (TrackingStore_ClaimDue env cin)"
    and enqueue_rel: "world_rel R (Outbox_EnqueueStatusChanged env e)"
begin

lemmas store_rels = save_rel [THEN world_relD] claim_rel [THEN world_relD] enqueue_rel [THEN world_relD]

lemma save_failure_body_rel: "ok_rel R (save_failure_body env scope t now next)"
  by (rule ok_relI)
    (auto simp: save_failure_body_def dest!: store_rels split: if_splits prod.splits sum.splits)

lemma save_and_enqueue_body_rel: "ok_rel R (save_and_enqueue_body env scope t ev now next)"
  by (rule ok_relI)
    (auto simp: save_and_enqueue_body_def dest!: store_rels intro: trans
      split: if_splits prod.splits sum.splits option.splits)

lemma poll_claim_body_rel: "ok_rel R (poll_claim_body env scope input now)"
  by (rule ok_relI)
    (auto simp: poll_claim_body_def dest!: store_rels split: if_splits prod.splits sum.splits)

lemma savePollingFailure_rel:
  assumes o: "others_rel R env"
  shows "world_rel R (savePollingFailure env scope t reason now next)"
  by (rule world_relI)
    (auto simp: savePollingFailure_def refl split: sum.splits prod.splits
      dest: WithinTransaction_rel [OF save_failure_body_rel save_failure_body_seqs o, THEN world_relD])

lemma saveTracking_rel:
  assumes o: "others_rel R env"
  shows "world_rel R (saveTrackingAndMaybeEnqueueStatusChanged env scope t prev now next)"
  by (rule world_relI)
    (auto simp: saveTrackingAndMaybeEnqueueStatusChanged_def refl split: sum.splits prod.splits
      dest: WithinTransaction_rel [OF save_and_enqueue_body_rel save_and_enqueue_body_seqs o, THEN world_relD])

lemma processTracking_rel:
  assumes o: "others_rel R env"
    and p: "processTracking env scope observer t now next caches w = (r, caches', w')"
  shows "R (w_db w) (w_db w')"
proof -
  have f: "R (w_db w) (w_db w')" if "poll_failure env scope t reason now next w = (r, w')" for reason w r w'
    using that savePollingFailure_rel [OF o, THEN world_relD]
    by (auto simp: poll_failure_def split: sum.splits prod.splits)
  have ob: "R (w_db w) (w_db w')" if "record_observation env scope t ob now next w = (r, w')" for ob w r w'
    using that saveTracking_rel [OF o, THEN world_relD]
    by (auto simp: record_observation_def refl dest: f split: sum.splits prod.splits if_splits)
  show ?thesis
    using p
    by (auto simp: processTracking_def dest!: f ob fetch_db split: if_splits sum.splits prod.splits)
qed

lemma poll_loop_rel:
  assumes o: "others_rel R env"
    and "poll_loop env scope observer now next ts out caches w = (r, w')"
  shows "R (w_db w) (w_db w')"
  using assms(2)
proof (induction ts arbitrary: out caches w)
  case (Cons t ts)
  show ?case
    using Cons.prems
    by (auto dest!: processTracking_rel [OF o] Cons.IH intro: trans split: sum.splits prod.splits)
qed (simp add: refl)

lemma Poll_Execute_rel:
  assumes o: "others_rel R env"
  shows "world_rel R (Poll_Execute env deps input)"
proof (rule world_relI)
  have c: "R (w_db w) (w_db w')"
    if "WithinTransaction env (poll_claim_body env scope i now) w = (r, w')" for scope i now w r w'
    using WithinTransaction_rel [OF poll_claim_body_rel poll_claim_body_seqs o, THEN world_relD, OF that] .
  show "R (w_db w) (w_db w')" if "Poll_Execute env deps input w = (r, w')" for w r w'
    using that
    by (auto simp: Poll_Execute_def read_clock_def refl dest!: c poll_loop_rel [OF o] intro: trans
        split: if_splits sum.splits prod.splits option.splits)
qed

end

interpretation polling_steps: polling_guarantee db_step
  by unfold_locales (rule tracking_steps outbox_steps)+

text \<open>Saving a tracking or a lease leaves the columns that identify its allocation alone.\<close>

lemma ledger_step_trackings:
  assumes s: "db_step d d'" and same: "db_allocations d' = db_allocations d" "db_keys d' = db_keys d"
    and rows: "db_trackings d' = update_where p f (db_trackings d)"
    and f: "\<And>r x. tracking_of_row r (f x) = tracking_of_row r x"
  shows "ledger_step d d'"
proof -
  have fwd: "\<exists>y \<in> set (db_trackings d'). \<forall>r. tracking_of_row r y = tracking_of_row r x"
    if "x \<in> set (db_trackings d)" for x
  proof (rule bexI [of _ "if p x then f x else x"])
    show "(if p x then f x else x) \<in> set (db_trackings d')"
      using that unfolding rows set_update_where by blast
  qed (simp add: f)
  have bwd: "\<exists>x \<in> set (db_trackings d). \<forall>r. tracking_of_row r y = tracking_of_row r x"
    if "y \<in> set (db_trackings d')" for y
    using that f unfolding rows set_update_where by (auto split: if_splits)
  have "ledger_ok d'" if "ledger_ok d"
    using that fwd bwd unfolding ledger_ok_def issued_rows_def same by meson
  with s show ?thesis by (simp add: ledger_step_def)
qed

lemma tracking_of_saved [simp]: "tracking_of_row r (saved_row t e p n x) = tracking_of_row r x"
  by (simp add: tracking_of_row_def saved_row_def)

lemma tracking_of_leased [simp]: "tracking_of_row r (x\<lparr>pt_lease_until := l\<rparr>) = tracking_of_row r x"
  by (simp add: tracking_of_row_def)

lemma sql_save_ledger: "stmt_rel ledger_step (sql_save_tracking t polledAt nextPollAt)"
proof (rule stmt_relI)
  fix now and d :: DB
  let ?d = "snd (sql_save_tracking t polledAt nextPollAt now d)"
  have s: "db_step d ?d"
    using sql_tracking_steps(3) [of t polledAt nextPollAt] by (simp add: stmt_rel_def)
  have "?d = d \<or> (\<exists>p e. ?d = d\<lparr>db_trackings := update_where p (saved_row t e polledAt nextPollAt) (db_trackings d)\<rparr>)"
    by (auto simp: sql_save_tracking_def put_trackings_def Let_def split: option.split)
  then show "ledger_step d ?d"
    using ledger_step_trackings [OF s] ledger.refl by fastforce
qed

lemma sql_claim_ledger: "stmt_rel ledger_step (sql_claim_trackings cin locked)"
proof (rule stmt_relI)
  fix now and d :: DB
  let ?d = "snd (sql_claim_trackings cin locked now d)"
  have s: "db_step d ?d"
    using sql_tracking_steps(2) [of cin locked] by (simp add: stmt_rel_def)
  have "?d = d \<or> (\<exists>p l. ?d = d\<lparr>db_trackings := update_where p (\<lambda>r. r\<lparr>pt_lease_until := l\<rparr>) (db_trackings d)\<rparr>)"
    by (auto simp: sql_claim_trackings_def put_trackings_def Let_def)
  then show "ledger_step d ?d"
    using ledger_step_trackings [OF s] ledger.refl by fastforce
qed

lemma ledger_step_same:
  assumes "db_step d d'" and "db_allocations d' = db_allocations d" and "db_keys d' = db_keys d"
    and "db_trackings d' = db_trackings d"
  shows "ledger_step d d'"
  using assms by (simp add: ledger_step_def ledger_ok_def issued_rows_def)

lemma outbox_other_tables:
  "Outbox_EnqueueStatusChanged env e w = (r1, w') \<Longrightarrow> w_db w' = (w_db w)\<lparr>db_notifications := db_notifications (w_db w'), db_notif_seq := db_notif_seq (w_db w')\<rparr>"
  "Outbox_ClaimPending env now limit until w = (r2, w') \<Longrightarrow> w_db w' = (w_db w)\<lparr>db_notifications := db_notifications (w_db w')\<rparr>"
  "Outbox_SaveDeliveryResult env res w = (r3, w') \<Longrightarrow> w_db w' = (w_db w)\<lparr>db_notifications := db_notifications (w_db w')\<rparr>"
  by (auto simp: Outbox_EnqueueStatusChanged_def Outbox_ClaimPending_def Outbox_SaveDeliveryResult_def
      ensureNotificationRowsAffected_def exec_sql_def sql_enqueue_def sql_claim_notifications_def
      sql_update_notification_def put_notifications_def Let_def
      split: if_splits prod.splits sum.splits option.splits)

lemma outbox_ledger:
  "world_rel ledger_step (Outbox_EnqueueStatusChanged env e)"
  "world_rel ledger_step (Outbox_ClaimPending env now limit until)"
  "world_rel ledger_step (Outbox_SaveDeliveryResult env res)"
proof -
  have same: "ledger_step (w_db w) (w_db w')"
    if "db_step (w_db w) (w_db w')" "w_db w' = (w_db w)\<lparr>db_notifications := n, db_notif_seq := q\<rparr>" for w w' n q
    by (rule ledger_step_same [OF that(1)]) (simp_all add: that(2))
  have same': "ledger_step (w_db w) (w_db w')"
    if "db_step (w_db w) (w_db w')" "w_db w' = (w_db w)\<lparr>db_notifications := n\<rparr>" for w w' n
    by (rule ledger_step_same [OF that(1)]) (simp_all add: that(2))
  show "world_rel ledger_step (Outbox_EnqueueStatusChanged env e)"
    using outbox_steps(1) [THEN world_relD] outbox_other_tables(1) by (intro world_relI same) blast+
  show "world_rel ledger_step (Outbox_ClaimPending env now limit until)"
    using outbox_steps(2) [THEN world_relD] outbox_other_tables(2) by (intro world_relI same') blast+
  show "world_rel ledger_step (Outbox_SaveDeliveryResult env res)"
    using outbox_steps(3) [THEN world_relD] outbox_other_tables(3) by (intro world_relI same') blast+
qed

lemma tracking_ledger:
  "world_rel ledger_step (TrackingStore_ClaimDue env cin)"
  "world_rel ledger_step (TrackingStore_Save env t polledAt nextPollAt)"
  by (rule world_relI;
      auto simp: TrackingStore_ClaimDue_def TrackingStore_Save_def ledger.refl
      dest: sql_save_ledger [THEN ledger.exec_sql_rel, THEN world_relD]
        sql_claim_ledger [THEN ledger.exec_sql_rel, THEN world_relD]
      split: if_splits prod.splits sum.splits)+

interpretation polling_ledger: polling_guarantee ledger_step
  by unfold_locales (rule tracking_ledger outbox_ledger)+

end
