(* ===== verification/Allocate_Failures.thy ===== *)
theory Allocate_Failures
  imports Issuance_Ledger
begin

text \<open>
  What a failed allocation leaves behind. Every error leaves the transaction body as an error,
  so the unit of work rolls it back and the tables are as before: only sequence numbers are
  lost. That includes the error of a failed derivation, for which the body first marks the
  reservation \<open>derivation_failed\<close> and releases the key: that mark never reaches the
  database, and no row is ever found for the attempt to reopen a failed reservation.
\<close>

section \<open>Failed requests change no row\<close>

definition only_seqs :: "DB \<Rightarrow> DB \<Rightarrow> bool" where
  "only_seqs d d' \<longleftrightarrow> d' = keep_sequences d d'"

lemma only_seqs_iff:
  "only_seqs d d' \<longleftrightarrow>
     db_allocations d' = db_allocations d \<and> db_cursors d' = db_cursors d \<and>
     db_trackings d' = db_trackings d \<and> db_notifications d' = db_notifications d \<and>
     db_keys d' = db_keys d"
  by (cases d; cases d') (simp add: only_seqs_def keep_sequences_def)

interpretation unchanged: db_guarantee only_seqs
  by unfold_locales (simp_all add: only_seqs_iff)

text \<open>
  An environment in which this process works alone and every commit answers: what it reports
  as aborted did not happen.
\<close>

definition private_env :: "Env \<Rightarrow> bool" where
  "private_env env \<longleftrightarrow>
     (\<forall>n d. env_others env n d = d) \<and> (\<forall>n. env_commit env n \<noteq> CommittedUnacknowledged)"

lemma private_others: "private_env env \<Longrightarrow> others_rel only_seqs env"
  by (simp add: private_env_def others_rel_def unchanged.refl)

lemma WithinTransaction_Inl:
  assumes "WithinTransaction env fn w = (Inl e, w')" and "private_env env"
  shows "only_seqs (w_db w) (w_db w')"
  using assms
  by (auto simp: WithinTransaction_def Let_def private_env_def begin_tx_def only_seqs_iff
      split: if_splits prod.splits sum.splits commit_outcome.splits)

lemmas loadReplayed_unchanged = unchanged.loadReplayed_rel [OF private_others]

lemma issueAllocation_Inl:
  assumes "issueAllocation env scope deriver input plan at w = (Inl e, w')" and "private_env env"
  shows "only_seqs (w_db w) (w_db w')"
  using assms by (auto simp: issueAllocation_def dest: WithinTransaction_Inl split: prod.splits sum.splits)

lemma issueAllocation_positive:
  assumes I: "issueAllocation env scope deriver input plan at w = (Inr a, w')"
    and o: "others_rel db_step env" and inv: "db_inv (w_db w)" and pm: "plan_matches input plan"
  shows "0 < sint (alc_PaymentAddressID a)"
proof -
  obtain w1 where "WithinTransaction env (issue_body env scope deriver input plan at) w = (Inr a, w1)"
    using I by (auto simp: issueAllocation_def split: prod.splits sum.splits)
  then obtain w2 where B: "issue_body env scope deriver input plan at (begin_tx env w) = (Inr a, w2)"
    by (auto simp: WithinTransaction_def Let_def split: if_splits prod.splits sum.splits commit_outcome.splits)
  have inv1: "db_inv (w_db (begin_tx env w))"
    using o inv by (simp add: begin_tx_def others_rel_def db_step_def db_keeps_def)
  then have "db_inv (w_db w2)"
    using ok_relD [OF issue_body_step B] by (simp add: db_step_def db_keeps_def)
  then show ?thesis
    using issue_body_Inr [OF B inv1 pm]
    by (auto simp: row_of_allocation_def db_inv_def serials_ok_def)
qed

lemma private_steps: "private_env env \<Longrightarrow> others_rel db_step env"
  by (simp add: private_env_def others_rel_def steps.refl)

lemma allocate_issued_Inl:
  assumes A: "allocate_issued env scope deriver reader input pid policy plan at w = (Inl e, w')"
    and p: "private_env env" and inv: "db_inv (w_db w)" and pm: "plan_matches input plan"
  shows "only_seqs (w_db w) (w_db w')"
proof (cases "issueAllocation env scope deriver input plan at w")
  case (Pair x w1)
  show ?thesis
  proof (cases x)
    case (Inl err)
    have 1: "only_seqs (w_db w) (w_db w1)"
      using issueAllocation_Inl [of env scope deriver input plan at w err w1] Pair Inl p by simp
    show ?thesis
      using A Pair Inl 1 loadReplayed_unchanged [OF p, THEN world_relD, of scope reader input pid w1]
      by (auto simp: allocate_issued_def intro: unchanged.trans
          split: if_splits prod.splits sum.splits option.splits)
  next
    case (Inr a)
    then show ?thesis
      using issueAllocation_positive [of env scope deriver input plan at w a w1, OF _ private_steps [OF p] inv pm]
        A Pair by (auto simp: allocate_issued_def split: if_splits)
  qed
qed

lemma allocate_fresh_Inl:
  assumes A: "allocate_fresh env scope deriver reader ipol input chain pid w = (Inl e, w')"
    and p: "private_env env" and inv: "db_inv (w_db w)" and chain: "ai_Chain input = chain"
  shows "only_seqs (w_db w) (w_db w')"
proof -
  have i: "only_seqs (w_db w) (w_db w')"
    if "allocate_issued env scope deriver reader input pid policy plan at (tick w) = (Inl e, w')"
      and "plan_matches input plan" for policy plan at
    using allocate_issued_Inl [OF that(1) p _ that(2)] inv by simp
  show ?thesis
    using A chain
    by (auto simp: allocate_fresh_def read_clock_def unchanged.refl intro: i Plan_matches
        split: if_splits prod.splits sum.splits option.splits)
qed

lemma Allocate_Execute_Inl:
  assumes A: "Allocate_Execute env deps input w = (Inl e, w')"
    and p: "private_env env" and inv: "db_inv (w_db w)"
  shows "only_seqs (w_db w) (w_db w')"
proof -
  note L = loadReplayed_unchanged [OF p, THEN world_relD]
  have inv1: "db_inv (w_db w1)"
    if "loadReplayedAllocationResponse env scope reader input pid w = (r, w1)"
    for scope reader input pid r w1
    using world_relD [OF loadReplayed_step [OF private_steps [OF p]] that] inv
    by (simp add: db_step_def db_keeps_def)
  have f: "only_seqs (w_db w) (w_db w')"
    if "loadReplayedAllocationResponse env scope reader (input\<lparr>ai_Chain := chain\<rparr>) pid w = (r, w1)"
      and "allocate_fresh env scope deriver reader ipol (input\<lparr>ai_Chain := chain\<rparr>) chain pid w1 = (Inl e, w')"
    for scope reader deriver chain pid r w1 ipol
    using unchanged.trans [OF L [OF that(1)] allocate_fresh_Inl [OF that(2) p inv1 [OF that(1)]]] by simp
  show ?thesis
    using A
    by (auto simp: Allocate_Execute_def Let_def unchanged.refl dest: L intro: f
        split: if_splits prod.splits sum.splits option.splits)
qed

section \<open>No reservation is ever recorded as failed\<close>

definition no_failed :: "DB \<Rightarrow> bool" where
  "no_failed d \<longleftrightarrow> (\<forall>r \<in> set (db_allocations d). al_status r \<noteq> ''derivation_failed'')"

definition no_failed_step :: "DB \<Rightarrow> DB \<Rightarrow> bool" where
  "no_failed_step d d' \<longleftrightarrow> (no_failed d \<longrightarrow> no_failed d')"

interpretation unfailed: db_guarantee no_failed_step
  by unfold_locales (auto simp: no_failed_step_def no_failed_def)

lemma put_allocations_no_failed:
  assumes "\<And>r. p r \<Longrightarrow> al_status (f r) \<noteq> ''derivation_failed''"
  shows "no_failed_step d (snd (put_allocations (update_where p f (db_allocations d)) n d))"
proof -
  have "\<forall>r \<in> set (update_where p f (db_allocations d)). al_status r \<noteq> ''derivation_failed''"
    if "no_failed d"
  proof
    fix r assume "r \<in> set (update_where p f (db_allocations d))"
    then obtain x where "x \<in> set (db_allocations d)" and "r = (if p x then f x else x)"
      unfolding set_update_where by blast
    then show "al_status r \<noteq> ''derivation_failed''"
      using assms [of x] that by (cases "p x") (simp_all add: no_failed_def)
  qed
  then show ?thesis
    by (simp add: put_allocations_def no_failed_step_def no_failed_def)
qed

lemma same_allocations_no_failed: "db_allocations d' = db_allocations d \<Longrightarrow> no_failed_step d d'"
  by (simp add: no_failed_step_def no_failed_def)

lemma allocation_stmts_no_failed:
  "stmt_rel no_failed_step (sql_complete_allocation a asset sweep at)"
  "stmt_rel no_failed_step (sql_reopen pid e c)"
  "stmt_rel no_failed_step (sql_ensure_cursor policy space)"
  "stmt_rel no_failed_step (sql_advance_cursor policy space)"
  "stmt_rel no_failed_step (sql_select_cursor policy space)"
  "stmt_rel no_failed_step (sql_select_failed locked policy space)"
proof -
  show "stmt_rel no_failed_step (sql_complete_allocation a asset sweep at)"
    by (rule stmt_relI, unfold sql_complete_allocation_def Let_def, rule put_allocations_no_failed) simp
  show "stmt_rel no_failed_step (sql_reopen pid e c)"
    by (rule stmt_relI, unfold sql_reopen_def Let_def, rule put_allocations_no_failed) simp
qed (rule stmt_relI, rule same_allocations_no_failed, simp add: sql_ensure_cursor_def
    sql_advance_cursor_def put_cursors_def sql_select_cursor_def sql_select_failed_def)+

lemma insert_no_failed: "stmt_rel no_failed_step (sql_insert_allocation policy space slot e c)"
  by (rule stmt_relI) (auto simp: sql_insert_allocation_def put_allocations_def no_failed_step_def
      no_failed_def split: option.split)

lemmas alloc_exec_no_failed =
  allocation_stmts_no_failed [THEN unfailed.exec_sql_rel, THEN world_relD]
  insert_no_failed [THEN unfailed.exec_sql_rel, THEN world_relD]

lemma Idempotency_allocations:
  "IdempotencyStore_Claim env ci w = (r, w') \<Longrightarrow> db_allocations (w_db w') = db_allocations (w_db w)"
  "IdempotencyStore_Complete env chain key pid w = (r2, w') \<Longrightarrow> db_allocations (w_db w') = db_allocations (w_db w)"
  by (auto simp: IdempotencyStore_Claim_def IdempotencyStore_Complete_def Let_def exec_sql_def
      sql_insert_key_def sql_complete_key_def put_keys_def
      split: if_splits prod.splits sum.splits option.splits)

lemma Tracking_allocations:
  "TrackingStore_Create env rec at w = (r, w') \<Longrightarrow> db_allocations (w_db w') = db_allocations (w_db w)"
  by (auto simp: TrackingStore_Create_def Let_def exec_sql_def sql_insert_tracking_def put_trackings_def
      split: if_splits prod.splits sum.splits option.splits)

lemma AllocationStore_no_failed:
  "AllocationStore_Complete env input w = (r1, w') \<Longrightarrow> no_failed_step (w_db w) (w_db w')"
  "AllocationStore_ReopenFailedReservation env rin w = (r2, w') \<Longrightarrow> no_failed_step (w_db w) (w_db w')"
  "AllocationStore_ReserveFresh env rin w = (r3, w') \<Longrightarrow> no_failed_step (w_db w) (w_db w')"
  by (auto simp: AllocationStore_Complete_def AllocationStore_ReopenFailedReservation_def
      AllocationStore_ReserveFresh_def Let_def unfailed.refl
      dest!: alloc_exec_no_failed intro: unfailed.trans
      split: if_splits prod.splits sum.splits option.splits)

lemma reserveAllocation_no_failed:
  "reserveAllocation env input attempts w = (r, w') \<Longrightarrow> no_failed_step (w_db w) (w_db w')"
  by (induction env input attempts w rule: reserveAllocation.induct)
    (auto simp: unfailed.refl dest!: AllocationStore_no_failed intro: unfailed.trans
      split: prod.splits sum.splits option.splits if_splits)

lemma issue_body_no_failed: "ok_rel no_failed_step (issue_body env scope deriver input plan at)"
proof (rule ok_relI)
  have c: "no_failed_step (w_db w) (w_db w')" if "claim_key env input rsv w = (r, w')" for rsv r w w'
    using that by (auto simp: claim_key_def unfailed.refl same_allocations_no_failed
        dest: Idempotency_allocations split: if_splits prod.splits sum.splits)
  have k: "no_failed_step (w_db w) (w_db w')" if "complete_key env input pid w = (r, w')" for pid r w w'
    using that by (auto simp: complete_key_def unfailed.refl same_allocations_no_failed
        dest: Idempotency_allocations split: if_splits prod.splits sum.splits)
  have t: "no_failed_step (w_db w) (w_db w')" if "TrackingStore_Create env rec at w = (r, w')" for rec r w w'
    using Tracking_allocations [OF that] by (simp add: same_allocations_no_failed)
  have f: "no_failed_step (w_db w) (w_db w')"
    if "finish_issuance env input plan at a sweep w = (r, w')" for a sweep r w w'
    using that by (auto simp: finish_issuance_def dest!: AllocationStore_no_failed(1) t k
        intro: unfailed.trans split: prod.splits sum.splits)
  have d: "no_failed_step (w_db w) (w_db w')"
    if "derive_and_issue env deriver input plan at a0 w = (Inr a, w')" for a0 a w w'
    using derive_and_issue_Inr [OF that] f by blast
  show "no_failed_step (w_db w) (w_db w')"
    if "issue_body env scope deriver input plan at w = (Inr a, w')" for w a w'
    using that by (auto simp: issue_body_def Let_def dest!: c reserveAllocation_no_failed d
        intro: unfailed.trans split: if_splits prod.splits sum.splits)
qed

interpretation allocation_unfailed: allocation_guarantee no_failed_step "\<lambda>_ _. True"
  by unfold_locales (simp_all add: issue_body_no_failed)

text \<open>So the attempt to reopen a failed reservation never finds one.\<close>

lemma Reopen_finds_nothing:
  assumes "no_failed (w_db w)" and "\<not> env_fault env (w_step w)"
  shows "fst (AllocationStore_ReopenFailedReservation env input w) = Inr None"
proof -
  have "filter (\<lambda>r. al_policy r = p \<and> al_space_ref r = s \<and> al_status r = ''derivation_failed'' \<and>
      \<not> locked (al_id r)) (db_allocations (w_db w)) = []" for p s locked
    using assms(1) by (auto simp: no_failed_def filter_empty_conv)
  then show ?thesis
    using assms(2)
    by (simp add: AllocationStore_ReopenFailedReservation_def Let_def exec_sql_def sql_select_failed_def)
qed

end
