(* ===== verification/Polling_History.thy ===== *)
theory Polling_History
  imports Polling_Effects Allocate_Failures
begin

text \<open>
  The database as the record of the runs of \<open>Payment_Lifecycle\<close>. While a polling cycle is the
  only writer, whatever fails, every transaction of it either changes no row or saves one step
  of one tracking, with the notification of its status change beside it. So the tracking of a
  row only ever moves along a run, and the notifications of a payment address, in the order
  of their rows, spell out the statuses it went through.
\<close>

definition alone :: "Env \<Rightarrow> bool" where
  "alone env \<longleftrightarrow> (\<forall>n d. env_others env n d = d)"

lemma alone_others: "alone env \<Longrightarrow> R d d \<Longrightarrow> R d (env_others env n d)"
  by (simp add: alone_def)

lemma alone_steps: "alone env \<Longrightarrow> others_rel db_step env"
  by (simp add: alone_def others_rel_def steps.refl)

lemma begin_tx_alone: "alone env \<Longrightarrow> w_db (begin_tx env w) = w_db w"
  by (simp add: alone_def begin_tx_def)

lemma WithinTransaction_alone:
  assumes "WithinTransaction env fn w = (r, w')" and "alone env"
  shows "(\<exists>x w2. fn (begin_tx env w) = (Inr x, w2) \<and> w_db w' = w_db w2 \<and> (\<forall>y. r = Inr y \<longrightarrow> y = x)) \<or>
    only_seqs (w_db w) (w_db w') \<and> (\<exists>e. r = Inl e)"
  using assms
  by (auto simp: WithinTransaction_def Let_def begin_tx_alone only_seqs_iff
      split: if_splits prod.splits sum.splits commit_outcome.splits)

section \<open>The effect of one save\<close>

definition notif_change :: "NotifRow \<Rightarrow> int64 \<times> string \<times> string" where
  "notif_change n = (nt_payment_address_id n, nt_previous n, nt_current n)"

definition poll_saved :: "PaymentReceiptTracking \<Rightarrow> PaymentReceiptTracking \<Rightarrow> DB \<Rightarrow> DB \<Rightarrow> bool" where
  "poll_saved t v d d' \<longleftrightarrow>
     (\<exists>e polledAt nextPollAt ns.
        trk_ExpiresAt v = Some e \<and>
        db_trackings d' = update_where (\<lambda>r. pt_payment_address_id r = trk_PaymentAddressID v)
          (saved_row (paymentReceiptTrackingRecordFromDomain v) e polledAt nextPollAt) (db_trackings d) \<and>
        db_notifications d' = db_notifications d @ ns \<and>
        map notif_change ns =
          (if trk_Status t = trk_Status v then []
           else [(trk_PaymentAddressID v, trk_Status t, trk_Status v)]) \<and>
        db_allocations d' = db_allocations d \<and> db_cursors d' = db_cursors d \<and> db_keys d' = db_keys d)"

lemma poll_savedI:
  assumes "trk_ExpiresAt v = Some e"
    and "db_trackings d' = update_where (\<lambda>r. pt_payment_address_id r = trk_PaymentAddressID v)
          (saved_row (paymentReceiptTrackingRecordFromDomain v) e polledAt nextPollAt) (db_trackings d)"
    and "db_notifications d' = db_notifications d @ ns"
    and "map notif_change ns = (if trk_Status t = trk_Status v then []
           else [(trk_PaymentAddressID v, trk_Status t, trk_Status v)])"
    and "db_allocations d' = db_allocations d" and "db_cursors d' = db_cursors d" and "db_keys d' = db_keys d"
  shows "poll_saved t v d d'"
  using assms unfolding poll_saved_def by blast

lemma TrackingSave_Inr:
  assumes "TrackingStore_Save env (paymentReceiptTrackingRecordFromDomain v) now next w = (Inr u, w')"
  shows "\<exists>e. trk_ExpiresAt v = Some e \<and>
    w_db w' = (w_db w)\<lparr>db_trackings := update_where (\<lambda>r. pt_payment_address_id r = trk_PaymentAddressID v)
      (saved_row (paymentReceiptTrackingRecordFromDomain v) e now next) (db_trackings (w_db w))\<rparr>"
  using assms
  by (auto simp: TrackingStore_Save_def exec_sql_Inr_iff sql_save_tracking_def Let_def put_Inr_iff
      paymentReceiptTrackingRecordFromDomain_def split: if_splits prod.splits sum.splits option.splits)

lemma Enqueue_Inr:
  assumes "Outbox_EnqueueStatusChanged env (paymentReceiptStatusChangedRecordFromDomain ev) w = (Inr u, w')"
  shows "\<exists>n. notif_change n = (evt_PaymentAddressID ev, evt_PreviousStatus ev, evt_CurrentStatus ev) \<and>
    db_notifications (w_db w') = db_notifications (w_db w) @ [n]"
  using assms
  by (auto simp: Outbox_EnqueueStatusChanged_def exec_sql_Inr_iff sql_enqueue_def put_Inr_iff
      notif_change_def notif_row_of_def paymentReceiptStatusChangedRecordFromDomain_def
      split: if_splits prod.splits sum.splits option.splits)

lemma StatusChangedEvent_Inr:
  assumes "StatusChangedEvent v prev now = Inr changed"
  shows "case changed of None \<Rightarrow> prev = trk_Status v
    | Some ev \<Rightarrow> prev \<noteq> trk_Status v \<and> evt_PaymentAddressID ev = trk_PaymentAddressID v \<and>
        evt_PreviousStatus ev = prev \<and> evt_CurrentStatus ev = trk_Status v"
  using assms
  by (auto simp: StatusChangedEvent_def NewPaymentReceiptStatusChanged_def
      split: if_splits sum.splits option.splits)

lemma save_failure_body_Inr:
  assumes "save_failure_body env scope v now next w = (Inr u, w')" and "trk_Status t = trk_Status v"
  shows "poll_saved t v (w_db w) (w_db w')"
proof -
  obtain u' where "TrackingStore_Save env (paymentReceiptTrackingRecordFromDomain v) now next w = (Inr u', w')"
    using assms(1) by (auto simp: save_failure_body_def split: if_splits prod.splits sum.splits)
  from TrackingSave_Inr [OF this] obtain e where "trk_ExpiresAt v = Some e"
    and "w_db w' = (w_db w)\<lparr>db_trackings := update_where (\<lambda>r. pt_payment_address_id r = trk_PaymentAddressID v)
      (saved_row (paymentReceiptTrackingRecordFromDomain v) e now next) (db_trackings (w_db w))\<rparr>"
    by blast
  then show ?thesis
    using assms(2) by (intro poll_savedI [where ns = "[]"]) simp_all
qed

lemma save_and_enqueue_body_Inr:
  assumes B: "save_and_enqueue_body env scope v changed now next w = (Inr u, w')"
    and ev: "StatusChangedEvent v (trk_Status t) now' = Inr changed"
  shows "poll_saved t v (w_db w) (w_db w')"
proof -
  obtain u1 w1 where 1: "TrackingStore_Save env (paymentReceiptTrackingRecordFromDomain v) now next w = (Inr u1, w1)"
    and 2: "case changed of None \<Rightarrow> w' = w1
      | Some e \<Rightarrow> \<exists>u2. Outbox_EnqueueStatusChanged env (paymentReceiptStatusChangedRecordFromDomain e) w1 = (Inr u2, w')"
    using B by (auto simp: save_and_enqueue_body_def split: if_splits prod.splits sum.splits option.splits)
  note E = StatusChangedEvent_Inr [OF ev]
  obtain e where S: "trk_ExpiresAt v = Some e"
    "w_db w1 = (w_db w)\<lparr>db_trackings := update_where (\<lambda>r. pt_payment_address_id r = trk_PaymentAddressID v)
      (saved_row (paymentReceiptTrackingRecordFromDomain v) e now next) (db_trackings (w_db w))\<rparr>"
    using TrackingSave_Inr [OF 1] by blast
  show ?thesis
  proof (cases changed)
    case None
    with S 2 E show ?thesis by (intro poll_savedI [where ns = "[]"]) simp_all
  next
    case (Some e)
    with 2 obtain u2 where q: "Outbox_EnqueueStatusChanged env (paymentReceiptStatusChangedRecordFromDomain e) w1 = (Inr u2, w')"
      by auto
    obtain n where n: "notif_change n = (evt_PaymentAddressID e, evt_PreviousStatus e, evt_CurrentStatus e)"
      "db_notifications (w_db w') = db_notifications (w_db w1) @ [n]"
      using Enqueue_Inr [OF q] by blast
    have other: "db_trackings (w_db w') = db_trackings (w_db w1)" "db_allocations (w_db w') = db_allocations (w_db w1)"
      "db_cursors (w_db w') = db_cursors (w_db w1)" "db_keys (w_db w') = db_keys (w_db w1)"
      by (subst outbox_other_tables(1) [OF q], simp)+
    show ?thesis
      using S E Some n other by (intro poll_savedI [where ns = "[n]"]) simp_all
  qed
qed

section \<open>The effect of one tracking\<close>

definition polled :: "PaymentReceiptTracking \<Rightarrow> DB \<Rightarrow> DB \<Rightarrow> bool" where
  "polled t d d' \<longleftrightarrow> (\<exists>v. poll_step t v \<and> poll_saved t v d d')"

lemma poll_failure_effect:
  assumes "poll_failure env scope t reason now next w = (r, w')" and a: "alone env"
    and p: "trk_Status t \<in> set PollablePaymentReceiptStatuses" and m: "reason \<in> set tracking_failure_reasons"
  shows "polled t (w_db w) (w_db w') \<or> only_seqs (w_db w) (w_db w') \<and> (\<exists>e. r = Inl e)"
proof (cases "MarkPollingFailure t reason")
  case (Inl e)
  with assms(1) show ?thesis
    by (auto simp: poll_failure_def savePollingFailure_def unchanged.refl)
next
  case (Inr v)
  obtain x where x: "WithinTransaction env (save_failure_body env scope v now next) w = (x, w')"
    and r: "(\<exists>e. x = Inl e) \<longrightarrow> (\<exists>e. r = Inl e)"
    using assms(1) Inr
    by (auto simp: poll_failure_def savePollingFailure_def split: prod.splits sum.splits)
  have "trk_Status t = trk_Status v"
    using Inr by (auto simp: MarkPollingFailure_def split: if_splits)
  then have "poll_saved t v (w_db w) (w_db w')"
    if "save_failure_body env scope v now next (begin_tx env w) = (Inr y, w2)" "w_db w' = w_db w2" for y w2
    using save_failure_body_Inr [OF that(1)] that(2) by (simp add: begin_tx_alone [OF a])
  then show ?thesis
    using WithinTransaction_alone [OF x a] poll_failed [OF p m Inr] r unfolding polled_def by blast
qed

lemma saveTracking_effect:
  assumes "saveTrackingAndMaybeEnqueueStatusChanged env scope v (trk_Status t) now next w = (r, w')"
    and a: "alone env"
  shows "poll_saved t v (w_db w) (w_db w') \<or> only_seqs (w_db w) (w_db w') \<and> (\<exists>e. r = Inl e)"
proof (cases "StatusChangedEvent v (trk_Status t) now")
  case (Inl e)
  with assms(1) show ?thesis
    by (auto simp: saveTrackingAndMaybeEnqueueStatusChanged_def unchanged.refl)
next
  case (Inr changed)
  obtain x where x: "WithinTransaction env (save_and_enqueue_body env scope v changed now next) w = (x, w')"
    and r: "(\<exists>e. x = Inl e) \<longrightarrow> (\<exists>e. r = Inl e)"
    using assms(1) Inr
    by (auto simp: saveTrackingAndMaybeEnqueueStatusChanged_def split: prod.splits sum.splits)
  have "poll_saved t v (w_db w) (w_db w')"
    if "save_and_enqueue_body env scope v changed now next (begin_tx env w) = (Inr y, w2)" "w_db w' = w_db w2" for y w2
    using save_and_enqueue_body_Inr [OF that(1) Inr] that(2) by (simp add: begin_tx_alone [OF a])
  then show ?thesis
    using WithinTransaction_alone [OF x a] r by blast
qed

lemma record_observation_effect:
  assumes R: "record_observation env scope t ob now next w = (r, w')" and a: "alone env"
    and p: "trk_Status t \<in> set PollablePaymentReceiptStatuses"
  shows "polled t (w_db w) (w_db w') \<or> only_seqs (w_db w) (w_db w') \<and> (\<exists>e. r = Inl e)"
proof (cases "ApplyObservation t ob now")
  case (Inl e)
  then show ?thesis
    using R poll_failure_effect [OF _ a p] by (simp add: record_observation_def)
next
  case (Inr u)
  show ?thesis
  proof (cases "ExpireIfDue u now")
    case (Inl e)
    with R Inr show ?thesis by (auto simp: record_observation_def unchanged.refl)
  next
    case I: (Inr ve)
    obtain v expired where ve: "ve = (v, expired)" by (cases ve)
    have v: "\<not> expired \<Longrightarrow> v = u"
      using I ve by (auto simp: ExpireIfDue_cases split: if_splits)
    obtain x where x: "saveTrackingAndMaybeEnqueueStatusChanged env scope v (trk_Status t) now next w = (x, w')"
      and r: "(\<exists>e. x = Inl e) \<longrightarrow> (\<exists>e. r = Inl e)"
      using R Inr I ve v by (auto simp: record_observation_def split: if_splits prod.splits sum.splits)
    have "poll_step t v"
      using poll_observed [OF p Inr I [unfolded ve]] .
    then show ?thesis
      using saveTracking_effect [OF x a] r unfolding polled_def by blast
  qed
qed

lemma processTracking_effect:
  assumes P: "processTracking env scope observer t now next caches w = (r, caches', w')" and a: "alone env"
    and p: "trk_Status t \<in> set PollablePaymentReceiptStatuses"
  shows "polled t (w_db w) (w_db w') \<or> only_seqs (w_db w) (w_db w') \<and> (\<exists>e. r = Inl e)"
proof -
  note e = poll_failure_effect [OF _ a p] record_observation_effect [OF _ a p]
  show ?thesis
    using P
    by (auto simp: processTracking_def dest!: fetch_db dest: e split: if_splits sum.splits prod.splits)
qed

section \<open>The effect of a cycle\<close>

definition tracked :: "DB \<Rightarrow> TrackRow \<Rightarrow> PaymentReceiptTracking \<Rightarrow> bool" where
  "tracked d r t \<longleftrightarrow> r \<in> set (db_trackings d) \<and> row_tracking r = Inr t"

text \<open>
  A cycle is a sequence of lost transactions, of leases, and of saved steps of trackings that are
  in the table at that moment.
\<close>

inductive poll_db :: "DB \<Rightarrow> DB \<Rightarrow> bool" where
  poll_db_lost: "only_seqs d d' \<Longrightarrow> poll_db d d'"
| poll_db_lease:
    "db_trackings d' = update_where p (\<lambda>r. r\<lparr>pt_lease_until := l\<rparr>) (db_trackings d) \<Longrightarrow>
     only_seqs (d\<lparr>db_trackings := db_trackings d'\<rparr>) d' \<Longrightarrow> poll_db d d'"
| poll_db_save: "tracked d r t \<Longrightarrow> poll_step t v \<Longrightarrow> poll_saved t v d d' \<Longrightarrow> db_inv d \<Longrightarrow> poll_db d d'"
| poll_db_trans: "poll_db d d' \<Longrightarrow> poll_db d' d'' \<Longrightarrow> poll_db d d''"

lemma address_unique:
  assumes "db_inv d" and "r \<in> set (db_trackings d)" and "x \<in> set (db_trackings d)"
    and "pt_payment_address_id r = pt_payment_address_id x"
  shows "r = x"
  using assms by (auto simp: db_inv_def schema_ok_def trackings_ok_def distinct_map inj_on_def)

lemma tracked_address: "tracked d r t \<Longrightarrow> pt_payment_address_id r = trk_PaymentAddressID t"
  using row_tracking_Inr [of r t] by (simp add: tracked_def)

lemma poll_step_address: "poll_step t v \<Longrightarrow> trk_PaymentAddressID v = trk_PaymentAddressID t"
  by (drule poll_step_terms) (simp add: receipt_terms_def)

lemma only_seqs_tracked: "only_seqs d d' \<Longrightarrow> tracked d r t \<Longrightarrow> tracked d' r t"
  by (simp add: only_seqs_iff tracked_def)

lemma polled_other:
  assumes "polled t d d'" and "tracked d r u" and "trk_PaymentAddressID u \<noteq> trk_PaymentAddressID t"
  shows "tracked d' r u"
proof -
  obtain v e polledAt nextPollAt where "trk_PaymentAddressID v = trk_PaymentAddressID t"
    and d': "db_trackings d' = update_where (\<lambda>r. pt_payment_address_id r = trk_PaymentAddressID v)
      (saved_row (paymentReceiptTrackingRecordFromDomain v) e polledAt nextPollAt) (db_trackings d)"
    using assms(1) poll_step_address unfolding polled_def poll_saved_def by blast
  then show ?thesis
    using assms(2,3) tracked_address [OF assms(2)]
    by (auto simp: tracked_def set_update_where intro!: bexI [of _ r])
qed

lemma poll_loop_effect:
  assumes "poll_loop env scope observer now next ts out caches w = (r, w')" and a: "alone env"
    and "db_inv (w_db w)" and "distinct (map trk_PaymentAddressID ts)"
    and "\<And>t. t \<in> set ts \<Longrightarrow> trk_Status t \<in> set PollablePaymentReceiptStatuses \<and> (\<exists>r. tracked (w_db w) r t)"
  shows "poll_db (w_db w) (w_db w')"
  using assms(1,3-5)
proof (induction ts arbitrary: out caches w)
  case Nil
  then show ?case by (auto intro: poll_db_lost simp: unchanged.refl)
next
  case (Cons t ts)
  obtain x caches1 w1 where P: "processTracking env scope observer t now next caches w = (x, caches1, w1)"
    by (cases "processTracking env scope observer t now next caches w") auto
  obtain r0 where r0: "tracked (w_db w) r0 t"
    using Cons.prems(4) by auto
  have p: "trk_Status t \<in> set PollablePaymentReceiptStatuses"
    using Cons.prems(4) by simp
  have eff: "polled t (w_db w) (w_db w1) \<or> only_seqs (w_db w) (w_db w1)"
    using processTracking_effect [OF P a p] by blast
  then have 1: "poll_db (w_db w) (w_db w1)"
    using r0 Cons.prems(2) unfolding polled_def by (blast intro: poll_db_lost poll_db_save)
  show ?case
  proof (cases x)
    case (Inl e)
    with Cons.prems(1) P 1 show ?thesis by auto
  next
    case (Inr res)
    have inv: "db_inv (w_db w1)"
      using polling_steps.processTracking_rel [OF alone_steps [OF a] P] Cons.prems(2)
      by (simp add: db_step_def db_keeps_def)
    have keep: "\<exists>r. tracked (w_db w1) r u" if "u \<in> set ts" for u
    proof -
      obtain r where "tracked (w_db w) r u"
        using Cons.prems(4) \<open>u \<in> set ts\<close> by auto
      moreover have "trk_PaymentAddressID u \<noteq> trk_PaymentAddressID t"
        using Cons.prems(3) \<open>u \<in> set ts\<close> by simp (metis image_eqI)
      ultimately show ?thesis
        using eff polled_other only_seqs_tracked by blast
    qed
    have "poll_db (w_db w1) (w_db w')"
      using Cons.prems P Inr by (intro Cons.IH [OF _ inv]) (auto intro: keep)
    with 1 show ?thesis by (rule poll_db_trans)
  qed
qed

lemma list_all2_memD: "list_all2 P xs ys \<Longrightarrow> y \<in> set ys \<Longrightarrow> \<exists>x \<in> set xs. P x y"
  by (induction rule: list_all2_induct) auto

lemma list_all2_maps:
  "list_all2 P xs ys \<Longrightarrow> (\<And>x y. P x y \<Longrightarrow> g y = f x) \<Longrightarrow> map g ys = map f xs"
  by (induction rule: list_all2_induct) auto

lemma first_due_distinct:
  assumes "distinct (map f xs)"
  shows "distinct (map f (first_due at rid limit (filter p xs)))"
proof -
  let ?ys = "first_due at rid limit (filter p xs)"
  have "distinct ?ys"
    using assms by (simp add: first_due_def distinct_map)
  moreover have "set ?ys \<subseteq> set xs"
    using set_first_due [of at rid limit "filter p xs"] by auto
  ultimately show ?thesis
    using assms by (auto simp: distinct_map inj_on_def)
qed

lemma pollable_status:
  assumes "st \<in> set pollablePaymentReceiptStatusStrings" and "ParsePaymentReceiptStatus st = Some st'"
  shows "st' \<in> set PollablePaymentReceiptStatuses"
proof -
  have "st \<in> set receipt_statuses" and "set pollablePaymentReceiptStatusStrings = set PollablePaymentReceiptStatuses"
    using assms(1) by (auto simp: pollablePaymentReceiptStatusStrings_def pollable_set receipt_statuses_set)
  then show ?thesis
    using assms ParsePaymentReceiptStatus_of_mem [of st] by simp
qed

lemma leased_row_tracking [simp]: "row_tracking (r\<lparr>pt_lease_until := l\<rparr>) = row_tracking r"
  by (simp add: row_tracking_def scanPaymentReceiptTracking_def cong: option.case_cong)

text \<open>What a claim returns: the trackings of rows that are due, each of another address.\<close>

lemma poll_claim_body_Inr:
  assumes B: "poll_claim_body env scope input now w = (Inr ts, w')" and inv: "db_inv (w_db w)"
  shows "poll_db (w_db w) (w_db w') \<and> distinct (map trk_PaymentAddressID ts) \<and>
    length ts \<le> nat (sint (pin_BatchSize input)) \<and>
    (\<forall>t \<in> set ts. trk_Status t \<in> set PollablePaymentReceiptStatuses \<and> (\<exists>r. tracked (w_db w') r t))"
proof -
  let ?cin = "\<lparr>ctr_Now = now, ctr_Limit = pin_BatchSize input, ctr_ClaimUntil = time_add now (pin_ClaimTTL input),
      ctr_Chain = pin_Chain input, ctr_Network = pin_Network input,
      ctr_Statuses = pollablePaymentReceiptStatusStrings\<rparr>"
  let ?lease = "\<lambda>r. r\<lparr>pt_lease_until := Some (time_add now (pin_ClaimTTL input))\<rparr>"
  obtain recs where C: "TrackingStore_ClaimDue env ?cin w = (Inr recs, w')"
    and m: "map_results paymentReceiptTrackingFromRecord recs = Inr ts"
    using B by (auto simp: poll_claim_body_def split: if_splits prod.splits sum.splits)
  let ?due = "due_trackings ?cin (env_locked env (w_step w)) (w_db w)"
  let ?p = "\<lambda>r. pt_id r \<in> set (map pt_id ?due)"
  have d': "w_db w' = (w_db w)\<lparr>db_trackings := update_where ?p ?lease (db_trackings (w_db w))\<rparr>"
    and recs: "map_results scanPaymentReceiptTracking (map ?lease ?due) = Inr recs"
    using C by (auto simp: TrackingStore_ClaimDue_def exec_sql_Inr_iff sql_claim_trackings_def Let_def put_Inr_iff
        split: if_splits prod.splits sum.splits)
  have lease: "poll_db (w_db w) (w_db w')"
    by (rule poll_db_lease [of _ ?p "Some (time_add now (pin_ClaimTTL input))"])
      (simp_all add: d' only_seqs_iff)
  have "list_all2 (\<lambda>r t. row_tracking (?lease r) = Inr t) ?due ts"
    using recs m unfolding map_results_Inr_iff
    by (auto simp: list_all2_conv_all_nth row_tracking_def)
  then have all2: "list_all2 (\<lambda>r t. row_tracking r = Inr t) ?due ts"
    by simp
  have due: "r \<in> set (db_trackings (w_db w)) \<and> pt_status r \<in> set pollablePaymentReceiptStatusStrings"
    if "r \<in> set ?due" for r
    using first_due_due [OF that] by (simp add: tracking_due_def Let_def)
  have row: "row_tracking r = Inr t \<Longrightarrow> pt_payment_address_id r = trk_PaymentAddressID t \<and>
      ParsePaymentReceiptStatus (pt_status r) = Some (trk_Status t)" for r t
    using row_tracking_Inr [of r t] by simp
  have each: "trk_Status t \<in> set PollablePaymentReceiptStatuses \<and> (\<exists>r. tracked (w_db w') r t)"
    if "t \<in> set ts" for t
  proof -
    obtain r where r: "r \<in> set ?due" "row_tracking r = Inr t"
      using list_all2_memD [OF all2 \<open>t \<in> set ts\<close>] by blast
    have "?lease r \<in> set (db_trackings (w_db w'))"
      using due [OF r(1)] r(1) unfolding d' by (auto simp: set_update_where intro!: bexI [of _ r])
    then show ?thesis
      using pollable_status due [OF r(1)] row [OF r(2)] r(2) by (auto simp: tracked_def)
  qed
  have "map trk_PaymentAddressID ts = map pt_payment_address_id ?due"
    by (rule list_all2_maps [OF all2]) (simp add: row)
  moreover have "distinct (map pt_payment_address_id ?due)"
    using inv unfolding due_trackings_def
    by (intro first_due_distinct) (simp add: db_inv_def schema_ok_def trackings_ok_def)
  moreover have "length ts = length ?due"
    using all2 by (simp add: list_all2_lengthD)
  ultimately show ?thesis
    using lease each by (simp add: due_trackings_def length_first_due)
qed

lemma Poll_Execute_effect:
  assumes E: "Poll_Execute env deps input w = (r, w')" and a: "alone env" and inv: "db_inv (w_db w)"
  shows "poll_db (w_db w) (w_db w')"
proof -
  have lost: "poll_db (w_db w) (w_db w1)" if "only_seqs (w_db w) (w_db w1)" for w1
    by (rule poll_db_lost [OF that])
  have claim: "poll_db (w_db w) (w_db w2) \<and> (\<forall>ts. x = Inr ts \<longrightarrow> distinct (map trk_PaymentAddressID ts) \<and>
      (\<forall>t \<in> set ts. trk_Status t \<in> set PollablePaymentReceiptStatuses \<and> (\<exists>r. tracked (w_db w2) r t)))"
    if c: "WithinTransaction env (poll_claim_body env scope i now) (tick w) = (x, w2)" for scope i now x w2
  proof -
    have "poll_db (w_db w) (w_db w3)" "distinct (map trk_PaymentAddressID ts)"
      "\<forall>t \<in> set ts. trk_Status t \<in> set PollablePaymentReceiptStatuses \<and> (\<exists>r. tracked (w_db w3) r t)"
      if "poll_claim_body env scope i now (begin_tx env (tick w)) = (Inr ts, w3)" for ts w3
      using poll_claim_body_Inr [OF that] inv by (simp_all add: begin_tx_alone [OF a])
    then show ?thesis
      using WithinTransaction_alone [OF c a] lost [of w2] by fastforce
  qed
  have inv2: "db_inv (w_db w2)"
    if "WithinTransaction env (poll_claim_body env scope i now) (tick w) = (x, w2)" for scope i now x w2
    using steps.WithinTransaction_rel [OF polling_steps.poll_claim_body_rel poll_claim_body_seqs
        alone_steps [OF a], THEN world_relD, OF that] inv by (simp add: db_step_def db_keeps_def)
  have refl: "poll_db (w_db w) (w_db w)"
    by (rule lost) (rule unchanged.refl)
  show ?thesis
  proof (cases "pd_unitOfWork deps = None \<or> pd_observer deps = None \<or> \<not> pd_clock deps \<or>
      sint (pin_BatchSize input) \<le> 0 \<or> (\<exists>e. poll_filter input = Inl e)")
    case True
    with E refl show ?thesis
      by (auto simp: Poll_Execute_def read_clock_def split: option.splits if_splits)
  next
    case False
    then obtain scope observer i where d: "pd_unitOfWork deps = Some scope" "pd_observer deps = Some observer"
      "pd_clock deps" "\<not> sint (pin_BatchSize input) \<le> 0" "poll_filter input = Inr i"
      by (cases "poll_filter input") auto
    let ?now = "env_clock env (w_step w)"
    obtain x w2 where c: "WithinTransaction env (poll_claim_body env scope i ?now) (tick w) = (x, w2)"
      by (cases "WithinTransaction env (poll_claim_body env scope i ?now) (tick w)")
    show ?thesis
    proof (cases x)
      case (Inl e)
      with E d c claim [OF c] show ?thesis by (simp add: Poll_Execute_def read_clock_def)
    next
      case (Inr ts)
      then have "poll_loop env scope observer ?now (time_add ?now (pin_RescheduleInterval i)) ts
          (no_poll_output\<lparr>pout_ClaimedCount := of_nat (length ts)\<rparr>)
          \<lparr>hc_heights = Map.empty, hc_errors = Map.empty\<rparr> w2 = (r, w')"
        using E d c by (simp add: Poll_Execute_def read_clock_def)
      from poll_loop_effect [OF this a inv2 [OF c]] claim [OF c] Inr show ?thesis
        by (auto intro: poll_db_trans)
    qed
  qed
qed

end
