(* ===== verification/Store_Properties.thy ===== *)
theory Store_Properties
  imports Sample_Run Polling_History
begin

text \<open>
  The properties of the stores and of the records that cross the ports: two vocabularies that
  agree, records that convert back, rows that read back, claims that exclude each other and
  slots that are never handed out twice.
\<close>

section \<open>Vocabularies and records\<close>

text \<open>
  The outbound port's own normalisers, a second implementation beside the domain's value
  objects, compute on every string the same as the domain's parsers, so a value one side
  accepts is a value the other accepts, with the same canonical form.
\<close>

theorem port_vocabularies_agree:
  "NormalizeChainID raw = ParseChainID raw \<and> NormalizeNetworkID raw = ParseNetworkID raw \<and>
   NormalizeAddressPolicyID raw = parseAddressPolicyID raw \<and>
   NormalizeSupportedChain raw = ParseSupportedChain raw \<and>
   NormalizeAddressScheme raw = ParseAddressScheme raw \<and>
   NormalizePaymentReceiptStatus raw = ParsePaymentReceiptStatus raw \<and>
   NormalizePaymentReceiptTrackingFailureReason raw = ParsePaymentReceiptTrackingFailureReason raw \<and>
   NormalizeDerivationFailureReason raw = ParseDerivationFailureReason raw"
  by simp

text \<open>
  A record that converts to an entity at all converts to one that survives the port:
  turned back into a record and read again it is the same entity, for trackings and for
  allocations.
\<close>

theorem record_conversion_stable:
  assumes "paymentReceiptTrackingFromRecord r = Inr t" and "paymentAddressAllocationFromRecord q = Inr a"
  shows "paymentReceiptTrackingFromRecord (paymentReceiptTrackingRecordFromDomain t) = Inr t \<and>
    paymentAddressAllocationFromRecord (paymentAddressAllocationRecordFromDomain a) = Inr a"
  using tracking_record_roundtrip [OF tracking_from_record_portable [OF assms(1)]]
    allocation_record_roundtrip [OF allocation_from_record_portable [OF assms(2)]] by simp

definition sample_track_record :: PaymentReceiptTrackingRecord where
  "sample_track_record = (case scanPaymentReceiptTracking sample_track_row of Inr rec \<Rightarrow> rec)"

definition sample_row_tracking :: PaymentReceiptTracking where
  "sample_row_tracking =
     (case paymentReceiptTrackingFromRecord sample_track_record of Inr t \<Rightarrow> t)"

lemma sample_track_read:
  "paymentReceiptTrackingFromRecord sample_track_record = Inr sample_row_tracking"
  by code_simp

lemma record_conversion_stable_witness:
  "paymentReceiptTrackingFromRecord (paymentReceiptTrackingRecordFromDomain sample_row_tracking) =
     Inr sample_row_tracking \<and>
   paymentAddressAllocationFromRecord (paymentAddressAllocationRecordFromDomain
       (reserved_entity 3 ''btc-main'' 2 7 [])) = Inr (reserved_entity 3 ''btc-main'' 2 7 [])"
proof (rule record_conversion_stable [OF sample_track_read])
  show "paymentAddressAllocationFromRecord (reserved_record 3 ''btc-main'' 2 7 []) =
      Inr (reserved_entity 3 ''btc-main'' 2 7 [])"
    by code_simp
qed

section \<open>Trackings\<close>

text \<open>
  C19: what the poller saves is what it claims next. After a successful save of a tracking
  whose identity and terms are those of a stored row, that row reads back as exactly the saved
  tracking, every amount, time, status and failure reason included.
\<close>

theorem saved_tracking_reads_back:
  assumes "TrackingStore_Save env (paymentReceiptTrackingRecordFromDomain u) polledAt nextPollAt w =
      (Inr (), w')"
    and "r \<in> set (db_trackings (w_db w))" and "row_tracking r = Inr t" and "same_identity t u"
    and "tracking_portable u"
  shows "\<exists>r' \<in> set (db_trackings (w_db w')). pt_id r' = pt_id r \<and> row_tracking r' = Inr u"
proof -
  obtain e where e: "trk_ExpiresAt u = Some e"
    and rows: "db_trackings (w_db w') =
      update_where (\<lambda>r. pt_payment_address_id r = trk_PaymentAddressID u)
        (saved_row (paymentReceiptTrackingRecordFromDomain u) e polledAt nextPollAt) (db_trackings (w_db w))"
    using TrackingSave_Inr [OF assms(1)] by auto
  have "pt_payment_address_id r = trk_PaymentAddressID u"
    using row_tracking_Inr [OF assms(3)] assms(4) by (simp add: same_identity_def)
  then have "saved_row (paymentReceiptTrackingRecordFromDomain u) e polledAt nextPollAt r
      \<in> set (db_trackings (w_db w'))"
    using assms(2) unfolding rows set_update_where by auto
  moreover have "row_tracking (saved_row (paymentReceiptTrackingRecordFromDomain u) e polledAt nextPollAt r)
      = Inr u"
    by (rule row_tracking_saved [OF assms(3,4,5) e])
  moreover have "pt_id (saved_row (paymentReceiptTrackingRecordFromDomain u) e polledAt nextPollAt r) = pt_id r"
    by (simp add: saved_row_def)
  ultimately show ?thesis
    by blast
qed

definition sample_reverted :: PaymentReceiptTracking where
  "sample_reverted =
     sample_row_tracking\<lparr>trk_Status := PaymentReceiptStatusPaidUnconfirmedReverted,
       trk_FirstObservedAt := Some 950, trk_PaidAt := Some 950,
       trk_LastFailureReason := ReasonObservationFailed\<rparr>"

lemma saved_tracking_reads_back_witness:
  "\<exists>r' \<in> set (db_trackings (w_db (snd (TrackingStore_Save sample_env
      (paymentReceiptTrackingRecordFromDomain sample_reverted) 1000 1060 sample_live)))).
     pt_id r' = 1 \<and> row_tracking r' = Inr sample_reverted"
proof -
  have save: "TrackingStore_Save sample_env (paymentReceiptTrackingRecordFromDomain sample_reverted)
        1000 1060 sample_live =
      (Inr (), snd (TrackingStore_Save sample_env
        (paymentReceiptTrackingRecordFromDomain sample_reverted) 1000 1060 sample_live))"
  proof -
    have "fst (TrackingStore_Save sample_env (paymentReceiptTrackingRecordFromDomain sample_reverted)
        1000 1060 sample_live) = Inr ()"
      by code_simp
    then show ?thesis
      by (simp add: prod_eq_iff)
  qed
  have row: "sample_track_row \<in> set (db_trackings (w_db sample_live))"
    by (simp add: sample_live_def sample_db_def)
  have read: "row_tracking sample_track_row = Inr sample_row_tracking"
    by code_simp
  have same: "same_identity sample_row_tracking sample_reverted"
    by (simp add: same_identity_def sample_reverted_def)
  have port: "tracking_portable sample_reverted"
    by code_simp
  have "pt_id sample_track_row = 1"
    by (simp add: sample_track_row_def)
  then show ?thesis
    using saved_tracking_reads_back [OF save row read same port] by simp
qed

lemma TrackingClaim_Inr:
  assumes "TrackingStore_ClaimDue env input w = (Inr claimed, w')"
  shows "\<exists>rows. sql_claim_trackings input (env_locked env (w_step w)) (w_now w) (w_db w) =
      (Inr rows, w_db w') \<and> map tr_TrackingID claimed = map pt_id rows"
proof -
  have id: "scanPaymentReceiptTracking r = Inr rec \<Longrightarrow> tr_TrackingID rec = pt_id r" for r rec
    by (auto simp: scanPaymentReceiptTracking_def split: option.splits)
  obtain rows where "sql_claim_trackings input (env_locked env (w_step w)) (w_now w) (w_db w) =
      (Inr rows, w_db w')"
    and "map_results scanPaymentReceiptTracking rows = Inr claimed"
    using assms by (auto simp: TrackingStore_ClaimDue_def exec_sql_def Let_def
        split: if_splits prod.splits sum.splits)
  moreover from this(2) have "map tr_TrackingID claimed = map pt_id rows"
    by (intro list_all2_maps [of "\<lambda>r x. scanPaymentReceiptTracking r = Inr x" rows claimed])
      (simp_all add: map_results_Inr_iff id)
  ultimately show ?thesis
    by blast
qed

text \<open>
  C12: two pollers do not work on one receipt at a time. A claim that reads the clock before
  the lease of an earlier claim has run out, over the database that claim left, returns none of
  the trackings the earlier one returned, whatever its filters, limit and locks.
\<close>

theorem tracking_claims_disjoint:
  assumes "TrackingStore_ClaimDue env input w = (Inr claimed, w1)"
    and "TrackingStore_ClaimDue env' input' w2 = (Inr claimed', w3)"
    and "w_db w2 = w_db w1" and "ctr_Now input' < ctr_ClaimUntil input"
  shows "set (map tr_TrackingID claimed) \<inter> set (map tr_TrackingID claimed') = {}"
proof -
  obtain rows rows'
    where c: "sql_claim_trackings input (env_locked env (w_step w)) (w_now w) (w_db w) = (Inr rows, w_db w1)"
      and ids: "map tr_TrackingID claimed = map pt_id rows"
      and c': "sql_claim_trackings input' (env_locked env' (w_step w2)) (w_now w2) (w_db w1) =
        (Inr rows', w_db w3)"
      and ids': "map tr_TrackingID claimed' = map pt_id rows'"
    using TrackingClaim_Inr [OF assms(1)] TrackingClaim_Inr [OF assms(2)] assms(3) by auto
  have due: "map pt_id rows' = map pt_id (due_trackings input' (env_locked env' (w_step w2)) (w_db w1))"
    using c' by (auto simp: sql_claim_trackings_def Let_def put_Inr_iff o_def)
  have "i \<notin> set (map pt_id rows)"
    if "i \<in> set (map pt_id (due_trackings input' (env_locked env' (w_step w2)) (w_db w1)))" for i
    using that claim_exclusive [OF c _ assms(4)] by auto
  then show ?thesis
    unfolding ids ids' due by (intro equals0I) blast
qed

definition sample_claimed :: "PaymentReceiptTrackingRecord list result \<times> World" where
  "sample_claimed = TrackingStore_ClaimDue sample_env sample_claim sample_live"

lemma tracking_claims_disjoint_witness:
  "\<exists>claimed claimed' w1 w3.
     TrackingStore_ClaimDue sample_env sample_claim sample_live = (Inr claimed, w1) \<and>
     TrackingStore_ClaimDue sample_env sample_claim w1 = (Inr claimed', w3) \<and>
     claimed = [sample_track_record] \<and>
     set (map tr_TrackingID claimed) \<inter> set (map tr_TrackingID claimed') = {}"
proof -
  have "fst sample_claimed = Inr [sample_track_record]"
    by code_simp
  then have 1: "TrackingStore_ClaimDue sample_env sample_claim sample_live =
      (Inr [sample_track_record], snd sample_claimed)"
    by (simp add: prod_eq_iff sample_claimed_def)
  have "fst (TrackingStore_ClaimDue sample_env sample_claim (snd sample_claimed)) = Inr []"
    by code_simp
  then have 2: "TrackingStore_ClaimDue sample_env sample_claim (snd sample_claimed) =
      (Inr [], snd (TrackingStore_ClaimDue sample_env sample_claim (snd sample_claimed)))"
    by (simp add: prod_eq_iff)
  have "ctr_Now sample_claim < ctr_ClaimUntil sample_claim"
    by (simp add: sample_claim_def)
  from tracking_claims_disjoint [OF 1 2 refl this] 1 2 show ?thesis
    by blast
qed

section \<open>Notifications\<close>

lemma OutboxClaim_Inr:
  assumes "Outbox_ClaimPending env now limit until w = (Inr claimed, w')"
  shows "\<exists>rows. sql_claim_notifications now limit until (env_locked env (w_step w)) (w_now w) (w_db w) =
      (Inr rows, w_db w') \<and> map msg_NotificationID claimed = map (nt_id \<circ> fst) rows"
proof -
  have id: "scanOutboxMessage rp = Inr m \<Longrightarrow> msg_NotificationID m = nt_id (fst rp)" for rp m
    by (auto simp: scanOutboxMessage_def Let_def split: option.splits)
  obtain rows
    where "sql_claim_notifications now limit until (env_locked env (w_step w)) (w_now w) (w_db w) =
      (Inr rows, w_db w')"
    and "map_results scanOutboxMessage rows = Inr claimed"
    using assms by (auto simp: Outbox_ClaimPending_def exec_sql_def Let_def
        split: if_splits prod.splits sum.splits)
  moreover from this(2) have "map msg_NotificationID claimed = map (nt_id \<circ> fst) rows"
    by (intro list_all2_maps [of "\<lambda>r x. scanOutboxMessage r = Inr x" rows claimed])
      (simp_all add: map_results_Inr_iff id)
  ultimately show ?thesis
    by blast
qed

text \<open>
  C13: a status change is not sent by two dispatchers at once. A claim made before the lease of
  an earlier claim has run out, over the database that claim left, returns none of its
  notifications.
\<close>

theorem notification_claims_disjoint:
  assumes "Outbox_ClaimPending env now limit until w = (Inr claimed, w1)"
    and "Outbox_ClaimPending env' now' limit' until' w2 = (Inr claimed', w3)"
    and "w_db w2 = w_db w1" and "now' < until"
  shows "set (map msg_NotificationID claimed) \<inter> set (map msg_NotificationID claimed') = {}"
proof -
  obtain rows rows'
    where c: "sql_claim_notifications now limit until (env_locked env (w_step w)) (w_now w) (w_db w) =
        (Inr rows, w_db w1)"
      and ids: "map msg_NotificationID claimed = map (nt_id \<circ> fst) rows"
      and c': "sql_claim_notifications now' limit' until' (env_locked env' (w_step w2)) (w_now w2) (w_db w1) =
        (Inr rows', w_db w3)"
      and ids': "map msg_NotificationID claimed' = map (nt_id \<circ> fst) rows'"
    using OutboxClaim_Inr [OF assms(1)] OutboxClaim_Inr [OF assms(2)] assms(3) by auto
  have due: "\<exists>r \<in> set (due_notifications now' limit' (env_locked env' (w_step w2)) (w_db w1)). nt_id r = i"
    if "i \<in> set (map (nt_id \<circ> fst) rows')" for i
  proof -
    have "rows' = map (\<lambda>(r, pol). (r\<lparr>nt_lease_until := Some until'\<rparr>, pol))
        (claimed_notifications now' limit' (env_locked env' (w_step w2)) (w_db w1))"
      using sql_claim_notifications_Inr [OF c'] by simp
    then have "i \<in> set (map (nt_id \<circ> fst)
        (claimed_notifications now' limit' (env_locked env' (w_step w2)) (w_db w1)))"
      using that by (simp add: o_def case_prod_beta image_image)
    then show ?thesis
      by (auto simp: claimed_notifications_def List.map_filter_def)
  qed
  have "i \<notin> set (map (nt_id \<circ> fst) rows)" if "i \<in> set (map (nt_id \<circ> fst) rows')" for i
    using due [OF that] notification_claim_exclusive [OF c _ assms(4)] by blast
  then show ?thesis
    unfolding ids ids' by (intro equals0I) blast
qed

definition sample_message :: OutboxMessage where
  "sample_message = (case scanOutboxMessage (sample_notif_row, ''btc-main'') of Inr m \<Rightarrow> m)"

lemma notification_claims_disjoint_witness:
  "\<exists>claimed claimed' w1 w3.
     Outbox_ClaimPending sample_env 1000 5 1030 sample_live = (Inr claimed, w1) \<and>
     Outbox_ClaimPending sample_env 1010 5 1040 w1 = (Inr claimed', w3) \<and>
     claimed = [sample_message] \<and>
     set (map msg_NotificationID claimed) \<inter> set (map msg_NotificationID claimed') = {}"
proof -
  let ?r = "Outbox_ClaimPending sample_env 1000 5 1030 sample_live"
  have "fst ?r = Inr [sample_message]" "fst (Outbox_ClaimPending sample_env 1010 5 1040 (snd ?r)) = Inr []"
    by code_simp+
  then have 1: "?r = (Inr [sample_message], snd ?r)"
    and 2: "Outbox_ClaimPending sample_env 1010 5 1040 (snd ?r) =
      (Inr [], snd (Outbox_ClaimPending sample_env 1010 5 1040 (snd ?r)))"
    by (simp_all add: prod_eq_iff)
  show ?thesis
    using notification_claims_disjoint [OF 1 2 refl] 1 2 by fastforce
qed

text \<open>
  C23: the attempts of a failed delivery are bounded. From a counter below the limit the next
  one is exactly one more, with no \<open>int32\<close> wrap-around, never above the limit, and the
  notification is failed for good exactly when the limit is reached; otherwise it stays pending
  and the next attempt is due one retry delay from now.
\<close>

theorem delivery_attempts_bounded:
  assumes "ResolveDeliveryFailure nid cur mx now delay DeliveryFailureReasonDeliveryFailed = Inr r"
    and "sint cur < sint mx"
  shows "sint (res_Attempts r) = sint cur + 1 \<and> sint (res_Attempts r) \<le> sint mx \<and>
    (res_Status r = DeliveryStatusFailed \<longleftrightarrow> sint (res_Attempts r) = sint mx) \<and>
    (res_Status r = DeliveryStatusPending \<longleftrightarrow> sint (res_Attempts r) < sint mx) \<and>
    (res_Status r = DeliveryStatusPending \<longleftrightarrow> res_NextAttemptAt r = Some (time_add now delay))"
proof -
  have "0 \<le> sint cur"
    using assms(1) by (simp add: ResolveDeliveryFailure_Inr_iff)
  then have "sint (cur + 1) = sint cur + 1"
    by (rule attempts_no_wrap [OF _ assms(2)])
  then show ?thesis
    using assms by (auto simp: ResolveDeliveryFailure_Inr_iff split: if_splits)
qed

lemma delivery_attempts_bounded_witness:
  "\<exists>r. ResolveDeliveryFailure 1 2 3 1000 60 DeliveryFailureReasonDeliveryFailed = Inr r \<and>
     sint (res_Attempts r) = 3 \<and> res_Status r = DeliveryStatusFailed"
proof -
  have e: "ResolveDeliveryFailure 1 2 3 1000 60 DeliveryFailureReasonDeliveryFailed =
      Inr \<lparr>res_NotificationID = 1, res_Status = DeliveryStatusFailed, res_Attempts = 3,
           res_LastFailureReason = DeliveryFailureReasonDeliveryFailed,
           res_NextAttemptAt = None, res_DeliveredAt = None\<rparr>"
    by code_simp
  show ?thesis
    using delivery_attempts_bounded [OF e] e by simp
qed

section \<open>Slots\<close>

text \<open>
  C18: a derivation slot is handed out once. A fresh reservation adds one reserved row whose
  slot is above the slot of every allocation of that policy and address space, whatever its
  status, fits a 31-bit index, and is the slot the deriver is given; the invariant of the
  tables holds afterwards.
\<close>

theorem fresh_slot_never_reused:
  assumes "AllocationStore_ReserveFresh env input w = (Inr rec, w')" and "db_inv (w_db w)"
  shows "\<exists>row. db_allocations (w_db w') = db_allocations (w_db w) @ [row] \<and>
    al_id row = ar_PaymentAddressID rec \<and> al_status row = ''reserved'' \<and>
    al_slot row = uint (ar_SlotIndex rec) \<and> al_slot row \<le> 2 ^ 31 - 1 \<and>
    (\<forall>r \<in> set (db_allocations (w_db w)).
       al_policy r = al_policy row \<and> al_space_ref r = al_space_ref row \<longrightarrow> al_slot r < al_slot row) \<and>
    db_inv (w_db w')"
proof (rule ReserveFresh_Inr [OF assms(1)], goal_cases)
  case (1 i)
  let ?p = "ipr_AddressPolicyID (rin_IssuancePolicy input)"
  let ?s = "trim_space (ipr_AddressSpaceRef (rin_IssuancePolicy input))"
  let ?n = "next_slot ?p ?s (w_db w)"
  have "0 \<le> ?n"
    using 1(4) by (simp add: allocations_ok_def alloc_row_ok_def)
  moreover have "?n \<le> 2 ^ 31 - 1"
    using 1(2) by (simp add: maxSlotIndex_def)
  ultimately have "uint (word_of_int ?n :: 32 word) = ?n"
    by (simp add: uint_word_of_int)
  moreover have "al_slot r < ?n"
    if "r \<in> set (db_allocations (w_db w))" "al_policy r = ?p" "al_space_ref r = ?s" for r
    using next_slot_above [of "w_db w" r] that assms(2) by (simp add: db_inv_def)
  moreover have "db_inv (w_db w')"
    using ok_relD [OF ReserveFresh_step assms(1)] assms(2) by (simp add: db_step_def db_keeps_def)
  ultimately show ?case
    using 1(2,3,7) by (auto simp: reserved_record_def maxSlotIndex_def)
qed

lemma fresh_slot_never_reused_witness:
  "\<exists>rec w'. AllocationStore_ReserveFresh sample_env sample_reserve sample_live = (Inr rec, w') \<and>
     ar_SlotIndex rec = 2 \<and> db_inv (w_db w')"
proof -
  let ?r = "AllocationStore_ReserveFresh sample_env sample_reserve sample_live"
  have "fst ?r = Inr (reserved_record 3 ''btc-main'' 2 7 [])"
    by code_simp
  then have e: "?r = (Inr (reserved_record 3 ''btc-main'' 2 7 []), snd ?r)"
    by (simp add: prod_eq_iff)
  have "db_inv (w_db sample_live)"
    by (simp add: sample_live_def sample_db_inv)
  then show ?thesis
    using fresh_slot_never_reused [OF e] e by (fastforce simp: reserved_record_def)
qed

end
