(* ===== verification/Dispatch_Effects.thy ===== *)
theory Dispatch_Effects
  imports Dispatch_UseCase Polling_History
begin

text \<open>
  What a dispatch cycle does to the database. The locale \<open>dispatch_guarantee\<close> lifts a guarantee
  of the two outbox methods that a cycle calls to the whole cycle; it is interpreted for the
  invariant of the database, for the ledger, and for the frame of a dispatch: only the delivery
  columns of a notification change. The rest gives the exact effect of one delivery.
\<close>

section \<open>Guarantees of a whole cycle\<close>

lemma save_delivery_body_seqs: "world_rel seqs_le (save_delivery_body env scope res)"
  by (rule world_relI)
    (auto simp: save_delivery_body_def seqs.refl dest!: polling_store_seqs
      split: if_splits prod.splits sum.splits)

lemma dispatch_claim_body_seqs: "world_rel seqs_le (dispatch_claim_body env scope input now)"
  by (rule world_relI)
    (auto simp: dispatch_claim_body_def seqs.refl dest!: polling_store_seqs
      split: if_splits prod.splits sum.splits)

locale dispatch_guarantee = db_guarantee +
  assumes claim_pending_rel: "world_rel R (Outbox_ClaimPending env now limit until)"
    and save_result_rel: "world_rel R (Outbox_SaveDeliveryResult env res)"
begin

lemma save_delivery_body_rel: "ok_rel R (save_delivery_body env scope res)"
  by (rule ok_relI)
    (auto simp: save_delivery_body_def dest!: save_result_rel [THEN world_relD]
      split: if_splits prod.splits sum.splits)

lemma dispatch_claim_body_rel: "ok_rel R (dispatch_claim_body env scope input now)"
  by (rule ok_relI)
    (auto simp: dispatch_claim_body_def dest!: claim_pending_rel [THEN world_relD]
      split: if_splits prod.splits sum.splits)

lemma save_and_return_rel:
  assumes o: "others_rel R env" and s: "save_and_return env scope computed w = (r, w')"
  shows "R (w_db w) (w_db w')"
  using s
  by (auto simp: save_and_return_def saveDeliveryResult_def refl split: sum.splits prod.splits
      dest: WithinTransaction_rel [OF save_delivery_body_rel save_delivery_body_seqs o, THEN world_relD])

lemma processNotification_rel:
  assumes o: "others_rel R env" and p: "processNotification env scope reader notifier input msg w = (r, w')"
  shows "R (w_db w) (w_db w')"
  using p
  by (auto simp: processNotification_def read_clock_def refl dest!: save_and_return_rel [OF o]
      split: sum.splits prod.splits option.splits)

lemma dispatch_loop_rel:
  assumes o: "others_rel R env"
    and "dispatch_loop env scope reader notifier input msgs out w = (r, w')"
  shows "R (w_db w) (w_db w')"
  using assms(2)
proof (induction msgs arbitrary: out w)
  case (Cons m msgs)
  show ?case
    using Cons.prems
    by (auto dest!: processNotification_rel [OF o] Cons.IH intro: trans split: sum.splits prod.splits)
qed (simp add: refl)

lemma Dispatch_Execute_rel:
  assumes o: "others_rel R env"
  shows "world_rel R (Dispatch_Execute env deps input)"
proof (rule world_relI)
  have c: "R (w_db w) (w_db w')"
    if "WithinTransaction env (dispatch_claim_body env scope i now) w = (r, w')" for scope i now w r w'
    using WithinTransaction_rel [OF dispatch_claim_body_rel dispatch_claim_body_seqs o, THEN world_relD, OF that] .
  show "R (w_db w) (w_db w')" if "Dispatch_Execute env deps input w = (r, w')" for w r w'
    using that
    by (auto simp: Dispatch_Execute_def read_clock_def refl dest!: c dispatch_loop_rel [OF o] intro: trans
        split: if_splits sum.splits prod.splits option.splits)
qed

end

interpretation dispatch_steps: dispatch_guarantee db_step
  by unfold_locales (rule outbox_steps)+

interpretation dispatch_ledger: dispatch_guarantee ledger_step
  by unfold_locales (rule outbox_ledger)+

section \<open>The frame of a dispatch\<close>

definition delivery_frame :: "DB \<Rightarrow> DB \<Rightarrow> bool" where
  "delivery_frame d d' \<longleftrightarrow>
     db_allocations d' = db_allocations d \<and> db_cursors d' = db_cursors d \<and>
     db_trackings d' = db_trackings d \<and> db_keys d' = db_keys d \<and>
     map nt_id (db_notifications d') = map nt_id (db_notifications d) \<and>
     map notif_change (db_notifications d') = map notif_change (db_notifications d)"

lemma set_result_change [simp]:
  "notif_change (set_sent at r) = notif_change r" "notif_change (set_pending n at reason r) = notif_change r"
  "notif_change (set_failed n reason r) = notif_change r"
  "notif_change (r\<lparr>nt_lease_until := l\<rparr>) = notif_change r"
  by (simp_all add: notif_change_def set_sent_def set_pending_def set_failed_def)

lemma delivery_frame_refl: "delivery_frame d d"
  by (simp add: delivery_frame_def)

lemma delivery_frame_put:
  assumes "\<And>r. nt_id (f r) = nt_id r" and "\<And>r. notif_change (f r) = notif_change r"
  shows "delivery_frame d (snd (put_notifications (update_where p f (db_notifications d)) x d))"
  using assms by (simp add: put_notifications_def delivery_frame_def)

interpretation delivery: dispatch_guarantee delivery_frame
proof
  show "delivery_frame d d" for d
    by (rule delivery_frame_refl)
  show "delivery_frame d d' \<Longrightarrow> delivery_frame d' d'' \<Longrightarrow> delivery_frame d d''" for d d' d''
    by (simp add: delivery_frame_def)
  show "seqs_le d d' \<Longrightarrow> delivery_frame d (keep_sequences d d')" for d d'
    by (simp add: delivery_frame_def)
  fix env :: Env
  have snd_exec: "delivery_frame (w_db w) (w_db w')"
    if "exec_sql env stmt w = (r, w')" "\<And>now d. delivery_frame d (snd (stmt now d))"
    for stmt :: "'x stmt" and w r w'
    using that delivery_frame_refl by (auto simp: exec_sql_def split: if_splits prod.splits) (metis snd_conv)
  have "delivery_frame d (snd (sql_claim_notifications at limit until locked now d))"
    for at limit until locked now d
    unfolding sql_claim_notifications_def Let_def by (rule delivery_frame_put) simp_all
  then show "world_rel delivery_frame (Outbox_ClaimPending env now limit until)" for now limit until
    by (intro world_relI)
      (auto simp: Outbox_ClaimPending_def delivery_frame_refl dest!: snd_exec
        split: if_splits prod.splits sum.splits)
  have "delivery_frame d (snd (sql_update_notification nid f now d))"
    if "\<And>r. nt_id (f r) = nt_id r" "\<And>r. notif_change (f r) = notif_change r" for nid f now d
    unfolding sql_update_notification_def by (rule delivery_frame_put) (use that in simp_all)
  then show "world_rel delivery_frame (Outbox_SaveDeliveryResult env res)" for res
    by (intro world_relI)
      (auto simp: Outbox_SaveDeliveryResult_def ensureNotificationRowsAffected_def delivery_frame_refl
        dest!: snd_exec split: if_splits prod.splits sum.splits option.splits)
qed

section \<open>The effect of one delivery\<close>

definition delivery_of ::
  "Notifier \<Rightarrow> DispatchInput \<Rightarrow> OutboxMessage \<Rightarrow> string \<Rightarrow> (NotifRow \<Rightarrow> NotifRow) \<Rightarrow> bool" where
  "delivery_of notifier input msg outcome f \<longleftrightarrow>
     (\<exists>n asset at.
        case notifier n (notify_input msg asset) of
          Inr _ \<Rightarrow> outcome = DeliveryStatusSent \<and> f = set_sent at
        | Inl _ \<Rightarrow>
            0 \<le> sint (msg_DeliveryAttempts msg) \<and>
            (if sint (din_MaxAttempts input) \<le> sint (msg_DeliveryAttempts msg + 1)
             then outcome = DeliveryStatusFailed \<and>
               f = set_failed (msg_DeliveryAttempts msg + 1) DeliveryFailureReasonDeliveryFailed
             else outcome = DeliveryStatusPending \<and>
               f = set_pending (msg_DeliveryAttempts msg + 1) (time_add at (din_RetryDelay input))
                     DeliveryFailureReasonDeliveryFailed))"

lemma save_delivery_Inr:
  assumes B: "save_delivery_body env scope res w = (Inr u, w')"
  shows "\<exists>f. db_notifications (w_db w') =
      update_where (\<lambda>r. nt_id r = res_NotificationID res) f (db_notifications (w_db w)) \<and>
    (\<exists>r \<in> set (db_notifications (w_db w)). nt_id r = res_NotificationID res) \<and>
    (res_Status res = DeliveryStatusSent \<and> (\<exists>at. res_DeliveredAt res = Some at \<and> f = set_sent at) \<or>
     res_Status res = DeliveryStatusPending \<and> (\<exists>at. res_NextAttemptAt res = Some at \<and>
        f = set_pending (res_Attempts res) at (res_LastFailureReason res)) \<or>
     res_Status res = DeliveryStatusFailed \<and> f = set_failed (res_Attempts res) (res_LastFailureReason res))"
proof -
  obtain u' where "Outbox_SaveDeliveryResult env res w = (Inr u', w')"
    using B by (auto simp: save_delivery_body_def split: if_splits prod.splits sum.splits)
  then have "Outbox_SaveDeliveryResult env res w = (Inr (), w')"
    by simp
  from SaveDeliveryResult_Inr [OF this] show ?thesis by blast
qed

lemma save_and_return_Inr:
  assumes S: "save_and_return env scope computed w = (Inr outcome, w')" and a: "alone env"
  shows "\<exists>res f. computed = Inr res \<and> outcome = res_Status res \<and>
    db_notifications (w_db w') =
      update_where (\<lambda>r. nt_id r = res_NotificationID res) f (db_notifications (w_db w)) \<and>
    (\<exists>r \<in> set (db_notifications (w_db w)). nt_id r = res_NotificationID res) \<and>
    (res_Status res = DeliveryStatusSent \<and> (\<exists>at. res_DeliveredAt res = Some at \<and> f = set_sent at) \<or>
     res_Status res = DeliveryStatusPending \<and> (\<exists>at. res_NextAttemptAt res = Some at \<and>
        f = set_pending (res_Attempts res) at (res_LastFailureReason res)) \<or>
     res_Status res = DeliveryStatusFailed \<and> f = set_failed (res_Attempts res) (res_LastFailureReason res))"
proof -
  obtain res u where c: "computed = Inr res" "outcome = res_Status res"
    and T: "WithinTransaction env (save_delivery_body env scope res) w = (Inr u, w')"
    using S by (auto simp: save_and_return_def saveDeliveryResult_def split: sum.splits prod.splits)
  then obtain x w2 where "save_delivery_body env scope res (begin_tx env w) = (Inr x, w2)" "w_db w' = w_db w2"
    using WithinTransaction_alone [OF T a] by auto
  from save_delivery_Inr [OF this(1)] this(2) c show ?thesis
    by (simp add: begin_tx_alone [OF a])
qed

lemma processNotification_Inr:
  assumes P: "processNotification env scope reader notifier input msg w = (Inr outcome, w')" and a: "alone env"
  shows "\<exists>f. delivery_of notifier input msg outcome f \<and>
    db_notifications (w_db w') =
      update_where (\<lambda>r. nt_id r = msg_NotificationID msg) f (db_notifications (w_db w)) \<and>
    (\<exists>r \<in> set (db_notifications (w_db w)). nt_id r = msg_NotificationID msg)"
proof -
  obtain policy where pol: "rdr_FindIssuanceByID reader (msg_AddressPolicyID msg) = Inr (Some policy)"
    using P by (auto simp: processNotification_def split: sum.splits option.splits)
  let ?in = "notify_input msg (trim_space (ipr_AssetReference policy))" and ?n = "w_step w"
  let ?now = "env_clock env (Suc ?n)"
  show ?thesis
  proof (cases "notifier ?n ?in")
    case (Inl e)
    let ?c = "ResolveDeliveryFailure (msg_NotificationID msg) (msg_DeliveryAttempts msg) (din_MaxAttempts input)
        ?now (din_RetryDelay input) DeliveryFailureReasonDeliveryFailed"
    have S: "save_and_return env scope ?c (tick (tick w)) = (Inr outcome, w')"
      using P pol Inl by (simp add: processNotification_def read_clock_def)
    obtain res f where r: "?c = Inr res" "outcome = res_Status res"
      "db_notifications (w_db w') = update_where (\<lambda>r. nt_id r = res_NotificationID res) f (db_notifications (w_db w))"
      "\<exists>r \<in> set (db_notifications (w_db w)). nt_id r = res_NotificationID res"
      and f: "res_Status res = DeliveryStatusSent \<and> (\<exists>at. res_DeliveredAt res = Some at \<and> f = set_sent at) \<or>
       res_Status res = DeliveryStatusPending \<and> (\<exists>at. res_NextAttemptAt res = Some at \<and>
          f = set_pending (res_Attempts res) at (res_LastFailureReason res)) \<or>
       res_Status res = DeliveryStatusFailed \<and> f = set_failed (res_Attempts res) (res_LastFailureReason res)"
      using save_and_return_Inr [OF S a] by auto
    have id: "res_NotificationID res = msg_NotificationID msg"
      using r(1) unfolding ResolveDeliveryFailure_Inr_iff by (auto split: if_splits)
    have "delivery_of notifier input msg outcome f"
      unfolding delivery_of_def
      by (intro exI [of _ ?n] exI [of _ "trim_space (ipr_AssetReference policy)"] exI [of _ ?now])
        (use Inl r(1,2) f in \<open>auto simp: ResolveDeliveryFailure_Inr_iff split: if_splits\<close>)
    then show ?thesis
      using r(3,4) id by auto
  next
    case (Inr u)
    let ?c = "MarkPaymentReceiptStatusNotificationSent (msg_NotificationID msg) ?now"
    have S: "save_and_return env scope ?c (tick (tick w)) = (Inr outcome, w')"
      using P pol Inr by (simp add: processNotification_def read_clock_def)
    obtain res f where r: "?c = Inr res" "outcome = res_Status res"
      "db_notifications (w_db w') = update_where (\<lambda>r. nt_id r = res_NotificationID res) f (db_notifications (w_db w))"
      "\<exists>r \<in> set (db_notifications (w_db w)). nt_id r = res_NotificationID res"
      and f: "res_Status res = DeliveryStatusSent \<and> (\<exists>at. res_DeliveredAt res = Some at \<and> f = set_sent at) \<or>
       res_Status res = DeliveryStatusPending \<or> res_Status res = DeliveryStatusFailed"
      using save_and_return_Inr [OF S a] by auto
    have id: "res_NotificationID res = msg_NotificationID msg" "f = set_sent ?now" "outcome = DeliveryStatusSent"
      using r(1,2) f unfolding MarkSent_Inr_iff by auto
    have "delivery_of notifier input msg outcome f"
      unfolding delivery_of_def
      by (intro exI [of _ ?n] exI [of _ "trim_space (ipr_AssetReference policy)"] exI [of _ ?now])
        (simp add: Inr id)
    then show ?thesis
      using r(3,4) id by auto
  qed
qed

text \<open>
  A failed attempt raises the counter by one, without wrapping while the limit is not
  reached, and it stays pending only below the limit: there are at most that many attempts.
\<close>

lemma delivery_attempts:
  assumes "delivery_of notifier input msg outcome f" and "nt_attempts r = msg_DeliveryAttempts msg"
    and "sint (msg_DeliveryAttempts msg) < sint (din_MaxAttempts input)"
  shows "outcome = DeliveryStatusSent \<and> nt_status (f r) = ''sent'' \<and> nt_attempts (f r) = nt_attempts r \<or>
    outcome = DeliveryStatusPending \<and> nt_status (f r) = ''pending'' \<and>
      sint (nt_attempts (f r)) = sint (nt_attempts r) + 1 \<and> sint (nt_attempts (f r)) < sint (din_MaxAttempts input) \<or>
    outcome = DeliveryStatusFailed \<and> nt_status (f r) = ''failed'' \<and>
      sint (nt_attempts (f r)) = sint (din_MaxAttempts input)"
proof -
  obtain n asset at where D: "case notifier n (notify_input msg asset) of
      Inr _ \<Rightarrow> outcome = DeliveryStatusSent \<and> f = set_sent at
    | Inl _ \<Rightarrow> 0 \<le> sint (msg_DeliveryAttempts msg) \<and>
        (if sint (din_MaxAttempts input) \<le> sint (msg_DeliveryAttempts msg + 1)
         then outcome = DeliveryStatusFailed \<and>
           f = set_failed (msg_DeliveryAttempts msg + 1) DeliveryFailureReasonDeliveryFailed
         else outcome = DeliveryStatusPending \<and>
           f = set_pending (msg_DeliveryAttempts msg + 1) (time_add at (din_RetryDelay input))
                 DeliveryFailureReasonDeliveryFailed)"
    using assms(1) unfolding delivery_of_def by blast
  show ?thesis
  proof (cases "notifier n (notify_input msg asset)")
    case (Inr u)
    with D show ?thesis by (simp add: set_sent_def)
  next
    case (Inl e)
    then have nn: "0 \<le> sint (msg_DeliveryAttempts msg)"
      using D by simp
    note attempts_no_wrap [OF nn assms(3)]
    then show ?thesis
      using Inl D assms(2,3) by (auto simp: set_pending_def set_failed_def split: if_splits)
  qed
qed

end
