(* ===== verification/Polling_Invariants.thy ===== *)
theory Polling_Invariants
  imports Polling_History
begin

text \<open>
  What a polling cycle preserves, by induction on its effect: every row goes on being the
  record of a well-formed tracking, the tracking of a row moves along a run of
  \<open>Payment_Lifecycle\<close>, and the notifications of an address keep spelling out the statuses
  from \<open>watching\<close> to the present one.
\<close>


section \<open>The rows after a save\<close>

lemma poll_step_same_identity: "poll_step t v \<Longrightarrow> same_identity t v"
  by (drule poll_step_terms) (simp add: receipt_terms_def same_identity_def)

lemma saved_row_tracked:
  assumes "tracked d r t" and "poll_step t v" and "trk_ExpiresAt v = Some e"
  shows "row_tracking (saved_row (paymentReceiptTrackingRecordFromDomain v) e p n r) = Inr v"
proof (rule row_tracking_saved)
  show "row_tracking r = Inr t"
    using assms(1) by (simp add: tracked_def)
  then have "tracking_portable t"
    using row_tracking_Inr [of r t] by blast
  then show "tracking_portable v"
    by (rule poll_step_portable [OF assms(2)])
qed (use assms poll_step_same_identity in auto)

lemma poll_saved_rows:
  assumes s: "poll_saved t v d d'" and r: "tracked d r t" and st: "poll_step t v" and inv: "db_inv d"
  shows "\<exists>r'. db_trackings d' = map (\<lambda>x. if x = r then r' else x) (db_trackings d) \<and>
    row_tracking r' = Inr v \<and> pt_id r' = pt_id r \<and>
    pt_payment_address_id r' = pt_payment_address_id r \<and> pt_status r' = trk_Status v"
proof -
  obtain e p n where e: "trk_ExpiresAt v = Some e"
    and d': "db_trackings d' = update_where (\<lambda>r. pt_payment_address_id r = trk_PaymentAddressID v)
        (saved_row (paymentReceiptTrackingRecordFromDomain v) e p n) (db_trackings d)"
    using s unfolding poll_saved_def by blast
  let ?r' = "saved_row (paymentReceiptTrackingRecordFromDomain v) e p n r"
  have pid: "trk_PaymentAddressID v = pt_payment_address_id r"
    using poll_step_address [OF st] tracked_address [OF r] by simp
  have "pt_payment_address_id x = trk_PaymentAddressID v \<longleftrightarrow> x = r" if "x \<in> set (db_trackings d)" for x
    using address_unique [OF inv] that r pid by (auto simp: tracked_def)
  then have "db_trackings d' = map (\<lambda>x. if x = r then ?r' else x) (db_trackings d)"
    unfolding d' update_where_def by (intro map_cong) auto
  moreover have "row_tracking ?r' = Inr v"
    by (rule saved_row_tracked [OF r st e])
  ultimately show ?thesis
    by (intro exI [of _ ?r']) (simp add: saved_row_def paymentReceiptTrackingRecordFromDomain_def)
qed

section \<open>Runs\<close>

definition runs :: "DB \<Rightarrow> DB \<Rightarrow> bool" where
  "runs d d' \<longleftrightarrow>
     (\<forall>r t. tracked d r t \<longrightarrow> (\<exists>r' u. tracked d' r' u \<and> pt_id r' = pt_id r \<and> poll_run t u))"

lemma runs_refl: "runs d d"
  unfolding runs_def by (blast intro: run_refl)

lemma runs_trans: "runs d d' \<Longrightarrow> runs d' d'' \<Longrightarrow> runs d d''"
  unfolding runs_def by (metis poll_run_trans)

lemma runs_same: "set (db_trackings d) \<subseteq> set (db_trackings d') \<Longrightarrow> runs d d'"
  unfolding runs_def tracked_def by (blast intro: run_refl)

lemma runs_lease:
  assumes "db_trackings d' = update_where p (\<lambda>r. r\<lparr>pt_lease_until := l\<rparr>) (db_trackings d)"
  shows "runs d d'"
proof -
  have "\<exists>r'. tracked d' r' t \<and> pt_id r' = pt_id r" if "tracked d r t" for r t
  proof (intro exI conjI)
    show "tracked d' (if p r then r\<lparr>pt_lease_until := l\<rparr> else r) t"
      using that unfolding tracked_def assms set_update_where by auto
  qed simp
  then show ?thesis
    unfolding runs_def by (blast intro: run_refl)
qed

lemma runs_save:
  assumes "tracked d r t" and "poll_step t v" and "poll_saved t v d d'" and "db_inv d"
  shows "runs d d'"
proof -
  obtain r' where d': "db_trackings d' = map (\<lambda>x. if x = r then r' else x) (db_trackings d)"
    and r': "row_tracking r' = Inr v" "pt_id r' = pt_id r"
    using poll_saved_rows [OF assms(3,1,2,4)] by blast
  have "\<exists>x' u. tracked d' x' u \<and> pt_id x' = pt_id x \<and> poll_run y u" if x: "tracked d x y" for x y
  proof (cases "x = r")
    case True
    then have "tracked d' r' v" and "y = t"
      using x assms(1) d' r'(1) by (auto simp: tracked_def)
    then show ?thesis
      using True r'(2) poll_run_one [OF assms(2)] by auto
  next
    case False
    then have "tracked d' x y"
      using x d' by (auto simp: tracked_def)
    then show ?thesis by (blast intro: run_refl)
  qed
  then show ?thesis by (simp add: runs_def)
qed

lemma poll_db_runs: "poll_db d d' \<Longrightarrow> runs d d'"
proof (induction rule: poll_db.induct)
  case (poll_db_lost d d')
  then show ?case by (intro runs_same) (simp add: only_seqs_iff)
qed (blast intro: runs_lease runs_save runs_trans)+

section \<open>Readable rows\<close>

definition trackings_wf :: "DB \<Rightarrow> bool" where
  "trackings_wf d \<longleftrightarrow>
     (\<forall>r \<in> set (db_trackings d). \<exists>t. row_tracking r = Inr t \<and> wf_tracking t \<and> pt_status r = trk_Status t)"

lemma poll_db_wf: "poll_db d d' \<Longrightarrow> trackings_wf d \<Longrightarrow> trackings_wf d'"
proof (induction rule: poll_db.induct)
  case (poll_db_lost d d')
  then show ?case by (simp add: only_seqs_iff trackings_wf_def)
next
  case (poll_db_lease d' p l d)
  have "\<exists>x \<in> set (db_trackings d). r = (if p x then x\<lparr>pt_lease_until := l\<rparr> else x)"
    if "r \<in> set (db_trackings d')" for r
    using that unfolding poll_db_lease(1) set_update_where .
  then show ?case
    using poll_db_lease(3) unfolding trackings_wf_def by fastforce
next
  case (poll_db_save d r t v d')
  obtain r' where d': "db_trackings d' = map (\<lambda>x. if x = r then r' else x) (db_trackings d)"
    and r': "row_tracking r' = Inr v" "pt_status r' = trk_Status v"
    using poll_saved_rows [OF poll_db_save(3,1,2,4)] by blast
  have "wf_tracking v"
    using poll_step_wf [OF poll_db_save(2)] poll_db_save(1,5) by (force simp: trackings_wf_def tracked_def)
  with d' r' poll_db_save(5) show ?case
    by (auto simp: trackings_wf_def)
qed blast

section \<open>The history in the outbox\<close>

fun status_path :: "string \<Rightarrow> (string \<times> string) list \<Rightarrow> string \<Rightarrow> bool" where
  "status_path st [] st' \<longleftrightarrow> st = st'"
| "status_path st ((prev, cur) # rest) st' \<longleftrightarrow> prev = st \<and> cur \<noteq> st \<and> status_path cur rest st'"

definition changes_of :: "int64 \<Rightarrow> DB \<Rightarrow> (string \<times> string) list" where
  "changes_of pid d =
     map (snd \<circ> notif_change) (filter (\<lambda>n. nt_payment_address_id n = pid) (db_notifications d))"

definition history_ok :: "DB \<Rightarrow> bool" where
  "history_ok d \<longleftrightarrow>
     (\<forall>r \<in> set (db_trackings d).
        status_path PaymentReceiptStatusWatching (changes_of (pt_payment_address_id r) d) (pt_status r)) \<and>
     (\<forall>n \<in> set (db_notifications d).
        nt_payment_address_id n \<in> set (map pt_payment_address_id (db_trackings d)))"

lemma status_path_append:
  "status_path st (xs @ ys) st'' \<longleftrightarrow> (\<exists>st'. status_path st xs st' \<and> status_path st' ys st'')"
  by (induction xs arbitrary: st) auto

lemma changes_of_append:
  assumes "db_notifications d' = db_notifications d @ ns"
  shows "changes_of pid d' = changes_of pid d @ map snd (filter (\<lambda>c. fst c = pid) (map notif_change ns))"
  by (simp add: changes_of_def assms filter_map o_def notif_change_def)

lemma changes_of_cong: "db_notifications d' = db_notifications d \<Longrightarrow> changes_of pid d' = changes_of pid d"
  by (simp add: changes_of_def)

text \<open>The invariant sees addresses, statuses and notifications only.\<close>

lemma history_ok_cong:
  assumes "map (\<lambda>r. (pt_payment_address_id r, pt_status r)) (db_trackings d') =
      map (\<lambda>r. (pt_payment_address_id r, pt_status r)) (db_trackings d)"
    and "map notif_change (db_notifications d') = map notif_change (db_notifications d)"
  shows "history_ok d' = history_ok d"
proof -
  have rows: "(\<lambda>r. (pt_payment_address_id r, pt_status r)) ` set (db_trackings d') =
      (\<lambda>r. (pt_payment_address_id r, pt_status r)) ` set (db_trackings d)"
    using arg_cong [OF assms(1), of set] by simp
  have ch: "changes_of pid e = map snd (filter (\<lambda>c. fst c = pid) (map notif_change (db_notifications e)))"
    for pid e
    by (simp add: changes_of_def filter_map o_def notif_change_def)
  have ids: "map pt_payment_address_id (db_trackings d') = map pt_payment_address_id (db_trackings d)"
    using arg_cong [OF assms(1), of "map fst"] by (simp add: o_def)
  have ns: "nt_payment_address_id ` set (db_notifications d') = nt_payment_address_id ` set (db_notifications d)"
    using arg_cong [OF assms(2), of "\<lambda>l. fst ` set l"] by (simp add: image_image notif_change_def)
  have gen: "(\<forall>r \<in> set (db_trackings e). P (pt_payment_address_id r) (pt_status r)) \<longleftrightarrow>
      (\<forall>x \<in> (\<lambda>r. (pt_payment_address_id r, pt_status r)) ` set (db_trackings e). P (fst x) (snd x))" for e P
    by auto
  have 1: "(\<forall>r \<in> set (db_trackings d'). P (pt_payment_address_id r) (pt_status r)) \<longleftrightarrow>
      (\<forall>r \<in> set (db_trackings d). P (pt_payment_address_id r) (pt_status r))" for P
    using gen [of d' P] gen [of d P] unfolding rows by argo
  have img: "(\<forall>n \<in> set (db_notifications e). nt_payment_address_id n \<in> S) \<longleftrightarrow>
      nt_payment_address_id ` set (db_notifications e) \<subseteq> S" for e S
    by auto
  have 2: "(\<forall>n \<in> set (db_notifications d'). nt_payment_address_id n \<in> S) \<longleftrightarrow>
      (\<forall>n \<in> set (db_notifications d). nt_payment_address_id n \<in> S)" for S
    unfolding img ns ..
  show ?thesis
    unfolding history_ok_def 1 [of "\<lambda>i st. status_path _ (changes_of i d') st"] 2 ids
    by (simp only: ch assms(2))
qed

lemma history_save:
  assumes h: "history_ok d" and r: "tracked d r t" and st: "poll_step t v" and s: "poll_saved t v d d'"
    and inv: "db_inv d" and wf: "trackings_wf d"
  shows "history_ok d'"
proof -
  obtain r' where d': "db_trackings d' = map (\<lambda>x. if x = r then r' else x) (db_trackings d)"
    and r': "pt_payment_address_id r' = pt_payment_address_id r" "pt_status r' = trk_Status v"
    using poll_saved_rows [OF s r st inv] by blast
  have pid: "trk_PaymentAddressID v = pt_payment_address_id r"
    using poll_step_address [OF st] tracked_address [OF r] by simp
  obtain ns where n: "db_notifications d' = db_notifications d @ ns"
    and ns: "map notif_change ns = (if trk_Status t = trk_Status v then []
        else [(pt_payment_address_id r, trk_Status t, trk_Status v)])"
    using s pid unfolding poll_saved_def by auto
  have rd: "r \<in> set (db_trackings d)" and stat: "pt_status r = trk_Status t"
    using r wf by (auto simp: tracked_def trackings_wf_def)
  have ids: "map pt_payment_address_id (db_trackings d') = map pt_payment_address_id (db_trackings d)"
    unfolding d' using r'(1) by simp
  have path: "status_path PaymentReceiptStatusWatching (changes_of (pt_payment_address_id x) d') (pt_status x)"
    if x: "x \<in> set (db_trackings d')" for x
  proof (cases "x = r'")
    case True
    have "status_path PaymentReceiptStatusWatching (changes_of (pt_payment_address_id r) d) (trk_Status t)"
      using h rd stat by (auto simp: history_ok_def)
    then show ?thesis
      using True r' unfolding changes_of_append [OF n] ns by (auto simp: status_path_append)
  next
    case False
    then have xd: "x \<in> set (db_trackings d)" and "x \<noteq> r"
      using x unfolding d' by auto
    then have "pt_payment_address_id x \<noteq> pt_payment_address_id r"
      using address_unique [OF inv xd rd] by blast
    then have "changes_of (pt_payment_address_id x) d' = changes_of (pt_payment_address_id x) d"
      unfolding changes_of_append [OF n] ns by simp
    then show ?thesis
      using h xd by (simp add: history_ok_def)
  qed
  have "nt_payment_address_id m \<in> set (map pt_payment_address_id (db_trackings d))"
    if "m \<in> set ns" for m
  proof -
    have "notif_change m \<in> set (map notif_change ns)"
      using that by simp
    then show ?thesis
      using rd unfolding ns by (auto simp: notif_change_def split: if_splits)
  qed
  then show ?thesis
    using h path unfolding history_ok_def n ids by auto
qed

lemma poll_db_history:
  "poll_db d d' \<Longrightarrow> trackings_wf d \<and> history_ok d \<Longrightarrow> trackings_wf d' \<and> history_ok d'"
proof (induction rule: poll_db.induct)
  case (poll_db_lost d d')
  then show ?case
    using history_ok_cong [of d' d] by (simp add: only_seqs_iff trackings_wf_def)
next
  case (poll_db_lease d' p l d)
  have "history_ok d' = history_ok d"
    using poll_db_lease(2) by (intro history_ok_cong) (simp_all add: poll_db_lease(1) only_seqs_iff)
  with poll_db_lease show ?case
    using poll_db_wf [OF poll_db.poll_db_lease] by blast
next
  case (poll_db_save d r t v d')
  then show ?case
    using poll_db_wf [OF poll_db.poll_db_save] history_save by blast
qed blast

end
