(* ===== verification/Status_Finder.thy ===== *)
theory Status_Finder
  imports Sql_Db
begin

text \<open>
  The read model of
  \<open>adapters/outbound/persistence/postgres/payment_address_status_finder.go\<close>: an issued
  allocation of the given chain, left-joined with its receipt tracking. A NULL of the joined
  columns is reported as an incomplete status. The finder runs outside a transaction, on the
  database of the moment.
\<close>

definition sql_select_status ::
  "string \<Rightarrow> int64 \<Rightarrow> (AllocRow \<times> TrackRow option) option stmt" where
  "sql_select_status chain pid now d =
     (Inr (map_option
        (\<lambda>a. (a, find (\<lambda>r. pt_payment_address_id r = al_id a) (db_trackings d)))
        (find (\<lambda>a. al_chain a = Some chain \<and> al_id a = pid \<and> al_status a = ''issued'')
           (db_allocations d))), d)"

text \<open>
  The columns of the tracking are declared NOT NULL, so they are NULL together, exactly when
  the join finds no row.
\<close>

definition scan_status ::
  "AllocRow \<Rightarrow> TrackRow option \<Rightarrow> PaymentAddressStatusRecord option result" where
  "scan_status a joined =
     (case (al_issued_at a, joined) of
        (Some issuedAt, Some pr) \<Rightarrow>
          (case NormalizeSupportedChain (coalesce (al_chain a)) of
             None \<Rightarrow> Inl (OutFinder out_ErrPaymentAddressStatusPersistedChainInvalid)
           | Some chain \<Rightarrow>
          (case NormalizeAddressPolicyID (al_policy a) of
             None \<Rightarrow> Inl (OutFinder out_ErrPaymentAddressStatusPersistedAddressPolicyIDInvalid)
           | Some parsedAddressPolicyID \<Rightarrow>
          (case NormalizeNetworkID (coalesce (al_network a)) of
             None \<Rightarrow> Inl (OutFinder out_ErrPaymentAddressStatusPersistedNetworkInvalid)
           | Some network \<Rightarrow>
          (case NormalizePaymentReceiptStatus (pt_status pr) of
             None \<Rightarrow> Inl (OutFinder out_ErrPaymentAddressStatusPersistedReceiptStatusInvalid)
           | Some status \<Rightarrow>
          (case NormalizeAddressScheme (coalesce (al_scheme a)) of
             None \<Rightarrow> Inl (OutFinder out_ErrPaymentAddressStatusIncomplete)
           | Some normalizedScheme \<Rightarrow>
               Inr (Some
                 \<lparr>psr_PaymentAddressID = al_id a, psr_AddressPolicyID = parsedAddressPolicyID,
                  psr_ExpectedAmountMinor = al_expected a,
                  psr_CustomerReference = trim_space (coalesce (al_customer a)),
                  psr_Chain = chain, psr_Network = network, psr_Scheme = normalizedScheme,
                  psr_Address = trim_space (coalesce (al_address a)),
                  psr_PaymentStatus = status, psr_ObservedTotalMinor = pt_observed pr,
                  psr_ConfirmedTotalMinor = pt_confirmed pr,
                  psr_UnconfirmedTotalMinor = pt_unconfirmed pr,
                  psr_RequiredConfirmations = pt_confirmations pr,
                  psr_LastObservedBlockHeight = pt_height pr,
                  psr_IssuedAt = issuedAt, psr_FirstObservedAt = pt_first_observed_at pr,
                  psr_PaidAt = pt_paid_at pr, psr_ConfirmedAt = pt_confirmed_at pr,
                  psr_ExpiresAt = Some (pt_expires_at pr),
                  psr_LastFailureReason =
                    persistedTrackingFailureReason (coalesce (pt_last_error pr))\<rparr>))))))
      | _ \<Rightarrow> Inl (OutFinder out_ErrPaymentAddressStatusIncomplete))"

definition StatusFinder_FindByID ::
  "Env \<Rightarrow> string \<Rightarrow> int64 \<Rightarrow> World \<Rightarrow> PaymentAddressStatusRecord option result \<times> World" where
  "StatusFinder_FindByID env chain paymentAddressID w =
     (if sint paymentAddressID \<le> 0 then (Inr None, w)
      else case exec_sql env (sql_select_status chain paymentAddressID) w of
          (Inl _, w1) \<Rightarrow> (Inl (OutFinder out_ErrPaymentAddressStatusFindFailed), w1)
        | (Inr None, w1) \<Rightarrow> (Inr None, w1)
        | (Inr (Some (a, pr)), w1) \<Rightarrow> (scan_status a pr, w1))"

lemma StatusFinder_db: "StatusFinder_FindByID env chain pid w = (r, w') \<Longrightarrow> w_db w' = w_db w"
  by (auto simp: StatusFinder_FindByID_def exec_sql_def sql_select_status_def
      split: if_splits prod.splits sum.splits option.splits)

lemma StatusFinder_errors:
  "StatusFinder_FindByID env chain pid w = (Inl e, w') \<Longrightarrow> \<exists>x. e = OutFinder x"
  by (auto simp: StatusFinder_FindByID_def scan_status_def
      split: if_splits prod.splits sum.splits option.splits)

end
