(* ===== verification/Allocate_Replay.thy ===== *)
theory Allocate_Replay
  imports Issuance_Ledger Policy_Reader
begin

text \<open>
  Idempotency of the allocation: a successful request with an idempotency key can be
  replayed. What makes a response replayable is a property of the key table and of the
  issued allocations that every step of the program keeps, so that the replay gives the same
  response however much later it comes.
\<close>

definition replayable :: "DB \<Rightarrow> AllocateInput \<Rightarrow> AddressPolicyID \<Rightarrow> PaymentAddressAllocation \<Rightarrow> bool" where
  "replayable d input pid a \<longleftrightarrow>
     trim_space (ai_IdempotencyKey input) \<noteq> [] \<and>
     (\<exists>k \<in> set (db_keys d). \<exists>r \<in> issued_rows d. \<exists>rec ar.
        key_id k = (ai_Chain input, trim_space (ai_IdempotencyKey input)) \<and>
        ik_payment_address_id k = Some (al_id r) \<and> 0 < sint (al_id r) \<and>
        scan_key (trim_space (ai_IdempotencyKey input)) k = Inr (Some rec) \<and>
        idr_AddressPolicyID rec = pid \<and> idr_ExpectedAmountMinor rec = ai_ExpectedAmountMinor input \<and>
        idr_CustomerReference rec = ai_CustomerReference input \<and>
        scan_issued_allocation r = Inr (Some ar) \<and> paymentAddressAllocationFromRecord ar = Inr a)"

lemma replayableI:
  assumes "trim_space (ai_IdempotencyKey input) \<noteq> []" and "k \<in> set (db_keys d)" and "r \<in> issued_rows d"
    and "key_id k = (ai_Chain input, trim_space (ai_IdempotencyKey input))"
    and "ik_payment_address_id k = Some (al_id r)" and "0 < sint (al_id r)"
    and "scan_key (trim_space (ai_IdempotencyKey input)) k = Inr (Some rec)"
    and "idr_AddressPolicyID rec = pid" and "idr_ExpectedAmountMinor rec = ai_ExpectedAmountMinor input"
    and "idr_CustomerReference rec = ai_CustomerReference input"
    and "scan_issued_allocation r = Inr (Some ar)" and "paymentAddressAllocationFromRecord ar = Inr a"
  shows "replayable d input pid a"
  using assms unfolding replayable_def by blast

section \<open>A replayable response is replayed\<close>

lemma find_unique:
  assumes "x \<in> set xs" and "P x" and "\<And>y. y \<in> set xs \<Longrightarrow> P y \<Longrightarrow> y = x"
  shows "find P xs = Some x"
proof (cases "find P xs")
  case None
  with assms(1,2) show ?thesis by (auto simp: find_None_iff)
next
  case (Some y)
  then have "y \<in> set xs" "P y"
    by (auto simp: find_Some_iff)
  with assms(3) Some show ?thesis by simp
qed

lemma find_SomeD: "find P xs = Some x \<Longrightarrow> x \<in> set xs \<and> P x"
  by (auto simp: find_Some_iff)

lemma scan_key_id: "scan_key key k = Inr (Some rec) \<Longrightarrow>
    idr_PaymentAddressID rec = (case ik_payment_address_id k of None \<Rightarrow> 0 | Some i \<Rightarrow> i)"
  by (auto simp: scan_key_def split: option.splits)

lemma scan_issued_id: "scan_issued_allocation r = Inr (Some ar) \<Longrightarrow> ar_PaymentAddressID ar = al_id r"
  by (auto simp: scan_issued_allocation_def split: option.splits if_splits)

lemma from_record_id: "paymentAddressAllocationFromRecord ar = Inr a \<Longrightarrow>
    alc_PaymentAddressID a = ar_PaymentAddressID ar"
  by (auto simp: paymentAddressAllocationFromRecord_def split: sum.splits)

definition no_faults :: "Env \<Rightarrow> bool" where
  "no_faults env \<longleftrightarrow> (\<forall>n. \<not> env_fault env n)"

lemma exec_sql_no_faults: "no_faults env \<Longrightarrow>
    exec_sql env stmt w = (let (r, d) = stmt (w_now w) (w_db w) in (r, (tick w)\<lparr>w_db := d\<rparr>))"
  by (simp add: exec_sql_def no_faults_def split: prod.split)

lemma replay_body_replayable:
  assumes rp: "replayable (w_db w) input pid a" and inv: "db_inv (w_db w)" and nf: "no_faults env"
    and scope: "ts_Allocation scope" "ts_Idempotency scope"
  shows "replay_body env scope input pid w =
     (Inr (Some a), (tick (tick w))\<lparr>w_db := w_db w\<rparr>) \<and> 0 < sint (alc_PaymentAddressID a)"
proof -
  let ?d = "w_db w" and ?key = "trim_space (ai_IdempotencyKey input)"
  obtain k r rec ar where kr: "k \<in> set (db_keys ?d)" "r \<in> set (db_allocations ?d)"
    "al_status r = ''issued''" "key_id k = (ai_Chain input, ?key)"
    "ik_payment_address_id k = Some (al_id r)" "0 < sint (al_id r)"
    and sk: "scan_key ?key k = Inr (Some rec)"
    and m: "idr_AddressPolicyID rec = pid" "idr_ExpectedAmountMinor rec = ai_ExpectedAmountMinor input"
      "idr_CustomerReference rec = ai_CustomerReference input"
    and sr: "scan_issued_allocation r = Inr (Some ar)" and fr: "paymentAddressAllocationFromRecord ar = Inr a"
    and ne: "?key \<noteq> []"
    using rp by (auto simp: replayable_def issued_rows_def)
  have "find (\<lambda>k. key_id k = (ai_Chain input, ?key)) (db_keys ?d) = Some k"
    using inv kr(1,4)
    by (intro find_unique) (auto simp: db_inv_def schema_ok_def keys_ok_def distinct_map inj_on_def)
  then have 1: "IdempotencyStore_FindByKey env (ai_Chain input) (ai_IdempotencyKey input) w =
      (Inr (Some rec), tick w)"
    using ne sk by (simp add: IdempotencyStore_FindByKey_def Let_def exec_sql_no_faults [OF nf] sql_select_key_def)
  have id: "idr_PaymentAddressID rec = al_id r"
    using scan_key_id [OF sk] kr(5) by simp
  have "find (\<lambda>x. al_id x = al_id r \<and> al_status x = ''issued'') (db_allocations ?d) = Some r"
    using db_inv_ids [OF inv] kr(2,3) by (intro find_unique) auto
  then have 2: "AllocationStore_FindIssuedByID env (al_id r) (tick w) =
      (Inr (Some ar), (tick (tick w))\<lparr>w_db := w_db w\<rparr>)"
    using kr(6) sr
    by (simp add: AllocationStore_FindIssuedByID_def exec_sql_no_faults [OF nf] sql_select_issued_def)
  have "alc_PaymentAddressID a = al_id r"
    using scan_issued_id [OF sr] from_record_id [OF fr] by simp
  with 1 2 id m fr kr(6) scope show ?thesis
    by (simp add: replay_body_def)
qed

text \<open>Nothing that the program does to the database takes a replayable response away.\<close>

lemma replayable_step:
  assumes "replayable d input pid a" and "db_step d d'" and "db_inv d"
  shows "replayable d' input pid a"
proof -
  have k: "\<And>k. k \<in> set (db_keys d) \<Longrightarrow> ik_payment_address_id k \<noteq> None \<Longrightarrow> k \<in> set (db_keys d')"
    and r: "\<And>r. r \<in> issued_rows d \<Longrightarrow> r \<in> issued_rows d'"
    using assms(2,3) by (auto simp: db_step_def db_keeps_def issued_rows_def)
  show ?thesis
    using assms(1) k r unfolding replayable_def by (metis option.distinct(1))
qed

definition calm :: "Env \<Rightarrow> bool" where
  "calm env \<longleftrightarrow> no_faults env \<and> (\<forall>n. env_commit env n = Committed) \<and> (\<forall>n d. env_others env n d = d)"

lemma WithinTransaction_calm:
  assumes c: "calm env" and "fn (begin_tx env w) = (Inr x, w1)"
  shows "WithinTransaction env fn w = (Inr x, tick w1)"
  using assms by (simp add: WithinTransaction_def calm_def no_faults_def Let_def)

lemma loadReplayed_replayable:
  assumes rp: "replayable (w_db w) input pid a" and inv: "db_inv (w_db w)" and c: "calm env"
    and scope: "ts_Allocation scope" "ts_Idempotency scope"
    and policy: "rdr_FindIssuanceByID reader (alc_AddressPolicyID a) = Inr (Some prec)"
      "addressIssuancePolicyFromRecord prec = Inr policy"
  shows "\<exists>w'. loadReplayedAllocationResponse env scope reader input pid w =
     (Inr (Some (allocation_response policy a True)), w') \<and> w_db w' = w_db w"
proof -
  let ?w1 = "begin_tx env w"
  have d1: "w_db ?w1 = w_db w"
    using c by (simp add: begin_tx_def calm_def)
  have key: "ai_IdempotencyKey input \<noteq> []"
    using rp by (auto simp: replayable_def)
  have nf: "no_faults env"
    using c by (simp add: calm_def)
  have B: "replay_body env scope input pid ?w1 = (Inr (Some a), (tick (tick ?w1))\<lparr>w_db := w_db ?w1\<rparr>) \<and>
      0 < sint (alc_PaymentAddressID a)"
    using rp inv by (intro replay_body_replayable nf scope) (simp_all add: d1)
  show ?thesis
    using WithinTransaction_calm [OF c, of "replay_body env scope input pid"] key policy B d1
    by (auto simp: loadReplayedAllocationResponse_def)
qed

section \<open>A successful request is replayable\<close>

lemma replay_body_Some:
  assumes "replay_body env scope input pid w = (Inr (Some a), w')"
  shows "replayable (w_db w) input pid a"
proof -
  let ?key = "trim_space (ai_IdempotencyKey input)"
  obtain rec w1 where 1: "IdempotencyStore_FindByKey env (ai_Chain input) (ai_IdempotencyKey input) w = (Inr (Some rec), w1)"
    and m: "0 < sint (idr_PaymentAddressID rec)" "idr_AddressPolicyID rec = pid"
      "idr_ExpectedAmountMinor rec = ai_ExpectedAmountMinor input"
      "idr_CustomerReference rec = ai_CustomerReference input"
    and 2: "\<exists>ar w2. AllocationStore_FindIssuedByID env (idr_PaymentAddressID rec) w1 = (Inr (Some ar), w2) \<and>
      paymentAddressAllocationFromRecord ar = Inr a"
    using assms
    by (auto simp: replay_body_def not_le split: if_splits prod.splits sum.splits option.splits)
  obtain ar w2 where 3: "AllocationStore_FindIssuedByID env (idr_PaymentAddressID rec) w1 = (Inr (Some ar), w2)"
    and fr: "paymentAddressAllocationFromRecord ar = Inr a"
    using 2 by blast
  obtain k where k: "k \<in> set (db_keys (w_db w))" "key_id k = (ai_Chain input, ?key)"
    "scan_key ?key k = Inr (Some rec)" and ne: "?key \<noteq> []" and db1: "w_db w1 = w_db w"
    using 1
    by (auto simp: IdempotencyStore_FindByKey_def Let_def exec_sql_Inr_iff sql_select_key_def
        dest!: find_SomeD split: if_splits prod.splits sum.splits option.splits)
  obtain r where r: "r \<in> set (db_allocations (w_db w))" "al_id r = idr_PaymentAddressID rec"
    "al_status r = ''issued''" "scan_issued_allocation r = Inr (Some ar)"
    using 3 db1
    by (auto simp: AllocationStore_FindIssuedByID_def exec_sql_Inr_iff sql_select_issued_def
        dest!: find_SomeD split: if_splits prod.splits sum.splits option.splits)
  have "ik_payment_address_id k = Some (al_id r)"
    using scan_key_id [OF k(3)] m(1) r(2) by (auto split: option.splits)
  moreover have "r \<in> issued_rows (w_db w)" "0 < sint (al_id r)"
    using r m(1) by (simp_all add: issued_rows_def)
  ultimately show ?thesis
    using k r(4) m ne fr by (intro replayableI)
qed

lemma scan_issued_entity:
  assumes a: "issued_entity a" and r: "row_of_allocation a at r" and s: "alloc_row_ok r"
  shows "\<exists>ar. scan_issued_allocation r = Inr (Some ar) \<and> paymentAddressAllocationFromRecord ar = Inr a"
proof -
  have sl: "0 \<le> al_slot r" "al_slot r \<le> maxSlotIndex"
    using s by (simp_all add: alloc_row_ok_def maxSlotIndex_def)
  have "scan_issued_allocation r = Inr (Some (paymentAddressAllocationRecordFromDomain a))"
    using a r sl
    by (auto simp: scan_issued_allocation_def issued_entity_def allocation_portable_def
        row_of_allocation_def ParseChainID_of_portable paymentAddressAllocationRecordFromDomain_def
        PaymentAddressAllocationStatusIssued_def)
  moreover have "paymentAddressAllocationFromRecord (paymentAddressAllocationRecordFromDomain a) = Inr a"
    using a by (simp add: allocation_record_roundtrip issued_entity_def)
  ultimately show ?thesis by blast
qed

lemma WithinTransaction_Inr:
  assumes "WithinTransaction env fn w = (Inr x, w')"
  shows "\<exists>w2. fn (begin_tx env w) = (Inr x, w2) \<and> w_db w' = w_db w2"
  using assms
  by (auto simp: WithinTransaction_def Let_def split: if_splits prod.splits sum.splits commit_outcome.splits)

lemma begin_tx_inv:
  assumes "others_rel db_step env" and "db_inv (w_db w)"
  shows "db_inv (w_db (begin_tx env w))"
  using assms by (simp add: begin_tx_def others_rel_def db_step_def db_keeps_def)

lemma loadReplayed_Some:
  assumes "loadReplayedAllocationResponse env scope reader input pid w = (Inr (Some resp), w')"
  shows "\<exists>a prec policy. replayable (w_db w') input pid a \<and>
     rdr_FindIssuanceByID reader (alc_AddressPolicyID a) = Inr (Some prec) \<and>
     addressIssuancePolicyFromRecord prec = Inr policy \<and> resp = allocation_response policy a True"
proof -
  obtain a where tx: "WithinTransaction env (replay_body env scope input pid) w = (Inr (Some a), w')"
    and rest: "\<exists>prec policy. rdr_FindIssuanceByID reader (alc_AddressPolicyID a) = Inr (Some prec) \<and>
      addressIssuancePolicyFromRecord prec = Inr policy \<and> resp = allocation_response policy a True"
    using assms
    by (auto simp: loadReplayedAllocationResponse_def split: if_splits prod.splits sum.splits option.splits)
  obtain w2 where b: "replay_body env scope input pid (begin_tx env w) = (Inr (Some a), w2)"
    and d: "w_db w' = w_db w2"
    using WithinTransaction_Inr [OF tx] by blast
  have "replayable (w_db w') input pid a"
    using replay_body_Some [OF b] replay_body_db [OF b] d by simp
  with rest show ?thesis by blast
qed

lemma issueAllocation_replayable:
  assumes I: "issueAllocation env scope deriver input plan at w = (Inr a, w')"
    and o: "others_rel db_step env" and inv: "db_inv (w_db w)"
    and rec: "addressIssuancePolicyFromRecord prec = Inr policy"
    and plan: "Plan ipol policy (ai_Chain input) (ai_ExpectedAmountMinor input)
        (ai_CustomerReference input) at = Inr plan"
    and cust: "trim_space (ai_CustomerReference input) = ai_CustomerReference input"
    and key: "ai_IdempotencyKey input \<noteq> []" and pid: "aip_AddressPolicyID policy = pid"
  shows "replayable (w_db w') input pid a \<and> alc_AddressPolicyID a = pid"
proof -
  let ?key = "trim_space (ai_IdempotencyKey input)"
  note P = Plan_policy [OF rec plan] and pm = Plan_matches [OF rec plan]
  obtain w2 where B: "issue_body env scope deriver input plan at (begin_tx env w) = (Inr a, w2)"
    and d: "w_db w' = w_db w2"
    using I WithinTransaction_Inr [of env "issue_body env scope deriver input plan at" w]
    by (auto simp: issueAllocation_def split: prod.splits sum.splits)
  have inv1: "db_inv (w_db (begin_tx env w))"
    by (rule begin_tx_inv [OF o inv])
  then have inv2: "db_inv (w_db w2)"
    using ok_relD [OF issue_body_step B] by (simp add: db_step_def db_keeps_def)
  obtain r where E: "issued_for plan a" "row_of_allocation a at r" "r \<in> set (db_allocations (w_db w2))"
      "r \<in> issued_rows (w_db w2)"
      "completed_key_row input plan (alc_PaymentAddressID a) \<in> set (db_keys (w_db w2))"
    using issue_body_Inr [OF B inv1 pm] key by auto
  let ?k = "completed_key_row input plan (alc_PaymentAddressID a)"
  have ne: "?key \<noteq> []"
    using B key by (auto simp: issue_body_def Let_def claim_key_def Claim_Inr_iff
        split: if_splits prod.splits sum.splits)
  have rid: "al_id r = alc_PaymentAddressID a" and rpos: "0 < sint (al_id r)" and rok: "alloc_row_ok r"
    using E(2,3) inv2
    by (auto simp: row_of_allocation_def db_inv_def serials_ok_def schema_ok_def allocations_ok_def list_all_iff)
  obtain ar where ar: "scan_issued_allocation r = Inr (Some ar)" "paymentAddressAllocationFromRecord ar = Inr a"
    using scan_issued_entity [OF issued_for_entity [OF E(1) pm] E(2) rok] by blast
  have polid: "alc_AddressPolicyID a = pid"
    using E(1) P pid by (simp add: issued_for_def Let_def)
  have cpid: "portable_id pid" "ParseSupportedChain (ai_Chain input) = Some (ai_Chain input)"
    using P pid by auto
  define rec' where "rec' = \<lparr>idr_Chain = ai_Chain input, idr_IdempotencyKey = ?key, idr_AddressPolicyID = pid,
      idr_ExpectedAmountMinor = ai_ExpectedAmountMinor input,
      idr_CustomerReference = ai_CustomerReference input, idr_PaymentAddressID = alc_PaymentAddressID a\<rparr>"
  have "scan_key ?key ?k = Inr (Some rec')"
    using P pid cpid cust
    by (simp add: scan_key_def completed_key_row_def ParseChainID_of_portable rec'_def)
  moreover have "key_id ?k = (ai_Chain input, ?key)" "ik_payment_address_id ?k = Some (al_id r)"
    by (simp_all add: key_id_def completed_key_row_def rid)
  ultimately have "replayable (w_db w2) input pid a"
    using ne E(4,5) rpos ar by (intro replayableI [of input ?k _ r rec']) (simp_all add: rec'_def)
  with polid d show ?thesis by simp
qed

context policy_reader
begin

text \<open>
  Every successful answer of the use case for a request with a key is replayable, whichever of
  its three ways it came: a replay, a fresh allocation, or the answer of a concurrent request
  that won the key.
\<close>

lemma allocate_fresh_replayable:
  assumes A: "allocate_fresh env scope deriver reader ipol input chain pid w = (Inr resp, w')"
    and reader: "rdr_FindIssuanceByID reader = find_issuance"
    and o: "others_rel db_step env" and inv: "db_inv (w_db w)"
    and chain: "ai_Chain input = chain" and pid: "portable_id pid"
    and cust: "trim_space (ai_CustomerReference input) = ai_CustomerReference input"
    and key: "ai_IdempotencyKey input \<noteq> []"
  shows "\<exists>a prec policy rep. replayable (w_db w') input pid a \<and>
     find_issuance (alc_AddressPolicyID a) = Inr (Some prec) \<and>
     addressIssuancePolicyFromRecord prec = Inr policy \<and> resp = allocation_response policy a rep"
proof -
  let ?at = "env_clock env (w_step w)" and ?w1 = "tick w"
  obtain prec policy plan where f: "find_issuance pid = Inr (Some prec)"
    and p: "addressIssuancePolicyFromRecord prec = Inr policy"
    and plan: "Plan ipol policy chain (ai_ExpectedAmountMinor input) (ai_CustomerReference input) ?at = Inr plan"
    and ai: "allocate_issued env scope deriver reader input pid policy plan ?at ?w1 = (Inr resp, w')"
    using A reader
    by (auto simp: allocate_fresh_def read_clock_def split: prod.splits sum.splits option.splits)
  have pp: "aip_AddressPolicyID policy = pid"
    using find_policy [OF f] p ParseChainID_of_portable [OF pid] by auto
  show ?thesis
  proof (cases "issueAllocation env scope deriver input plan ?at ?w1")
    case (Pair x w2)
    show ?thesis
    proof (cases x)
      case (Inl e)
      with ai Pair have "\<exists>w3. loadReplayedAllocationResponse env scope reader input pid w2 = (Inr (Some resp), w3) \<and> w3 = w'"
        by (auto simp: allocate_issued_def split: if_splits prod.splits sum.splits option.splits)
      then show ?thesis
        using loadReplayed_Some [of env scope reader input pid w2 resp w'] reader by blast
    next
      case (Inr a)
      then have "replayable (w_db w2) input pid a \<and> alc_AddressPolicyID a = pid"
        using issueAllocation_replayable [of env scope deriver input plan ?at ?w1 a w2] Pair o inv p plan
          cust key pp chain by simp
      moreover have "resp = allocation_response policy a False \<and> w2 = w'"
        using ai Pair Inr by (auto simp: allocate_issued_def split: if_splits)
      ultimately show ?thesis
        using f p by auto
    qed
  qed
qed

lemma Allocate_Execute_replayable:
  assumes A: "Allocate_Execute env deps input0 w = (Inr resp, w')"
    and reader: "ad_policyReader deps = Some reader" "rdr_FindIssuanceByID reader = find_issuance"
    and o: "others_rel db_step env" and inv: "db_inv (w_db w)"
    and cust: "trim_space (ai_CustomerReference input0) = ai_CustomerReference input0"
    and key: "ai_IdempotencyKey input0 \<noteq> []"
  shows "\<exists>chain pid a prec policy rep.
     ParseSupportedChain (ai_Chain input0) = Some chain \<and>
     NewAddressPolicyID (ai_AddressPolicyID input0) = Inr pid \<and>
     replayable (w_db w') (input0\<lparr>ai_Chain := chain\<rparr>) pid a \<and>
     find_issuance (alc_AddressPolicyID a) = Inr (Some prec) \<and>
     addressIssuancePolicyFromRecord prec = Inr policy \<and> resp = allocation_response policy a rep"
proof -
  obtain scope deriver chain pid r1 w1 where c: "ParseSupportedChain (ai_Chain input0) = Some chain"
    and pid: "NewAddressPolicyID (ai_AddressPolicyID input0) = Inr pid"
    and L: "loadReplayedAllocationResponse env scope reader (input0\<lparr>ai_Chain := chain\<rparr>) pid w = (Inr r1, w1)"
    and F: "r1 = Some resp \<and> w1 = w' \<or> r1 = None \<and> allocate_fresh env scope deriver reader
        (ad_issuancePolicy deps) (input0\<lparr>ai_Chain := chain\<rparr>) chain pid w1 = (Inr resp, w')"
    using A reader(1)
    by (auto simp: Allocate_Execute_def Let_def split: if_splits prod.splits sum.splits option.splits)
  have inv1: "db_inv (w_db w1)"
    using world_relD [OF loadReplayed_step [OF o] L] inv by (simp add: db_step_def db_keeps_def)
  have pp: "portable_id pid"
    using pid by (auto simp: NewAddressPolicyID_Inr ParseChainID_portable)
  show ?thesis
  proof (cases r1)
    case None
    then show ?thesis
      using F c pid allocate_fresh_replayable [OF _ reader(2) o inv1 _ pp, of scope deriver
          "ad_issuancePolicy deps" "input0\<lparr>ai_Chain := chain\<rparr>" chain resp w'] cust key
      by auto
  next
    case (Some x)
    then have "loadReplayedAllocationResponse env scope reader (input0\<lparr>ai_Chain := chain\<rparr>) pid w = (Inr (Some resp), w')"
      using L F by simp
    from loadReplayed_Some [OF this] c pid reader(2) show ?thesis
      by auto
  qed
qed

lemma Allocate_Execute_replays:
  assumes A: "Allocate_Execute env deps input w = (Inr resp, w')"
    and reader: "ad_policyReader deps = Some reader" "rdr_FindIssuanceByID reader = find_issuance"
    and scope: "ad_unitOfWork deps = Some fullTxScope"
    and o: "others_rel db_step env" and inv: "db_inv (w_db w)"
    and cust: "trim_space (ai_CustomerReference input) = ai_CustomerReference input"
    and key: "ai_IdempotencyKey input \<noteq> []"
    and later: "db_step (w_db w') (w_db w2)" and calm: "calm env2"
  shows "\<exists>w3. Allocate_Execute env2 deps input w2 = (Inr (resp\<lparr>arsp_IdempotencyReplayed := True\<rparr>), w3) \<and>
     w_db w3 = w_db w2"
proof -
  obtain chain pid a prec policy rep where R:
    "ParseSupportedChain (ai_Chain input) = Some chain"
    "NewAddressPolicyID (ai_AddressPolicyID input) = Inr pid"
    "replayable (w_db w') (input\<lparr>ai_Chain := chain\<rparr>) pid a"
    "find_issuance (alc_AddressPolicyID a) = Inr (Some prec)"
    "addressIssuancePolicyFromRecord prec = Inr policy" "resp = allocation_response policy a rep"
    using Allocate_Execute_replayable [OF A reader o inv cust key] by blast
  have inv': "db_inv (w_db w')"
    using world_relD [OF Allocate_Execute_step [OF o] A] inv by (simp add: db_step_def db_keeps_def)
  then have inv2: "db_inv (w_db w2)"
    using later by (simp add: db_step_def db_keeps_def)
  have deps: "ad_clock deps" "\<exists>deriver. ad_deriver deps = Some deriver \<and> iad_SupportsChain deriver chain"
    using A reader(1) scope R(1)
    by (auto simp: Allocate_Execute_def Let_def split: if_splits option.splits)
  have "replayable (w_db w2) (input\<lparr>ai_Chain := chain\<rparr>) pid a"
    by (rule replayable_step [OF R(3) later inv'])
  then obtain w3 where "loadReplayedAllocationResponse env2 fullTxScope reader (input\<lparr>ai_Chain := chain\<rparr>) pid w2 =
      (Inr (Some (allocation_response policy a True)), w3)" "w_db w3 = w_db w2"
    using loadReplayed_replayable [of w2 "input\<lparr>ai_Chain := chain\<rparr>" pid a env2 fullTxScope reader prec policy]
      inv2 calm R(4,5) reader(2) by (auto simp: fullTxScope_def)
  moreover have "allocation_response policy a True = resp\<lparr>arsp_IdempotencyReplayed := True\<rparr>"
    using R(6) by (simp add: allocation_response_def)
  ultimately show ?thesis
    using deps reader(1) scope R(1,2) by (auto simp: Allocate_Execute_def Let_def)
qed

end

end
