(* ===== verification/Payment_System.thy ===== *)
theory Payment_System
  imports Dispatch_Effects Polling_Invariants Query_UseCases Allocate_Replay
begin

text \<open>
  The whole program as a transition system on its database: a step is one execution of a use
  case (of \<open>application/usecases\<close>), by a process that is alone at that moment, with any
  dependencies, any input, and any failure of the database, of a commit or of the outside
  world. Reachable databases satisfy the invariant of the tables, the ledger and the
  history of the outbox, and no reservation in them is ever marked as failed.
\<close>

section \<open>Steps\<close>

inductive system_step :: "DB \<Rightarrow> DB \<Rightarrow> bool" where
  sys_allocate:
    "alone env \<Longrightarrow> Allocate_Execute env adeps ain w = (ares, w') \<Longrightarrow> system_step (w_db w) (w_db w')"
| sys_poll:
    "alone env \<Longrightarrow> Poll_Execute env pdeps pin w = (pres, w') \<Longrightarrow> system_step (w_db w) (w_db w')"
| sys_dispatch:
    "alone env \<Longrightarrow> Dispatch_Execute env ddeps din w = (dres, w') \<Longrightarrow> system_step (w_db w) (w_db w')"
| sys_status:
    "alone env \<Longrightarrow> GetStatus_Execute env gdeps gin w = (gres, w') \<Longrightarrow> system_step (w_db w) (w_db w')"

inductive system_run :: "DB \<Rightarrow> DB \<Rightarrow> bool" where
  sys_refl: "system_run d d"
| sys_step: "system_run d d' \<Longrightarrow> system_step d' d'' \<Longrightarrow> system_run d d''"

inductive_cases system_stepE: "system_step d d'"

section \<open>The invariant of the tables and the ledger\<close>

lemma alone_rel: "alone env \<Longrightarrow> (\<And>d. R d d) \<Longrightarrow> others_rel R env"
  by (simp add: alone_def others_rel_def)

lemma system_step_ledger: "system_step d d' \<Longrightarrow> ledger_step d d'"
proof (induction rule: system_step.induct)
  case (sys_allocate env deps ain w r w')
  then show ?case
    using allocation_ledger.Allocate_Execute_rel [OF alone_rel, THEN world_relD] ledger.refl by blast
next
  case (sys_poll env deps pin w r w')
  then show ?case
    using polling_ledger.Poll_Execute_rel [OF alone_rel, THEN world_relD] ledger.refl by blast
next
  case (sys_dispatch env deps din w r w')
  then show ?case
    using dispatch_ledger.Dispatch_Execute_rel [OF alone_rel, THEN world_relD] ledger.refl by blast
next
  case (sys_status env deps gin w r w')
  then show ?case
    by (simp add: GetStatus_db ledger.refl)
qed

lemma system_step_db: "system_step d d' \<Longrightarrow> db_step d d'"
  by (drule system_step_ledger) (simp add: ledger_step_def)

lemma system_run_ledger: "system_run d d' \<Longrightarrow> ledger_step d d'"
  by (induction rule: system_run.induct) (auto intro: ledger.refl ledger.trans system_step_ledger)

lemma system_run_inv: "system_run d d' \<Longrightarrow> db_inv d \<Longrightarrow> db_inv d'"
  by (drule system_run_ledger) (simp add: ledger_step_def db_step_def db_keeps_def)

section \<open>A fresh tracking\<close>

text \<open>A successful issuance appends the row of a tracking that nothing was yet observed on.\<close>

definition fresh_tracking :: "PaymentReceiptTracking \<Rightarrow> bool" where
  "fresh_tracking t \<longleftrightarrow>
     wf_tracking t \<and> tracking_portable t \<and> trk_Status t = PaymentReceiptStatusWatching \<and>
     trk_ObservedTotalMinor t = 0 \<and> trk_LastObservedBlockHeight t = 0 \<and>
     trk_FirstObservedAt t = None \<and> trk_PaidAt t = None \<and> trk_ConfirmedAt t = None \<and>
     trk_ExpiresAt t \<noteq> None \<and> trk_LastFailureReason t = []"

lemma IssueReceiptTracking_fresh:
  assumes "IssueReceiptTracking a at conf exp = Inr t"
  shows "fresh_tracking t \<and> trim_space (trk_AssetReference t) = trk_AssetReference t"
  using assms wf_IssueReceiptTracking [OF assms]
  by (auto simp: IssueReceiptTracking_Inr_iff NewPaymentReceiptTracking_Inr_iff fresh_tracking_def
      tracking_portable_def receipt_statuses_set AddressPolicyID_IsZero_def AddressPolicyID_Normalize_def
      dest: ParseChainID_portable split: option.splits)

lemma issue_body_fresh:
  assumes B: "issue_body env scope deriver input plan at w = (Inr a, w')" and inv: "db_inv (w_db w)"
    and pm: "plan_matches input plan"
  shows "\<exists>x t. db_trackings (w_db w') = db_trackings (w_db w) @ [x] \<and> row_tracking x = Inr t \<and>
    fresh_tracking t \<and> pt_status x = PaymentReceiptStatusWatching \<and>
    pt_payment_address_id x \<notin> pt_payment_address_id ` set (db_trackings (w_db w)) \<and>
    db_notifications (w_db w') = db_notifications (w_db w)"
proof -
  obtain trk i e where t: "IssueReceiptTracking a at (terms_RequiredConfirmations (plan_ReceiptTerms plan))
      (terms_ExpiresAt (plan_ReceiptTerms plan)) = Inr trk" "trk_ExpiresAt trk = Some e"
    and d': "db_trackings (w_db w') = db_trackings (w_db w) @
      [track_row_of (paymentReceiptTrackingRecordFromDomain trk) i e at]"
    and n: "db_notifications (w_db w') = db_notifications (w_db w)"
    using issue_body_Inr [OF B inv pm] by blast
  let ?x = "track_row_of (paymentReceiptTrackingRecordFromDomain trk) i e at"
  let ?t = "trk\<lparr>trk_TrackingID := i\<rparr>"
  have f: "fresh_tracking trk" and asset: "trim_space (trk_AssetReference trk) = trk_AssetReference trk"
    using IssueReceiptTracking_fresh [OF t(1)] by auto
  then have port: "tracking_portable trk"
    by (simp add: fresh_tracking_def)
  then have "scanPaymentReceiptTracking ?x = Inr (paymentReceiptTrackingRecordFromDomain ?t)"
    using scan_created t(2) asset by blast
  moreover have "tracking_portable ?t"
    using port by (simp add: tracking_portable_def)
  ultimately have row: "row_tracking ?x = Inr ?t"
    by (simp add: row_tracking_def tracking_record_roundtrip)
  have "fresh_tracking ?t"
    using f by (simp add: fresh_tracking_def tracking_portable_def wf_tracking_def status_consistent_def Let_def
        receipt_statuses_set)
  moreover have "pt_status ?x = PaymentReceiptStatusWatching"
    using f by (simp add: fresh_tracking_def track_row_of_def paymentReceiptTrackingRecordFromDomain_def)
  moreover have "db_inv (w_db w')"
    using ok_relD [OF issue_body_step B] inv by (simp add: db_step_def db_keeps_def)
  then have "pt_payment_address_id ?x \<notin> pt_payment_address_id ` set (db_trackings (w_db w))"
    by (simp add: db_inv_def schema_ok_def trackings_ok_def d')
  ultimately show ?thesis
    using d' n row by blast
qed

section \<open>Every tracking lives on a run\<close>

text \<open>
  The guarantee of the whole system: rows move along runs, the history stays consistent, and
  every readable tracking began as a fresh one.
\<close>

definition lives :: "DB \<Rightarrow> bool" where
  "lives d \<longleftrightarrow>
     (\<forall>r \<in> set (db_trackings d).
        \<exists>t0 t. fresh_tracking t0 \<and> poll_run t0 t \<and> row_tracking r = Inr t)"

definition system_ok :: "DB \<Rightarrow> bool" where
  "system_ok d \<longleftrightarrow> db_inv d \<and> trackings_wf d \<and> history_ok d \<and> lives d"

definition system_keeps :: "DB \<Rightarrow> DB \<Rightarrow> bool" where
  "system_keeps d d' \<longleftrightarrow>
     db_step d d' \<and> (db_inv d \<longrightarrow> runs d d') \<and> (system_ok d \<longrightarrow> system_ok d')"

lemma system_ok_cong:
  assumes "db_trackings d' = db_trackings d"
    and "map notif_change (db_notifications d') = map notif_change (db_notifications d)" and "db_inv d'"
  shows "system_ok d \<Longrightarrow> system_ok d'"
  using assms history_ok_cong [of d' d] by (simp add: system_ok_def trackings_wf_def lives_def)

interpretation system: db_guarantee system_keeps
proof
  show "system_keeps d d" for d
    by (simp add: system_keeps_def steps.refl runs_refl)
  show "system_keeps d d' \<Longrightarrow> system_keeps d' d'' \<Longrightarrow> system_keeps d d''" for d d' d''
    unfolding system_keeps_def using steps.trans runs_trans by (metis db_step_def db_keeps_def)
  show "system_keeps d (keep_sequences d d')" if "seqs_le d d'" for d d'
  proof -
    have s: "db_step d (keep_sequences d d')"
      by (rule steps.lost [OF that])
    moreover have "system_ok (keep_sequences d d')" if ok: "system_ok d"
    proof (rule system_ok_cong [OF _ _ _ ok])
      show "db_inv (keep_sequences d d')"
        using s ok by (simp add: db_step_def db_keeps_def system_ok_def)
    qed simp_all
    ultimately show ?thesis
      by (simp add: system_keeps_def runs_same)
  qed
qed

lemma fresh_row_system_ok:
  assumes ok: "system_ok d" and inv: "db_inv d'"
    and t': "db_trackings d' = db_trackings d @ [x]" and n': "db_notifications d' = db_notifications d"
    and x: "row_tracking x = Inr t" "fresh_tracking t" "pt_status x = PaymentReceiptStatusWatching"
      "pt_payment_address_id x \<notin> pt_payment_address_id ` set (db_trackings d)"
  shows "system_ok d'"
proof -
  have h: "history_ok d"
    using ok by (simp add: system_ok_def)
  have "filter (\<lambda>n. nt_payment_address_id n = pt_payment_address_id x) (db_notifications d) = []"
  proof (rule filter_False, intro ballI notI)
    fix n assume n: "n \<in> set (db_notifications d)" "nt_payment_address_id n = pt_payment_address_id x"
    have "\<forall>n \<in> set (db_notifications d). nt_payment_address_id n \<in> set (map pt_payment_address_id (db_trackings d))"
      using h unfolding history_ok_def by blast
    from bspec [OF this n(1)] show False
      using x(4) unfolding n(2) by simp
  qed
  then have none: "changes_of (pt_payment_address_id x) d' = []"
    by (simp add: changes_of_def n')
  have "history_ok d'"
    using h none x(3) unfolding history_ok_def changes_of_cong [OF n'] t' n' by auto
  moreover have "trackings_wf d'"
    using ok x by (auto simp: system_ok_def trackings_wf_def t' fresh_tracking_def)
  moreover have "lives d'"
    using ok x run_refl by (auto simp: system_ok_def lives_def t')
  ultimately show ?thesis
    using inv by (simp add: system_ok_def)
qed

lemma issue_body_system:
  assumes pm: "plan_matches input plan"
  shows "ok_rel system_keeps (issue_body env scope deriver input plan at)"
proof (rule ok_relI)
  fix w a w'
  assume B: "issue_body env scope deriver input plan at w = (Inr a, w')"
  have s: "db_step (w_db w) (w_db w')"
    by (rule ok_relD [OF issue_body_step B])
  have "runs (w_db w) (w_db w') \<and> (system_ok (w_db w) \<longrightarrow> system_ok (w_db w'))" if inv: "db_inv (w_db w)"
  proof -
    have "db_inv (w_db w')"
      using s inv by (simp add: db_step_def db_keeps_def)
    then show ?thesis
      using issue_body_fresh [OF B inv pm] fresh_row_system_ok runs_same by (metis set_append sup_ge1)
  qed
  then show "system_keeps (w_db w) (w_db w')"
    using s by (simp add: system_keeps_def system_ok_def)
qed

interpretation allocation_system: allocation_guarantee system_keeps plan_matches
  by unfold_locales (auto intro: issue_body_system Plan_matches)

lemma poll_db_lives: "poll_db d d' \<Longrightarrow> lives d \<Longrightarrow> lives d'"
proof (induction rule: poll_db.induct)
  case (poll_db_lost d d')
  then show ?case by (simp add: only_seqs_iff lives_def)
next
  case (poll_db_lease d' p l d)
  have "\<exists>x \<in> set (db_trackings d). row_tracking r = row_tracking x" if "r \<in> set (db_trackings d')" for r
    using that unfolding poll_db_lease(1) set_update_where by auto
  then show ?case
    using poll_db_lease(3) unfolding lives_def by metis
next
  case (poll_db_save d r t v d')
  obtain r' where d': "db_trackings d' = map (\<lambda>x. if x = r then r' else x) (db_trackings d)"
    and r': "row_tracking r' = Inr v"
    using poll_saved_rows [OF poll_db_save(3,1,2,4)] by blast
  obtain t0 where "fresh_tracking t0" "poll_run t0 t"
    using poll_db_save(1,5) by (force simp: lives_def tracked_def)
  then have "\<exists>t0 u. fresh_tracking t0 \<and> poll_run t0 u \<and> row_tracking r' = Inr u"
    using r' run_step poll_db_save(2) by blast
  then show ?case
    using poll_db_save(5) by (auto simp: lives_def d')
qed blast

lemma Poll_Execute_system:
  assumes E: "Poll_Execute env deps input w = (r, w')" and a: "alone env"
  shows "system_keeps (w_db w) (w_db w')"
proof -
  have s: "db_step (w_db w) (w_db w')"
    using polling_steps.Poll_Execute_rel [OF alone_steps [OF a], THEN world_relD, OF E] .
  have p: "db_inv (w_db w) \<Longrightarrow> poll_db (w_db w) (w_db w')"
    by (rule Poll_Execute_effect [OF E a])
  then show ?thesis
    using s poll_db_runs poll_db_history poll_db_lives
    unfolding system_keeps_def system_ok_def db_step_def db_keeps_def by blast
qed

lemma Dispatch_Execute_system:
  assumes E: "Dispatch_Execute env deps input w = (r, w')" and a: "alone env"
  shows "system_keeps (w_db w) (w_db w')"
proof -
  have s: "db_step (w_db w) (w_db w')"
    using dispatch_steps.Dispatch_Execute_rel [OF alone_steps [OF a], THEN world_relD, OF E] .
  have f: "delivery_frame (w_db w) (w_db w')"
    using delivery.Dispatch_Execute_rel [OF alone_rel [OF a delivery_frame_refl], THEN world_relD, OF E] .
  have "runs (w_db w) (w_db w')"
    using f by (intro runs_same) (simp add: delivery_frame_def)
  moreover have "system_ok (w_db w')" if ok: "system_ok (w_db w)"
    by (rule system_ok_cong [OF _ _ _ ok])
      (use f s ok in \<open>simp_all add: delivery_frame_def db_step_def db_keeps_def system_ok_def\<close>)
  ultimately show ?thesis
    using s by (simp add: system_keeps_def)
qed

lemma system_step_keeps: "system_step d d' \<Longrightarrow> system_keeps d d'"
proof (induction rule: system_step.induct)
  case (sys_allocate env deps ain w r w')
  then show ?case
    using allocation_system.Allocate_Execute_rel [OF alone_rel, THEN world_relD] system.refl by blast
next
  case (sys_status env deps gin w r w')
  then show ?case by (simp add: GetStatus_db system.refl)
qed (simp_all add: Poll_Execute_system Dispatch_Execute_system)

lemma system_run_keeps: "system_run d d' \<Longrightarrow> system_keeps d d'"
  by (induction rule: system_run.induct) (auto intro: system.refl system.trans system_step_keeps)

lemma system_ok_empty: "system_ok empty_db"
  by (simp add: system_ok_def db_inv_empty trackings_wf_def history_ok_def lives_def)
    (simp add: empty_db_def)

lemma reachable_ok: "system_run empty_db d \<Longrightarrow> system_ok d"
  using system_run_keeps system_ok_empty by (auto simp: system_keeps_def)

section \<open>No reservation is marked as failed\<close>

lemma polling_allocations:
  "world_rel (\<lambda>d d'. db_allocations d' = db_allocations d) (TrackingStore_Save env t p n)"
  "world_rel (\<lambda>d d'. db_allocations d' = db_allocations d) (TrackingStore_ClaimDue env cin)"
  by (rule world_relI;
      auto simp: TrackingStore_Save_def TrackingStore_ClaimDue_def exec_sql_def sql_save_tracking_def
        sql_claim_trackings_def Let_def put_trackings_def
      split: if_splits prod.splits sum.splits option.splits)+

lemma outbox_allocations:
  "world_rel (\<lambda>d d'. db_allocations d' = db_allocations d) (Outbox_EnqueueStatusChanged env e)"
  by (rule world_relI, subst outbox_other_tables(1), assumption, simp)

interpretation same_allocations: polling_guarantee "\<lambda>d d'. db_allocations d' = db_allocations d"
  by unfold_locales (auto intro: polling_allocations outbox_allocations)

lemma system_step_no_failed: "system_step d d' \<Longrightarrow> no_failed_step d d'"
proof (induction rule: system_step.induct)
  case (sys_allocate env deps ain w r w')
  then show ?case
    using allocation_unfailed.Allocate_Execute_rel [OF alone_rel, THEN world_relD] unfailed.refl by blast
next
  case (sys_poll env deps pin w r w')
  then have "db_allocations (w_db w') = db_allocations (w_db w)"
    using same_allocations.Poll_Execute_rel [OF alone_rel, THEN world_relD] by blast
  then show ?case by (rule same_allocations_no_failed)
next
  case (sys_dispatch env deps din w r w')
  then have "delivery_frame (w_db w) (w_db w')"
    using delivery.Dispatch_Execute_rel [OF alone_rel, THEN world_relD] delivery_frame_refl by blast
  then show ?case by (intro same_allocations_no_failed) (simp add: delivery_frame_def)
next
  case (sys_status env deps gin w r w')
  then show ?case by (simp add: GetStatus_db unfailed.refl)
qed

lemma reachable_no_failed: "system_run empty_db d \<Longrightarrow> no_failed d"
proof -
  have "system_run d d' \<Longrightarrow> no_failed_step d d'" for d d'
    by (induction rule: system_run.induct) (auto intro: unfailed.refl unfailed.trans system_step_no_failed)
  moreover have "no_failed empty_db"
    by (simp add: no_failed_def empty_db_def)
  ultimately show "system_run empty_db d \<Longrightarrow> no_failed d"
    by (simp add: no_failed_step_def)
qed

end
