(* ===== verification/Cycle_Properties.thy ===== *)
theory Cycle_Properties
  imports Payment_System Sample_Run
begin

text \<open>
  The properties of the polling and the dispatch cycle: what processing one claimed tracking or
  one claimed notification does to the tables, and what the counters of a cycle say.
\<close>

section \<open>Polling\<close>

definition sample_observer :: BlockchainReceiptObserver where
  "sample_observer = \<lparr>bro_FetchLatestBlockHeight = (\<lambda>n chain network. Inr 100),
     bro_ObserveAddress = (\<lambda>n input. Inr \<lparr>oo_ObservedTotalMinor = 5, oo_ConfirmedTotalMinor = 5,
       oo_UnconfirmedTotalMinor = 0, oo_LatestBlockHeight = 100\<rparr>)\<rparr>"





lemma poll_claim_length:
  assumes "poll_claim_body env scope input now w = (Inr ts, w')"
  shows "length ts \<le> nat (sint (pin_BatchSize input))"
proof -
  obtain rows records d' where
    c: "sql_claim_trackings \<lparr>ctr_Now = now, ctr_Limit = pin_BatchSize input,
              ctr_ClaimUntil = time_add now (pin_ClaimTTL input),
              ctr_Chain = pin_Chain input, ctr_Network = pin_Network input,
              ctr_Statuses = pollablePaymentReceiptStatusStrings\<rparr>
          (env_locked env (w_step w)) (w_now w) (w_db w) = (Inr rows, d')"
    and "map_results scanPaymentReceiptTracking rows = Inr records"
    and "map_results paymentReceiptTrackingFromRecord records = Inr ts"
    using assms
    by (auto simp: poll_claim_body_def TrackingStore_ClaimDue_def exec_sql_def Let_def
        split: if_splits prod.splits sum.splits)
  then show ?thesis
    using claim_rows(1) [OF c] by (auto dest!: map_results_length)
qed

lemma poll_filter_batch: "poll_filter input = Inr input' \<Longrightarrow> pin_BatchSize input' = pin_BatchSize input"
  by (auto simp: poll_filter_def split: if_splits option.splits)

text \<open>The counters a loop adds: as many as trackings processed, all of them when it ends without error.\<close>

lemma poll_loop_counts:
  assumes "poll_loop env scope observer now nextPollAt ts out caches w = ((out', err), w')"
  shows "\<exists>a b c. a + b + c \<le> length ts \<and> (err = None \<longrightarrow> a + b + c = length ts) \<and>
    out' = out\<lparr>pout_UpdatedCount := pout_UpdatedCount out + of_nat a,
               pout_TerminalFailedCount := pout_TerminalFailedCount out + of_nat b,
               pout_ProcessingErrorCount := pout_ProcessingErrorCount out + of_nat c\<rparr>"
  using assms
proof (induction ts arbitrary: out caches w)
  case Nil
  then show ?case
    by (intro exI [of _ 0]) simp
next
  case (Cons t ts)
  obtain r caches1 w1 where p: "processTracking env scope observer t now nextPollAt caches w = (r, caches1, w1)"
    by (cases "processTracking env scope observer t now nextPollAt caches w") auto
  show ?case
  proof (cases r)
    case (Inl e)
    then show ?thesis
      using Cons.prems p by (intro exI [of _ 0]) auto
  next
    case (Inr res)
    then have "poll_loop env scope observer now nextPollAt ts (count_result res out) caches1 w1 =
        ((out', err), w')"
      using Cons.prems p by simp
    from Cons.IH [OF this] obtain a b c where abc: "a + b + c \<le> length ts"
        "err = None \<longrightarrow> a + b + c = length ts"
        "out' = (count_result res out)\<lparr>
           pout_UpdatedCount := pout_UpdatedCount (count_result res out) + of_nat a,
           pout_TerminalFailedCount := pout_TerminalFailedCount (count_result res out) + of_nat b,
           pout_ProcessingErrorCount := pout_ProcessingErrorCount (count_result res out) + of_nat c\<rparr>"
      by blast
    show ?thesis
    proof (cases res)
      case TrackingUpdated
      then show ?thesis
        using abc by (intro exI [of _ "Suc a"] exI [of _ b] exI [of _ c]) (simp add: count_result_def)
    next
      case TrackingTerminalFailed
      then show ?thesis
        using abc by (intro exI [of _ a] exI [of _ "Suc b"] exI [of _ c]) (simp add: count_result_def)
    next
      case TrackingProcessingError
      then show ?thesis
        using abc by (intro exI [of _ a] exI [of _ b] exI [of _ "Suc c"]) (simp add: count_result_def)
    qed
  qed
qed

lemma sint_of_nat64: "int n < 2 ^ 63 \<Longrightarrow> sint (of_nat n :: int64) = int n"
  using sint_word_of_int64 [of "int n"] by simp

lemma batch_fits: "n \<le> nat (sint (b :: int64)) \<Longrightarrow> int n < 2 ^ 63"
  using sint64_bounds [of b] by linarith

text \<open>
  The counters of a polling cycle account for its work. The claimed count is at most the
  batch size, no counter wraps around, each is non-negative, and updated, expired and failed
  receipts together are all the claimed ones when the cycle ends without an error and at most
  those when an error stops it.
\<close>

theorem poll_counts_add_up:
  assumes "Poll_Execute env deps input w = ((out, err), w')" and "0 < sint (pin_BatchSize input)"
  shows "0 \<le> sint (pout_UpdatedCount out) \<and> 0 \<le> sint (pout_TerminalFailedCount out) \<and>
    0 \<le> sint (pout_ProcessingErrorCount out) \<and> sint (pout_ClaimedCount out) \<le> sint (pin_BatchSize input) \<and>
    sint (pout_UpdatedCount out) + sint (pout_TerminalFailedCount out) +
      sint (pout_ProcessingErrorCount out) \<le> sint (pout_ClaimedCount out) \<and>
    (err = None \<longrightarrow> sint (pout_UpdatedCount out) + sint (pout_TerminalFailedCount out) +
      sint (pout_ProcessingErrorCount out) = sint (pout_ClaimedCount out))"
proof (cases "out = no_poll_output \<and> err \<noteq> None")
  case True
  then show ?thesis
    using assms(2) by (simp add: no_poll_output_def)
next
  case False
  then obtain scope observer input' now ts w1 w2 where f: "poll_filter input = Inr input'"
    and C: "WithinTransaction env (poll_claim_body env scope input' now) w1 = (Inr ts, w2)"
    and L: "poll_loop env scope observer now (time_add now (pin_RescheduleInterval input')) ts
      (no_poll_output\<lparr>pout_ClaimedCount := of_nat (length ts)\<rparr>)
      \<lparr>hc_heights = Map.empty, hc_errors = Map.empty\<rparr> w2 = ((out, err), w')"
    using assms(1)
    by (auto simp: Poll_Execute_def split: if_splits prod.splits sum.splits option.splits)
  obtain w3 where "poll_claim_body env scope input' now (begin_tx env w1) = (Inr ts, w3)"
    using WithinTransaction_Inr [OF C] by blast
  then have len: "length ts \<le> nat (sint (pin_BatchSize input))"
    using poll_claim_length poll_filter_batch [OF f] by metis
  obtain a b c where abc: "a + b + c \<le> length ts" "err = None \<longrightarrow> a + b + c = length ts"
    and out: "out = no_poll_output\<lparr>pout_ClaimedCount := of_nat (length ts),
       pout_UpdatedCount := of_nat a, pout_TerminalFailedCount := of_nat b,
       pout_ProcessingErrorCount := of_nat c\<rparr>"
    using poll_loop_counts [OF L] by (auto simp: no_poll_output_def)
  have "int (length ts) \<le> sint (pin_BatchSize input)"
    using len assms(2) by linarith
  moreover have "int a < 2 ^ 63" "int b < 2 ^ 63" "int c < 2 ^ 63" "int (length ts) < 2 ^ 63"
    using abc(1) batch_fits [OF len] by linarith+
  ultimately show ?thesis
    using abc by (auto simp: out sint_of_nat64)
qed

definition sample_poll_deps :: PollDeps where
  "sample_poll_deps = \<lparr>pd_unitOfWork = Some fullTxScope, pd_observer = Some sample_observer, pd_clock = True\<rparr>"

definition sample_poll_input :: PollInput where
  "sample_poll_input = \<lparr>pin_BatchSize = 10, pin_RescheduleInterval = 60, pin_ClaimTTL = 30,
     pin_Chain = [], pin_Network = []\<rparr>"

lemma poll_counts_add_up_witness:
  "\<exists>out w'. Poll_Execute sample_env sample_poll_deps sample_poll_input sample_live = ((out, None), w') \<and>
     sint (pout_UpdatedCount out) + sint (pout_TerminalFailedCount out) +
       sint (pout_ProcessingErrorCount out) = 1"
proof -
  let ?r = "Poll_Execute sample_env sample_poll_deps sample_poll_input sample_live"
  have "snd (fst ?r) = None" "sint (pout_ClaimedCount (fst (fst ?r))) = 1"
    "0 < sint (pin_BatchSize sample_poll_input)"
    by code_simp+
  moreover have "?r = ((fst (fst ?r), snd (fst ?r)), snd ?r)"
    by simp
  ultimately show ?thesis
    using poll_counts_add_up [of sample_env sample_poll_deps sample_poll_input sample_live] by metis
qed

section \<open>Dispatch\<close>


definition sample_delivery :: DispatchInput where
  "sample_delivery = \<lparr>din_BatchSize = 10, din_MaxAttempts = 3, din_RetryDelay = 60, din_DispatchTTL = 30\<rparr>"


definition down_notifier :: Notifier where
  "down_notifier n input = Inl (OutNotifier out_ErrPaymentReceiptStatusNotificationFailed)"



lemma dispatch_claim_length:
  assumes "dispatch_claim_body env scope input now w = (Inr ms, w')"
  shows "length ms \<le> nat (sint (din_BatchSize input))"
proof -
  obtain rows d' where
    c: "sql_claim_notifications now (din_BatchSize input) (time_add now (din_DispatchTTL input))
          (env_locked env (w_step w)) (w_now w) (w_db w) = (Inr rows, d')"
    and "map_results scanOutboxMessage rows = Inr ms"
    using assms
    by (auto simp: dispatch_claim_body_def Outbox_ClaimPending_def exec_sql_def Let_def
        split: if_splits prod.splits sum.splits)
  then have "length ms = length (claimed_notifications now (din_BatchSize input)
      (env_locked env (w_step w)) (w_db w))"
    using sql_claim_notifications_Inr [OF c] by (auto dest!: map_results_length)
  also have "\<dots> \<le> length (due_notifications now (din_BatchSize input) (env_locked env (w_step w)) (w_db w))"
    by (simp add: claimed_notifications_def List.map_filter_def)
  also have "\<dots> \<le> nat (sint (din_BatchSize input))"
    unfolding due_notifications_def by (rule length_first_due)
  finally show ?thesis .
qed

lemma processNotification_outcomes:
  assumes "processNotification env scope reader notifier input msg w = (Inr outcome, w')"
  shows "outcome \<in> {DeliveryStatusSent, DeliveryStatusPending, DeliveryStatusFailed}"
  using assms
  by (auto simp: processNotification_def save_and_return_def read_clock_def ResolveDeliveryFailure_Inr_iff
      MarkSent_Inr_iff split: sum.splits option.splits prod.splits if_splits)

lemma dispatch_loop_counts:
  assumes "dispatch_loop env scope reader notifier input ms out w = ((out', err), w')"
  shows "\<exists>a b c. a + b + c \<le> length ms \<and> (err = None \<longrightarrow> a + b + c = length ms) \<and>
    out' = out\<lparr>dout_SentCount := dout_SentCount out + of_nat a,
               dout_RetriedCount := dout_RetriedCount out + of_nat b,
               dout_FailedCount := dout_FailedCount out + of_nat c\<rparr>"
  using assms
proof (induction ms arbitrary: out w)
  case Nil
  then show ?case
    by (intro exI [of _ 0]) simp
next
  case (Cons m ms)
  obtain r w1 where p: "processNotification env scope reader notifier input m w = (r, w1)"
    by (cases "processNotification env scope reader notifier input m w")
  show ?case
  proof (cases r)
    case (Inl e)
    then show ?thesis
      using Cons.prems p by (intro exI [of _ 0]) auto
  next
    case (Inr outcome)
    then have "dispatch_loop env scope reader notifier input ms (count_outcome outcome out) w1 =
        ((out', err), w')"
      using Cons.prems p by simp
    from Cons.IH [OF this] obtain a b c where abc: "a + b + c \<le> length ms"
        "err = None \<longrightarrow> a + b + c = length ms"
        "out' = (count_outcome outcome out)\<lparr>
           dout_SentCount := dout_SentCount (count_outcome outcome out) + of_nat a,
           dout_RetriedCount := dout_RetriedCount (count_outcome outcome out) + of_nat b,
           dout_FailedCount := dout_FailedCount (count_outcome outcome out) + of_nat c\<rparr>"
      by blast
    consider "outcome = DeliveryStatusSent" | "outcome = DeliveryStatusPending" | "outcome = DeliveryStatusFailed"
      using processNotification_outcomes p Inr by blast
    then show ?thesis
    proof cases
      case 1
      then show ?thesis
        using abc by (intro exI [of _ "Suc a"] exI [of _ b] exI [of _ c]) (simp add: count_outcome_def)
    next
      case 2
      then show ?thesis
        using abc by (intro exI [of _ a] exI [of _ "Suc b"] exI [of _ c]) (simp add: count_outcome_def)
    next
      case 3
      then show ?thesis
        using abc by (intro exI [of _ a] exI [of _ b] exI [of _ "Suc c"]) (simp add: count_outcome_def)
    qed
  qed
qed

text \<open>
  The counters of a dispatch cycle account for its work, as those of a polling cycle do:
  the claimed count is at most the batch size, and sent, retried and failed notifications
  together are all the claimed ones when the cycle ends without an error and at most those
  otherwise.
\<close>

theorem dispatch_counts_add_up:
  assumes "Dispatch_Execute env deps input w = ((out, err), w')" and "0 < sint (din_BatchSize input)"
  shows "0 \<le> sint (dout_SentCount out) \<and> 0 \<le> sint (dout_RetriedCount out) \<and>
    0 \<le> sint (dout_FailedCount out) \<and> sint (dout_ClaimedCount out) \<le> sint (din_BatchSize input) \<and>
    sint (dout_SentCount out) + sint (dout_RetriedCount out) + sint (dout_FailedCount out) \<le>
      sint (dout_ClaimedCount out) \<and>
    (err = None \<longrightarrow> sint (dout_SentCount out) + sint (dout_RetriedCount out) +
      sint (dout_FailedCount out) = sint (dout_ClaimedCount out))"
proof (cases "out = no_dispatch_output \<and> err \<noteq> None")
  case True
  then show ?thesis
    using assms(2) by (simp add: no_dispatch_output_def)
next
  case False
  then obtain scope reader notifier now ms w1 w2
    where C: "WithinTransaction env (dispatch_claim_body env scope input now) w1 = (Inr ms, w2)"
      and L: "dispatch_loop env scope reader notifier input ms
        (no_dispatch_output\<lparr>dout_ClaimedCount := of_nat (length ms)\<rparr>) w2 = ((out, err), w')"
    using assms(1)
    by (auto simp: Dispatch_Execute_def split: if_splits prod.splits sum.splits option.splits)
  obtain w3 where "dispatch_claim_body env scope input now (begin_tx env w1) = (Inr ms, w3)"
    using WithinTransaction_Inr [OF C] by blast
  then have len: "length ms \<le> nat (sint (din_BatchSize input))"
    by (rule dispatch_claim_length)
  obtain a b c where abc: "a + b + c \<le> length ms" "err = None \<longrightarrow> a + b + c = length ms"
    and out: "out = no_dispatch_output\<lparr>dout_ClaimedCount := of_nat (length ms),
       dout_SentCount := of_nat a, dout_RetriedCount := of_nat b, dout_FailedCount := of_nat c\<rparr>"
    using dispatch_loop_counts [OF L] by (auto simp: no_dispatch_output_def)
  have "int (length ms) \<le> sint (din_BatchSize input)"
    using len assms(2) by linarith
  moreover have "int a < 2 ^ 63" "int b < 2 ^ 63" "int c < 2 ^ 63" "int (length ms) < 2 ^ 63"
    using abc(1) batch_fits [OF len] by linarith+
  ultimately show ?thesis
    using abc by (auto simp: out sint_of_nat64)
qed

definition sample_dispatch_deps :: DispatchDeps where
  "sample_dispatch_deps = \<lparr>dd_unitOfWork = Some fullTxScope,
     dd_policyReader = Some (NewAddressPolicyReader [sample_policy]),
     dd_notifier = Some down_notifier, dd_clock = True\<rparr>"

lemma dispatch_counts_add_up_witness:
  "\<exists>out w'. Dispatch_Execute sample_env sample_dispatch_deps sample_delivery sample_live = ((out, None), w') \<and>
     sint (dout_SentCount out) + sint (dout_RetriedCount out) + sint (dout_FailedCount out) = 1"
proof -
  let ?r = "Dispatch_Execute sample_env sample_dispatch_deps sample_delivery sample_live"
  have "snd (fst ?r) = None" "sint (dout_ClaimedCount (fst (fst ?r))) = 1"
    "0 < sint (din_BatchSize sample_delivery)"
    by code_simp+
  moreover have "?r = ((fst (fst ?r), snd (fst ?r)), snd ?r)"
    by simp
  ultimately show ?thesis
    using dispatch_counts_add_up [of sample_env sample_dispatch_deps sample_delivery sample_live] by metis
qed

end
