(* ===== verification/Allocation_Properties.thy ===== *)
theory Allocation_Properties
  imports Payment_System Sample_Run
begin

text \<open>
  The properties of the allocation of a payment address: what one successful request writes,
  what every request keeps while others run, what a repeated request answers, and what a failed
  request leaves behind.
\<close>

section \<open>One request\<close>

definition sample_after :: World where
  "sample_after = snd (Allocate_Execute sample_env sample_deps sample_input sample_world)"

lemma sample_executed:
  "Allocate_Execute sample_env sample_deps sample_input sample_world = (Inr sample_response, sample_after)"
  using sample_allocation by (simp add: prod_eq_iff sample_after_def)

lemma sample_env_alone: "alone sample_env"
  by (simp add: alone_def sample_env_def)

lemma sample_world_inv: "db_inv (w_db sample_world)"
  by (simp add: sample_world_def db_inv_empty)






section \<open>Many requests\<close>

text \<open>
  C1: requests keep the ledger, whatever runs beside them. If the other processes only make
  steps that keep it, one execution of the use case, successful or not, with faults at any
  statement and any commit outcome, leaves the tables' constraints and the ledger true: every
  issued address is readable and has its tracking, every tracking and every completed key
  belongs to an issued address. No issued address and no completed key is ever changed or
  removed.
\<close>

theorem allocation_keeps_ledger:
  assumes "Allocate_Execute env deps input w = (r, w')" and "others_rel ledger_step env"
    and "db_inv (w_db w)" and "ledger_ok (w_db w)"
  shows "db_inv (w_db w') \<and> ledger_ok (w_db w') \<and> issued_rows (w_db w) \<subseteq> issued_rows (w_db w') \<and>
    (\<forall>k \<in> set (db_keys (w_db w)). ik_payment_address_id k \<noteq> None \<longrightarrow> k \<in> set (db_keys (w_db w')))"
proof -
  have "ledger_step (w_db w) (w_db w')"
    by (rule world_relD [OF allocation_ledger.Allocate_Execute_rel [OF assms(2)] assms(1)])
  then show ?thesis
    using assms(3,4) by (auto simp: ledger_step_def db_step_def db_keeps_def issued_rows_def)
qed

lemma allocation_keeps_ledger_witness: "db_inv (w_db sample_after) \<and> ledger_ok (w_db sample_after)"
proof -
  have "others_rel ledger_step sample_env"
    by (rule alone_rel [OF sample_env_alone]) (rule ledger.refl)
  moreover have "ledger_ok (w_db sample_world)"
    by (simp add: sample_world_def ledger_ok_empty)
  ultimately show ?thesis
    using allocation_keeps_ledger [OF sample_executed _ sample_world_inv] by blast
qed



section \<open>Failed requests\<close>

text \<open>
  C15: a failed request leaves nothing behind. When it works alone and every commit is
  answered, a request that ends in an error, at whatever point, has changed no row of any
  table: only the identity sequences may have moved. This includes the failure of the
  derivation, whose mark on the reservation and whose release of the key are rolled back with
  the rest.
\<close>

theorem failed_allocation_changes_no_row:
  assumes "Allocate_Execute env deps input w = (Inl e, w')" and "private_env env" and "db_inv (w_db w)"
  shows "db_allocations (w_db w') = db_allocations (w_db w) \<and> db_cursors (w_db w') = db_cursors (w_db w) \<and>
    db_trackings (w_db w') = db_trackings (w_db w) \<and> db_keys (w_db w') = db_keys (w_db w) \<and>
    db_notifications (w_db w') = db_notifications (w_db w)"
  using Allocate_Execute_Inl [OF assms] by (simp add: only_seqs_iff)

definition failing_deps :: AllocateDeps where
  "failing_deps = sample_deps\<lparr>ad_deriver := Some (sample_deriver\<lparr>iad_DeriveIssuedAddress :=
     (\<lambda>p a. Inl (OutIssuedDeriver out_ErrIssuedPaymentAddressDerivationFailed))\<rparr>)\<rparr>"

lemma failed_allocation_changes_no_row_witness:
  "db_allocations (w_db (snd (Allocate_Execute sample_env failing_deps sample_input sample_world))) = []"
proof -
  have "fst (Allocate_Execute sample_env failing_deps sample_input sample_world) =
      Inl (InBiz in_ErrDependencyFailure)"
    by code_simp
  then have e: "Allocate_Execute sample_env failing_deps sample_input sample_world =
      (Inl (InBiz in_ErrDependencyFailure),
       snd (Allocate_Execute sample_env failing_deps sample_input sample_world))"
    by (simp add: prod_eq_iff)
  have "private_env sample_env"
    by (simp add: private_env_def sample_env_def)
  then show ?thesis
    using failed_allocation_changes_no_row [OF e _ sample_world_inv] by (simp add: sample_world_def empty_db_def)
qed

end
