(* ===== verification/System_Properties.thy ===== *)
theory System_Properties
  imports Allocation_Properties Query_UseCases
begin

text \<open>
  The properties of the whole system: what is true of every database that executions of the
  four use cases lead to from the empty one, in whatever order, with whatever requests,
  observers, notifiers, faults and commit outcomes.
\<close>

lemma sample_reachable: "system_run empty_db (w_db sample_after)"
proof -
  have "system_step (w_db sample_world) (w_db sample_after)"
    by (rule sys_allocate [OF sample_env_alone sample_executed])
  then have "system_step empty_db (w_db sample_after)"
    by (simp add: sample_world_def)
  then show ?thesis
    by (rule sys_step [OF sys_refl])
qed

lemma sample_reachable_row: "\<exists>t. db_trackings (w_db sample_after) = [t]"
proof -
  have "length (db_trackings (w_db sample_after)) = 1"
    by code_simp
  then show ?thesis
    by (auto simp: length_Suc_conv)
qed

section \<open>What is true of every reachable database\<close>

text \<open>
  C10: every reachable database is consistent. The constraints of the schema hold with
  identities within their sequences and cursors ahead of every slot; every issued address has
  its receipt tracking and every tracking and completed key its issued address; and no two
  allocations share a chain and an address or a slot of one address space.
\<close>

theorem reachable_consistent:
  assumes "system_run empty_db d"
  shows "db_inv d \<and> ledger_ok d \<and> distinct (List.map_filter alloc_address_key (db_allocations d)) \<and>
    distinct (map (\<lambda>r. (al_policy r, al_space_ref r, al_slot r)) (db_allocations d))"
proof -
  have "db_inv d \<and> ledger_ok d"
    using system_run_ledger [OF assms] system_run_inv [OF assms db_inv_empty] db_inv_empty ledger_ok_empty
    by (simp add: ledger_step_def)
  then show ?thesis
    by (simp add: db_inv_def schema_ok_def allocations_ok_def)
qed

lemma reachable_consistent_witness: "db_inv (w_db sample_after) \<and> ledger_ok (w_db sample_after)"
  using reachable_consistent [OF sample_reachable] by blast

text \<open>
  C7: every stored receipt is one the domain can produce. Each row of a reachable database
  reads back as a well-formed tracking that polls led to from a freshly issued one, and its
  status is a phase reached from watching.
\<close>

theorem reachable_receipts_live:
  assumes "system_run empty_db d" and "r \<in> set (db_trackings d)"
  shows "\<exists>t0 t q. row_tracking r = Inr t \<and> wf_tracking t \<and> fresh_tracking t0 \<and> poll_run t0 t \<and>
    phase_of (trk_Status t) = Some q \<and> phase_run Watching q"
proof -
  obtain t0 t where t: "fresh_tracking t0" "poll_run t0 t" "row_tracking r = Inr t"
    using reachable_ok [OF assms(1)] assms(2) by (auto simp: system_ok_def lives_def)
  have wf: "wf_tracking t0" "trk_Status t0 = PaymentReceiptStatusWatching"
    using t(1) by (simp_all add: fresh_tracking_def)
  show ?thesis
    using poll_run_wf [OF t(2) wf(1)] poll_run_phase [OF t(2) wf(1)] wf(2) t by auto
qed

lemma reachable_receipts_live_witness:
  "\<exists>r t. r \<in> set (db_trackings (w_db sample_after)) \<and> row_tracking r = Inr t \<and> wf_tracking t"
proof -
  obtain r where "r \<in> set (db_trackings (w_db sample_after))"
    using sample_reachable_row by auto
  then show ?thesis
    using reachable_receipts_live [OF sample_reachable] by blast
qed

text \<open>
  C6: no status change goes unannounced and none is announced twice. In every reachable
  database the notifications stored for an address, in their order, form a path of real changes
  from watching to the status its receipt has now, each beginning where the one before ended.
\<close>

theorem reachable_history_complete:
  assumes "system_run empty_db d" and "r \<in> set (db_trackings d)"
  shows "status_path PaymentReceiptStatusWatching (changes_of (pt_payment_address_id r) d) (pt_status r)"
  using reachable_ok [OF assms(1)] assms(2) unfolding system_ok_def history_ok_def by blast

lemma reachable_history_complete_witness:
  "\<exists>r \<in> set (db_trackings (w_db sample_after)).
     status_path PaymentReceiptStatusWatching (changes_of (pt_payment_address_id r) (w_db sample_after))
       (pt_status r)"
proof -
  obtain r where "r \<in> set (db_trackings (w_db sample_after))"
    using sample_reachable_row by auto
  then show ?thesis
    using reachable_history_complete [OF sample_reachable] by blast
qed

text \<open>
  C11: executions only move receipts forward. From any database that satisfies the invariant,
  whatever the use cases do, every readable receipt is still there afterwards under its
  identity, has moved along a run of polls, keeps its terms and keeps the times it was first
  observed, paid and confirmed once they are set.
\<close>

theorem receipts_only_move_forward:
  assumes "system_run d d'" and "db_inv d" and "r \<in> set (db_trackings d)" and "row_tracking r = Inr t"
  shows "\<exists>r' \<in> set (db_trackings d'). \<exists>t'. row_tracking r' = Inr t' \<and> pt_id r' = pt_id r \<and>
    poll_run t t' \<and> receipt_terms t' = receipt_terms t \<and>
    (trk_FirstObservedAt t \<noteq> None \<longrightarrow> trk_FirstObservedAt t' = trk_FirstObservedAt t) \<and>
    (trk_PaidAt t \<noteq> None \<longrightarrow> trk_PaidAt t' = trk_PaidAt t) \<and>
    (trk_ConfirmedAt t \<noteq> None \<longrightarrow> trk_ConfirmedAt t' = trk_ConfirmedAt t)"
proof -
  have "runs d d'"
    using system_run_keeps [OF assms(1)] assms(2) by (simp add: system_keeps_def)
  then obtain r' t' where r': "r' \<in> set (db_trackings d')" "row_tracking r' = Inr t'" "pt_id r' = pt_id r"
    and run: "poll_run t t'"
    using assms(3,4) unfolding runs_def tracked_def by blast
  then show ?thesis
    using poll_run_terms [OF run] poll_run_milestones [OF run] by (intro bexI [OF _ r'(1)]) auto
qed

lemma receipts_only_move_forward_witness:
  "\<exists>r t. r \<in> set (db_trackings (w_db sample_after)) \<and> row_tracking r = Inr t \<and>
     (\<exists>r' \<in> set (db_trackings (w_db sample_after)). \<exists>t'. row_tracking r' = Inr t' \<and> poll_run t t')"
proof -
  have inv: "db_inv (w_db sample_after)"
    using system_run_inv [OF sample_reachable db_inv_empty] .
  obtain r where r: "r \<in> set (db_trackings (w_db sample_after))"
    using sample_reachable_row by auto
  obtain t where t: "row_tracking r = Inr t"
    using reachable_ok [OF sample_reachable] r by (auto simp: system_ok_def lives_def)
  show ?thesis
    using receipts_only_move_forward [OF sys_refl inv r t] r t by blast
qed

text \<open>
  C16: no reservation is ever marked as failed. In every reachable database no allocation has
  the status \<open>derivation_failed\<close>, because the use case marks it in the very transaction that the
  failure rolls back; so the first attempt of the issuance plan, reopening a failed
  reservation, never finds one.
\<close>

theorem failed_reservations_unreachable:
  assumes "system_run empty_db (w_db w)" and "\<not> env_fault env (w_step w)"
  shows "(\<forall>r \<in> set (db_allocations (w_db w)). al_status r \<noteq> ''derivation_failed'') \<and>
    fst (AllocationStore_ReopenFailedReservation env input w) = Inr None"
  using reachable_no_failed [OF assms(1)] Reopen_finds_nothing [of w env input] assms(2)
  by (simp add: no_failed_def)

lemma failed_reservations_unreachable_witness:
  "fst (AllocationStore_ReopenFailedReservation sample_env sample_reserve sample_after) = Inr None"
  by (rule failed_reservations_unreachable [OF sample_reachable, THEN conjunct2])
    (simp add: sample_env_def)

section \<open>Queries\<close>

lemma scan_issued_status:
  assumes a: "issued_entity a" and r: "row_of_allocation a at r" and chain: "al_chain r = Some chain"
    and supported: "ParseSupportedChain chain = Some chain"
    and t: "ParsePaymentReceiptStatus (pt_status t) = Some st"
  shows "\<exists>rec. scan_status r (Some t) = Inr (Some rec) \<and> psr_PaymentAddressID rec = al_id r \<and>
    psr_AddressPolicyID rec = al_policy r \<and> psr_Chain rec = chain \<and>
    Some (psr_Address rec) = al_address r \<and> psr_ExpectedAmountMinor rec = al_expected r \<and>
    psr_PaymentStatus rec = st \<and> psr_ConfirmedTotalMinor rec = pt_confirmed t"
  using assms
  by (auto simp: scan_status_def issued_entity_def allocation_portable_def row_of_allocation_def
      ParseChainID_of_portable split: option.splits)

text \<open>
  C17: every issued address has a status. In every reachable database, asking without faults
  for the status of an issued address on its chain answers that address with the expected
  amount, and with the payment status and confirmed total of the receipt that is being polled,
  provided the policy it was issued under is still configured for that chain.
\<close>

theorem issued_address_has_status:
  assumes "system_run empty_db (w_db w)" and "r \<in> issued_rows (w_db w)" and "al_chain r = Some chain"
    and "ParseSupportedChain chain = Some chain" and "no_faults env"
    and "gd_finder deps" and "gd_policyReader deps = Some reader"
    and "rdr_FindIssuanceByID reader (al_policy r) = Inr (Some policy)" and "ipr_Chain policy = chain"
  shows "\<exists>resp t. fst (GetStatus_Execute env deps \<lparr>gin_Chain = chain, gin_PaymentAddressID = al_id r\<rparr> w) =
      Inr resp \<and> t \<in> set (db_trackings (w_db w)) \<and> tracking_of_row r t \<and>
    gst_PaymentAddressID resp = format_int (al_id r) \<and> Some (gst_Address resp) = al_address r \<and>
    gst_ExpectedAmountMinor resp = al_expected r \<and> gst_PaymentStatus resp = pt_status t \<and>
    gst_ConfirmedTotalMinor resp = pt_confirmed t"
proof -
  let ?d = "w_db w"
  have inv: "db_inv ?d" and ledger: "ledger_ok ?d"
    using system_run_inv [OF assms(1) db_inv_empty] system_run_ledger [OF assms(1)] db_inv_empty ledger_ok_empty
    by (simp_all add: ledger_step_def)
  have r: "r \<in> set (db_allocations ?d)" "al_status r = ''issued''"
    using assms(2) by (simp_all add: issued_rows_def)
  obtain a at t where a: "issued_entity a" "row_of_allocation a at r"
    and t: "t \<in> set (db_trackings ?d)" "tracking_of_row r t"
    using ledger assms(2) unfolding ledger_ok_def readable_row_def by blast
  obtain st where st: "ParsePaymentReceiptStatus (pt_status t) = Some (pt_status t)"
    using reachable_ok [OF assms(1)] t(1) wf_tracking_status ParsePaymentReceiptStatus_of_mem
    unfolding system_ok_def trackings_wf_def by metis
  have id: "0 < sint (al_id r)"
    using inv r(1) by (simp add: db_inv_def serials_ok_def)
  have f1: "find (\<lambda>a. al_chain a = Some chain \<and> al_id a = al_id r \<and> al_status a = ''issued'')
      (db_allocations ?d) = Some r"
    using r assms(3) db_inv_ids [OF inv] by (intro find_unique) auto
  have f2: "find (\<lambda>x. pt_payment_address_id x = al_id r) (db_trackings ?d) = Some t"
    using t address_unique [OF inv] by (intro find_unique) (auto simp: tracking_of_row_def)
  obtain rec where rec: "scan_status r (Some t) = Inr (Some rec)" "psr_PaymentAddressID rec = al_id r"
    "psr_AddressPolicyID rec = al_policy r" "psr_Chain rec = chain" "Some (psr_Address rec) = al_address r"
    "psr_ExpectedAmountMinor rec = al_expected r" "psr_PaymentStatus rec = pt_status t"
    "psr_ConfirmedTotalMinor rec = pt_confirmed t"
    using scan_issued_status [OF a assms(3,4) st] by blast
  have "StatusFinder_FindByID env chain (al_id r) w = (Inr (Some rec), (tick w)\<lparr>w_db := ?d\<rparr>)"
    using assms(5) id f1 f2 rec(1)
    by (simp add: StatusFinder_FindByID_def exec_sql_no_faults sql_select_status_def)
  then show ?thesis
    using assms rec t by (auto simp: GetStatus_Execute_def status_response_def)
qed

lemma issued_address_has_status_witness:
  "\<exists>resp r. fst (GetStatus_Execute sample_env
       \<lparr>gd_finder = True, gd_policyReader = Some (NewAddressPolicyReader [sample_policy])\<rparr>
       \<lparr>gin_Chain = ''bitcoin'', gin_PaymentAddressID = al_id r\<rparr> sample_after) = Inr resp \<and>
     r \<in> issued_rows (w_db sample_after) \<and> Some (gst_Address resp) = al_address r"
proof -
  have one: "list_all (\<lambda>r. al_status r = ''issued'' \<and> al_chain r = Some ''bitcoin'' \<and> al_policy r = ''btc-main'')
      (db_allocations (w_db sample_after)) \<and> db_allocations (w_db sample_after) \<noteq> []"
    by code_simp
  then obtain r where r: "r \<in> issued_rows (w_db sample_after)" "al_chain r = Some ''bitcoin''"
    "al_policy r = ''btc-main''"
    by (cases "db_allocations (w_db sample_after)") (auto simp: issued_rows_def)
  have s: "ParseSupportedChain ''bitcoin'' = Some ''bitcoin''"
    by code_simp
  have n: "no_faults sample_env"
    by (simp add: no_faults_def sample_env_def)
  have p: "\<exists>policy. rdr_FindIssuanceByID (NewAddressPolicyReader [sample_policy]) ''btc-main'' = Inr (Some policy) \<and>
      ipr_Chain policy = ''bitcoin''"
  proof -
    have "(case rdr_FindIssuanceByID (NewAddressPolicyReader [sample_policy]) ''btc-main'' of
        Inr (Some policy) \<Rightarrow> ipr_Chain policy = ''bitcoin'' | _ \<Rightarrow> False)"
      by code_simp
    then show ?thesis
      by (auto split: sum.splits option.splits)
  qed
  then obtain policy where "rdr_FindIssuanceByID (NewAddressPolicyReader [sample_policy]) (al_policy r) =
      Inr (Some policy)" "ipr_Chain policy = ''bitcoin''"
    using r(3) by auto
  from issued_address_has_status [OF sample_reachable r(1,2) s n _ _ this,
      of "\<lparr>gd_finder = True, gd_policyReader = Some (NewAddressPolicyReader [sample_policy])\<rparr>"] r(1)
  show ?thesis
    by auto
qed

text \<open>
  C24: a listed policy can be used. Every policy that the listing of a chain returns is found
  by its identifier for issuance, on that chain, with the same network, scheme and decimals and
  the same switch.
\<close>

theorem listed_policies_are_found:
  assumes "ListPolicies_Execute (Some (NewAddressPolicyReader policies)) chain = Inr resp"
    and "q \<in> set (lpr_AddressPolicies resp)"
  shows "\<exists>p. rdr_FindIssuanceByID (NewAddressPolicyReader policies) (apr_AddressPolicyID q) = Inr (Some p) \<and>
    ipr_Chain p = lpr_Chain resp \<and> apr_Network q = ipr_Network p \<and> apr_Scheme q = ipr_Scheme p \<and>
    apr_Decimals q = ipr_Decimals p \<and> apr_Enabled q = ipr_Enabled p"
proof -
  obtain c qs q0 where c: "ParseSupportedChain chain = Some c" "lpr_Chain resp = c"
    and l: "rdr_ListByChain (NewAddressPolicyReader policies) c = Inr qs"
    and q0: "q0 \<in> set qs" "q = q0\<lparr>apr_AssetReference := trim_space (apr_AssetReference q0)\<rparr>"
    using assms by (auto simp: ListPolicies_Execute_def split: option.splits sum.splits)
  obtain p where "rdr_FindIssuanceByID (NewAddressPolicyReader policies) (apr_AddressPolicyID q0) = Inr (Some p)"
    "q0 = listed_policy p" "ParseSupportedChain c = Some (ipr_Chain p)"
    using configured.list_found [OF l q0(1)] by blast
  then show ?thesis
    using c ParseSupportedChain_idem [OF c(1)] q0(2) by (auto simp: listed_policy_def)
qed

lemma listed_policies_are_found_witness:
  "\<exists>resp q p. ListPolicies_Execute (Some (NewAddressPolicyReader [sample_policy])) '' Bitcoin '' = Inr resp \<and>
     lpr_AddressPolicies resp = [q] \<and>
     rdr_FindIssuanceByID (NewAddressPolicyReader [sample_policy]) (apr_AddressPolicyID q) = Inr (Some p) \<and>
     ipr_Chain p = ''bitcoin''"
proof -
  let ?l = "ListPolicies_Execute (Some (NewAddressPolicyReader [sample_policy])) '' Bitcoin ''"
  have "case ?l of Inr resp \<Rightarrow> lpr_Chain resp = ''bitcoin'' \<and> length (lpr_AddressPolicies resp) = 1 | _ \<Rightarrow> False"
    by code_simp
  then obtain resp q where l: "?l = Inr resp" "lpr_Chain resp = ''bitcoin''" "lpr_AddressPolicies resp = [q]"
    by (auto simp: length_Suc_conv split: sum.splits)
  then show ?thesis
    using listed_policies_are_found [OF l(1), of q] by auto
qed


end
