(* ===== verification/Go_Net.thy ===== *)
theory Go_Net
  imports Go_Base
begin

text \<open>
  The second prelude: what the adapters that talk to other services use of \<open>encoding/json\<close>,
  \<open>net/http\<close>, \<open>net/url\<close> and \<open>encoding/hex\<close>.

  A JSON text is kept apart from its value. The two directions between them, which are the
  standard library's scanner and printer, are the fields of a \<open>Codec\<close>; how a value is decoded
  into a struct, with Go's rules for names, \<open>null\<close> and types, is written out. A number keeps its
  literal, because its range is the decoder's business. A server is a function from the number of
  the request and the request to a reply, or to nothing when no reply comes.
\<close>

section \<open>JSON values\<close>

datatype json =
    JNull
  | JBool bool
  | JNum string
  | JStr string
  | JArr "json list"
  | JObj "(string \<times> json) list"

text \<open>
  \<open>json_text\<close> is what \<open>json.Marshal\<close> prints, \<open>json_value\<close> the value of a text that is one JSON
  value (\<open>json.Unmarshal\<close>), \<open>json_first\<close> the first value of a stream (\<open>json.Decoder\<close>) with the
  text after it.
\<close>

record Codec =
  json_text :: "json \<Rightarrow> string"
  json_value :: "string \<Rightarrow> json option"
  json_first :: "string \<Rightarrow> (json \<times> string) option"

text \<open>
  A decoder takes the value and what the target holds so far; \<open>None\<close> is an error. \<open>null\<close> leaves
  the target alone, and a number must be the literal of an integer in range.
\<close>

type_synonym 'a json_decoder = "json \<Rightarrow> 'a \<Rightarrow> 'a option"

fun decode_int64 :: "int64 json_decoder" where
  "decode_int64 JNull cur = Some cur"
| "decode_int64 (JNum l) cur = parse_int64 l"
| "decode_int64 _ cur = None"

fun decode_string :: "string json_decoder" where
  "decode_string JNull cur = Some cur"
| "decode_string (JStr s) cur = Some s"
| "decode_string _ cur = None"

fun decode_bool :: "bool json_decoder" where
  "decode_bool JNull cur = Some cur"
| "decode_bool (JBool b) cur = Some b"
| "decode_bool _ cur = None"

text \<open>A \<open>json.RawMessage\<close> keeps the value as it is, \<open>null\<close> included; it is empty before.\<close>

definition decode_raw :: "json option json_decoder" where
  "decode_raw v cur = Some (Some v)"

text \<open>A pointer is \<open>nil\<close> after \<open>null\<close> and points to the decoded value otherwise.\<close>

fun decode_pointer :: "'a \<Rightarrow> 'a json_decoder \<Rightarrow> 'a option json_decoder" where
  "decode_pointer zero dec JNull cur = Some None"
| "decode_pointer zero dec v cur =
     map_option Some (dec v (case cur of None \<Rightarrow> zero | Some x \<Rightarrow> x))"

fun collect :: "('a \<Rightarrow> 'b option) \<Rightarrow> 'a list \<Rightarrow> 'b list option" where
  "collect f [] = Some []"
| "collect f (x # xs) =
     (case f x of
        None \<Rightarrow> None
      | Some y \<Rightarrow> (case collect f xs of None \<Rightarrow> None | Some ys \<Rightarrow> Some (y # ys)))"

text \<open>
  The elements of an array are decoded into the elements the slice has at the same places, and
  into zero values beyond its length.
\<close>

fun decode_slice :: "'a \<Rightarrow> 'a json_decoder \<Rightarrow> 'a list json_decoder" where
  "decode_slice zero dec JNull cur = Some []"
| "decode_slice zero dec (JArr vs) cur =
     collect (\<lambda>(v, x). dec v x) (zip vs (cur @ replicate (length vs - length cur) zero))"
| "decode_slice zero dec _ cur = None"

text \<open>
  A struct is a table of fields. A member belongs to the field of exactly its name or else to the
  first whose name differs in case only; a member of no field is skipped, or is an error when
  unknown fields are disallowed. The two letters beyond ASCII that fold to ASCII ones are the
  long s and the Kelvin sign.
\<close>

fun fold_name :: "string \<Rightarrow> string" where
  "fold_name [] = []"
| "fold_name (c # cs) =
     (if has_prefix (c # cs) [CHR 0xC5, CHR 0xBF] then CHR ''s'' # fold_name (drop 1 cs)
      else if has_prefix (c # cs) [CHR 0xE2, CHR 0x84, CHR 0xAA]
        then CHR ''k'' # fold_name (drop 2 cs)
      else ascii_lower c # fold_name cs)"

declare fold_name.simps(2) [simp del]

definition field_of :: "(string \<times> 's json_decoder) list \<Rightarrow> string \<Rightarrow> 's json_decoder option" where
  "field_of tab name =
     (case map_of tab name of
        Some dec \<Rightarrow> Some dec
      | None \<Rightarrow> map_option snd (find (\<lambda>f. fold_name (fst f) = fold_name name) tab))"

fun decode_members ::
  "bool \<Rightarrow> (string \<times> 's json_decoder) list \<Rightarrow> (string \<times> json) list \<Rightarrow> 's \<Rightarrow> 's option" where
  "decode_members strict tab [] cur = Some cur"
| "decode_members strict tab ((name, v) # ms) cur =
     (case field_of tab name of
        None \<Rightarrow> if strict then None else decode_members strict tab ms cur
      | Some dec \<Rightarrow>
          (case dec v cur of None \<Rightarrow> None | Some cur' \<Rightarrow> decode_members strict tab ms cur'))"

fun decode_struct :: "bool \<Rightarrow> (string \<times> 's json_decoder) list \<Rightarrow> 's json_decoder" where
  "decode_struct strict tab JNull cur = Some cur"
| "decode_struct strict tab (JObj ms) cur = decode_members strict tab ms cur"
| "decode_struct strict tab _ cur = None"

text \<open>The decoder of a field, from the decoder of its type and the accessors of the record.\<close>

definition struct_field ::
  "'a json_decoder \<Rightarrow> ('s \<Rightarrow> 'a) \<Rightarrow> (('a \<Rightarrow> 'a) \<Rightarrow> 's \<Rightarrow> 's) \<Rightarrow> 's json_decoder" where
  "struct_field dec get update v s = map_option (\<lambda>x. update (\<lambda>_. x) s) (dec v (get s))"

lemma collect_Some_iff: "collect f xs = Some ys \<longleftrightarrow> list_all2 (\<lambda>x y. f x = Some y) xs ys"
proof (induction xs arbitrary: ys)
  case (Cons x xs)
  show ?case
  proof (cases "collect f xs")
    case None
    with Cons.IH have "\<not> list_all2 (\<lambda>x y. f x = Some y) xs zs" for zs
      by (metis option.distinct(1))
    with None show ?thesis by (auto simp: list_all2_Cons1 split: option.splits)
  next
    case (Some zs)
    with Cons.IH have "list_all2 (\<lambda>x y. f x = Some y) xs us \<longleftrightarrow> us = zs" for us
      by (metis option.inject)
    with Some show ?thesis by (auto simp: list_all2_Cons1 split: option.splits)
  qed
qed auto

lemma collect_map_Some: "(\<And>x. x \<in> set xs \<Longrightarrow> f x = Some (g x)) \<Longrightarrow> collect f xs = Some (map g xs)"
  by (induction xs) auto

lemma decode_slice_JArr_Nil: "decode_slice zero dec (JArr vs) [] = collect (\<lambda>v. dec v zero) vs"
proof -
  have "collect (\<lambda>(v, x). dec v x) (zip us (replicate (length us) zero)) = collect (\<lambda>v. dec v zero) us"
    for us
    by (induction us) (simp_all split: option.split)
  then show ?thesis by simp
qed

section \<open>HTTP\<close>

text \<open>
  \<open>None\<close> stands for every way of getting no reply: a request that cannot be built, a failed
  connection, a timeout, a body that cannot be read.
\<close>

record HttpRequest =
  rq_Method :: string
  rq_URL :: string
  rq_BasicAuth :: "(string \<times> string) option"
  rq_Headers :: "(string \<times> string) list"
  rq_Body :: string

record HttpReply =
  rp_Status :: int
  rp_Body :: string

type_synonym HttpServer = "nat \<Rightarrow> HttpRequest \<Rightarrow> HttpReply option"

section \<open>Paths and numbers\<close>

definition hex_digit :: "nat \<Rightarrow> char" where
  "hex_digit d = (if d < 10 then char_of (48 + d) else char_of (87 + d))"

definition upper_hex_digit :: "nat \<Rightarrow> char" where
  "upper_hex_digit d = (if d < 10 then char_of (48 + d) else char_of (55 + d))"

text \<open>\<open>url.PathEscape\<close>: what is not a letter, a digit or one of ten marks is written as \<open>%XX\<close>.\<close>

definition path_unreserved :: "char \<Rightarrow> bool" where
  "path_unreserved c \<longleftrightarrow>
     (let n = (of_char c :: nat)
      in (97 \<le> n \<and> n \<le> 122) \<or> (65 \<le> n \<and> n \<le> 90) \<or> (48 \<le> n \<and> n \<le> 57) \<or> c \<in> set ''-_.~$&+=:@'')"

definition path_escape :: "string \<Rightarrow> string" where
  "path_escape s =
     concat (map (\<lambda>c. if path_unreserved c then [c]
       else [CHR ''%'', upper_hex_digit (of_char c div 16), upper_hex_digit (of_char c mod 16)]) s)"

text \<open>\<open>strings.TrimRight(s, "/")\<close>.\<close>

definition trim_right_slashes :: "string \<Rightarrow> string" where
  "trim_right_slashes s = rev (dropWhile (\<lambda>c. c = CHR ''/'') (rev s))"

text \<open>\<open>hex.DecodeString\<close> and \<open>hex.EncodeToString\<close>: bytes are characters.\<close>

definition hex_value :: "char \<Rightarrow> nat option" where
  "hex_value c =
     (let n = (of_char c :: nat)
      in if 48 \<le> n \<and> n \<le> 57 then Some (n - 48)
         else if 97 \<le> n \<and> n \<le> 102 then Some (n - 87)
         else if 65 \<le> n \<and> n \<le> 70 then Some (n - 55)
         else None)"

fun hex_decode :: "string \<Rightarrow> string option" where
  "hex_decode [] = Some []"
| "hex_decode [c] = None"
| "hex_decode (a # b # cs) =
     (case (hex_value a, hex_value b) of
        (Some x, Some y) \<Rightarrow> map_option (\<lambda>bs. char_of (16 * x + y) # bs) (hex_decode cs)
      | _ \<Rightarrow> None)"

definition hex_encode :: "string \<Rightarrow> string" where
  "hex_encode bs = concat (map (\<lambda>c. [hex_digit (of_char c div 16), hex_digit (of_char c mod 16)]) bs)"

definition hex_prefixed :: "string \<Rightarrow> bool" where
  "hex_prefixed s \<longleftrightarrow> has_prefix s ''0x'' \<or> has_prefix s ''0X''"

text \<open>The hexadecimal digits of a natural number, \<open>strconv.FormatInt(x, 16)\<close> and \<open>big.Int.SetString(s, 16)\<close>.\<close>

fun hex_nat :: "nat \<Rightarrow> string" where
  "hex_nat n = (if n < 16 then [hex_digit n] else hex_nat (n div 16) @ [hex_digit (n mod 16)])"

declare hex_nat.simps [simp del]

definition format_hex :: "int64 \<Rightarrow> string" where
  "format_hex x =
     (if sint x < 0 then CHR ''-'' # hex_nat (nat (- sint x)) else hex_nat (nat (sint x)))"

fun parse_hex_digits :: "nat \<Rightarrow> string \<Rightarrow> nat option" where
  "parse_hex_digits acc [] = Some acc"
| "parse_hex_digits acc (c # cs) =
     (case hex_value c of None \<Rightarrow> None | Some d \<Rightarrow> parse_hex_digits (16 * acc + d) cs)"

definition big_of_hex :: "string \<Rightarrow> int option" where
  "big_of_hex s =
     (let neg = (case s of c # _ \<Rightarrow> c = CHR ''-'' | [] \<Rightarrow> False);
          signed = (case s of c # _ \<Rightarrow> c = CHR ''-'' \<or> c = CHR ''+'' | [] \<Rightarrow> False);
          ds = (if signed then tl s else s)
      in if ds = [] then None
         else map_option (\<lambda>n. if neg then - int n else int n) (parse_hex_digits 0 ds))"

lemma hex_value_digit: "d < 16 \<Longrightarrow> hex_value (hex_digit d) = Some d"
  by (auto simp: hex_value_def hex_digit_def Let_def)

lemma hex_value_sign [simp]: "hex_value CHR ''-'' = None" "hex_value CHR ''+'' = None"
  by (simp_all add: hex_value_def)

lemma hex_decode_encode [simp]: "hex_decode (hex_encode bs) = Some bs"
proof (induction bs)
  case (Cons c cs)
  have "(of_char c :: nat) div 16 < 16"
    by (rule less_mult_imp_div_less) simp
  then show ?case
    using Cons by (simp add: hex_encode_def hex_value_digit)
qed (simp add: hex_encode_def)

lemma length_hex_decode: "hex_decode s = Some bs \<Longrightarrow> length s = 2 * length bs"
  by (induction s arbitrary: bs rule: hex_decode.induct) (auto split: option.splits)

lemma length_hex_encode [simp]: "length (hex_encode bs) = 2 * length bs"
  by (induction bs) (simp_all add: hex_encode_def)

lemma parse_hex_digits_append:
  "parse_hex_digits acc (xs @ ys) =
     (case parse_hex_digits acc xs of None \<Rightarrow> None | Some n \<Rightarrow> parse_hex_digits n ys)"
  by (induction acc xs rule: parse_hex_digits.induct) (auto split: option.splits)

lemma parse_hex_nat: "parse_hex_digits 0 (hex_nat n) = Some n"
proof (induction n rule: hex_nat.induct)
  case (1 n)
  then show ?case
    by (cases "n < 16") (simp_all add: hex_nat.simps [of n] parse_hex_digits_append hex_value_digit)
qed

lemma hex_nat_not_Nil [simp]: "hex_nat n \<noteq> []"
  by (subst hex_nat.simps) simp

lemma hex_digit_no_sign: "d < 16 \<Longrightarrow> hex_digit d \<noteq> CHR ''-'' \<and> hex_digit d \<noteq> CHR ''+''"
  by (metis hex_value_digit option.distinct(1) hex_value_sign)

lemma hex_nat_digits: "c \<in> set (hex_nat n) \<Longrightarrow> \<exists>d < 16. c = hex_digit d"
proof (induction n rule: hex_nat.induct)
  case (1 n)
  then show ?case
    by (cases "n < 16") (auto simp: hex_nat.simps [of n] intro: exI [of _ "n mod 16"])
qed

text \<open>A formatted quantity reads back.\<close>

lemma big_of_format_hex: "big_of_hex (format_hex x) = Some (sint x)"
proof -
  have nosign: "hd (hex_nat n) \<noteq> CHR ''-'' \<and> hd (hex_nat n) \<noteq> CHR ''+''" for n
  proof -
    obtain d where "d < 16" "hd (hex_nat n) = hex_digit d"
      using hex_nat_digits [of "hd (hex_nat n)" n] by auto
    then show ?thesis
      using hex_digit_no_sign [of d] by simp
  qed
  have "big_of_hex (hex_nat n) = Some (int n)" for n
  proof (cases "hex_nat n")
    case (Cons a list)
    have "parse_hex_digits 0 (a # list) = Some n"
      using parse_hex_nat [of n] Cons by simp
    then show ?thesis
      using nosign [of n] Cons by (simp add: big_of_hex_def Let_def del: parse_hex_digits.simps)
  qed simp
  moreover have "big_of_hex (CHR ''-'' # hex_nat n) = Some (- int n)" for n
    by (simp add: big_of_hex_def Let_def parse_hex_nat)
  ultimately show ?thesis
    by (simp add: format_hex_def)
qed

section \<open>Hexadecimal text in normal form\<close>

definition lower_hex :: "string \<Rightarrow> bool" where
  "lower_hex s \<longleftrightarrow> list_all (\<lambda>c. let n = (of_char c :: nat) in 48 \<le> n \<and> n \<le> 57 \<or> 97 \<le> n \<and> n \<le> 102) s"

lemma hex_char_lower:
  assumes "hex_value c = Some x"
  shows "hex_value (ascii_lower c) = Some x" and "lower_hex [ascii_lower c]"
    and "c \<noteq> CHR 0xC4" and "c \<noteq> CHR 0xE2"
  using assms by (auto simp: hex_value_def ascii_lower_def lower_hex_def Let_def split: if_splits)

lemma to_lower_ascii:
  "c \<noteq> CHR 0xC4 \<Longrightarrow> c \<noteq> CHR 0xE2 \<Longrightarrow> to_lower (c # cs) = ascii_lower c # to_lower cs"
  by (simp add: to_lower.simps(2) has_prefix_def)

lemma hex_decode_to_lower:
  "hex_decode s = Some bs \<Longrightarrow> hex_decode (to_lower s) = Some bs \<and> lower_hex (to_lower s)"
proof (induction s arbitrary: bs rule: hex_decode.induct)
  case (3 a b cs)
  then obtain x y bs' where "hex_value a = Some x" "hex_value b = Some y" "hex_decode cs = Some bs'"
      "bs = char_of (16 * x + y) # bs'"
    by (auto split: option.splits)
  moreover from this have "hex_decode (to_lower cs) = Some bs' \<and> lower_hex (to_lower cs)"
    using 3 by simp
  ultimately show ?case
    using hex_char_lower [of a] hex_char_lower [of b]
    by (simp add: to_lower_ascii lower_hex_def)
qed (simp_all add: lower_hex_def)

lemma lower_hex_plain: "lower_hex s \<Longrightarrow> list_all plain_char s"
  by (auto simp: lower_hex_def list_all_iff plain_char_def printable_def Let_def)

lemma lower_hex_trim [simp]: "lower_hex s \<Longrightarrow> trim_space (CHR ''0'' # CHR ''x'' # s) = CHR ''0'' # CHR ''x'' # s"
  using lower_hex_plain [of s]
  by (intro trim_space_plain) (auto simp: list_all_iff printable_def plain_char_def)

lemma lower_hex_lower [simp]: "lower_hex s \<Longrightarrow> to_lower s = s"
  by (intro to_lower_plain lower_hex_plain)

lemma lower_hex_encode [simp]: "lower_hex (hex_encode bs)"
proof (induction bs)
  case (Cons c cs)
  have "lower_hex [hex_digit d]" if "d < 16" for d
    using that by (auto simp: lower_hex_def hex_digit_def Let_def)
  moreover have "(of_char c :: nat) div 16 < 16"
    by (rule less_mult_imp_div_less) simp
  ultimately have "lower_hex [hex_digit (of_char c div 16)]" "lower_hex [hex_digit (of_char c mod 16)]"
    by simp_all
  then show ?case
    using Cons by (simp add: hex_encode_def lower_hex_def)
qed (simp add: hex_encode_def lower_hex_def)

section \<open>Splitting\<close>

text \<open>\<open>strings.Split\<close> and \<open>strings.Cut\<close> at a separator of one byte.\<close>

fun split_on :: "char \<Rightarrow> string \<Rightarrow> string list" where
  "split_on sep [] = [[]]"
| "split_on sep (c # cs) =
     (if c = sep then [] # split_on sep cs
      else case split_on sep cs of [] \<Rightarrow> [[c]] | w # ws \<Rightarrow> (c # w) # ws)"

fun cut_at :: "char \<Rightarrow> string \<Rightarrow> (string \<times> string) option" where
  "cut_at sep [] = None"
| "cut_at sep (c # cs) =
     (if c = sep then Some ([], cs)
      else map_option (\<lambda>(k, v). (c # k, v)) (cut_at sep cs))"

lemma split_on_none: "sep \<notin> set s \<Longrightarrow> split_on sep s = [s]"
  by (induction s) auto

lemma split_on_sep: "sep \<notin> set s \<Longrightarrow> split_on sep (s @ sep # t) = s # split_on sep t"
  by (induction s) auto

lemma cut_at_sep: "sep \<notin> set k \<Longrightarrow> cut_at sep (k @ sep # v) = Some (k, v)"
  by (induction k) auto

end
