(* ===== verification/Multi_Chain.thy ===== *)
theory Multi_Chain
  imports Polling_UseCase
begin

text \<open>
  The chain dispatch of \<open>adapters/outbound/blockchain\<close>
  (\<open>multi_chain_receipt_observer.go\<close>, \<open>multi_chain_issued_payment_address_deriver.go\<close>): one
  receipt observer and one address deriver per chain behind the port the use cases call. A Go
  map that is ranged over is the list of its entries in the order of that iteration. An interface
  value that may be nil is an option.
\<close>

section \<open>Receipt observers\<close>

record ObservePaymentAddressInput =
  opi_AssetReference :: string
  opi_Network :: string
  opi_Address :: string
  opi_IssuedAt :: gotime
  opi_ObservedTotalMinor :: int64
  opi_ConfirmedTotalMinor :: int64
  opi_UnconfirmedTotalMinor :: int64
  opi_RequiredConfirmations :: int32
  opi_LatestBlockHeight :: int64
  opi_SinceBlockHeight :: int64

text \<open>An observer asks the network, so its answers depend on the step of the world.\<close>

record ChainReceiptObserver =
  cro_FetchLatestBlockHeight :: "nat \<Rightarrow> string \<Rightarrow> int64 result"
  cro_ObserveAddress :: "nat \<Rightarrow> ObservePaymentAddressInput \<Rightarrow> ObservePaymentAddressOutput result"

type_synonym MultiChainReceiptObserver = "string \<rightharpoonup> ChainReceiptObserver"

fun normalize_observers ::
  "(string \<times> ChainReceiptObserver option) list \<Rightarrow> MultiChainReceiptObserver
     \<Rightarrow> MultiChainReceiptObserver result" where
  "normalize_observers [] normalized = Inr normalized"
| "normalize_observers ((chain, observer) # entries) normalized =
     (case observer of
        None \<Rightarrow> Inl ErrOther
      | Some ob \<Rightarrow>
     (case NormalizeChainID chain of
        None \<Rightarrow> Inl ErrOther
      | Some normalizedChain \<Rightarrow> normalize_observers entries (normalized(normalizedChain \<mapsto> ob))))"

definition NewMultiChainReceiptObserver ::
  "(string \<times> ChainReceiptObserver option) list \<Rightarrow> MultiChainReceiptObserver result" where
  "NewMultiChainReceiptObserver observers =
     (if observers = [] then Inl ErrOther else normalize_observers observers Map.empty)"

definition resolveObserver ::
  "MultiChainReceiptObserver \<Rightarrow> string \<Rightarrow> string \<Rightarrow> (ChainReceiptObserver \<times> string) result" where
  "resolveObserver observers chain network =
     (case NormalizeChainID chain of
        None \<Rightarrow> Inl (OutObserver out_ErrBlockchainReceiptObserverInputInvalid)
      | Some normalizedChain \<Rightarrow>
     (case NormalizeNetworkID network of
        None \<Rightarrow> Inl (OutObserver out_ErrBlockchainReceiptObserverInputInvalid)
      | Some normalizedNetwork \<Rightarrow>
     (case observers normalizedChain of
        None \<Rightarrow> Inl (OutObserver out_ErrBlockchainReceiptObserverNotConfigured)
      | Some observer \<Rightarrow> Inr (observer, normalizedNetwork))))"

definition multi_observer_error :: "go_error \<Rightarrow> go_error" where
  "multi_observer_error err =
     (if err = OutObserver out_ErrBlockchainReceiptObserverNotConfigured
        then OutObserver out_ErrBlockchainReceiptObserverNotConfigured
      else if err = OutObserver out_ErrBlockchainReceiptObserverInputInvalid
        then OutObserver out_ErrBlockchainReceiptObserverInputInvalid
      else OutObserver out_ErrBlockchainReceiptObserverFailed)"

definition chain_observe_input ::
  "ObserveChainPaymentAddressInput \<Rightarrow> string \<Rightarrow> ObservePaymentAddressInput" where
  "chain_observe_input input network =
     \<lparr>opi_AssetReference = oci_AssetReference input, opi_Network = network,
      opi_Address = oci_Address input, opi_IssuedAt = oci_IssuedAt input,
      opi_ObservedTotalMinor = oci_ObservedTotalMinor input,
      opi_ConfirmedTotalMinor = oci_ConfirmedTotalMinor input,
      opi_UnconfirmedTotalMinor = oci_UnconfirmedTotalMinor input,
      opi_RequiredConfirmations = oci_RequiredConfirmations input,
      opi_LatestBlockHeight = oci_LatestBlockHeight input,
      opi_SinceBlockHeight = oci_SinceBlockHeight input\<rparr>"

definition MultiChain_ObserveAddress ::
  "MultiChainReceiptObserver \<Rightarrow> nat \<Rightarrow> ObserveChainPaymentAddressInput
     \<Rightarrow> ObservePaymentAddressOutput result" where
  "MultiChain_ObserveAddress observers k input =
     (case resolveObserver observers (oci_Chain input) (oci_Network input) of
        Inl err \<Rightarrow> Inl err
      | Inr (observer, normalizedNetwork) \<Rightarrow>
     (case cro_ObserveAddress observer k (chain_observe_input input normalizedNetwork) of
        Inl err \<Rightarrow> Inl (multi_observer_error err)
      | Inr output \<Rightarrow> Inr output))"

definition MultiChain_FetchLatestBlockHeight ::
  "MultiChainReceiptObserver \<Rightarrow> nat \<Rightarrow> string \<Rightarrow> string \<Rightarrow> int64 result" where
  "MultiChain_FetchLatestBlockHeight observers k chain network =
     (case resolveObserver observers chain network of
        Inl err \<Rightarrow> Inl err
      | Inr (observer, normalizedNetwork) \<Rightarrow>
     (case cro_FetchLatestBlockHeight observer k normalizedNetwork of
        Inl err \<Rightarrow> Inl (multi_observer_error err)
      | Inr latestBlockHeight \<Rightarrow> Inr latestBlockHeight))"

text \<open>The port the polling use case calls.\<close>

definition multi_chain_observer :: "MultiChainReceiptObserver \<Rightarrow> BlockchainReceiptObserver" where
  "multi_chain_observer observers =
     \<lparr>bro_FetchLatestBlockHeight = MultiChain_FetchLatestBlockHeight observers,
      bro_ObserveAddress = MultiChain_ObserveAddress observers\<rparr>"

section \<open>Address derivers\<close>

record ChainSpecificDeriver =
  csd_Chain :: string
  csd_DeriveIssuedAddress ::
    "AddressIssuancePolicyRecord \<Rightarrow> PaymentAddressAllocationRecord
       \<Rightarrow> DeriveOutput result"

type_synonym MultiChainDeriver = "string \<rightharpoonup> ChainSpecificDeriver"

fun normalize_derivers ::
  "ChainSpecificDeriver option list \<Rightarrow> MultiChainDeriver \<Rightarrow> MultiChainDeriver result" where
  "normalize_derivers [] normalized = Inr normalized"
| "normalize_derivers (deriver # derivers) normalized =
     (case deriver of
        None \<Rightarrow> Inl ErrOther
      | Some d \<Rightarrow>
     (case NormalizeSupportedChain (csd_Chain d) of
        None \<Rightarrow> Inl ErrOther
      | Some normalizedChain \<Rightarrow>
          if normalized normalizedChain \<noteq> None then Inl ErrOther
          else normalize_derivers derivers (normalized(normalizedChain \<mapsto> d))))"

definition NewMultiChainIssuedPaymentAddressDeriver ::
  "ChainSpecificDeriver option list \<Rightarrow> MultiChainDeriver result" where
  "NewMultiChainIssuedPaymentAddressDeriver derivers =
     (if derivers = [] then Inl ErrOther else normalize_derivers derivers Map.empty)"

definition MultiChain_SupportsChain :: "MultiChainDeriver \<Rightarrow> string \<Rightarrow> bool" where
  "MultiChain_SupportsChain derivers chain =
     (case NormalizeSupportedChain chain of
        None \<Rightarrow> False
      | Some normalizedChain \<Rightarrow> derivers normalizedChain \<noteq> None)"

definition issued_deriver_failure :: "go_error \<Rightarrow> go_error" where
  "issued_deriver_failure err =
     (if err = OutIssuedDeriver out_ErrIssuedPaymentAddressDeriverNotConfigured
        then OutIssuedDeriver out_ErrIssuedPaymentAddressDeriverNotConfigured
      else if err = OutIssuedDeriver out_ErrIssuedPaymentAddressDerivationInputInvalid
        then OutIssuedDeriver out_ErrIssuedPaymentAddressDerivationInputInvalid
      else OutIssuedDeriver out_ErrIssuedPaymentAddressDerivationFailed)"

definition MultiChain_DeriveIssuedAddress ::
  "MultiChainDeriver \<Rightarrow> AddressIssuancePolicyRecord \<Rightarrow> PaymentAddressAllocationRecord
     \<Rightarrow> DeriveOutput result" where
  "MultiChain_DeriveIssuedAddress derivers policy allocation =
     (case NormalizeSupportedChain (ipr_Chain policy) of
        None \<Rightarrow> Inl (OutIssuedDeriver out_ErrIssuedPaymentAddressDerivationInputInvalid)
      | Some normalizedChain \<Rightarrow>
     (case derivers normalizedChain of
        None \<Rightarrow> Inl (OutIssuedDeriver out_ErrIssuedPaymentAddressDeriverNotConfigured)
      | Some deriver \<Rightarrow>
     (case csd_DeriveIssuedAddress deriver policy allocation of
        Inl err \<Rightarrow> Inl (issued_deriver_failure err)
      | Inr output \<Rightarrow> Inr output)))"

text \<open>The port the allocation use case calls.\<close>

definition multi_chain_deriver :: "MultiChainDeriver \<Rightarrow> IssuedAddressDeriver" where
  "multi_chain_deriver derivers =
     \<lparr>iad_SupportsChain = MultiChain_SupportsChain derivers,
      iad_DeriveIssuedAddress = MultiChain_DeriveIssuedAddress derivers\<rparr>"

section \<open>What the dispatch promises\<close>

lemma normalize_observers_dom:
  "normalize_observers es m = Inr m' \<Longrightarrow>
     dom m' = dom m \<union> {c. \<exists>e \<in> set es. NormalizeChainID (fst e) = Some c}"
  by (induction es m rule: normalize_observers.induct) (auto split: option.splits if_splits)

lemma normalize_derivers_dom:
  "normalize_derivers ds m = Inr m' \<Longrightarrow>
     dom m' = dom m \<union> {c. \<exists>d. Some d \<in> set ds \<and> NormalizeSupportedChain (csd_Chain d) = Some c}"
  by (induction ds m rule: normalize_derivers.induct) (auto split: option.splits if_splits)

lemma normalize_derivers_Cons:
  "normalize_derivers (x # xs) m = Inr m' \<longleftrightarrow>
     (\<exists>d c. x = Some d \<and> NormalizeSupportedChain (csd_Chain d) = Some c \<and> m c = None \<and>
        normalize_derivers xs (m(c \<mapsto> d)) = Inr m')"
  by (auto split: option.splits)

lemma normalize_derivers_keeps:
  "normalize_derivers ds m = Inr m' \<Longrightarrow> m c = Some d \<Longrightarrow> m' c = Some d"
proof (induction ds arbitrary: m)
  case (Cons x xs)
  then obtain e b where e: "m b = None" "normalize_derivers xs (m(b \<mapsto> e)) = Inr m'"
    unfolding normalize_derivers_Cons by blast
  with Cons.prems(2) have "(m(b \<mapsto> e)) c = Some d"
    by auto
  then show ?case
    by (rule Cons.IH [OF e(2)])
qed simp

lemma normalize_derivers_lookup:
  "normalize_derivers ds m = Inr m' \<Longrightarrow> Some d \<in> set ds \<Longrightarrow>
     NormalizeSupportedChain (csd_Chain d) = Some c \<Longrightarrow> m' c = Some d"
proof (induction ds arbitrary: m)
  case (Cons x xs)
  then obtain e b where e: "x = Some e" "NormalizeSupportedChain (csd_Chain e) = Some b"
      "normalize_derivers xs (m(b \<mapsto> e)) = Inr m'"
    unfolding normalize_derivers_Cons by blast
  show ?case
  proof (cases "e = d")
    case True
    with e Cons.prems(3) show ?thesis
      by (intro normalize_derivers_keeps [OF e(3)]) simp
  next
    case False
    with e Cons.prems show ?thesis
      by (intro Cons.IH [OF e(3)]) auto
  qed
qed simp

lemma supported_chain_is_derived:
  "MultiChain_SupportsChain derivers (ipr_Chain policy) \<longleftrightarrow>
     (\<exists>c d. NormalizeSupportedChain (ipr_Chain policy) = Some c \<and> derivers c = Some d)"
  by (auto simp: MultiChain_SupportsChain_def split: option.splits)

end
