(* ===== verification/Bitcoin_Observer.thy ===== *)
theory Bitcoin_Observer
  imports Go_Net Multi_Chain "HOL-Library.AList"
begin

text \<open>
  The Bitcoin receipt observer, \<open>adapters/outbound/bitcoin\<close>
  (\<open>esplora_receipt_observer.go\<close>, \<open>network.go\<close> and the Cloudflare variant
  \<open>cloudflare_esplora_receipt_observer.go\<close>): an Esplora server is asked for the transactions
  of an address, page by page, and what they pay to the address is added up. A call returns its
  result together with the number of requests made so far. The lemmas show that adding up is
  adding over the distinct transactions, and that paging collects the whole history of a server
  that pages as Esplora does.
\<close>

section \<open>Networks\<close>

definition bitcoinNetworks :: "string \<rightharpoonup> string" where
  "bitcoinNetworks = map_of [(''mainnet'', ''mainnet''), (''testnet4'', ''testnet4'')]"

definition parseNetwork :: "string \<Rightarrow> string option" where
  "parseNetwork raw = bitcoinNetworks (to_lower (trim_space raw))"

section \<open>Clients\<close>

record EsploraConfig =
  ec_Endpoint :: string
  ec_Username :: string
  ec_Password :: string
  ec_Timeout :: duration

record EsploraClient =
  bac_endpoint :: string
  bac_username :: string
  bac_password :: string
  bac_timeout :: duration

definition newBitcoinAPIClient :: "EsploraConfig option \<Rightarrow> EsploraClient option" where
  "newBitcoinAPIClient config =
     (case config of
        None \<Rightarrow> None
      | Some c \<Rightarrow>
          (let endpoint = trim_space (ec_Endpoint c)
           in if endpoint = [] then None
              else Some \<lparr>bac_endpoint = endpoint, bac_username = trim_space (ec_Username c),
                         bac_password = ec_Password c,
                         bac_timeout = (if sint (ec_Timeout c) \<le> 0 then 10000000000 else ec_Timeout c)\<rparr>))"

text \<open>The map of clients that is built is kept as the list of its entries, one for each key.\<close>

fun esplora_clients ::
  "(string \<times> EsploraConfig option) list \<Rightarrow> (string \<times> EsploraClient) list
     \<Rightarrow> (string \<times> EsploraClient) list result" where
  "esplora_clients [] clients = Inr clients"
| "esplora_clients ((rawNetwork, config) # configs) clients =
     (case parseNetwork rawNetwork of
        None \<Rightarrow> Inl ErrOther
      | Some network \<Rightarrow>
     (case newBitcoinAPIClient config of
        None \<Rightarrow> esplora_clients configs clients
      | Some client \<Rightarrow> esplora_clients configs (AList.update network client clients)))"

definition NewBitcoinEsploraReceiptObserver ::
  "(string \<times> EsploraConfig option) list \<Rightarrow> (string \<times> EsploraClient) list result" where
  "NewBitcoinEsploraReceiptObserver configs =
     (case esplora_clients configs [] of
        Inl err \<Rightarrow> Inl err
      | Inr clients \<Rightarrow> if clients = [] then Inl ErrOther else Inr clients)"

definition selectClient :: "(string \<times> EsploraClient) list \<Rightarrow> string \<Rightarrow> EsploraClient result" where
  "selectClient clients network =
     (case parseNetwork network of
        None \<Rightarrow> Inl (OutObserver out_ErrBlockchainReceiptObserverInputInvalid)
      | Some bitcoinNetwork \<Rightarrow>
     (case map_of clients bitcoinNetwork of
        None \<Rightarrow> Inl (OutObserver out_ErrBlockchainReceiptObserverNotConfigured)
      | Some client \<Rightarrow> Inr client))"

section \<open>Transactions\<close>

record esploraTxVout =
  vo_Value :: int64
  vo_Addr :: string

record esploraTxStatus =
  st_Confirmed :: bool
  st_BlockHeight :: int64
  st_BlockTime :: int64

record esploraTransaction =
  tx_TxID :: string
  tx_Vout :: "esploraTxVout list"
  tx_Status :: esploraTxStatus

definition decode_vout :: "esploraTxVout json_decoder" where
  "decode_vout = decode_struct False
     [(''value'', struct_field decode_int64 vo_Value vo_Value_update),
      (''scriptpubkey_address'', struct_field decode_string vo_Addr vo_Addr_update)]"

definition decode_tx_status :: "esploraTxStatus json_decoder" where
  "decode_tx_status = decode_struct False
     [(''confirmed'', struct_field decode_bool st_Confirmed st_Confirmed_update),
      (''block_height'', struct_field decode_int64 st_BlockHeight st_BlockHeight_update),
      (''block_time'', struct_field decode_int64 st_BlockTime st_BlockTime_update)]"

definition decode_transaction :: "esploraTransaction json_decoder" where
  "decode_transaction = decode_struct False
     [(''txid'', struct_field decode_string tx_TxID tx_TxID_update),
      (''vout'', struct_field (decode_slice \<lparr>vo_Value = 0, vo_Addr = []\<rparr> decode_vout) tx_Vout tx_Vout_update),
      (''status'', struct_field decode_tx_status tx_Status tx_Status_update)]"

definition no_transaction :: esploraTransaction where
  "no_transaction = \<lparr>tx_TxID = [], tx_Vout = [],
     tx_Status = \<lparr>st_Confirmed = False, st_BlockHeight = 0, st_BlockTime = 0\<rparr>\<rparr>"

definition decode_transactions :: "esploraTransaction list json_decoder" where
  "decode_transactions = decode_slice no_transaction decode_transaction"

section \<open>Requests\<close>

definition esplora_request :: "EsploraClient \<Rightarrow> string \<Rightarrow> HttpRequest" where
  "esplora_request c path =
     \<lparr>rq_Method = ''GET'', rq_URL = trim_right_slashes (bac_endpoint c) @ path,
      rq_BasicAuth = (if bac_username c \<noteq> [] then Some (bac_username c, bac_password c) else None),
      rq_Headers = [], rq_Body = []\<rparr>"

definition esplora_get :: "HttpServer \<Rightarrow> EsploraClient \<Rightarrow> string \<Rightarrow> nat \<Rightarrow> string result \<times> nat" where
  "esplora_get server c path n =
     (case server n (esplora_request c path) of
        None \<Rightarrow> (Inl ErrOther, n + 1)
      | Some reply \<Rightarrow>
          if rp_Status reply \<noteq> 200 then (Inl ErrOther, n + 1) else (Inr (rp_Body reply), n + 1))"

definition get_transactions ::
  "Codec \<Rightarrow> HttpServer \<Rightarrow> EsploraClient \<Rightarrow> string \<Rightarrow> nat \<Rightarrow> esploraTransaction list result \<times> nat" where
  "get_transactions codec server c path n =
     (case esplora_get server c path n of
        (Inl err, n1) \<Rightarrow> (Inl err, n1)
      | (Inr body, n1) \<Rightarrow>
     (case json_value codec body of
        None \<Rightarrow> (Inl ErrOther, n1)
      | Some v \<Rightarrow>
     (case decode_transactions v [] of
        None \<Rightarrow> (Inl ErrOther, n1)
      | Some transactions \<Rightarrow> (Inr transactions, n1))))"

definition esplora_latest_height :: "HttpServer \<Rightarrow> EsploraClient \<Rightarrow> nat \<Rightarrow> int64 result \<times> nat" where
  "esplora_latest_height server c n =
     (case esplora_get server c ''/blocks/tip/height'' n of
        (Inl err, n1) \<Rightarrow> (Inl err, n1)
      | (Inr body, n1) \<Rightarrow>
     (case parse_int64 (trim_space body) of
        None \<Rightarrow> (Inl ErrOther, n1)
      | Some height \<Rightarrow> if sint height < 0 then (Inl ErrOther, n1) else (Inr height, n1)))"

definition defaultEsploraChainPageSize :: nat where
  "defaultEsploraChainPageSize = 25"

definition max_chain_pages :: nat where
  "max_chain_pages = 10000"

definition chain_page_path :: "string \<Rightarrow> string \<Rightarrow> string" where
  "chain_page_path path lastSeenTxID =
     (if lastSeenTxID \<noteq> [] then path @ ''/'' @ path_escape lastSeenTxID else path)"

function fetch_chain_pages ::
  "Codec \<Rightarrow> HttpServer \<Rightarrow> EsploraClient \<Rightarrow> string \<Rightarrow> nat \<Rightarrow> string \<Rightarrow> esploraTransaction list \<Rightarrow> nat
     \<Rightarrow> esploraTransaction list result \<times> nat" where
  "fetch_chain_pages codec server c path page lastSeenTxID transactions n =
     (if max_chain_pages \<le> page then (Inr transactions, n)
      else case get_transactions codec server c (chain_page_path path lastSeenTxID) n of
          (Inl err, n1) \<Rightarrow> (Inl err, n1)
        | (Inr pageTransactions, n1) \<Rightarrow>
            if pageTransactions = [] then (Inr transactions, n1)
            else if length pageTransactions < defaultEsploraChainPageSize
              then (Inr (transactions @ pageTransactions), n1)
            else (let nextTxID = trim_space (tx_TxID (last pageTransactions))
                  in if nextTxID = [] \<or> nextTxID = lastSeenTxID
                       then (Inr (transactions @ pageTransactions), n1)
                     else fetch_chain_pages codec server c path (page + 1) nextTxID
                            (transactions @ pageTransactions) n1))"
  by pat_completeness auto
termination
  by (relation "measure (\<lambda>(codec, server, c, path, page, lastSeenTxID, transactions, n).
        max_chain_pages - page)") auto

declare fetch_chain_pages.simps [simp del]

definition address_path :: "string \<Rightarrow> string" where
  "address_path address = ''/address/'' @ path_escape (trim_space address) @ ''/txs/''"

definition fetchAddressChainTransactions ::
  "Codec \<Rightarrow> HttpServer \<Rightarrow> EsploraClient \<Rightarrow> string \<Rightarrow> nat \<Rightarrow> esploraTransaction list result \<times> nat" where
  "fetchAddressChainTransactions codec server c address n =
     fetch_chain_pages codec server c (address_path address @ ''chain'') 0 [] [] n"

definition fetchAddressMempoolTransactions ::
  "Codec \<Rightarrow> HttpServer \<Rightarrow> EsploraClient \<Rightarrow> string \<Rightarrow> nat \<Rightarrow> esploraTransaction list result \<times> nat" where
  "fetchAddressMempoolTransactions codec server c address n =
     get_transactions codec server c (address_path address @ ''mempool'') n"

section \<open>Adding up\<close>

definition add_output :: "string \<Rightarrow> esploraTxVout \<Rightarrow> int64 \<Rightarrow> int64" where
  "add_output address output sum0 =
     (if trim_space (vo_Addr output) \<noteq> address then sum0
      else if sint (vo_Value output) \<le> 0 then sum0
      else sum0 + vo_Value output)"

definition inboundValueForAddress :: "esploraTransaction \<Rightarrow> string \<Rightarrow> int64" where
  "inboundValueForAddress tx address = fold (add_output address) (tx_Vout tx) 0"

definition calculateConfirmations :: "int64 \<Rightarrow> int64 \<Rightarrow> int64" where
  "calculateConfirmations latestBlockHeight blockHeight =
     (if sint latestBlockHeight \<le> 0 \<or> sint blockHeight \<le> 0 \<or>
         sint latestBlockHeight < sint blockHeight then 0
      else latestBlockHeight - blockHeight + 1)"

record InboundTotals =
  it_confirmedTotalMinor :: int64
  it_unconfirmedTotalMinor :: int64
  it_seenTxIDs :: "string list"

definition add_inbound ::
  "string \<Rightarrow> int64 \<Rightarrow> int64 \<Rightarrow> int64 \<Rightarrow> esploraTransaction \<Rightarrow> InboundTotals \<Rightarrow> InboundTotals result" where
  "add_inbound address issuedAtUnix requiredConfirmations latestBlockHeight tx totals =
     (let inboundTotalMinor = inboundValueForAddress tx address
      in if inboundTotalMinor = 0 then Inr totals
         else if \<not> st_Confirmed (tx_Status tx)
           then Inr (totals\<lparr>it_unconfirmedTotalMinor := it_unconfirmedTotalMinor totals + inboundTotalMinor\<rparr>)
         else if sint (st_BlockTime (tx_Status tx)) \<le> 0 then Inl ErrOther
         else if sint (st_BlockTime (tx_Status tx)) < sint issuedAtUnix then Inr totals
         else if sint requiredConfirmations \<le>
             sint (calculateConfirmations latestBlockHeight (st_BlockHeight (tx_Status tx)))
           then Inr (totals\<lparr>it_confirmedTotalMinor := it_confirmedTotalMinor totals + inboundTotalMinor\<rparr>)
         else Inr (totals\<lparr>it_unconfirmedTotalMinor := it_unconfirmedTotalMinor totals + inboundTotalMinor\<rparr>))"

definition processTransaction ::
  "string \<Rightarrow> int64 \<Rightarrow> int64 \<Rightarrow> int64 \<Rightarrow> esploraTransaction \<Rightarrow> InboundTotals \<Rightarrow> InboundTotals result" where
  "processTransaction address issuedAtUnix requiredConfirmations latestBlockHeight tx totals =
     (let txID = trim_space (tx_TxID tx)
      in if txID \<noteq> [] \<and> txID \<in> set (it_seenTxIDs totals) then Inr totals
         else add_inbound address issuedAtUnix requiredConfirmations latestBlockHeight tx
           (if txID \<noteq> [] then totals\<lparr>it_seenTxIDs := txID # it_seenTxIDs totals\<rparr> else totals))"

fun process_transactions ::
  "string \<Rightarrow> int64 \<Rightarrow> int64 \<Rightarrow> int64 \<Rightarrow> esploraTransaction list \<Rightarrow> InboundTotals \<Rightarrow> InboundTotals result"
where
  "process_transactions address issuedAtUnix required latest [] totals = Inr totals"
| "process_transactions address issuedAtUnix required latest (tx # txs) totals =
     (case processTransaction address issuedAtUnix required latest tx totals of
        Inl err \<Rightarrow> Inl err
      | Inr totals1 \<Rightarrow> process_transactions address issuedAtUnix required latest txs totals1)"

definition aggregateInboundTotals ::
  "string \<Rightarrow> gotime \<Rightarrow> int64 \<Rightarrow> int64 \<Rightarrow> esploraTransaction list \<Rightarrow> esploraTransaction list
     \<Rightarrow> (int64 \<times> int64) result" where
  "aggregateInboundTotals address issuedAt requiredConfirmations latestBlockHeight chainTxs mempoolTxs =
     (let process = process_transactions (trim_space address) (time_unix issuedAt)
                      requiredConfirmations latestBlockHeight
      in case process chainTxs
             \<lparr>it_confirmedTotalMinor = 0, it_unconfirmedTotalMinor = 0, it_seenTxIDs = []\<rparr> of
           Inl err \<Rightarrow> Inl err
         | Inr totals \<Rightarrow>
        (case process mempoolTxs totals of
           Inl err \<Rightarrow> Inl err
         | Inr totals1 \<Rightarrow> Inr (it_confirmedTotalMinor totals1, it_unconfirmedTotalMinor totals1)))"

section \<open>The observer\<close>

definition observe_input_invalid :: "string \<Rightarrow> ObservePaymentAddressInput \<Rightarrow> bool" where
  "observe_input_invalid address input \<longleftrightarrow>
     address = [] \<or> time_is_zero (opi_IssuedAt input) \<or> sint (opi_RequiredConfirmations input) \<le> 0 \<or>
     sint (opi_LatestBlockHeight input) \<le> 0 \<or> sint (opi_SinceBlockHeight input) < 0"

text \<open>What both observers do with the two lists of transactions.\<close>

definition observed_totals ::
  "ObservePaymentAddressInput \<Rightarrow> string \<Rightarrow> esploraTransaction list \<Rightarrow> esploraTransaction list
     \<Rightarrow> ObservePaymentAddressOutput result" where
  "observed_totals input address chainTxs mempoolTxs =
     (case aggregateInboundTotals address (opi_IssuedAt input)
             (scast (opi_RequiredConfirmations input))
             (opi_LatestBlockHeight input) chainTxs mempoolTxs of
        Inl _ \<Rightarrow> Inl (OutObserver out_ErrBlockchainReceiptObserverFailed)
      | Inr (confirmedTotalMinor, unconfirmedTotalMinor) \<Rightarrow>
          Inr \<lparr>oo_ObservedTotalMinor = confirmedTotalMinor + unconfirmedTotalMinor,
               oo_ConfirmedTotalMinor = confirmedTotalMinor,
               oo_UnconfirmedTotalMinor = unconfirmedTotalMinor,
               oo_LatestBlockHeight = opi_LatestBlockHeight input\<rparr>)"

definition Esplora_ObserveAddress ::
  "Codec \<Rightarrow> (string \<times> EsploraClient) list \<Rightarrow> HttpServer \<Rightarrow> ObservePaymentAddressInput
     \<Rightarrow> ObservePaymentAddressOutput result" where
  "Esplora_ObserveAddress codec clients server input =
     (let address = trim_space (opi_Address input)
      in if observe_input_invalid address input
           then Inl (OutObserver out_ErrBlockchainReceiptObserverInputInvalid)
         else case selectClient clients (opi_Network input) of
             Inl err \<Rightarrow> Inl err
           | Inr client \<Rightarrow>
         (case fetchAddressChainTransactions codec server client address 0 of
             (Inl _, n) \<Rightarrow> Inl (OutObserver out_ErrBlockchainReceiptObserverFailed)
           | (Inr chainTransactions, n) \<Rightarrow>
         (case fetchAddressMempoolTransactions codec server client address n of
             (Inl _, _) \<Rightarrow> Inl (OutObserver out_ErrBlockchainReceiptObserverFailed)
           | (Inr mempoolTransactions, _) \<Rightarrow>
               observed_totals input address chainTransactions mempoolTransactions)))"

definition Esplora_FetchLatestBlockHeight ::
  "(string \<times> EsploraClient) list \<Rightarrow> HttpServer \<Rightarrow> string \<Rightarrow> int64 result" where
  "Esplora_FetchLatestBlockHeight clients server network =
     (case selectClient clients network of
        Inl err \<Rightarrow> Inl err
      | Inr client \<Rightarrow>
     (case esplora_latest_height server client 0 of
        (Inl _, _) \<Rightarrow> Inl (OutObserver out_ErrBlockchainReceiptObserverFailed)
      | (Inr latestBlockHeight, _) \<Rightarrow> Inr latestBlockHeight))"

text \<open>
  The observer as the port sees it: the world's step picks the server's answers to the requests
  of the call made then.
\<close>

definition bitcoin_observer ::
  "Codec \<Rightarrow> (string \<times> EsploraClient) list \<Rightarrow> (nat \<Rightarrow> HttpServer) \<Rightarrow> ChainReceiptObserver" where
  "bitcoin_observer codec clients net =
     \<lparr>cro_FetchLatestBlockHeight = (\<lambda>k. Esplora_FetchLatestBlockHeight clients (net k)),
      cro_ObserveAddress = (\<lambda>k. Esplora_ObserveAddress codec clients (net k))\<rparr>"

section \<open>The Cloudflare variant\<close>

text \<open>The bridge to the JavaScript runtime, an interface of the package.\<close>

record EsploraBridge =
  br_FetchLatestBlockHeight :: "string \<Rightarrow> string \<Rightarrow> int64 result"
  br_FetchAddressChainTransactions :: "string \<Rightarrow> string \<Rightarrow> string \<Rightarrow> esploraTransaction list result"
  br_FetchAddressMempoolTransactions :: "string \<Rightarrow> string \<Rightarrow> string \<Rightarrow> esploraTransaction list result"

definition validateNetwork :: "string \<Rightarrow> string \<Rightarrow> string result" where
  "validateNetwork bridgeID network =
     (if trim_space bridgeID = [] then Inl (OutObserver out_ErrBlockchainReceiptObserverInputInvalid)
      else case parseNetwork network of
          None \<Rightarrow> Inl (OutObserver out_ErrBlockchainReceiptObserverInputInvalid)
        | Some bitcoinNetwork \<Rightarrow> Inr bitcoinNetwork)"

definition Cloudflare_ObserveAddress ::
  "string \<Rightarrow> EsploraBridge option \<Rightarrow> ObservePaymentAddressInput \<Rightarrow> ObservePaymentAddressOutput result" where
  "Cloudflare_ObserveAddress bridgeID bridge input =
     (let address = trim_space (opi_Address input)
      in if observe_input_invalid address input
           then Inl (OutObserver out_ErrBlockchainReceiptObserverInputInvalid)
         else case validateNetwork bridgeID (opi_Network input) of
             Inl err \<Rightarrow> Inl err
           | Inr _ \<Rightarrow>
         (case bridge of
             None \<Rightarrow> Inl (OutObserver out_ErrBlockchainReceiptObserverNotConfigured)
           | Some b \<Rightarrow>
         (case br_FetchAddressChainTransactions b bridgeID (opi_Network input) address of
             Inl _ \<Rightarrow> Inl (OutObserver out_ErrBlockchainReceiptObserverFailed)
           | Inr chainTransactions \<Rightarrow>
         (case br_FetchAddressMempoolTransactions b bridgeID (opi_Network input) address of
             Inl _ \<Rightarrow> Inl (OutObserver out_ErrBlockchainReceiptObserverFailed)
           | Inr mempoolTransactions \<Rightarrow>
               observed_totals input address chainTransactions mempoolTransactions))))"

definition Cloudflare_FetchLatestBlockHeight ::
  "string \<Rightarrow> EsploraBridge option \<Rightarrow> string \<Rightarrow> int64 result" where
  "Cloudflare_FetchLatestBlockHeight bridgeID bridge network =
     (case validateNetwork bridgeID network of
        Inl err \<Rightarrow> Inl err
      | Inr _ \<Rightarrow>
     (case bridge of
        None \<Rightarrow> Inl (OutObserver out_ErrBlockchainReceiptObserverNotConfigured)
      | Some b \<Rightarrow>
     (case br_FetchLatestBlockHeight b bridgeID network of
        Inl _ \<Rightarrow> Inl (OutObserver out_ErrBlockchainReceiptObserverFailed)
      | Inr latestBlockHeight \<Rightarrow> Inr latestBlockHeight)))"

definition NewCloudflareBitcoinEsploraReceiptObserver ::
  "string \<Rightarrow> (nat \<Rightarrow> EsploraBridge) option \<Rightarrow> ChainReceiptObserver" where
  "NewCloudflareBitcoinEsploraReceiptObserver rawBridgeID bridge =
     (let bridgeID = trim_space rawBridgeID
      in \<lparr>cro_FetchLatestBlockHeight =
            (\<lambda>k. Cloudflare_FetchLatestBlockHeight bridgeID (map_option (\<lambda>b. b k) bridge)),
          cro_ObserveAddress =
            (\<lambda>k. Cloudflare_ObserveAddress bridgeID (map_option (\<lambda>b. b k) bridge))\<rparr>)"

section \<open>Adding up is summing over the distinct transactions\<close>

text \<open>
  What the totals mean, over the integers: each transaction counts once, where its trimmed
  identifier first occurs, with what its positive outputs pay to the address. A transaction
  without an identifier always counts.
\<close>

fun distinct_transactions :: "string list \<Rightarrow> esploraTransaction list \<Rightarrow> esploraTransaction list" where
  "distinct_transactions seen [] = []"
| "distinct_transactions seen (tx # txs) =
     (let txID = trim_space (tx_TxID tx)
      in if txID \<noteq> [] \<and> txID \<in> set seen then distinct_transactions seen txs
         else tx # distinct_transactions (if txID \<noteq> [] then txID # seen else seen) txs)"

definition paid_to :: "string \<Rightarrow> esploraTransaction \<Rightarrow> int" where
  "paid_to address tx =
     sum_list (map (\<lambda>v. sint (vo_Value v))
       (filter (\<lambda>v. trim_space (vo_Addr v) = address \<and> 0 < sint (vo_Value v)) (tx_Vout tx)))"

text \<open>A confirmed transaction without a block time is an error of the server.\<close>

definition undated :: "string \<Rightarrow> esploraTransaction \<Rightarrow> bool" where
  "undated address tx \<longleftrightarrow>
     inboundValueForAddress tx address \<noteq> 0 \<and> st_Confirmed (tx_Status tx) \<and>
     sint (st_BlockTime (tx_Status tx)) \<le> 0"

definition buried :: "int64 \<Rightarrow> int64 \<Rightarrow> esploraTransaction \<Rightarrow> bool" where
  "buried required latest tx \<longleftrightarrow>
     sint required \<le> sint (calculateConfirmations latest (st_BlockHeight (tx_Status tx)))"

definition counts_confirmed :: "int64 \<Rightarrow> int64 \<Rightarrow> int64 \<Rightarrow> esploraTransaction \<Rightarrow> bool" where
  "counts_confirmed issuedAtUnix required latest tx \<longleftrightarrow>
     st_Confirmed (tx_Status tx) \<and> sint issuedAtUnix \<le> sint (st_BlockTime (tx_Status tx)) \<and>
     buried required latest tx"

definition counts_unconfirmed :: "int64 \<Rightarrow> int64 \<Rightarrow> int64 \<Rightarrow> esploraTransaction \<Rightarrow> bool" where
  "counts_unconfirmed issuedAtUnix required latest tx \<longleftrightarrow>
     \<not> st_Confirmed (tx_Status tx) \<or>
     (sint issuedAtUnix \<le> sint (st_BlockTime (tx_Status tx)) \<and> \<not> buried required latest tx)"

definition paid_in :: "string \<Rightarrow> (esploraTransaction \<Rightarrow> bool) \<Rightarrow> esploraTransaction list \<Rightarrow> int" where
  "paid_in address P txs = sum_list (map (paid_to address) (filter P txs))"

lemma add_outputs:
  "fold (add_output address) vs a =
     a + word_of_int (sum_list (map (\<lambda>v. sint (vo_Value v))
       (filter (\<lambda>v. trim_space (vo_Addr v) = address \<and> 0 < sint (vo_Value v)) vs)))"
  by (induction vs arbitrary: a) (auto simp: add_output_def not_le)

lemma inboundValueForAddress_paid: "inboundValueForAddress tx address = word_of_int (paid_to address tx)"
  by (simp add: inboundValueForAddress_def add_outputs paid_to_def)

lemma paid_in_simps [simp]:
  "paid_in address P [] = 0"
  "paid_in address P (tx # txs) = (if P tx then paid_to address tx else 0) + paid_in address P txs"
  by (simp_all add: paid_in_def)

text \<open>The step of one new transaction, on the two sums.\<close>

lemma add_inbound_sums:
  "add_inbound address issued required latest tx t =
     (if undated address tx then Inl ErrOther
      else Inr (t\<lparr>it_confirmedTotalMinor := it_confirmedTotalMinor t +
                   word_of_int (if counts_confirmed issued required latest tx then paid_to address tx else 0),
                 it_unconfirmedTotalMinor := it_unconfirmedTotalMinor t +
                   word_of_int (if counts_unconfirmed issued required latest tx then paid_to address tx else 0)\<rparr>))"
proof (cases "inboundValueForAddress tx address = 0")
  case True
  then have "word_of_int (paid_to address tx) = (0 :: int64)"
    by (simp add: inboundValueForAddress_paid)
  with True show ?thesis
    by (simp add: add_inbound_def undated_def)
next
  case False
  then show ?thesis
    unfolding add_inbound_def Let_def
    by (cases "st_Confirmed (tx_Status tx)";
        cases "sint (st_BlockTime (tx_Status tx)) \<le> 0";
        cases "sint (st_BlockTime (tx_Status tx)) < sint issued"; cases "buried required latest tx")
      (simp_all add: undated_def counts_confirmed_def counts_unconfirmed_def buried_def
        inboundValueForAddress_paid)
qed

lemma process_transactions_sums:
  "process_transactions address issued required latest txs t =
     (let new = distinct_transactions (it_seenTxIDs t) txs
      in if list_ex (undated address) new then Inl ErrOther
         else Inr \<lparr>it_confirmedTotalMinor = it_confirmedTotalMinor t +
                      word_of_int (paid_in address (counts_confirmed issued required latest) new),
                   it_unconfirmedTotalMinor = it_unconfirmedTotalMinor t +
                      word_of_int (paid_in address (counts_unconfirmed issued required latest) new),
                   it_seenTxIDs = rev (filter (\<lambda>i. i \<noteq> []) (map (\<lambda>tx. trim_space (tx_TxID tx)) new)) @
                      it_seenTxIDs t\<rparr>)"
proof (induction txs arbitrary: t)
  case (Cons tx txs)
  show ?case
    by (simp add: processTransaction_def add_inbound_sums Cons.IH Let_def)
qed simp

lemma distinct_transactions_append:
  "distinct_transactions seen (xs @ ys) =
     distinct_transactions seen xs @
     distinct_transactions
       (rev (filter (\<lambda>i. i \<noteq> []) (map (\<lambda>tx. trim_space (tx_TxID tx)) (distinct_transactions seen xs))) @ seen) ys"
  by (induction xs arbitrary: seen) (simp_all add: Let_def)

lemma aggregate_sums:
  "aggregateInboundTotals address issuedAt required latest chainTxs mempoolTxs =
     (let txs = distinct_transactions [] (chainTxs @ mempoolTxs); a = trim_space address
      in if list_ex (undated a) txs then Inl ErrOther
         else Inr (word_of_int (paid_in a (counts_confirmed (time_unix issuedAt) required latest) txs),
                   word_of_int (paid_in a (counts_unconfirmed (time_unix issuedAt) required latest) txs)))"
  by (simp add: aggregateInboundTotals_def process_transactions_sums Let_def
      distinct_transactions_append paid_in_def)

section \<open>Paging collects the history\<close>

text \<open>
  What Esplora documents: the chain transactions of an address come newest first, 25 at a time,
  and a page is continued after the last identifier seen. \<open>page_answer\<close> says that the server
  answers a path with one page, whenever it is asked.
\<close>

definition page_answer ::
  "Codec \<Rightarrow> HttpServer \<Rightarrow> EsploraClient \<Rightarrow> string \<Rightarrow> esploraTransaction list \<Rightarrow> bool" where
  "page_answer codec server c path txs \<longleftrightarrow>
     (\<forall>n. \<exists>body v. server n (esplora_request c path) = Some \<lparr>rp_Status = 200, rp_Body = body\<rparr> \<and>
        json_value codec body = Some v \<and> decode_transactions v [] = Some txs)"

definition tx_id :: "esploraTransaction \<Rightarrow> string" where
  "tx_id tx = trim_space (tx_TxID tx)"

definition serves_history ::
  "Codec \<Rightarrow> HttpServer \<Rightarrow> EsploraClient \<Rightarrow> string \<Rightarrow> esploraTransaction list \<Rightarrow> bool" where
  "serves_history codec server c path txs \<longleftrightarrow>
     page_answer codec server c path (take 25 txs) \<and>
     (\<forall>i < length txs. page_answer codec server c (path @ ''/'' @ path_escape (tx_id (txs ! i)))
        (take 25 (drop (Suc i) txs))) \<and>
     distinct (map tx_id txs) \<and> [] \<notin> set (map tx_id txs)"

lemma get_transactions_answer:
  assumes "page_answer codec server c path txs"
  shows "get_transactions codec server c path n = (Inr txs, n + 1)"
proof -
  obtain body v where "server n (esplora_request c path) = Some \<lparr>rp_Status = 200, rp_Body = body\<rparr>"
      and "json_value codec body = Some v" and "decode_transactions v [] = Some txs"
    using assms unfolding page_answer_def by blast
  then show ?thesis
    by (simp add: get_transactions_def esplora_get_def)
qed

lemma esplora_get_counts: "snd (esplora_get server c path n) = n + 1"
  by (simp add: esplora_get_def split: option.split)

lemma get_transactions_counts: "snd (get_transactions codec server c path n) = n + 1"
  using esplora_get_counts [of server c path n]
  by (auto simp: get_transactions_def split: prod.splits sum.splits option.splits)

text \<open>Whatever the server answers, paging stops.\<close>

lemma fetch_chain_pages_requests:
  "snd (fetch_chain_pages codec server c path page lastSeen txs n) \<le> n + (max_chain_pages - page)"
proof (induction codec server c path page lastSeen txs n rule: fetch_chain_pages.induct)
  case (1 codec server c path page lastSeen txs n)
  show ?case
  proof (cases "max_chain_pages \<le> page")
    case True
    then show ?thesis by (simp add: fetch_chain_pages.simps [of codec])
  next
    case False
    obtain r n1 where r: "get_transactions codec server c (chain_page_path path lastSeen) n = (r, n1)"
      by fastforce
    then have n1: "n1 = n + 1"
      using get_transactions_counts by (metis snd_conv)
    show ?thesis
    proof (cases r)
      case (Inl err)
      then show ?thesis
        using False r n1 by (simp add: fetch_chain_pages.simps [of codec server c path page])
    next
      case (Inr b)
      let ?next = "trim_space (tx_TxID (last b))"
      have "snd (fetch_chain_pages codec server c path (page + 1) ?next (txs @ b) n1)
          \<le> n1 + (max_chain_pages - (page + 1))"
        if "b \<noteq> []" "\<not> length b < defaultEsploraChainPageSize" "\<not> (?next = [] \<or> ?next = lastSeen)"
        using 1 [OF False r [symmetric] Inr that(1,2) refl that(3)] .
      with False r n1 Inr show ?thesis
        by (subst fetch_chain_pages.simps) (auto simp: Let_def)
    qed
  qed
qed

lemma fetch_chain_pages_monotone:
  "n \<le> snd (fetch_chain_pages codec server c path page lastSeen txs n)"
proof (induction codec server c path page lastSeen txs n rule: fetch_chain_pages.induct)
  case (1 codec server c path page lastSeen txs n)
  obtain r n1 where r: "get_transactions codec server c (chain_page_path path lastSeen) n = (r, n1)"
    by fastforce
  then have n1: "n1 = n + 1"
    using get_transactions_counts by (metis snd_conv)
  show ?case
  proof (cases r)
    case (Inl err)
    then show ?thesis
      using r n1 by (simp add: fetch_chain_pages.simps [of codec server c path page])
  next
    case (Inr b)
    let ?next = "trim_space (tx_TxID (last b))"
    have "n1 \<le> snd (fetch_chain_pages codec server c path (page + 1) ?next (txs @ b) n1)"
      if "\<not> max_chain_pages \<le> page" "b \<noteq> []" "\<not> length b < defaultEsploraChainPageSize"
        "\<not> (?next = [] \<or> ?next = lastSeen)"
      using 1 [OF that(1) r [symmetric] Inr that(2,3) refl that(4)] .
    with r n1 Inr show ?thesis
      by (subst fetch_chain_pages.simps) (auto simp: Let_def)
  qed
qed

text \<open>At least one request is made unless the page limit is zero.\<close>

lemma fetch_chain_pages_increase:
  assumes "page < max_chain_pages"
  shows "n + 1 \<le> snd (fetch_chain_pages codec server c path page lastSeen txs n)"
proof -
  obtain r where r: "get_transactions codec server c (chain_page_path path lastSeen) n = (r, n + 1)"
    using get_transactions_counts by (metis prod.collapse)
  show ?thesis
    using assms r fetch_chain_pages_monotone [of "n + 1"]
    by (subst fetch_chain_pages.simps) (auto simp: Let_def split: sum.split)
qed

lemma fetch_chain_pages_history:
  assumes "serves_history codec server c path txs"
    and "page \<le> max_chain_pages" and "25 * page \<le> length txs"
    and "lastSeen = (if page = 0 then [] else tx_id (txs ! (25 * page - 1)))"
  shows "fetch_chain_pages codec server c path page lastSeen (take (25 * page) txs) n =
           (Inr (take 250000 txs), n + min (max_chain_pages - page) ((length txs - 25 * page) div 25 + 1))"
  using assms
proof (induction "max_chain_pages - page" arbitrary: page lastSeen n)
  case 0
  then show ?case
    by (simp add: fetch_chain_pages.simps [of codec] max_chain_pages_def)
next
  case (Suc k)
  let ?page = "take 25 (drop (25 * page) txs)"
  have later: "\<not> max_chain_pages \<le> page"
    using Suc.hyps(2) by simp
  have ids: "tx_id (txs ! i) \<noteq> []" if "i < length txs" for i
  proof -
    have "tx_id (txs ! i) \<in> set (map tx_id txs)"
      using that by simp
    with Suc.prems(1) show ?thesis
      unfolding serves_history_def by metis
  qed
  have "page_answer codec server c (chain_page_path path lastSeen) ?page"
  proof (cases "page = 0")
    case False
    then have "25 * page - 1 < length txs" and "Suc (25 * page - 1) = 25 * page"
      using Suc.prems(3) by simp_all
    with False Suc.prems(1,4) ids show ?thesis
      by (auto simp: serves_history_def chain_page_path_def)
  qed (use Suc.prems in \<open>simp add: serves_history_def chain_page_path_def\<close>)
  then have get: "get_transactions codec server c (chain_page_path path lastSeen) n = (Inr ?page, n + 1)"
    by (rule get_transactions_answer)
  have join: "take (25 * page) txs @ ?page = take (25 * page + 25) txs"
    by (simp add: take_add)
  show ?case
  proof (cases "length txs < 25 * page + 25")
    case True
    then have "take (25 * page) txs @ ?page = take 250000 txs"
      using later by (simp add: join max_chain_pages_def)
    moreover have "(length txs - 25 * page) div 25 = 0"
      using True by simp
    ultimately show ?thesis
      using True later get by (auto simp: fetch_chain_pages.simps [of codec] Let_def
          defaultEsploraChainPageSize_def min_def)
  next
    case False
    then have len: "length ?page = 25" by simp
    let ?next = "tx_id (txs ! (25 * (page + 1) - 1))"
    have "?page \<noteq> []"
      using len by auto
    then have "last ?page = ?page ! 24"
      using last_conv_nth [of ?page] len by (simp add: add.commute)
    then have last: "tx_id (last ?page) = ?next"
      using False by (simp add: add.commute)
    have new: "?next \<noteq> lastSeen"
    proof (cases "page = 0")
      case True
      then show ?thesis using Suc.prems(4) ids [of 24] False by simp
    next
      case nz: False
      then have neq: "25 * (page + 1) - 1 \<noteq> 25 * page - 1" and
          len2: "25 * (page + 1) - 1 < length (map tx_id txs)" "25 * page - 1 < length (map tx_id txs)"
        using False by simp_all
      have "distinct (map tx_id txs)"
        using Suc.prems(1) by (simp add: serves_history_def)
      from nth_eq_iff_index_eq [OF this len2] neq show ?thesis
        using Suc.prems(4) nz len2 by simp
    qed
    have "fetch_chain_pages codec server c path page lastSeen (take (25 * page) txs) n =
        fetch_chain_pages codec server c path (page + 1) ?next (take (25 * (page + 1)) txs) (n + 1)"
      using later get len last new ids [of "25 * (page + 1) - 1"] False join
      by (auto simp: fetch_chain_pages.simps [of codec server c path page] Let_def tx_id_def
          defaultEsploraChainPageSize_def add.commute)
    also have "\<dots> = (Inr (take 250000 txs), n + 1 + min (max_chain_pages - (page + 1))
        ((length txs - 25 * (page + 1)) div 25 + 1))"
      by (rule Suc.hyps(1)) (use Suc.hyps(2) Suc.prems False in auto)
    also have "(length txs - 25 * (page + 1)) div 25 + 1 = (length txs - 25 * page) div 25"
      using False le_div_geq [of 25 "length txs - 25 * page"] by (simp add: diff_diff_add add.commute)
    also have "n + 1 + min (max_chain_pages - (page + 1)) ((length txs - 25 * page) div 25) =
        n + min (max_chain_pages - page) ((length txs - 25 * page) div 25 + 1)"
      using later by linarith
    finally show ?thesis .
  qed
qed

lemma chain_transactions_history:
  assumes "serves_history codec server c (address_path address @ ''chain'') txs"
  shows "fetchAddressChainTransactions codec server c address n =
           (Inr (take 250000 txs), n + min max_chain_pages (length txs div 25 + 1))"
  using fetch_chain_pages_history [OF assms, of 0 "[]" n] by (simp add: fetchAddressChainTransactions_def)

end
