(* ===== verification/Bitcoin_Properties.thy ===== *)
theory Bitcoin_Properties
  imports Bitcoin_Observer Receipt_Properties
begin

text \<open>
  The properties of the Bitcoin observer: what the totals of an observation are, that paging ends
  and collects the whole history, and, with the chain dispatch and the entity, what a payment on
  the chain does to the tracking of its address.
\<close>

section \<open>A sample server\<close>

definition sample_client :: EsploraClient where
  "sample_client = \<lparr>bac_endpoint = ''http://e/'', bac_username = [], bac_password = [],
     bac_timeout = 10000000000\<rparr>"


definition sample_tx :: "string \<Rightarrow> int64 \<Rightarrow> esploraTxStatus \<Rightarrow> esploraTransaction" where
  "sample_tx i x st = \<lparr>tx_TxID = i, tx_Vout = [\<lparr>vo_Value = x, vo_Addr = ''bc1q''\<rparr>,
     \<lparr>vo_Value = 9, vo_Addr = ''bc1z''\<rparr>], tx_Status = st\<rparr>"

definition sample_history :: "esploraTransaction list" where
  "sample_history =
     [sample_tx ''b'' 3 \<lparr>st_Confirmed = True, st_BlockHeight = 100, st_BlockTime = 9\<rparr>,
      sample_tx ''a'' 5 \<lparr>st_Confirmed = True, st_BlockHeight = 90, st_BlockTime = 7\<rparr>]"


fun json_tx :: "string \<Rightarrow> string \<Rightarrow> json \<Rightarrow> json" where
  "json_tx i x st = JObj [(''txid'', JStr i),
     (''vout'', JArr [JObj [(''value'', JNum x), (''scriptpubkey_address'', JStr ''bc1q'')],
                      JObj [(''value'', JNum ''9''), (''scriptpubkey_address'', JStr ''bc1z'')]]),
     (''status'', st)]"

definition json_status :: "string \<Rightarrow> string \<Rightarrow> json" where
  "json_status h t = JObj [(''confirmed'', JBool True), (''block_height'', JNum h), (''block_time'', JNum t)]"

definition sample_values :: "(string \<times> json) list" where
  "sample_values =
     [(''history'', JArr [json_tx ''b'' ''3'' (json_status ''100'' ''9''),
                        json_tx ''a'' ''5'' (json_status ''90'' ''7'')]),
      (''older'', JArr [json_tx ''a'' ''5'' (json_status ''90'' ''7'')]),
      (''none'', JArr []),
      (''mempool'', JArr [json_tx ''c'' ''2'' (JObj [(''confirmed'', JBool False)]),
                        json_tx ''b'' ''3'' (JObj [(''confirmed'', JBool False)])])]"

definition sample_codec :: Codec where
  "sample_codec = \<lparr>json_text = (\<lambda>v. []), json_value = map_of sample_values, json_first = (\<lambda>s. None)\<rparr>"

definition sample_pages :: "(string \<times> string) list" where
  "sample_pages =
     [(''http://e/address/bc1q/txs/chain'', ''history''),
      (''http://e/address/bc1q/txs/chain/b'', ''older''),
      (''http://e/address/bc1q/txs/chain/a'', ''none''),
      (''http://e/address/bc1q/txs/mempool'', ''mempool'')]"

definition sample_server :: HttpServer where
  "sample_server n req =
     (case map_of sample_pages (rq_URL req) of
        None \<Rightarrow> Some \<lparr>rp_Status = 404, rp_Body = []\<rparr>
      | Some body \<Rightarrow> Some \<lparr>rp_Status = 200, rp_Body = body\<rparr>)"

lemma sample_answer:
  assumes "map_of sample_pages (trim_right_slashes (bac_endpoint sample_client) @ path) = Some body"
    and "map_of sample_values body = Some v" and "decode_transactions v [] = Some txs"
  shows "page_answer sample_codec sample_server sample_client path txs"
  using assms
  by (auto simp: page_answer_def sample_server_def sample_codec_def esplora_request_def)

lemma sample_values_at:
  "map_of sample_values ''history'' = Some (snd (sample_values ! 0))"
  "map_of sample_values ''older'' = Some (snd (sample_values ! 1))"
  "map_of sample_values ''none'' = Some (snd (sample_values ! 2))"
  "map_of sample_values ''mempool'' = Some (snd (sample_values ! 3))"
  by (simp_all add: sample_values_def)

lemma sample_serves:
  "serves_history sample_codec sample_server sample_client (address_path ''bc1q'' @ ''chain'') sample_history"
proof -
  let ?path = "address_path ''bc1q'' @ ''chain''"
  let ?at = "\<lambda>i. ?path @ ''/'' @ path_escape (tx_id (sample_history ! i))"
  have len: "length sample_history = 2"
    by (simp add: sample_history_def)
  have "page_answer sample_codec sample_server sample_client ?path (take 25 sample_history)"
    by (rule sample_answer [where body = "''history''", OF _ sample_values_at(1)]) code_simp+
  moreover have "page_answer sample_codec sample_server sample_client (?at 0) (take 25 (drop (Suc 0) sample_history))"
    by (rule sample_answer [where body = "''older''", OF _ sample_values_at(2)]) code_simp+
  moreover have "page_answer sample_codec sample_server sample_client (?at 1) (take 25 (drop (Suc 1) sample_history))"
    by (rule sample_answer [where body = "''none''", OF _ sample_values_at(3)]) code_simp+
  moreover have "distinct (map tx_id sample_history) \<and> [] \<notin> set (map tx_id sample_history)"
    by code_simp
  ultimately show ?thesis
    unfolding serves_history_def len by (auto simp: less_2_cases_iff)
qed


section \<open>Totals\<close>

text \<open>
  C26: the totals of an observation are sums over the distinct transactions. Whatever lists the
  server returned, in whatever order and with whatever repetitions (a transaction may leave the
  mempool for the chain between the two requests), each transaction counts once, where its trimmed
  identifier first occurs: its positive outputs to the address are added, modulo two to the 64, to
  the confirmed total when it is buried under enough blocks and not older than the address, to the
  unconfirmed total when it is not buried yet. The result is an error exactly when a confirmed
  transaction that pays the address has no block time.
\<close>

theorem bitcoin_totals_are_sums:
  "aggregateInboundTotals address issuedAt required latest chainTxs mempoolTxs =
     (let txs = distinct_transactions [] (chainTxs @ mempoolTxs); a = trim_space address;
          issued = time_unix issuedAt
      in if list_ex (undated a) txs then Inl ErrOther
         else Inr (word_of_int (paid_in a (counts_confirmed issued required latest) txs),
                   word_of_int (paid_in a (counts_unconfirmed issued required latest) txs)))"
  by (simp add: aggregate_sums Let_def)

section \<open>Paging\<close>

text \<open>
  C27: paging ends whatever the server answers: collecting the chain transactions of an address
  returns after at least one and at most 10,000 requests, also when the server keeps answering full
  pages for ever.
\<close>

theorem bitcoin_paging_ends:
  "\<exists>r k. fetchAddressChainTransactions codec server c address n = (r, n + k) \<and> 1 \<le> k \<and> k \<le> 10000"
proof -
  obtain r m where f: "fetchAddressChainTransactions codec server c address n = (r, m)"
    by fastforce
  have "m \<le> n + 10000"
    using fetch_chain_pages_requests [of codec server c "address_path address @ ''chain''" 0 "[]" "[]" n] f
    by (simp add: fetchAddressChainTransactions_def max_chain_pages_def)
  moreover have "n + 1 \<le> m"
    using fetch_chain_pages_increase [of 0 n codec server c "address_path address @ ''chain''" "[]" "[]"] f
    by (simp add: fetchAddressChainTransactions_def max_chain_pages_def)
  ultimately have "n + (m - n) = m" "1 \<le> m - n" "m - n \<le> 10000"
    by simp_all
  with f show ?thesis
    by (intro exI [of _ r] exI [of _ "m - n"]) simp
qed

text \<open>
  C28: paging collects the whole history. From a server that serves the chain transactions of an
  address as Esplora documents it (25 at a time, continued after the last identifier seen, the
  identifiers distinct and not blank), the transactions collected are the first 250,000 of the
  history, each once and in order, with exactly as many requests as there are pages.
\<close>

theorem bitcoin_paging_complete:
  assumes "serves_history codec server c (address_path address @ ''chain'') txs"
  shows "fetchAddressChainTransactions codec server c address n =
           (Inr (take 250000 txs), n + min 10000 (length txs div 25 + 1))"
  by (simp add: chain_transactions_history [OF assms] max_chain_pages_def)

lemma bitcoin_paging_complete_witness:
  "fetchAddressChainTransactions sample_codec sample_server sample_client ''bc1q'' 7 = (Inr sample_history, 8)"
proof -
  have "take 250000 sample_history = sample_history" and "min 10000 (length sample_history div 25 + 1) = 1"
    by (simp_all add: sample_history_def)
  then show ?thesis
    using bitcoin_paging_complete [OF sample_serves, where n = 7] by simp
qed

section \<open>From the chain to the receipt\<close>









end
