(* ===== verification/Ethereum_Rpc.thy ===== *)
theory Ethereum_Rpc
  imports Go_Net Multi_Chain "HOL-Library.AList"
begin

text \<open>
  The Ethereum JSON-RPC client and the receipt observer on it, \<open>adapters/outbound/ethereum\<close>
  (\<open>address_hex.go\<close>, \<open>rpc_receipt_observer.go\<close>, \<open>rpc_contract_reads.go\<close>). Unlike on Bitcoin,
  no history is read: the observed total is the balance at the latest block, the confirmed total
  the balance at the block that has the required confirmations. A call returns its result
  together with the number of requests made so far.
\<close>

section \<open>Hexadecimal values\<close>

definition normalizeFixedHex :: "string \<Rightarrow> nat \<Rightarrow> (string \<times> string) result" where
  "normalizeFixedHex raw sizeBytes =
     (let trimmed = trim_space raw
      in if trimmed = [] then Inl ErrOther
         else if \<not> hex_prefixed trimmed then Inl ErrOther
         else case hex_decode (drop 2 trimmed) of
             None \<Rightarrow> Inl ErrOther
           | Some decoded \<Rightarrow>
               if length decoded \<noteq> sizeBytes then Inl ErrOther
               else Inr (''0x'' @ to_lower (drop 2 trimmed), decoded))"

definition NormalizeEthereumAddress :: "string \<Rightarrow> string result" where
  "NormalizeEthereumAddress raw =
     (case normalizeFixedHex raw 20 of Inl err \<Rightarrow> Inl err | Inr (normalized, _) \<Rightarrow> Inr normalized)"

definition mustDecodeFixedHex :: "string \<Rightarrow> nat \<Rightarrow> string result" where
  "mustDecodeFixedHex raw sizeBytes =
     (case normalizeFixedHex raw sizeBytes of Inl err \<Rightarrow> Inl err | Inr (_, decoded) \<Rightarrow> Inr decoded)"

definition encodeEthereumBlockNumber :: "int64 \<Rightarrow> string" where
  "encodeEthereumBlockNumber blockHeight = ''0x'' @ format_hex blockHeight"

definition parseEthereumHexQuantity :: "string \<Rightarrow> int result" where
  "parseEthereumHexQuantity raw =
     (let trimmed = trim_space raw
      in if \<not> hex_prefixed trimmed then Inl ErrOther
         else case big_of_hex (drop 2 trimmed) of None \<Rightarrow> Inl ErrOther | Some value \<Rightarrow> Inr value)"

definition parseEthereumHexQuantityToInt64 :: "string \<Rightarrow> int64 result" where
  "parseEthereumHexQuantityToInt64 raw =
     (let trimmed = trim_space raw
      in if \<not> hex_prefixed trimmed then Inl ErrOther
         else case big_of_hex (drop 2 trimmed) of
             None \<Rightarrow> Inl ErrOther
           | Some value \<Rightarrow>
               if value < 0 then Inl ErrOther
               else if \<not> (- (2 ^ 63) \<le> value \<and> value < 2 ^ 63) then Inl ErrOther
               else Inr (word_of_int value))"

definition parseEthereumHexQuantityToUint8 :: "string \<Rightarrow> uint8 result" where
  "parseEthereumHexQuantityToUint8 raw =
     (case parseEthereumHexQuantity raw of
        Inl err \<Rightarrow> Inl err
      | Inr value \<Rightarrow>
          if value < 0 then Inl ErrOther
          else if \<not> value < 2 ^ 64 \<or> 255 < value then Inl ErrOther
          else Inr (word_of_int value))"

definition parseEthereumHexBytes :: "string \<Rightarrow> string result" where
  "parseEthereumHexBytes raw =
     (let trimmed = trim_space raw
      in if \<not> hex_prefixed trimmed then Inl ErrOther
         else if length trimmed mod 2 \<noteq> 0 then Inl ErrOther
         else case hex_decode (drop 2 trimmed) of None \<Rightarrow> Inl ErrOther | Some decoded \<Rightarrow> Inr decoded)"

definition safeSubtractInt64NonNegative :: "int64 \<Rightarrow> int64 \<Rightarrow> int64 result" where
  "safeSubtractInt64NonNegative left right =
     (if sint left < 0 \<or> sint right < 0 then Inl ErrOther
      else if sint left < sint right then Inl ErrOther
      else Inr (left - right))"

definition erc20BalanceOfSelector :: string where
  "erc20BalanceOfSelector = [CHR 0x70, CHR 0xA0, CHR 0x82, CHR 0x31]"

definition erc20DecimalsSelector :: string where
  "erc20DecimalsSelector = [CHR 0x31, CHR 0x3C, CHR 0xE5, CHR 0x67]"

definition encodeERC20BalanceOfCall :: "string \<Rightarrow> string result" where
  "encodeERC20BalanceOfCall address =
     (case normalizeFixedHex address 20 of
        Inl err \<Rightarrow> Inl err
      | Inr (_, addressBytes) \<Rightarrow>
          Inr (''0x'' @ hex_encode (erc20BalanceOfSelector @ replicate 12 (CHR 0x00) @ addressBytes)))"

definition encodeERC20DecimalsCall :: string where
  "encodeERC20DecimalsCall = ''0x'' @ hex_encode erc20DecimalsSelector"

section \<open>Clients and calls\<close>

record RpcConfig =
  rc_Endpoint :: string
  rc_Username :: string
  rc_Password :: string
  rc_Timeout :: duration

record RpcClient =
  erc_endpoint :: string
  erc_username :: string
  erc_password :: string
  erc_timeout :: duration

definition newEthereumRPCClient :: "RpcConfig option \<Rightarrow> RpcClient option" where
  "newEthereumRPCClient config =
     (case config of
        None \<Rightarrow> None
      | Some c \<Rightarrow>
          (let endpoint = trim_space (rc_Endpoint c)
           in if endpoint = [] then None
              else Some \<lparr>erc_endpoint = endpoint, erc_username = trim_space (rc_Username c),
                         erc_password = rc_Password c,
                         erc_timeout = (if sint (rc_Timeout c) \<le> 0 then 10000000000 else rc_Timeout c)\<rparr>))"

fun rpc_clients ::
  "(string \<times> RpcConfig option) list \<Rightarrow> (string \<times> RpcClient) list \<Rightarrow> (string \<times> RpcClient) list result"
where
  "rpc_clients [] clients = Inr clients"
| "rpc_clients ((rawNetwork, config) # configs) clients =
     (case NormalizeNetworkID rawNetwork of
        None \<Rightarrow> Inl ErrOther
      | Some network \<Rightarrow>
     (case newEthereumRPCClient config of
        None \<Rightarrow> rpc_clients configs clients
      | Some client \<Rightarrow> rpc_clients configs (AList.update network client clients)))"

definition NewEthereumRPCReceiptObserver ::
  "(string \<times> RpcConfig option) list \<Rightarrow> (string \<times> RpcClient) list result" where
  "NewEthereumRPCReceiptObserver configs =
     (case rpc_clients configs [] of
        Inl err \<Rightarrow> Inl err
      | Inr clients \<Rightarrow> if clients = [] then Inl ErrOther else Inr clients)"

definition rpc_selectClient :: "(string \<times> RpcClient) list \<Rightarrow> string \<Rightarrow> RpcClient result" where
  "rpc_selectClient clients network =
     (case NormalizeNetworkID network of
        None \<Rightarrow> Inl (OutObserver out_ErrBlockchainReceiptObserverInputInvalid)
      | Some normalizedNetwork \<Rightarrow>
     (case map_of clients normalizedNetwork of
        None \<Rightarrow> Inl (OutObserver out_ErrBlockchainReceiptObserverNotConfigured)
      | Some client \<Rightarrow> Inr client))"

record RpcError =
  re_Code :: int64
  re_Message :: string

record RpcResponse =
  rr_JSONRPC :: string
  rr_ID :: "json option"
  rr_Result :: "json option"
  rr_Error :: "RpcError option"

definition decode_rpc_error :: "RpcError json_decoder" where
  "decode_rpc_error = decode_struct False
     [(''code'', struct_field decode_int64 re_Code re_Code_update),
      (''message'', struct_field decode_string re_Message re_Message_update)]"

definition decode_rpc_response :: "RpcResponse json_decoder" where
  "decode_rpc_response = decode_struct False
     [(''jsonrpc'', struct_field decode_string rr_JSONRPC rr_JSONRPC_update),
      (''id'', struct_field decode_raw rr_ID rr_ID_update),
      (''result'', struct_field decode_raw rr_Result rr_Result_update),
      (''error'', struct_field (decode_pointer \<lparr>re_Code = 0, re_Message = []\<rparr> decode_rpc_error)
         rr_Error rr_Error_update)]"

definition no_rpc_response :: RpcResponse where
  "no_rpc_response = \<lparr>rr_JSONRPC = [], rr_ID = None, rr_Result = None, rr_Error = None\<rparr>"

definition rpc_request :: "Codec \<Rightarrow> RpcClient \<Rightarrow> string \<Rightarrow> json list \<Rightarrow> HttpRequest" where
  "rpc_request codec c rpcMethod params =
     \<lparr>rq_Method = ''POST'', rq_URL = erc_endpoint c,
      rq_BasicAuth = (if erc_username c \<noteq> [] \<or> erc_password c \<noteq> []
                      then Some (erc_username c, erc_password c) else None),
      rq_Headers = [(''Content-Type'', ''application/json'')],
      rq_Body = json_text codec (JObj [(''jsonrpc'', JStr ''2.0''), (''id'', JNum ''1''),
                   (''method'', JStr rpcMethod), (''params'', JArr params)])\<rparr>"

text \<open>Every caller decodes the result into a string that is empty before.\<close>

definition rpc_call ::
  "Codec \<Rightarrow> HttpServer \<Rightarrow> RpcClient \<Rightarrow> string \<Rightarrow> json list \<Rightarrow> nat \<Rightarrow> string result \<times> nat" where
  "rpc_call codec server c rpcMethod params n =
     (case server n (rpc_request codec c rpcMethod params) of
        None \<Rightarrow> (Inl ErrOther, n + 1)
      | Some reply \<Rightarrow>
          if rp_Status reply \<noteq> 200 then (Inl ErrOther, n + 1)
          else case json_first codec (rp_Body reply) of
              None \<Rightarrow> (Inl ErrOther, n + 1)
            | Some (v, _) \<Rightarrow>
          (case decode_rpc_response v no_rpc_response of
              None \<Rightarrow> (Inl ErrOther, n + 1)
            | Some rpcResponse \<Rightarrow>
                if rr_Error rpcResponse \<noteq> None then (Inl ErrOther, n + 1)
                else case rr_Result rpcResponse of
                    None \<Rightarrow> (Inl ErrOther, n + 1)
                  | Some result \<Rightarrow>
                (case decode_string result [] of
                    None \<Rightarrow> (Inl ErrOther, n + 1)
                  | Some target \<Rightarrow> (Inr target, n + 1))))"

text \<open>The methods that end by parsing a quantity.\<close>

definition rpc_quantity :: "string result \<times> nat \<Rightarrow> int64 result \<times> nat" where
  "rpc_quantity r =
     (case r of
        (Inl err, n) \<Rightarrow> (Inl err, n)
      | (Inr raw, n) \<Rightarrow> (parseEthereumHexQuantityToInt64 raw, n))"

definition rpc_latest_height :: "Codec \<Rightarrow> HttpServer \<Rightarrow> RpcClient \<Rightarrow> nat \<Rightarrow> int64 result \<times> nat" where
  "rpc_latest_height codec server c n = rpc_quantity (rpc_call codec server c ''eth_blockNumber'' [] n)"

definition fetchBalanceAtBlock ::
  "Codec \<Rightarrow> HttpServer \<Rightarrow> RpcClient \<Rightarrow> string \<Rightarrow> int64 \<Rightarrow> nat \<Rightarrow> int64 result \<times> nat" where
  "fetchBalanceAtBlock codec server c address blockHeight n =
     (if sint blockHeight < 0 then (Inl ErrOther, n)
      else rpc_quantity (rpc_call codec server c ''eth_getBalance''
             [JStr address, JStr (encodeEthereumBlockNumber blockHeight)] n))"

definition contract_params :: "string \<Rightarrow> string \<Rightarrow> string \<Rightarrow> json list" where
  "contract_params address callData blockTag =
     [JObj [(''data'', JStr callData), (''to'', JStr address)], JStr blockTag]"

definition fetchERC20BalanceAtBlock ::
  "Codec \<Rightarrow> HttpServer \<Rightarrow> RpcClient \<Rightarrow> string \<Rightarrow> string \<Rightarrow> int64 \<Rightarrow> nat \<Rightarrow> int64 result \<times> nat" where
  "fetchERC20BalanceAtBlock codec server c erc20AssetReference address blockHeight n =
     (if sint blockHeight < 0 then (Inl ErrOther, n)
      else case encodeERC20BalanceOfCall address of
          Inl err \<Rightarrow> (Inl err, n)
        | Inr callData \<Rightarrow> rpc_quantity (rpc_call codec server c ''eth_call''
            (contract_params erc20AssetReference callData (encodeEthereumBlockNumber blockHeight)) n))"

definition fetchObservedBalanceAtBlock ::
  "Codec \<Rightarrow> HttpServer \<Rightarrow> RpcClient \<Rightarrow> string \<Rightarrow> string \<Rightarrow> string \<Rightarrow> int64 \<Rightarrow> nat \<Rightarrow> int64 result \<times> nat" where
  "fetchObservedBalanceAtBlock codec server c assetReference erc20AssetReference address blockHeight n =
     (if trim_space assetReference \<noteq> []
        then fetchERC20BalanceAtBlock codec server c erc20AssetReference address blockHeight n
      else fetchBalanceAtBlock codec server c address blockHeight n)"

section \<open>The observer\<close>

text \<open>The totals from the two balances.\<close>

definition rpc_totals ::
  "ObservePaymentAddressInput \<Rightarrow> int64 \<Rightarrow> int64 \<Rightarrow> ObservePaymentAddressOutput result" where
  "rpc_totals input observedTotalMinor confirmedTotalMinor =
     (case safeSubtractInt64NonNegative observedTotalMinor confirmedTotalMinor of
        Inl _ \<Rightarrow> Inl (OutObserver out_ErrBlockchainReceiptObserverFailed)
      | Inr unconfirmedTotalMinor \<Rightarrow>
          Inr \<lparr>oo_ObservedTotalMinor = observedTotalMinor, oo_ConfirmedTotalMinor = confirmedTotalMinor,
               oo_UnconfirmedTotalMinor = unconfirmedTotalMinor,
               oo_LatestBlockHeight = opi_LatestBlockHeight input\<rparr>)"

definition observe_balances ::
  "Codec \<Rightarrow> HttpServer \<Rightarrow> RpcClient \<Rightarrow> ObservePaymentAddressInput \<Rightarrow> string \<Rightarrow> string \<Rightarrow> string
     \<Rightarrow> ObservePaymentAddressOutput result" where
  "observe_balances codec server client input assetReference erc20AssetReference address =
     (case fetchObservedBalanceAtBlock codec server client assetReference erc20AssetReference address
             (opi_LatestBlockHeight input) 0 of
        (Inl _, _) \<Rightarrow> Inl (OutObserver out_ErrBlockchainReceiptObserverFailed)
      | (Inr observedTotalMinor, n) \<Rightarrow>
          (let confirmedBlockHeight =
                 opi_LatestBlockHeight input - scast (opi_RequiredConfirmations input) + 1
           in if 0 < sint confirmedBlockHeight then
                (case fetchObservedBalanceAtBlock codec server client assetReference erc20AssetReference
                        address confirmedBlockHeight n of
                   (Inl _, _) \<Rightarrow> Inl (OutObserver out_ErrBlockchainReceiptObserverFailed)
                 | (Inr confirmedTotalMinor, _) \<Rightarrow> rpc_totals input observedTotalMinor confirmedTotalMinor)
              else rpc_totals input observedTotalMinor 0))"

definition Rpc_ObserveAddress ::
  "Codec \<Rightarrow> (string \<times> RpcClient) list \<Rightarrow> HttpServer \<Rightarrow> ObservePaymentAddressInput
     \<Rightarrow> ObservePaymentAddressOutput result" where
  "Rpc_ObserveAddress codec clients server input =
     (case normalizeFixedHex (opi_Address input) 20 of
        Inl _ \<Rightarrow> Inl (OutObserver out_ErrBlockchainReceiptObserverInputInvalid)
      | Inr (address, _) \<Rightarrow>
          if time_is_zero (opi_IssuedAt input) \<or> sint (opi_RequiredConfirmations input) \<le> 0 \<or>
             sint (opi_LatestBlockHeight input) \<le> 0 \<or> sint (opi_SinceBlockHeight input) < 0
            then Inl (OutObserver out_ErrBlockchainReceiptObserverInputInvalid)
          else (let assetReference = trim_space (opi_AssetReference input)
                in case (if assetReference \<noteq> [] then NormalizeEthereumAddress assetReference else Inr []) of
                     Inl _ \<Rightarrow> Inl (OutObserver out_ErrBlockchainReceiptObserverInputInvalid)
                   | Inr erc20AssetReference \<Rightarrow>
                  (case rpc_selectClient clients (opi_Network input) of
                     Inl err \<Rightarrow> Inl err
                   | Inr client \<Rightarrow>
                       observe_balances codec server client input assetReference erc20AssetReference address)))"

definition Rpc_FetchLatestBlockHeight ::
  "Codec \<Rightarrow> (string \<times> RpcClient) list \<Rightarrow> HttpServer \<Rightarrow> string \<Rightarrow> int64 result" where
  "Rpc_FetchLatestBlockHeight codec clients server network =
     (case rpc_selectClient clients network of
        Inl err \<Rightarrow> Inl err
      | Inr client \<Rightarrow>
     (case rpc_latest_height codec server client 0 of
        (Inl _, _) \<Rightarrow> Inl (OutObserver out_ErrBlockchainReceiptObserverFailed)
      | (Inr latestBlockHeight, _) \<Rightarrow> Inr latestBlockHeight))"

definition ethereum_observer ::
  "Codec \<Rightarrow> (string \<times> RpcClient) list \<Rightarrow> (nat \<Rightarrow> HttpServer) \<Rightarrow> ChainReceiptObserver" where
  "ethereum_observer codec clients net =
     \<lparr>cro_FetchLatestBlockHeight = (\<lambda>k. Rpc_FetchLatestBlockHeight codec clients (net k)),
      cro_ObserveAddress = (\<lambda>k. Rpc_ObserveAddress codec clients (net k))\<rparr>"

section \<open>Contract reads\<close>

definition fetchCode ::
  "Codec \<Rightarrow> HttpServer \<Rightarrow> RpcClient \<Rightarrow> string \<Rightarrow> nat \<Rightarrow> string result \<times> nat" where
  "fetchCode codec server c address n =
     (case rpc_call codec server c ''eth_getCode'' [JStr address, JStr ''latest''] n of
        (Inl err, n1) \<Rightarrow> (Inl err, n1)
      | (Inr rawCode, n1) \<Rightarrow>
     (case parseEthereumHexBytes rawCode of
        Inl err \<Rightarrow> (Inl err, n1)
      | Inr _ \<Rightarrow> (Inr (to_lower (trim_space rawCode)), n1)))"

definition callContractAtLatest ::
  "Codec \<Rightarrow> HttpServer \<Rightarrow> RpcClient \<Rightarrow> string \<Rightarrow> string \<Rightarrow> nat \<Rightarrow> string result \<times> nat" where
  "callContractAtLatest codec server c address callData n =
     rpc_call codec server c ''eth_call'' (contract_params address callData ''latest'') n"

definition fetchERC20Decimals ::
  "Codec \<Rightarrow> HttpServer \<Rightarrow> RpcClient \<Rightarrow> string \<Rightarrow> nat \<Rightarrow> uint8 result \<times> nat" where
  "fetchERC20Decimals codec server c erc20AssetReference n =
     (case callContractAtLatest codec server c erc20AssetReference encodeERC20DecimalsCall n of
        (Inl err, n1) \<Rightarrow> (Inl err, n1)
      | (Inr rawDecimals, n1) \<Rightarrow> (parseEthereumHexQuantityToUint8 rawDecimals, n1))"

section \<open>Balances of an honest node\<close>

text \<open>
  \<open>rpc_answers\<close> says that the node answers a call with a text, whenever it is asked, and
  \<open>serves_balances\<close> that the text of a balance at a block is \<open>0x\<close> and the hexadecimal digits of
  the balance, with leading zeros or without: the native balance of the address, or what the
  token contract answers to \<open>balanceOf\<close>.
\<close>

definition rpc_answers :: "Codec \<Rightarrow> HttpServer \<Rightarrow> RpcClient \<Rightarrow> string \<Rightarrow> json list \<Rightarrow> string \<Rightarrow> bool" where
  "rpc_answers codec server c rpcMethod params answer \<longleftrightarrow>
     (\<forall>n. \<exists>body v rest resp. server n (rpc_request codec c rpcMethod params) =
          Some \<lparr>rp_Status = 200, rp_Body = body\<rparr> \<and>
        json_first codec body = Some (v, rest) \<and> decode_rpc_response v no_rpc_response = Some resp \<and>
        rr_Error resp = None \<and> rr_Result resp = Some (JStr answer))"

definition balance_params :: "string \<Rightarrow> string \<Rightarrow> int64 \<Rightarrow> (string \<times> json list) option" where
  "balance_params token address h =
     (if token = [] then Some (''eth_getBalance'', [JStr address, JStr (encodeEthereumBlockNumber h)])
      else case encodeERC20BalanceOfCall address of
          Inl _ \<Rightarrow> None
        | Inr callData \<Rightarrow> Some (''eth_call'', contract_params token callData (encodeEthereumBlockNumber h)))"

definition serves_balances ::
  "Codec \<Rightarrow> HttpServer \<Rightarrow> RpcClient \<Rightarrow> string \<Rightarrow> string \<Rightarrow> (int64 \<Rightarrow> nat) \<Rightarrow> bool" where
  "serves_balances codec server c token address bal \<longleftrightarrow>
     (\<forall>h. 0 < sint h \<longrightarrow> (\<exists>m ps ds. balance_params token address h = Some (m, ps) \<and>
        rpc_answers codec server c m ps (''0x'' @ ds) \<and> ds \<noteq> [] \<and> parse_hex_digits 0 ds = Some (bal h)))"

lemma rpc_call_answer:
  assumes "rpc_answers codec server c m ps answer"
  shows "rpc_call codec server c m ps n = (Inr answer, n + 1)"
proof -
  obtain body v rest resp where "server n (rpc_request codec c m ps) = Some \<lparr>rp_Status = 200, rp_Body = body\<rparr>"
      and "json_first codec body = Some (v, rest)" and "decode_rpc_response v no_rpc_response = Some resp"
      and "rr_Error resp = None" and "rr_Result resp = Some (JStr answer)"
    using assms unfolding rpc_answers_def by metis
  then show ?thesis
    by (simp add: rpc_call_def)
qed

lemma hex_digits_printable: "parse_hex_digits a ds = Some n \<Longrightarrow> list_all printable ds"
  by (induction a ds rule: parse_hex_digits.induct)
    (auto simp: hex_value_def printable_def Let_def split: option.splits if_splits)

lemma quantity_of_digits:
  assumes "ds \<noteq> []" and "parse_hex_digits 0 ds = Some n"
  shows "parseEthereumHexQuantityToInt64 (''0x'' @ ds) =
    (if int n < 2 ^ 63 then Inr (word_of_int (int n)) else Inl ErrOther)"
proof -
  have "trim_space (''0x'' @ ds) = ''0x'' @ ds"
    using hex_digits_printable [OF assms(2)] by (intro trim_space_plain) (simp add: printable_def)
  moreover have "hd ds \<noteq> CHR ''-'' \<and> hd ds \<noteq> CHR ''+''"
    using assms by (cases ds) auto
  then have "big_of_hex ds = Some (int n)"
    using assms by (cases ds) (auto simp: big_of_hex_def Let_def simp del: parse_hex_digits.simps)
  ultimately show ?thesis
    by (simp add: parseEthereumHexQuantityToInt64_def hex_prefixed_def has_prefix_def Let_def)
qed

lemma fetched_balance:
  assumes "serves_balances codec server c (if asset = [] then [] else token) address bal"
    and "trim_space asset = asset" and "asset \<noteq> [] \<Longrightarrow> token \<noteq> []" and "0 < sint h"
  shows "fetchObservedBalanceAtBlock codec server c asset token address h n =
    (if int (bal h) < 2 ^ 63 then Inr (word_of_int (int (bal h))) else Inl ErrOther, n + 1)"
proof -
  obtain m ps ds where m: "balance_params (if asset = [] then [] else token) address h = Some (m, ps)"
    and a: "rpc_answers codec server c m ps (''0x'' @ ds)" and ds: "ds \<noteq> []" "parse_hex_digits 0 ds = Some (bal h)"
    using assms(1,4) unfolding serves_balances_def by metis
  show ?thesis
  proof (cases "asset = []")
    case True
    then show ?thesis
      using m rpc_call_answer [OF a, of n] quantity_of_digits [OF ds] assms(2,4)
      by (simp add: balance_params_def fetchObservedBalanceAtBlock_def fetchBalanceAtBlock_def rpc_quantity_def)
  next
    case False
    then show ?thesis
      using m rpc_call_answer [OF a, of n] quantity_of_digits [OF ds] assms(2-4)
      by (auto simp: balance_params_def fetchObservedBalanceAtBlock_def fetchERC20BalanceAtBlock_def
          rpc_quantity_def split: sum.splits if_splits)
  qed
qed

lemma rpc_totals_nat:
  assumes "observed < 2 ^ 63" and "confirmed < 2 ^ 63"
  shows "rpc_totals input (of_nat observed) (of_nat confirmed) =
    (if confirmed \<le> observed
     then Inr \<lparr>oo_ObservedTotalMinor = of_nat observed, oo_ConfirmedTotalMinor = of_nat confirmed,
               oo_UnconfirmedTotalMinor = of_nat (observed - confirmed),
               oo_LatestBlockHeight = opi_LatestBlockHeight input\<rparr>
     else Inl (OutObserver out_ErrBlockchainReceiptObserverFailed))"
proof -
  have "sint (of_nat n :: int64) = int n" if "n < 2 ^ 63" for n
    using that sint_word_of_int64 [of "int n"] by simp
  then have "sint (of_nat observed :: int64) = int observed" "sint (of_nat confirmed :: int64) = int confirmed"
    using assms by blast+
  then show ?thesis
    by (simp add: rpc_totals_def safeSubtractInt64NonNegative_def of_nat_diff)
qed

lemma observe_balances_difference:
  assumes "serves_balances codec server c (if asset = [] then [] else token) address bal"
    and "trim_space asset = asset" and "asset \<noteq> [] \<Longrightarrow> token \<noteq> []"
    and "0 < sint (opi_LatestBlockHeight input)" and "0 < sint (opi_RequiredConfirmations input)"
  shows "observe_balances codec server c input asset token address =
    (let h = opi_LatestBlockHeight input; deep = h - scast (opi_RequiredConfirmations input) + 1;
         observed = bal h; confirmed = (if 0 < sint deep then bal deep else 0)
     in if observed < 2 ^ 63 \<and> confirmed \<le> observed
        then Inr \<lparr>oo_ObservedTotalMinor = of_nat observed, oo_ConfirmedTotalMinor = of_nat confirmed,
                  oo_UnconfirmedTotalMinor = of_nat (observed - confirmed), oo_LatestBlockHeight = h\<rparr>
        else Inl (OutObserver out_ErrBlockchainReceiptObserverFailed))"
proof -
  have f: "fetchObservedBalanceAtBlock codec server c asset token address h n =
      (if int (bal h) < 2 ^ 63 then Inr (word_of_int (int (bal h))) else Inl ErrOther, n + 1)"
    if "0 < sint h" for h n
    by (rule fetched_balance [OF assms(1,2)]) (use assms(3) that in auto)
  let ?h = "opi_LatestBlockHeight input"
  let ?deep = "?h - scast (opi_RequiredConfirmations input) + 1"
  have latest: "fetchObservedBalanceAtBlock codec server c asset token address ?h 0 =
      (if bal ?h < 2 ^ 63 then Inr (of_nat (bal ?h)) else Inl ErrOther, 1)"
    using f [OF assms(4), of 0] by simp
  consider (big) "\<not> bal ?h < 2 ^ 63" | (shallow) "bal ?h < 2 ^ 63" "\<not> 0 < sint ?deep"
    | (deep) "bal ?h < 2 ^ 63" "0 < sint ?deep" "bal ?deep < 2 ^ 63"
    | (wide) "bal ?h < 2 ^ 63" "0 < sint ?deep" "\<not> bal ?deep < 2 ^ 63"
    by blast
  then show ?thesis
  proof cases
    case big
    with latest show ?thesis by (simp add: observe_balances_def)
  next
    case shallow
    with latest rpc_totals_nat [of "bal ?h" 0 input] show ?thesis
      by (simp add: observe_balances_def Let_def)
  next
    case deep
    moreover from f [OF deep(2), of 1] deep(3)
    have "fetchObservedBalanceAtBlock codec server c asset token address ?deep 1 = (Inr (of_nat (bal ?deep)), 2)"
      by simp
    ultimately show ?thesis
      using latest rpc_totals_nat [of "bal ?h" "bal ?deep" input]
      unfolding observe_balances_def Let_def by simp
  next
    case wide
    moreover from f [OF wide(2), of 1] wide(3)
    have "fetchObservedBalanceAtBlock codec server c asset token address ?deep 1 = (Inl ErrOther, 2)"
      by simp
    moreover have "\<not> bal ?deep \<le> bal ?h"
      using wide by simp
    ultimately show ?thesis
      using latest unfolding observe_balances_def Let_def by simp
  qed
qed

end
