(* ===== verification/Create2_Assets.thy ===== *)
theory Create2_Assets
  imports Go_Net
begin

text \<open>
  The CREATE2 assets, \<open>src/internal/infrastructure/ethereumcreate2assets\<close> (\<open>assets.go\<close>,
  \<open>create2_helpers.go\<close>): the deployment metadata and the contract artifacts that are embedded in
  the binary, loaded when the program starts, and the address-space reference built from them.
  The Keccak-256 hash of the cryptography library is the parameter \<open>keccak\<close>, from bytes to
  bytes; the embedded files are a parameter as well, as their names and texts in the order of the
  directory. Loading panics where the source panics, which is \<open>None\<close>.
\<close>

section \<open>Helpers\<close>

definition assets_normalizeFixedHex :: "string \<Rightarrow> nat \<Rightarrow> (string \<times> string) result" where
  "assets_normalizeFixedHex raw sizeBytes =
     (let trimmed = trim_space raw
      in if trimmed = [] then Inl ErrOther
         else if \<not> hex_prefixed trimmed then Inl ErrOther
         else case hex_decode (drop 2 trimmed) of
             None \<Rightarrow> Inl ErrOther
           | Some decoded \<Rightarrow>
               if length decoded \<noteq> sizeBytes then Inl ErrOther
               else Inr (''0x'' @ to_lower (drop 2 trimmed), decoded))"

definition assets_keccak256Hash :: "(string \<Rightarrow> string) \<Rightarrow> string \<Rightarrow> string" where
  "assets_keccak256Hash keccak data = take 32 (keccak data @ replicate 32 (CHR 0x00))"

definition assets_keccak256Hex :: "(string \<Rightarrow> string) \<Rightarrow> string \<Rightarrow> string result" where
  "assets_keccak256Hex keccak rawHex0 =
     (let rawHex = trim_space rawHex0
      in if \<not> hex_prefixed rawHex then Inl ErrOther
         else if length rawHex \<le> 2 then Inl ErrOther
         else case hex_decode (drop 2 rawHex) of
             None \<Rightarrow> Inl ErrOther
           | Some decoded \<Rightarrow>
               if decoded = [] then Inl ErrOther
               else Inr (''0x'' @ hex_encode (assets_keccak256Hash keccak decoded)))"

definition assets_buildInitCodeHex :: "string \<Rightarrow> string \<Rightarrow> string result" where
  "assets_buildInitCodeHex creationCodeHex0 collectorAddress =
     (let creationCodeHex = trim_space creationCodeHex0
      in if \<not> hex_prefixed creationCodeHex then Inl ErrOther
         else if length creationCodeHex \<le> 2 then Inl ErrOther
         else case hex_decode (drop 2 creationCodeHex) of
             None \<Rightarrow> Inl ErrOther
           | Some creationCode \<Rightarrow>
               if creationCode = [] then Inl ErrOther
               else case assets_normalizeFixedHex collectorAddress 20 of
                   Inl err \<Rightarrow> Inl err
                 | Inr (_, collectorBytes) \<Rightarrow>
                     Inr (''0x'' @ hex_encode (creationCode @ replicate 12 (CHR 0x00) @ collectorBytes)))"

definition create2SourceRefVersion :: string where
  "create2SourceRefVersion = ''create2.v1''"

text \<open>The format of a reference: the version and the three parts.\<close>

definition source_ref_text :: "string \<Rightarrow> string \<Rightarrow> string \<Rightarrow> string" where
  "source_ref_text factoryAddress collectorAddress initCodeHash =
     create2SourceRefVersion @ '':factory='' @ factoryAddress @ '';collector='' @ collectorAddress @
     '';init_code_hash='' @ initCodeHash"

definition assets_buildSourceRef :: "string \<Rightarrow> string \<Rightarrow> string \<Rightarrow> string result" where
  "assets_buildSourceRef factoryAddress0 collectorAddress0 initCodeHash0 =
     (case assets_normalizeFixedHex factoryAddress0 20 of
        Inl err \<Rightarrow> Inl err
      | Inr (factoryAddress, _) \<Rightarrow>
     (case assets_normalizeFixedHex collectorAddress0 20 of
        Inl err \<Rightarrow> Inl err
      | Inr (collectorAddress, _) \<Rightarrow>
     (case assets_normalizeFixedHex initCodeHash0 32 of
        Inl err \<Rightarrow> Inl err
      | Inr (initCodeHash, _) \<Rightarrow> Inr (source_ref_text factoryAddress collectorAddress initCodeHash))))"

section \<open>Artifacts and metadata\<close>

record ReceiverArtifact =
  ra_SourceName :: string
  ra_ContractName :: string
  ra_CompilerVersion :: string
  ra_ABI :: "json option"
  ra_CreationCodeHex :: string
  ra_RuntimeCodeHex :: string

record DeploymentMetadata =
  dm_Network :: string
  dm_FactoryAddress :: string
  dm_ReceiverArtifact :: string
  dm_Mode :: string
  dm_Receiver :: ReceiverArtifact

record EmbeddedAssets =
  ea_metadata :: "(string \<times> string) list"
  ea_artifacts :: "(string \<times> string) list"

record Create2Assets =
  ca_metadata :: "string \<rightharpoonup> DeploymentMetadata"
  ca_artifacts :: "string \<rightharpoonup> ReceiverArtifact"

definition no_artifact :: ReceiverArtifact where
  "no_artifact = \<lparr>ra_SourceName = [], ra_ContractName = [], ra_CompilerVersion = [], ra_ABI = None,
     ra_CreationCodeHex = [], ra_RuntimeCodeHex = []\<rparr>"

definition decode_artifact :: "ReceiverArtifact json_decoder" where
  "decode_artifact = decode_struct False
     [(''sourceName'', struct_field decode_string ra_SourceName ra_SourceName_update),
      (''contractName'', struct_field decode_string ra_ContractName ra_ContractName_update),
      (''compilerVersion'', struct_field decode_string ra_CompilerVersion ra_CompilerVersion_update),
      (''abi'', struct_field decode_raw ra_ABI ra_ABI_update),
      (''creationCodeHex'', struct_field decode_string ra_CreationCodeHex ra_CreationCodeHex_update),
      (''runtimeCodeHex'', struct_field decode_string ra_RuntimeCodeHex ra_RuntimeCodeHex_update)]"

definition decode_metadata :: "DeploymentMetadata json_decoder" where
  "decode_metadata = decode_struct False
     [(''network'', struct_field decode_string dm_Network dm_Network_update),
      (''factoryAddress'', struct_field decode_string dm_FactoryAddress dm_FactoryAddress_update),
      (''receiverArtifact'', struct_field decode_string dm_ReceiverArtifact dm_ReceiverArtifact_update),
      (''mode'', struct_field decode_string dm_Mode dm_Mode_update)]"

definition no_metadata :: DeploymentMetadata where
  "no_metadata = \<lparr>dm_Network = [], dm_FactoryAddress = [], dm_ReceiverArtifact = [], dm_Mode = [],
     dm_Receiver = no_artifact\<rparr>"

definition normalizeNetworkKey :: "string \<Rightarrow> string" where
  "normalizeNetworkKey network = to_lower (trim_space network)"

definition loadReceiverArtifact :: "Codec \<Rightarrow> EmbeddedAssets \<Rightarrow> string \<Rightarrow> ReceiverArtifact result" where
  "loadReceiverArtifact codec files fileName =
     (case map_of (ea_artifacts files) fileName of
        None \<Rightarrow> Inl ErrOther
      | Some raw \<Rightarrow>
     (case Option.bind (json_value codec raw) (\<lambda>v. decode_artifact v no_artifact) of
        None \<Rightarrow> Inl ErrOther
      | Some artifact \<Rightarrow>
          if trim_space (ra_CreationCodeHex artifact) = [] then Inl ErrOther else Inr artifact))"

definition loadDeploymentMetadata :: "Codec \<Rightarrow> EmbeddedAssets \<Rightarrow> string \<Rightarrow> DeploymentMetadata result" where
  "loadDeploymentMetadata codec files fileName =
     (case map_of (ea_metadata files) fileName of
        None \<Rightarrow> Inl ErrOther
      | Some raw \<Rightarrow>
     (case Option.bind (json_value codec raw) (\<lambda>v. decode_metadata v no_metadata) of
        None \<Rightarrow> Inl ErrOther
      | Some decoded \<Rightarrow>
          (let metadata = decoded\<lparr>dm_FactoryAddress := trim_space (dm_FactoryAddress decoded),
                 dm_ReceiverArtifact := trim_space (dm_ReceiverArtifact decoded),
                 dm_Network := normalizeNetworkKey (dm_Network decoded)\<rparr>
           in if dm_FactoryAddress metadata = [] \<or> dm_ReceiverArtifact metadata = [] \<or>
                 dm_Network metadata = [] then Inl ErrOther
              else case loadReceiverArtifact codec files (dm_ReceiverArtifact metadata) of
                  Inl err \<Rightarrow> Inl err
                | Inr artifact \<Rightarrow> Inr (metadata\<lparr>dm_Receiver := artifact\<rparr>))))"

fun load_metadata_files ::
  "Codec \<Rightarrow> EmbeddedAssets \<Rightarrow> string list \<Rightarrow> (string \<rightharpoonup> DeploymentMetadata)
     \<Rightarrow> (string \<rightharpoonup> DeploymentMetadata) option" where
  "load_metadata_files codec files [] loaded = Some loaded"
| "load_metadata_files codec files (name # names) loaded =
     (if \<not> has_suffix name ''.json'' then load_metadata_files codec files names loaded
      else case loadDeploymentMetadata codec files name of
          Inl _ \<Rightarrow> None
        | Inr metadata \<Rightarrow>
            (let networkKey = normalizeNetworkKey (dm_Network metadata)
             in if networkKey = [] then None
                else if loaded networkKey \<noteq> None then None
                else load_metadata_files codec files names
                       (loaded(networkKey \<mapsto> metadata\<lparr>dm_Network := networkKey\<rparr>))))"

fun load_artifact_files ::
  "Codec \<Rightarrow> EmbeddedAssets \<Rightarrow> string list \<Rightarrow> (string \<rightharpoonup> ReceiverArtifact)
     \<Rightarrow> (string \<rightharpoonup> ReceiverArtifact) option" where
  "load_artifact_files codec files [] loaded = Some loaded"
| "load_artifact_files codec files (name # names) loaded =
     (if \<not> has_suffix name ''.json'' then load_artifact_files codec files names loaded
      else case loadReceiverArtifact codec files name of
          Inl _ \<Rightarrow> None
        | Inr artifact \<Rightarrow>
            if loaded name \<noteq> None then None
            else load_artifact_files codec files names (loaded(name \<mapsto> artifact)))"

text \<open>The initialisation of the two package variables.\<close>

definition load_assets :: "Codec \<Rightarrow> EmbeddedAssets \<Rightarrow> Create2Assets option" where
  "load_assets codec files =
     (case load_metadata_files codec files (map fst (ea_metadata files)) Map.empty of
        None \<Rightarrow> None
      | Some metadata \<Rightarrow>
     (case load_artifact_files codec files (map fst (ea_artifacts files)) Map.empty of
        None \<Rightarrow> None
      | Some artifacts \<Rightarrow> Some \<lparr>ca_metadata = metadata, ca_artifacts = artifacts\<rparr>))"

section \<open>Lookups and address-space references\<close>

definition LookupDeploymentMetadata :: "Create2Assets \<Rightarrow> string \<Rightarrow> DeploymentMetadata option" where
  "LookupDeploymentMetadata assets network = ca_metadata assets (normalizeNetworkKey network)"

definition LookupReceiverArtifact :: "Create2Assets \<Rightarrow> string \<Rightarrow> ReceiverArtifact option" where
  "LookupReceiverArtifact assets fileName = ca_artifacts assets (trim_space fileName)"

definition ReceiverArtifactName :: string where
  "ReceiverArtifactName = ''FixedCollectorReceiver.json''"

definition FactoryArtifactName :: string where
  "FactoryArtifactName = ''Create2ReceiverFactory.json''"

definition InitCodeHex :: "ReceiverArtifact \<Rightarrow> string \<Rightarrow> string option" where
  "InitCodeHex a collectorAddress =
     (case assets_buildInitCodeHex (ra_CreationCodeHex a) collectorAddress of
        Inl _ \<Rightarrow> None
      | Inr initCodeHex \<Rightarrow> Some initCodeHex)"

definition InitCodeHashHex :: "(string \<Rightarrow> string) \<Rightarrow> ReceiverArtifact \<Rightarrow> string \<Rightarrow> string option" where
  "InitCodeHashHex keccak a collectorAddress =
     (case InitCodeHex a collectorAddress of
        None \<Rightarrow> None
      | Some initCodeHex \<Rightarrow>
     (case assets_keccak256Hex keccak initCodeHex of Inl _ \<Rightarrow> None | Inr h \<Rightarrow> Some h))"

definition RuntimeCodeHashHex :: "(string \<Rightarrow> string) \<Rightarrow> ReceiverArtifact \<Rightarrow> string option" where
  "RuntimeCodeHashHex keccak a =
     (let runtimeCodeHex = trim_space (ra_RuntimeCodeHex a)
      in if runtimeCodeHex = [] then None
         else case assets_keccak256Hex keccak runtimeCodeHex of Inl _ \<Rightarrow> None | Inr h \<Rightarrow> Some h)"

definition ExpectedFactoryRuntimeCodeHashHex :: "(string \<Rightarrow> string) \<Rightarrow> Create2Assets \<Rightarrow> string option" where
  "ExpectedFactoryRuntimeCodeHashHex keccak assets =
     (case LookupReceiverArtifact assets FactoryArtifactName of
        None \<Rightarrow> None
      | Some artifact \<Rightarrow> RuntimeCodeHashHex keccak artifact)"

definition BuildAddressSpaceRefFromMetadata ::
  "(string \<Rightarrow> string) \<Rightarrow> DeploymentMetadata \<Rightarrow> string \<Rightarrow> string" where
  "BuildAddressSpaceRefFromMetadata keccak metadata collectorAddress0 =
     (let collectorAddress = trim_space collectorAddress0
      in if collectorAddress = [] then []
         else case InitCodeHashHex keccak (dm_Receiver metadata) collectorAddress of
             None \<Rightarrow> []
           | Some initCodeHash \<Rightarrow>
         (case assets_buildSourceRef (trim_space (dm_FactoryAddress metadata)) collectorAddress initCodeHash of
             Inl _ \<Rightarrow> []
           | Inr sourceRef \<Rightarrow> sourceRef))"

definition BuildAddressSpaceRef :: "(string \<Rightarrow> string) \<Rightarrow> Create2Assets \<Rightarrow> string \<Rightarrow> string \<Rightarrow> string" where
  "BuildAddressSpaceRef keccak assets network collectorAddress =
     (case LookupDeploymentMetadata assets network of
        None \<Rightarrow> []
      | Some metadata \<Rightarrow> BuildAddressSpaceRefFromMetadata keccak metadata collectorAddress)"

definition BuildAddressSpaceRefWithReceiverArtifact ::
  "(string \<Rightarrow> string) \<Rightarrow> Create2Assets \<Rightarrow> string \<Rightarrow> string \<Rightarrow> string \<Rightarrow> string" where
  "BuildAddressSpaceRefWithReceiverArtifact keccak assets network collectorAddress receiverArtifactName =
     (case LookupDeploymentMetadata assets network of
        None \<Rightarrow> []
      | Some metadata \<Rightarrow>
     (case LookupReceiverArtifact assets receiverArtifactName of
        None \<Rightarrow> []
      | Some artifact \<Rightarrow>
          BuildAddressSpaceRefFromMetadata keccak
            (metadata\<lparr>dm_ReceiverArtifact := receiverArtifactName, dm_Receiver := artifact\<rparr>)
            collectorAddress))"

definition BuildTokenCapableAddressSpaceRef ::
  "(string \<Rightarrow> string) \<Rightarrow> Create2Assets \<Rightarrow> string \<Rightarrow> string \<Rightarrow> string" where
  "BuildTokenCapableAddressSpaceRef keccak assets network collectorAddress =
     BuildAddressSpaceRefWithReceiverArtifact keccak assets network collectorAddress ReceiverArtifactName"

end
