(* ===== verification/Ethereum_Issuance.thy ===== *)
theory Ethereum_Issuance
  imports Ethereum_Rpc Create2_Assets
begin

text \<open>
  Issuing Ethereum addresses, \<open>adapters/outbound/ethereum\<close> (\<open>chain_address_deriver.go\<close>,
  \<open>create2_contract.go\<close>, \<open>create2_salt_deriver.go\<close>, \<open>issued_payment_address_deriver.go\<close>,
  \<open>sweep_material.go\<close>, \<open>address_issuance_readiness_checker.go\<close>): the CREATE2 address of a receiver
  contract, with a salt derived from the allocation, and the check that the contracts a policy
  relies on are deployed. \<open>keccak\<close> is the hash of the cryptography library and \<open>hmac\<close> its keyed
  SHA-256, both from bytes to bytes. The lemmas give the round trip of the address-space reference
  and that different allocations have different salt messages.
\<close>

section \<open>Address-space references and salts\<close>

record Create2SourceRef =
  cr_factoryAddress :: string
  cr_collector :: string
  cr_initCodeHash :: string

definition BuildCreate2AddressSpaceRef :: "string \<Rightarrow> string \<Rightarrow> string \<Rightarrow> string result" where
  "BuildCreate2AddressSpaceRef factoryAddress0 collectorAddress0 initCodeHash0 =
     (case normalizeFixedHex factoryAddress0 20 of
        Inl err \<Rightarrow> Inl err
      | Inr (factoryAddress, _) \<Rightarrow>
     (case normalizeFixedHex collectorAddress0 20 of
        Inl err \<Rightarrow> Inl err
      | Inr (collectorAddress, _) \<Rightarrow>
     (case normalizeFixedHex initCodeHash0 32 of
        Inl err \<Rightarrow> Inl err
      | Inr (initCodeHash, _) \<Rightarrow> Inr (source_ref_text factoryAddress collectorAddress initCodeHash))))"

fun source_ref_values :: "string list \<Rightarrow> (string \<rightharpoonup> string) \<Rightarrow> (string \<rightharpoonup> string) result" where
  "source_ref_values [] vals = Inr vals"
| "source_ref_values (part # parts) vals =
     (case cut_at (CHR ''='') part of
        None \<Rightarrow> Inl ErrOther
      | Some (key0, value0) \<Rightarrow>
          (let key = trim_space key0; v = trim_space value0
           in if key = [] \<or> v = [] then Inl ErrOther
              else if vals key \<noteq> None then Inl ErrOther
              else source_ref_values parts (vals(key \<mapsto> v))))"

text \<open>Reading a missing key of a Go map gives the empty string.\<close>

definition value_or_empty :: "(string \<rightharpoonup> string) \<Rightarrow> string \<Rightarrow> string" where
  "value_or_empty vals key = (case vals key of None \<Rightarrow> [] | Some v \<Rightarrow> v)"

definition parseCreate2SourceRef :: "string \<Rightarrow> Create2SourceRef result" where
  "parseCreate2SourceRef raw =
     (let trimmed = trim_space raw
      in if trimmed = [] then Inl ErrOther
         else if \<not> has_prefix trimmed (create2SourceRefVersion @ '':'') then Inl ErrOther
         else
      (let parts = split_on (CHR '';'') (trim_prefix trimmed (create2SourceRefVersion @ '':''))
       in if length parts \<noteq> 3 then Inl ErrOther
          else case source_ref_values parts Map.empty of
              Inl err \<Rightarrow> Inl err
            | Inr vals \<Rightarrow>
          (case normalizeFixedHex (value_or_empty vals ''factory'') 20 of
              Inl err \<Rightarrow> Inl err
            | Inr (factoryAddress, _) \<Rightarrow>
          (case normalizeFixedHex (value_or_empty vals ''collector'') 20 of
              Inl err \<Rightarrow> Inl err
            | Inr (collectorAddress, _) \<Rightarrow>
          (case normalizeFixedHex (value_or_empty vals ''init_code_hash'') 32 of
              Inl err \<Rightarrow> Inl err
            | Inr (initCodeHash, _) \<Rightarrow>
                Inr \<lparr>cr_factoryAddress = factoryAddress, cr_collector = collectorAddress,
                     cr_initCodeHash = initCodeHash\<rparr>)))))"

text \<open>The 32 bytes of the salt are the decoded bytes, whose number was checked.\<close>

definition normalizeCreate2Salt :: "string \<Rightarrow> (string \<times> string) result" where
  "normalizeCreate2Salt raw =
     (case normalizeFixedHex raw 32 of
        Inl err \<Rightarrow> Inl err
      | Inr (normalizedSalt, saltBytes) \<Rightarrow> Inr (normalizedSalt, take 32 (saltBytes @ replicate 32 (CHR 0x00))))"

definition keccak256Hash :: "(string \<Rightarrow> string) \<Rightarrow> string \<Rightarrow> string" where
  "keccak256Hash keccak data = take 32 (keccak data @ replicate 32 (CHR 0x00))"

definition predictCreate2Address :: "(string \<Rightarrow> string) \<Rightarrow> string \<Rightarrow> string \<Rightarrow> string \<Rightarrow> string" where
  "predictCreate2Address keccak factoryAddress salt initCodeHash =
     ''0x'' @ hex_encode (drop 12 (keccak256Hash keccak
       (CHR 0xFF # factoryAddress @ salt @ initCodeHash)))"

record DeriveChainAddressInput =
  dci_Chain :: string
  dci_Network :: string
  dci_Scheme :: string
  dci_AddressSpaceRef :: string
  dci_IssuanceRefPrefix :: string
  dci_RelativeIssuanceRef :: string
  dci_SlotIndex :: uint32

record DeriveChainAddressOutput =
  dco_Address :: string
  dco_RelativeIssuanceRef :: string
  dco_IssuanceRefKind :: string
  dco_IssuanceRef :: string

definition DeriveCreate2Address ::
  "(string \<Rightarrow> string) \<Rightarrow> DeriveChainAddressInput \<Rightarrow> DeriveChainAddressOutput result" where
  "DeriveCreate2Address keccak input =
     (if dci_Chain input \<noteq> ''ethereum''
        then Inl (OutChainDeriver out_ErrChainAddressDerivationInputInvalid)
      else if dci_Scheme input \<noteq> ''create2''
        then Inl (OutChainDeriver out_ErrChainAddressDerivationInputInvalid)
      else case parseCreate2SourceRef (dci_AddressSpaceRef input) of
          Inl _ \<Rightarrow> Inl (OutChainDeriver out_ErrChainAddressDerivationInputInvalid)
        | Inr sourceRef \<Rightarrow>
      (case mustDecodeFixedHex (cr_factoryAddress sourceRef) 20 of
          Inl _ \<Rightarrow> Inl (OutChainDeriver out_ErrChainAddressDerivationInputInvalid)
        | Inr factoryAddress \<Rightarrow>
      (case mustDecodeFixedHex (cr_initCodeHash sourceRef) 32 of
          Inl _ \<Rightarrow> Inl (OutChainDeriver out_ErrChainAddressDerivationInputInvalid)
        | Inr initCodeHash \<Rightarrow>
      (case normalizeCreate2Salt (dci_RelativeIssuanceRef input) of
          Inl _ \<Rightarrow> Inl (OutChainDeriver out_ErrChainAddressDerivationInputInvalid)
        | Inr (normalizedSaltHex, salt) \<Rightarrow>
            Inr \<lparr>dco_Address = predictCreate2Address keccak factoryAddress salt initCodeHash,
                 dco_RelativeIssuanceRef = normalizedSaltHex, dco_IssuanceRefKind = ''create2_salt'',
                 dco_IssuanceRef = normalizedSaltHex\<rparr>))))"

section \<open>Contract code\<close>

definition BuildFixedCollectorReceiverInitCodeHex :: "string \<Rightarrow> string \<Rightarrow> string result" where
  "BuildFixedCollectorReceiverInitCodeHex creationCodeHex0 collectorAddress =
     (let creationCodeHex = trim_space creationCodeHex0
      in if \<not> hex_prefixed creationCodeHex then Inl ErrOther
         else if length creationCodeHex \<le> 2 then Inl ErrOther
         else case hex_decode (drop 2 creationCodeHex) of
             None \<Rightarrow> Inl ErrOther
           | Some creationCode \<Rightarrow>
               if creationCode = [] then Inl ErrOther
               else case normalizeFixedHex collectorAddress 20 of
                   Inl err \<Rightarrow> Inl err
                 | Inr (_, collectorBytes) \<Rightarrow>
                     Inr (''0x'' @ hex_encode (creationCode @ replicate 12 (CHR 0x00) @ collectorBytes)))"

definition Keccak256Hex :: "(string \<Rightarrow> string) \<Rightarrow> string \<Rightarrow> string result" where
  "Keccak256Hex keccak rawHex0 =
     (let rawHex = trim_space rawHex0
      in if \<not> hex_prefixed rawHex then Inl ErrOther
         else if length rawHex \<le> 2 then Inl ErrOther
         else case hex_decode (drop 2 rawHex) of
             None \<Rightarrow> Inl ErrOther
           | Some decoded \<Rightarrow>
               if decoded = [] then Inl ErrOther
               else Inr (''0x'' @ hex_encode (keccak256Hash keccak decoded)))"

section \<open>Salts of allocations\<close>

record DeriveCreate2AllocationSaltInput =
  dsi_Network :: string
  dsi_AddressPolicyID :: string
  dsi_PaymentAddressID :: int64
  dsi_SlotIndex :: uint32

definition create2SaltDerivationVersion :: string where
  "create2SaltDerivationVersion = ''ethereum-create2-salt.v1''"

definition normalizeCreate2SaltSecret :: "string \<Rightarrow> string option" where
  "normalizeCreate2SaltSecret raw =
     (case normalizeFixedHex raw 32 of Inl _ \<Rightarrow> None | Inr (_, decoded) \<Rightarrow> Some decoded)"

fun salt_keys :: "(string \<times> string) list \<Rightarrow> (string \<rightharpoonup> string) \<Rightarrow> (string \<rightharpoonup> string)" where
  "salt_keys [] keys = keys"
| "salt_keys ((network, rawSecret) # secrets) keys =
     (case normalizeCreate2SaltSecret rawSecret of
        None \<Rightarrow> salt_keys secrets keys
      | Some secretKey \<Rightarrow> salt_keys secrets (keys(to_lower (trim_space network) \<mapsto> secretKey)))"

definition NewCreate2SaltDeriver :: "(string \<times> string) list \<Rightarrow> (string \<rightharpoonup> string)" where
  "NewCreate2SaltDeriver rawSecretsByNetwork = salt_keys rawSecretsByNetwork Map.empty"

definition HasNetwork :: "(string \<rightharpoonup> string) option \<Rightarrow> string \<Rightarrow> bool" where
  "HasNetwork d network =
     (case d of None \<Rightarrow> False | Some keys \<Rightarrow> keys (to_lower (trim_space network)) \<noteq> None)"

definition salt_message :: "string \<Rightarrow> string \<Rightarrow> int64 \<Rightarrow> uint32 \<Rightarrow> string" where
  "salt_message network addressPolicyID paymentAddressID slotIndex =
     create2SaltDerivationVersion @ CHR 0x0A # network @ CHR 0x0A # addressPolicyID @ CHR 0x0A #
     format_int paymentAddressID @ CHR 0x0A # format_nat (unat slotIndex)"

definition DeriveAllocationSalt ::
  "(string \<Rightarrow> string \<Rightarrow> string) \<Rightarrow> (string \<rightharpoonup> string) option \<Rightarrow> DeriveCreate2AllocationSaltInput
     \<Rightarrow> string result" where
  "DeriveAllocationSalt hmac d input =
     (case d of
        None \<Rightarrow> Inl ErrOther
      | Some keyByNetwork \<Rightarrow>
          (let network = to_lower (trim_space (dsi_Network input))
           in case keyByNetwork network of
                None \<Rightarrow> Inl ErrOther
              | Some secretKey \<Rightarrow>
             (let addressPolicyID = to_lower (trim_space (dsi_AddressPolicyID input))
              in if addressPolicyID = [] then Inl ErrOther
                 else if sint (dsi_PaymentAddressID input) \<le> 0 then Inl ErrOther
                 else Inr (''0x'' @ hex_encode (hmac secretKey (salt_message network addressPolicyID
                        (dsi_PaymentAddressID input) (dsi_SlotIndex input)))))))"

section \<open>Sweep material\<close>

definition ethereum_sweep_json ::
  "AddressIssuancePolicyRecord \<Rightarrow> string \<Rightarrow> string \<Rightarrow> Create2SourceRef \<Rightarrow> string \<Rightarrow> string \<Rightarrow> json" where
  "ethereum_sweep_json policy assetReference address sourceRef create2Salt initCodeHex =
     JObj ([(''material_type'', JStr ''ethereum_create2''), (''material_version'', JNum ''1''),
            (''chain'', JStr (ipr_Chain policy)), (''network'', JStr (ipr_Network policy))] @
           (if assetReference \<noteq> [] then [(''asset_reference'', JStr assetReference)] else []) @
           [(''address'', JStr (trim_space address)), (''predicted_address'', JStr (trim_space address)),
            (''factory_address'', JStr (cr_factoryAddress sourceRef)),
            (''collector_address'', JStr (cr_collector sourceRef)),
            (''create2_salt'', JStr (trim_space create2Salt)),
            (''init_code_hex'', JStr initCodeHex),
            (''init_code_hash'', JStr (cr_initCodeHash sourceRef))])"

definition ethereum_buildSweepMaterialJSON ::
  "Codec \<Rightarrow> (string \<Rightarrow> string) \<Rightarrow> Create2Assets \<Rightarrow> AddressIssuancePolicyRecord \<Rightarrow> string \<Rightarrow> string
     \<Rightarrow> string result" where
  "ethereum_buildSweepMaterialJSON codec keccak assets policy address create2Salt =
     (case parseCreate2SourceRef (ipr_AddressSpaceRef policy) of
        Inl err \<Rightarrow> Inl err
      | Inr sourceRef \<Rightarrow>
     (case LookupDeploymentMetadata assets (ipr_Network policy) of
        None \<Rightarrow> Inl ErrOther
      | Some metadata \<Rightarrow>
     (case InitCodeHex (dm_Receiver metadata) (cr_collector sourceRef) of
        None \<Rightarrow> Inl ErrOther
      | Some initCodeHex \<Rightarrow>
     (case InitCodeHashHex keccak (dm_Receiver metadata) (cr_collector sourceRef) of
        None \<Rightarrow> Inl ErrOther
      | Some initCodeHash \<Rightarrow>
          if initCodeHash \<noteq> cr_initCodeHash sourceRef then Inl ErrOther
          else if \<not> ipr_Enabled policy then Inl ErrOther
          else (let trimmed = trim_space (ipr_AssetReference policy);
                    assetReference = (if trimmed \<noteq> [] then to_lower trimmed else trimmed)
                in Inr (json_text codec
                     (ethereum_sweep_json policy assetReference address sourceRef create2Salt initCodeHex)))))))"

section \<open>The issued address\<close>

definition ethereum_deriveRelativeIssuanceRef ::
  "(string \<Rightarrow> string \<Rightarrow> string) \<Rightarrow> (string \<rightharpoonup> string) option \<Rightarrow> AddressIssuancePolicyRecord
     \<Rightarrow> PaymentAddressAllocationRecord \<Rightarrow> string result" where
  "ethereum_deriveRelativeIssuanceRef hmac saltDeriver policy allocation =
     (if ipr_Scheme policy \<noteq> ''create2'' then Inr []
      else case saltDeriver of
          None \<Rightarrow> Inl (OutIssuedDeriver out_ErrIssuedPaymentAddressDeriverNotConfigured)
        | Some _ \<Rightarrow>
      (case DeriveAllocationSalt hmac saltDeriver
              \<lparr>dsi_Network = ipr_Network policy, dsi_AddressPolicyID = ipr_AddressPolicyID policy,
               dsi_PaymentAddressID = ar_PaymentAddressID allocation, dsi_SlotIndex = ar_SlotIndex allocation\<rparr> of
          Inl _ \<Rightarrow> Inl (OutIssuedDeriver out_ErrIssuedPaymentAddressDerivationFailed)
        | Inr relativeIssuanceRef \<Rightarrow> Inr relativeIssuanceRef))"

definition chain_deriver_failure :: "go_error \<Rightarrow> go_error" where
  "chain_deriver_failure err =
     (if err = OutChainDeriver out_ErrChainAddressDeriverNotConfigured
        then OutIssuedDeriver out_ErrIssuedPaymentAddressDeriverNotConfigured
      else if err = OutChainDeriver out_ErrChainAddressDerivationInputInvalid
        then OutIssuedDeriver out_ErrIssuedPaymentAddressDerivationInputInvalid
      else OutIssuedDeriver out_ErrIssuedPaymentAddressDerivationFailed)"

text \<open>The chain address deriver has no state: whether it is present is all there is to it.\<close>

definition ethereum_DeriveIssuedAddress ::
  "Codec \<Rightarrow> (string \<Rightarrow> string) \<Rightarrow> (string \<Rightarrow> string \<Rightarrow> string) \<Rightarrow> Create2Assets \<Rightarrow> bool
     \<Rightarrow> (string \<rightharpoonup> string) option \<Rightarrow> AddressIssuancePolicyRecord \<Rightarrow> PaymentAddressAllocationRecord
     \<Rightarrow> DeriveOutput result" where
  "ethereum_DeriveIssuedAddress codec keccak hmac assets hasChainDeriver saltDeriver policy allocation =
     (if \<not> hasChainDeriver then Inl (OutIssuedDeriver out_ErrIssuedPaymentAddressDeriverNotConfigured)
      else case ethereum_deriveRelativeIssuanceRef hmac saltDeriver policy allocation of
          Inl err \<Rightarrow> Inl err
        | Inr relativeIssuanceRef \<Rightarrow>
      (case DeriveCreate2Address keccak
              \<lparr>dci_Chain = ipr_Chain policy, dci_Network = ipr_Network policy,
               dci_Scheme = ipr_Scheme policy, dci_AddressSpaceRef = ipr_AddressSpaceRef policy,
               dci_IssuanceRefPrefix = ipr_IssuanceRefPrefix policy,
               dci_RelativeIssuanceRef = relativeIssuanceRef, dci_SlotIndex = ar_SlotIndex allocation\<rparr> of
          Inl err \<Rightarrow> Inl (chain_deriver_failure err)
        | Inr out \<Rightarrow>
      (case ethereum_buildSweepMaterialJSON codec keccak assets policy (dco_Address out) (dco_IssuanceRef out) of
          Inl _ \<Rightarrow> Inl (OutIssuedDeriver out_ErrIssuedPaymentAddressDerivationFailed)
        | Inr sweepMaterialJSON \<Rightarrow>
            Inr \<lparr>do_Address = dco_Address out, do_IssuanceRefKind = dco_IssuanceRefKind out,
                 do_IssuanceRef = dco_IssuanceRef out, do_SweepMaterial = sweepMaterialJSON\<rparr>)))"

definition ethereum_deriver ::
  "Codec \<Rightarrow> (string \<Rightarrow> string) \<Rightarrow> (string \<Rightarrow> string \<Rightarrow> string) \<Rightarrow> Create2Assets \<Rightarrow> (string \<rightharpoonup> string) option
     \<Rightarrow> ChainSpecificDeriver" where
  "ethereum_deriver codec keccak hmac assets saltDeriver =
     \<lparr>csd_Chain = ''ethereum'',
      csd_DeriveIssuedAddress = ethereum_DeriveIssuedAddress codec keccak hmac assets True saltDeriver\<rparr>"

section \<open>Readiness of a policy\<close>

definition runtimeCodeHashHex :: "(string \<Rightarrow> string) \<Rightarrow> string \<Rightarrow> (string \<times> bool) result" where
  "runtimeCodeHashHex keccak rawCode =
     (case parseEthereumHexBytes rawCode of
        Inl err \<Rightarrow> Inl err
      | Inr codeBytes \<Rightarrow>
          if codeBytes = [] then Inr ([], False)
          else Inr (''0x'' @ hex_encode (keccak256Hash keccak codeBytes), True))"

definition checkFactory ::
  "Codec \<Rightarrow> (string \<Rightarrow> string) \<Rightarrow> Create2Assets \<Rightarrow> HttpServer \<Rightarrow> AddressIssuancePolicyRecord \<Rightarrow> RpcClient
     \<Rightarrow> nat \<Rightarrow> unit result \<times> nat" where
  "checkFactory codec keccak assets server policy client n =
     (case LookupDeploymentMetadata assets (ipr_Network policy) of
        None \<Rightarrow> (Inl ErrOther, n)
      | Some metadata \<Rightarrow>
     (case NormalizeEthereumAddress (dm_FactoryAddress metadata) of
        Inl _ \<Rightarrow> (Inl ErrOther, n)
      | Inr factoryAddress \<Rightarrow>
     (case fetchCode codec server client factoryAddress n of
        (Inl _, n1) \<Rightarrow> (Inl ErrOther, n1)
      | (Inr rawCode, n1) \<Rightarrow>
     (case runtimeCodeHashHex keccak rawCode of
        Inl _ \<Rightarrow> (Inl ErrOther, n1)
      | Inr (actualHash, deployed) \<Rightarrow>
          if \<not> deployed then (Inl ErrOther, n1)
          else case ExpectedFactoryRuntimeCodeHashHex keccak assets of
              None \<Rightarrow> (Inl ErrOther, n1)
            | Some expectedHash \<Rightarrow>
                if actualHash \<noteq> expectedHash then (Inl ErrOther, n1) else (Inr (), n1)))))"

definition zeroEthereumAddress :: string where
  "zeroEthereumAddress = ''0x0000000000000000000000000000000000000000''"

definition checkTokenContract ::
  "Codec \<Rightarrow> (string \<Rightarrow> string) \<Rightarrow> HttpServer \<Rightarrow> AddressIssuancePolicyRecord \<Rightarrow> RpcClient \<Rightarrow> string
     \<Rightarrow> nat \<Rightarrow> unit result \<times> nat" where
  "checkTokenContract codec keccak server policy client assetReference n =
     (case NormalizeEthereumAddress assetReference of
        Inl _ \<Rightarrow> (Inl ErrOther, n)
      | Inr tokenAddress \<Rightarrow>
     (case fetchCode codec server client tokenAddress n of
        (Inl _, n1) \<Rightarrow> (Inl ErrOther, n1)
      | (Inr rawCode, n1) \<Rightarrow>
     (case runtimeCodeHashHex keccak rawCode of
        Inl _ \<Rightarrow> (Inl ErrOther, n1)
      | Inr (_, deployed) \<Rightarrow>
          if \<not> deployed then (Inl ErrOther, n1)
          else case encodeERC20BalanceOfCall zeroEthereumAddress of
              Inl _ \<Rightarrow> (Inl ErrOther, n1)
            | Inr balanceCallData \<Rightarrow>
     (case callContractAtLatest codec server client tokenAddress balanceCallData n1 of
        (Inl _, n2) \<Rightarrow> (Inl ErrOther, n2)
      | (Inr rawBalance, n2) \<Rightarrow>
     (case parseEthereumHexQuantity rawBalance of
        Inl _ \<Rightarrow> (Inl ErrOther, n2)
      | Inr _ \<Rightarrow>
     (case fetchERC20Decimals codec server client tokenAddress n2 of
        (Inl _, n3) \<Rightarrow> (Inl ErrOther, n3)
      | (Inr decimals, n3) \<Rightarrow>
          if decimals \<noteq> ipr_Decimals policy then (Inl ErrOther, n3) else (Inr (), n3)))))))"

text \<open>The checker needs no client: without one, every enabled policy is unavailable.\<close>

definition NewAddressIssuanceReadinessChecker ::
  "(string \<times> RpcConfig option) list \<Rightarrow> (string \<times> RpcClient) list result" where
  "NewAddressIssuanceReadinessChecker configs = rpc_clients configs []"

definition CheckIssuanceReadiness ::
  "Codec \<Rightarrow> (string \<Rightarrow> string) \<Rightarrow> Create2Assets \<Rightarrow> (string \<times> RpcClient) list \<Rightarrow> HttpServer
     \<Rightarrow> AddressIssuancePolicyRecord \<Rightarrow> nat \<Rightarrow> unit result \<times> nat" where
  "CheckIssuanceReadiness codec keccak assets clients server policy n =
     (if ipr_Chain policy \<noteq> ''ethereum'' \<or> \<not> ipr_Enabled policy then (Inr (), n)
      else case map_of clients (ipr_Network policy) of
          None \<Rightarrow> (Inl ErrOther, n)
        | Some client \<Rightarrow>
      (case checkFactory codec keccak assets server policy client n of
          (Inl err, n1) \<Rightarrow> (Inl err, n1)
        | (Inr _, n1) \<Rightarrow>
            (let assetReference = trim_space (ipr_AssetReference policy)
             in if assetReference = [] then (Inr (), n1)
                else checkTokenContract codec keccak server policy client assetReference n1)))"

section \<open>Normal forms read back\<close>

lemma normalizeFixedHex_normal:
  assumes "normalizeFixedHex raw k = Inr (s, bs)"
  obtains x where "s = CHR ''0'' # CHR ''x'' # x" and "lower_hex x" and "hex_decode x = Some bs" and "length bs = k"
  using assms hex_decode_to_lower
  by (fastforce simp: normalizeFixedHex_def Let_def split: if_splits option.splits)

lemma normalizeFixedHex_lower:
  assumes "lower_hex x" and "hex_decode x = Some bs" and "length bs = k"
  shows "normalizeFixedHex (CHR ''0'' # CHR ''x'' # x) k = Inr (CHR ''0'' # CHR ''x'' # x, bs)"
  using assms by (simp add: normalizeFixedHex_def Let_def hex_prefixed_def has_prefix_def)

lemma normalizeFixedHex_encode:
  "length bs = k \<Longrightarrow>
     normalizeFixedHex (CHR ''0'' # CHR ''x'' # hex_encode bs) k = Inr (CHR ''0'' # CHR ''x'' # hex_encode bs, bs)"
  by (simp add: normalizeFixedHex_lower)

lemma normalizeFixedHex_again:
  "normalizeFixedHex raw k = Inr (s, bs) \<Longrightarrow> normalizeFixedHex s k = Inr (s, bs)"
  by (erule normalizeFixedHex_normal) (simp add: normalizeFixedHex_lower)

lemma assets_normalizeFixedHex_same: "assets_normalizeFixedHex = normalizeFixedHex"
  by (simp add: fun_eq_iff assets_normalizeFixedHex_def normalizeFixedHex_def)

lemma lower_hex_free: "lower_hex x \<Longrightarrow> CHR '';'' \<notin> set x \<and> CHR ''='' \<notin> set x"
  by (auto simp: lower_hex_def list_all_iff Let_def)

lemma source_ref_text_trimmed:
  assumes f: "normalizeFixedHex f0 20 = Inr (f, fb)" and c: "normalizeFixedHex c0 20 = Inr (c, cb)"
    and h: "normalizeFixedHex h0 32 = Inr (h, hb)"
  shows "trim_space (source_ref_text f c h) = source_ref_text f c h"
proof -
  obtain x where x: "f = CHR ''0'' # CHR ''x'' # x" "lower_hex x"
    using f by (rule normalizeFixedHex_normal)
  obtain y where y: "c = CHR ''0'' # CHR ''x'' # y" "lower_hex y"
    using c by (rule normalizeFixedHex_normal)
  obtain z where z: "h = CHR ''0'' # CHR ''x'' # z" "lower_hex z"
    using h by (rule normalizeFixedHex_normal)
  have "list_all printable (source_ref_text f c h)"
    using lower_hex_plain [OF x(2)] lower_hex_plain [OF y(2)] lower_hex_plain [OF z(2)]
    by (auto simp: source_ref_text_def create2SourceRefVersion_def x(1) y(1) z(1) printable_def
        plain_char_def list_all_iff)
  then show ?thesis
    by (rule trim_space_plain)
qed

lemma source_ref_text_parses:
  assumes f: "normalizeFixedHex f0 20 = Inr (f, fb)" and c: "normalizeFixedHex c0 20 = Inr (c, cb)"
    and h: "normalizeFixedHex h0 32 = Inr (h, hb)"
  shows "parseCreate2SourceRef (source_ref_text f c h) =
    Inr \<lparr>cr_factoryAddress = f, cr_collector = c, cr_initCodeHash = h\<rparr>"
proof -
  obtain x where x: "f = CHR ''0'' # CHR ''x'' # x" "lower_hex x" "hex_decode x = Some fb" "length fb = 20"
    using f by (rule normalizeFixedHex_normal)
  obtain y where y: "c = CHR ''0'' # CHR ''x'' # y" "lower_hex y" "hex_decode y = Some cb" "length cb = 20"
    using c by (rule normalizeFixedHex_normal)
  obtain z where z: "h = CHR ''0'' # CHR ''x'' # z" "lower_hex z" "hex_decode z = Some hb" "length hb = 32"
    using h by (rule normalizeFixedHex_normal)
  let ?text = "source_ref_text f c h"
  have trim: "trim_space ?text = ?text"
    by (rule source_ref_text_trimmed [OF assms])
  have prefix: "has_prefix ?text (create2SourceRefVersion @ '':'')"
    by (simp add: source_ref_text_def create2SourceRefVersion_def has_prefix_def)
  have rest: "trim_prefix ?text (create2SourceRefVersion @ '':'') =
      (''factory='' @ f) @ CHR '';'' # (''collector='' @ c) @ CHR '';'' # (''init_code_hash='' @ h)"
    using prefix by (simp add: trim_prefix_def source_ref_text_def create2SourceRefVersion_def)
  have split: "split_on (CHR '';'') \<dots> = [''factory='' @ f, ''collector='' @ c, ''init_code_hash='' @ h]"
    using lower_hex_free [OF x(2)] lower_hex_free [OF y(2)] lower_hex_free [OF z(2)]
    by (subst split_on_sep split_on_none; (subst split_on_sep split_on_none)?; (subst split_on_none)?;
        simp add: x(1) y(1) z(1))
  have vals: "source_ref_values [''factory='' @ f, ''collector='' @ c, ''init_code_hash='' @ h] Map.empty =
      Inr [''factory'' \<mapsto> f, ''collector'' \<mapsto> c, ''init_code_hash'' \<mapsto> h]"
  proof -
    have "trim_space ''factory'' = ''factory''" "trim_space ''collector'' = ''collector''"
        "trim_space ''init_code_hash'' = ''init_code_hash''"
      by code_simp+
    moreover have "cut_at (CHR ''='') (''factory='' @ f) = Some (''factory'', f)"
        "cut_at (CHR ''='') (''collector='' @ c) = Some (''collector'', c)"
        "cut_at (CHR ''='') (''init_code_hash='' @ h) = Some (''init_code_hash'', h)"
      by simp_all
    ultimately show ?thesis
      using x(1,2) y(1,2) z(1,2) by (simp add: Let_def del: cut_at.simps append.simps)
  qed
  have "?text \<noteq> []"
    by (simp add: source_ref_text_def create2SourceRefVersion_def)
  moreover have "normalizeFixedHex f 20 = Inr (f, fb)" "normalizeFixedHex c 20 = Inr (c, cb)"
      "normalizeFixedHex h 32 = Inr (h, hb)"
    unfolding x(1) y(1) z(1) using x y z by (simp_all add: normalizeFixedHex_lower)
  moreover obtain parts where "split_on (CHR '';'') (trim_prefix ?text (create2SourceRefVersion @ '':'')) = parts"
      and "length parts = 3" and "source_ref_values parts Map.empty =
        Inr [''factory'' \<mapsto> f, ''collector'' \<mapsto> c, ''init_code_hash'' \<mapsto> h]"
    using vals by (simp only: rest split) simp
  ultimately show ?thesis
    using prefix by (simp add: parseCreate2SourceRef_def trim value_or_empty_def Let_def)
qed

section \<open>Salt messages\<close>

lemma cut_unique:
  assumes "a @ (sep :: char) # b = a' @ sep # b'" and "sep \<notin> set a" and "sep \<notin> set a'"
  shows "a = a' \<and> b = b'"
  using cut_at_sep [OF assms(2), of b] cut_at_sep [OF assms(3), of b', folded assms(1)]
  by (simp only: option.inject prod.inject)

lemma format_nat_inject: "format_nat m = format_nat n \<Longrightarrow> m = n"
  using parse_format_nat by (metis option.inject)

lemma format_int_inject: "format_int x = format_int y \<Longrightarrow> x = y"
  using parse_format_int by (metis option.inject)

lemma format_int_no_newline: "CHR 0x0A \<notin> set (format_int x)"
  using format_nat_digits [of "CHR 0x0A"] by (auto simp: format_int_def)

lemma salt_message_inject:
  assumes "salt_message n p i k = salt_message n' p' i' k'"
    and "CHR 0x0A \<notin> set n" "CHR 0x0A \<notin> set n'" "CHR 0x0A \<notin> set p" "CHR 0x0A \<notin> set p'"
  shows "n = n' \<and> p = p' \<and> i = i' \<and> k = k'"
proof -
  have "n @ CHR 0x0A # p @ CHR 0x0A # format_int i @ CHR 0x0A # format_nat (unat k) =
      n' @ CHR 0x0A # p' @ CHR 0x0A # format_int i' @ CHR 0x0A # format_nat (unat k')"
    using assms(1) by (simp add: salt_message_def)
  from cut_unique [OF this assms(2,3)] have "n = n'"
    and "p @ CHR 0x0A # format_int i @ CHR 0x0A # format_nat (unat k) =
      p' @ CHR 0x0A # format_int i' @ CHR 0x0A # format_nat (unat k')"
    by auto
  moreover from cut_unique [OF this(2) assms(4,5)] have "p = p'"
    and "format_int i @ CHR 0x0A # format_nat (unat k) = format_int i' @ CHR 0x0A # format_nat (unat k')"
    by auto
  moreover from cut_unique [OF this(2) format_int_no_newline format_int_no_newline]
  have "format_int i = format_int i'" and "format_nat (unat k) = format_nat (unat k')"
    by auto
  ultimately show ?thesis
    using format_int_inject [of i i'] format_nat_inject [of "unat k" "unat k'"]
    by (auto intro: unsigned_word_eqI)
qed

section \<open>The address of a policy whose reference was built from the assets\<close>

lemma assets_keccak256Hash_same: "assets_keccak256Hash = keccak256Hash"
  by (simp add: fun_eq_iff assets_keccak256Hash_def keccak256Hash_def)

lemma InitCodeHex_Some:
  assumes "InitCodeHex a collector = Some s"
  obtains code c cb where
    "hex_decode (drop 2 (trim_space (ra_CreationCodeHex a))) = Some code"
    and "normalizeFixedHex collector 20 = Inr (c, cb)"
    and "s = CHR ''0'' # CHR ''x'' # hex_encode (code @ replicate 12 (CHR 0x00) @ cb)"
    and "code \<noteq> []"
  using assms
  by (auto simp: InitCodeHex_def assets_buildInitCodeHex_def assets_normalizeFixedHex_same Let_def
      split: if_splits option.splits sum.splits prod.splits)

text \<open>The code depends on the collector only through its bytes.\<close>

lemma InitCodeHex_normal:
  "InitCodeHex a collector = Some s \<Longrightarrow> normalizeFixedHex collector 20 = Inr (c, cb) \<Longrightarrow>
     InitCodeHex a c = Some s"
proof -
  assume s: "InitCodeHex a collector = Some s" and c: "normalizeFixedHex collector 20 = Inr (c, cb)"
  have "normalizeFixedHex c 20 = Inr (c, cb)"
    using c by (rule normalizeFixedHex_again)
  then show "InitCodeHex a c = Some s"
    using s c by (simp add: InitCodeHex_def assets_buildInitCodeHex_def assets_normalizeFixedHex_same Let_def
        split: if_splits option.splits)
qed

lemma InitCodeHashHex_Some:
  assumes "InitCodeHashHex keccak a collector = Some h"
  obtains s bs where "InitCodeHex a collector = Some s"
    and "s = CHR ''0'' # CHR ''x'' # hex_encode bs"
    and "h = CHR ''0'' # CHR ''x'' # hex_encode (keccak256Hash keccak bs)"
proof -
  obtain s where s: "InitCodeHex a collector = Some s" and k: "assets_keccak256Hex keccak s = Inr h"
    using assms by (auto simp: InitCodeHashHex_def split: option.splits sum.splits)
  from s obtain bs where bs: "s = CHR ''0'' # CHR ''x'' # hex_encode bs"
    by (rule InitCodeHex_Some)
  then show ?thesis
    using that [OF s bs] k
    by (auto simp: assets_keccak256Hex_def assets_keccak256Hash_same Let_def split: if_splits)
qed

text \<open>
  A reference built from the assets names the factory, the collector and the hash of the receiver's
  creation code with the collector behind it; the code can be built again from what it names.
\<close>

lemma address_space_ref_parts:
  assumes keccak: "\<And>d. length (keccak d) = 32"
    and ref: "ref = BuildAddressSpaceRef keccak assets network collector" "ref \<noteq> []"
    and metadata: "LookupDeploymentMetadata assets network = Some metadata"
  obtains f fb c cb code h s where
    "normalizeFixedHex (dm_FactoryAddress metadata) 20 = Inr (f, fb)"
    "normalizeFixedHex collector 20 = Inr (c, cb)"
    "hex_decode (drop 2 (trim_space (ra_CreationCodeHex (dm_Receiver metadata)))) = Some code"
    "parseCreate2SourceRef ref = Inr \<lparr>cr_factoryAddress = f, cr_collector = c, cr_initCodeHash = h\<rparr>"
    "mustDecodeFixedHex f 20 = Inr fb"
    "mustDecodeFixedHex h 32 = Inr (keccak (code @ replicate 12 (CHR 0x00) @ cb))"
    "InitCodeHex (dm_Receiver metadata) c = Some s" "InitCodeHashHex keccak (dm_Receiver metadata) c = Some h"
proof -
  let ?r = "dm_Receiver metadata"
  have k: "keccak256Hash keccak d = keccak d" for d
    using keccak [of d] by (simp add: keccak256Hash_def)
  have trims: "normalizeFixedHex (trim_space v) j = normalizeFixedHex v j" for v j
    by (simp add: normalizeFixedHex_def)
  obtain h where h: "InitCodeHashHex keccak ?r (trim_space collector) = Some h"
    and "assets_buildSourceRef (trim_space (dm_FactoryAddress metadata)) (trim_space collector) h = Inr ref"
    using ref metadata
    by (auto simp: BuildAddressSpaceRef_def BuildAddressSpaceRefFromMetadata_def Let_def
        split: if_splits option.splits sum.splits)
  then obtain f fb c cb h' hb where n: "normalizeFixedHex (dm_FactoryAddress metadata) 20 = Inr (f, fb)"
      "normalizeFixedHex collector 20 = Inr (c, cb)" "normalizeFixedHex h 32 = Inr (h', hb)"
    and r: "ref = source_ref_text f c h'"
    by (auto simp: assets_buildSourceRef_def assets_normalizeFixedHex_same trims
        split: sum.splits prod.splits)
  obtain s bs where s: "InitCodeHex ?r (trim_space collector) = Some s"
      and sb: "s = CHR ''0'' # CHR ''x'' # hex_encode bs"
      and hh: "h = CHR ''0'' # CHR ''x'' # hex_encode (keccak bs)"
    using h k by (metis InitCodeHashHex_Some)
  obtain code where code: "hex_decode (drop 2 (trim_space (ra_CreationCodeHex ?r))) = Some code"
    and sc: "s = CHR ''0'' # CHR ''x'' # hex_encode (code @ replicate 12 (CHR 0x00) @ cb)"
    using s by (rule InitCodeHex_Some) (use n(2) trims in auto)
  have "bs = code @ replicate 12 (CHR 0x00) @ cb"
    using sc sb by (metis hex_decode_encode list.inject option.inject)
  then have h': "h' = h" "hb = keccak (code @ replicate 12 (CHR 0x00) @ cb)"
    using n(3) normalizeFixedHex_encode [OF keccak, of bs] hh by auto
  have c: "InitCodeHex ?r c = Some s"
    using InitCodeHex_normal [OF s, of c cb] n(2) by (simp add: trims)
  show thesis
  proof (rule that [OF n(1,2) code _ _ _ c])
    show "parseCreate2SourceRef ref = Inr \<lparr>cr_factoryAddress = f, cr_collector = c, cr_initCodeHash = h'\<rparr>"
      using source_ref_text_parses [OF n] by (simp add: r)
    show "mustDecodeFixedHex f 20 = Inr fb"
      "mustDecodeFixedHex h' 32 = Inr (keccak (code @ replicate 12 (CHR 0x00) @ cb))"
      using normalizeFixedHex_again [OF n(1)] normalizeFixedHex_again [OF n(3)]
      by (simp_all add: mustDecodeFixedHex_def h'(2))
    show "InitCodeHashHex keccak ?r c = Some h'"
      using h s c by (simp add: InitCodeHashHex_def h'(1))
  qed
qed

lemma BuildAddressSpaceRef_trimmed:
  "trim_space (BuildAddressSpaceRef keccak assets network collector) =
     BuildAddressSpaceRef keccak assets network collector"
  by (auto simp: BuildAddressSpaceRef_def BuildAddressSpaceRefFromMetadata_def assets_buildSourceRef_def
      assets_normalizeFixedHex_same Let_def source_ref_text_trimmed split: option.splits sum.splits prod.splits)

lemma portable_id_lower_trim: "portable_id v \<Longrightarrow> to_lower (trim_space v) = v"
  using ParseChainID_of_portable [of v] by (simp add: ParseChainID_def Let_def split: if_splits)

text \<open>An enabled policy with such a reference, and a salt key for its network, issues an address.\<close>

lemma ethereum_issues_create2:
  assumes hashes: "\<And>d. length (keccak d) = 32" "\<And>key m. length (hmac key m) = 32"
    and policy: "ipr_Chain policy = ''ethereum''" "ipr_Scheme policy = ''create2''" "ipr_Enabled policy"
      "portable_id (ipr_AddressPolicyID policy)" "portable_id (ipr_Network policy)"
      "ipr_AddressSpaceRef policy = BuildAddressSpaceRef keccak assets (ipr_Network policy) collector"
      "ipr_AddressSpaceRef policy \<noteq> []"
    and metadata: "LookupDeploymentMetadata assets (ipr_Network policy) = Some metadata"
    and key: "keys (ipr_Network policy) = Some key" and id: "0 < sint (ar_PaymentAddressID allocation)"
    and salt: "salt = hmac key (salt_message (ipr_Network policy) (ipr_AddressPolicyID policy)
           (ar_PaymentAddressID allocation) (ar_SlotIndex allocation))"
  obtains out f fb c cb code where
    "ethereum_DeriveIssuedAddress codec keccak hmac assets True (Some keys) policy allocation = Inr out"
    "normalizeFixedHex (dm_FactoryAddress metadata) 20 = Inr (f, fb)"
    "normalizeFixedHex collector 20 = Inr (c, cb)"
    "hex_decode (drop 2 (trim_space (ra_CreationCodeHex (dm_Receiver metadata)))) = Some code"
    "do_Address out = ''0x'' @ hex_encode (drop 12 (keccak (CHR 0xFF # fb @ salt @
       keccak (code @ replicate 12 (CHR 0x00) @ cb))))"
    "do_IssuanceRef out = ''0x'' @ hex_encode salt" "do_IssuanceRefKind out = ''create2_salt''"
proof -
  obtain f fb c cb code h s where n: "normalizeFixedHex (dm_FactoryAddress metadata) 20 = Inr (f, fb)"
      "normalizeFixedHex collector 20 = Inr (c, cb)"
      "hex_decode (drop 2 (trim_space (ra_CreationCodeHex (dm_Receiver metadata)))) = Some code"
    and parse: "parseCreate2SourceRef (ipr_AddressSpaceRef policy) =
        Inr \<lparr>cr_factoryAddress = f, cr_collector = c, cr_initCodeHash = h\<rparr>"
    and dec: "mustDecodeFixedHex f 20 = Inr fb"
      "mustDecodeFixedHex h 32 = Inr (keccak (code @ replicate 12 (CHR 0x00) @ cb))"
    and ic: "InitCodeHex (dm_Receiver metadata) c = Some s" "InitCodeHashHex keccak (dm_Receiver metadata) c = Some h"
    by (rule address_space_ref_parts [OF hashes(1) policy(6,7) metadata])
  let ?salt = "CHR ''0'' # CHR ''x'' # hex_encode salt"
  have saltlen: "length salt = 32"
    using hashes(2) by (simp add: salt)
  have rel: "ethereum_deriveRelativeIssuanceRef hmac (Some keys) policy allocation = Inr ?salt"
    using policy(2,4) key id salt
    by (simp add: ethereum_deriveRelativeIssuanceRef_def DeriveAllocationSalt_def Let_def
        portable_id_lower_trim [OF policy(4)] portable_id_lower_trim [OF policy(5)]) (auto simp: portable_id_def)
  have nsalt: "normalizeCreate2Salt ?salt = Inr (?salt, salt)"
    using normalizeFixedHex_encode [OF saltlen] saltlen by (simp add: normalizeCreate2Salt_def)
  have sweep: "\<exists>m. ethereum_buildSweepMaterialJSON codec keccak assets policy a b = Inr m" for a b
    using policy(3) metadata parse ic by (simp add: ethereum_buildSweepMaterialJSON_def Let_def)
  let ?addr = "''0x'' @ hex_encode (drop 12 (keccak (CHR 0xFF # fb @ salt @
       keccak (code @ replicate 12 (CHR 0x00) @ cb))))"
  have "\<exists>m. ethereum_DeriveIssuedAddress codec keccak hmac assets True (Some keys) policy allocation =
      Inr \<lparr>do_Address = ?addr, do_IssuanceRefKind = ''create2_salt'', do_IssuanceRef = ?salt, do_SweepMaterial = m\<rparr>"
    using sweep [of ?addr ?salt] rel policy(1,2) parse dec nsalt hashes(1)
    by (auto simp: ethereum_DeriveIssuedAddress_def DeriveCreate2Address_def predictCreate2Address_def
        keccak256Hash_def)
  then show thesis
    using that [OF _ n] by fastforce
qed

end
