(* ===== verification/Ethereum_Properties.thy ===== *)
theory Ethereum_Properties
  imports Ethereum_Issuance
begin

text \<open>
  The properties of the Ethereum side: references survive printing and parsing, different
  allocations never share a salt message, an issued address is the CREATE2 address of the receiver
  contract, and an observation is the difference of two balances.
\<close>

section \<open>References and salts\<close>

text \<open>
  C30: an address-space reference reads back. Whatever spelling of the factory, the collector and
  the code hash it was built from (case, surrounding blanks, the prefix in capitals), parsing it
  gives their three normal forms, the ones normalising each of them gives.
\<close>

theorem source_ref_roundtrip:
  assumes "BuildCreate2AddressSpaceRef factory collector codeHash = Inr ref"
  shows "\<exists>f fb c cb h hb. normalizeFixedHex factory 20 = Inr (f, fb) \<and>
      normalizeFixedHex collector 20 = Inr (c, cb) \<and> normalizeFixedHex codeHash 32 = Inr (h, hb) \<and>
      parseCreate2SourceRef ref =
        Inr \<lparr>cr_factoryAddress = f, cr_collector = c, cr_initCodeHash = h\<rparr>"
proof -
  obtain f fb c cb h hb where n: "normalizeFixedHex factory 20 = Inr (f, fb)"
      "normalizeFixedHex collector 20 = Inr (c, cb)" "normalizeFixedHex codeHash 32 = Inr (h, hb)"
    and "ref = source_ref_text f c h"
    using assms by (auto simp: BuildCreate2AddressSpaceRef_def split: sum.splits prod.splits)
  then show ?thesis
    using source_ref_text_parses [OF n] by blast
qed

definition sample_factory :: string where
  "sample_factory = ''0XAA'' @ replicate 38 (CHR ''1'')"

definition sample_collector :: string where
  "sample_collector = ''0x'' @ replicate 40 (CHR ''2'')"

definition sample_code_hash :: string where
  "sample_code_hash = ''0x'' @ replicate 64 (CHR ''3'')"

lemma source_ref_roundtrip_witness:
  "\<exists>ref r. BuildCreate2AddressSpaceRef sample_factory sample_collector sample_code_hash = Inr ref \<and>
     parseCreate2SourceRef ref = Inr r \<and> cr_factoryAddress r = ''0xaa'' @ replicate 38 (CHR ''1'')"
proof -
  obtain ref where ref: "BuildCreate2AddressSpaceRef sample_factory sample_collector sample_code_hash = Inr ref"
    and "normalizeFixedHex sample_factory 20 = Inr (''0xaa'' @ replicate 38 (CHR ''1''),
           CHR 0xAA # replicate 19 (CHR 0x11))"
  proof
    show "BuildCreate2AddressSpaceRef sample_factory sample_collector sample_code_hash =
        Inr (source_ref_text (''0xaa'' @ replicate 38 (CHR ''1'')) sample_collector sample_code_hash)"
      by code_simp
    show "normalizeFixedHex sample_factory 20 = Inr (''0xaa'' @ replicate 38 (CHR ''1''),
           CHR 0xAA # replicate 19 (CHR 0x11))"
      by code_simp
  qed
  then show ?thesis
    using source_ref_roundtrip [OF ref] by fastforce
qed



section \<open>The issued address\<close>

text \<open>
  C32: an issued Ethereum address is the CREATE2 address of its receiver. For an enabled policy
  whose reference was built from the embedded assets for a collector, the deriver answers, for an
  allocation with an identity, the address that EIP-1014 gives: the last twenty bytes of the hash of
  \<open>0xff\<close>, the factory, the salt and the hash of the receiver's creation code followed by the
  collector padded to 32 bytes. The salt is the keyed hash of the allocation's salt message and is
  the issuance reference that is stored.
\<close>

theorem ethereum_address_is_create2:
  assumes hashes: "\<And>d. length (keccak d) = 32" "\<And>key m. length (hmac key m) = 32"
    and policy: "ipr_Chain policy = ''ethereum''" "ipr_Scheme policy = ''create2''" "ipr_Enabled policy"
      "portable_id (ipr_AddressPolicyID policy)" "portable_id (ipr_Network policy)"
      "ipr_AddressSpaceRef policy = BuildAddressSpaceRef keccak assets (ipr_Network policy) collector"
      "ipr_AddressSpaceRef policy \<noteq> []"
    and "LookupDeploymentMetadata assets (ipr_Network policy) = Some metadata"
    and "keys (ipr_Network policy) = Some key" and "0 < sint (ar_PaymentAddressID allocation)"
    and salt: "salt = hmac key (salt_message (ipr_Network policy) (ipr_AddressPolicyID policy)
           (ar_PaymentAddressID allocation) (ar_SlotIndex allocation))"
  shows "\<exists>out f fb c cb code.
      csd_DeriveIssuedAddress (ethereum_deriver codec keccak hmac assets (Some keys)) policy allocation =
        Inr out \<and>
      normalizeFixedHex (dm_FactoryAddress metadata) 20 = Inr (f, fb) \<and>
      normalizeFixedHex collector 20 = Inr (c, cb) \<and>
      hex_decode (drop 2 (trim_space (ra_CreationCodeHex (dm_Receiver metadata)))) = Some code \<and>
      do_Address out = ''0x'' @ hex_encode (drop 12 (keccak (CHR 0xFF # fb @ salt @
        keccak (code @ replicate 12 (CHR 0x00) @ cb)))) \<and>
      do_IssuanceRef out = ''0x'' @ hex_encode salt \<and> do_IssuanceRefKind out = ''create2_salt''"
  by (rule ethereum_issues_create2 [where keccak = keccak and hmac = hmac and policy = policy
        and allocation = allocation and keys = keys and codec = codec and salt = salt and key = key
        and assets = assets and metadata = metadata and collector = collector, OF assms]) (auto simp: ethereum_deriver_def)

definition sample_keccak :: "string \<Rightarrow> string" where
  "sample_keccak d = take 32 (rev d @ replicate 32 (CHR 0x00))"

definition sample_hmac :: "string \<Rightarrow> string \<Rightarrow> string" where
  "sample_hmac key m = take 32 (m @ key @ replicate 32 (CHR 0x00))"

definition sample_eth_codec :: Codec where
  "sample_eth_codec = \<lparr>json_text = (\<lambda>v. []), json_value = (\<lambda>s. None), json_first = (\<lambda>s. None)\<rparr>"

definition sample_metadata :: DeploymentMetadata where
  "sample_metadata = \<lparr>dm_Network = ''sepolia'', dm_FactoryAddress = sample_factory,
     dm_ReceiverArtifact = ReceiverArtifactName, dm_Mode = [],
     dm_Receiver = no_artifact\<lparr>ra_CreationCodeHex := ''0x6001''\<rparr>\<rparr>"

definition sample_assets :: Create2Assets where
  "sample_assets = \<lparr>ca_metadata = [''sepolia'' \<mapsto> sample_metadata], ca_artifacts = Map.empty\<rparr>"

definition sample_eth_policy :: AddressIssuancePolicyRecord where
  "sample_eth_policy = \<lparr>ipr_AddressPolicyID = ''eth-main'', ipr_Chain = ''ethereum'',
     ipr_Network = ''sepolia'', ipr_Scheme = ''create2'', ipr_AssetReference = [], ipr_Decimals = 18,
     ipr_Enabled = True,
     ipr_AddressSpaceRef = BuildAddressSpaceRef sample_keccak sample_assets ''sepolia'' sample_collector,
     ipr_IssuanceRefPrefix = []\<rparr>"

definition sample_eth_allocation :: PaymentAddressAllocationRecord where
  "sample_eth_allocation = \<lparr>ar_PaymentAddressID = 7, ar_AddressPolicyID = ''eth-main'', ar_SlotIndex = 2,
     ar_ExpectedAmountMinor = 5, ar_CustomerReference = [], ar_Status = [], ar_Chain = [], ar_Network = [],
     ar_Scheme = [], ar_AssetReference = [], ar_Address = [], ar_DerivationFailureReason = []\<rparr>"

lemma ethereum_address_is_create2_witness:
  "\<exists>out. csd_DeriveIssuedAddress (ethereum_deriver sample_eth_codec sample_keccak sample_hmac sample_assets
       (Some [''sepolia'' \<mapsto> ''k''])) sample_eth_policy sample_eth_allocation = Inr out \<and>
     do_IssuanceRef out = ''0x'' @ hex_encode (sample_hmac ''k'' (salt_message ''sepolia'' ''eth-main'' 7 2))"
proof -
  let ?salt = "sample_hmac ''k'' (salt_message ''sepolia'' ''eth-main'' 7 2)"
  have len: "length (sample_keccak d) = 32" "length (sample_hmac key m) = 32" for d key m
    by (simp_all add: sample_keccak_def sample_hmac_def)
  have pol: "ipr_Chain sample_eth_policy = ''ethereum''" "ipr_Scheme sample_eth_policy = ''create2''"
      "ipr_Enabled sample_eth_policy" "ipr_Network sample_eth_policy = ''sepolia''"
      "ipr_AddressPolicyID sample_eth_policy = ''eth-main''"
      "ar_PaymentAddressID sample_eth_allocation = 7" "ar_SlotIndex sample_eth_allocation = 2"
      "ipr_AddressSpaceRef sample_eth_policy = BuildAddressSpaceRef sample_keccak sample_assets
        (ipr_Network sample_eth_policy) sample_collector"
    by (simp_all add: sample_eth_policy_def sample_eth_allocation_def)
  have "portable_id ''eth-main''" "portable_id ''sepolia''"
    by code_simp+
  then have ids: "portable_id (ipr_AddressPolicyID sample_eth_policy)" "portable_id (ipr_Network sample_eth_policy)"
    by (simp_all only: pol)
  have "normalizeNetworkKey ''sepolia'' = ''sepolia''"
    by code_simp
  then have meta: "LookupDeploymentMetadata sample_assets (ipr_Network sample_eth_policy) = Some sample_metadata"
    by (simp add: pol LookupDeploymentMetadata_def sample_assets_def)
  have "BuildAddressSpaceRefFromMetadata sample_keccak sample_metadata sample_collector \<noteq> []"
    by code_simp
  then have ref: "ipr_AddressSpaceRef sample_eth_policy \<noteq> []"
    using meta by (simp add: pol(8) BuildAddressSpaceRef_def)
  have key: "[''sepolia'' \<mapsto> ''k''] (ipr_Network sample_eth_policy) = Some ''k''"
    and pos: "0 < sint (ar_PaymentAddressID sample_eth_allocation)"
    and salt: "?salt = sample_hmac ''k'' (salt_message (ipr_Network sample_eth_policy)
      (ipr_AddressPolicyID sample_eth_policy) (ar_PaymentAddressID sample_eth_allocation)
      (ar_SlotIndex sample_eth_allocation))"
    by (simp_all add: pol)
  note issued = ethereum_address_is_create2 [where keys = "[''sepolia'' \<mapsto> ''k'']" and
      codec = sample_eth_codec and keccak = sample_keccak and hmac = sample_hmac and key = "''k''" and
      policy = sample_eth_policy and assets = sample_assets and collector = sample_collector and
      metadata = sample_metadata and allocation = sample_eth_allocation and salt = ?salt,
      OF len pol(1-3) ids pol(8) ref meta key pos salt]
  show ?thesis
    using issued by (elim exE conjE) (intro exI conjI)
qed

section \<open>Observations\<close>

text \<open>
  C33: an observation is the difference of two balances. For a well-formed input and a node that
  answers balances (of the chain's currency, or of the token when an asset is given), the observer
  reports the balance at the latest block as observed and the balance at the block that has the
  required confirmations as confirmed (none when there is no such block yet), the rest as
  unconfirmed; it fails exactly when the observed balance does not fit an \<open>int64\<close> or the confirmed
  one exceeds it.
\<close>

theorem ethereum_observation_is_difference:
  assumes input: "normalizeFixedHex (opi_Address input) 20 = Inr (address, bytes)"
      "opi_IssuedAt input \<noteq> 0" "0 < sint (opi_RequiredConfirmations input)"
      "0 < sint (opi_LatestBlockHeight input)" "0 \<le> sint (opi_SinceBlockHeight input)"
    and asset: "if trim_space (opi_AssetReference input) = [] then token = []
       else NormalizeEthereumAddress (opi_AssetReference input) = Inr token"
    and client: "rpc_selectClient clients (opi_Network input) = Inr client"
    and node: "serves_balances codec server client token address bal"
  shows "Rpc_ObserveAddress codec clients server input =
    (let h = opi_LatestBlockHeight input; deep = h - scast (opi_RequiredConfirmations input) + 1;
         observed = bal h; confirmed = (if 0 < sint deep then bal deep else 0)
     in if observed < 2 ^ 63 \<and> confirmed \<le> observed
        then Inr \<lparr>oo_ObservedTotalMinor = of_nat observed, oo_ConfirmedTotalMinor = of_nat confirmed,
                  oo_UnconfirmedTotalMinor = of_nat (observed - confirmed), oo_LatestBlockHeight = h\<rparr>
        else Inl (OutObserver out_ErrBlockchainReceiptObserverFailed))"
proof -
  let ?asset = "trim_space (opi_AssetReference input)"
  have token: "(if ?asset \<noteq> [] then NormalizeEthereumAddress ?asset else Inr []) = Inr token"
    using asset by (auto simp: NormalizeEthereumAddress_def normalizeFixedHex_def split: if_splits)
  have ne: "?asset \<noteq> [] \<Longrightarrow> token \<noteq> []"
    using asset by (auto simp: NormalizeEthereumAddress_def elim!: normalizeFixedHex_normal
        split: if_splits sum.splits prod.splits)
  have "serves_balances codec server client (if ?asset = [] then [] else token) address bal"
    using node asset by auto
  from observe_balances_difference [OF this _ ne input(4,3)] show ?thesis
    using input client token by (simp add: Rpc_ObserveAddress_def time_is_zero_def Let_def)
qed

definition sample_rpc_text :: "json \<Rightarrow> string" where
  "sample_rpc_text v =
     (case v of JObj [_, _, _, (_, JArr [_, JStr block])] \<Rightarrow> block | _ \<Rightarrow> [])"

definition sample_rpc_reply :: "string \<Rightarrow> json" where
  "sample_rpc_reply q = JObj [(''jsonrpc'', JStr ''2.0''), (''id'', JNum ''1''), (''result'', JStr q)]"

definition sample_rpc_codec :: Codec where
  "sample_rpc_codec = \<lparr>json_text = sample_rpc_text, json_value = (\<lambda>s. None),
     json_first = (\<lambda>s. Some (sample_rpc_reply s, []))\<rparr>"

definition sample_node :: HttpServer where
  "sample_node n req = Some \<lparr>rp_Status = 200, rp_Body =
     (case big_of_hex (drop 2 (rq_Body req)) of
        None \<Rightarrow> [] | Some h \<Rightarrow> if 95 \<le> h then ''0x7'' else ''0x03'')\<rparr>"

definition sample_rpc_client :: RpcClient where
  "sample_rpc_client = \<lparr>erc_endpoint = ''http://n'', erc_username = [], erc_password = [],
     erc_timeout = 10000000000\<rparr>"

definition sample_balance :: "int64 \<Rightarrow> nat" where
  "sample_balance h = (if 95 \<le> sint h then 7 else 3)"

lemma sample_node_answers:
  "rpc_answers sample_rpc_codec sample_node sample_rpc_client ''eth_getBalance''
     [JStr address, JStr (encodeEthereumBlockNumber h)] (if 95 \<le> sint h then ''0x7'' else ''0x03'')"
proof -
  have "decode_rpc_response (sample_rpc_reply q) no_rpc_response =
      Some \<lparr>rr_JSONRPC = ''2.0'', rr_ID = Some (JNum ''1''), rr_Result = Some (JStr q), rr_Error = None\<rparr>" for q
    by (simp add: decode_rpc_response_def sample_rpc_reply_def no_rpc_response_def field_of_def
        struct_field_def decode_raw_def)
  then show ?thesis
    by (auto simp: rpc_answers_def sample_node_def rpc_request_def sample_rpc_codec_def sample_rpc_text_def
        encodeEthereumBlockNumber_def big_of_format_hex)
qed

lemma sample_node_serves:
  "serves_balances sample_rpc_codec sample_node sample_rpc_client [] address sample_balance"
proof -
  have "parse_hex_digits 0 (if 95 \<le> sint h then ''7'' else ''03'') = Some (sample_balance h)" for h
    by (simp add: sample_balance_def hex_value_def)
  moreover have "rpc_answers sample_rpc_codec sample_node sample_rpc_client ''eth_getBalance''
      [JStr address, JStr (encodeEthereumBlockNumber h)] (''0x'' @ (if 95 \<le> sint h then ''7'' else ''03''))" for h
    using sample_node_answers [of address h] by (simp split: if_splits)
  moreover have "(if 95 \<le> sint h then ''7'' else ''03'') \<noteq> []" for h :: int64
    by simp
  ultimately show ?thesis
    unfolding serves_balances_def balance_params_def by (intro allI impI exI conjI) (simp only: simp_thms if_True)
qed

definition sample_eth_input :: ObservePaymentAddressInput where
  "sample_eth_input = \<lparr>opi_AssetReference = [], opi_Network = ''sepolia'', opi_Address = sample_collector,
     opi_IssuedAt = 10, opi_ObservedTotalMinor = 0, opi_ConfirmedTotalMinor = 0,
     opi_UnconfirmedTotalMinor = 0, opi_RequiredConfirmations = 10, opi_LatestBlockHeight = 100,
     opi_SinceBlockHeight = 0\<rparr>"

lemma ethereum_observation_is_difference_witness:
  "Rpc_ObserveAddress sample_rpc_codec [(''sepolia'', sample_rpc_client)] sample_node sample_eth_input =
     Inr \<lparr>oo_ObservedTotalMinor = 7, oo_ConfirmedTotalMinor = 3, oo_UnconfirmedTotalMinor = 4,
          oo_LatestBlockHeight = 100\<rparr>"
proof -
  have "normalizeFixedHex (opi_Address sample_eth_input) 20 = Inr (sample_collector, replicate 20 (CHR 0x22))"
      "rpc_selectClient [(''sepolia'', sample_rpc_client)] (opi_Network sample_eth_input) = Inr sample_rpc_client"
    by code_simp+
  then show ?thesis
    using ethereum_observation_is_difference [of sample_eth_input sample_collector "replicate 20 (CHR 0x22)"
        "[]" "[(''sepolia'', sample_rpc_client)]" sample_rpc_client sample_rpc_codec sample_node sample_balance]
      sample_node_serves [of sample_collector]
    by (simp add: sample_eth_input_def sample_balance_def)
qed

end
