(* ===== verification/Bitcoin_Issuance.thy ===== *)
theory Bitcoin_Issuance
  imports Ethereum_Issuance Bitcoin_Observer
begin

text \<open>
  Issuing Bitcoin addresses, \<open>adapters/outbound/bitcoin\<close> (\<open>address_scheme.go\<close>,
  \<open>hd_xpub_address_deriver.go\<close>, \<open>chain_address_deriver.go\<close>, \<open>issued_payment_address_deriver.go\<close>,
  \<open>sweep_material.go\<close>). The keys of BIP-32 and the encoding of addresses are the work of the btcd
  library: a record of functions over an abstract type of extended keys and one of public keys.
  The lemmas show that the derivation path that is stored leads to the key of the address.
\<close>

section \<open>The library and the deriver on it\<close>

datatype ChainParams = MainNetParams | TestNet4Params

record ('k, 'p) HdLibrary =
  hd_NewKeyFromString :: "string \<Rightarrow> 'k option"
  hd_Depth :: "'k \<Rightarrow> uint8"
  hd_ChildIndex :: "'k \<Rightarrow> uint32"
  hd_Derive :: "'k \<Rightarrow> uint32 \<Rightarrow> 'k option"
  hd_ECPubKey :: "'k \<Rightarrow> 'p option"

text \<open>An encoder gives the address as text. The registry is built from the list of encoders.\<close>

type_synonym 'p AddressEncoder = "'p \<Rightarrow> ChainParams \<Rightarrow> string option"

definition NewHDXPubAddressDeriver :: "(string \<times> 'p AddressEncoder) list \<Rightarrow> (string \<rightharpoonup> 'p AddressEncoder)" where
  "NewHDXPubAddressDeriver encoders =
     fold (\<lambda>(scheme, encoder) registry. registry(scheme \<mapsto> encoder)) encoders Map.empty"

definition parseAddressScheme :: "string \<Rightarrow> string option" where
  "parseAddressScheme raw =
     map_of [(''legacy'', ''legacy''), (''segwit'', ''segwit''), (''nativesegwit'', ''nativeSegwit''),
             (''taproot'', ''taproot'')] (to_lower (trim_space raw))"

definition networkParams :: "string \<Rightarrow> ChainParams option" where
  "networkParams network =
     (if network = ''mainnet'' then Some MainNetParams
      else if network = ''testnet4'' then Some TestNet4Params else None)"

definition deriveAddressExtendedKey :: "('k, 'p) HdLibrary \<Rightarrow> 'k \<Rightarrow> uint32 \<Rightarrow> 'k option" where
  "deriveAddressExtendedKey lib extendedKey index =
     (case (if hd_Depth lib extendedKey \<le> 3 then hd_Derive lib extendedKey 0 else Some extendedKey) of
        None \<Rightarrow> None
      | Some derivationKey \<Rightarrow> hd_Derive lib derivationKey index)"

definition Hd_DeriveAddress ::
  "('k, 'p) HdLibrary \<Rightarrow> (string \<rightharpoonup> 'p AddressEncoder) \<Rightarrow> string \<Rightarrow> string \<Rightarrow> string \<Rightarrow> uint32 \<Rightarrow> string result" where
  "Hd_DeriveAddress lib encoders network scheme xpub index =
     (case networkParams network of
        None \<Rightarrow> Inl ErrOther
      | Some params \<Rightarrow>
     (case hd_NewKeyFromString lib xpub of
        None \<Rightarrow> Inl ErrOther
      | Some extendedKey \<Rightarrow>
     (case deriveAddressExtendedKey lib extendedKey index of
        None \<Rightarrow> Inl ErrOther
      | Some childKey \<Rightarrow>
     (case hd_ECPubKey lib childKey of
        None \<Rightarrow> Inl ErrOther
      | Some publicKey \<Rightarrow>
     (case encoders scheme of
        None \<Rightarrow> Inl ErrOther
      | Some encoder \<Rightarrow>
     (case encoder publicKey params of
        None \<Rightarrow> Inl ErrOther
      | Some address \<Rightarrow> Inr address))))))"

definition ValidateXPub :: "('k, 'p) HdLibrary \<Rightarrow> string \<Rightarrow> unit result" where
  "ValidateXPub lib xpub =
     (let trimmed = trim_space xpub
      in if trimmed = [] then Inl ErrOther
         else if hd_NewKeyFromString lib trimmed = None then Inl ErrOther else Inr ())"

definition HardenedKeyStart :: uint32 where
  "HardenedKeyStart = 0x80000000"

definition formatDerivationPathIndex :: "uint32 \<Rightarrow> string" where
  "formatDerivationPathIndex index =
     (if HardenedKeyStart \<le> index then format_nat (unat (index - HardenedKeyStart)) @ [CHR 0x27]
      else format_nat (unat index))"

definition relativeDerivationPath :: "('k, 'p) HdLibrary \<Rightarrow> 'k \<Rightarrow> uint32 \<Rightarrow> string" where
  "relativeDerivationPath lib extendedKey index =
     (if hd_Depth lib extendedKey \<le> 3 then ''0/'' @ format_nat (unat index)
      else if hd_Depth lib extendedKey = 4
        then formatDerivationPathIndex (hd_ChildIndex lib extendedKey) @ ''/'' @ format_nat (unat index)
      else format_nat (unat index))"

definition Hd_DerivationPath :: "('k, 'p) HdLibrary \<Rightarrow> string \<Rightarrow> uint32 \<Rightarrow> string result" where
  "Hd_DerivationPath lib xpub index =
     (case hd_NewKeyFromString lib xpub of
        None \<Rightarrow> Inl ErrOther
      | Some extendedKey \<Rightarrow> Inr (relativeDerivationPath lib extendedKey index))"

definition normalizedIssuanceRefPrefix :: "string \<Rightarrow> string result" where
  "normalizedIssuanceRefPrefix raw =
     (let trimmed = trim_suffix (trim_space raw) ''/''
      in if trimmed = [] then Inl ErrOther
         else if \<not> has_prefix trimmed ''m/'' then Inl ErrOther
         else Inr trimmed)"

fun join_with :: "string \<Rightarrow> string list \<Rightarrow> string" where
  "join_with sep [] = []"
| "join_with sep [w] = w"
| "join_with sep (w # v # ws) = w @ sep @ join_with sep (v # ws)"

definition replaceAccountPathSegment :: "string \<Rightarrow> string \<Rightarrow> string result" where
  "replaceAccountPathSegment prefix accountSegment =
     (let segments = split_on (CHR ''/'') prefix
      in if length segments < 4 then Inl ErrOther
         else Inr (join_with ''/'' (segments[length segments - 1 := accountSegment])))"

definition Hd_AbsoluteDerivationPath ::
  "('k, 'p) HdLibrary \<Rightarrow> string \<Rightarrow> string \<Rightarrow> uint32 \<Rightarrow> string result" where
  "Hd_AbsoluteDerivationPath lib xpub derivationPathPrefix index =
     (case hd_NewKeyFromString lib xpub of
        None \<Rightarrow> Inl ErrOther
      | Some extendedKey \<Rightarrow>
     (case normalizedIssuanceRefPrefix derivationPathPrefix of
        Inl err \<Rightarrow> Inl err
      | Inr prefix0 \<Rightarrow>
     (case (if hd_Depth lib extendedKey = 3
            then replaceAccountPathSegment prefix0 (formatDerivationPathIndex (hd_ChildIndex lib extendedKey))
            else Inr prefix0) of
        Inl err \<Rightarrow> Inl err
      | Inr prefix \<Rightarrow> Inr (prefix @ ''/'' @ relativeDerivationPath lib extendedKey index))))"

section \<open>The chain and the issued-address deriver\<close>

definition DeriveHdAddress ::
  "(('k, 'p) HdLibrary \<times> (string \<rightharpoonup> 'p AddressEncoder)) option \<Rightarrow> DeriveChainAddressInput
     \<Rightarrow> DeriveChainAddressOutput result" where
  "DeriveHdAddress deriver input =
     (case deriver of
        None \<Rightarrow> Inl (OutChainDeriver out_ErrChainAddressDeriverNotConfigured)
      | Some (lib, encoders) \<Rightarrow>
     if dci_Chain input \<noteq> ''bitcoin'' then Inl (OutChainDeriver out_ErrChainAddressDerivationInputInvalid)
     else
     (case parseNetwork (dci_Network input) of
        None \<Rightarrow> Inl (OutChainDeriver out_ErrChainAddressDerivationInputInvalid)
      | Some network \<Rightarrow>
     (case parseAddressScheme (dci_Scheme input) of
        None \<Rightarrow> Inl (OutChainDeriver out_ErrChainAddressDerivationInputInvalid)
      | Some scheme \<Rightarrow>
     (case Hd_DeriveAddress lib encoders network scheme (dci_AddressSpaceRef input) (dci_SlotIndex input) of
        Inl _ \<Rightarrow> Inl (OutChainDeriver out_ErrChainAddressDerivationFailed)
      | Inr address \<Rightarrow>
     (case Hd_AbsoluteDerivationPath lib (dci_AddressSpaceRef input) (dci_IssuanceRefPrefix input)
             (dci_SlotIndex input) of
        Inl _ \<Rightarrow> Inl (OutChainDeriver out_ErrChainAddressDerivationFailed)
      | Inr absoluteDerivationPath \<Rightarrow>
     (case Hd_DerivationPath lib (dci_AddressSpaceRef input) (dci_SlotIndex input) of
        Inl _ \<Rightarrow> Inl (OutChainDeriver out_ErrChainAddressDerivationFailed)
      | Inr relativePath \<Rightarrow>
          Inr \<lparr>dco_Address = address, dco_RelativeIssuanceRef = relativePath,
               dco_IssuanceRefKind = ''hd_path_absolute'', dco_IssuanceRef = absoluteDerivationPath\<rparr>))))))"

definition bitcoin_buildSweepMaterialJSON ::
  "Codec \<Rightarrow> string \<Rightarrow> string \<Rightarrow> string \<Rightarrow> string \<Rightarrow> string \<Rightarrow> string \<Rightarrow> string" where
  "bitcoin_buildSweepMaterialJSON codec chain network address hdDerivationPath accountXPub scriptType =
     json_text codec (JObj [(''material_type'', JStr ''bitcoin_hd''), (''material_version'', JNum ''1''),
       (''chain'', JStr chain), (''network'', JStr network), (''address'', JStr address),
       (''hd_derivation_path'', JStr hdDerivationPath), (''account_xpub'', JStr accountXPub),
       (''script_type'', JStr scriptType)])"

text \<open>The outer option is the chain address deriver, the inner one its address deriver.\<close>

definition bitcoin_DeriveIssuedAddress ::
  "Codec \<Rightarrow> (('k, 'p) HdLibrary \<times> (string \<rightharpoonup> 'p AddressEncoder)) option option
     \<Rightarrow> AddressIssuancePolicyRecord \<Rightarrow> PaymentAddressAllocationRecord \<Rightarrow> DeriveOutput result" where
  "bitcoin_DeriveIssuedAddress codec chainDeriver policy allocation =
     (case chainDeriver of
        None \<Rightarrow> Inl (OutIssuedDeriver out_ErrIssuedPaymentAddressDeriverNotConfigured)
      | Some deriver \<Rightarrow>
     (case DeriveHdAddress deriver
             \<lparr>dci_Chain = ipr_Chain policy, dci_Network = ipr_Network policy,
              dci_Scheme = ipr_Scheme policy, dci_AddressSpaceRef = ipr_AddressSpaceRef policy,
              dci_IssuanceRefPrefix = ipr_IssuanceRefPrefix policy, dci_RelativeIssuanceRef = [],
              dci_SlotIndex = ar_SlotIndex allocation\<rparr> of
        Inl err \<Rightarrow> Inl (chain_deriver_failure err)
      | Inr out \<Rightarrow>
          Inr \<lparr>do_Address = dco_Address out, do_IssuanceRefKind = dco_IssuanceRefKind out,
               do_IssuanceRef = dco_IssuanceRef out,
               do_SweepMaterial = bitcoin_buildSweepMaterialJSON codec (ipr_Chain policy)
                 (ipr_Network policy) (dco_Address out) (dco_IssuanceRef out)
                 (ipr_AddressSpaceRef policy) (ipr_Scheme policy)\<rparr>))"

definition bitcoin_deriver ::
  "Codec \<Rightarrow> ('k, 'p) HdLibrary \<Rightarrow> (string \<rightharpoonup> 'p AddressEncoder) \<Rightarrow> ChainSpecificDeriver" where
  "bitcoin_deriver codec lib encoders =
     \<lparr>csd_Chain = ''bitcoin'',
      csd_DeriveIssuedAddress = bitcoin_DeriveIssuedAddress codec (Some (Some (lib, encoders)))\<rparr>"

section \<open>Paths lead to keys\<close>

text \<open>
  Reading a path as BIP-32 writes it: the steps between the slashes, a step with an apostrophe
  hardened; and following it from a key.
\<close>

definition parse_path_index :: "string \<Rightarrow> uint32 option" where
  "parse_path_index s =
     (if s \<noteq> [] \<and> last s = CHR 0x27
      then map_option (\<lambda>n. of_nat n + HardenedKeyStart) (parse_digits 0 (butlast s))
      else map_option of_nat (parse_digits 0 s))"

fun derive_steps :: "('k, 'p) HdLibrary \<Rightarrow> string list \<Rightarrow> 'k \<Rightarrow> 'k option" where
  "derive_steps lib [] key = Some key"
| "derive_steps lib (w # ws) key =
     Option.bind (parse_path_index w) (\<lambda>i. Option.bind (hd_Derive lib key i) (derive_steps lib ws))"

definition follow_path :: "('k, 'p) HdLibrary \<Rightarrow> string \<Rightarrow> 'k \<Rightarrow> 'k option" where
  "follow_path lib path key = derive_steps lib (split_on (CHR ''/'') path) key"

lemma format_nat_plain: "CHR ''/'' \<notin> set (format_nat n) \<and> CHR 0x27 \<notin> set (format_nat n)"
  using format_nat_digits [of "CHR ''/''" n] format_nat_digits [of "CHR 0x27" n] by auto

lemma parse_format_plain: "parse_path_index (format_nat (unat (i :: uint32))) = Some i"
proof -
  have "last (format_nat (unat i)) \<in> set (format_nat (unat i))"
    by simp
  then have "last (format_nat (unat i)) \<noteq> CHR 0x27"
    using format_nat_plain by metis
  then show ?thesis
    by (simp add: parse_path_index_def parse_format_nat)
qed

lemma parse_format_index: "parse_path_index (formatDerivationPathIndex i) = Some i"
proof (cases "HardenedKeyStart \<le> i")
  case True
  then show ?thesis
    by (simp add: formatDerivationPathIndex_def parse_path_index_def parse_format_nat)
next
  case False
  then show ?thesis
    by (simp add: formatDerivationPathIndex_def parse_format_plain)
qed

lemma formatDerivationPathIndex_plain: "CHR ''/'' \<notin> set (formatDerivationPathIndex i)"
  using format_nat_plain by (simp add: formatDerivationPathIndex_def)

lemma derive_steps_Nil: "derive_steps lib [] = Some"
  by (simp add: fun_eq_iff)

text \<open>From an account key, the relative path leads to the derived key.\<close>

lemma follow_account:
  assumes "hd_Depth lib key \<le> 3"
  shows "follow_path lib (relativeDerivationPath lib key i) key = deriveAddressExtendedKey lib key i"
proof -
  have "split_on (CHR ''/'') (''0/'' @ format_nat (unat i)) = [''0'', format_nat (unat i)]"
    using split_on_sep [of "CHR ''/''" "''0''" "format_nat (unat i)"] split_on_none format_nat_plain
    by simp
  moreover have "parse_path_index ''0'' = Some 0"
    by (simp add: parse_path_index_def char_digit_def)
  ultimately show ?thesis
    using assms parse_format_plain [of i]
    by (auto simp: follow_path_def relativeDerivationPath_def deriveAddressExtendedKey_def
        derive_steps_Nil split: option.split)
qed

text \<open>A key below the account: the path starts at the account.\<close>

lemma follow_branch:
  assumes "hd_Depth lib key = 4" and "hd_Derive lib account (hd_ChildIndex lib key) = Some key"
  shows "follow_path lib (relativeDerivationPath lib key i) account = deriveAddressExtendedKey lib key i"
proof -
  have "split_on (CHR ''/'') (formatDerivationPathIndex (hd_ChildIndex lib key) @ ''/'' @ format_nat (unat i)) =
      [formatDerivationPathIndex (hd_ChildIndex lib key), format_nat (unat i)]"
    using split_on_sep [OF formatDerivationPathIndex_plain] split_on_none format_nat_plain by simp
  then show ?thesis
    using assms parse_format_plain [of i] parse_format_index
    by (simp add: follow_path_def relativeDerivationPath_def deriveAddressExtendedKey_def derive_steps_Nil)
qed

text \<open>The absolute path: the prefix up to the account, the account's own index, the relative path.\<close>

lemma split_on_words: "w \<in> set (split_on sep s) \<Longrightarrow> sep \<notin> set w"
  by (induction s arbitrary: w) (auto split: if_splits list.splits)

lemma split_on_not_Nil [simp]: "split_on sep s \<noteq> []"
  by (induction s) (auto split: list.splits)

lemma split_on_join:
  "ws \<noteq> [] \<Longrightarrow> (\<And>w. w \<in> set ws \<Longrightarrow> sep \<notin> set w) \<Longrightarrow>
     split_on sep (join_with [sep] ws @ sep # s) = ws @ split_on sep s"
proof (induction "[sep]" ws rule: join_with.induct)
  case (2 w)
  then show ?case by (simp add: split_on_sep)
next
  case (3 w v ws)
  then show ?case by (simp add: split_on_sep)
qed simp

lemma derive_steps_append:
  "derive_steps lib (us @ vs) key = Option.bind (derive_steps lib us key) (derive_steps lib vs)"
proof (induction us arbitrary: key)
  case (Cons w us)
  then show ?case
    by (cases "parse_path_index w"; cases "hd_Derive lib key (the (parse_path_index w))") simp_all
qed simp

lemma update_last: "xs \<noteq> [] \<Longrightarrow> xs[length xs - 1 := a] = butlast xs @ [a]"
  by (cases xs rule: rev_cases) simp_all

lemma absolute_path_segments:
  assumes p: "has_prefix prefix ''m/''" and r: "replaceAccountPathSegment prefix account = Inr prefix'"
    and account: "CHR ''/'' \<notin> set account"
  shows "split_on (CHR ''/'') (drop 2 (prefix' @ ''/'' @ rest)) =
    butlast (tl (split_on (CHR ''/'') prefix)) @ account # split_on (CHR ''/'') rest"
proof -
  let ?segs = "split_on (CHR ''/'') prefix"
  have t: "take 2 prefix = ''m/''"
    using p by (simp add: has_prefix_def numeral_2_eq_2)
  have "prefix = take 2 prefix @ drop 2 prefix"
    by (rule append_take_drop_id [symmetric])
  then have "prefix = ''m/'' @ drop 2 prefix"
    unfolding t .
  then obtain q where q: "prefix = ''m'' @ CHR ''/'' # q"
    by (metis append_Cons append_Nil)
  have segs: "?segs = ''m'' # split_on (CHR ''/'') q"
    unfolding q by (rule split_on_sep) simp
  have len: "4 \<le> length ?segs" and p': "prefix' = join_with ''/'' (?segs[length ?segs - 1 := account])"
    using r by (auto simp: replaceAccountPathSegment_def Let_def split: if_splits)
  let ?mid = "butlast (split_on (CHR ''/'') q)"
  have "?segs[length ?segs - 1 := account] = butlast ?segs @ [account]"
    by (rule update_last) simp
  then have upd: "?segs[length ?segs - 1 := account] = ''m'' # ?mid @ [account]"
    by (simp add: segs)
  have "join_with ''/'' (''m'' # ?mid @ [account]) = ''m/'' @ join_with ''/'' (?mid @ [account])"
    by (cases "?mid @ [account]") auto
  then have "prefix' = ''m/'' @ join_with ''/'' (?mid @ [account])"
    by (simp only: p' upd)
  then have "drop 2 (prefix' @ ''/'' @ rest) = join_with ''/'' (?mid @ [account]) @ CHR ''/'' # rest"
    by simp
  moreover have "CHR ''/'' \<notin> set w" if "w \<in> set (?mid @ [account])" for w
    using that account split_on_words by (auto dest: in_set_butlastD)
  ultimately show ?thesis
    using split_on_join [of "?mid @ [account]" "CHR ''/''" rest] by (simp add: segs)
qed

end
