(* ===== verification/Hd_Properties.thy ===== *)
theory Hd_Properties
  imports Bitcoin_Issuance
begin

text \<open>
  The property of Bitcoin issuance: the derivation path that is stored with an address leads, from
  the wallet's master key, to the key the address encodes.
\<close>









end
