(* ===== verification/Cf_Executor.thy ===== *)
theory Cf_Executor
  imports Complex_Main Allocation_Store Idempotency_Store Tracking_Store Outbox_Store Status_Finder
begin

text \<open>
  How the Cloudflare build reaches its database: the values of
  \<open>adapters/outbound/persistence/cloudflarepostgres/scan.go\<close> with their reading into variables, the
  executor of \<open>executor.go\<close>, the unit of work, and the bridge of
  \<open>internal/infrastructure/cloudflarepostgres\<close> with the conversions of \<open>js_bridge_js_wasm.go\<close>. The
  bridge is a record of functions on a state of any type. A query is named by a constructor that
  stands for its text. Parsing of times and the text of a number that is not an integer are
  parameters; the conversion of a number to an integer is exact, as for numbers of 64 bits.
\<close>

section \<open>Values and their reading\<close>

datatype go_value =
    GoNil
  | GoText string
  | GoBytes string
  | GoInt int64
  | GoInt32 int32
  | GoInt64 int64
  | GoFloat rat
  | GoBool bool
  | GoTime gotime

record ScanLib =
  scl_ParseTime :: "string \<Rightarrow> string \<Rightarrow> gotime option"
  scl_FormatFloat :: "rat \<Rightarrow> string"

definition rat_integral :: "rat \<Rightarrow> bool" where
  "rat_integral x \<longleftrightarrow> of_int \<lfloor>x\<rfloor> = x"

definition asString :: "ScanLib \<Rightarrow> go_value \<Rightarrow> string result" where
  "asString lib value =
     (case value of
        GoText typed \<Rightarrow> Inr typed
      | GoBytes typed \<Rightarrow> Inr typed
      | GoInt typed \<Rightarrow> Inr (format_int typed)
      | GoInt32 typed \<Rightarrow> Inr (format_int (scast typed))
      | GoInt64 typed \<Rightarrow> Inr (format_int typed)
      | GoFloat typed \<Rightarrow>
          Inr (if rat_integral typed then format_int (word_of_int \<lfloor>typed\<rfloor>)
               else scl_FormatFloat lib typed)
      | GoBool typed \<Rightarrow> Inr (if typed then ''true'' else ''false'')
      | _ \<Rightarrow> Inl ErrOther)"

definition asInt64 :: "go_value \<Rightarrow> int64 result" where
  "asInt64 value =
     (case value of
        GoInt typed \<Rightarrow> Inr typed
      | GoInt32 typed \<Rightarrow> Inr (scast typed)
      | GoInt64 typed \<Rightarrow> Inr typed
      | GoFloat typed \<Rightarrow> if rat_integral typed then Inr (word_of_int \<lfloor>typed\<rfloor>) else Inl ErrOther
      | GoText typed \<Rightarrow> (case parse_int64 typed of None \<Rightarrow> Inl ErrOther | Some number \<Rightarrow> Inr number)
      | _ \<Rightarrow> Inl ErrOther)"

definition time_formats :: "string list" where
  "time_formats =
     [''2006-01-02T15:04:05.999999999Z07:00'', ''2006-01-02T15:04:05Z07:00'',
      ''2006-01-02 15:04:05.999999999Z07:00'', ''2006-01-02 15:04:05Z07:00'']"

definition asTime :: "ScanLib \<Rightarrow> go_value \<Rightarrow> gotime result" where
  "asTime lib value =
     (case value of
        GoTime typed \<Rightarrow> Inr typed
      | GoText typed \<Rightarrow>
          (case List.map_filter (\<lambda>format. scl_ParseTime lib format typed) time_formats of
             [] \<Rightarrow> Inl ErrOther
           | parsed # _ \<Rightarrow> Inr parsed)
      | _ \<Rightarrow> Inl ErrOther)"

text \<open>The destination of a column and what is in the variable after the scan.\<close>

datatype dest =
  ToString | ToInt64 | ToInt32 | ToNullString | ToNullInt64 | ToNullInt32 | ToNullTime | ToTime | ToTimePointer

datatype scanned =
    ScString (sc_string: string)
  | ScInt64 (sc_int64: int64)
  | ScInt32 (sc_int32: int32)
  | ScNullString (sc_null_string: "string option")
  | ScNullInt64 (sc_null_int64: "int64 option")
  | ScNullInt32 (sc_null_int32: "int32 option")
  | ScNullTime (sc_null_time: "gotime option")
  | ScTime (sc_time: gotime)
  | ScTimePointer (sc_time_pointer: "gotime option")

definition if_null :: "'b \<Rightarrow> ('a \<Rightarrow> 'b) \<Rightarrow> (go_value \<Rightarrow> 'a result) \<Rightarrow> go_value \<Rightarrow> 'b result" where
  "if_null null found read value =
     (if value = GoNil then Inr null
      else case read value of Inl err \<Rightarrow> Inl err | Inr x \<Rightarrow> Inr (found x))"

fun assignValue :: "ScanLib \<Rightarrow> dest \<Rightarrow> go_value \<Rightarrow> scanned result" where
  "assignValue lib ToString value = if_null (ScString []) ScString (asString lib) value"
| "assignValue lib ToInt64 value =
     (case asInt64 value of Inl err \<Rightarrow> Inl err | Inr number \<Rightarrow> Inr (ScInt64 number))"
| "assignValue lib ToInt32 value =
     (case asInt64 value of Inl err \<Rightarrow> Inl err | Inr number \<Rightarrow> Inr (ScInt32 (ucast number)))"
| "assignValue lib ToNullString value =
     if_null (ScNullString None) (\<lambda>text. ScNullString (Some text)) (asString lib) value"
| "assignValue lib ToNullInt64 value =
     if_null (ScNullInt64 None) (\<lambda>number. ScNullInt64 (Some number)) asInt64 value"
| "assignValue lib ToNullInt32 value =
     if_null (ScNullInt32 None) (\<lambda>number. ScNullInt32 (Some (ucast number))) asInt64 value"
| "assignValue lib ToNullTime value =
     if_null (ScNullTime None) (\<lambda>timestamp. ScNullTime (Some timestamp)) (asTime lib) value"
| "assignValue lib ToTime value = if_null (ScTime 0) ScTime (asTime lib) value"
| "assignValue lib ToTimePointer value =
     if_null (ScTimePointer None) (\<lambda>timestamp. ScTimePointer (Some timestamp)) (asTime lib) value"

definition scanValues :: "ScanLib \<Rightarrow> go_value list \<Rightarrow> dest list \<Rightarrow> scanned list result" where
  "scanValues lib values dests =
     (if length values \<noteq> length dests then Inl ErrOther
      else map_results (\<lambda>(d, value). assignValue lib d value) (zip dests values))"

section \<open>The bridge and the executor\<close>

text \<open>The queries of the stores; the placeholders of a claim of trackings are part of its text.\<close>

datatype query =
    QSelectIssued | QCompleteAllocation | QMarkDerivationFailed | QSelectFailed | QReopen
  | QEnsureCursor | QSelectCursor | QInsertAllocation | QAdvanceCursor
  | QSelectKey | QInsertKey | QCompleteKey | QDeleteKey
  | QInsertTracking | QClaimTrackings string nat nat | QSaveTracking
  | QEnqueue | QClaimNotifications | QSaveSent | QSavePending | QSaveFailed
  | QSelectStatus

text \<open>
  The errors of a query: a \<open>QueryError\<close> with its code and constraint, \<open>sql.ErrNoRows\<close>, any other.
\<close>

datatype cf_error = QueryError string string | ErrNoRows | CfOther

definition isUniqueViolation :: "cf_error \<Rightarrow> string \<Rightarrow> bool" where
  "isUniqueViolation err constraint =
     (case err of QueryError code c \<Rightarrow> code = ''23505'' \<and> c = constraint | _ \<Rightarrow> False)"

record 's PgBridge =
  pgb_BeginTx :: "string \<Rightarrow> 's \<Rightarrow> (cf_error + string) \<times> 's"
  pgb_CommitTx :: "string \<Rightarrow> string \<Rightarrow> 's \<Rightarrow> (cf_error + unit) \<times> 's"
  pgb_RollbackTx :: "string \<Rightarrow> string \<Rightarrow> 's \<Rightarrow> (cf_error + unit) \<times> 's"
  pgb_Exec :: "string \<Rightarrow> string \<Rightarrow> query \<Rightarrow> go_value list \<Rightarrow> 's \<Rightarrow> (cf_error + nat) \<times> 's"
  pgb_Query :: "string \<Rightarrow> string \<Rightarrow> query \<Rightarrow> go_value list \<Rightarrow> 's \<Rightarrow> (cf_error + go_value list list) \<times> 's"
  pgb_QueryRow :: "string \<Rightarrow> string \<Rightarrow> query \<Rightarrow> go_value list \<Rightarrow> 's \<Rightarrow> (cf_error + go_value list option) \<times> 's"

record 's bridgeExecutor =
  bex_bridge :: "'s PgBridge option"
  bex_bridgeID :: string
  bex_txID :: string

definition NewExecutor :: "string \<Rightarrow> 's PgBridge option \<Rightarrow> 's bridgeExecutor" where
  "NewExecutor bridgeID bridge = \<lparr>bex_bridge = bridge, bex_bridgeID = bridgeID, bex_txID = []\<rparr>"

definition newTxExecutor :: "string \<Rightarrow> string \<Rightarrow> 's PgBridge option \<Rightarrow> 's bridgeExecutor" where
  "newTxExecutor bridgeID txID bridge = \<lparr>bex_bridge = bridge, bex_bridgeID = bridgeID, bex_txID = txID\<rparr>"

definition ExecContext :: "'s bridgeExecutor \<Rightarrow> query \<Rightarrow> go_value list \<Rightarrow> 's \<Rightarrow> (cf_error + nat) \<times> 's" where
  "ExecContext e q args s =
     (case bex_bridge e of
        None \<Rightarrow> (Inl CfOther, s)
      | Some bridge \<Rightarrow> pgb_Exec bridge (bex_bridgeID e) (bex_txID e) q args s)"

definition QueryContext ::
  "'s bridgeExecutor \<Rightarrow> query \<Rightarrow> go_value list \<Rightarrow> 's \<Rightarrow> (cf_error + go_value list list) \<times> 's" where
  "QueryContext e q args s =
     (case bex_bridge e of
        None \<Rightarrow> (Inl CfOther, s)
      | Some bridge \<Rightarrow> pgb_Query bridge (bex_bridgeID e) (bex_txID e) q args s)"

text \<open>An \<open>errorRow\<close> is an error, a \<open>valueRow\<close> its values.\<close>

definition QueryRowContext ::
  "'s bridgeExecutor \<Rightarrow> query \<Rightarrow> go_value list \<Rightarrow> 's \<Rightarrow> (cf_error + go_value list) \<times> 's" where
  "QueryRowContext e q args s =
     (case bex_bridge e of
        None \<Rightarrow> (Inl CfOther, s)
      | Some bridge \<Rightarrow>
          (case pgb_QueryRow bridge (bex_bridgeID e) (bex_txID e) q args s of
             (Inl err, s1) \<Rightarrow> (Inl err, s1)
           | (Inr None, s1) \<Rightarrow> (Inl ErrNoRows, s1)
           | (Inr (Some row), s1) \<Rightarrow> (Inr row, s1)))"

definition row_Scan :: "ScanLib \<Rightarrow> cf_error + go_value list \<Rightarrow> dest list \<Rightarrow> cf_error + scanned list" where
  "row_Scan lib row dests =
     (case row of
        Inl err \<Rightarrow> Inl err
      | Inr values \<Rightarrow> (case scanValues lib values dests of Inl _ \<Rightarrow> Inl CfOther | Inr xs \<Rightarrow> Inr xs))"

text \<open>
  The rows of a query: \<open>Next\<close> asks for one more, \<open>Scan\<close> reads the one at the index and moves on. The
  loop of the stores hands each row to its \<open>scan\<close> function; no error is left to \<open>Err\<close>.
\<close>

record sliceRows =
  slr_rows :: "go_value list list"
  slr_idx :: nat

definition sliceRows_Next :: "sliceRows \<Rightarrow> bool" where
  "sliceRows_Next r \<longleftrightarrow> slr_idx r < length (slr_rows r)"

definition sliceRows_Scan ::
  "(go_value list \<Rightarrow> 'a result) \<Rightarrow> 'a result \<Rightarrow> sliceRows \<Rightarrow> 'a result \<times> sliceRows" where
  "sliceRows_Scan scan noRows r =
     (if length (slr_rows r) \<le> slr_idx r then (noRows, r)
      else (scan (slr_rows r ! slr_idx r), r\<lparr>slr_idx := slr_idx r + 1\<rparr>))"

function read_rows :: "(go_value list \<Rightarrow> 'a result) \<Rightarrow> sliceRows \<Rightarrow> 'a list result" where
  "read_rows scan r =
     (if \<not> sliceRows_Next r then Inr []
      else (case sliceRows_Scan scan (Inl ErrOther) r of
          (Inl err, _) \<Rightarrow> Inl err
        | (Inr x, r1) \<Rightarrow> (case read_rows scan r1 of Inl err \<Rightarrow> Inl err | Inr xs \<Rightarrow> Inr (x # xs))))"
  by pat_completeness auto
termination
  by (relation "measure (\<lambda>(scan, r). length (slr_rows r) - slr_idx r)")
    (auto simp: sliceRows_Next_def sliceRows_Scan_def)

declare read_rows.simps [simp del]

text \<open>The loop reads every row, in order, up to the first that cannot be read.\<close>

lemma read_rows_drop: "read_rows scan r = map_results scan (drop (slr_idx r) (slr_rows r))"
proof (induction scan r rule: read_rows.induct)
  case (1 scan r)
  show ?case
  proof (cases "sliceRows_Next r")
    case True
    then have d: "drop (slr_idx r) (slr_rows r) = slr_rows r ! slr_idx r # drop (slr_idx r + 1) (slr_rows r)"
      by (simp add: sliceRows_Next_def Cons_nth_drop_Suc)
    show ?thesis
      using "1.IH" True
      by (subst read_rows.simps) (auto simp: d sliceRows_Scan_def sliceRows_Next_def split: sum.split)
  qed (simp add: read_rows.simps [of scan r] sliceRows_Next_def)
qed

lemma read_rows_all [simp]: "read_rows scan \<lparr>slr_rows = rows, slr_idx = 0\<rparr> = map_results scan rows"
  by (simp add: read_rows_drop)

section \<open>Arguments of a query\<close>

definition sql_null :: "string option \<Rightarrow> go_value" where
  "sql_null v = (case v of None \<Rightarrow> GoNil | Some s \<Rightarrow> GoText s)"

definition cf_nullIfEmpty :: "string \<Rightarrow> go_value" where
  "cf_nullIfEmpty value = (let trimmed = trim_space value in if trimmed = [] then GoNil else GoText trimmed)"

definition nullableTimePointer :: "gotime option \<Rightarrow> go_value" where
  "nullableTimePointer value = (case value of None \<Rightarrow> GoNil | Some t \<Rightarrow> GoTime t)"

fun join_strings :: "string \<Rightarrow> string list \<Rightarrow> string" where
  "join_strings sep [] = []"
| "join_strings sep [s] = s"
| "join_strings sep (s # t # ss) = s @ sep @ join_strings sep (t # ss)"

definition buildSequentialPlaceholders :: "nat \<Rightarrow> nat \<Rightarrow> string" where
  "buildSequentialPlaceholders start count =
     join_strings '', '' (map (\<lambda>i. ''$'' @ format_nat (start + i)) [0..<count])"

section \<open>The unit of work\<close>

definition Cf_WithinTransaction ::
  "string \<Rightarrow> 's PgBridge option \<Rightarrow> ('s bridgeExecutor \<Rightarrow> 's \<Rightarrow> 'a result \<times> 's) \<Rightarrow> 's \<Rightarrow> 'a result \<times> 's" where
  "Cf_WithinTransaction bridgeID bridge fn s =
     (case bridge of
        None \<Rightarrow> (Inl (OutUow out_ErrUnitOfWorkNotConfigured), s)
      | Some b \<Rightarrow>
          (case pgb_BeginTx b bridgeID s of
             (Inl _, s1) \<Rightarrow> (Inl (OutUow out_ErrUnitOfWorkFailed), s1)
           | (Inr txID, s1) \<Rightarrow>
               (case fn (newTxExecutor bridgeID txID bridge) s1 of
                  (Inl err, s2) \<Rightarrow>
                    (case pgb_RollbackTx b bridgeID txID s2 of
                       (Inl _, s3) \<Rightarrow> (Inl (OutUow out_ErrUnitOfWorkFailed), s3)
                     | (Inr _, s3) \<Rightarrow> (Inl err, s3))
                | (Inr x, s2) \<Rightarrow>
                    (case pgb_CommitTx b bridgeID txID s2 of
                       (Inl _, s3) \<Rightarrow> (Inl (OutUow out_ErrUnitOfWorkFailed), s3)
                     | (Inr _, s3) \<Rightarrow> (Inr x, s3)))))"

section \<open>The failure reasons of this build\<close>

definition cf_normalizePaymentReceiptTrackingFailureReason :: "string \<Rightarrow> string" where
  "cf_normalizePaymentReceiptTrackingFailureReason raw =
     (let normalized = to_lower (trim_space raw)
      in if normalized = [] then []
         else case NormalizePaymentReceiptTrackingFailureReason normalized of
             Some reason \<Rightarrow> reason
           | None \<Rightarrow>
               if normalized \<in> set [''receipt tracking is invalid'', ''issued at is required'']
                 then ''tracking_invalid''
               else if normalized \<in> set [''latest block height unavailable'', ''tip height timeout'']
                 then ''latest_block_height_unavailable''
               else if normalized \<in> set [''receipt observation failed'', ''rpc timeout'']
                 then ''observation_failed''
               else if normalized = ''receipt tracking update failed'' then ''tracking_update_failed''
               else if normalized = ''payment window expired'' then ''payment_window_expired''
               else ''processing_failed'')"

definition cf_normalizePaymentReceiptNotificationDeliveryFailureReason :: "string \<Rightarrow> string" where
  "cf_normalizePaymentReceiptNotificationDeliveryFailureReason raw =
     (let normalized = to_lower (trim_space raw)
      in if normalized = [] then []
         else case NormalizeDeliveryFailureReason normalized of
             Some reason \<Rightarrow> reason
           | None \<Rightarrow> DeliveryFailureReasonDeliveryFailed)"

definition cf_normalizePaymentAddressAllocationDerivationFailureReason :: "string \<Rightarrow> string" where
  "cf_normalizePaymentAddressAllocationDerivationFailureReason raw =
     (let normalized = to_lower (trim_space raw)
      in if normalized = [] then []
         else case NormalizeDerivationFailureReason normalized of
             Some reason \<Rightarrow> reason
           | None \<Rightarrow> ''derivation_failed'')"

lemma cf_normalize_reasons [simp]:
  "cf_normalizePaymentReceiptTrackingFailureReason = persistedTrackingFailureReason"
  "cf_normalizePaymentReceiptNotificationDeliveryFailureReason = persistedDeliveryFailureReason"
  "cf_normalizePaymentAddressAllocationDerivationFailureReason = persistedDerivationFailureReason"
  by (simp_all add: fun_eq_iff cf_normalizePaymentReceiptTrackingFailureReason_def
      persistedTrackingFailureReason_def cf_normalizePaymentReceiptNotificationDeliveryFailureReason_def
      persistedDeliveryFailureReason_def cf_normalizePaymentAddressAllocationDerivationFailureReason_def
      persistedDerivationFailureReason_def)

end
