(* ===== verification/Cf_Stores.thy ===== *)
theory Cf_Stores
  imports Cf_Executor
begin

text \<open>
  The stores of \<open>adapters/outbound/persistence/cloudflarepostgres\<close>: each method builds the arguments
  of its queries, runs them through the executor and reads the columns of the rows. A method works on
  whatever state the bridge has.
\<close>

section \<open>Allocations\<close>

definition issued_dests :: "dest list" where
  "issued_dests = [ToInt64, ToString, ToInt64, ToInt64, ToString, ToString, ToString, ToString, ToString,
     ToString, ToString]"

definition Cf_AllocationStore_FindIssuedByID ::
  "ScanLib \<Rightarrow> 's bridgeExecutor \<Rightarrow> int64 \<Rightarrow> 's \<Rightarrow> PaymentAddressAllocationRecord option result \<times> 's" where
  "Cf_AllocationStore_FindIssuedByID lib e inputID s =
     (if sint inputID \<le> 0 then (Inr None, s)
      else
        (let (row, s1) = QueryRowContext e QSelectIssued [GoInt64 inputID] s
         in case row_Scan lib row issued_dests of
             Inl err \<Rightarrow>
               if err = ErrNoRows then (Inr None, s1)
               else (Inl (OutAlloc out_ErrPaymentAddressAllocationStoreFailed), s1)
           | Inr v \<Rightarrow>
               (let slotIndex = sc_int64 (v ! 2)
                in if sint slotIndex < 0 \<or> maxSlotIndex < sint slotIndex
                     then (Inl (OutAlloc out_ErrAddressIndexExhausted), s1)
                   else case NormalizeSupportedChain (sc_string (v ! 5)) of
                       None \<Rightarrow> (Inl (OutAlloc out_ErrPaymentAddressAllocationPersistedChainInvalid), s1)
                     | Some chain \<Rightarrow>
                   (case NormalizeAddressPolicyID (sc_string (v ! 1)) of
                       None \<Rightarrow> (Inl (OutAlloc out_ErrPaymentAddressAllocationPersistedAddressPolicyIDInvalid), s1)
                     | Some parsedAddressPolicyID \<Rightarrow>
                   (case NormalizeNetworkID (sc_string (v ! 6)) of
                       None \<Rightarrow> (Inl (OutAlloc out_ErrPaymentAddressAllocationPersistedNetworkInvalid), s1)
                     | Some network \<Rightarrow>
                   (case NormalizeAddressScheme (sc_string (v ! 7)) of
                       None \<Rightarrow> (Inl (OutAlloc out_ErrPaymentAddressAllocationStoreFailed), s1)
                     | Some normalizedScheme \<Rightarrow>
                         (Inr (Some \<lparr>ar_PaymentAddressID = sc_int64 (v ! 0),
                            ar_AddressPolicyID = parsedAddressPolicyID,
                            ar_SlotIndex = ucast slotIndex,
                            ar_ExpectedAmountMinor = sc_int64 (v ! 3),
                            ar_CustomerReference = sc_string (v ! 4),
                            ar_Status = ''issued'', ar_Chain = chain, ar_Network = network,
                            ar_Scheme = normalizedScheme,
                            ar_AssetReference = trim_space (sc_string (v ! 8)),
                            ar_Address = trim_space (sc_string (v ! 9)),
                            ar_DerivationFailureReason =
                              cf_normalizePaymentAddressAllocationDerivationFailureReason (sc_string (v ! 10))\<rparr>),
                          s1)))))))"

text \<open>An update whose count of rows decides: an error, no row, or done.\<close>

definition rows_affected ::
  "go_error \<Rightarrow> go_error \<Rightarrow> (cf_error + nat) \<times> 's \<Rightarrow> unit result \<times> 's" where
  "rows_affected failed none r =
     (case r of
        (Inl _, s1) \<Rightarrow> (Inl failed, s1)
      | (Inr n, s1) \<Rightarrow> if n = 0 then (Inl none, s1) else (Inr (), s1))"

definition Cf_AllocationStore_Complete ::
  "'s bridgeExecutor \<Rightarrow> CompletePaymentAddressAllocationInput \<Rightarrow> 's \<Rightarrow> unit result \<times> 's" where
  "Cf_AllocationStore_Complete e input s =
     (if time_is_zero (cin_IssuedAt input)
        then (Inl (OutAlloc out_ErrPaymentAddressAllocationIssuedAtRequired), s)
      else
        (let sweepMaterialJSON = trim_space (cin_SweepMaterial input);
             a = cin_Allocation input;
             assetReference = trim_space (ar_AssetReference a)
         in if sweepMaterialJSON = []
              then (Inl (OutAlloc out_ErrPaymentAddressAllocationStoreFailed), s)
            else rows_affected (OutAlloc out_ErrPaymentAddressAllocationStoreFailed)
                   (OutAlloc out_ErrPaymentAddressAllocationNotReserved)
                   (ExecContext e QCompleteAllocation
                      [GoInt64 (ar_PaymentAddressID a), GoText (ar_Chain a), GoText (ar_Network a),
                       GoText (ar_Scheme a), GoText (trim_space (ar_Address a)), cf_nullIfEmpty assetReference,
                       GoText sweepMaterialJSON, GoTime (cin_IssuedAt input)] s)))"

definition Cf_AllocationStore_MarkDerivationFailed ::
  "'s bridgeExecutor \<Rightarrow> PaymentAddressAllocationRecord \<Rightarrow> 's \<Rightarrow> unit result \<times> 's" where
  "Cf_AllocationStore_MarkDerivationFailed e allocation s =
     rows_affected (OutAlloc out_ErrPaymentAddressAllocationStoreFailed)
       (OutAlloc out_ErrPaymentAddressAllocationNotReserved)
       (ExecContext e QMarkDerivationFailed
          [GoInt64 (ar_PaymentAddressID allocation), cf_nullIfEmpty (ar_DerivationFailureReason allocation)] s)"

definition cf_reserved_record ::
  "int64 \<Rightarrow> string \<Rightarrow> int64 \<Rightarrow> int64 \<Rightarrow> string \<Rightarrow> PaymentAddressAllocationRecord" where
  "cf_reserved_record pid policy slot expected customer =
     \<lparr>ar_PaymentAddressID = pid, ar_AddressPolicyID = policy, ar_SlotIndex = ucast slot,
      ar_ExpectedAmountMinor = expected, ar_CustomerReference = customer,
      ar_Status = PaymentAddressAllocationStatusReserved, ar_Chain = [], ar_Network = [],
      ar_Scheme = [], ar_AssetReference = [], ar_Address = [], ar_DerivationFailureReason = []\<rparr>"

definition Cf_AllocationStore_ReopenFailedReservation ::
  "ScanLib \<Rightarrow> 's bridgeExecutor \<Rightarrow> ReservePaymentAddressAllocationInput \<Rightarrow> 's
     \<Rightarrow> PaymentAddressAllocationRecord option result \<times> 's" where
  "Cf_AllocationStore_ReopenFailedReservation lib e input s =
     (let customerReference = trim_space (rin_CustomerReference input);
          addressPolicyID = ipr_AddressPolicyID (rin_IssuancePolicy input);
          addressSpaceRef = trim_space (ipr_AddressSpaceRef (rin_IssuancePolicy input));
          (row, s1) = QueryRowContext e QSelectFailed [GoText addressPolicyID, GoText addressSpaceRef] s
      in case row_Scan lib row [ToInt64, ToInt64] of
          Inl err \<Rightarrow>
            if err = ErrNoRows then (Inr None, s1)
            else (Inl (OutAlloc out_ErrPaymentAddressAllocationStoreFailed), s1)
        | Inr v \<Rightarrow>
            (let paymentAddressID = sc_int64 (v ! 0); slotIndex = sc_int64 (v ! 1)
             in if sint slotIndex < 0 \<or> maxSlotIndex < sint slotIndex
                  then (Inl (OutAlloc out_ErrAddressIndexExhausted), s1)
                else case ExecContext e QReopen
                       [GoInt64 paymentAddressID, GoInt64 (rin_ExpectedAmountMinor input),
                        cf_nullIfEmpty customerReference] s1 of
                    (Inl _, s2) \<Rightarrow> (Inl (OutAlloc out_ErrPaymentAddressAllocationStoreFailed), s2)
                  | (Inr _, s2) \<Rightarrow>
                      (Inr (Some (cf_reserved_record paymentAddressID addressPolicyID slotIndex
                                    (rin_ExpectedAmountMinor input) customerReference)), s2)))"

definition Cf_AllocationStore_ReserveFresh ::
  "ScanLib \<Rightarrow> 's bridgeExecutor \<Rightarrow> ReservePaymentAddressAllocationInput \<Rightarrow> 's
     \<Rightarrow> PaymentAddressAllocationRecord result \<times> 's" where
  "Cf_AllocationStore_ReserveFresh lib e input s =
     (let customerReference = trim_space (rin_CustomerReference input);
          addressPolicyID = ipr_AddressPolicyID (rin_IssuancePolicy input);
          addressSpaceRef = trim_space (ipr_AddressSpaceRef (rin_IssuancePolicy input));
          failed = Inl (OutAlloc out_ErrPaymentAddressAllocationStoreFailed)
      in case ExecContext e QEnsureCursor [GoText addressPolicyID, GoText addressSpaceRef] s of
          (Inl _, s1) \<Rightarrow> (failed, s1)
        | (Inr _, s1) \<Rightarrow>
      (let (row, s2) = QueryRowContext e QSelectCursor [GoText addressPolicyID, GoText addressSpaceRef] s1
       in case row_Scan lib row [ToInt64] of
          Inl _ \<Rightarrow> (failed, s2)
        | Inr v \<Rightarrow>
      (let nextIndex = sc_int64 (v ! 0)
       in if maxSlotIndex < sint nextIndex then (Inl (OutAlloc out_ErrAddressIndexExhausted), s2)
      else
      (let (row, s3) = QueryRowContext e QInsertAllocation
             [GoText addressPolicyID, GoText addressSpaceRef, GoInt64 nextIndex,
              GoInt64 (rin_ExpectedAmountMinor input), cf_nullIfEmpty customerReference] s2
       in case row_Scan lib row [ToInt64] of
          Inl _ \<Rightarrow> (failed, s3)
        | Inr v3 \<Rightarrow>
      (let paymentAddressID = sc_int64 (v3 ! 0)
       in case ExecContext e QAdvanceCursor [GoText addressPolicyID, GoText addressSpaceRef] s3 of
          (Inl _, s4) \<Rightarrow> (failed, s4)
        | (Inr _, s4) \<Rightarrow>
            (Inr (cf_reserved_record paymentAddressID addressPolicyID nextIndex
                    (rin_ExpectedAmountMinor input) customerReference), s4))))))"

section \<open>Idempotency keys\<close>

definition cf_pkName :: string where
  "cf_pkName = ''pk_payment_address_idempotency_keys''"

definition Cf_IdempotencyStore_FindByKey ::
  "ScanLib \<Rightarrow> 's bridgeExecutor \<Rightarrow> string \<Rightarrow> string \<Rightarrow> 's
     \<Rightarrow> PaymentAddressIdempotencyRecord option result \<times> 's" where
  "Cf_IdempotencyStore_FindByKey lib e chain rawKey s =
     (let idempotencyKey = trim_space rawKey
      in if idempotencyKey = [] then (Inr None, s)
         else
           (let (row, s1) = QueryRowContext e QSelectKey [GoText chain, GoText idempotencyKey] s
            in case row_Scan lib row [ToString, ToString, ToInt64, ToString, ToNullInt64] of
                Inl err \<Rightarrow>
                  if err = ErrNoRows then (Inr None, s1)
                  else (Inl (OutIdem out_ErrPaymentAddressIdempotencyStoreFailed), s1)
              | Inr v \<Rightarrow>
                  (case NormalizeSupportedChain (sc_string (v ! 0)) of
                     None \<Rightarrow> (Inl (OutIdem out_ErrPaymentAddressIdempotencyPersistedChainInvalid), s1)
                   | Some chain \<Rightarrow>
                  (case NormalizeAddressPolicyID (sc_string (v ! 1)) of
                     None \<Rightarrow> (Inl (OutIdem out_ErrPaymentAddressIdempotencyPersistedAddressPolicyIDInvalid), s1)
                   | Some parsedAddressPolicyID \<Rightarrow>
                       (Inr (Some \<lparr>idr_Chain = chain, idr_IdempotencyKey = idempotencyKey,
                          idr_AddressPolicyID = parsedAddressPolicyID,
                          idr_ExpectedAmountMinor = sc_int64 (v ! 2),
                          idr_CustomerReference = sc_string (v ! 3),
                          idr_PaymentAddressID =
                            (case sc_null_int64 (v ! 4) of None \<Rightarrow> 0 | Some i \<Rightarrow> i)\<rparr>), s1)))))"

definition Cf_IdempotencyStore_Claim ::
  "'s bridgeExecutor \<Rightarrow> ClaimPaymentAddressIdempotencyInput \<Rightarrow> 's
     \<Rightarrow> PaymentAddressIdempotencyRecord result \<times> 's" where
  "Cf_IdempotencyStore_Claim e input s =
     (let idempotencyKey = trim_space (icl_IdempotencyKey input);
          customerReference = trim_space (icl_CustomerReference input)
      in if icl_Chain input = []
           then (Inl (OutIdem out_ErrPaymentAddressIdempotencyChainRequired), s)
         else if idempotencyKey = []
           then (Inl (OutIdem out_ErrPaymentAddressIdempotencyKeyRequired), s)
         else case NormalizeAddressPolicyID (icl_AddressPolicyID input) of
             None \<Rightarrow> (Inl (OutIdem out_ErrPaymentAddressIdempotencyAddressPolicyIDRequired), s)
           | Some addressPolicyID \<Rightarrow>
         if sint (icl_ExpectedAmountMinor input) \<le> 0
           then (Inl (OutIdem out_ErrPaymentAddressIdempotencyExpectedAmountInvalid), s)
         else (case ExecContext e QInsertKey
                 [GoText (icl_Chain input), GoText idempotencyKey, GoText addressPolicyID,
                  GoInt64 (icl_ExpectedAmountMinor input), cf_nullIfEmpty customerReference] s of
             (Inl err, s1) \<Rightarrow>
               if isUniqueViolation err cf_pkName
                 then (Inl (OutIdem out_ErrPaymentAddressIdempotencyKeyExists), s1)
               else (Inl (OutIdem out_ErrPaymentAddressIdempotencyStoreFailed), s1)
           | (Inr _, s1) \<Rightarrow>
               (Inr \<lparr>idr_Chain = icl_Chain input, idr_IdempotencyKey = idempotencyKey,
                     idr_AddressPolicyID = addressPolicyID,
                     idr_ExpectedAmountMinor = icl_ExpectedAmountMinor input,
                     idr_CustomerReference = customerReference, idr_PaymentAddressID = 0\<rparr>, s1)))"

definition Cf_IdempotencyStore_Complete ::
  "'s bridgeExecutor \<Rightarrow> string \<Rightarrow> string \<Rightarrow> int64 \<Rightarrow> 's \<Rightarrow> unit result \<times> 's" where
  "Cf_IdempotencyStore_Complete e chain rawKey paymentAddressID s =
     (let idempotencyKey = trim_space rawKey
      in if chain = [] then (Inl (OutIdem out_ErrPaymentAddressIdempotencyChainRequired), s)
         else if idempotencyKey = []
           then (Inl (OutIdem out_ErrPaymentAddressIdempotencyKeyRequired), s)
         else if sint paymentAddressID \<le> 0
           then (Inl (OutIdem out_ErrPaymentAddressIdempotencyPaymentAddressIDInvalid), s)
         else rows_affected (OutIdem out_ErrPaymentAddressIdempotencyStoreFailed)
                (OutIdem out_ErrPaymentAddressIdempotencyClaimNotFound)
                (ExecContext e QCompleteKey [GoText chain, GoText idempotencyKey, GoInt64 paymentAddressID] s))"

definition Cf_IdempotencyStore_Release ::
  "'s bridgeExecutor \<Rightarrow> string \<Rightarrow> string \<Rightarrow> 's \<Rightarrow> unit result \<times> 's" where
  "Cf_IdempotencyStore_Release e chain rawKey s =
     (let idempotencyKey = trim_space rawKey
      in if chain = [] then (Inl (OutIdem out_ErrPaymentAddressIdempotencyChainRequired), s)
         else if idempotencyKey = []
           then (Inl (OutIdem out_ErrPaymentAddressIdempotencyKeyRequired), s)
         else rows_affected (OutIdem out_ErrPaymentAddressIdempotencyStoreFailed)
                (OutIdem out_ErrPaymentAddressIdempotencyClaimNotFound)
                (ExecContext e QDeleteKey [GoText chain, GoText idempotencyKey] s))"

section \<open>Receipt trackings\<close>

definition Cf_TrackingStore_Create ::
  "'s bridgeExecutor \<Rightarrow> PaymentReceiptTrackingRecord \<Rightarrow> gotime \<Rightarrow> 's \<Rightarrow> unit result \<times> 's" where
  "Cf_TrackingStore_Create e t nextPollAt s =
     (if time_is_zero nextPollAt
        then (Inl (OutTrack out_ErrPaymentReceiptTrackingNextPollAtRequired), s)
      else rows_affected (OutTrack out_ErrPaymentReceiptTrackingStoreFailed)
             (OutTrack out_ErrPaymentReceiptTrackingAlreadyExists)
             (ExecContext e QInsertTracking
                [GoInt64 (tr_PaymentAddressID t), GoText (tr_AddressPolicyID t), GoText (tr_Chain t),
                 GoText (tr_Network t), GoText (tr_Address t),
                 cf_nullIfEmpty (trim_space (tr_AssetReference t)), GoTime (tr_IssuedAt t),
                 nullableTimePointer (tr_ExpiresAt t), GoInt64 (tr_ExpectedAmountMinor t),
                 GoInt32 (tr_RequiredConfirmations t), GoText (tr_Status t),
                 GoInt64 (tr_ObservedTotalMinor t), GoInt64 (tr_ConfirmedTotalMinor t),
                 GoInt64 (tr_UnconfirmedTotalMinor t), GoInt64 (tr_LastObservedBlockHeight t),
                 nullableTimePointer (tr_FirstObservedAt t), nullableTimePointer (tr_PaidAt t),
                 nullableTimePointer (tr_ConfirmedAt t), cf_nullIfEmpty (tr_LastFailureReason t),
                 GoTime nextPollAt] s))"

definition tracking_dests :: "dest list" where
  "tracking_dests = [ToInt64, ToInt64, ToString, ToString, ToString, ToString, ToNullTime, ToInt64, ToInt32,
     ToString, ToInt64, ToInt64, ToInt64, ToInt64, ToNullTime, ToNullTime, ToNullTime, ToNullTime, ToString,
     ToString]"

definition cf_scanPaymentReceiptTracking ::
  "ScanLib \<Rightarrow> go_value list \<Rightarrow> PaymentReceiptTrackingRecord result" where
  "cf_scanPaymentReceiptTracking lib row =
     (case scanValues lib row tracking_dests of
        Inl _ \<Rightarrow> Inl (OutTrack out_ErrPaymentReceiptTrackingStoreFailed)
      | Inr v \<Rightarrow>
     (case NormalizeChainID (sc_string (v ! 3)) of
        None \<Rightarrow> Inl (OutTrack out_ErrPaymentReceiptTrackingPersistedChainInvalid)
      | Some chain \<Rightarrow>
     (case NormalizeAddressPolicyID (sc_string (v ! 2)) of
        None \<Rightarrow> Inl (OutTrack out_ErrPaymentReceiptTrackingPersistedAddressPolicyIDInvalid)
      | Some parsedAddressPolicyID \<Rightarrow>
     (case NormalizeNetworkID (sc_string (v ! 4)) of
        None \<Rightarrow> Inl (OutTrack out_ErrPaymentReceiptTrackingPersistedNetworkInvalid)
      | Some network \<Rightarrow>
     (case NormalizePaymentReceiptStatus (sc_string (v ! 9)) of
        None \<Rightarrow> Inl (OutTrack out_ErrPaymentReceiptTrackingPersistedStatusInvalid)
      | Some status \<Rightarrow>
          Inr \<lparr>tr_TrackingID = sc_int64 (v ! 0), tr_PaymentAddressID = sc_int64 (v ! 1),
               tr_AddressPolicyID = parsedAddressPolicyID, tr_Chain = chain, tr_Network = network,
               tr_Address = sc_string (v ! 5), tr_AssetReference = trim_space (sc_string (v ! 19)),
               tr_IssuedAt = (case sc_null_time (v ! 6) of None \<Rightarrow> 0 | Some t \<Rightarrow> t),
               tr_ExpectedAmountMinor = sc_int64 (v ! 7), tr_RequiredConfirmations = sc_int32 (v ! 8),
               tr_Status = status, tr_ObservedTotalMinor = sc_int64 (v ! 10),
               tr_ConfirmedTotalMinor = sc_int64 (v ! 11), tr_UnconfirmedTotalMinor = sc_int64 (v ! 12),
               tr_LastObservedBlockHeight = sc_int64 (v ! 13),
               tr_FirstObservedAt = sc_null_time (v ! 14), tr_PaidAt = sc_null_time (v ! 15),
               tr_ConfirmedAt = sc_null_time (v ! 16), tr_ExpiresAt = sc_null_time (v ! 17),
               tr_LastFailureReason = cf_normalizePaymentReceiptTrackingFailureReason (sc_string (v ! 18))\<rparr>)))))"

definition Cf_TrackingStore_ClaimDue ::
  "ScanLib \<Rightarrow> 's bridgeExecutor \<Rightarrow> ClaimPaymentReceiptTrackingsInput \<Rightarrow> 's
     \<Rightarrow> PaymentReceiptTrackingRecord list result \<times> 's" where
  "Cf_TrackingStore_ClaimDue lib e input s =
     (if time_is_zero (ctr_Now input)
        then (Inl (OutTrack out_ErrPaymentReceiptTrackingClaimNowRequired), s)
      else if time_is_zero (ctr_ClaimUntil input)
        then (Inl (OutTrack out_ErrPaymentReceiptTrackingClaimUntilRequired), s)
      else if sint (ctr_Limit input) \<le> 0
        then (Inl (OutTrack out_ErrPaymentReceiptTrackingClaimLimitInvalid), s)
      else if ctr_Statuses input = []
        then (Inl (OutTrack out_ErrPaymentReceiptTrackingClaimStatusesRequired), s)
      else if [] \<in> set (ctr_Statuses input)
        then (Inl (OutTrack out_ErrPaymentReceiptTrackingClaimStatusRequired), s)
      else
        (let chainFilter = to_lower (trim_space (ctr_Chain input));
             networkFilter = to_lower (trim_space (ctr_Network input));
             statusFilters = ctr_Statuses input;
             args = [GoTime (ctr_Now input), GoInt (ctr_Limit input), GoTime (ctr_ClaimUntil input)] @
               map GoText statusFilters @ [GoText chainFilter, GoText networkFilter];
             statusClause = buildSequentialPlaceholders 4 (length statusFilters);
             chainArgIndex = 4 + length statusFilters;
             networkArgIndex = chainArgIndex + 1
         in case QueryContext e (QClaimTrackings statusClause chainArgIndex networkArgIndex) args s of
             (Inl _, s1) \<Rightarrow> (Inl (OutTrack out_ErrPaymentReceiptTrackingStoreFailed), s1)
           | (Inr rows, s1) \<Rightarrow>
              (read_rows (cf_scanPaymentReceiptTracking lib) \<lparr>slr_rows = rows, slr_idx = 0\<rparr>, s1)))"

definition Cf_TrackingStore_Save ::
  "'s bridgeExecutor \<Rightarrow> PaymentReceiptTrackingRecord \<Rightarrow> gotime \<Rightarrow> gotime \<Rightarrow> 's \<Rightarrow> unit result \<times> 's" where
  "Cf_TrackingStore_Save e t polledAt nextPollAt s =
     (if time_is_zero polledAt
        then (Inl (OutTrack out_ErrPaymentReceiptTrackingPolledAtRequired), s)
      else if time_is_zero nextPollAt
        then (Inl (OutTrack out_ErrPaymentReceiptTrackingNextPollAtRequired), s)
      else rows_affected (OutTrack out_ErrPaymentReceiptTrackingStoreFailed)
             (OutTrack out_ErrPaymentReceiptTrackingNotFound)
             (ExecContext e QSaveTracking
                [GoInt64 (tr_PaymentAddressID t), GoText (tr_Status t), GoInt64 (tr_ObservedTotalMinor t),
                 GoInt64 (tr_ConfirmedTotalMinor t), GoInt64 (tr_UnconfirmedTotalMinor t),
                 GoInt64 (tr_LastObservedBlockHeight t), nullableTimePointer (tr_FirstObservedAt t),
                 nullableTimePointer (tr_PaidAt t), nullableTimePointer (tr_ConfirmedAt t),
                 nullableTimePointer (tr_ExpiresAt t), cf_nullIfEmpty (tr_LastFailureReason t),
                 GoTime polledAt, GoTime nextPollAt] s))"

section \<open>The notification outbox\<close>

definition cf_ensureNotificationRowsAffected :: "(cf_error + nat) \<times> 's \<Rightarrow> unit result \<times> 's" where
  "cf_ensureNotificationRowsAffected r =
     (case r of
        (Inl _, s1) \<Rightarrow> (Inl (OutOutbox out_ErrPaymentReceiptStatusNotificationOutboxFailed), s1)
      | (Inr n, s1) \<Rightarrow>
          if n = 0 then (Inl (OutOutbox out_ErrPaymentReceiptStatusNotificationNotFound), s1)
          else (Inr (), s1))"

definition Cf_Outbox_EnqueueStatusChanged ::
  "'s bridgeExecutor \<Rightarrow> PaymentReceiptStatusChangedRecord \<Rightarrow> 's \<Rightarrow> unit result \<times> 's" where
  "Cf_Outbox_EnqueueStatusChanged e event s =
     cf_ensureNotificationRowsAffected
       (ExecContext e QEnqueue
          [GoInt64 (scr_PaymentAddressID event), GoText (scr_PreviousStatus event),
           GoText (scr_CurrentStatus event), GoInt64 (scr_ObservedTotalMinor event),
           GoInt64 (scr_ConfirmedTotalMinor event), GoInt64 (scr_UnconfirmedTotalMinor event),
           GoTime (scr_StatusChangedAt event)] s)"

definition notification_dests :: "dest list" where
  "notification_dests = [ToInt64, ToInt64, ToString, ToString, ToString, ToString, ToInt64, ToInt64, ToInt64,
     ToTime, ToString, ToInt32, ToTime, ToString, ToNullTime]"

definition cf_scanOutboxMessage :: "ScanLib \<Rightarrow> go_value list \<Rightarrow> OutboxMessage result" where
  "cf_scanOutboxMessage lib row =
     (case scanValues lib row notification_dests of
        Inl _ \<Rightarrow> Inl (OutOutbox out_ErrPaymentReceiptStatusNotificationOutboxFailed)
      | Inr v \<Rightarrow>
     (case NormalizeAddressPolicyID (sc_string (v ! 2)) of
        None \<Rightarrow> Inl (OutOutbox out_ErrPaymentReceiptStatusNotificationPersistedAddressPolicyIDInvalid)
      | Some parsedAddressPolicyID \<Rightarrow>
     (case NormalizePaymentReceiptStatus (sc_string (v ! 4)) of
        None \<Rightarrow> Inl (OutOutbox out_ErrPaymentReceiptStatusNotificationPersistedPreviousStatusInvalid)
      | Some previousStatus \<Rightarrow>
     (case NormalizePaymentReceiptStatus (sc_string (v ! 5)) of
        None \<Rightarrow> Inl (OutOutbox out_ErrPaymentReceiptStatusNotificationPersistedCurrentStatusInvalid)
      | Some currentStatus \<Rightarrow>
     (case NormalizeDeliveryStatus (sc_string (v ! 10)) of
        None \<Rightarrow> Inl (OutOutbox out_ErrPaymentReceiptStatusNotificationPersistedDeliveryStatusInvalid)
      | Some deliveryStatus \<Rightarrow>
          Inr \<lparr>msg_NotificationID = sc_int64 (v ! 0), msg_PaymentAddressID = sc_int64 (v ! 1),
               msg_AddressPolicyID = parsedAddressPolicyID, msg_CustomerReference = sc_string (v ! 3),
               msg_PreviousStatus = previousStatus, msg_CurrentStatus = currentStatus,
               msg_ObservedTotalMinor = sc_int64 (v ! 6), msg_ConfirmedTotalMinor = sc_int64 (v ! 7),
               msg_UnconfirmedTotalMinor = sc_int64 (v ! 8), msg_StatusChangedAt = sc_time (v ! 9),
               msg_DeliveryStatus = deliveryStatus, msg_DeliveryAttempts = sc_int32 (v ! 11),
               msg_NextAttemptAt = sc_time (v ! 12),
               msg_LastFailureReason =
                 cf_normalizePaymentReceiptNotificationDeliveryFailureReason (sc_string (v ! 13)),
               msg_DeliveredAt = sc_null_time (v ! 14)\<rparr>)))))"

definition Cf_Outbox_ClaimPending ::
  "ScanLib \<Rightarrow> 's bridgeExecutor \<Rightarrow> gotime \<Rightarrow> int64 \<Rightarrow> gotime \<Rightarrow> 's \<Rightarrow> OutboxMessage list result \<times> 's" where
  "Cf_Outbox_ClaimPending lib e now limit claimUntil s =
     (if time_is_zero now
        then (Inl (OutOutbox out_ErrPaymentReceiptStatusNotificationClaimNowRequired), s)
      else if time_is_zero claimUntil
        then (Inl (OutOutbox out_ErrPaymentReceiptStatusNotificationClaimUntilRequired), s)
      else if sint limit \<le> 0
        then (Inl (OutOutbox out_ErrPaymentReceiptStatusNotificationClaimLimitInvalid), s)
      else case QueryContext e QClaimNotifications [GoTime now, GoInt limit, GoTime claimUntil] s of
          (Inl _, s1) \<Rightarrow> (Inl (OutOutbox out_ErrPaymentReceiptStatusNotificationOutboxFailed), s1)
        | (Inr rows, s1) \<Rightarrow>
              (read_rows (cf_scanOutboxMessage lib) \<lparr>slr_rows = rows, slr_idx = 0\<rparr>, s1))"

definition Cf_Outbox_SaveDeliveryResult ::
  "'s bridgeExecutor \<Rightarrow> DeliveryResult \<Rightarrow> 's \<Rightarrow> unit result \<times> 's" where
  "Cf_Outbox_SaveDeliveryResult e res s =
     (if res_Status res = DeliveryStatusSent then
        (case res_DeliveredAt res of
           None \<Rightarrow> (Inl (OutOutbox out_ErrPaymentReceiptStatusNotificationDeliveredAtRequired), s)
         | Some deliveredAt \<Rightarrow>
             cf_ensureNotificationRowsAffected
               (ExecContext e QSaveSent [GoInt64 (res_NotificationID res), GoTime deliveredAt] s))
      else if res_Status res = DeliveryStatusPending then
        (case res_NextAttemptAt res of
           None \<Rightarrow> (Inl (OutOutbox out_ErrPaymentReceiptStatusNotificationNextAttemptRequired), s)
         | Some nextAttemptAt \<Rightarrow>
             cf_ensureNotificationRowsAffected
               (ExecContext e QSavePending
                  [GoInt64 (res_NotificationID res), GoInt32 (res_Attempts res), GoTime nextAttemptAt,
                   GoText (res_LastFailureReason res)] s))
      else if res_Status res = DeliveryStatusFailed then
        cf_ensureNotificationRowsAffected
          (ExecContext e QSaveFailed
             [GoInt64 (res_NotificationID res), GoInt32 (res_Attempts res),
              GoText (res_LastFailureReason res)] s)
      else (Inl (OutOutbox out_ErrPaymentReceiptStatusNotificationDeliveryStatusInvalid), s))"

section \<open>The status finder\<close>

definition status_dests :: "dest list" where
  "status_dests = [ToInt64, ToString, ToInt64, ToString, ToString, ToString, ToString, ToString, ToNullTime,
     ToNullInt64, ToNullInt32, ToNullString, ToNullInt64, ToNullInt64, ToNullInt64, ToNullInt64,
     ToNullTime, ToNullTime, ToNullTime, ToNullTime, ToNullString]"

definition cf_scan_status :: "scanned list \<Rightarrow> PaymentAddressStatusRecord option result" where
  "cf_scan_status v =
     (case (sc_null_time (v ! 8), sc_null_int64 (v ! 9)) of
        (Some issuedAt, Some trackingID) \<Rightarrow>
          (case NormalizeSupportedChain (sc_string (v ! 4)) of
             None \<Rightarrow> Inl (OutFinder out_ErrPaymentAddressStatusPersistedChainInvalid)
           | Some chain \<Rightarrow>
          (case NormalizeAddressPolicyID (sc_string (v ! 1)) of
             None \<Rightarrow> Inl (OutFinder out_ErrPaymentAddressStatusPersistedAddressPolicyIDInvalid)
           | Some parsedAddressPolicyID \<Rightarrow>
          (case NormalizeNetworkID (sc_string (v ! 5)) of
             None \<Rightarrow> Inl (OutFinder out_ErrPaymentAddressStatusPersistedNetworkInvalid)
           | Some network \<Rightarrow>
          (case sc_null_string (v ! 11) of
             None \<Rightarrow> Inl (OutFinder out_ErrPaymentAddressStatusIncomplete)
           | Some receiptStatusRaw \<Rightarrow>
          (case NormalizePaymentReceiptStatus receiptStatusRaw of
             None \<Rightarrow> Inl (OutFinder out_ErrPaymentAddressStatusPersistedReceiptStatusInvalid)
           | Some status \<Rightarrow>
          (case (sc_null_int32 (v ! 10), sc_null_int64 (v ! 12), sc_null_int64 (v ! 13),
                 sc_null_int64 (v ! 14), sc_null_int64 (v ! 15)) of
             (Some requiredConfirmations, Some observedTotalMinor, Some confirmedTotalMinor,
              Some unconfirmedTotalMinor, Some lastObservedBlockHeight) \<Rightarrow>
          (case NormalizeAddressScheme (sc_string (v ! 6)) of
             None \<Rightarrow> Inl (OutFinder out_ErrPaymentAddressStatusIncomplete)
           | Some normalizedScheme \<Rightarrow>
               Inr (Some
                 \<lparr>psr_PaymentAddressID = sc_int64 (v ! 0), psr_AddressPolicyID = parsedAddressPolicyID,
                  psr_ExpectedAmountMinor = sc_int64 (v ! 2),
                  psr_CustomerReference = trim_space (sc_string (v ! 3)),
                  psr_Chain = chain, psr_Network = network, psr_Scheme = normalizedScheme,
                  psr_Address = trim_space (sc_string (v ! 7)),
                  psr_PaymentStatus = status, psr_ObservedTotalMinor = observedTotalMinor,
                  psr_ConfirmedTotalMinor = confirmedTotalMinor,
                  psr_UnconfirmedTotalMinor = unconfirmedTotalMinor,
                  psr_RequiredConfirmations = requiredConfirmations,
                  psr_LastObservedBlockHeight = lastObservedBlockHeight,
                  psr_IssuedAt = issuedAt, psr_FirstObservedAt = sc_null_time (v ! 16),
                  psr_PaidAt = sc_null_time (v ! 17), psr_ConfirmedAt = sc_null_time (v ! 18),
                  psr_ExpiresAt = sc_null_time (v ! 19),
                  psr_LastFailureReason =
                    cf_normalizePaymentReceiptTrackingFailureReason (coalesce (sc_null_string (v ! 20)))\<rparr>))
           | _ \<Rightarrow> Inl (OutFinder out_ErrPaymentAddressStatusIncomplete)))))))
      | _ \<Rightarrow> Inl (OutFinder out_ErrPaymentAddressStatusIncomplete))"

definition Cf_StatusFinder_FindByID ::
  "ScanLib \<Rightarrow> 's bridgeExecutor \<Rightarrow> string \<Rightarrow> int64 \<Rightarrow> 's \<Rightarrow> PaymentAddressStatusRecord option result \<times> 's" where
  "Cf_StatusFinder_FindByID lib e chain paymentAddressID s =
     (if sint paymentAddressID \<le> 0 then (Inr None, s)
      else
        (let (row, s1) = QueryRowContext e QSelectStatus [GoText chain, GoInt64 paymentAddressID] s
         in case row_Scan lib row status_dests of
             Inl err \<Rightarrow>
               if err = ErrNoRows then (Inr None, s1)
               else (Inl (OutFinder out_ErrPaymentAddressStatusFindFailed), s1)
           | Inr v \<Rightarrow> (cf_scan_status v, s1)))"

end
