(* ===== verification/Go_Web.thy ===== *)
theory Go_Web
  imports Go_Net
begin

text \<open>
  The part of the prelude that serves HTTP: headers and the requests and replies of a handler, and
  the text of times (\<open>time.RFC3339\<close>, and the marshalling of \<open>time.Time\<close> to JSON), for which the
  date is computed from the days since 1 January of the year 1 as the \<open>time\<close> package does.
\<close>

section \<open>Headers\<close>

text \<open>\<open>textproto.CanonicalMIMEHeaderKey\<close>, on keys that are tokens, which all names of the code are.\<close>

fun canonical_key :: "bool \<Rightarrow> string \<Rightarrow> string" where
  "canonical_key upper [] = []"
| "canonical_key upper (c # cs) =
     (let n = (of_char c :: nat)
      in (if upper \<and> 97 \<le> n \<and> n \<le> 122 then char_of (n - 32)
          else if \<not> upper \<and> 65 \<le> n \<and> n \<le> 90 then char_of (n + 32) else c)
         # canonical_key (c = CHR ''-'') cs)"

definition header_key :: "string \<Rightarrow> string" where
  "header_key = canonical_key True"

type_synonym Header = "(string \<times> string) list"

text \<open>\<open>Header.Set\<close> and \<open>Header.Get\<close>; a missing header reads as the empty string.\<close>

definition header_set :: "string \<Rightarrow> string \<Rightarrow> Header \<Rightarrow> Header" where
  "header_set name v h = filter (\<lambda>kv. fst kv \<noteq> header_key name) h @ [(header_key name, v)]"

definition header_get :: "Header \<Rightarrow> string \<Rightarrow> string" where
  "header_get h name = (case map_of h (header_key name) of None \<Rightarrow> [] | Some v \<Rightarrow> v)"

lemma map_of_filter_keys: "map_of (filter (\<lambda>kv. fst kv \<noteq> k) h) = (map_of h)(k := None)"
  by (induction h) (auto simp: fun_eq_iff)

lemma header_get_set:
  "header_get (header_set name v h) name' =
     (if header_key name = header_key name' then v else header_get h name')"
  by (simp add: header_get_def header_set_def map_of_filter_keys map_add_def split: option.split)

text \<open>A request as a handler sees it: the body is \<open>None\<close> when reading it fails.\<close>

record ServerRequest =
  sq_Method :: string
  sq_Path :: string
  sq_Headers :: Header
  sq_Body :: "string option"

record ServerReply =
  sp_Status :: int
  sp_Headers :: Header
  sp_Body :: string

text \<open>\<open>http.Error\<close>, on the headers set so far.\<close>

definition http_error :: "Header \<Rightarrow> string \<Rightarrow> int \<Rightarrow> ServerReply" where
  "http_error h message code =
     \<lparr>sp_Status = code,
      sp_Headers = header_set ''X-Content-Type-Options'' ''nosniff''
        (header_set ''Content-Type'' ''text/plain; charset=utf-8'' h),
      sp_Body = message @ [CHR 0x0A]\<rparr>"

text \<open>A server at the other end of a client: the reply of a handler.\<close>

definition serve :: "(ServerRequest \<Rightarrow> ServerReply) \<Rightarrow> string \<Rightarrow> HttpServer" where
  "serve handler path n rq =
     (let p = handler \<lparr>sq_Method = rq_Method rq, sq_Path = path, sq_Headers = rq_Headers rq,
                       sq_Body = Some (rq_Body rq)\<rparr>
      in Some \<lparr>rp_Status = sp_Status p, rp_Body = sp_Body p\<rparr>)"

text \<open>A member that \<open>omitempty\<close> leaves out when the string is empty.\<close>

definition omit_empty :: "string \<Rightarrow> string \<Rightarrow> (string \<times> json) list" where
  "omit_empty name v = (if v = [] then [] else [(name, JStr v)])"

section \<open>Dates\<close>

definition leap_year :: "int \<Rightarrow> bool" where
  "leap_year y \<longleftrightarrow> y mod 4 = 0 \<and> (y mod 100 \<noteq> 0 \<or> y mod 400 = 0)"

text \<open>The year and the day of the year, counted from 0, of the days since 1 January of year 1.\<close>

definition year_day :: "int \<Rightarrow> int \<times> int" where
  "year_day d =
     (let n400 = d div 146097; d1 = d mod 146097;
          n100 = min 3 (d1 div 36524); d2 = d1 - 36524 * n100;
          n4 = d2 div 1461; d3 = d2 mod 1461;
          n1 = min 3 (d3 div 365)
      in (400 * n400 + 100 * n100 + 4 * n4 + n1 + 1, d3 - 365 * n1))"

definition month_lengths :: "int \<Rightarrow> int list" where
  "month_lengths y = [31, if leap_year y then 29 else 28, 31, 30, 31, 30, 31, 31, 30, 31, 30, 31]"

fun month_day :: "int \<Rightarrow> int list \<Rightarrow> int \<Rightarrow> int \<times> int" where
  "month_day m [] d = (m, d + 1)"
| "month_day m (l # ls) d = (if d < l then (m, d + 1) else month_day (m + 1) ls (d - l))"

definition civil :: "int \<Rightarrow> int \<times> int \<times> int" where
  "civil d = (let (y, yd) = year_day d in (y, month_day 1 (month_lengths y) yd))"

text \<open>Days before a year: the usual count of leap days.\<close>

definition days_before_year :: "int \<Rightarrow> int" where
  "days_before_year y = 365 * (y - 1) + (y - 1) div 4 - (y - 1) div 100 + (y - 1) div 400"

lemma year_parts:
  assumes "0 \<le> b" "b \<le> 3" "0 \<le> c" "c \<le> 24" "0 \<le> e" "e \<le> (3::int)"
  shows "(400 * a + 100 * b + 4 * c + e) div 4 = 100 * a + 25 * b + c"
    "(400 * a + 100 * b + 4 * c + e) div 100 = 4 * a + b"
    "(400 * a + 100 * b + 4 * c + e) div 400 = a"
  using assms
  by (simp_all add: int_div_pos_eq [where r = e] int_div_pos_eq [where r = "4 * c + e"]
      int_div_pos_eq [where r = "100 * b + 4 * c + e"])

lemma leap_year_parts:
  assumes "0 \<le> b" "b \<le> 3" "0 \<le> c" "c \<le> 24" "c < 24 \<or> b = (3::int)"
  shows "leap_year (400 * a + 100 * b + 4 * c + 4)"
proof -
  have "400 * a + 100 * b + 4 * c + 4 = 4 * (100 * a + 25 * b + c + 1)" by simp
  then have "(400 * a + 100 * b + 4 * c + 4) mod 4 = 0" by (metis mod_mult_self1_is_0)
  moreover have "(400 * a + 100 * b + 4 * c + 4) mod 100 = 4 * c + 4" if "c < 24"
    using that assms by (intro int_mod_pos_eq [where q = "4 * a + b"]) simp_all
  moreover have "(400 * a + 100 * b + 4 * c + 4) mod 400 = 0" if "c = 24" "b = 3"
    using that by (simp add: int_mod_pos_eq [where q = "a + 1"])
  ultimately show ?thesis
    using assms by (cases "c < 24") (auto simp: leap_year_def)
qed

lemma div_bounds: "0 < k \<Longrightarrow> k * (x div k) \<le> x \<and> x < k * (x div k) + (k::int)"
  using pos_mod_bound [of k x] pos_mod_sign [of k x] mult_div_mod_eq [of k x] by linarith

lemma year_day_parts:
  obtains a b c e r where "0 \<le> b" "b \<le> 3" "0 \<le> c" "c \<le> 24" "0 \<le> e" "e \<le> 3" "0 \<le> r"
    "r < 365 \<or> r = 365 \<and> e = 3 \<and> (c < 24 \<or> b = 3)"
    "year_day d = (400 * a + 100 * b + 4 * c + e + 1, r)"
    "d = 146097 * a + 36524 * b + 1461 * c + 365 * e + r"
proof -
  define d1 where "d1 = d mod 146097"
  define b where "b = min 3 (d1 div 36524)"
  define d2 where "d2 = d1 - 36524 * b"
  define c where "c = d2 div 1461"
  define d3 where "d3 = d2 mod 1461"
  define e where "e = min 3 (d3 div 365)"
  have d1: "0 \<le> d1" "d1 < 146097" by (simp_all add: d1_def)
  have b: "0 \<le> b" "b \<le> 3" "0 \<le> d2" "d2 < 36524 \<or> b = 3 \<and> d2 \<le> 36524"
    using d1 div_bounds [of 36524 d1] unfolding b_def d2_def by (auto simp: min_def)
  have d2: "d2 = 1461 * c + d3" "0 \<le> d3" "d3 < 1461"
    by (simp_all add: c_def d3_def)
  have c: "0 \<le> c" "c \<le> 24" "d3 < 1460 \<or> c < 24 \<or> b = 3"
    using b d2 by linarith+
  have e: "0 \<le> e" "e \<le> 3" "0 \<le> d3 - 365 * e" "d3 - 365 * e < 365 \<or> d3 = 1460 \<and> e = 3"
    using d2 div_bounds [of 365 d3] unfolding e_def by (auto simp: min_def)
  have "d3 - 365 * e < 365 \<or> d3 - 365 * e = 365 \<and> e = 3 \<and> (c < 24 \<or> b = 3)"
    using c e by auto
  moreover have "year_day d = (400 * (d div 146097) + 100 * b + 4 * c + e + 1, d3 - 365 * e)"
    by (simp add: year_day_def Let_def d1_def b_def d2_def c_def d3_def e_def)
  moreover have "d = 146097 * (d div 146097) + 36524 * b + 1461 * c + 365 * e + (d3 - 365 * e)"
    using d2(1) mult_div_mod_eq [of 146097 d] unfolding d2_def d1_def by linarith
  ultimately show thesis using that b c e by blast
qed

text \<open>The year and the day count back to the day, and the day is one of the year.\<close>

lemma year_day_spec:
  "days_before_year (fst (year_day d)) + snd (year_day d) = d"
  "0 \<le> snd (year_day d)" "snd (year_day d) < sum_list (month_lengths (fst (year_day d)))"
proof -
  obtain a b c e r where p: "0 \<le> b" "b \<le> 3" "0 \<le> c" "c \<le> 24" "0 \<le> e" "e \<le> 3" "0 \<le> r"
      "r < 365 \<or> r = 365 \<and> e = 3 \<and> (c < 24 \<or> b = 3)"
      "year_day d = (400 * a + 100 * b + 4 * c + e + 1, r)"
      "d = 146097 * a + 36524 * b + 1461 * c + 365 * e + r"
    by (rule year_day_parts)
  have "leap_year (400 * a + 100 * b + 4 * c + e + 1)" if "e = 3" "c < 24 \<or> b = 3"
    using leap_year_parts [OF p(1-4) that(2)] that(1) by (simp add: algebra_simps)
  then show "snd (year_day d) < sum_list (month_lengths (fst (year_day d)))"
    using p(8) by (auto simp: p(9) month_lengths_def)
  show "days_before_year (fst (year_day d)) + snd (year_day d) = d"
  proof -
    have y: "fst (year_day d) = 400 * a + 100 * b + 4 * c + e + 1" "snd (year_day d) = r"
      by (simp_all add: p(9))
    then show ?thesis
      using p(10) by (simp add: days_before_year_def year_parts [OF p(1-6)])
  qed
  show "0 \<le> snd (year_day d)" by (simp add: p(7,9))
qed

section \<open>The text of a time\<close>

definition pad_nat :: "nat \<Rightarrow> nat \<Rightarrow> string" where
  "pad_nat w n = replicate (w - length (format_nat n)) (CHR ''0'') @ format_nat n"

definition pad_int :: "nat \<Rightarrow> int \<Rightarrow> string" where
  "pad_int w x = (if x < 0 then CHR ''-'' # pad_nat w (nat (- x)) else pad_nat w (nat x))"

definition trim_zeros :: "string \<Rightarrow> string" where
  "trim_zeros s = rev (dropWhile (\<lambda>c. c = CHR ''0'') (rev s))"

text \<open>
  A time in UTC in the layouts \<open>time.RFC3339\<close> and \<open>time.RFC3339Nano\<close>; the second prints the
  fraction without trailing zeros and nothing for a whole second.
\<close>

definition time_text :: "bool \<Rightarrow> gotime \<Rightarrow> string" where
  "time_text nano t =
     (let secs = t div 1000000000; ns = t mod 1000000000;
          (year, month, day) = civil (secs div 86400); s = secs mod 86400
      in pad_int 4 year @ ''-'' @ pad_int 2 month @ ''-'' @ pad_int 2 day @ ''T'' @
         pad_int 2 (s div 3600) @ '':'' @ pad_int 2 (s div 60 mod 60) @ '':'' @ pad_int 2 (s mod 60) @
         (if nano \<and> ns \<noteq> 0 then ''.'' @ trim_zeros (pad_int 9 ns) else []) @ ''Z'')"

text \<open>\<open>Time.MarshalJSON\<close> fails outside of the years 0 to 9999.\<close>

definition time_json :: "gotime \<Rightarrow> json option" where
  "time_json t =
     (let (year, _) = civil (t div 1000000000 div 86400)
      in if 0 \<le> year \<and> year \<le> 9999 then Some (JStr (time_text True t)) else None)"

lemma civil_year: "fst (civil d) = fst (year_day d)"
  by (simp add: civil_def split: prod.split)

lemma civil_examples:
  "civil 0 = (1, 1, 1)" "civil 719162 = (1970, 1, 1)" "civil 738944 = (2024, 2, 29)"
  by (simp_all add: civil_def year_day_def month_lengths_def leap_year_def)

lemma time_text_example:
  "time_text True (1000000000 * (738944 * 86400 + 45296) + 120000000) = ''2024-02-29T12:34:56.12Z''"
  by (simp add: time_text_def civil_examples Let_def pad_int_def
      pad_nat_def trim_zeros_def format_nat.simps digit_char_def char_of_def bit_simps)

end
