(* ===== verification/Go_Time.thy ===== *)
theory Go_Time
  imports Go_Web
begin

text \<open>
  The reading of times: \<open>time.Parse\<close> for the layouts that \<open>scan.go\<close> of the Cloudflare stores tries, as
  the standard library does it (a fraction of the second may follow in every layout, the zone is
  \<open>Z\<close> or an offset), and that it reads back the text of a time of the years 0 to 9999.
\<close>

section \<open>Parts\<close>

definition is_digit :: "char \<Rightarrow> bool" where
  "is_digit c \<longleftrightarrow> char_digit c \<noteq> None"

text \<open>\<open>getnum\<close>: two digits, or one when the width is not fixed.\<close>

definition getnum :: "string \<Rightarrow> bool \<Rightarrow> (nat \<times> string) option" where
  "getnum s fixed =
     (case s of
        [] \<Rightarrow> None
      | c # cs \<Rightarrow>
          (case char_digit c of
             None \<Rightarrow> None
           | Some d \<Rightarrow>
               (case cs of
                  [] \<Rightarrow> if fixed then None else Some (d, cs)
                | c' # cs' \<Rightarrow>
                    (case char_digit c' of
                       None \<Rightarrow> if fixed then None else Some (d, cs)
                     | Some d' \<Rightarrow> Some (10 * d + d', cs')))))"

definition parse_year :: "string \<Rightarrow> (nat \<times> string) option" where
  "parse_year s =
     (if length s < 4 then None
      else case parse_digits 0 (take 4 s) of None \<Rightarrow> None | Some y \<Rightarrow> Some (y, drop 4 s))"

text \<open>\<open>skip\<close> of one character of the layout; a space skips all spaces of the value.\<close>

definition skip_char :: "char \<Rightarrow> string \<Rightarrow> string option" where
  "skip_char p s =
     (if p = CHR '' ''
        then (if s \<noteq> [] \<and> hd s \<noteq> CHR '' '' then None else Some (dropWhile (\<lambda>c. c = CHR '' '') s))
      else case s of [] \<Rightarrow> None | c # cs \<Rightarrow> if c = p then Some cs else None)"

text \<open>A number with the separator before it.\<close>

definition skip_num :: "char \<Rightarrow> bool \<Rightarrow> string \<Rightarrow> (nat \<times> string) option" where
  "skip_num p fixed s = Option.bind (skip_char p s) (\<lambda>r. getnum r fixed)"

definition parse_fraction :: "string \<Rightarrow> int \<times> string" where
  "parse_fraction s =
     (case s of
        c # cs \<Rightarrow>
          if (c = CHR ''.'' \<or> c = CHR '','') \<and> cs \<noteq> [] \<and> is_digit (hd cs)
            then (let digits = takeWhile is_digit cs; used = take 9 digits
                  in (int (the (parse_digits 0 used)) * 10 ^ (9 - length used), drop (length digits) cs))
          else (0, s)
      | [] \<Rightarrow> (0, s))"

definition parse_zone :: "string \<Rightarrow> (int \<times> string) option" where
  "parse_zone s =
     (if s \<noteq> [] \<and> hd s = CHR ''Z'' then Some (0, tl s)
      else if length s < 6 \<or> s ! 3 \<noteq> CHR '':'' then None
      else case (getnum (take 2 (drop 1 s)) True, getnum (take 2 (drop 4 s)) True) of
          (Some (hr, _), Some (mm, _)) \<Rightarrow>
            if 24 < hr \<or> 60 < mm then None
            else if hd s = CHR ''+'' then Some (int ((hr * 60 + mm) * 60), drop 6 s)
            else if hd s = CHR ''-'' then Some (- int ((hr * 60 + mm) * 60), drop 6 s)
            else None
        | _ \<Rightarrow> None)"

definition civil_day :: "int \<Rightarrow> nat \<Rightarrow> nat \<Rightarrow> int" where
  "civil_day year month day =
     days_before_year year + sum_list (take (month - 1) (month_lengths year)) + int day - 1"

definition date_time :: "nat \<Rightarrow> nat \<Rightarrow> nat \<Rightarrow> nat \<Rightarrow> nat \<Rightarrow> nat \<Rightarrow> int \<Rightarrow> int \<Rightarrow> gotime option" where
  "date_time year month day hour minute second ns offset =
     (if month < 1 \<or> 12 < month \<or> 24 \<le> hour \<or> 60 \<le> minute \<or> 60 \<le> second then None
      else if day < 1 \<or> month_lengths (int year) ! (month - 1) < int day then None
      else Some
        ((civil_day (int year) month day * 86400 + int (3600 * hour + 60 * minute + second) - offset)
           * 1000000000 + ns))"

text \<open>The layouts \<open>2006-01-02T15:04:05Z07:00\<close> with \<open>sep\<close> for \<open>T\<close>.\<close>

definition parse_civil_time :: "char \<Rightarrow> string \<Rightarrow> gotime option" where
  "parse_civil_time sep s =
     Option.bind (parse_year s) (\<lambda>(year, s).
     Option.bind (skip_num (CHR ''-'') True s) (\<lambda>(month, s).
     Option.bind (skip_num (CHR ''-'') True s) (\<lambda>(day, s).
     Option.bind (skip_num sep False s) (\<lambda>(hour, s).
     Option.bind (skip_num (CHR '':'') True s) (\<lambda>(minute, s).
     Option.bind (skip_num (CHR '':'') True s) (\<lambda>(second, s).
       let (ns, s) = parse_fraction s
       in Option.bind (parse_zone s) (\<lambda>(offset, s).
            if s \<noteq> [] then None else date_time year month day hour minute second ns offset)))))))"

section \<open>Reading back a text\<close>

lemma char_digit_less: "char_digit c = Some d \<Longrightarrow> d < 10"
  by (auto simp: char_digit_def Let_def split: if_splits)

lemma length_format_nat: "n < 10 ^ Suc w \<Longrightarrow> length (format_nat n) \<le> Suc w"
proof (induction n arbitrary: w rule: format_nat.induct)
  case (1 n)
  show ?case
  proof (cases "n < 10")
    case False
    then obtain w' where "w = Suc w'"
      using "1.prems" by (cases w) auto
    then have "length (format_nat (n div 10)) \<le> w"
      using "1.prems" False "1.IH" [of w'] by simp
    with False show ?thesis by (simp add: format_nat.simps [of n])
  qed (simp add: format_nat.simps [of n])
qed

lemma parse_zeros: "parse_digits 0 (replicate k (CHR ''0'') @ s) = parse_digits 0 s"
  by (induction k) (simp_all add: char_digit_def)

lemma pad_nat_spec:
  assumes "n < 10 ^ Suc w"
  shows "length (pad_nat (Suc w) n) = Suc w" "parse_digits 0 (pad_nat (Suc w) n) = Some n"
    "list_all is_digit (pad_nat (Suc w) n)"
proof -
  show "length (pad_nat (Suc w) n) = Suc w"
    using length_format_nat [OF assms] by (simp add: pad_nat_def)
  show "parse_digits 0 (pad_nat (Suc w) n) = Some n"
    by (simp add: pad_nat_def parse_zeros parse_format_nat)
  have "is_digit ch" if "ch \<in> set (format_nat n)" for ch
    using format_nat_digits [OF that] by (simp add: is_digit_def char_digit_def Let_def)
  then have "list_all is_digit (format_nat n)"
    by (simp add: list_all_iff)
  moreover have "is_digit (CHR ''0'')"
    by (simp add: is_digit_def char_digit_def)
  ultimately show "list_all is_digit (pad_nat (Suc w) n)"
    by (auto simp: pad_nat_def list_all_iff)
qed

lemma pad_nat_width:
  assumes "0 < w" "n < 10 ^ w"
  shows "length (pad_nat w n) = w" "parse_digits 0 (pad_nat w n) = Some n" "list_all is_digit (pad_nat w n)"
  using assms pad_nat_spec [of n "w - 1"] by simp_all

lemma getnum_pad:
  assumes "n < 100"
  shows "getnum (pad_nat 2 n @ r) fixed = Some (n, r)"
proof -
  note w = pad_nat_width [of 2 n]
  obtain c c' where p: "pad_nat 2 n = [c, c']"
    using w(1) assms by (auto simp: numeral_2_eq_2 length_Suc_conv)
  have "parse_digits 0 [c, c'] = Some n"
    using w(2) assms by (simp flip: p)
  then show ?thesis
    by (auto simp: p getnum_def split: option.splits)
qed

lemma skip_num_pad:
  "p \<noteq> CHR '' '' \<Longrightarrow> n < 100 \<Longrightarrow> skip_num p fixed (p # pad_nat 2 n @ r) = Some (n, r)"
  by (simp add: skip_num_def skip_char_def getnum_pad)

lemma parse_year_pad: "n < 10000 \<Longrightarrow> parse_year (pad_nat 4 n @ r) = Some (n, r)"
  using pad_nat_width(1,2) [of 4 n] by (simp add: parse_year_def)

text \<open>The fraction of a second: trailing zeros that were cut count as zeros.\<close>

lemma trim_zeros_split: "\<exists>k. s = trim_zeros s @ replicate k (CHR ''0'')"
proof -
  define zs where "zs = takeWhile (\<lambda>c. c = CHR ''0'') (rev s)"
  have "zs = replicate (length zs) (CHR ''0'')"
    by (rule replicate_eqI) (auto simp: zs_def dest: set_takeWhileD)
  then have zeros: "rev zs = replicate (length zs) (CHR ''0'')"
    by (metis rev_replicate)
  have "s = rev (zs @ dropWhile (\<lambda>c. c = CHR ''0'') (rev s))"
    by (simp add: zs_def)
  also have "\<dots> = trim_zeros s @ replicate (length zs) (CHR ''0'')"
    by (simp only: rev_append zeros trim_zeros_def)
  finally show ?thesis
    by blast
qed

lemma parse_more_zeros:
  "parse_digits acc (s @ replicate k (CHR ''0'')) = map_option (\<lambda>n. n * 10 ^ k) (parse_digits acc s)"
proof -
  have "parse_digits n (replicate k (CHR ''0'')) = Some (n * 10 ^ k)" for n
    by (induction k arbitrary: n) (simp_all add: char_digit_def)
  then show ?thesis
    by (simp add: parse_digits_append split: option.split)
qed

lemma parse_fraction_digits:
  assumes "list_all is_digit ds" "ds \<noteq> []" "length ds \<le> 9" "parse_digits 0 ds = Some n" "r \<noteq> []" "\<not> is_digit (hd r)"
  shows "parse_fraction (CHR ''.'' # ds @ r) = (int n * 10 ^ (9 - length ds), r)"
proof -
  have "takeWhile is_digit (ds @ r) = ds"
    using assms(1,5,6) by (cases r) (auto simp: takeWhile_append2 list_all_iff)
  then show ?thesis
    using assms by (cases ds) (auto simp: parse_fraction_def Let_def)
qed

lemma parse_fraction_none: "parse_fraction (CHR ''Z'' # r) = (0, CHR ''Z'' # r)"
  by (simp add: parse_fraction_def)

lemma parse_fraction_trimmed:
  assumes "0 < ns" "ns < 1000000000"
  shows "parse_fraction (CHR ''.'' # trim_zeros (pad_nat 9 ns) @ CHR ''Z'' # r) = (int ns, CHR ''Z'' # r)"
proof -
  let ?ds = "trim_zeros (pad_nat 9 ns)"
  have p: "length (pad_nat 9 ns) = 9" "parse_digits 0 (pad_nat 9 ns) = Some ns" "list_all is_digit (pad_nat 9 ns)"
    using pad_nat_width [of 9 ns] assms(2) by simp_all
  obtain k where k: "pad_nat 9 ns = ?ds @ replicate k (CHR ''0'')"
    using trim_zeros_split by blast
  have len: "length ?ds + k = 9"
    using arg_cong [OF k, of length] p(1) by simp
  have "parse_digits 0 (?ds @ replicate k (CHR ''0'')) = Some ns"
    using p(2) k by simp
  then obtain n where n: "parse_digits 0 ?ds = Some n" "ns = n * 10 ^ k"
    by (auto simp: parse_more_zeros)
  have ne: "?ds \<noteq> []"
    using n assms(1) by (cases ?ds) auto
  have digits: "list_all is_digit ?ds"
    using p(3) by (subst (asm) k) simp
  have "parse_fraction (CHR ''.'' # ?ds @ CHR ''Z'' # r) = (int n * 10 ^ (9 - length ?ds), CHR ''Z'' # r)"
    using len by (intro parse_fraction_digits [OF digits ne _ n(1)]) (simp_all add: is_digit_def char_digit_def)
  moreover have "9 - length ?ds = k"
    using len by simp
  ultimately show ?thesis
    by (simp add: n(2))
qed

section \<open>Dates\<close>

lemma month_day_spec:
  "0 \<le> d \<Longrightarrow> d < sum_list ls \<Longrightarrow> \<exists>i < length ls. fst (month_day m ls d) = m + int i \<and>
     d = sum_list (take i ls) + snd (month_day m ls d) - 1 \<and> 1 \<le> snd (month_day m ls d) \<and>
     snd (month_day m ls d) \<le> ls ! i"
proof (induction m ls d rule: month_day.induct)
  case (2 m l ls d)
  show ?case
  proof (cases "d < l")
    case False
    then obtain i where "i < length ls" "fst (month_day (m + 1) ls (d - l)) = m + 1 + int i"
      "d - l = sum_list (take i ls) + snd (month_day (m + 1) ls (d - l)) - 1"
      "1 \<le> snd (month_day (m + 1) ls (d - l))" "snd (month_day (m + 1) ls (d - l)) \<le> ls ! i"
      using 2 by auto
    then show ?thesis
      using False by (intro exI [of _ "Suc i"]) simp
  qed (use 2 in \<open>auto intro!: exI [of _ 0]\<close>)
qed simp

lemma civil_spec:
  assumes "civil d = (y, m, dd)"
  shows "1 \<le> m" "m \<le> 12" "1 \<le> dd" "dd \<le> month_lengths y ! (nat m - 1)" "civil_day y (nat m) (nat dd) = d"
    "dd \<le> 31"
proof -
  define yd where "yd = snd (year_day d)"
  have y: "fst (year_day d) = y"
    using civil_year [of d] assms by simp
  have "month_day 1 (month_lengths y) yd = (m, dd)"
    using assms y by (simp add: civil_def yd_def split: prod.splits)
  moreover obtain i where "i < length (month_lengths y)" "fst (month_day 1 (month_lengths y) yd) = 1 + int i"
    "yd = sum_list (take i (month_lengths y)) + snd (month_day 1 (month_lengths y) yd) - 1"
    "1 \<le> snd (month_day 1 (month_lengths y) yd)" "snd (month_day 1 (month_lengths y) yd) \<le> month_lengths y ! i"
    using month_day_spec [of yd "month_lengths y" 1] year_day_spec(2,3) [of d] y by (auto simp: yd_def)
  moreover have len: "length (month_lengths y) = 12"
    by (simp add: month_lengths_def)
  ultimately have i: "i < 12" "m = 1 + int i" "yd = sum_list (take i (month_lengths y)) + dd - 1" "1 \<le> dd"
    "dd \<le> month_lengths y ! i"
    by simp_all
  then have n: "nat m - 1 = i" by simp
  show "1 \<le> m" "m \<le> 12" "1 \<le> dd" "dd \<le> month_lengths y ! (nat m - 1)"
    using i n by simp_all
  show "civil_day y (nat m) (nat dd) = d"
    using year_day_spec(1) [of d] i n y by (simp add: civil_day_def yd_def)
  have "list_all (\<lambda>l. l \<le> 31) (month_lengths y)"
    by (simp add: month_lengths_def)
  then show "dd \<le> 31"
    using i(1,5) len by (force simp: list_all_length)
qed

section \<open>Texts of times\<close>

text \<open>The date and the time of day, in seconds, that a text of a time begins with.\<close>

definition clock_text :: "int \<Rightarrow> string" where
  "clock_text secs =
     (let (year, month, day) = civil (secs div 86400); s = secs mod 86400
      in pad_int 4 year @ ''-'' @ pad_int 2 month @ ''-'' @ pad_int 2 day @ ''T'' @
         pad_int 2 (s div 3600) @ '':'' @ pad_int 2 (s div 60 mod 60) @ '':'' @ pad_int 2 (s mod 60))"

lemma time_text_clock:
  "time_text nano t =
     clock_text (t div 1000000000) @
     (if nano \<and> t mod 1000000000 \<noteq> 0 then ''.'' @ trim_zeros (pad_int 9 (t mod 1000000000)) else []) @ ''Z''"
  by (simp add: time_text_def clock_text_def Let_def split: prod.split)

definition era :: "gotime \<Rightarrow> bool" where
  "era t \<longleftrightarrow> (let year = fst (civil (t div 1000000000 div 86400)) in 0 \<le> year \<and> year \<le> 9999)"

lemma parse_clock_text:
  assumes year: "0 \<le> fst (civil (secs div 86400))" "fst (civil (secs div 86400)) \<le> 9999"
    and fraction: "parse_fraction (frac @ ''Z'') = (ns, ''Z'')"
  shows "parse_civil_time (CHR ''T'') (clock_text secs @ frac @ ''Z'') = Some (secs * 1000000000 + ns)"
proof -
  obtain year month day where d: "civil (secs div 86400) = (year, month, day)"
    using prod_cases3 by blast
  note c = civil_spec [OF d]
  define s where "s = secs mod 86400"
  have s: "0 \<le> s" "s < 86400" "secs = secs div 86400 * 86400 + s"
    by (simp_all add: s_def)
  have small: "nat year < 10000" "nat month < 100" "nat day < 100" "nat (s div 3600) < 24"
    "nat (s div 60 mod 60) < 60" "nat (s mod 60) < 60"
    using year c s d by (simp_all add: nat_less_iff)
  have parts: "int (3600 * nat (s div 3600) + 60 * nat (s div 60 mod 60) + nat (s mod 60)) = s"
  proof -
    have "s div 3600 = s div 60 div 60"
      using zdiv_zmult2_eq [of 60 s 60] by simp
    then have "3600 * (s div 3600) + 60 * (s div 60 mod 60) + s mod 60 = s"
      using div_mult_mod_eq [of s 60] div_mult_mod_eq [of "s div 60" 60] by linarith
    then show ?thesis
      using s(1) by (simp add: pos_imp_zdiv_nonneg_iff)
  qed
  have date: "date_time (nat year) (nat month) (nat day) (nat (s div 3600)) (nat (s div 60 mod 60)) (nat (s mod 60)) ns 0 =
      Some (secs * 1000000000 + ns)"
  proof -
    have "1 \<le> nat month" "nat month \<le> 12" "1 \<le> nat day" "int (nat year) = year" "int (nat day) = day"
      using c year d by simp_all
    moreover have "day \<le> month_lengths year ! (nat month - 1)" "civil_day year (nat month) (nat day) = secs div 86400"
      using c(4,5) by simp_all
    ultimately show ?thesis
      using small s(3) c(1-3) by (simp add: date_time_def parts not_less del: of_nat_add of_nat_mult)
  qed
  have signs: "\<not> year < 0" "\<not> month < 0" "\<not> day < 0" "\<not> s div 3600 < 0" "\<not> s div 60 mod 60 < 0" "\<not> s mod 60 < 0"
    using year c d s(1) by (simp_all add: not_less pos_imp_zdiv_nonneg_iff)
  have layout: "clock_text secs @ frac @ ''Z'' =
      pad_nat 4 (nat year) @ CHR ''-'' # pad_nat 2 (nat month) @ CHR ''-'' # pad_nat 2 (nat day) @
      CHR ''T'' # pad_nat 2 (nat (s div 3600)) @ CHR '':'' # pad_nat 2 (nat (s div 60 mod 60)) @
      CHR '':'' # pad_nat 2 (nat (s mod 60)) @ frac @ ''Z''"
    unfolding clock_text_def d Let_def prod.case s_def [symmetric]
    by (simp only: pad_int_def signs if_False append_assoc append_Cons append_Nil)
  show ?thesis
    unfolding parse_civil_time_def layout using small
    by (simp add: parse_year_pad skip_num_pad fraction parse_zone_def date)
qed

text \<open>\<open>time.Parse\<close> reads back what \<open>Time.Format\<close> wrote, to the nanosecond.\<close>

lemma parse_time_text:
  assumes "era t"
  shows "parse_civil_time (CHR ''T'') (time_text True t) = Some t"
proof -
  let ?frac = "if t mod 1000000000 \<noteq> 0 then ''.'' @ trim_zeros (pad_int 9 (t mod 1000000000)) else []"
  have "parse_fraction (?frac @ ''Z'') = (t mod 1000000000, ''Z'')"
  proof (cases "t mod 1000000000 = 0")
    case False
    then have "0 < t mod 1000000000"
      using pos_mod_sign [of 1000000000 t] by linarith
    then show ?thesis
      using parse_fraction_trimmed [of "nat (t mod 1000000000)" "[]"]
      by (simp add: pad_int_def nat_less_iff)
  qed (simp add: parse_fraction_none)
  then have "parse_civil_time (CHR ''T'') (clock_text (t div 1000000000) @ ?frac @ ''Z'') =
      Some (t div 1000000000 * 1000000000 + t mod 1000000000)"
    using assms by (intro parse_clock_text) (simp_all add: era_def Let_def)
  then show ?thesis
    by (simp add: time_text_clock)
qed

text \<open>\<open>Date.prototype.toISOString\<close>: three digits of the second, and a signed year beyond four digits.\<close>

definition to_ms :: "gotime \<Rightarrow> gotime" where
  "to_ms t = t - t mod 1000000"

definition toISOString :: "gotime \<Rightarrow> string" where
  "toISOString t =
     (let year = fst (civil (t div 1000000000 div 86400));
          ms = t mod 1000000000 div 1000000;
          clock = clock_text (t div 1000000000)
      in (if 0 \<le> year \<and> year \<le> 9999 then clock
          else (if year < 0 then ''-'' else ''+'') @ pad_nat 6 (nat \<bar>year\<bar>) @ drop (length (pad_int 4 year)) clock) @
         ''.'' @ pad_nat 3 (nat ms) @ ''Z'')"

lemma to_ms_parts: "to_ms t = t div 1000000000 * 1000000000 + t mod 1000000000 div 1000000 * 1000000"
proof -
  have "t mod 1000000000 mod 1000000 = t mod 1000000"
    by (rule mod_mod_cancel) simp
  then show ?thesis
    using div_mult_mod_eq [of t 1000000000] div_mult_mod_eq [of "t mod 1000000000" 1000000]
    unfolding to_ms_def by linarith
qed

lemma parse_iso_text:
  assumes "era t"
  shows "parse_civil_time (CHR ''T'') (toISOString t) = Some (to_ms t)"
proof -
  let ?ms = "nat (t mod 1000000000 div 1000000)"
  have ms: "?ms < 10 ^ 3" and pos: "0 \<le> t mod 1000000000 div 1000000"
    by (simp_all add: nat_less_iff pos_imp_zdiv_nonneg_iff)
  note w = pad_nat_width [OF _ ms, simplified]
  have "parse_fraction ((''.'' @ pad_nat 3 ?ms) @ ''Z'') = (int ?ms * 10 ^ (9 - length (pad_nat 3 ?ms)), ''Z'')"
    using parse_fraction_digits [OF w(3) _ _ w(2), of "''Z''"] w(1)
    by (cases "pad_nat 3 ?ms") (simp_all add: is_digit_def char_digit_def)
  then have "parse_civil_time (CHR ''T'') (clock_text (t div 1000000000) @ (''.'' @ pad_nat 3 ?ms) @ ''Z'') =
      Some (t div 1000000000 * 1000000000 + int ?ms * 1000000)"
    using assms w(1) by (intro parse_clock_text) (simp_all add: era_def Let_def)
  then show ?thesis
    using assms pos by (simp add: toISOString_def era_def Let_def to_ms_parts)
qed

end
