(* ===== verification/Cf_Database.thy ===== *)
theory Cf_Database
  imports Cf_Stores Go_Time
begin

text \<open>
  The database behind the bridge: the same PostgreSQL database and the same effect of a statement as
  for the native stores (\<open>Sql_Db\<close> and the statements of the stores), reached with arguments and rows
  that are values of the bridge. How a column becomes a value is a parameter (\<open>Columns\<close>), and so is
  which error a failed statement reports; \<open>postgres_columns\<close> states what the scan needs of them: a
  time of the years 0 to 9999 is seen at the resolution that the bridge has. The state is the world
  with the database at the start of the open transaction, which a rollback restores.
\<close>

section \<open>Columns and parameters\<close>

record Columns =
  col_int64 :: "int64 \<Rightarrow> go_value"
  col_int32 :: "int32 \<Rightarrow> go_value"
  col_text :: "string \<Rightarrow> go_value"
  col_time :: "gotime \<Rightarrow> go_value"
  col_report :: "sql_error \<Rightarrow> cf_error"

definition col_null :: "('a \<Rightarrow> go_value) \<Rightarrow> 'a option \<Rightarrow> go_value" where
  "col_null col v = (case v of None \<Rightarrow> GoNil | Some x \<Rightarrow> col x)"

datatype param = PInt64 | PInt32 | PText | PNullText | PTime | PNullTime

fun fits :: "param \<Rightarrow> go_value \<Rightarrow> bool" where
  "fits PInt64 v = (case v of GoInt64 _ \<Rightarrow> True | GoInt _ \<Rightarrow> True | _ \<Rightarrow> False)"
| "fits PInt32 v = (case v of GoInt32 _ \<Rightarrow> True | _ \<Rightarrow> False)"
| "fits PText v = (case v of GoText _ \<Rightarrow> True | _ \<Rightarrow> False)"
| "fits PNullText v = (case v of GoText _ \<Rightarrow> True | GoNil \<Rightarrow> True | _ \<Rightarrow> False)"
| "fits PTime v = (case v of GoTime _ \<Rightarrow> True | _ \<Rightarrow> False)"
| "fits PNullTime v = (case v of GoTime _ \<Rightarrow> True | GoNil \<Rightarrow> True | _ \<Rightarrow> False)"

text \<open>The parameters of each query, in the order of its placeholders.\<close>

fun params :: "query \<Rightarrow> param list" where
  "params QSelectIssued = [PInt64]"
| "params QCompleteAllocation = [PInt64, PText, PText, PText, PText, PNullText, PText, PTime]"
| "params QMarkDerivationFailed = [PInt64, PNullText]"
| "params QSelectFailed = [PText, PText]"
| "params QReopen = [PInt64, PInt64, PNullText]"
| "params QEnsureCursor = [PText, PText]"
| "params QSelectCursor = [PText, PText]"
| "params QInsertAllocation = [PText, PText, PInt64, PInt64, PNullText]"
| "params QAdvanceCursor = [PText, PText]"
| "params QSelectKey = [PText, PText]"
| "params QInsertKey = [PText, PText, PText, PInt64, PNullText]"
| "params QCompleteKey = [PText, PText, PInt64]"
| "params QDeleteKey = [PText, PText]"
| "params QInsertTracking =
     [PInt64, PText, PText, PText, PText, PNullText, PTime, PNullTime, PInt64, PInt32, PText, PInt64, PInt64,
      PInt64, PInt64, PNullTime, PNullTime, PNullTime, PNullText, PTime]"
| "params (QClaimTrackings clause chainIndex networkIndex) =
     [PTime, PInt64, PTime] @ replicate (chainIndex - 4) PText @ [PText, PText]"
| "params QSaveTracking =
     [PInt64, PText, PInt64, PInt64, PInt64, PInt64, PNullTime, PNullTime, PNullTime, PNullTime, PNullText,
      PTime, PTime]"
| "params QEnqueue = [PInt64, PText, PText, PInt64, PInt64, PInt64, PTime]"
| "params QClaimNotifications = [PTime, PInt64, PTime]"
| "params QSaveSent = [PInt64, PTime]"
| "params QSavePending = [PInt64, PInt32, PTime, PText]"
| "params QSaveFailed = [PInt64, PInt32, PText]"
| "params QSelectStatus = [PText, PInt64]"

definition to_int64 :: "go_value \<Rightarrow> int64" where
  "to_int64 v = (case v of GoInt64 x \<Rightarrow> x | GoInt x \<Rightarrow> x | _ \<Rightarrow> 0)"

definition to_int32 :: "go_value \<Rightarrow> int32" where
  "to_int32 v = (case v of GoInt32 x \<Rightarrow> x | _ \<Rightarrow> 0)"

definition to_null_text :: "go_value \<Rightarrow> string option" where
  "to_null_text v = (case v of GoText s \<Rightarrow> Some s | _ \<Rightarrow> None)"

definition to_text :: "go_value \<Rightarrow> string" where
  "to_text v = coalesce (to_null_text v)"

definition to_null_time :: "go_value \<Rightarrow> gotime option" where
  "to_null_time v = (case v of GoTime t \<Rightarrow> Some t | _ \<Rightarrow> None)"

definition to_time :: "go_value \<Rightarrow> gotime" where
  "to_time v = (case to_null_time v of None \<Rightarrow> 0 | Some t \<Rightarrow> t)"

lemma to_simps [simp]:
  "to_int64 (GoInt64 x) = x" "to_int64 (GoInt x) = x" "to_int32 (GoInt32 y) = y"
  "to_null_text (GoText s) = Some s" "to_null_text GoNil = None" "to_text (GoText s) = s"
  "to_null_time (GoTime t) = Some t" "to_null_time GoNil = None" "to_time (GoTime t) = t"
  by (simp_all add: to_int64_def to_int32_def to_null_text_def to_text_def to_null_time_def to_time_def)

lemma null_args [simp]:
  "to_null_text (cf_nullIfEmpty s) = nullIfEmpty s" "fits PNullText (cf_nullIfEmpty s)"
  "to_null_time (nullableTimePointer t) = t" "fits PNullTime (nullableTimePointer t)"
  by (auto simp: cf_nullIfEmpty_def nullIfEmpty_def Let_def nullableTimePointer_def split: option.split)

declare fits.simps(4,6) [simp del]

section \<open>Rows\<close>

definition issued_columns :: "Columns \<Rightarrow> AllocRow \<Rightarrow> go_value list" where
  "issued_columns c r =
     [col_int64 c (al_id r), col_text c (al_policy r), col_int64 c (word_of_int (al_slot r)),
      col_int64 c (al_expected r), col_text c (coalesce (al_customer r)), col_text c (coalesce (al_chain r)),
      col_text c (coalesce (al_network r)), col_text c (coalesce (al_scheme r)),
      col_text c (coalesce (al_asset r)), col_text c (coalesce (al_address r)),
      col_text c (coalesce (al_failure r))]"

definition key_columns :: "Columns \<Rightarrow> KeyRow \<Rightarrow> go_value list" where
  "key_columns c r =
     [col_text c (ik_chain r), col_text c (ik_policy r), col_int64 c (ik_expected r),
      col_text c (coalesce (ik_customer r)), col_null (col_int64 c) (ik_payment_address_id r)]"

definition tracking_columns :: "Columns \<Rightarrow> TrackRow \<Rightarrow> go_value list" where
  "tracking_columns c r =
     [col_int64 c (pt_id r), col_int64 c (pt_payment_address_id r), col_text c (pt_policy r),
      col_text c (pt_chain r), col_text c (pt_network r), col_text c (pt_address r),
      col_null (col_time c) (pt_issued_at r), col_int64 c (pt_expected r), col_int32 c (pt_confirmations r),
      col_text c (pt_status r), col_int64 c (pt_observed r), col_int64 c (pt_confirmed r),
      col_int64 c (pt_unconfirmed r), col_int64 c (pt_height r), col_null (col_time c) (pt_first_observed_at r),
      col_null (col_time c) (pt_paid_at r), col_null (col_time c) (pt_confirmed_at r),
      col_time c (pt_expires_at r), col_text c (coalesce (pt_last_error r)), col_text c (coalesce (pt_asset r))]"

definition notification_columns :: "Columns \<Rightarrow> NotifRow \<times> string \<Rightarrow> go_value list" where
  "notification_columns c rp =
     (let r = fst rp
      in [col_int64 c (nt_id r), col_int64 c (nt_payment_address_id r), col_text c (snd rp),
          col_text c (coalesce (nt_customer r)), col_text c (nt_previous r), col_text c (nt_current r),
          col_int64 c (nt_observed r), col_int64 c (nt_confirmed r), col_int64 c (nt_unconfirmed r),
          col_time c (nt_changed_at r), col_text c (nt_status r), col_int32 c (nt_attempts r),
          col_time c (nt_next_attempt_at r), col_text c (coalesce (nt_last_error r)),
          col_null (col_time c) (nt_delivered_at r)])"

definition status_columns :: "Columns \<Rightarrow> AllocRow \<times> TrackRow option \<Rightarrow> go_value list" where
  "status_columns c ap =
     (let a = fst ap; pr = snd ap;
          joined = (\<lambda>col. case pr of None \<Rightarrow> GoNil | Some r \<Rightarrow> col r)
      in [col_int64 c (al_id a), col_text c (al_policy a), col_int64 c (al_expected a),
          col_text c (coalesce (al_customer a)), col_text c (coalesce (al_chain a)),
          col_text c (coalesce (al_network a)), col_text c (coalesce (al_scheme a)),
          col_text c (coalesce (al_address a)), col_null (col_time c) (al_issued_at a),
          joined (\<lambda>r. col_int64 c (pt_id r)), joined (\<lambda>r. col_int32 c (pt_confirmations r)),
          joined (\<lambda>r. col_text c (pt_status r)), joined (\<lambda>r. col_int64 c (pt_observed r)),
          joined (\<lambda>r. col_int64 c (pt_confirmed r)), joined (\<lambda>r. col_int64 c (pt_unconfirmed r)),
          joined (\<lambda>r. col_int64 c (pt_height r)), joined (\<lambda>r. col_null (col_time c) (pt_first_observed_at r)),
          joined (\<lambda>r. col_null (col_time c) (pt_paid_at r)),
          joined (\<lambda>r. col_null (col_time c) (pt_confirmed_at r)),
          joined (\<lambda>r. col_time c (pt_expires_at r)), joined (\<lambda>r. col_null (col_text c) (pt_last_error r))])"

section \<open>Statements\<close>

text \<open>The claim of trackings with its filters as they are passed.\<close>

definition pg_tracking_due ::
  "gotime \<Rightarrow> string list \<Rightarrow> string \<Rightarrow> string \<Rightarrow> (int64 \<Rightarrow> bool) \<Rightarrow> TrackRow \<Rightarrow> bool" where
  "pg_tracking_due now statuses chain network locked r \<longleftrightarrow>
     pt_next_poll_at r \<le> now \<and>
     (case pt_lease_until r of None \<Rightarrow> True | Some until \<Rightarrow> until \<le> now) \<and>
     pt_status r \<in> set statuses \<and> (chain = [] \<or> pt_chain r = chain) \<and>
     (network = [] \<or> pt_network r = network) \<and> \<not> locked (pt_id r)"

definition pg_claim_trackings ::
  "gotime \<Rightarrow> int64 \<Rightarrow> gotime \<Rightarrow> string list \<Rightarrow> string \<Rightarrow> string \<Rightarrow> (int64 \<Rightarrow> bool) \<Rightarrow> TrackRow list stmt" where
  "pg_claim_trackings now limit until statuses chain network locked tx d =
     (let due = first_due pt_next_poll_at pt_id limit
            (filter (pg_tracking_due now statuses chain network locked) (db_trackings d))
      in put_trackings
           (update_where (\<lambda>r. pt_id r \<in> set (map pt_id due)) (\<lambda>r. r\<lparr>pt_lease_until := Some until\<rparr>)
              (db_trackings d))
           (map (\<lambda>r. r\<lparr>pt_lease_until := Some until\<rparr>) due) d)"

definition arg_allocation :: "int64 \<Rightarrow> string \<Rightarrow> string \<Rightarrow> string \<Rightarrow> string \<Rightarrow> PaymentAddressAllocationRecord" where
  "arg_allocation pid chain network scheme address =
     \<lparr>ar_PaymentAddressID = pid, ar_AddressPolicyID = [], ar_SlotIndex = 0, ar_ExpectedAmountMinor = 0,
      ar_CustomerReference = [], ar_Status = [], ar_Chain = chain, ar_Network = network, ar_Scheme = scheme,
      ar_AssetReference = [], ar_Address = address, ar_DerivationFailureReason = []\<rparr>"

text \<open>The columns that an insert of a tracking writes; those of an update are a part of them.\<close>

definition inserted_tracking :: "(nat \<Rightarrow> go_value) \<Rightarrow> PaymentReceiptTrackingRecord" where
  "inserted_tracking a =
     \<lparr>tr_TrackingID = 0, tr_PaymentAddressID = to_int64 (a 0), tr_AddressPolicyID = to_text (a 1),
      tr_Chain = to_text (a 2), tr_Network = to_text (a 3), tr_Address = to_text (a 4),
      tr_AssetReference = coalesce (to_null_text (a 5)), tr_IssuedAt = to_time (a 6),
      tr_ExpectedAmountMinor = to_int64 (a 8), tr_RequiredConfirmations = to_int32 (a 9),
      tr_Status = to_text (a 10), tr_ObservedTotalMinor = to_int64 (a 11),
      tr_ConfirmedTotalMinor = to_int64 (a 12), tr_UnconfirmedTotalMinor = to_int64 (a 13),
      tr_LastObservedBlockHeight = to_int64 (a 14), tr_FirstObservedAt = to_null_time (a 15),
      tr_PaidAt = to_null_time (a 16), tr_ConfirmedAt = to_null_time (a 17),
      tr_ExpiresAt = to_null_time (a 7), tr_LastFailureReason = coalesce (to_null_text (a 18))\<rparr>"

definition updated_tracking :: "(nat \<Rightarrow> go_value) \<Rightarrow> PaymentReceiptTrackingRecord" where
  "updated_tracking a =
     \<lparr>tr_TrackingID = 0, tr_PaymentAddressID = to_int64 (a 0), tr_AddressPolicyID = [],
      tr_Chain = [], tr_Network = [], tr_Address = [], tr_AssetReference = [], tr_IssuedAt = 0,
      tr_ExpectedAmountMinor = 0, tr_RequiredConfirmations = 0,
      tr_Status = to_text (a 1), tr_ObservedTotalMinor = to_int64 (a 2),
      tr_ConfirmedTotalMinor = to_int64 (a 3), tr_UnconfirmedTotalMinor = to_int64 (a 4),
      tr_LastObservedBlockHeight = to_int64 (a 5), tr_FirstObservedAt = to_null_time (a 6),
      tr_PaidAt = to_null_time (a 7), tr_ConfirmedAt = to_null_time (a 8),
      tr_ExpiresAt = to_null_time (a 9), tr_LastFailureReason = coalesce (to_null_text (a 10))\<rparr>"

definition event_of_args :: "(nat \<Rightarrow> go_value) \<Rightarrow> PaymentReceiptStatusChangedRecord" where
  "event_of_args a =
     \<lparr>scr_PaymentAddressID = to_int64 (a 0), scr_PreviousStatus = to_text (a 1),
      scr_CurrentStatus = to_text (a 2), scr_ObservedTotalMinor = to_int64 (a 3),
      scr_ConfirmedTotalMinor = to_int64 (a 4), scr_UnconfirmedTotalMinor = to_int64 (a 5),
      scr_StatusChangedAt = to_time (a 6)\<rparr>"

definition answered :: "Columns \<Rightarrow> ('a \<Rightarrow> 'b) \<Rightarrow> (sql_error + 'a) \<times> World \<Rightarrow> (cf_error + 'b) \<times> World" where
  "answered c f r = (case r of (Inl err, w) \<Rightarrow> (Inl (col_report c err), w) | (Inr x, w) \<Rightarrow> (Inr (f x), w))"

text \<open>
  A statement that returns no rows. The count of the two statements on a cursor and of the claim of a
  key is not read by the stores.
\<close>

definition pg_exec :: "Columns \<Rightarrow> Env \<Rightarrow> query \<Rightarrow> go_value list \<Rightarrow> World \<Rightarrow> (cf_error + nat) \<times> World" where
  "pg_exec c env q args w =
     (if \<not> list_all2 fits (params q) args then (Inl CfOther, tick w)
      else
        (let a = (\<lambda>i. args ! i); affected = answered c (\<lambda>n. n); done = answered c (\<lambda>_. 1)
         in case q of
             QCompleteAllocation \<Rightarrow>
               affected (exec_sql env
                 (sql_complete_allocation
                    (arg_allocation (to_int64 (a 0)) (to_text (a 1)) (to_text (a 2)) (to_text (a 3)) (to_text (a 4)))
                    (to_null_text (a 5)) (to_text (a 6)) (to_time (a 7))) w)
           | QMarkDerivationFailed \<Rightarrow>
               affected (exec_sql env (sql_mark_derivation_failed (to_int64 (a 0)) (to_null_text (a 1))) w)
           | QReopen \<Rightarrow>
               affected (exec_sql env (sql_reopen (to_int64 (a 0)) (to_int64 (a 1)) (to_null_text (a 2))) w)
           | QEnsureCursor \<Rightarrow> done (exec_sql env (sql_ensure_cursor (to_text (a 0)) (to_text (a 1))) w)
           | QAdvanceCursor \<Rightarrow> done (exec_sql env (sql_advance_cursor (to_text (a 0)) (to_text (a 1))) w)
           | QInsertKey \<Rightarrow>
               done (exec_sql env
                 (sql_insert_key (to_text (a 0)) (to_text (a 1)) (to_text (a 2)) (to_int64 (a 3))
                    (to_null_text (a 4))) w)
           | QCompleteKey \<Rightarrow>
               affected (exec_sql env (sql_complete_key (to_text (a 0)) (to_text (a 1)) (to_int64 (a 2))) w)
           | QDeleteKey \<Rightarrow> affected (exec_sql env (sql_delete_key (to_text (a 0)) (to_text (a 1))) w)
           | QInsertTracking \<Rightarrow>
               affected (exec_sql env (sql_insert_tracking (inserted_tracking a) (to_time (a 19))) w)
           | QSaveTracking \<Rightarrow>
               affected (exec_sql env
                 (sql_save_tracking (updated_tracking a) (to_time (a 11)) (to_time (a 12))) w)
           | QEnqueue \<Rightarrow> affected (exec_sql env (sql_enqueue (event_of_args a)) w)
           | QSaveSent \<Rightarrow>
               affected (exec_sql env (sql_update_notification (to_int64 (a 0)) (set_sent (to_time (a 1)))) w)
           | QSavePending \<Rightarrow>
               affected (exec_sql env
                 (sql_update_notification (to_int64 (a 0))
                    (set_pending (to_int32 (a 1)) (to_time (a 2)) (to_text (a 3)))) w)
           | QSaveFailed \<Rightarrow>
               affected (exec_sql env
                 (sql_update_notification (to_int64 (a 0)) (set_failed (to_int32 (a 1)) (to_text (a 2)))) w)
           | _ \<Rightarrow> (Inl CfOther, tick w)))"

definition pg_query ::
  "Columns \<Rightarrow> Env \<Rightarrow> query \<Rightarrow> go_value list \<Rightarrow> World \<Rightarrow> (cf_error + go_value list list) \<times> World" where
  "pg_query c env q args w =
     (if \<not> list_all2 fits (params q) args then (Inl CfOther, tick w)
      else
        (let a = (\<lambda>i. args ! i); locked = env_locked env (w_step w)
         in case q of
             QClaimTrackings clause chainIndex networkIndex \<Rightarrow>
               if clause \<noteq> buildSequentialPlaceholders 4 (chainIndex - 4) \<or> networkIndex \<noteq> chainIndex + 1
                 then (Inl CfOther, tick w)
               else answered c (map (tracking_columns c))
                 (exec_sql env
                    (pg_claim_trackings (to_time (a 0)) (to_int64 (a 1)) (to_time (a 2))
                       (map to_text (take (chainIndex - 4) (drop 3 args)))
                       (to_text (a (chainIndex - 1))) (to_text (a (networkIndex - 1))) locked) w)
           | QClaimNotifications \<Rightarrow>
               answered c (map (notification_columns c))
                 (exec_sql env
                    (sql_claim_notifications (to_time (a 0)) (to_int64 (a 1)) (to_time (a 2)) locked) w)
           | _ \<Rightarrow> (Inl CfOther, tick w)))"

definition pg_query_row ::
  "Columns \<Rightarrow> Env \<Rightarrow> query \<Rightarrow> go_value list \<Rightarrow> World \<Rightarrow> (cf_error + go_value list option) \<times> World" where
  "pg_query_row c env q args w =
     (if \<not> list_all2 fits (params q) args then (Inl CfOther, tick w)
      else
        (let a = (\<lambda>i. args ! i); slot = (\<lambda>n. col_int64 c (word_of_int n))
         in case q of
             QSelectIssued \<Rightarrow>
               answered c (map_option (issued_columns c)) (exec_sql env (sql_select_issued (to_int64 (a 0))) w)
           | QSelectFailed \<Rightarrow>
               answered c (map_option (\<lambda>(pid, n). [col_int64 c pid, slot n]))
                 (exec_sql env (sql_select_failed (env_locked env (w_step w)) (to_text (a 0)) (to_text (a 1))) w)
           | QSelectCursor \<Rightarrow>
               answered c (map_option (\<lambda>n. [slot n]))
                 (exec_sql env (sql_select_cursor (to_text (a 0)) (to_text (a 1))) w)
           | QInsertAllocation \<Rightarrow>
               answered c (\<lambda>pid. Some [col_int64 c pid])
                 (exec_sql env
                    (sql_insert_allocation (to_text (a 0)) (to_text (a 1)) (sint (to_int64 (a 2)))
                       (to_int64 (a 3)) (to_null_text (a 4))) w)
           | QSelectKey \<Rightarrow>
               answered c (map_option (key_columns c))
                 (exec_sql env (sql_select_key (to_text (a 0)) (to_text (a 1))) w)
           | QSelectStatus \<Rightarrow>
               answered c (map_option (status_columns c))
                 (exec_sql env (sql_select_status (to_text (a 0)) (to_int64 (a 1))) w)
           | _ \<Rightarrow> (Inl CfOther, tick w)))"

section \<open>The bridge\<close>

definition on_world :: "(World \<Rightarrow> 'a \<times> World) \<Rightarrow> World \<times> DB \<Rightarrow> 'a \<times> World \<times> DB" where
  "on_world f s = (case f (fst s) of (r, w) \<Rightarrow> (r, (w, snd s)))"

text \<open>
  \<open>acks\<close> says whether the answer to a rollback arrives; the transaction is rolled back in any case.
\<close>

definition pg_bridge :: "Columns \<Rightarrow> Env \<Rightarrow> (nat \<Rightarrow> bool) \<Rightarrow> (World \<times> DB) PgBridge" where
  "pg_bridge c env acks =
     \<lparr>pgb_BeginTx = (\<lambda>_ (w, snap).
        if env_fault env (w_step w) then (Inl CfOther, (tick w, snap))
        else (let w1 = begin_tx env w in (Inr ''tx'', (w1, w_db w1)))),
      pgb_CommitTx = (\<lambda>_ _ (w, snap).
        case env_commit env (w_step w) of
          Committed \<Rightarrow> (Inr (), (tick w, snap))
        | Aborted \<Rightarrow> (Inl CfOther, ((tick w)\<lparr>w_db := keep_sequences snap (w_db w)\<rparr>, snap))
        | CommittedUnacknowledged \<Rightarrow> (Inl CfOther, (tick w, snap))),
      pgb_RollbackTx = (\<lambda>_ _ (w, snap).
        (if acks (w_step w) then Inr () else Inl CfOther, (w\<lparr>w_db := keep_sequences snap (w_db w)\<rparr>, snap))),
      pgb_Exec = (\<lambda>_ _ q args. on_world (pg_exec c env q args)),
      pgb_Query = (\<lambda>_ _ q args. on_world (pg_query c env q args)),
      pgb_QueryRow = (\<lambda>_ _ q args. on_world (pg_query_row c env q args))\<rparr>"

definition serves :: "Columns \<Rightarrow> Env \<Rightarrow> (World \<times> DB) bridgeExecutor \<Rightarrow> bool" where
  "serves c env e \<longleftrightarrow> (\<exists>acks. bex_bridge e = Some (pg_bridge c env acks))"

lemma on_world_run [simp]: "on_world f (w, snap) = (fst (f w), (snd (f w), snap))"
  by (simp add: on_world_def split: prod.split)

lemma served_exec:
  assumes "serves c env e"
  shows "ExecContext e q args (w, snap) = on_world (pg_exec c env q args) (w, snap)"
    "QueryContext e q args (w, snap) = on_world (pg_query c env q args) (w, snap)"
    "QueryRowContext e q args (w, snap) =
       on_world (\<lambda>w. case pg_query_row c env q args w of
          (Inl err, w1) \<Rightarrow> (Inl err, w1) | (Inr None, w1) \<Rightarrow> (Inl ErrNoRows, w1)
        | (Inr (Some row), w1) \<Rightarrow> (Inr row, w1)) (w, snap)"
  using assms
  by (auto simp: serves_def ExecContext_def QueryContext_def QueryRowContext_def pg_bridge_def
      split: prod.split sum.split option.split)

section \<open>Times as they are seen\<close>

text \<open>
  A bridge may see a time at a lower resolution; \<open>seen\<close> is what it sees of it. The rows of the
  database are of the years that all layouts can write.
\<close>

definition era_opt :: "gotime option \<Rightarrow> bool" where
  "era_opt v = (case v of None \<Rightarrow> True | Some t \<Rightarrow> era t)"

definition track_era :: "TrackRow \<Rightarrow> bool" where
  "track_era r \<longleftrightarrow> era_opt (pt_issued_at r) \<and> era (pt_expires_at r) \<and> era_opt (pt_first_observed_at r) \<and>
     era_opt (pt_paid_at r) \<and> era_opt (pt_confirmed_at r)"

definition notif_era :: "NotifRow \<Rightarrow> bool" where
  "notif_era r \<longleftrightarrow> era (nt_changed_at r) \<and> era (nt_next_attempt_at r) \<and> era_opt (nt_delivered_at r)"

definition db_era :: "DB \<Rightarrow> bool" where
  "db_era d \<longleftrightarrow> list_all track_era (db_trackings d) \<and> list_all notif_era (db_notifications d) \<and>
     list_all (\<lambda>r. era_opt (al_issued_at r)) (db_allocations d)"

definition see_tracking :: "(gotime \<Rightarrow> gotime) \<Rightarrow> PaymentReceiptTrackingRecord \<Rightarrow> PaymentReceiptTrackingRecord" where
  "see_tracking seen t =
     t\<lparr>tr_IssuedAt := seen (tr_IssuedAt t), tr_FirstObservedAt := map_option seen (tr_FirstObservedAt t),
       tr_PaidAt := map_option seen (tr_PaidAt t), tr_ConfirmedAt := map_option seen (tr_ConfirmedAt t),
       tr_ExpiresAt := map_option seen (tr_ExpiresAt t)\<rparr>"

definition see_message :: "(gotime \<Rightarrow> gotime) \<Rightarrow> OutboxMessage \<Rightarrow> OutboxMessage" where
  "see_message seen m =
     m\<lparr>msg_StatusChangedAt := seen (msg_StatusChangedAt m), msg_NextAttemptAt := seen (msg_NextAttemptAt m),
       msg_DeliveredAt := map_option seen (msg_DeliveredAt m)\<rparr>"

definition see_status :: "(gotime \<Rightarrow> gotime) \<Rightarrow> PaymentAddressStatusRecord \<Rightarrow> PaymentAddressStatusRecord" where
  "see_status seen r =
     r\<lparr>psr_IssuedAt := seen (psr_IssuedAt r), psr_FirstObservedAt := map_option seen (psr_FirstObservedAt r),
       psr_PaidAt := map_option seen (psr_PaidAt r), psr_ConfirmedAt := map_option seen (psr_ConfirmedAt r),
       psr_ExpiresAt := map_option seen (psr_ExpiresAt r)\<rparr>"

definition see_result :: "('a \<Rightarrow> 'b) \<Rightarrow> 'e + 'a \<Rightarrow> 'e + 'b" where
  "see_result f r = (case r of Inl err \<Rightarrow> Inl err | Inr x \<Rightarrow> Inr (f x))"

definition seeing :: "('a \<Rightarrow> 'b) \<Rightarrow> (World \<Rightarrow> ('e + 'a) \<times> World) \<Rightarrow> World \<Rightarrow> ('e + 'b) \<times> World" where
  "seeing f m w = (see_result f (fst (m w)), snd (m w))"

lemma see_result_simps [simp]: "see_result f (Inl err) = Inl err" "see_result f (Inr x) = Inr (f x)"
  by (simp_all add: see_result_def)

section \<open>What the scan needs of the columns\<close>

locale postgres_columns =
  fixes c :: Columns and lib :: ScanLib and seen :: "gotime \<Rightarrow> gotime"
  assumes int64_read: "asInt64 (col_int64 c x) = Inr x"
    and int32_read: "asInt64 (col_int32 c y) = Inr (scast y)"
    and text_read: "asString lib (col_text c s) = Inr s" "col_text c s \<noteq> GoNil"
    and time_read: "era t \<Longrightarrow> asTime lib (col_time c t) = Inr (seen t)"
    and seen_zero: "seen 0 = 0"
    and duplicate_reported: "isUniqueViolation (col_report c err) constraint \<longleftrightarrow> err = UniqueViolation constraint"
    and rows_reported: "col_report c err \<noteq> ErrNoRows"
begin

lemma not_nil: "col_int64 c x \<noteq> GoNil" "col_int32 c y \<noteq> GoNil" "era t \<Longrightarrow> col_time c t \<noteq> GoNil"
  using int64_read [of x] int32_read [of y] time_read [of t] by (auto simp: asInt64_def asTime_def)

lemma assigned [simp]:
  "assignValue lib ToString (col_text c s) = Inr (ScString s)"
  "assignValue lib ToInt64 (col_int64 c x) = Inr (ScInt64 x)"
  "assignValue lib ToInt32 (col_int32 c y) = Inr (ScInt32 y)"
  "assignValue lib ToNullString (col_text c s) = Inr (ScNullString (Some s))"
  "assignValue lib ToNullString (col_null (col_text c) s') = Inr (ScNullString s')"
  "assignValue lib ToNullInt64 (col_int64 c x) = Inr (ScNullInt64 (Some x))"
  "assignValue lib ToNullInt64 (col_null (col_int64 c) x') = Inr (ScNullInt64 x')"
  "assignValue lib ToNullInt32 (col_int32 c y) = Inr (ScNullInt32 (Some y))"
proof -
  have "ucast (scast y :: int64) = y" for y :: int32
    by transfer (simp add: take_bit_signed_take_bit)
  note reads = int64_read int32_read text_read not_nil(1,2) this
  show "assignValue lib ToString (col_text c s) = Inr (ScString s)"
    "assignValue lib ToInt64 (col_int64 c x) = Inr (ScInt64 x)"
    "assignValue lib ToInt32 (col_int32 c y) = Inr (ScInt32 y)"
    "assignValue lib ToNullString (col_text c s) = Inr (ScNullString (Some s))"
    "assignValue lib ToNullString (col_null (col_text c) s') = Inr (ScNullString s')"
    "assignValue lib ToNullInt64 (col_int64 c x) = Inr (ScNullInt64 (Some x))"
    "assignValue lib ToNullInt64 (col_null (col_int64 c) x') = Inr (ScNullInt64 x')"
    "assignValue lib ToNullInt32 (col_int32 c y) = Inr (ScNullInt32 (Some y))"
    by (auto simp: if_null_def reads col_null_def split: option.split)
qed

lemma assigned_time [simp]:
  "era t \<Longrightarrow> assignValue lib ToNullTime (col_time c t) = Inr (ScNullTime (Some (seen t)))"
  "era_opt t' \<Longrightarrow> assignValue lib ToNullTime (col_null (col_time c) t') = Inr (ScNullTime (map_option seen t'))"
  "era t \<Longrightarrow> assignValue lib ToTime (col_time c t) = Inr (ScTime (seen t))"
  by (auto simp: if_null_def time_read not_nil(3) col_null_def era_opt_def split: option.splits)

text \<open>Rows read back column by column.\<close>

lemma scan_issued:
  "scanValues lib (issued_columns c r) issued_dests =
     Inr [ScInt64 (al_id r), ScString (al_policy r), ScInt64 (word_of_int (al_slot r)), ScInt64 (al_expected r),
       ScString (coalesce (al_customer r)), ScString (coalesce (al_chain r)), ScString (coalesce (al_network r)),
       ScString (coalesce (al_scheme r)), ScString (coalesce (al_asset r)), ScString (coalesce (al_address r)),
       ScString (coalesce (al_failure r))]"
  by (simp add: scanValues_def issued_columns_def issued_dests_def del: assignValue.simps)

lemma scan_key_columns:
  "scanValues lib (key_columns c r) [ToString, ToString, ToInt64, ToString, ToNullInt64] =
     Inr [ScString (ik_chain r), ScString (ik_policy r), ScInt64 (ik_expected r),
       ScString (coalesce (ik_customer r)), ScNullInt64 (ik_payment_address_id r)]"
  by (simp add: scanValues_def key_columns_def del: assignValue.simps)

lemma scan_tracking_columns:
  "track_era r \<Longrightarrow> scanValues lib (tracking_columns c r) tracking_dests =
     Inr [ScInt64 (pt_id r), ScInt64 (pt_payment_address_id r), ScString (pt_policy r), ScString (pt_chain r),
       ScString (pt_network r), ScString (pt_address r), ScNullTime (map_option seen (pt_issued_at r)), ScInt64 (pt_expected r),
       ScInt32 (pt_confirmations r), ScString (pt_status r), ScInt64 (pt_observed r), ScInt64 (pt_confirmed r),
       ScInt64 (pt_unconfirmed r), ScInt64 (pt_height r), ScNullTime (map_option seen (pt_first_observed_at r)),
       ScNullTime (map_option seen (pt_paid_at r)), ScNullTime (map_option seen (pt_confirmed_at r)), ScNullTime (Some (seen (pt_expires_at r))),
       ScString (coalesce (pt_last_error r)), ScString (coalesce (pt_asset r))]"
  by (simp add: scanValues_def tracking_columns_def tracking_dests_def track_era_def del: assignValue.simps)

lemma scan_notification_columns:
  "notif_era r \<Longrightarrow> scanValues lib (notification_columns c (r, p)) notification_dests =
     Inr [ScInt64 (nt_id r), ScInt64 (nt_payment_address_id r), ScString p, ScString (coalesce (nt_customer r)),
       ScString (nt_previous r), ScString (nt_current r), ScInt64 (nt_observed r), ScInt64 (nt_confirmed r),
       ScInt64 (nt_unconfirmed r), ScTime (seen (nt_changed_at r)), ScString (nt_status r), ScInt32 (nt_attempts r),
       ScTime (seen (nt_next_attempt_at r)), ScString (coalesce (nt_last_error r)), ScNullTime (map_option seen (nt_delivered_at r))]"
  by (simp add: scanValues_def notification_columns_def notification_dests_def notif_era_def Let_def
      del: assignValue.simps)

end

end
