(* ===== verification/Cf_Refinement.thy ===== *)
theory Cf_Refinement
  imports Cf_Database
begin

text \<open>
  The two builds store the same: on the same database, every method of the Cloudflare stores gives the
  result of the method of the native store, its times as the bridge sees them, and leaves the same
  database, and so does a transaction.
\<close>

declare nullIfEmpty_trim [simp]

section \<open>Statements are the same\<close>

lemma same_claim_trackings:
  "sql_claim_trackings input locked =
     pg_claim_trackings (ctr_Now input) (ctr_Limit input) (ctr_ClaimUntil input) (ctr_Statuses input)
       (to_lower (trim_space (ctr_Chain input))) (to_lower (trim_space (ctr_Network input))) locked"
proof -
  have "tracking_due input locked =
      pg_tracking_due (ctr_Now input) (ctr_Statuses input) (to_lower (trim_space (ctr_Chain input)))
        (to_lower (trim_space (ctr_Network input))) locked"
    by (rule ext) (simp add: tracking_due_def pg_tracking_due_def Let_def)
  then show ?thesis
    by (intro ext) (simp add: sql_claim_trackings_def pg_claim_trackings_def due_trackings_def)
qed

lemma same_complete_allocation:
  "sql_complete_allocation
     (arg_allocation (ar_PaymentAddressID a) (ar_Chain a) (ar_Network a) (ar_Scheme a) (trim_space (ar_Address a)))
     asset sweep issuedAt = sql_complete_allocation a asset sweep issuedAt"
  by (simp add: fun_eq_iff sql_complete_allocation_def arg_allocation_def)

definition tracking_insert_args :: "PaymentReceiptTrackingRecord \<Rightarrow> gotime \<Rightarrow> go_value list" where
  "tracking_insert_args t nextPollAt =
     [GoInt64 (tr_PaymentAddressID t), GoText (tr_AddressPolicyID t), GoText (tr_Chain t),
      GoText (tr_Network t), GoText (tr_Address t),
      cf_nullIfEmpty (trim_space (tr_AssetReference t)), GoTime (tr_IssuedAt t),
      nullableTimePointer (tr_ExpiresAt t), GoInt64 (tr_ExpectedAmountMinor t),
      GoInt32 (tr_RequiredConfirmations t), GoText (tr_Status t),
      GoInt64 (tr_ObservedTotalMinor t), GoInt64 (tr_ConfirmedTotalMinor t),
      GoInt64 (tr_UnconfirmedTotalMinor t), GoInt64 (tr_LastObservedBlockHeight t),
      nullableTimePointer (tr_FirstObservedAt t), nullableTimePointer (tr_PaidAt t),
      nullableTimePointer (tr_ConfirmedAt t), cf_nullIfEmpty (tr_LastFailureReason t),
      GoTime nextPollAt]"

lemma same_insert_tracking:
  "sql_insert_tracking (inserted_tracking (\<lambda>i. tracking_insert_args t n ! i)) n = sql_insert_tracking t n"
proof -
  have "track_row_of (inserted_tracking (\<lambda>i. tracking_insert_args t n ! i)) i e n = track_row_of t i e n" for i e
    by (simp add: track_row_of_def inserted_tracking_def tracking_insert_args_def)
  moreover have "tr_ExpiresAt (inserted_tracking (\<lambda>i. tracking_insert_args t n ! i)) = tr_ExpiresAt t"
    "tr_PaymentAddressID (inserted_tracking (\<lambda>i. tracking_insert_args t n ! i)) = tr_PaymentAddressID t"
    by (simp_all add: inserted_tracking_def tracking_insert_args_def)
  ultimately show ?thesis
    by (simp add: fun_eq_iff sql_insert_tracking_def Let_def split: option.split)
qed

definition tracking_save_args :: "PaymentReceiptTrackingRecord \<Rightarrow> gotime \<Rightarrow> gotime \<Rightarrow> go_value list" where
  "tracking_save_args t polledAt nextPollAt =
     [GoInt64 (tr_PaymentAddressID t), GoText (tr_Status t), GoInt64 (tr_ObservedTotalMinor t),
      GoInt64 (tr_ConfirmedTotalMinor t), GoInt64 (tr_UnconfirmedTotalMinor t),
      GoInt64 (tr_LastObservedBlockHeight t), nullableTimePointer (tr_FirstObservedAt t),
      nullableTimePointer (tr_PaidAt t), nullableTimePointer (tr_ConfirmedAt t),
      nullableTimePointer (tr_ExpiresAt t), cf_nullIfEmpty (tr_LastFailureReason t),
      GoTime polledAt, GoTime nextPollAt]"

lemma same_save_tracking:
  "sql_save_tracking (updated_tracking (\<lambda>i. tracking_save_args t p n ! i)) p n = sql_save_tracking t p n"
proof -
  have "saved_row (updated_tracking (\<lambda>i. tracking_save_args t p n ! i)) e p n = saved_row t e p n" for e
    by (rule ext) (simp add: saved_row_def updated_tracking_def tracking_save_args_def)
  moreover have "tr_ExpiresAt (updated_tracking (\<lambda>i. tracking_save_args t p n ! i)) = tr_ExpiresAt t"
    "tr_PaymentAddressID (updated_tracking (\<lambda>i. tracking_save_args t p n ! i)) = tr_PaymentAddressID t"
    by (simp_all add: updated_tracking_def tracking_save_args_def)
  ultimately show ?thesis
    by (intro ext) (simp add: sql_save_tracking_def Let_def split: option.split)
qed

lemma event_of_args_id:
  "event_of_args (\<lambda>i. [GoInt64 (scr_PaymentAddressID e), GoText (scr_PreviousStatus e),
     GoText (scr_CurrentStatus e), GoInt64 (scr_ObservedTotalMinor e), GoInt64 (scr_ConfirmedTotalMinor e),
     GoInt64 (scr_UnconfirmedTotalMinor e), GoTime (scr_StatusChangedAt e)] ! i) = e"
  by (simp add: event_of_args_def)

section \<open>Methods that only count rows\<close>

lemma rows_affected_answered:
  "rows_affected failed none (fst (answered c (\<lambda>n. n) p), (snd (answered c (\<lambda>n. n) p), snap)) =
     on_world (\<lambda>w. case p of (Inl _, w1) \<Rightarrow> (Inl failed, w1)
       | (Inr n, w1) \<Rightarrow> if n = 0 then (Inl none, w1) else (Inr (), w1)) (w, snap)"
  by (auto simp: rows_affected_def answered_def split: prod.split sum.split)

lemma ensure_answered:
  "cf_ensureNotificationRowsAffected (fst (answered c (\<lambda>n. n) p), (snd (answered c (\<lambda>n. n) p), snap)) =
     on_world (\<lambda>w. ensureNotificationRowsAffected p) (w, snap)"
  by (auto simp: cf_ensureNotificationRowsAffected_def ensureNotificationRowsAffected_def answered_def
      split: prod.split sum.split)

lemma sint_slot: "0 \<le> n \<Longrightarrow> n \<le> maxSlotIndex + 1 \<Longrightarrow> sint (word_of_int n :: int64) = n"
  by (rule sint_word_of_int64) (simp_all add: maxSlotIndex_def)

lemma slot_word: "ucast (word_of_int n :: int64) = (word_of_int n :: 32 word)"
  by transfer simp

lemma map_results_see:
  "(\<And>x. x \<in> set xs \<Longrightarrow> f (g x) = see_result h (k x)) \<Longrightarrow>
     map_results f (map g xs) = see_result (map h) (map_results k xs)"
  by (induction xs) (simp_all split: sum.split)

text \<open>The rows that a claim returns are rows of the database under a lease.\<close>

lemma claimed_trackings_era:
  assumes "exec_sql env (sql_claim_trackings input locked) w = (Inr rows, w1)" "db_era (w_db w)" "r \<in> set rows"
  shows "track_era r"
proof -
  obtain x where "x \<in> set (db_trackings (w_db w))" "r = x\<lparr>pt_lease_until := Some (ctr_ClaimUntil input)\<rparr>"
    using assms(1,3) first_due_due by (fastforce simp: exec_sql_Inr_iff sql_claim_trackings_def Let_def put_Inr_iff)
  then show ?thesis
    using assms(2) by (simp add: db_era_def list_all_iff track_era_def)
qed

lemma claimed_notifications_era:
  assumes "exec_sql env (sql_claim_notifications now limit until locked) w = (Inr rows, w1)" "db_era (w_db w)"
    "rp \<in> set rows"
  shows "notif_era (fst rp)"
proof -
  obtain d where "sql_claim_notifications now limit until locked (w_now w) (w_db w) = (Inr rows, d)"
    using assms(1) by (auto simp: exec_sql_Inr_iff)
  from sql_claim_notifications_Inr [OF this] obtain x where "x \<in> set (due_notifications now limit locked (w_db w))"
    "fst rp = x\<lparr>nt_lease_until := Some until\<rparr>"
    using assms(3) by (force simp: claimed_notifications_def List.map_filter_def)
  then show ?thesis
    using assms(2) due_notification_due by (fastforce simp: db_era_def list_all_iff notif_era_def)
qed

lemma fits_texts: "list_all2 fits (replicate (length xs) PText) (map GoText xs)"
  by (induction xs) auto

lemma row_cases:
  fixes r :: "'e + 'a option"
  obtains (failed) err where "r = Inl err" | (none) "r = Inr None" | (row) x where "r = Inr (Some x)"
proof (cases r)
  case (Inr y)
  then show thesis by (cases y) (auto intro: none row)
qed (rule failed)

section \<open>Every method\<close>

context postgres_columns
begin

lemma same_Complete:
  assumes "serves c env e"
  shows "Cf_AllocationStore_Complete e input (w, snap) = on_world (AllocationStore_Complete env input) (w, snap)"
  by (simp add: Cf_AllocationStore_Complete_def AllocationStore_Complete_def served_exec [OF assms] pg_exec_def
      same_complete_allocation rows_affected_def answered_def Let_def split: prod.split sum.split)

lemma same_MarkDerivationFailed:
  assumes "serves c env e"
  shows "Cf_AllocationStore_MarkDerivationFailed e a (w, snap) =
    on_world (AllocationStore_MarkDerivationFailed env a) (w, snap)"
  by (simp add: Cf_AllocationStore_MarkDerivationFailed_def AllocationStore_MarkDerivationFailed_def
      served_exec [OF assms] pg_exec_def rows_affected_def answered_def Let_def split: prod.split sum.split)

lemma same_key_updates:
  assumes "serves c env e"
  shows "Cf_IdempotencyStore_Complete e chain key pid (w, snap) =
      on_world (IdempotencyStore_Complete env chain key pid) (w, snap)"
    and "Cf_IdempotencyStore_Release e chain key (w, snap) =
      on_world (IdempotencyStore_Release env chain key) (w, snap)"
  by (simp_all add: Cf_IdempotencyStore_Complete_def IdempotencyStore_Complete_def Cf_IdempotencyStore_Release_def
      IdempotencyStore_Release_def served_exec [OF assms] pg_exec_def rows_affected_def answered_def Let_def
      split: prod.split sum.split)

lemma same_Claim:
  assumes "serves c env e"
  shows "Cf_IdempotencyStore_Claim e input (w, snap) = on_world (IdempotencyStore_Claim env input) (w, snap)"
proof -
  have "isUniqueViolation (col_report c err) cf_pkName = isPaymentAddressIdempotencyDuplicateKey err" for err
    by (simp add: duplicate_reported isPaymentAddressIdempotencyDuplicateKey_def cf_pkName_def pkName_def
        split: sql_error.split)
  then show ?thesis
    by (simp add: Cf_IdempotencyStore_Claim_def IdempotencyStore_Claim_def served_exec [OF assms] pg_exec_def
        answered_def Let_def split: prod.split sum.split option.split)
qed

lemma same_FindByKey:
  assumes "serves c env e"
  shows "Cf_IdempotencyStore_FindByKey lib e chain key (w, snap) =
    on_world (IdempotencyStore_FindByKey env chain key) (w, snap)"
proof -
  obtain r w1 where x: "exec_sql env (sql_select_key chain (trim_space key)) w = (r, w1)"
    by force
  show ?thesis
    by (cases r rule: row_cases)
      (simp_all add: Cf_IdempotencyStore_FindByKey_def IdempotencyStore_FindByKey_def served_exec [OF assms] x
        pg_query_row_def answered_def Let_def row_Scan_def scan_key_columns scan_key_def rows_reported
        cong: option.case_cong split: option.split)
qed

lemma same_tracking_updates:
  assumes "serves c env e"
  shows "Cf_TrackingStore_Create e t n (w, snap) = on_world (TrackingStore_Create env t n) (w, snap)"
    and "Cf_TrackingStore_Save e t p n (w, snap) = on_world (TrackingStore_Save env t p n) (w, snap)"
proof -
  have "list_all2 fits (params QInsertTracking) (tracking_insert_args t n)"
    "list_all2 fits (params QSaveTracking) (tracking_save_args t p n)"
    by (simp_all add: tracking_insert_args_def tracking_save_args_def)
  moreover have "to_time (tracking_insert_args t n ! 19) = n" "to_time (tracking_save_args t p n ! 11) = p"
    "to_time (tracking_save_args t p n ! 12) = n"
    by (simp_all add: tracking_insert_args_def tracking_save_args_def)
  ultimately show "Cf_TrackingStore_Create e t n (w, snap) = on_world (TrackingStore_Create env t n) (w, snap)"
    "Cf_TrackingStore_Save e t p n (w, snap) = on_world (TrackingStore_Save env t p n) (w, snap)"
    unfolding Cf_TrackingStore_Create_def Cf_TrackingStore_Save_def tracking_insert_args_def [symmetric]
      tracking_save_args_def [symmetric]
    by (simp_all add: TrackingStore_Create_def TrackingStore_Save_def served_exec [OF assms] pg_exec_def
        same_insert_tracking same_save_tracking rows_affected_def answered_def Let_def del: params.simps
        split: prod.split sum.split)
qed

lemma same_scan_tracking:
  assumes "track_era r"
  shows "cf_scanPaymentReceiptTracking lib (tracking_columns c r) =
    see_result (see_tracking seen) (scanPaymentReceiptTracking r)"
  by (simp add: cf_scanPaymentReceiptTracking_def scanPaymentReceiptTracking_def scan_tracking_columns [OF assms]
      see_tracking_def seen_zero split: option.split)

lemma same_scan_message:
  assumes "notif_era (fst rp)"
  shows "cf_scanOutboxMessage lib (notification_columns c rp) = see_result (see_message seen) (scanOutboxMessage rp)"
  using assms by (cases rp) (simp add: cf_scanOutboxMessage_def scanOutboxMessage_def scan_notification_columns
      see_message_def Let_def split: option.split)

lemma same_ClaimDue:
  assumes "serves c env e" and "db_era (w_db w)"
  shows "Cf_TrackingStore_ClaimDue lib e input (w, snap) =
    on_world (seeing (map (see_tracking seen)) (TrackingStore_ClaimDue env input)) (w, snap)"
proof -
  let ?n = "length (ctr_Statuses input)"
  let ?args = "[GoTime (ctr_Now input), GoInt (ctr_Limit input), GoTime (ctr_ClaimUntil input)] @
      map GoText (ctr_Statuses input) @
      [GoText (to_lower (trim_space (ctr_Chain input))), GoText (to_lower (trim_space (ctr_Network input)))]"
  have fits: "list_all2 fits (params (QClaimTrackings clause (4 + ?n) i)) ?args" for clause i
    using fits_texts [of "ctr_Statuses input"] by (simp add: list_all2_appendI)
  have args: "?args ! (4 + ?n - 1) = GoText (to_lower (trim_space (ctr_Chain input)))"
    "?args ! (4 + ?n + 1 - 1) = GoText (to_lower (trim_space (ctr_Network input)))"
    "map to_text (take (4 + ?n - 4) (drop 3 ?args)) = ctr_Statuses input"
    by (simp_all add: nth_append comp_def)
  have q: "pg_query c env (QClaimTrackings (buildSequentialPlaceholders 4 ?n) (4 + ?n) (4 + ?n + 1)) ?args w =
      answered c (map (tracking_columns c)) (exec_sql env (sql_claim_trackings input (env_locked env (w_step w))) w)"
    using fits args by (simp add: pg_query_def same_claim_trackings Let_def del: params.simps)
  obtain r w1 where x: "exec_sql env (sql_claim_trackings input (env_locked env (w_step w))) w = (r, w1)"
    by force
  have "map_results (cf_scanPaymentReceiptTracking lib) (map (tracking_columns c) rows) =
      see_result (map (see_tracking seen)) (map_results scanPaymentReceiptTracking rows)" if "r = Inr rows" for rows
    using claimed_trackings_era [OF x [unfolded that] assms(2)] by (intro map_results_see same_scan_tracking)
  with q x show ?thesis
    by (cases r) (simp_all add: Cf_TrackingStore_ClaimDue_def TrackingStore_ClaimDue_def served_exec [OF assms(1)]
        Let_def answered_def seeing_def del: append.simps append_Cons)
qed

lemma same_FindIssuedByID:
  assumes "serves c env e" and "schema_ok (w_db w)"
  shows "Cf_AllocationStore_FindIssuedByID lib e pid (w, snap) =
    on_world (AllocationStore_FindIssuedByID env pid) (w, snap)"
proof -
  obtain r w1 where x: "exec_sql env (sql_select_issued pid) w = (r, w1)"
    by force
  have slot: "sint (word_of_int (al_slot a) :: int64) = al_slot a" if "r = Inr (Some a)" for a
  proof (rule sint_slot)
    have "a \<in> set (db_allocations (w_db w))"
      using x that by (auto simp: exec_sql_Inr_iff sql_select_issued_def find_Some_iff)
    then show "0 \<le> al_slot a" "al_slot a \<le> maxSlotIndex + 1"
      using assms(2) by (auto simp: schema_ok_def allocations_ok_def list_all_iff alloc_row_ok_def maxSlotIndex_def)
  qed
  show ?thesis
    by (cases r rule: row_cases)
      (simp_all add: Cf_AllocationStore_FindIssuedByID_def AllocationStore_FindIssuedByID_def served_exec [OF assms(1)] x
        pg_query_row_def answered_def Let_def row_Scan_def scan_issued scan_issued_allocation_def rows_reported slot
        slot_word cong: option.case_cong split: option.split)
qed

lemma same_outbox:
  assumes "serves c env e"
  shows "Cf_Outbox_EnqueueStatusChanged e event (w, snap) =
      on_world (Outbox_EnqueueStatusChanged env event) (w, snap)"
    and "Cf_Outbox_SaveDeliveryResult e res (w, snap) = on_world (Outbox_SaveDeliveryResult env res) (w, snap)"
proof -
  show "Cf_Outbox_EnqueueStatusChanged e event (w, snap) = on_world (Outbox_EnqueueStatusChanged env event) (w, snap)"
    by (simp add: Cf_Outbox_EnqueueStatusChanged_def Outbox_EnqueueStatusChanged_def served_exec [OF assms] pg_exec_def
        event_of_args_id cf_ensureNotificationRowsAffected_def answered_def Let_def
        split: prod.split sum.split)
  show "Cf_Outbox_SaveDeliveryResult e res (w, snap) = on_world (Outbox_SaveDeliveryResult env res) (w, snap)"
    by (simp add: Cf_Outbox_SaveDeliveryResult_def Outbox_SaveDeliveryResult_def served_exec [OF assms] pg_exec_def
        cf_ensureNotificationRowsAffected_def ensureNotificationRowsAffected_def answered_def Let_def
        split: prod.split sum.split option.split)
qed

lemma same_ClaimPending:
  assumes "serves c env e" and "db_era (w_db w)"
  shows "Cf_Outbox_ClaimPending lib e now limit until (w, snap) =
    on_world (seeing (map (see_message seen)) (Outbox_ClaimPending env now limit until)) (w, snap)"
proof -
  obtain r w1 where x: "exec_sql env (sql_claim_notifications now limit until (env_locked env (w_step w))) w = (r, w1)"
    by force
  have "map_results (cf_scanOutboxMessage lib) (map (notification_columns c) rows) =
      see_result (map (see_message seen)) (map_results scanOutboxMessage rows)" if "r = Inr rows" for rows
    using claimed_notifications_era [OF x [unfolded that] assms(2)] by (intro map_results_see same_scan_message)
  with x show ?thesis
    by (cases r) (simp_all add: Cf_Outbox_ClaimPending_def Outbox_ClaimPending_def served_exec [OF assms(1)]
        pg_query_def answered_def Let_def seeing_def)
qed

lemma reserved_slot:
  assumes "0 \<le> n" "n \<le> maxSlotIndex + 1"
  shows "cf_reserved_record pid policy (word_of_int n) expected customer = reserved_record pid policy n expected customer"
  by (simp add: cf_reserved_record_def reserved_record_def slot_word)

lemma same_ReopenFailedReservation:
  assumes "serves c env e" and "schema_ok (w_db w)"
  shows "Cf_AllocationStore_ReopenFailedReservation lib e input (w, snap) =
    on_world (AllocationStore_ReopenFailedReservation env input) (w, snap)"
proof -
  let ?stmt = "sql_select_failed (env_locked env (w_step w)) (ipr_AddressPolicyID (rin_IssuancePolicy input))
      (trim_space (ipr_AddressSpaceRef (rin_IssuancePolicy input)))"
  obtain r w1 where x: "exec_sql env ?stmt w = (r, w1)"
    by force
  have slot: "0 \<le> n \<and> n \<le> maxSlotIndex" if "r = Inr (Some (pid, n))" for pid n
  proof -
    have "exec_sql env ?stmt w = (Inr (Some (pid, n)), w1)"
      using x that by simp
    then obtain p rest a where "sort_key al_reserved_at (sort_key (\<lambda>r. sint (al_id r))
        (filter p (db_allocations (w_db w)))) = a # rest" and "al_slot a = n"
      unfolding exec_sql_Inr_iff sql_select_failed_def by (auto split: list.splits)
    then have "a \<in> set (filter p (db_allocations (w_db w)))" "al_slot a = n"
      by (metis list.set_intros(1) set_sort)+
    then have "\<exists>a \<in> set (db_allocations (w_db w)). al_slot a = n"
      by auto
    then show ?thesis
      using assms(2) by (auto simp: schema_ok_def allocations_ok_def list_all_iff alloc_row_ok_def maxSlotIndex_def)
  qed
  show ?thesis
  proof (cases r rule: row_cases)
    case (row y)
    obtain pid n where y: "y = (pid, n)" by force
    with slot row have n: "0 \<le> n" "n \<le> maxSlotIndex" by auto
    obtain r2 w2 where x2: "exec_sql env (sql_reopen pid (rin_ExpectedAmountMinor input)
        (nullIfEmpty (rin_CustomerReference input))) w1 = (r2, w2)"
      by force
    have scan: "scanValues lib [col_int64 c pid, col_int64 c (word_of_int n)] [ToInt64, ToInt64] =
        Inr [ScInt64 pid, ScInt64 (word_of_int n)]"
      by (simp add: scanValues_def del: assignValue.simps)
    show ?thesis
      using n by (cases r2)
        (simp_all add: Cf_AllocationStore_ReopenFailedReservation_def AllocationStore_ReopenFailedReservation_def
          served_exec [OF assms(1)] x x2 row y pg_query_row_def pg_exec_def answered_def Let_def row_Scan_def scan
          sint_slot reserved_slot)
  qed (simp_all add: Cf_AllocationStore_ReopenFailedReservation_def AllocationStore_ReopenFailedReservation_def
      served_exec [OF assms(1)] x pg_query_row_def answered_def Let_def row_Scan_def rows_reported)
qed

text \<open>
  A fresh reservation runs four statements; the cursor it reads is one that the schema allows.
\<close>

lemma scan_one: "scanValues lib [col_int64 c x] [ToInt64] = Inr [ScInt64 x]"
  by (simp add: scanValues_def del: assignValue.simps)

lemma cursor_bounds:
  assumes "schema_ok (w_db w)"
    and "exec_sql env (sql_ensure_cursor policy space) w = (Inr u, w1)"
    and "exec_sql env (sql_select_cursor policy space) w1 = (Inr (Some n), w2)"
  shows "0 \<le> n \<and> n \<le> maxSlotIndex + 1"
proof -
  have "cursors_ok (db_cursors (w_db w1))"
    using assms(1,2)
    by (auto simp: exec_sql_Inr_iff sql_ensure_cursor_def put_Inr_iff schema_ok_def split: if_splits)
  moreover obtain r where "r \<in> set (db_cursors (w_db w1))" "cu_next r = n"
    using assms(3) by (auto simp: exec_sql_Inr_iff sql_select_cursor_def find_Some_iff) (metis nth_mem)
  ultimately show ?thesis
    by (auto simp: cursors_ok_def list_all_iff maxSlotIndex_def)
qed

lemma same_ReserveFresh:
  assumes "serves c env e" and "schema_ok (w_db w)"
  shows "Cf_AllocationStore_ReserveFresh lib e input (w, snap) =
    on_world (AllocationStore_ReserveFresh env input) (w, snap)"
proof -
  let ?p = "ipr_AddressPolicyID (rin_IssuancePolicy input)"
    and ?sp = "trim_space (ipr_AddressSpaceRef (rin_IssuancePolicy input))"
  note methods = Cf_AllocationStore_ReserveFresh_def AllocationStore_ReserveFresh_def served_exec [OF assms(1)]
    pg_query_row_def pg_exec_def answered_def Let_def row_Scan_def scan_one
  obtain r1 w1 where x1: "exec_sql env (sql_ensure_cursor ?p ?sp) w = (r1, w1)" by force
  obtain r2 w2 where x2: "exec_sql env (sql_select_cursor ?p ?sp) w1 = (r2, w2)" by force
  show ?thesis
  proof (cases r1)
    case (Inr u)
    show ?thesis
    proof (cases r2 rule: row_cases)
      case (row n)
      have n: "0 \<le> n" "n \<le> maxSlotIndex + 1"
        using cursor_bounds [OF assms(2)] x1 x2 Inr row by auto
      obtain r3 w3 where x3: "exec_sql env (sql_insert_allocation ?p ?sp n (rin_ExpectedAmountMinor input)
          (nullIfEmpty (rin_CustomerReference input))) w2 = (r3, w3)"
        by force
      obtain r4 w4 where x4: "exec_sql env (sql_advance_cursor ?p ?sp) w3 = (r4, w4)" by force
      show ?thesis
        using n by (cases r3; cases r4) (simp_all add: methods x1 x2 x3 x4 Inr row sint_slot reserved_slot)
    qed (simp_all add: methods x1 x2 Inr)
  qed (simp add: methods x1)
qed

lemma joined_null:
  "assignValue lib ToNullInt64 GoNil = Inr (ScNullInt64 None)" "assignValue lib ToNullInt32 GoNil = Inr (ScNullInt32 None)"
  "assignValue lib ToNullString GoNil = Inr (ScNullString None)" "assignValue lib ToNullTime GoNil = Inr (ScNullTime None)"
  by (simp_all add: if_null_def)

lemma scan_status_columns:
  assumes "era_opt (al_issued_at a)" "\<And>r. pr = Some r \<Longrightarrow> track_era r"
  shows "scanValues lib (status_columns c (a, pr)) status_dests =
     Inr [ScInt64 (al_id a), ScString (al_policy a), ScInt64 (al_expected a), ScString (coalesce (al_customer a)),
       ScString (coalesce (al_chain a)), ScString (coalesce (al_network a)), ScString (coalesce (al_scheme a)),
       ScString (coalesce (al_address a)), ScNullTime (map_option seen (al_issued_at a)),
       ScNullInt64 (map_option pt_id pr), ScNullInt32 (map_option pt_confirmations pr),
       ScNullString (map_option pt_status pr), ScNullInt64 (map_option pt_observed pr),
       ScNullInt64 (map_option pt_confirmed pr), ScNullInt64 (map_option pt_unconfirmed pr),
       ScNullInt64 (map_option pt_height pr), ScNullTime (map_option seen (Option.bind pr pt_first_observed_at)),
       ScNullTime (map_option seen (Option.bind pr pt_paid_at)),
       ScNullTime (map_option seen (Option.bind pr pt_confirmed_at)),
       ScNullTime (map_option (seen \<circ> pt_expires_at) pr), ScNullString (Option.bind pr pt_last_error)]"
  using assms by (cases pr) (simp_all add: scanValues_def status_columns_def status_dests_def Let_def joined_null
      track_era_def del: assignValue.simps)

lemma same_scan_status:
  assumes "era_opt (al_issued_at a)" "\<And>r. pr = Some r \<Longrightarrow> track_era r"
  shows "\<exists>v. scanValues lib (status_columns c (a, pr)) status_dests = Inr v \<and>
    cf_scan_status v = see_result (map_option (see_status seen)) (scan_status a pr)"
proof (rule exI, rule conjI, rule scan_status_columns [OF assms])
  show "cf_scan_status [ScInt64 (al_id a), ScString (al_policy a), ScInt64 (al_expected a),
       ScString (coalesce (al_customer a)), ScString (coalesce (al_chain a)), ScString (coalesce (al_network a)),
       ScString (coalesce (al_scheme a)), ScString (coalesce (al_address a)),
       ScNullTime (map_option seen (al_issued_at a)), ScNullInt64 (map_option pt_id pr),
       ScNullInt32 (map_option pt_confirmations pr), ScNullString (map_option pt_status pr),
       ScNullInt64 (map_option pt_observed pr), ScNullInt64 (map_option pt_confirmed pr),
       ScNullInt64 (map_option pt_unconfirmed pr), ScNullInt64 (map_option pt_height pr),
       ScNullTime (map_option seen (Option.bind pr pt_first_observed_at)),
       ScNullTime (map_option seen (Option.bind pr pt_paid_at)),
       ScNullTime (map_option seen (Option.bind pr pt_confirmed_at)),
       ScNullTime (map_option (seen \<circ> pt_expires_at) pr), ScNullString (Option.bind pr pt_last_error)] =
     see_result (map_option (see_status seen)) (scan_status a pr)"
    by (cases pr; cases "al_issued_at a")
      (simp_all add: cf_scan_status_def scan_status_def see_status_def split: option.split)
qed

lemma same_FindByID:
  assumes "serves c env e" and "db_era (w_db w)"
  shows "Cf_StatusFinder_FindByID lib e chain pid (w, snap) =
    on_world (seeing (map_option (see_status seen)) (StatusFinder_FindByID env chain pid)) (w, snap)"
proof -
  obtain r w1 where x: "exec_sql env (sql_select_status chain pid) w = (r, w1)"
    by force
  show ?thesis
  proof (cases r rule: row_cases)
    case (row y)
    obtain a pr where y: "y = (a, pr)" by force
    have "a \<in> set (db_allocations (w_db w))" "pr = Some t \<Longrightarrow> t \<in> set (db_trackings (w_db w))" for t
      using x row y by (auto simp: exec_sql_Inr_iff sql_select_status_def find_Some_iff)
    then obtain v where "scanValues lib (status_columns c (a, pr)) status_dests = Inr v"
      "cf_scan_status v = see_result (map_option (see_status seen)) (scan_status a pr)"
      using same_scan_status [of a pr] assms(2) by (auto simp: db_era_def list_all_iff)
    then show ?thesis
      by (simp add: Cf_StatusFinder_FindByID_def StatusFinder_FindByID_def served_exec [OF assms(1)] x row y
          pg_query_row_def answered_def Let_def row_Scan_def seeing_def)
  qed (simp_all add: Cf_StatusFinder_FindByID_def StatusFinder_FindByID_def served_exec [OF assms(1)] x
      pg_query_row_def answered_def Let_def row_Scan_def seeing_def rows_reported)
qed

end

end
