(* ===== verification/Cf_JsBridge.thy ===== *)
theory Cf_JsBridge
  imports Cf_Refinement Go_Web
begin

text \<open>
  The bridge of \<open>internal/infrastructure/cloudflarepostgres/js_bridge_js_wasm.go\<close>: arguments become
  JavaScript values, the promise of a call is awaited, and its rows become values of the scan. The
  functions on the JavaScript side are a record of parameters; a rejected promise carries the
  \<open>message\<close>, \<open>code\<close> and \<open>constraint\<close> of its reason. A cancelled context is left out.
\<close>

section \<open>Values\<close>

datatype js_value =
  JsUndefined | JsNull | JsBool bool | JsNumber rat | JsString string | JsDate gotime | JsObject

text \<open>\<open>Value.String\<close>; a date is an object, and it is read as its ISO text, which has milliseconds.\<close>

definition js_text :: "ScanLib \<Rightarrow> js_value \<Rightarrow> string" where
  "js_text lib v =
     (case v of
        JsUndefined \<Rightarrow> ''<undefined>''
      | JsNull \<Rightarrow> ''<null>''
      | JsBool b \<Rightarrow> (if b then ''<boolean: true>'' else ''<boolean: false>'')
      | JsNumber x \<Rightarrow> ''<number: '' @ scl_FormatFloat lib x @ ''>''
      | JsString s \<Rightarrow> s
      | JsDate _ \<Rightarrow> ''<object>''
      | JsObject \<Rightarrow> ''<object>'')"

definition js_truthy :: "js_value \<Rightarrow> bool" where
  "js_truthy v =
     (case v of
        JsUndefined \<Rightarrow> False | JsNull \<Rightarrow> False | JsBool b \<Rightarrow> b | JsNumber x \<Rightarrow> x \<noteq> 0 | JsString s \<Rightarrow> s \<noteq> []
      | JsDate _ \<Rightarrow> True | JsObject \<Rightarrow> True)"

text \<open>\<open>sprint\<close> is \<open>fmt.Sprint\<close>, for the values that no store passes.\<close>

definition normalizeArg :: "(go_value \<Rightarrow> string) \<Rightarrow> go_value \<Rightarrow> js_value" where
  "normalizeArg sprint value =
     (case value of
        GoNil \<Rightarrow> JsNull
      | GoText typed \<Rightarrow> JsString typed
      | GoInt typed \<Rightarrow> JsNumber (of_int (sint typed))
      | GoInt32 typed \<Rightarrow> JsNumber (of_int (sint typed))
      | GoInt64 typed \<Rightarrow> JsString (format_int typed)
      | GoTime typed \<Rightarrow> JsString (time_text True typed)
      | _ \<Rightarrow> JsString (sprint value))"

definition jsArgs :: "(go_value \<Rightarrow> string) \<Rightarrow> go_value list \<Rightarrow> js_value list" where
  "jsArgs sprint args = map (normalizeArg sprint) args"

definition jsValueToGo :: "ScanLib \<Rightarrow> js_value \<Rightarrow> go_value" where
  "jsValueToGo lib value =
     (case value of
        JsUndefined \<Rightarrow> GoNil
      | JsNull \<Rightarrow> GoNil
      | JsBool b \<Rightarrow> GoBool b
      | JsNumber x \<Rightarrow> GoFloat x
      | JsString s \<Rightarrow> GoText s
      | JsDate t \<Rightarrow> GoText (toISOString t)
      | JsObject \<Rightarrow> GoText (js_text lib value))"

text \<open>A row that is null or undefined has no values.\<close>

definition jsRowToGo :: "ScanLib \<Rightarrow> js_value list option \<Rightarrow> go_value list" where
  "jsRowToGo lib row = (case row of None \<Rightarrow> [] | Some values \<Rightarrow> map (jsValueToGo lib) values)"

definition jsRowsToGo :: "ScanLib \<Rightarrow> js_value list option list \<Rightarrow> go_value list list" where
  "jsRowsToGo lib rows = map (jsRowToGo lib) rows"

text \<open>The reason of a rejected promise: nothing, or an object with three properties.\<close>

datatype js_reason = NoReason | Reason js_value js_value js_value

definition jsError :: "ScanLib \<Rightarrow> js_reason \<Rightarrow> cf_error" where
  "jsError lib reason =
     (case reason of
        NoReason \<Rightarrow> CfOther
      | Reason message code constraint \<Rightarrow>
          if js_truthy message \<or> js_truthy code \<or> js_truthy constraint
            then QueryError (js_text lib code) (js_text lib constraint)
          else CfOther)"

section \<open>Calls\<close>

text \<open>
  What the promises of the six functions resolve to: an identifier, nothing, the \<open>rowCount\<close>, the
  \<open>rows\<close>, and a \<open>row\<close> when it was found.
\<close>

record 's JsFunctions =
  jsf_BeginTx :: "string \<Rightarrow> 's \<Rightarrow> (js_reason + js_value) \<times> 's"
  jsf_CommitTx :: "string \<Rightarrow> string \<Rightarrow> 's \<Rightarrow> (js_reason + unit) \<times> 's"
  jsf_Rollback :: "string \<Rightarrow> string \<Rightarrow> 's \<Rightarrow> (js_reason + unit) \<times> 's"
  jsf_Exec :: "string \<Rightarrow> string \<Rightarrow> query \<Rightarrow> js_value list \<Rightarrow> 's \<Rightarrow> (js_reason + nat) \<times> 's"
  jsf_Query :: "string \<Rightarrow> string \<Rightarrow> query \<Rightarrow> js_value list \<Rightarrow> 's \<Rightarrow> (js_reason + js_value list option list) \<times> 's"
  jsf_QueryRow ::
    "string \<Rightarrow> string \<Rightarrow> query \<Rightarrow> js_value list \<Rightarrow> 's \<Rightarrow> (js_reason + js_value list option option) \<times> 's"

definition awaitPromise ::
  "ScanLib \<Rightarrow> ('a \<Rightarrow> 'b) \<Rightarrow> (js_reason + 'a) \<times> 's \<Rightarrow> (cf_error + 'b) \<times> 's" where
  "awaitPromise lib f promise =
     (case promise of (Inl reason, s) \<Rightarrow> (Inl (jsError lib reason), s) | (Inr value, s) \<Rightarrow> (Inr (f value), s))"

definition NewJSBridge :: "ScanLib \<Rightarrow> (go_value \<Rightarrow> string) \<Rightarrow> 's JsFunctions \<Rightarrow> 's PgBridge" where
  "NewJSBridge lib sprint js =
     \<lparr>pgb_BeginTx = (\<lambda>bridgeID s. awaitPromise lib (js_text lib) (jsf_BeginTx js bridgeID s)),
      pgb_CommitTx = (\<lambda>bridgeID txID s. awaitPromise lib id (jsf_CommitTx js bridgeID txID s)),
      pgb_RollbackTx = (\<lambda>bridgeID txID s. awaitPromise lib id (jsf_Rollback js bridgeID txID s)),
      pgb_Exec = (\<lambda>bridgeID txID q args s.
        awaitPromise lib id (jsf_Exec js bridgeID txID q (jsArgs sprint args) s)),
      pgb_Query = (\<lambda>bridgeID txID q args s.
        awaitPromise lib (jsRowsToGo lib) (jsf_Query js bridgeID txID q (jsArgs sprint args) s)),
      pgb_QueryRow = (\<lambda>bridgeID txID q args s.
        awaitPromise lib (map_option (jsRowToGo lib)) (jsf_QueryRow js bridgeID txID q (jsArgs sprint args) s))\<rparr>"

section \<open>The columns of this bridge\<close>

text \<open>
  A bigint arrives as decimal text, an integer as a number, a time as a date, of which the bridge
  passes the ISO text, and a failed statement with its code.
\<close>

definition js_columns :: "ScanLib \<Rightarrow> string \<Rightarrow> Columns" where
  "js_columns lib message =
     \<lparr>col_int64 = (\<lambda>x. jsValueToGo lib (JsString (format_int x))),
      col_int32 = (\<lambda>x. jsValueToGo lib (JsNumber (of_int (sint x)))),
      col_text = (\<lambda>s. jsValueToGo lib (JsString s)),
      col_time = (\<lambda>t. jsValueToGo lib (JsDate t)),
      col_report = (\<lambda>err. jsError lib
        (case err of
           UniqueViolation constraint \<Rightarrow> Reason (JsString message) (JsString ''23505'') (JsString constraint)
         | SqlFailed \<Rightarrow> Reason (JsString message) (JsString []) (JsString [])))\<rparr>"

text \<open>
  What this bridge passes is what the scan needs, whenever the library reads a text in the layouts of
  \<open>asTime\<close>: it sees a time down to its millisecond.
\<close>

lemma js_columns_read:
  assumes layouts: "\<And>s. scl_ParseTime lib (hd time_formats) s = parse_civil_time (CHR ''T'') s"
  shows "postgres_columns (js_columns lib message) lib to_ms"
proof
  fix x :: int64 and y :: int32 and s t err constraint
  show "asInt64 (col_int64 (js_columns lib message) x) = Inr x"
    by (simp add: js_columns_def jsValueToGo_def asInt64_def parse_format_int)
  show "asInt64 (col_int32 (js_columns lib message) y) = Inr (scast y)"
    by (simp add: js_columns_def jsValueToGo_def asInt64_def rat_integral_def scast_eq del: of_int_sint)
  show "asString lib (col_text (js_columns lib message) s) = Inr s"
    "col_text (js_columns lib message) s \<noteq> GoNil"
    by (simp_all add: js_columns_def jsValueToGo_def asString_def)
  show "asTime lib (col_time (js_columns lib message) t) = Inr (to_ms t)" if "era t"
    using layouts [of "toISOString t"] parse_iso_text [OF that]
    by (simp add: js_columns_def jsValueToGo_def asTime_def time_formats_def List.map_filter_def)
  show "to_ms 0 = 0"
    by (simp add: to_ms_def)
  show "isUniqueViolation (col_report (js_columns lib message) err) constraint \<longleftrightarrow> err = UniqueViolation constraint"
    "col_report (js_columns lib message) err \<noteq> ErrNoRows"
    by (auto simp: js_columns_def jsError_def isUniqueViolation_def js_truthy_def js_text_def split: sql_error.split)
qed

text \<open>Arguments arrive as they are: a bigint as its decimal text, null as null.\<close>

lemma normalizeArg_values:
  "normalizeArg sprint (GoInt64 x) = JsString (format_int x)"
  "jsValueToGo lib (normalizeArg sprint GoNil) = GoNil"
  "jsValueToGo lib (normalizeArg sprint (GoText s)) = GoText s"
  "asInt64 (jsValueToGo lib (normalizeArg sprint (GoInt64 x))) = Inr x"
  "asInt64 (jsValueToGo lib (normalizeArg sprint (GoInt x))) = Inr x"
  by (simp_all add: normalizeArg_def jsValueToGo_def asInt64_def rat_integral_def parse_format_int del: of_int_sint)
    simp

text \<open>
  The library: \<open>time.Parse\<close> on the four layouts, which differ in the letter between date and time and
  in the fraction, which a parse accepts whatever the layout has. No text of the database is a float.
\<close>

definition go_lib :: ScanLib where
  "go_lib =
     \<lparr>scl_ParseTime = (\<lambda>layout s. if layout \<in> set time_formats then parse_civil_time (layout ! 10) s else None),
      scl_FormatFloat = (\<lambda>_. [])\<rparr>"

interpretation js: postgres_columns "js_columns go_lib ''failed''" go_lib to_ms
  by (rule js_columns_read) (simp add: go_lib_def time_formats_def)

end
