(* ===== verification/Webhook.thy ===== *)
theory Webhook
  imports Go_Web Dispatch_UseCase
begin

text \<open>
  The webhook, \<open>src/internal/adapters/outbound/webhook\<close>: the notifier over HTTPS and the one over
  the bridge of the Cloudflare build; and the receiver for local tests,
  \<open>src/internal/adapters/inbound/http/fakewebhook/handler.go\<close> with its configuration in
  \<open>src/internal/bootstrap/fake_webhook_receiver.go\<close>.

  HMAC-SHA256 is the parameter \<open>hmac\<close>, from the key and the bytes to the bytes; \<open>url.Parse\<close> is the
  parameter \<open>parse_url\<close>, which gives the scheme, the host and the printed address. The connection is
  an \<open>HttpServer\<close>; the bridge is a function from the number of the call and its input to an error or
  nothing.
\<close>

section \<open>The payload\<close>

definition PaymentReceiptStatusChangedEventType :: string where
  "PaymentReceiptStatusChangedEventType = ''payment_receipt.status_changed''"

definition PaymentReceiptStatusChangedEventVersion :: int64 where
  "PaymentReceiptStatusChangedEventVersion = 1"

text \<open>The struct after marshalling; \<open>None\<close> when the time cannot be marshalled.\<close>

definition status_changed_payload ::
  "NotifyPaymentReceiptStatusChangedInput \<Rightarrow> string \<Rightarrow> json option" where
  "status_changed_payload input assetReference =
     map_option (\<lambda>statusChangedAt. JObj
       ([(''eventType'', JStr PaymentReceiptStatusChangedEventType),
         (''eventVersion'', JNum (format_int PaymentReceiptStatusChangedEventVersion)),
         (''notificationId'', JNum (format_int (nin_NotificationID input))),
         (''paymentAddressId'', JNum (format_int (nin_PaymentAddressID input)))] @
        omit_empty ''customerReference'' (nin_CustomerReference input) @
        omit_empty ''assetReference'' assetReference @
        [(''previousStatus'', JStr (nin_PreviousStatus input)),
         (''currentStatus'', JStr (nin_CurrentStatus input)),
         (''observedTotalMinor'', JNum (format_int (nin_ObservedTotalMinor input))),
         (''confirmedTotalMinor'', JNum (format_int (nin_ConfirmedTotalMinor input))),
         (''unconfirmedTotalMinor'', JNum (format_int (nin_UnconfirmedTotalMinor input))),
         (''statusChangedAt'', statusChangedAt)]))
       (time_json (nin_StatusChangedAt input))"

definition computeWebhookSignature :: "(string \<Rightarrow> string \<Rightarrow> string) \<Rightarrow> string \<Rightarrow> string \<Rightarrow> string" where
  "computeWebhookSignature hmac secret body = hex_encode (hmac secret body)"

text \<open>The headers both notifiers send with a body.\<close>

definition notification_headers ::
  "(string \<Rightarrow> string \<Rightarrow> string) \<Rightarrow> string \<Rightarrow> int64 \<Rightarrow> string \<Rightarrow> Header" where
  "notification_headers hmac secret notificationID body =
     header_set ''X-Payrune-Signature-256'' (''sha256='' @ computeWebhookSignature hmac secret body)
     (header_set ''X-Payrune-Notification-ID'' (format_int notificationID)
     (header_set ''X-Payrune-Event-Version'' (format_int PaymentReceiptStatusChangedEventVersion)
     (header_set ''X-Payrune-Event'' PaymentReceiptStatusChangedEventType
     (header_set ''Content-Type'' ''application/json'' []))))"

section \<open>The notifier over HTTPS\<close>

text \<open>A configured client is used in place of the default one; both are the connection here.\<close>

record WebhookConfig =
  wc_URL :: string
  wc_CloudflareBinding :: string
  wc_CloudflarePath :: string
  wc_Secret :: string
  wc_Timeout :: duration
  wc_InsecureSkipVerify :: bool

record WebhookNotifier =
  wn_endpoint :: string
  wn_secret :: string

record ParsedURL =
  pu_Scheme :: string
  pu_Host :: string
  pu_String :: string

definition NewPaymentReceiptStatusWebhookNotifier ::
  "(string \<Rightarrow> ParsedURL option) \<Rightarrow> WebhookConfig \<Rightarrow> WebhookNotifier result" where
  "NewPaymentReceiptStatusWebhookNotifier parse_url config =
     (let endpoint = trim_space (wc_URL config)
      in if endpoint = [] then Inl ErrOther
         else case parse_url endpoint of
             None \<Rightarrow> Inl ErrOther
           | Some parsedURL \<Rightarrow>
               if pu_Scheme parsedURL \<noteq> ''https'' then Inl ErrOther
               else if pu_Host parsedURL = [] then Inl ErrOther
               else let secret = trim_space (wc_Secret config)
                 in if secret = [] then Inl ErrOther
                    else Inr \<lparr>wn_endpoint = pu_String parsedURL, wn_secret = secret\<rparr>)"

definition notification_request ::
  "(string \<Rightarrow> string \<Rightarrow> string) \<Rightarrow> WebhookNotifier \<Rightarrow> int64 \<Rightarrow> string \<Rightarrow> HttpRequest" where
  "notification_request hmac n notificationID body =
     \<lparr>rq_Method = ''POST'', rq_URL = wn_endpoint n, rq_BasicAuth = None,
      rq_Headers = notification_headers hmac (wn_secret n) notificationID body, rq_Body = body\<rparr>"

definition notification_failed :: "unit result" where
  "notification_failed = Inl (OutNotifier out_ErrPaymentReceiptStatusNotificationFailed)"

definition Webhook_NotifyStatusChanged ::
  "Codec \<Rightarrow> (string \<Rightarrow> string \<Rightarrow> string) \<Rightarrow> HttpServer \<Rightarrow> WebhookNotifier \<Rightarrow> Notifier" where
  "Webhook_NotifyStatusChanged codec hmac server n k input =
     (case status_changed_payload input (nin_AssetReference input) of
        None \<Rightarrow> notification_failed
      | Some v \<Rightarrow>
     (case server k (notification_request hmac n (nin_NotificationID input) (json_text codec v)) of
        None \<Rightarrow> notification_failed
      | Some response \<Rightarrow>
          if rp_Status response < 200 \<or> 300 \<le> rp_Status response then notification_failed
          else Inr ()))"

section \<open>The notifier over the bridge\<close>

record WebhookPostInput =
  wp_Binding :: string
  wp_Path :: string
  wp_Timeout :: duration
  wp_Headers :: Header
  wp_Body :: string

type_synonym WebhookBridge = "nat \<Rightarrow> WebhookPostInput \<Rightarrow> unit result"

record CloudflareWebhookNotifier =
  cw_binding :: string
  cw_path :: string
  cw_secret :: string
  cw_timeout :: duration
  cw_bridge :: WebhookBridge

definition defaultWebhookTimeout :: duration where
  "defaultWebhookTimeout = 10000000000"

definition NewCloudflarePaymentReceiptStatusWebhookNotifier ::
  "WebhookConfig \<Rightarrow> WebhookBridge option \<Rightarrow> CloudflareWebhookNotifier result" where
  "NewCloudflarePaymentReceiptStatusWebhookNotifier config bridge0 =
     (case bridge0 of
        None \<Rightarrow> Inl ErrOther
      | Some bridge \<Rightarrow>
          if wc_InsecureSkipVerify config then Inl ErrOther
          else
           let binding = trim_space (wc_CloudflareBinding config);
               path0 = trim_space (wc_CloudflarePath config)
           in if binding = [] then Inl ErrOther
              else let path = (if path0 = [] then ''/receipt-status'' else path0)
                in if \<not> has_prefix path ''/'' then Inl ErrOther
                   else let secret = trim_space (wc_Secret config)
                     in if secret = [] then Inl ErrOther
                        else Inr \<lparr>cw_binding = binding, cw_path = path, cw_secret = secret,
                               cw_timeout = (if sint (wc_Timeout config) \<le> 0 then defaultWebhookTimeout
                                             else wc_Timeout config),
                               cw_bridge = bridge\<rparr>)"

text \<open>The asset reference of the input is not copied into the payload here.\<close>

definition Cloudflare_NotifyStatusChanged ::
  "Codec \<Rightarrow> (string \<Rightarrow> string \<Rightarrow> string) \<Rightarrow> CloudflareWebhookNotifier \<Rightarrow> Notifier" where
  "Cloudflare_NotifyStatusChanged codec hmac n k input =
     (case status_changed_payload input [] of
        None \<Rightarrow> notification_failed
      | Some v \<Rightarrow>
          (let body = json_text codec v
           in case cw_bridge n k \<lparr>wp_Binding = cw_binding n, wp_Path = cw_path n,
                    wp_Timeout = cw_timeout n,
                    wp_Headers = notification_headers hmac (cw_secret n) (nin_NotificationID input) body,
                    wp_Body = body\<rparr> of
                Inl _ \<Rightarrow> notification_failed
              | Inr _ \<Rightarrow> Inr ()))"

section \<open>The receiver\<close>

record ReceivedPayload =
  rx_EventType :: string
  rx_EventVersion :: int64
  rx_NotificationID :: int64

definition decode_received :: "ReceivedPayload json_decoder" where
  "decode_received = decode_struct False
     [(''eventType'', struct_field decode_string rx_EventType rx_EventType_update),
      (''eventVersion'', struct_field decode_int64 rx_EventVersion rx_EventVersion_update),
      (''notificationId'', struct_field decode_int64 rx_NotificationID rx_NotificationID_update)]"

definition no_payload :: ReceivedPayload where
  "no_payload = \<lparr>rx_EventType = [], rx_EventVersion = 0, rx_NotificationID = 0\<rparr>"

text \<open>\<open>vr_Payload\<close> is \<open>None\<close> when the body does not decode, which is \<open>DecodeErr\<close>.\<close>

record VerificationResult =
  vr_Event :: string
  vr_Version :: string
  vr_NotificationIDHeader :: string
  vr_ProvidedSignature :: string
  vr_ComputedSignature :: string
  vr_SignatureValid :: bool
  vr_VerificationEnabled :: bool
  vr_NotificationIDMatch :: bool
  vr_Payload :: "ReceivedPayload option"

definition verifyRequest ::
  "Codec \<Rightarrow> (string \<Rightarrow> string \<Rightarrow> string) \<Rightarrow> string \<Rightarrow> Header \<Rightarrow> string \<Rightarrow> VerificationResult" where
  "verifyRequest codec hmac secret header body =
     (let notificationIDHeader = trim_space (header_get header ''X-Payrune-Notification-ID'');
          providedSignature = trim_space (header_get header ''X-Payrune-Signature-256'');
          verificationEnabled = (trim_space secret \<noteq> []);
          computedSignature =
            (if verificationEnabled then ''sha256='' @ computeWebhookSignature hmac secret body else []);
          payload = Option.bind (json_value codec body) (\<lambda>v. decode_received v no_payload)
      in \<lparr>vr_Event = trim_space (header_get header ''X-Payrune-Event''),
          vr_Version = trim_space (header_get header ''X-Payrune-Event-Version''),
          vr_NotificationIDHeader = notificationIDHeader,
          vr_ProvidedSignature = providedSignature,
          vr_ComputedSignature = computedSignature,
          vr_SignatureValid = (verificationEnabled \<and> computedSignature = providedSignature),
          vr_VerificationEnabled = verificationEnabled,
          vr_NotificationIDMatch =
            (case payload of
               None \<Rightarrow> False
             | Some p \<Rightarrow> notificationIDHeader = format_int (rx_NotificationID p)),
          vr_Payload = payload\<rparr>)"

definition receiver_handler ::
  "Codec \<Rightarrow> (string \<Rightarrow> string \<Rightarrow> string) \<Rightarrow> string \<Rightarrow> ServerRequest \<Rightarrow> ServerReply" where
  "receiver_handler codec hmac secret r =
     (case sq_Body r of
        None \<Rightarrow> http_error [] ''read body failed'' 500
      | Some body \<Rightarrow>
          (let result = verifyRequest codec hmac secret (sq_Headers r) body
           in if vr_Payload result = None then http_error [] ''invalid json payload'' 400
              else if vr_VerificationEnabled result \<and> \<not> vr_SignatureValid result
                then http_error [] ''invalid signature'' 401
              else \<lparr>sp_Status = 204, sp_Headers = [], sp_Body = []\<rparr>))"

text \<open>The configuration of the receiver; reading an unset variable gives the empty string.\<close>

definition defaultFakeWebhookReceiverAddr :: string where
  "defaultFakeWebhookReceiverAddr = '':8443''"

definition loadFakeWebhookReceiverSecret :: "(string \<Rightarrow> string) \<Rightarrow> string" where
  "loadFakeWebhookReceiverSecret lookup =
     (let secret = trim_space (lookup ''FAKE_WEBHOOK_RECEIVER_SECRET'')
      in if secret \<noteq> [] then secret else trim_space (lookup ''PAYMENT_RECEIPT_WEBHOOK_SECRET''))"

definition loadFakeWebhookReceiverConfigFromLookup :: "(string \<Rightarrow> string) \<Rightarrow> string \<times> string" where
  "loadFakeWebhookReceiverConfigFromLookup lookup =
     (let addr = trim_space (lookup ''FAKE_WEBHOOK_RECEIVER_ADDR'')
      in (if addr = [] then defaultFakeWebhookReceiverAddr else addr,
          loadFakeWebhookReceiverSecret lookup))"

end
