(* ===== verification/Js_Bridges.thy ===== *)
theory Js_Bridges
  imports Cf_JsBridge Webhook Bitcoin_Observer
begin

text \<open>
  The other two bridges of the Cloudflare build: to the webhook,
  \<open>internal/infrastructure/cloudflarewebhook\<close>, and to an Esplora server,
  \<open>adapters/outbound/bitcoin/cloudflare_esplora_bridge_js_wasm.go\<close>. As for the database, a JavaScript
  function is a parameter that gives what its promise resolves to or the reason of its rejection,
  and a cancelled context is left out. The JavaScript function behind the webhook,
  \<open>deployments/cloudflare/payrune/src/webhook-notifier-bridge.mjs\<close>, is modelled too. A build without
  these functions has bridges that always fail.
\<close>

section \<open>The webhook\<close>

text \<open>Every rejection is an error, of a text that nothing depends on.\<close>

definition awaitWebhookPromise :: "js_reason + 'a \<Rightarrow> 'a result" where
  "awaitWebhookPromise promise = (case promise of Inl reason \<Rightarrow> Inl ErrOther | Inr value \<Rightarrow> Inr value)"

type_synonym WebhookPost =
  "nat \<Rightarrow> string \<Rightarrow> string \<Rightarrow> int64 \<Rightarrow> Header \<Rightarrow> string \<Rightarrow> js_reason + unit"

definition milliseconds :: "duration \<Rightarrow> int64" where
  "milliseconds d = word_of_int (sint d div 1000000)"

definition jsBridge_PostJSON :: "WebhookPost \<Rightarrow> WebhookBridge" where
  "jsBridge_PostJSON post k input =
     (let timeoutMs = (if sint (wp_Timeout input) \<le> 0 then milliseconds defaultWebhookTimeout
                       else milliseconds (wp_Timeout input))
      in awaitWebhookPromise
           (post k (wp_Binding input) (wp_Path input) timeoutMs (wp_Headers input) (wp_Body input)))"

definition unsupportedBridge_PostJSON :: WebhookBridge where
  "unsupportedBridge_PostJSON k input = Inl ErrOther"

text \<open>\<open>NewBridge\<close> of either build.\<close>

definition NewBridge :: "WebhookPost option \<Rightarrow> WebhookBridge" where
  "NewBridge js = (case js of None \<Rightarrow> unsupportedBridge_PostJSON | Some post \<Rightarrow> jsBridge_PostJSON post)"

text \<open>
  The JavaScript function: \<open>services\<close> are the service bindings of the worker that have a \<open>fetch\<close>, which
  fails when no answer arrives in time.
\<close>

definition js_failed :: "string \<Rightarrow> js_reason" where
  "js_failed message = Reason (JsString message) JsUndefined JsUndefined"

definition webhookPost :: "(string \<Rightarrow> HttpServer option) \<Rightarrow> WebhookPost" where
  "webhookPost services k binding bindingPath timeoutMs headers body =
     (case (if binding = [] then None else services binding) of
        None \<Rightarrow>
          Inl (js_failed (''cloudflare webhook binding '' @
            (if binding = [] then ''(missing)'' else binding) @ '' is not configured''))
      | Some send \<Rightarrow>
          (case send k
              \<lparr>rq_Method = ''POST'',
               rq_URL = ''https://internal'' @ (if bindingPath = [] then ''/receipt-status'' else bindingPath),
               rq_BasicAuth = None, rq_Headers = headers, rq_Body = body\<rparr> of
             None \<Rightarrow> Inl (js_failed ''webhook request timed out'')
           | Some response \<Rightarrow>
               if rp_Status response < 200 \<or> 300 \<le> rp_Status response
                 then Inl (js_failed (''webhook returned status '' @ format_nat (nat (rp_Status response))))
               else Inr ()))"

text \<open>What the two sides do together: the notifier's request reaches the service that is bound.\<close>

lemma PostJSON_answer:
  assumes "wp_Binding input \<noteq> []"
  shows "NewBridge (Some (webhookPost services)) k input =
    (case Option.bind (services (wp_Binding input)) (\<lambda>send. send k
          \<lparr>rq_Method = ''POST'',
           rq_URL = ''https://internal'' @ (if wp_Path input = [] then ''/receipt-status'' else wp_Path input),
           rq_BasicAuth = None, rq_Headers = wp_Headers input, rq_Body = wp_Body input\<rparr>) of
       None \<Rightarrow> Inl ErrOther
     | Some response \<Rightarrow>
         if rp_Status response < 200 \<or> 300 \<le> rp_Status response then Inl ErrOther else Inr ())"
  using assms
  by (simp add: NewBridge_def jsBridge_PostJSON_def webhookPost_def awaitWebhookPromise_def Let_def
      split: option.split)

lemma Cloudflare_built:
  assumes "NewCloudflarePaymentReceiptStatusWebhookNotifier config bridge = Inr n"
  shows "cw_binding n = trim_space (wc_CloudflareBinding config)" "cw_binding n \<noteq> []"
    "cw_secret n = trim_space (wc_Secret config)" "bridge = Some (cw_bridge n)" "0 < sint (cw_timeout n)"
    "has_prefix (cw_path n) ''/''"
  using assms
  by (auto simp: NewCloudflarePaymentReceiptStatusWebhookNotifier_def Let_def defaultWebhookTimeout_def
      split: option.splits if_splits)

section \<open>The Esplora server\<close>

text \<open>What the three promises resolve to: a number, and two texts.\<close>

record EsploraFunctions =
  esf_FetchLatestBlockHeight :: "string \<Rightarrow> string \<Rightarrow> js_reason + rat"
  esf_FetchAddressChainTransactions :: "string \<Rightarrow> string \<Rightarrow> string \<Rightarrow> js_reason + string"
  esf_FetchAddressMempoolTransactions :: "string \<Rightarrow> string \<Rightarrow> string \<Rightarrow> js_reason + string"

definition awaitBitcoinPromise :: "js_reason + 'a \<Rightarrow> 'a result" where
  "awaitBitcoinPromise promise = (case promise of Inl reason \<Rightarrow> Inl ErrOther | Inr value \<Rightarrow> Inr value)"

definition jsBridge_FetchLatestBlockHeight :: "js_reason + rat \<Rightarrow> int64 result" where
  "jsBridge_FetchLatestBlockHeight promise =
     (case awaitBitcoinPromise promise of
        Inl err \<Rightarrow> Inl err
      | Inr height \<Rightarrow> if \<not> rat_integral height then Inl ErrOther else Inr (word_of_int \<lfloor>height\<rfloor>))"

definition fetchBitcoinTransactions :: "Codec \<Rightarrow> js_reason + string \<Rightarrow> esploraTransaction list result" where
  "fetchBitcoinTransactions codec promise =
     (case awaitBitcoinPromise promise of
        Inl err \<Rightarrow> Inl err
      | Inr value \<Rightarrow>
     (case json_value codec value of
        None \<Rightarrow> Inl ErrOther
      | Some v \<Rightarrow>
     (case decode_transactions v [] of
        None \<Rightarrow> Inl ErrOther
      | Some transactions \<Rightarrow> Inr transactions)))"

definition jsCloudflareEsploraBridge :: "Codec \<Rightarrow> EsploraFunctions \<Rightarrow> EsploraBridge" where
  "jsCloudflareEsploraBridge codec js =
     \<lparr>br_FetchLatestBlockHeight =
        (\<lambda>bridgeID network. jsBridge_FetchLatestBlockHeight (esf_FetchLatestBlockHeight js bridgeID network)),
      br_FetchAddressChainTransactions = (\<lambda>bridgeID network address.
        fetchBitcoinTransactions codec (esf_FetchAddressChainTransactions js bridgeID network address)),
      br_FetchAddressMempoolTransactions = (\<lambda>bridgeID network address.
        fetchBitcoinTransactions codec (esf_FetchAddressMempoolTransactions js bridgeID network address))\<rparr>"

definition unsupportedCloudflareEsploraBridge :: EsploraBridge where
  "unsupportedCloudflareEsploraBridge =
     \<lparr>br_FetchLatestBlockHeight = (\<lambda>bridgeID network. Inl ErrOther),
      br_FetchAddressChainTransactions = (\<lambda>bridgeID network address. Inl ErrOther),
      br_FetchAddressMempoolTransactions = (\<lambda>bridgeID network address. Inl ErrOther)\<rparr>"

definition NewCloudflareEsploraBridge :: "Codec \<Rightarrow> EsploraFunctions option \<Rightarrow> EsploraBridge" where
  "NewCloudflareEsploraBridge codec js =
     (case js of None \<Rightarrow> unsupportedCloudflareEsploraBridge | Some f \<Rightarrow> jsCloudflareEsploraBridge codec f)"

text \<open>The heights that are read are those of the chain, as long as they are numbers of 64 bits.\<close>

lemma jsBridge_height:
  assumes "- (2 ^ 63) \<le> h" "h < 2 ^ 63"
  shows "\<exists>x. jsBridge_FetchLatestBlockHeight (Inr (of_int h)) = Inr x \<and> sint x = h"
  using assms
  by (auto simp: jsBridge_FetchLatestBlockHeight_def awaitBitcoinPromise_def rat_integral_def
      intro!: sint_word_of_int64)

end
