(* ===== verification/Webhook_Properties.thy ===== *)
theory Webhook_Properties
  imports Js_Bridges Cycle_Properties
begin




lemma format_int_trimmed [simp]: "trim_space (format_int x) = format_int x"
proof (rule trim_space_plain)
  have "list_all printable (format_nat n)" for n
    using format_nat_digits [of _ n] by (fastforce simp: list_all_iff printable_def)
  then show "list_all printable (format_int x)"
    by (simp add: format_int_def printable_def)
qed













end
