(* ===== verification/Http_Api.thy ===== *)
theory Http_Api
  imports Go_Web Allocate_UseCase Query_UseCases
begin

text \<open>
  The HTTP API, \<open>src/internal/adapters/inbound/http\<close>: the controllers, the JSON of their requests and
  responses, the router and the middleware.

  A handler takes the headers written so far, the request, the values of the path's wildcards and
  the world. The controllers call the use cases through their interfaces, which are parameters. The
  log is not modelled, except for the line of \<open>RequestLog\<close>, which is returned beside the reply
  without its duration.
\<close>

type_synonym PathValues = "string \<rightharpoonup> string"
type_synonym Handler =
  "Header \<Rightarrow> ServerRequest \<Rightarrow> PathValues \<Rightarrow> World \<Rightarrow> ServerReply \<times> World"

definition path_value :: "PathValues \<Rightarrow> string \<Rightarrow> string" where
  "path_value vals name = (case vals name of None \<Rightarrow> [] | Some v \<Rightarrow> v)"

section \<open>Responses\<close>

text \<open>
  \<open>writeJSON\<close>: the status is written before the payload is encoded, so a payload that cannot be
  encoded (\<open>None\<close>) leaves an empty body. The encoder ends the text with a line feed.
\<close>

definition writeJSON :: "Codec \<Rightarrow> Header \<Rightarrow> int \<Rightarrow> json option \<Rightarrow> ServerReply" where
  "writeJSON codec h statusCode payload =
     \<lparr>sp_Status = statusCode, sp_Headers = header_set ''Content-Type'' ''application/json'' h,
      sp_Body = (case payload of None \<Rightarrow> [] | Some v \<Rightarrow> json_text codec v @ [CHR 0x0A])\<rparr>"

definition writeErrorJSON :: "Codec \<Rightarrow> Header \<Rightarrow> int \<Rightarrow> string \<Rightarrow> ServerReply" where
  "writeErrorJSON codec h statusCode message =
     writeJSON codec h statusCode (Some (JObj [(''error'', JStr message)]))"

definition newHealthResponse :: "HealthResponse \<Rightarrow> json" where
  "newHealthResponse response =
     JObj [(''status'', JStr (hr_Status response)),
           (''timestamp'', JStr (time_text False (hr_Timestamp response)))]"

definition address_policy_json :: "AddressPolicyRecord \<Rightarrow> json" where
  "address_policy_json policy =
     JObj ([(''addressPolicyId'', JStr (apr_AddressPolicyID policy)), (''chain'', JStr (apr_Chain policy)),
            (''network'', JStr (apr_Network policy)), (''scheme'', JStr (apr_Scheme policy))] @
           omit_empty ''assetReference'' (apr_AssetReference policy) @
           [(''decimals'', JNum (format_nat (unat (apr_Decimals policy)))),
            (''enabled'', JBool (apr_Enabled policy))])"

definition newListAddressPoliciesResponse :: "ListPoliciesResponse \<Rightarrow> json" where
  "newListAddressPoliciesResponse response =
     JObj [(''chain'', JStr (lpr_Chain response)),
           (''addressPolicies'', JArr (map address_policy_json (lpr_AddressPolicies response)))]"

definition newAllocatePaymentAddressResponse :: "AllocateResponse \<Rightarrow> json" where
  "newAllocatePaymentAddressResponse response =
     JObj ([(''paymentAddressId'', JStr (arsp_PaymentAddressID response)),
            (''addressPolicyId'', JStr (arsp_AddressPolicyID response)),
            (''expectedAmountMinor'', JNum (format_int (arsp_ExpectedAmountMinor response))),
            (''chain'', JStr (arsp_Chain response)), (''network'', JStr (arsp_Network response)),
            (''scheme'', JStr (arsp_Scheme response))] @
           omit_empty ''assetReference'' (arsp_AssetReference response) @
           [(''decimals'', JNum (format_nat (unat (arsp_Decimals response)))),
            (''address'', JStr (arsp_Address response))] @
           omit_empty ''customerReference'' (arsp_CustomerReference response))"

text \<open>A time that is left out when it is \<open>nil\<close>.\<close>

definition omit_nil :: "string \<Rightarrow> gotime option \<Rightarrow> (string \<times> json) list option" where
  "omit_nil name t =
     (case t of None \<Rightarrow> Some [] | Some at \<Rightarrow> map_option (\<lambda>v. [(name, v)]) (time_json at))"

definition status_times_json :: "GetStatusResponse \<Rightarrow> (string \<times> json) list option" where
  "status_times_json response =
     map_option concat (collect id
       [map_option (\<lambda>v. [(''issuedAt'', v)]) (time_json (gst_IssuedAt response)),
        omit_nil ''firstObservedAt'' (gst_FirstObservedAt response),
        omit_nil ''paidAt'' (gst_PaidAt response),
        omit_nil ''confirmedAt'' (gst_ConfirmedAt response),
        omit_nil ''expiresAt'' (gst_ExpiresAt response)])"

definition newPaymentAddressStatusResponse :: "GetStatusResponse \<Rightarrow> json option" where
  "newPaymentAddressStatusResponse response =
     map_option (\<lambda>times. JObj
       ([(''paymentAddressId'', JStr (gst_PaymentAddressID response)),
         (''addressPolicyId'', JStr (gst_AddressPolicyID response)),
         (''expectedAmountMinor'', JNum (format_int (gst_ExpectedAmountMinor response))),
         (''chain'', JStr (gst_Chain response)), (''network'', JStr (gst_Network response)),
         (''scheme'', JStr (gst_Scheme response))] @
        omit_empty ''assetReference'' (gst_AssetReference response) @
        [(''decimals'', JNum (format_nat (unat (gst_Decimals response)))),
         (''address'', JStr (gst_Address response))] @
        omit_empty ''customerReference'' (gst_CustomerReference response) @
        [(''paymentStatus'', JStr (gst_PaymentStatus response)),
         (''observedTotalMinor'', JNum (format_int (gst_ObservedTotalMinor response))),
         (''confirmedTotalMinor'', JNum (format_int (gst_ConfirmedTotalMinor response))),
         (''unconfirmedTotalMinor'', JNum (format_int (gst_UnconfirmedTotalMinor response))),
         (''requiredConfirmations'', JNum (format_int (scast (gst_RequiredConfirmations response)))),
         (''lastObservedBlockHeight'', JNum (format_int (gst_LastObservedBlockHeight response)))] @
        times @ omit_empty ''lastError'' (gst_LastError response)))
       (status_times_json response)"

section \<open>Controllers\<close>

definition publicUnsupportedChainMessage :: string where
  "publicUnsupportedChainMessage = ''chain is not supported''"

definition parseSupportedChainPathValue :: "Codec \<Rightarrow> Header \<Rightarrow> PathValues \<Rightarrow> ServerReply + string" where
  "parseSupportedChainPathValue codec h vals =
     (let chain = to_lower (trim_space (path_value vals ''chain''))
      in if chain = ''bitcoin'' \<or> chain = ''ethereum'' then Inr chain
         else Inl (writeErrorJSON codec h 404 publicUnsupportedChainMessage))"

text \<open>The guard on the method that every controller has.\<close>

definition method_not_allowed :: "Codec \<Rightarrow> Header \<Rightarrow> string \<Rightarrow> ServerReply" where
  "method_not_allowed codec h allowed =
     writeErrorJSON codec (header_set ''Allow'' allowed h) 405 ''method not allowed''"

record allocatePaymentAddressRequest =
  areq_AddressPolicyID :: string
  areq_ExpectedAmountMinor :: "int64 option"
  areq_CustomerReference :: "string option"

definition decode_allocate_request :: "allocatePaymentAddressRequest json_decoder" where
  "decode_allocate_request = decode_struct True
     [(''addressPolicyId'', struct_field decode_string areq_AddressPolicyID areq_AddressPolicyID_update),
      (''expectedAmountMinor'',
         struct_field (decode_pointer 0 decode_int64) areq_ExpectedAmountMinor areq_ExpectedAmountMinor_update),
      (''customerReference'',
         struct_field (decode_pointer [] decode_string) areq_CustomerReference areq_CustomerReference_update)]"

definition no_allocate_request :: allocatePaymentAddressRequest where
  "no_allocate_request =
     \<lparr>areq_AddressPolicyID = [], areq_ExpectedAmountMinor = None, areq_CustomerReference = None\<rparr>"

text \<open>
  One value that decodes, and after it nothing but blanks: a second \<open>Decode\<close> must give \<open>io.EOF\<close>.
\<close>

definition json_blank :: "string \<Rightarrow> bool" where
  "json_blank s \<longleftrightarrow> list_all (\<lambda>c. c = CHR 0x20 \<or> c = CHR 0x09 \<or> c = CHR 0x0A \<or> c = CHR 0x0D) s"

definition read_allocate_request :: "Codec \<Rightarrow> string option \<Rightarrow> allocatePaymentAddressRequest option" where
  "read_allocate_request codec body =
     (case Option.bind body (json_first codec) of
        None \<Rightarrow> None
      | Some (v, rest) \<Rightarrow>
     (case decode_allocate_request v no_allocate_request of
        None \<Rightarrow> None
      | Some request \<Rightarrow> if json_blank rest then Some request else None))"

definition trimOptionalString :: "string option \<Rightarrow> string" where
  "trimOptionalString raw = (case raw of None \<Rightarrow> [] | Some s \<Rightarrow> trim_space s)"

definition mapAllocatePaymentAddressError :: "go_error \<Rightarrow> int \<times> string" where
  "mapAllocatePaymentAddressError err =
     (if err = InBiz in_ErrChainNotSupported then (404, publicUnsupportedChainMessage)
      else if err = InBiz in_ErrInvalidAddressPolicyID then (400, ''addressPolicyId is invalid'')
      else if err = InBiz in_ErrAddressPolicyNotFound then (404, ''address policy is not supported'')
      else if err = InBiz in_ErrAddressPolicyNotEnabled then (409, ''address policy is not enabled'')
      else if err = InBiz in_ErrAddressPoolExhausted then (409, ''address pool is exhausted'')
      else if err = InBiz in_ErrIdempotencyKeyConflict
        then (409, ''idempotency key conflicts with existing payment address'')
      else if err = InBiz in_ErrInvalidExpectedAmount then (400, ''expected amount is invalid'')
      else (500, ''internal server error''))"

definition idempotencyKeyHeader :: string where
  "idempotencyKeyHeader = ''Idempotency-Key''"

definition idempotencyReplayedHeader :: string where
  "idempotencyReplayedHeader = ''Idempotency-Replayed''"

definition allocate_answer :: "Codec \<Rightarrow> Header \<Rightarrow> AllocateResponse result \<Rightarrow> ServerReply" where
  "allocate_answer codec h answer =
     (case answer of
        Inl err \<Rightarrow>
          (case mapAllocatePaymentAddressError err of
             (statusCode, message) \<Rightarrow> writeErrorJSON codec h statusCode message)
      | Inr response \<Rightarrow>
          writeJSON codec
            (if arsp_IdempotencyReplayed response then header_set idempotencyReplayedHeader ''true'' h else h)
            201 (Some (newAllocatePaymentAddressResponse response)))"

definition AllocatePaymentAddressController ::
  "Codec \<Rightarrow> (AllocateInput \<Rightarrow> World \<Rightarrow> AllocateResponse result \<times> World) \<Rightarrow> Handler" where
  "AllocatePaymentAddressController codec usecase h r vals w =
     (case parseSupportedChainPathValue codec h vals of
        Inl reply \<Rightarrow> (reply, w)
      | Inr chain \<Rightarrow>
          if sq_Method r \<noteq> ''POST'' then (method_not_allowed codec h ''POST'', w)
          else case read_allocate_request codec (sq_Body r) of
              None \<Rightarrow> (writeErrorJSON codec h 400 ''invalid request body'', w)
            | Some request \<Rightarrow>
          (let addressPolicyID = trim_space (areq_AddressPolicyID request)
           in if addressPolicyID = [] then (writeErrorJSON codec h 400 ''addressPolicyId is required'', w)
              else case areq_ExpectedAmountMinor request of
                  None \<Rightarrow> (writeErrorJSON codec h 400 ''expectedAmountMinor is required'', w)
                | Some expectedAmountMinor \<Rightarrow>
              (case usecase \<lparr>ai_Chain = chain, ai_AddressPolicyID = addressPolicyID,
                       ai_ExpectedAmountMinor = expectedAmountMinor,
                       ai_CustomerReference = trimOptionalString (areq_CustomerReference request),
                       ai_IdempotencyKey = trim_space (header_get (sq_Headers r) idempotencyKeyHeader)\<rparr> w of
                 (answer, w1) \<Rightarrow> (allocate_answer codec h answer, w1))))"

definition mapGetPaymentAddressStatusError :: "go_error \<Rightarrow> int \<times> string" where
  "mapGetPaymentAddressStatusError err =
     (if err = InBiz in_ErrPaymentAddressNotFound then (404, ''payment address is not found'')
      else (500, ''internal server error''))"

definition parsePositiveInt64Segment :: "string \<Rightarrow> int64 option" where
  "parsePositiveInt64Segment raw =
     (case parse_int64 (trim_space raw) of
        None \<Rightarrow> None
      | Some parsed \<Rightarrow> if sint parsed \<le> 0 then None else Some parsed)"

definition GetPaymentAddressStatusController ::
  "Codec \<Rightarrow> (GetStatusInput \<Rightarrow> World \<Rightarrow> GetStatusResponse result \<times> World) \<Rightarrow> Handler" where
  "GetPaymentAddressStatusController codec usecase h r vals w =
     (case parseSupportedChainPathValue codec h vals of
        Inl reply \<Rightarrow> (reply, w)
      | Inr chain \<Rightarrow>
          if sq_Method r \<noteq> ''GET'' then (method_not_allowed codec h ''GET'', w)
          else case parsePositiveInt64Segment (path_value vals ''paymentAddressId'') of
              None \<Rightarrow> (writeErrorJSON codec h 400 ''invalid paymentAddressId'', w)
            | Some paymentAddressID \<Rightarrow>
          (case usecase \<lparr>gin_Chain = chain, gin_PaymentAddressID = paymentAddressID\<rparr> w of
             (Inl err, w1) \<Rightarrow>
               (case mapGetPaymentAddressStatusError err of
                  (statusCode, message) \<Rightarrow> (writeErrorJSON codec h statusCode message, w1))
           | (Inr response, w1) \<Rightarrow>
               (writeJSON codec h 200 (newPaymentAddressStatusResponse response), w1)))"

definition mapListAddressPoliciesError :: "go_error \<Rightarrow> int \<times> string" where
  "mapListAddressPoliciesError err =
     (if err = InBiz in_ErrChainNotSupported then (404, publicUnsupportedChainMessage)
      else (500, ''internal server error''))"

definition ListAddressPoliciesController ::
  "Codec \<Rightarrow> (string \<Rightarrow> ListPoliciesResponse result) \<Rightarrow> Handler" where
  "ListAddressPoliciesController codec usecase h r vals w =
     (case parseSupportedChainPathValue codec h vals of
        Inl reply \<Rightarrow> (reply, w)
      | Inr chain \<Rightarrow>
          if sq_Method r \<noteq> ''GET'' then (method_not_allowed codec h ''GET'', w)
          else case usecase chain of
              Inl err \<Rightarrow>
                (case mapListAddressPoliciesError err of
                   (statusCode, message) \<Rightarrow> (writeErrorJSON codec h statusCode message, w))
            | Inr response \<Rightarrow> (writeJSON codec h 200 (Some (newListAddressPoliciesResponse response)), w))"

definition HealthController :: "Codec \<Rightarrow> (World \<Rightarrow> HealthResponse result \<times> World) \<Rightarrow> Handler" where
  "HealthController codec usecase h r vals w =
     (if sq_Method r \<noteq> ''GET'' then (method_not_allowed codec h ''GET'', w)
      else case usecase w of
          (Inl _, w1) \<Rightarrow> (writeErrorJSON codec h 500 ''internal server error'', w1)
        | (Inr response, w1) \<Rightarrow> (writeJSON codec h 200 (Some (newHealthResponse response)), w1))"

end
