(* ===== verification/Http_Router.thy ===== *)
theory Http_Router
  imports Http_Api
begin

text \<open>
  The router and the middleware of the API, \<open>src/internal/adapters/inbound/http/router.go\<close> and
  \<open>middleware/\<close>, and the public API over the modelled use cases as \<open>bootstrap/api.go\<close> assembles it.

  The patterns are matched as \<open>http.ServeMux\<close> does: on the segments of the cleaned path, unescaped
  one by one, where a wildcard takes one segment that is not empty. A path that is not clean is
  redirected to the clean one; the reply of \<open>http.RedirectHandler\<close> is the parameter \<open>redirect\<close>. The
  path of a request is the escaped one.
\<close>

section \<open>Paths and patterns\<close>

fun path_unescape :: "string \<Rightarrow> string option" where
  "path_unescape [] = Some []"
| "path_unescape (c # cs) =
     (if c = CHR ''%'' then
        (case cs of
           a # b # rest \<Rightarrow>
             (case (hex_value a, hex_value b) of
                (Some x, Some y) \<Rightarrow> map_option (\<lambda>s. char_of (16 * x + y) # s) (path_unescape rest)
              | _ \<Rightarrow> None)
         | _ \<Rightarrow> None)
      else map_option (\<lambda>s. c # s) (path_unescape cs))"

text \<open>A segment that cannot be unescaped stays as it is.\<close>

definition unescape_segment :: "string \<Rightarrow> string" where
  "unescape_segment s = (case path_unescape s of None \<Rightarrow> s | Some u \<Rightarrow> u)"

text \<open>\<open>path.Clean\<close> on an absolute path, on its segments; a slash at the end is kept.\<close>

fun clean_segments :: "string list \<Rightarrow> string list \<Rightarrow> string list" where
  "clean_segments acc [] = rev acc"
| "clean_segments acc (s # ss) =
     (if s = [] \<or> s = ''.'' then clean_segments acc ss
      else if s = ''..'' then clean_segments (tl acc) ss
      else clean_segments (s # acc) ss)"

definition slash_path :: "string list \<Rightarrow> string" where
  "slash_path segs = concat (map (\<lambda>s. CHR ''/'' # s) segs)"

definition clean_path :: "string \<Rightarrow> string" where
  "clean_path p =
     (let np = slash_path (clean_segments [] (split_on (CHR ''/'') p))
      in if np = [] then ''/'' else if last p = CHR ''/'' then np @ ''/'' else np)"

datatype pattern_segment = Lit string | Wild string

fun match_segments :: "pattern_segment list \<Rightarrow> string list \<Rightarrow> PathValues \<Rightarrow> PathValues option" where
  "match_segments [] [] vals = Some vals"
| "match_segments (Lit l # ps) (s # ss) vals =
     (if unescape_segment s = l then match_segments ps ss vals else None)"
| "match_segments (Wild name # ps) (s # ss) vals =
     (if s = [] then None else match_segments ps ss (vals(name \<mapsto> unescape_segment s)))"
| "match_segments _ _ vals = None"

type_synonym Route = "pattern_segment list \<times> Handler"

fun find_route :: "Route list \<Rightarrow> string list \<Rightarrow> (Handler \<times> PathValues) option" where
  "find_route [] segs = None"
| "find_route ((pat, handler) # routes) segs =
     (case match_segments pat segs Map.empty of
        Some vals \<Rightarrow> Some (handler, vals)
      | None \<Rightarrow> find_route routes segs)"

text \<open>\<open>ServeMux.ServeHTTP\<close>; a \<open>CONNECT\<close> request is not cleaned.\<close>

definition serve_mux :: "(string \<Rightarrow> Header \<Rightarrow> ServerReply) \<Rightarrow> Route list \<Rightarrow> Handler" where
  "serve_mux redirect routes h r vals w =
     (if sq_Path r = ''*'' then (\<lparr>sp_Status = 400, sp_Headers = header_set ''Connection'' ''close'' h, sp_Body = []\<rparr>, w)
      else if sq_Method r \<noteq> ''CONNECT'' \<and> clean_path (sq_Path r) \<noteq> sq_Path r
        then (redirect (clean_path (sq_Path r)) h, w)
      else case find_route routes (tl (split_on (CHR ''/'') (sq_Path r))) of
          None \<Rightarrow> (http_error h ''404 page not found'' 404, w)
        | Some (handler, pathVals) \<Rightarrow> handler h r pathVals w)"

section \<open>The router\<close>

record RouterControllers =
  rc_Health :: "Handler option"
  rc_ListAddressPolicies :: "Handler option"
  rc_AllocatePaymentAddress :: "Handler option"
  rc_GetPaymentAddressStatus :: "Handler option"

definition route_if :: "pattern_segment list \<Rightarrow> Handler option \<Rightarrow> Route list" where
  "route_if pat controller = (case controller of None \<Rightarrow> [] | Some handler \<Rightarrow> [(pat, handler)])"

definition newRouter :: "(string \<Rightarrow> Header \<Rightarrow> ServerReply) \<Rightarrow> RouterControllers \<Rightarrow> Handler" where
  "newRouter redirect c = serve_mux redirect
     (route_if [Lit ''health''] (rc_Health c) @
      route_if [Lit ''v1'', Lit ''chains'', Wild ''chain'', Lit ''address-policies'']
        (rc_ListAddressPolicies c) @
      route_if [Lit ''v1'', Lit ''chains'', Wild ''chain'', Lit ''payment-addresses'']
        (rc_AllocatePaymentAddress c) @
      route_if [Lit ''v1'', Lit ''chains'', Wild ''chain'', Lit ''payment-addresses'', Wild ''paymentAddressId'']
        (rc_GetPaymentAddressStatus c))"

section \<open>Middleware\<close>

definition allowedOrigin :: string where "allowedOrigin = ''http://localhost:8081''"
definition allowedMethods :: string where "allowedMethods = ''GET, POST, PUT, PATCH, DELETE, OPTIONS''"
definition allowedHeaders :: string where
  "allowedHeaders = ''Accept, Content-Type, Authorization, Origin, Idempotency-Key''"
definition exposedResponseHeaders :: string where "exposedResponseHeaders = ''Idempotency-Replayed''"

definition cors_headers :: "Header \<Rightarrow> Header \<Rightarrow> Header" where
  "cors_headers request h =
     (if header_get request ''Origin'' = allowedOrigin then
        header_set ''Vary'' ''Origin''
        (header_set ''Access-Control-Expose-Headers'' exposedResponseHeaders
        (header_set ''Access-Control-Allow-Headers'' allowedHeaders
        (header_set ''Access-Control-Allow-Methods'' allowedMethods
        (header_set ''Access-Control-Allow-Origin'' allowedOrigin h))))
      else h)"

definition CORS :: "Handler \<Rightarrow> Handler" where
  "CORS next_handler h r vals w =
     (let h' = cors_headers (sq_Headers r) h
      in if sq_Method r = ''OPTIONS'' then (\<lparr>sp_Status = 204, sp_Headers = h', sp_Body = []\<rparr>, w)
         else next_handler h' r vals w)"

text \<open>The line that is logged: the method, the path and the status.\<close>

definition RequestLog ::
  "Handler \<Rightarrow> Header \<Rightarrow> ServerRequest \<Rightarrow> PathValues \<Rightarrow> World
     \<Rightarrow> ServerReply \<times> (string \<times> string \<times> int) \<times> World" where
  "RequestLog next_handler h r vals w =
     (case next_handler h r vals w of
        (reply, w1) \<Rightarrow> (reply, (sq_Method r, unescape_segment (sq_Path r), sp_Status reply), w1))"

definition NewPublicRouter ::
  "(string \<Rightarrow> Header \<Rightarrow> ServerReply) \<Rightarrow> RouterControllers \<Rightarrow> ServerRequest \<Rightarrow> World
     \<Rightarrow> ServerReply \<times> (string \<times> string \<times> int) \<times> World" where
  "NewPublicRouter redirect c r w = RequestLog (CORS (newRouter redirect c)) [] r Map.empty w"

section \<open>The public API\<close>

definition api_controllers ::
  "Codec \<Rightarrow> Env \<Rightarrow> AllocateDeps \<Rightarrow> GetStatusDeps \<Rightarrow> RouterControllers" where
  "api_controllers codec env deps statusDeps =
     \<lparr>rc_Health = Some (HealthController codec (CheckHealth_Execute env (ad_clock deps))),
      rc_ListAddressPolicies =
        Some (ListAddressPoliciesController codec (ListPolicies_Execute (ad_policyReader deps))),
      rc_AllocatePaymentAddress = Some (AllocatePaymentAddressController codec (Allocate_Execute env deps)),
      rc_GetPaymentAddressStatus =
        Some (GetPaymentAddressStatusController codec (GetStatus_Execute env statusDeps))\<rparr>"

end
