(* ===== verification/Http_Properties.thy ===== *)
theory Http_Properties
  imports Http_Router Allocation_Properties
begin

text \<open>The API in front of the use cases: which requests reach them and what comes back.\<close>

section \<open>Only an allocation answers 201\<close>

lemma map_error_status [simp]:
  "fst (mapAllocatePaymentAddressError e) \<noteq> 201" "fst (mapGetPaymentAddressStatusError e) \<noteq> 201"
  "fst (mapListAddressPoliciesError e) \<noteq> 201"
  by (simp_all add: mapAllocatePaymentAddressError_def mapGetPaymentAddressStatusError_def
      mapListAddressPoliciesError_def)

lemmas reply_defs = writeErrorJSON_def writeJSON_def method_not_allowed_def http_error_def

lemma chain_reply: "parseSupportedChainPathValue codec h vals = Inl reply \<Longrightarrow> sp_Status reply = 404"
  by (auto simp: parseSupportedChainPathValue_def reply_defs Let_def split: if_splits)

lemma query_status:
  "sp_Status (fst (HealthController codec uh h r vals w)) \<noteq> 201"
  "sp_Status (fst (ListAddressPoliciesController codec ul h r vals w)) \<noteq> 201"
  "sp_Status (fst (GetPaymentAddressStatusController codec ug h r vals w)) \<noteq> 201"
  by (auto simp: HealthController_def ListAddressPoliciesController_def GetPaymentAddressStatusController_def
      reply_defs case_prod_unfold dest: chain_reply split: sum.splits option.splits prod.splits)

text \<open>
  The controller answers by itself, or it calls the use case with an input that depends on the
  request only.
\<close>

lemma allocate_controller_cases:
  "(\<exists>reply. sp_Status reply \<noteq> 201 \<and>
      (\<forall>uc w. AllocatePaymentAddressController codec uc h r vals w = (reply, w))) \<or>
   (\<exists>input. trim_space (ai_CustomerReference input) = ai_CustomerReference input \<and>
      ai_IdempotencyKey input = trim_space (header_get (sq_Headers r) idempotencyKeyHeader) \<and>
      (\<forall>uc w. AllocatePaymentAddressController codec uc h r vals w =
         (case uc input w of (answer, w1) \<Rightarrow> (allocate_answer codec h answer, w1))))"
  (is "?own \<or> ?call")
proof -
  have own: ?own if "sp_Status reply \<noteq> 201" "\<And>uc w. AllocatePaymentAddressController codec uc h r vals w = (reply, w)"
    for reply
    using that by blast
  show ?thesis
  proof (cases "parseSupportedChainPathValue codec h vals")
    case (Inl reply)
    then show ?thesis
      using own [of reply] chain_reply [OF Inl] by (simp add: AllocatePaymentAddressController_def)
  next
    case (Inr chain)
    note c = Inr AllocatePaymentAddressController_def Let_def
    show ?thesis
    proof (cases "read_allocate_request codec (sq_Body r)")
      case None
      then show ?thesis
        using own [of "method_not_allowed codec h ''POST''"]
          own [of "writeErrorJSON codec h 400 ''invalid request body''"]
        by (cases "sq_Method r = ''POST''") (simp_all add: c reply_defs)
    next
      case (Some request)
      let ?id = "trim_space (areq_AddressPolicyID request)"
      let ?input = "\<lambda>amount. \<lparr>ai_Chain = chain, ai_AddressPolicyID = ?id, ai_ExpectedAmountMinor = amount,
          ai_CustomerReference = trimOptionalString (areq_CustomerReference request),
          ai_IdempotencyKey = trim_space (header_get (sq_Headers r) idempotencyKeyHeader)\<rparr>"
      have ?call if "areq_ExpectedAmountMinor request = Some amount" "?id \<noteq> []" "sq_Method r = ''POST''" for amount
        using that Some
        by (intro exI [of _ "?input amount"]) (simp add: c trimOptionalString_def split: option.split)
      moreover have ?own if "areq_ExpectedAmountMinor request = None \<or> ?id = [] \<or> sq_Method r \<noteq> ''POST''"
        using that Some own [of "method_not_allowed codec h ''POST''"]
          own [of "writeErrorJSON codec h 400 ''addressPolicyId is required''"]
          own [of "writeErrorJSON codec h 400 ''expectedAmountMinor is required''"]
        by (cases "sq_Method r = ''POST''"; cases "?id = []") (simp_all add: c reply_defs)
      ultimately show ?thesis by (metis not_None_eq)
    qed
  qed
qed

section \<open>The router\<close>

lemma find_route_set: "find_route routes segs = Some (handler, vals) \<Longrightarrow> handler \<in> snd ` set routes"
  by (induction routes segs rule: find_route.induct) (auto split: option.splits)

text \<open>
  A request that is answered 201 went to the allocation controller; then every request with the same
  path does, whatever the environment.
\<close>

lemma router_created:
  assumes redirect: "\<And>p h. sp_Status (redirect p h) = 301"
    and "newRouter redirect (api_controllers codec env deps sd) h r vals w = (reply, w')" "sp_Status reply = 201"
  obtains pathVals where "\<And>env w. newRouter redirect (api_controllers codec env deps sd) h r vals w =
    AllocatePaymentAddressController codec (Allocate_Execute env deps) h r pathVals w"
proof -
  let ?segs = "tl (split_on (CHR ''/'') (sq_Path r))"
  let ?a = "[Lit ''v1'', Lit ''chains'', Wild ''chain'', Lit ''payment-addresses'']"
  have q: "sp_Status (fst (newRouter redirect (api_controllers codec env deps sd) h r vals w)) = 201"
    using assms(2,3) by simp
  have clean: "sq_Path r \<noteq> ''*''" "sq_Method r = ''CONNECT'' \<or> clean_path (sq_Path r) = sq_Path r"
    using q redirect by (auto simp: newRouter_def serve_mux_def split: if_splits)
  have m: "match_segments [Lit ''health''] ?segs Map.empty = None"
    "match_segments [Lit ''v1'', Lit ''chains'', Wild ''chain'', Lit ''address-policies''] ?segs Map.empty = None"
    using q clean query_status
    by (auto simp: newRouter_def serve_mux_def api_controllers_def route_if_def split: option.splits)
  obtain pathVals where a: "match_segments ?a ?segs Map.empty = Some pathVals"
    using q clean m query_status
    by (auto simp: newRouter_def serve_mux_def api_controllers_def route_if_def http_error_def split: option.splits)
  show thesis
    by (rule that [of pathVals])
      (use clean m a in \<open>auto simp: newRouter_def serve_mux_def api_controllers_def route_if_def\<close>)
qed

section \<open>Repeating a request\<close>

lemma allocate_answer_replayed:
  "allocate_answer codec h (Inr (resp\<lparr>arsp_IdempotencyReplayed := True\<rparr>)) =
     \<lparr>sp_Status = 201,
      sp_Headers = header_set ''Content-Type'' ''application/json'' (header_set idempotencyReplayedHeader ''true'' h),
      sp_Body = sp_Body (allocate_answer codec h (Inr resp))\<rparr>"
  by (simp add: allocate_answer_def writeJSON_def newAllocatePaymentAddressResponse_def)

text \<open>
  C36: a client may repeat an allocation request. Once a request with an idempotency key was
  answered 201 by the public API, the same request sent again, whatever other requests and cycles
  did to the database in between, is answered 201 with the very same body and the header
  \<open>Idempotency-Replayed: true\<close>, and no row changes. (The second request meets no fault of the
  database; \<open>http.RedirectHandler\<close> answers 301.)
\<close>

theorem repeated_request_replayed:
  assumes redirect: "\<And>p h. sp_Status (redirect p h) = 301"
    and first: "NewPublicRouter redirect (api_controllers codec env deps sd) r w = (reply, log1, w')"
      "sp_Status reply = 201"
    and key: "trim_space (header_get (sq_Headers r) ''Idempotency-Key'') \<noteq> []"
    and api: "ad_policyReader deps = Some (NewAddressPolicyReader policies)"
      "ad_unitOfWork deps = Some fullTxScope"
    and others: "others_rel db_step env" "db_inv (w_db w)" "db_step (w_db w') (w_db w2)" "calm env2"
  shows "\<exists>reply2 w3. NewPublicRouter redirect (api_controllers codec env2 deps sd) r w2 = (reply2, log1, w3) \<and>
    sp_Status reply2 = 201 \<and> sp_Body reply2 = sp_Body reply \<and>
    header_get (sp_Headers reply2) ''Idempotency-Replayed'' = ''true'' \<and> w_db w3 = w_db w2"
proof -
  let ?h = "cors_headers (sq_Headers r) []"
  have m: "sq_Method r \<noteq> ''OPTIONS''"
    and n: "newRouter redirect (api_controllers codec env deps sd) ?h r Map.empty w = (reply, w')"
    and l: "log1 = (sq_Method r, unescape_segment (sq_Path r), 201)"
    using first by (auto simp: NewPublicRouter_def RequestLog_def CORS_def Let_def split: if_splits prod.splits)
  obtain vs where vs: "\<And>env w. newRouter redirect (api_controllers codec env deps sd) ?h r Map.empty w =
      AllocatePaymentAddressController codec (Allocate_Execute env deps) ?h r vs w"
    using router_created [OF redirect n first(2)] by blast
  obtain input where i: "trim_space (ai_CustomerReference input) = ai_CustomerReference input"
      "ai_IdempotencyKey input = trim_space (header_get (sq_Headers r) idempotencyKeyHeader)"
      "\<And>uc w. AllocatePaymentAddressController codec uc ?h r vs w =
         (case uc input w of (answer, w1) \<Rightarrow> (allocate_answer codec ?h answer, w1))"
    using allocate_controller_cases [of codec ?h r vs] n first(2) unfolding vs by fastforce
  obtain answer where "Allocate_Execute env deps input w = (answer, w')" "reply = allocate_answer codec ?h answer"
    using n unfolding vs i(3) by (auto split: prod.splits)
  moreover from this first(2) obtain resp where "answer = Inr resp"
    by (cases answer) (auto simp: allocate_answer_def reply_defs case_prod_unfold)
  ultimately have a: "Allocate_Execute env deps input w = (Inr resp, w')"
      "reply = allocate_answer codec ?h (Inr resp)"
    by simp_all
  have k: "ai_IdempotencyKey input \<noteq> []"
    using key by (simp add: i(2) idempotencyKeyHeader_def)
  obtain w3 where w3: "Allocate_Execute env2 deps input w2 = (Inr (resp\<lparr>arsp_IdempotencyReplayed := True\<rparr>), w3)"
      "w_db w3 = w_db w2"
    using configured.Allocate_Execute_replays [OF a(1) api(1) refl api(2) others(1,2) i(1) k others(3,4)] by blast
  show ?thesis
    using w3 m l
    by (simp add: NewPublicRouter_def RequestLog_def CORS_def Let_def vs i(3) allocate_answer_replayed a(2)
        header_get_set header_key_def idempotencyReplayedHeader_def)
qed

definition sample_api_codec :: Codec where
  "sample_api_codec = \<lparr>json_text = (\<lambda>_. ''{}''), json_value = (\<lambda>_. None),
     json_first = (\<lambda>_. Some (JObj [(''addressPolicyId'', JStr (ai_AddressPolicyID sample_input)),
       (''expectedAmountMinor'', JNum (format_int (ai_ExpectedAmountMinor sample_input))),
       (''customerReference'', JStr (ai_CustomerReference sample_input))], [CHR 0x0A]))\<rparr>"

definition sample_request :: ServerRequest where
  "sample_request = \<lparr>sq_Method = ''POST'', sq_Path = ''/v1/chains/bitcoin/payment-addresses'',
     sq_Headers = header_set idempotencyKeyHeader (ai_IdempotencyKey sample_input) [], sq_Body = Some ''{}''\<rparr>"

definition sample_redirect :: "string \<Rightarrow> Header \<Rightarrow> ServerReply" where
  "sample_redirect p h = \<lparr>sp_Status = 301, sp_Headers = header_set ''Location'' p h, sp_Body = []\<rparr>"

definition sample_status_deps :: GetStatusDeps where
  "sample_status_deps = \<lparr>gd_finder = True, gd_policyReader = ad_policyReader sample_deps\<rparr>"

lemma sample_request_read:
  "read_allocate_request sample_api_codec (Some ''{}'') =
     Some \<lparr>areq_AddressPolicyID = ai_AddressPolicyID sample_input,
          areq_ExpectedAmountMinor = Some (ai_ExpectedAmountMinor sample_input),
          areq_CustomerReference = Some (ai_CustomerReference sample_input)\<rparr>"
  by (simp add: read_allocate_request_def sample_api_codec_def json_blank_def decode_allocate_request_def
      field_of_def struct_field_def no_allocate_request_def parse_format_int)

lemma sample_input_trimmed:
  "trim_space (ai_AddressPolicyID sample_input) = ai_AddressPolicyID sample_input"
  "trim_space (ai_CustomerReference sample_input) = ai_CustomerReference sample_input"
  "trim_space (ai_IdempotencyKey sample_input) = ai_IdempotencyKey sample_input"
  "ai_AddressPolicyID sample_input \<noteq> []" "ai_Chain sample_input = ''bitcoin''"
  by (simp_all add: sample_input_def trim_space_plain printable_def)

lemma sample_api_answer:
  "NewPublicRouter sample_redirect (api_controllers sample_api_codec sample_env sample_deps sample_status_deps)
     sample_request sample_world =
   (allocate_answer sample_api_codec [] (Inr sample_response),
    (''POST'', ''/v1/chains/bitcoin/payment-addresses'', 201), sample_after)"
proof -
  have p: "clean_path (sq_Path sample_request) = sq_Path sample_request" "sq_Path sample_request \<noteq> ''*''"
    "split_on (CHR ''/'') (sq_Path sample_request) = [[], ''v1'', ''chains'', ''bitcoin'', ''payment-addresses'']"
    "unescape_segment ''/v1/chains/bitcoin/payment-addresses'' = ''/v1/chains/bitcoin/payment-addresses''"
    by (simp_all add: sample_request_def clean_path_def slash_path_def unescape_segment_def)
  have o: "header_get (sq_Headers sample_request) ''Origin'' = []"
    "header_get (sq_Headers sample_request) idempotencyKeyHeader = ai_IdempotencyKey sample_input"
    by (simp_all add: sample_request_def header_get_set header_key_def idempotencyKeyHeader_def)
      (simp add: header_get_def)
  have c: "parseSupportedChainPathValue sample_api_codec [] [''chain'' \<mapsto> ''bitcoin''] = Inr ''bitcoin''"
    by (simp add: parseSupportedChainPathValue_def path_value_def trim_space_plain to_lower_plain
        plain_char_def printable_def)
  have i: "\<lparr>ai_Chain = ''bitcoin'', ai_AddressPolicyID = ai_AddressPolicyID sample_input,
      ai_ExpectedAmountMinor = ai_ExpectedAmountMinor sample_input,
      ai_CustomerReference = ai_CustomerReference sample_input,
      ai_IdempotencyKey = ai_IdempotencyKey sample_input\<rparr> = sample_input"
    by (simp add: sample_input_def)
  have r: "sq_Method sample_request = ''POST''" "sq_Body sample_request = Some ''{}''"
    "sq_Path sample_request = ''/v1/chains/bitcoin/payment-addresses''"
    by (simp_all add: sample_request_def)
  have "newRouter sample_redirect (api_controllers sample_api_codec sample_env sample_deps sample_status_deps)
      [] sample_request Map.empty sample_world =
    AllocatePaymentAddressController sample_api_codec (Allocate_Execute sample_env sample_deps)
      [] sample_request [''chain'' \<mapsto> ''bitcoin''] sample_world"
    by (simp add: newRouter_def serve_mux_def p api_controllers_def route_if_def unescape_segment_def)
  also have "\<dots> = (allocate_answer sample_api_codec [] (Inr sample_response), sample_after)"
    by (simp add: AllocatePaymentAddressController_def c r(1,2) sample_request_read sample_input_trimmed
        trimOptionalString_def o(2) i sample_executed)
  finally show ?thesis
    by (simp add: NewPublicRouter_def RequestLog_def CORS_def cors_headers_def o(1) allowedOrigin_def r p
        allocate_answer_def writeJSON_def)
qed

lemma repeated_request_replayed_witness:
  "\<exists>reply2 w3. NewPublicRouter sample_redirect
      (api_controllers sample_api_codec sample_env sample_deps sample_status_deps) sample_request sample_after =
      (reply2, (''POST'', ''/v1/chains/bitcoin/payment-addresses'', 201), w3) \<and>
    header_get (sp_Headers reply2) ''Idempotency-Replayed'' = ''true'' \<and> w_db w3 = w_db sample_after"
proof -
  have k: "trim_space (header_get (sq_Headers sample_request) ''Idempotency-Key'') \<noteq> []"
    by (simp add: sample_request_def header_get_set header_key_def idempotencyKeyHeader_def
        sample_input_trimmed) (simp add: sample_input_def)
  have d: "ad_policyReader sample_deps = Some (NewAddressPolicyReader [sample_policy])"
    "ad_unitOfWork sample_deps = Some fullTxScope"
    by (simp_all add: sample_deps_def)
  have c: "calm sample_env"
    by (simp add: calm_def no_faults_def sample_env_def)
  have s: "sp_Status (allocate_answer sample_api_codec [] (Inr sample_response)) = 201"
    by (simp add: allocate_answer_def writeJSON_def)
  have e: "sp_Status (sample_redirect p h) = 301" for p h
    by (simp add: sample_redirect_def)
  show ?thesis
    using repeated_request_replayed [OF e sample_api_answer s k d alone_steps [OF sample_env_alone]
        sample_world_inv steps.refl c] by blast
qed

end
