(* ===== verification/Schedulers.thy ===== *)
theory Schedulers
  imports Polling_UseCase Dispatch_UseCase
begin

text \<open>
  The scheduled entry points, \<open>src/internal/adapters/inbound/scheduler\<close>. A handler passes the request to
  its use case and its counters back. A cycle that ends early returns an error beside the counters
  it had reached; the handler then returns the error alone, with all counters zero. The handler and
  its use case may be \<open>nil\<close>, which is \<open>None\<close>.
\<close>

record PollerRequest =
  prq_BatchSize :: int64
  prq_RescheduleInterval :: duration
  prq_ClaimTTL :: duration
  prq_Chain :: string
  prq_Network :: string

record PollerResponse =
  prs_ClaimedCount :: int64
  prs_UpdatedCount :: int64
  prs_TerminalFailedCount :: int64
  prs_ProcessingErrorCount :: int64

type_synonym PollUseCase = "PollInput \<Rightarrow> World \<Rightarrow> (PollOutput \<times> go_error option) \<times> World"

definition PollerHandler_Handle ::
  "PollUseCase option \<Rightarrow> PollerRequest \<Rightarrow> World \<Rightarrow> (PollerResponse \<times> go_error option) \<times> World" where
  "PollerHandler_Handle useCase request w =
     (let none = \<lparr>prs_ClaimedCount = 0, prs_UpdatedCount = 0, prs_TerminalFailedCount = 0,
                  prs_ProcessingErrorCount = 0\<rparr>
      in case useCase of
          None \<Rightarrow> ((none, Some ErrOther), w)
        | Some execute \<Rightarrow>
            (case execute \<lparr>pin_BatchSize = prq_BatchSize request,
                     pin_RescheduleInterval = prq_RescheduleInterval request,
                     pin_ClaimTTL = prq_ClaimTTL request, pin_Chain = prq_Chain request,
                     pin_Network = prq_Network request\<rparr> w of
               ((output, Some err), w1) \<Rightarrow> ((none, Some err), w1)
             | ((output, None), w1) \<Rightarrow>
                 ((\<lparr>prs_ClaimedCount = pout_ClaimedCount output, prs_UpdatedCount = pout_UpdatedCount output,
                    prs_TerminalFailedCount = pout_TerminalFailedCount output,
                    prs_ProcessingErrorCount = pout_ProcessingErrorCount output\<rparr>, None), w1)))"

record WebhookDispatcherRequest =
  wrq_BatchSize :: int64
  wrq_DispatchTTL :: duration
  wrq_RetryDelay :: duration
  wrq_MaxAttempts :: int32

record WebhookDispatcherResponse =
  wrs_ClaimedCount :: int64
  wrs_SentCount :: int64
  wrs_RetriedCount :: int64
  wrs_FailedCount :: int64

type_synonym DispatchUseCase = "DispatchInput \<Rightarrow> World \<Rightarrow> (DispatchOutput \<times> go_error option) \<times> World"

definition WebhookDispatcherHandler_Handle ::
  "DispatchUseCase option \<Rightarrow> WebhookDispatcherRequest \<Rightarrow> World
     \<Rightarrow> (WebhookDispatcherResponse \<times> go_error option) \<times> World" where
  "WebhookDispatcherHandler_Handle useCase request w =
     (let none = \<lparr>wrs_ClaimedCount = 0, wrs_SentCount = 0, wrs_RetriedCount = 0, wrs_FailedCount = 0\<rparr>
      in case useCase of
          None \<Rightarrow> ((none, Some ErrOther), w)
        | Some execute \<Rightarrow>
            (case execute \<lparr>din_BatchSize = wrq_BatchSize request, din_MaxAttempts = wrq_MaxAttempts request,
                     din_RetryDelay = wrq_RetryDelay request,
                     din_DispatchTTL = wrq_DispatchTTL request\<rparr> w of
               ((output, Some err), w1) \<Rightarrow> ((none, Some err), w1)
             | ((output, None), w1) \<Rightarrow>
                 ((\<lparr>wrs_ClaimedCount = dout_ClaimedCount output, wrs_SentCount = dout_SentCount output,
                    wrs_RetriedCount = dout_RetriedCount output,
                    wrs_FailedCount = dout_FailedCount output\<rparr>, None), w1)))"

text \<open>The database after a scheduled cycle is the one the use case leaves.\<close>

lemma Handle_world:
  "snd (PollerHandler_Handle (Some poll) request w) = snd (poll
     \<lparr>pin_BatchSize = prq_BatchSize request, pin_RescheduleInterval = prq_RescheduleInterval request,
      pin_ClaimTTL = prq_ClaimTTL request, pin_Chain = prq_Chain request, pin_Network = prq_Network request\<rparr> w)"
  "snd (WebhookDispatcherHandler_Handle (Some dispatch) request' w) = snd (dispatch
     \<lparr>din_BatchSize = wrq_BatchSize request', din_MaxAttempts = wrq_MaxAttempts request',
      din_RetryDelay = wrq_RetryDelay request', din_DispatchTTL = wrq_DispatchTTL request'\<rparr> w)"
  by (simp_all add: PollerHandler_Handle_def WebhookDispatcherHandler_Handle_def Let_def
      split: prod.split option.split)

end
