(* ===== verification/Bootstrap_Config.thy ===== *)
theory Bootstrap_Config
  imports Schedulers Bitcoin_Observer Ethereum_Rpc Webhook
begin

text \<open>
  Reading of the configuration: \<open>src/internal/bootstrap\<close>, the parts of \<open>api.go\<close>, \<open>poller.go\<close>,
  \<open>receipt_webhook_dispatcher.go\<close> and the worker files that turn environment variables into the
  settings of the three programs.

  \<open>lookup\<close> is \<open>os.Getenv\<close> or the environment of a worker: it gives the empty string for a variable
  that is not set. \<open>time.ParseDuration\<close> is the parameter \<open>dur\<close>: nothing here depends on the texts it
  reads, only on the sign of what it returns. An \<open>int\<close> has 64 bits.
\<close>

type_synonym Lookup = "string \<Rightarrow> string"
type_synonym DurationParser = "string \<Rightarrow> duration option"

section \<open>Numbers and booleans\<close>

text \<open>\<open>strconv.ParseInt(s, 10, 32)\<close> and \<open>strconv.ParseBool\<close>.\<close>

definition parse_int32 :: "string \<Rightarrow> int32 option" where
  "parse_int32 s =
     (case parse_int64 s of
        None \<Rightarrow> None
      | Some v \<Rightarrow> if - (2 ^ 31) \<le> sint v \<and> sint v < 2 ^ 31 then Some (scast v) else None)"

definition parse_bool :: "string \<Rightarrow> bool option" where
  "parse_bool s =
     (if s \<in> {''1'', ''t'', ''T'', ''true'', ''TRUE'', ''True''} then Some True
      else if s \<in> {''0'', ''f'', ''F'', ''false'', ''FALSE'', ''False''} then Some False
      else None)"

definition parsePositiveInt32LookupWithDefault :: "Lookup \<Rightarrow> string \<Rightarrow> int32 \<Rightarrow> int32 result" where
  "parsePositiveInt32LookupWithDefault lookup key fallback =
     (let raw = trim_space (lookup key)
      in if raw = [] then Inr fallback
         else case parse_int32 raw of
             None \<Rightarrow> Inl ErrOther
           | Some parsed \<Rightarrow> if sint parsed \<le> 0 then Inl ErrOther else Inr parsed)"

definition parsePositiveDurationLookupWithDefault ::
  "DurationParser \<Rightarrow> Lookup \<Rightarrow> string \<Rightarrow> duration \<Rightarrow> duration result" where
  "parsePositiveDurationLookupWithDefault dur lookup key fallback =
     (let raw = trim_space (lookup key)
      in if raw = [] then Inr fallback
         else case dur raw of
             None \<Rightarrow> Inl ErrOther
           | Some parsed \<Rightarrow> if sint parsed \<le> 0 then Inl ErrOther else Inr parsed)"

definition parseEnabledPolicyEnv :: "Lookup \<Rightarrow> string \<Rightarrow> bool result" where
  "parseEnabledPolicyEnv lookup key =
     (let raw = trim_space (lookup key)
      in if raw = [] then Inr False
         else case parse_bool raw of None \<Rightarrow> Inl ErrOther | Some enabled \<Rightarrow> Inr enabled)"

section \<open>Receipt terms\<close>

definition defaultBitcoinRequiredConfirmations :: int32 where
  "defaultBitcoinRequiredConfirmations = 1"

definition defaultEthereumSepoliaRequiredConfirmations :: int32 where
  "defaultEthereumSepoliaRequiredConfirmations = 12"

definition defaultBitcoinReceiptExpiresAfter :: duration where
  "defaultBitcoinReceiptExpiresAfter = 604800000000000"

definition newPaymentReceiptTermsScope :: "SupportedChain \<Rightarrow> NetworkID \<Rightarrow> PaymentReceiptTermsScope" where
  "newPaymentReceiptTermsScope chain network = \<lparr>scope_Chain = chain, scope_Network = network\<rparr>"

text \<open>The four scopes in the order of the source, with what was read for each.\<close>

definition terms_by_scope :: "'a \<Rightarrow> 'a \<Rightarrow> 'a \<Rightarrow> 'a \<Rightarrow> (PaymentReceiptTermsScope \<times> 'a) list" where
  "terms_by_scope mainnet testnet4 ethereumMainnet ethereumSepolia =
     [(newPaymentReceiptTermsScope SupportedChainBitcoin NetworkIDMainnet, mainnet),
      (newPaymentReceiptTermsScope SupportedChainBitcoin NetworkIDTestnet4, testnet4),
      (newPaymentReceiptTermsScope SupportedChainEthereum NetworkIDMainnet, ethereumMainnet),
      (newPaymentReceiptTermsScope SupportedChainEthereum NetworkIDSepolia, ethereumSepolia)]"

definition loadReceiptRequiredConfirmationsFromLookup ::
  "Lookup \<Rightarrow> int32 \<Rightarrow> (PaymentReceiptTermsScope \<times> int32) list result" where
  "loadReceiptRequiredConfirmationsFromLookup lookup fallback =
     (case parsePositiveInt32LookupWithDefault lookup ''BITCOIN_MAINNET_REQUIRED_CONFIRMATIONS'' fallback of
        Inl err \<Rightarrow> Inl err
      | Inr mainnetConfirmations \<Rightarrow>
     (case parsePositiveInt32LookupWithDefault lookup ''BITCOIN_TESTNET4_REQUIRED_CONFIRMATIONS'' fallback of
        Inl err \<Rightarrow> Inl err
      | Inr testnet4Confirmations \<Rightarrow>
     (case parsePositiveInt32LookupWithDefault lookup ''ETHEREUM_MAINNET_REQUIRED_CONFIRMATIONS'' fallback of
        Inl err \<Rightarrow> Inl err
      | Inr ethereumMainnetConfirmations \<Rightarrow>
     (case parsePositiveInt32LookupWithDefault lookup ''ETHEREUM_SEPOLIA_REQUIRED_CONFIRMATIONS''
             defaultEthereumSepoliaRequiredConfirmations of
        Inl err \<Rightarrow> Inl err
      | Inr ethereumSepoliaConfirmations \<Rightarrow>
          Inr (terms_by_scope mainnetConfirmations testnet4Confirmations ethereumMainnetConfirmations
                 ethereumSepoliaConfirmations)))))"

definition loadReceiptExpiresAfterByScopeFromLookup ::
  "DurationParser \<Rightarrow> Lookup \<Rightarrow> duration \<Rightarrow> (PaymentReceiptTermsScope \<times> duration) list result" where
  "loadReceiptExpiresAfterByScopeFromLookup dur lookup fallback =
     (case parsePositiveDurationLookupWithDefault dur lookup ''BITCOIN_MAINNET_RECEIPT_EXPIRES_AFTER'' fallback of
        Inl err \<Rightarrow> Inl err
      | Inr mainnetExpiresAfter \<Rightarrow>
     (case parsePositiveDurationLookupWithDefault dur lookup ''BITCOIN_TESTNET4_RECEIPT_EXPIRES_AFTER'' fallback of
        Inl err \<Rightarrow> Inl err
      | Inr testnet4ExpiresAfter \<Rightarrow>
     (case parsePositiveDurationLookupWithDefault dur lookup ''ETHEREUM_MAINNET_RECEIPT_EXPIRES_AFTER'' fallback of
        Inl err \<Rightarrow> Inl err
      | Inr ethereumMainnetExpiresAfter \<Rightarrow>
     (case parsePositiveDurationLookupWithDefault dur lookup ''ETHEREUM_SEPOLIA_RECEIPT_EXPIRES_AFTER'' fallback of
        Inl err \<Rightarrow> Inl err
      | Inr ethereumSepoliaExpiresAfter \<Rightarrow>
          Inr (terms_by_scope mainnetExpiresAfter testnet4ExpiresAfter ethereumMainnetExpiresAfter
                 ethereumSepoliaExpiresAfter)))))"

section \<open>The poller\<close>

record PollerConfig =
  pcf_TickInterval :: duration
  pcf_RescheduleInterval :: duration
  pcf_BatchSize :: int64
  pcf_ClaimTTL :: duration
  pcf_Chain :: ChainID
  pcf_Network :: NetworkID

record pollerDispatchConfig =
  pdc_RescheduleInterval :: duration
  pdc_BatchSize :: int64
  pdc_ClaimTTL :: duration
  pdc_Chain :: ChainID
  pdc_Network :: NetworkID

record pollerDispatchDefaults =
  pdf_RescheduleInterval :: duration
  pdf_BatchSize :: int64
  pdf_ClaimTTL :: duration

definition parsePollerPositiveDurationLookupWithDefault ::
  "DurationParser \<Rightarrow> Lookup \<Rightarrow> string \<Rightarrow> duration \<Rightarrow> duration result" where
  "parsePollerPositiveDurationLookupWithDefault dur lookup key fallback =
     (let raw = trim_space (lookup key)
      in if raw = [] then Inr fallback
         else case dur raw of
             None \<Rightarrow> Inl ErrOther
           | Some v \<Rightarrow> if sint v \<le> 0 then Inl ErrOther else Inr v)"

definition parsePollerPositiveIntLookupWithDefault :: "Lookup \<Rightarrow> string \<Rightarrow> int64 \<Rightarrow> int64 result" where
  "parsePollerPositiveIntLookupWithDefault lookup key fallback =
     (let raw = trim_space (lookup key)
      in if raw = [] then Inr fallback
         else case parse_int64 raw of
             None \<Rightarrow> Inl ErrOther
           | Some v \<Rightarrow> if sint v \<le> 0 then Inl ErrOther else Inr v)"

definition parsePollerChainLookup :: "Lookup \<Rightarrow> string \<Rightarrow> ChainID result" where
  "parsePollerChainLookup lookup key =
     (let raw = trim_space (lookup key)
      in if raw = [] then Inr []
         else case ParseChainID raw of None \<Rightarrow> Inl ErrOther | Some chain \<Rightarrow> Inr chain)"

definition parsePollerNetworkLookup :: "Lookup \<Rightarrow> string \<Rightarrow> NetworkID result" where
  "parsePollerNetworkLookup lookup key =
     (let raw = trim_space (lookup key)
      in if raw = [] then Inr []
         else case ParseNetworkID raw of None \<Rightarrow> Inl ErrOther | Some network \<Rightarrow> Inr network)"

definition loadConfiguredPollerChainFromLookup :: "Lookup \<Rightarrow> (ChainID \<times> bool) result" where
  "loadConfiguredPollerChainFromLookup lookup =
     (case parsePollerChainLookup lookup ''POLL_CHAIN'' of
        Inl err \<Rightarrow> Inl err
      | Inr chain \<Rightarrow> if chain = [] then Inr ([], False) else Inr (chain, True))"

definition loadPollerDispatchConfigFromLookup ::
  "DurationParser \<Rightarrow> Lookup \<Rightarrow> pollerDispatchDefaults \<Rightarrow> pollerDispatchConfig result" where
  "loadPollerDispatchConfigFromLookup dur lookup defaults =
     (case parsePollerPositiveDurationLookupWithDefault dur lookup ''POLL_RESCHEDULE_INTERVAL''
             (pdf_RescheduleInterval defaults) of
        Inl err \<Rightarrow> Inl err
      | Inr rescheduleInterval \<Rightarrow>
     (case parsePollerPositiveDurationLookupWithDefault dur lookup ''POLL_CLAIM_TTL''
             (pdf_ClaimTTL defaults) of
        Inl err \<Rightarrow> Inl err
      | Inr claimTTL \<Rightarrow>
     (case parsePollerPositiveIntLookupWithDefault lookup ''POLL_BATCH_SIZE'' (pdf_BatchSize defaults) of
        Inl err \<Rightarrow> Inl err
      | Inr batchSize \<Rightarrow>
     (case parsePollerChainLookup lookup ''POLL_CHAIN'' of
        Inl err \<Rightarrow> Inl err
      | Inr chain \<Rightarrow>
     (case parsePollerNetworkLookup lookup ''POLL_NETWORK'' of
        Inl err \<Rightarrow> Inl err
      | Inr network \<Rightarrow>
          if network \<noteq> [] \<and> chain = [] then Inl ErrOther
          else Inr \<lparr>pdc_RescheduleInterval = rescheduleInterval, pdc_BatchSize = batchSize,
                    pdc_ClaimTTL = claimTTL, pdc_Chain = chain, pdc_Network = network\<rparr>)))))"

definition loadPollerConfigFromLookup :: "DurationParser \<Rightarrow> Lookup \<Rightarrow> PollerConfig result" where
  "loadPollerConfigFromLookup dur lookup =
     (case parsePollerPositiveDurationLookupWithDefault dur lookup ''POLL_TICK_INTERVAL'' 0 of
        Inl err \<Rightarrow> Inl err
      | Inr tickInterval \<Rightarrow>
     (case loadPollerDispatchConfigFromLookup dur lookup
             \<lparr>pdf_RescheduleInterval = 0, pdf_BatchSize = 0, pdf_ClaimTTL = 0\<rparr> of
        Inl err \<Rightarrow> Inl err
      | Inr dispatchConfig \<Rightarrow>
          Inr \<lparr>pcf_TickInterval = tickInterval,
               pcf_RescheduleInterval = pdc_RescheduleInterval dispatchConfig,
               pcf_BatchSize = pdc_BatchSize dispatchConfig, pcf_ClaimTTL = pdc_ClaimTTL dispatchConfig,
               pcf_Chain = pdc_Chain dispatchConfig, pcf_Network = pdc_Network dispatchConfig\<rparr>))"

definition defaultPollerTickInterval :: duration where "defaultPollerTickInterval = 15000000000"
definition defaultPollerClaimTTL :: duration where "defaultPollerClaimTTL = 30000000000"
definition defaultPollerBatchSize :: int64 where "defaultPollerBatchSize = 50"

text \<open>What \<open>RunPoller\<close> replaces in a configuration, and the request of each of its cycles.\<close>

definition poller_run_config :: "PollerConfig \<Rightarrow> PollerConfig" where
  "poller_run_config config =
     config\<lparr>pcf_TickInterval := (if sint (pcf_TickInterval config) \<le> 0 then defaultPollerTickInterval
              else pcf_TickInterval config),
            pcf_BatchSize := (if sint (pcf_BatchSize config) \<le> 0 then defaultPollerBatchSize
              else pcf_BatchSize config),
            pcf_ClaimTTL := (if sint (pcf_ClaimTTL config) \<le> 0 then defaultPollerClaimTTL
              else pcf_ClaimTTL config)\<rparr>"

definition poller_request :: "PollerConfig \<Rightarrow> PollerRequest" where
  "poller_request config =
     \<lparr>prq_BatchSize = pcf_BatchSize config, prq_RescheduleInterval = pcf_RescheduleInterval config,
      prq_ClaimTTL = pcf_ClaimTTL config, prq_Chain = pcf_Chain config, prq_Network = pcf_Network config\<rparr>"

text \<open>
  The request of the worker, \<open>buildCloudflarePollerRequest\<close>; the network and the chain are strings in both.
\<close>

definition buildCloudflarePollerRequest :: "DurationParser \<Rightarrow> Lookup \<Rightarrow> PollerRequest result" where
  "buildCloudflarePollerRequest dur lookup =
     (case loadPollerDispatchConfigFromLookup dur lookup
             \<lparr>pdf_RescheduleInterval = 300000000000, pdf_BatchSize = 2, pdf_ClaimTTL = 30000000000\<rparr> of
        Inl err \<Rightarrow> Inl err
      | Inr dispatchConfig \<Rightarrow>
          Inr \<lparr>prq_BatchSize = pdc_BatchSize dispatchConfig,
               prq_RescheduleInterval = pdc_RescheduleInterval dispatchConfig,
               prq_ClaimTTL = pdc_ClaimTTL dispatchConfig, prq_Chain = pdc_Chain dispatchConfig,
               prq_Network = pdc_Network dispatchConfig\<rparr>)"

section \<open>The webhook dispatcher\<close>

record ReceiptWebhookDispatcherConfig =
  dcf_Interval :: duration
  dcf_BatchSize :: int64
  dcf_ClaimTTL :: duration
  dcf_MaxAttempts :: int32
  dcf_RetryDelay :: duration

record receiptWebhookDispatchSettings =
  rds_BatchSize :: int64
  rds_DispatchTTL :: duration
  rds_MaxAttempts :: int32
  rds_RetryDelay :: duration

record receiptWebhookNotifierSettings =
  rns_Secret :: string
  rns_Timeout :: duration
  rns_InsecureSkipVerify :: bool

text \<open>
  A missing variable gives the fallback, or is an error when the setting is required. Required and
  optional settings differ in the text of their errors only.
\<close>

definition parseReceiptWebhookDispatcherPositiveDurationLookup ::
  "DurationParser \<Rightarrow> Lookup \<Rightarrow> string \<Rightarrow> duration \<Rightarrow> bool \<Rightarrow> duration result" where
  "parseReceiptWebhookDispatcherPositiveDurationLookup dur lookup key fallback required =
     (let raw = trim_space (lookup key)
      in if raw = [] then (if required then Inl ErrOther else Inr fallback)
         else case dur raw of
             None \<Rightarrow> Inl ErrOther
           | Some v \<Rightarrow> if sint v \<le> 0 then Inl ErrOther else Inr v)"

definition parseReceiptWebhookDispatcherPositiveIntLookup ::
  "Lookup \<Rightarrow> string \<Rightarrow> int64 \<Rightarrow> bool \<Rightarrow> int64 result" where
  "parseReceiptWebhookDispatcherPositiveIntLookup lookup key fallback required =
     (let raw = trim_space (lookup key)
      in if raw = [] then (if required then Inl ErrOther else Inr fallback)
         else case parse_int64 raw of
             None \<Rightarrow> Inl ErrOther
           | Some v \<Rightarrow> if sint v \<le> 0 then Inl ErrOther else Inr v)"

definition parseReceiptWebhookDispatcherPositiveInt32Lookup ::
  "Lookup \<Rightarrow> string \<Rightarrow> int32 \<Rightarrow> bool \<Rightarrow> int32 result" where
  "parseReceiptWebhookDispatcherPositiveInt32Lookup lookup key fallback required =
     (let raw = trim_space (lookup key)
      in if raw = [] then (if required then Inl ErrOther else Inr fallback)
         else case parse_int32 raw of
             None \<Rightarrow> Inl ErrOther
           | Some v \<Rightarrow> if sint v \<le> 0 then Inl ErrOther else Inr v)"

definition parseReceiptWebhookDispatcherBoolLookup :: "Lookup \<Rightarrow> string \<Rightarrow> bool result" where
  "parseReceiptWebhookDispatcherBoolLookup lookup key =
     (let raw = trim_space (lookup key)
      in if raw = [] then Inr False
         else case parse_bool raw of None \<Rightarrow> Inl ErrOther | Some v \<Rightarrow> Inr v)"

definition loadReceiptWebhookDispatchSettingsFromLookup ::
  "DurationParser \<Rightarrow> Lookup \<Rightarrow> receiptWebhookDispatchSettings \<Rightarrow> bool
     \<Rightarrow> receiptWebhookDispatchSettings result" where
  "loadReceiptWebhookDispatchSettingsFromLookup dur lookup defaults required =
     (case parseReceiptWebhookDispatcherPositiveIntLookup lookup ''RECEIPT_WEBHOOK_DISPATCH_BATCH_SIZE''
             (rds_BatchSize defaults) required of
        Inl err \<Rightarrow> Inl err
      | Inr batchSize \<Rightarrow>
     (case parseReceiptWebhookDispatcherPositiveDurationLookup dur lookup ''RECEIPT_WEBHOOK_DISPATCH_CLAIM_TTL''
             (rds_DispatchTTL defaults) required of
        Inl err \<Rightarrow> Inl err
      | Inr dispatchTTL \<Rightarrow>
     (case parseReceiptWebhookDispatcherPositiveInt32Lookup lookup ''RECEIPT_WEBHOOK_DISPATCH_MAX_ATTEMPTS''
             (rds_MaxAttempts defaults) required of
        Inl err \<Rightarrow> Inl err
      | Inr maxAttempts \<Rightarrow>
     (case parseReceiptWebhookDispatcherPositiveDurationLookup dur lookup ''RECEIPT_WEBHOOK_DISPATCH_RETRY_DELAY''
             (rds_RetryDelay defaults) required of
        Inl err \<Rightarrow> Inl err
      | Inr retryDelay \<Rightarrow>
          Inr \<lparr>rds_BatchSize = batchSize, rds_DispatchTTL = dispatchTTL, rds_MaxAttempts = maxAttempts,
               rds_RetryDelay = retryDelay\<rparr>))))"

definition loadReceiptWebhookDispatcherConfigFromLookup ::
  "DurationParser \<Rightarrow> Lookup \<Rightarrow> ReceiptWebhookDispatcherConfig result" where
  "loadReceiptWebhookDispatcherConfigFromLookup dur lookup =
     (case parseReceiptWebhookDispatcherPositiveDurationLookup dur lookup
             ''RECEIPT_WEBHOOK_DISPATCH_INTERVAL'' 0 True of
        Inl err \<Rightarrow> Inl err
      | Inr interval \<Rightarrow>
     (case loadReceiptWebhookDispatchSettingsFromLookup dur lookup
             \<lparr>rds_BatchSize = 0, rds_DispatchTTL = 0, rds_MaxAttempts = 0, rds_RetryDelay = 0\<rparr> True of
        Inl err \<Rightarrow> Inl err
      | Inr s \<Rightarrow>
          Inr \<lparr>dcf_Interval = interval, dcf_BatchSize = rds_BatchSize s, dcf_ClaimTTL = rds_DispatchTTL s,
               dcf_MaxAttempts = rds_MaxAttempts s, dcf_RetryDelay = rds_RetryDelay s\<rparr>))"

text \<open>What \<open>RunReceiptWebhookDispatcher\<close> replaces in a configuration, and its requests.\<close>

definition dispatcher_run_config :: "ReceiptWebhookDispatcherConfig \<Rightarrow> ReceiptWebhookDispatcherConfig" where
  "dispatcher_run_config c =
     \<lparr>dcf_Interval = (if sint (dcf_Interval c) \<le> 0 then 15000000000 else dcf_Interval c),
      dcf_BatchSize = (if sint (dcf_BatchSize c) \<le> 0 then 50 else dcf_BatchSize c),
      dcf_ClaimTTL = (if sint (dcf_ClaimTTL c) \<le> 0 then 30000000000 else dcf_ClaimTTL c),
      dcf_MaxAttempts = (if sint (dcf_MaxAttempts c) \<le> 0 then 10 else dcf_MaxAttempts c),
      dcf_RetryDelay = (if sint (dcf_RetryDelay c) \<le> 0 then 60000000000 else dcf_RetryDelay c)\<rparr>"

definition dispatcher_request :: "ReceiptWebhookDispatcherConfig \<Rightarrow> WebhookDispatcherRequest" where
  "dispatcher_request c =
     \<lparr>wrq_BatchSize = dcf_BatchSize c, wrq_DispatchTTL = dcf_ClaimTTL c, wrq_RetryDelay = dcf_RetryDelay c,
      wrq_MaxAttempts = dcf_MaxAttempts c\<rparr>"

definition cf_dispatch_defaults :: receiptWebhookDispatchSettings where
  "cf_dispatch_defaults = \<lparr>rds_BatchSize = 50, rds_DispatchTTL = 30000000000, rds_MaxAttempts = 10,
     rds_RetryDelay = 60000000000\<rparr>"

definition buildCloudflareReceiptWebhookDispatcherRequest ::
  "DurationParser \<Rightarrow> Lookup \<Rightarrow> WebhookDispatcherRequest result" where
  "buildCloudflareReceiptWebhookDispatcherRequest dur lookup =
     (case loadReceiptWebhookDispatchSettingsFromLookup dur lookup cf_dispatch_defaults False of
        Inl err \<Rightarrow> Inl err
      | Inr s \<Rightarrow>
          Inr \<lparr>wrq_BatchSize = rds_BatchSize s, wrq_DispatchTTL = rds_DispatchTTL s,
               wrq_RetryDelay = rds_RetryDelay s, wrq_MaxAttempts = rds_MaxAttempts s\<rparr>)"

text \<open>The notifiers' settings; the secret is read as it is.\<close>

definition loadReceiptWebhookNotifierSettingsFromLookup ::
  "DurationParser \<Rightarrow> Lookup \<Rightarrow> duration \<Rightarrow> receiptWebhookNotifierSettings result" where
  "loadReceiptWebhookNotifierSettingsFromLookup dur lookup timeoutFallback =
     (case parseReceiptWebhookDispatcherPositiveDurationLookup dur lookup ''PAYMENT_RECEIPT_WEBHOOK_TIMEOUT''
             timeoutFallback False of
        Inl err \<Rightarrow> Inl err
      | Inr timeout \<Rightarrow>
     (case parseReceiptWebhookDispatcherBoolLookup lookup ''PAYMENT_RECEIPT_WEBHOOK_INSECURE_SKIP_VERIFY'' of
        Inl err \<Rightarrow> Inl err
      | Inr insecureSkipVerify \<Rightarrow>
          Inr \<lparr>rns_Secret = lookup ''PAYMENT_RECEIPT_WEBHOOK_SECRET'', rns_Timeout = timeout,
               rns_InsecureSkipVerify = insecureSkipVerify\<rparr>))"

definition loadPaymentReceiptWebhookNotifierConfig :: "DurationParser \<Rightarrow> Lookup \<Rightarrow> WebhookConfig result" where
  "loadPaymentReceiptWebhookNotifierConfig dur lookup =
     (case loadReceiptWebhookNotifierSettingsFromLookup dur lookup 0 of
        Inl err \<Rightarrow> Inl err
      | Inr s \<Rightarrow>
          Inr \<lparr>wc_URL = trim_space (lookup ''PAYMENT_RECEIPT_WEBHOOK_URL''), wc_CloudflareBinding = [],
               wc_CloudflarePath = [], wc_Secret = rns_Secret s, wc_Timeout = rns_Timeout s,
               wc_InsecureSkipVerify = rns_InsecureSkipVerify s\<rparr>)"

definition loadCloudflareReceiptWebhookNotifierConfig :: "DurationParser \<Rightarrow> Lookup \<Rightarrow> WebhookConfig result" where
  "loadCloudflareReceiptWebhookNotifierConfig dur lookup =
     (case loadReceiptWebhookNotifierSettingsFromLookup dur lookup 10000000000 of
        Inl err \<Rightarrow> Inl err
      | Inr s \<Rightarrow>
          Inr \<lparr>wc_URL = [], wc_CloudflareBinding = ''RECEIPT_WEBHOOK_MOCK'',
               wc_CloudflarePath = ''/receipt-status'', wc_Secret = rns_Secret s,
               wc_Timeout = rns_Timeout s, wc_InsecureSkipVerify = rns_InsecureSkipVerify s\<rparr>)"

section \<open>Endpoints\<close>

text \<open>The timeout in seconds has precedence; its product wraps at 64 bits, as in Go.\<close>

definition endpoint_timeout :: "DurationParser \<Rightarrow> Lookup \<Rightarrow> string \<Rightarrow> string \<Rightarrow> duration" where
  "endpoint_timeout dur lookup timeoutKey secondsKey =
     (let rawTimeout = trim_space (lookup timeoutKey);
          timeout = (if rawTimeout = [] then 10000000000
                     else case dur rawTimeout of
                         None \<Rightarrow> 10000000000
                       | Some parsed \<Rightarrow> if 0 < sint parsed then parsed else 10000000000);
          timeoutSecondsRaw = trim_space (lookup secondsKey)
      in if timeoutSecondsRaw = [] then timeout
         else case parse_int64 timeoutSecondsRaw of
             None \<Rightarrow> timeout
           | Some parsedSeconds \<Rightarrow> if 0 < sint parsedSeconds then parsedSeconds * 1000000000 else timeout)"

record EndpointEnvKeys =
  ek_url :: string
  ek_user :: string
  ek_password :: string
  ek_timeout :: string
  ek_timeoutSeconds :: string

definition loadBitcoinEsploraConfigFromLookup ::
  "DurationParser \<Rightarrow> Lookup \<Rightarrow> EndpointEnvKeys \<Rightarrow> EsploraConfig option" where
  "loadBitcoinEsploraConfigFromLookup dur lookup keys =
     (let endpoint = trim_space (lookup (ek_url keys))
      in if endpoint = [] then None
         else Some \<lparr>ec_Endpoint = endpoint, ec_Username = trim_space (lookup (ek_user keys)),
                ec_Password = lookup (ek_password keys),
                ec_Timeout = endpoint_timeout dur lookup (ek_timeout keys) (ek_timeoutSeconds keys)\<rparr>)"

definition loadEthereumRPCConfigFromLookup ::
  "DurationParser \<Rightarrow> Lookup \<Rightarrow> EndpointEnvKeys \<Rightarrow> RpcConfig option" where
  "loadEthereumRPCConfigFromLookup dur lookup keys =
     (let endpoint = trim_space (lookup (ek_url keys))
      in if endpoint = [] then None
         else Some \<lparr>rc_Endpoint = endpoint, rc_Username = trim_space (lookup (ek_user keys)),
                rc_Password = lookup (ek_password keys),
                rc_Timeout = endpoint_timeout dur lookup (ek_timeout keys) (ek_timeoutSeconds keys)\<rparr>)"

definition bitcoin_mainnet_keys :: EndpointEnvKeys where
  "bitcoin_mainnet_keys =
     \<lparr>ek_url = ''BITCOIN_MAINNET_ESPLORA_URL'', ek_user = ''BITCOIN_MAINNET_ESPLORA_USER'',
      ek_password = ''BITCOIN_MAINNET_ESPLORA_PASSWORD'', ek_timeout = ''BITCOIN_MAINNET_ESPLORA_TIMEOUT'',
      ek_timeoutSeconds = ''BITCOIN_MAINNET_ESPLORA_TIMEOUT_SECONDS''\<rparr>"

definition bitcoin_testnet4_keys :: EndpointEnvKeys where
  "bitcoin_testnet4_keys =
     \<lparr>ek_url = ''BITCOIN_TESTNET4_ESPLORA_URL'', ek_user = ''BITCOIN_TESTNET4_ESPLORA_USER'',
      ek_password = ''BITCOIN_TESTNET4_ESPLORA_PASSWORD'', ek_timeout = ''BITCOIN_TESTNET4_ESPLORA_TIMEOUT'',
      ek_timeoutSeconds = ''BITCOIN_TESTNET4_ESPLORA_TIMEOUT_SECONDS''\<rparr>"

definition ethereum_mainnet_keys :: EndpointEnvKeys where
  "ethereum_mainnet_keys =
     \<lparr>ek_url = ''ETHEREUM_MAINNET_RPC_URL'', ek_user = ''ETHEREUM_MAINNET_RPC_USER'',
      ek_password = ''ETHEREUM_MAINNET_RPC_PASSWORD'', ek_timeout = ''ETHEREUM_MAINNET_RPC_TIMEOUT'',
      ek_timeoutSeconds = ''ETHEREUM_MAINNET_RPC_TIMEOUT_SECONDS''\<rparr>"

definition ethereum_sepolia_keys :: EndpointEnvKeys where
  "ethereum_sepolia_keys =
     \<lparr>ek_url = ''ETHEREUM_SEPOLIA_RPC_URL'', ek_user = ''ETHEREUM_SEPOLIA_RPC_USER'',
      ek_password = ''ETHEREUM_SEPOLIA_RPC_PASSWORD'', ek_timeout = ''ETHEREUM_SEPOLIA_RPC_TIMEOUT'',
      ek_timeoutSeconds = ''ETHEREUM_SEPOLIA_RPC_TIMEOUT_SECONDS''\<rparr>"

definition config_if :: "string \<Rightarrow> 'a option \<Rightarrow> (string \<times> 'a option) list" where
  "config_if network c = (case c of None \<Rightarrow> [] | Some x \<Rightarrow> [(network, Some x)])"

definition loadBitcoinEsploraConfigs :: "DurationParser \<Rightarrow> Lookup \<Rightarrow> (string \<times> EsploraConfig option) list" where
  "loadBitcoinEsploraConfigs dur lookup =
     config_if NetworkIDMainnet (loadBitcoinEsploraConfigFromLookup dur lookup bitcoin_mainnet_keys) @
     config_if NetworkIDTestnet4 (loadBitcoinEsploraConfigFromLookup dur lookup bitcoin_testnet4_keys)"

definition loadEthereumRPCConfigsFromLookup :: "DurationParser \<Rightarrow> Lookup \<Rightarrow> (string \<times> RpcConfig option) list" where
  "loadEthereumRPCConfigsFromLookup dur lookup =
     config_if NetworkIDMainnet (loadEthereumRPCConfigFromLookup dur lookup ethereum_mainnet_keys) @
     config_if NetworkIDSepolia (loadEthereumRPCConfigFromLookup dur lookup ethereum_sepolia_keys)"

section \<open>What a configuration that loads can be\<close>

lemma positive_lookups:
  "parsePositiveInt32LookupWithDefault lookup key d32 = Inr v32 \<Longrightarrow> 0 < sint d32 \<Longrightarrow> 0 < sint v32"
  "parsePositiveDurationLookupWithDefault dur lookup key d = Inr v \<Longrightarrow> 0 < sint d \<Longrightarrow> 0 < sint v"
  "parsePollerPositiveDurationLookupWithDefault dur lookup key d = Inr v \<Longrightarrow> 0 \<le> sint d \<Longrightarrow> 0 \<le> sint v"
  "parsePollerPositiveIntLookupWithDefault lookup key d = Inr v \<Longrightarrow> 0 \<le> sint d \<Longrightarrow> 0 \<le> sint v"
  by (auto simp: parsePositiveInt32LookupWithDefault_def parsePositiveDurationLookupWithDefault_def
      parsePollerPositiveDurationLookupWithDefault_def parsePollerPositiveIntLookupWithDefault_def Let_def
      split: if_splits option.splits)

lemma dispatcher_lookups:
  "parseReceiptWebhookDispatcherPositiveDurationLookup dur lookup key d req = Inr v \<Longrightarrow> req \<or> 0 < sint d \<Longrightarrow> 0 < sint v"
  "parseReceiptWebhookDispatcherPositiveIntLookup lookup key d req = Inr v \<Longrightarrow> req \<or> 0 < sint d \<Longrightarrow> 0 < sint v"
  "parseReceiptWebhookDispatcherPositiveInt32Lookup lookup key d32 req = Inr v32 \<Longrightarrow> req \<or> 0 < sint d32 \<Longrightarrow> 0 < sint v32"
  by (auto simp: parseReceiptWebhookDispatcherPositiveDurationLookup_def
      parseReceiptWebhookDispatcherPositiveIntLookup_def parseReceiptWebhookDispatcherPositiveInt32Lookup_def
      Let_def split: if_splits option.splits)

text \<open>Settings that load are all positive, when the fallbacks are or the settings are required.\<close>

lemma dispatch_settings_positive:
  assumes "loadReceiptWebhookDispatchSettingsFromLookup dur lookup d req = Inr s"
    and "req \<or> 0 < sint (rds_BatchSize d) \<and> 0 < sint (rds_DispatchTTL d) \<and> 0 < sint (rds_MaxAttempts d) \<and>
      0 < sint (rds_RetryDelay d)"
  shows "0 < sint (rds_BatchSize s) \<and> 0 < sint (rds_DispatchTTL s) \<and> 0 < sint (rds_MaxAttempts s) \<and>
    0 < sint (rds_RetryDelay s)"
  using assms
  by (auto simp: loadReceiptWebhookDispatchSettingsFromLookup_def
      dest: dispatcher_lookups split: sum.splits)

end
