(* ===== verification/Bootstrap_Wiring.thy ===== *)
theory Bootstrap_Wiring
  imports Bootstrap_Config Http_Router Bitcoin_Issuance
begin

text \<open>
  The wiring of the three programs, \<open>src/internal/bootstrap\<close>: the configured policies with their
  validation at start and the containers of the API, the poller and the webhook dispatcher, and the
  loop that runs the cycles.

  A container is what the program is made of: the dependencies of its use cases. Opening the database
  succeeds or not (\<open>open_db\<close>); the hash functions, the HD key library with the four encoders, the
  embedded assets and the network are parameters as in the adapters.
\<close>

section \<open>Configured policies\<close>

definition newBitcoinAddressIssuancePolicy ::
  "AddressPolicyID \<Rightarrow> NetworkID \<Rightarrow> string \<Rightarrow> bool \<Rightarrow> string \<Rightarrow> string \<Rightarrow> AddressIssuancePolicy" where
  "newBitcoinAddressIssuancePolicy addressPolicyID network scheme enabled addressSpaceRef issuanceRefPrefix =
     AddressIssuancePolicy_Normalize
       \<lparr>aip_AddressPolicyID = addressPolicyID, aip_Chain = SupportedChainBitcoin, aip_Network = network,
        aip_Scheme = scheme, aip_AssetReference = [], aip_Decimals = 8, aip_Enabled = enabled,
        aip_IssuanceConfig = \<lparr>cfg_AddressSpaceRef = addressSpaceRef, cfg_IssuanceRefPrefix = issuanceRefPrefix\<rparr>\<rparr>"

text \<open>The reference of an Ethereum policy: empty unless there is a derivation key for the network.\<close>

definition create2_space_ref ::
  "(string \<Rightarrow> string) \<Rightarrow> Create2Assets \<Rightarrow> (string \<rightharpoonup> string) option \<Rightarrow> NetworkID \<Rightarrow> string \<Rightarrow> string" where
  "create2_space_ref keccak assets saltDeriver network collectorAddress =
     (if HasNetwork saltDeriver network then BuildAddressSpaceRef keccak assets network collectorAddress
      else [])"

definition newEthereumCreate2AddressIssuancePolicy ::
  "(string \<Rightarrow> string) \<Rightarrow> Create2Assets \<Rightarrow> (string \<rightharpoonup> string) option \<Rightarrow> NetworkID \<Rightarrow> bool \<Rightarrow> string
     \<Rightarrow> AddressIssuancePolicy" where
  "newEthereumCreate2AddressIssuancePolicy keccak assets saltDeriver network enabled collectorAddress =
     AddressIssuancePolicy_Normalize
       \<lparr>aip_AddressPolicyID = EthereumCreate2AddressPolicyID network, aip_Chain = SupportedChainEthereum,
        aip_Network = network, aip_Scheme = AddressSchemeCreate2, aip_AssetReference = [],
        aip_Decimals = 18, aip_Enabled = enabled,
        aip_IssuanceConfig =
          \<lparr>cfg_AddressSpaceRef = create2_space_ref keccak assets saltDeriver network collectorAddress,
           cfg_IssuanceRefPrefix = []\<rparr>\<rparr>"

definition newEthereumUSDTCreate2AddressIssuancePolicy ::
  "(string \<Rightarrow> string) \<Rightarrow> Create2Assets \<Rightarrow> (string \<rightharpoonup> string) option \<Rightarrow> NetworkID \<Rightarrow> bool \<Rightarrow> string
     \<Rightarrow> string \<Rightarrow> AddressIssuancePolicy" where
  "newEthereumUSDTCreate2AddressIssuancePolicy keccak assets saltDeriver network enabled collectorAddress
       assetReference =
     AddressIssuancePolicy_Normalize
       \<lparr>aip_AddressPolicyID = EthereumUSDTCreate2AddressPolicyID network, aip_Chain = SupportedChainEthereum,
        aip_Network = network, aip_Scheme = AddressSchemeCreate2,
        aip_AssetReference = trim_space assetReference, aip_Decimals = 6, aip_Enabled = enabled,
        aip_IssuanceConfig =
          \<lparr>cfg_AddressSpaceRef = create2_space_ref keccak assets saltDeriver network collectorAddress,
           cfg_IssuanceRefPrefix = []\<rparr>\<rparr>"

text \<open>A path of an account, with its three steps hardened: the character \<open>0x27\<close> marks a hardened step.\<close>

definition account_path :: "string \<Rightarrow> string \<Rightarrow> string" where
  "account_path purpose coin =
     ''m/'' @ purpose @ [CHR 0x27] @ ''/'' @ coin @ [CHR 0x27] @ ''/0'' @ [CHR 0x27]"

text \<open>The configured policies in the order of the source: the flag that enables each, and the rest.\<close>

definition policy_table ::
  "(string \<Rightarrow> string) \<Rightarrow> Create2Assets \<Rightarrow> Lookup \<Rightarrow> (string \<rightharpoonup> string) option
     \<Rightarrow> (string \<times> (bool \<Rightarrow> AddressIssuancePolicy)) list" where
  "policy_table keccak assets env salts =
     [(''BITCOIN_MAINNET_LEGACY_ENABLED'', \<lambda>enabled. newBitcoinAddressIssuancePolicy
         ''bitcoin-mainnet-legacy'' NetworkIDMainnet AddressSchemeLegacy enabled
         (env ''BITCOIN_MAINNET_LEGACY_XPUB'') (account_path ''44'' ''0'')),
      (''BITCOIN_MAINNET_SEGWIT_ENABLED'', \<lambda>enabled. newBitcoinAddressIssuancePolicy
         ''bitcoin-mainnet-segwit'' NetworkIDMainnet AddressSchemeSegwit enabled
         (env ''BITCOIN_MAINNET_SEGWIT_XPUB'') (account_path ''49'' ''0'')),
      (''BITCOIN_MAINNET_NATIVE_SEGWIT_ENABLED'', \<lambda>enabled. newBitcoinAddressIssuancePolicy
         ''bitcoin-mainnet-native-segwit'' NetworkIDMainnet AddressSchemeNativeSegwit enabled
         (env ''BITCOIN_MAINNET_NATIVE_SEGWIT_XPUB'') (account_path ''84'' ''0'')),
      (''BITCOIN_MAINNET_TAPROOT_ENABLED'', \<lambda>enabled. newBitcoinAddressIssuancePolicy
         ''bitcoin-mainnet-taproot'' NetworkIDMainnet AddressSchemeTaproot enabled
         (env ''BITCOIN_MAINNET_TAPROOT_XPUB'') (account_path ''86'' ''0'')),
      (''BITCOIN_TESTNET4_LEGACY_ENABLED'', \<lambda>enabled. newBitcoinAddressIssuancePolicy
         ''bitcoin-testnet4-legacy'' NetworkIDTestnet4 AddressSchemeLegacy enabled
         (env ''BITCOIN_TESTNET4_LEGACY_XPUB'') (account_path ''44'' ''1'')),
      (''BITCOIN_TESTNET4_SEGWIT_ENABLED'', \<lambda>enabled. newBitcoinAddressIssuancePolicy
         ''bitcoin-testnet4-segwit'' NetworkIDTestnet4 AddressSchemeSegwit enabled
         (env ''BITCOIN_TESTNET4_SEGWIT_XPUB'') (account_path ''49'' ''1'')),
      (''BITCOIN_TESTNET4_NATIVE_SEGWIT_ENABLED'', \<lambda>enabled. newBitcoinAddressIssuancePolicy
         ''bitcoin-testnet4-native-segwit'' NetworkIDTestnet4 AddressSchemeNativeSegwit enabled
         (env ''BITCOIN_TESTNET4_NATIVE_SEGWIT_XPUB'') (account_path ''84'' ''1'')),
      (''BITCOIN_TESTNET4_TAPROOT_ENABLED'', \<lambda>enabled. newBitcoinAddressIssuancePolicy
         ''bitcoin-testnet4-taproot'' NetworkIDTestnet4 AddressSchemeTaproot enabled
         (env ''BITCOIN_TESTNET4_TAPROOT_XPUB'') (account_path ''86'' ''1'')),
      (''ETHEREUM_MAINNET_CREATE2_ENABLED'', \<lambda>enabled. newEthereumCreate2AddressIssuancePolicy
         keccak assets salts NetworkIDMainnet enabled (env ''ETHEREUM_MAINNET_CREATE2_COLLECTOR_ADDRESS'')),
      (''ETHEREUM_MAINNET_USDT_CREATE2_ENABLED'', \<lambda>enabled. newEthereumUSDTCreate2AddressIssuancePolicy
         keccak assets salts NetworkIDMainnet enabled (env ''ETHEREUM_MAINNET_CREATE2_COLLECTOR_ADDRESS'')
         (env ''ETHEREUM_MAINNET_USDT_ASSET_REFERENCE'')),
      (''ETHEREUM_SEPOLIA_CREATE2_ENABLED'', \<lambda>enabled. newEthereumCreate2AddressIssuancePolicy
         keccak assets salts NetworkIDSepolia enabled (env ''ETHEREUM_SEPOLIA_CREATE2_COLLECTOR_ADDRESS'')),
      (''ETHEREUM_SEPOLIA_USDT_CREATE2_ENABLED'', \<lambda>enabled. newEthereumUSDTCreate2AddressIssuancePolicy
         keccak assets salts NetworkIDSepolia enabled (env ''ETHEREUM_SEPOLIA_CREATE2_COLLECTOR_ADDRESS'')
         (env ''ETHEREUM_SEPOLIA_USDT_ASSET_REFERENCE''))]"

text \<open>
  The flags are read first, in order, and the first that is no boolean is the error; reading a
  variable has no effect, so building each policy next to its flag gives the same.
\<close>

definition buildAddressIssuancePolicies ::
  "(string \<Rightarrow> string) \<Rightarrow> Create2Assets \<Rightarrow> Lookup \<Rightarrow> (string \<rightharpoonup> string) option
     \<Rightarrow> AddressIssuancePolicy list result" where
  "buildAddressIssuancePolicies keccak assets env salts =
     map_results (\<lambda>(flag, policy).
        case parseEnabledPolicyEnv env flag of
          Inl err \<Rightarrow> Inl err
        | Inr enabled \<Rightarrow> Inr (policy enabled))
       (policy_table keccak assets env salts)"

definition buildEthereumCreate2DerivationKeys :: "string \<Rightarrow> string \<Rightarrow> (string \<times> string) list" where
  "buildEthereumCreate2DerivationKeys mainnetKey sepoliaKey =
     [(NetworkIDMainnet, trim_space mainnetKey), (NetworkIDSepolia, trim_space sepoliaKey)]"

definition boot_policy_record :: "AddressIssuancePolicy \<Rightarrow> AddressIssuancePolicyRecord" where
  "boot_policy_record policy =
     (let normalized = AddressIssuancePolicy_Normalize policy
      in \<lparr>ipr_AddressPolicyID = aip_AddressPolicyID normalized, ipr_Chain = aip_Chain normalized,
          ipr_Network = aip_Network normalized, ipr_Scheme = aip_Scheme normalized,
          ipr_AssetReference = aip_AssetReference normalized, ipr_Decimals = aip_Decimals normalized,
          ipr_Enabled = aip_Enabled normalized,
          ipr_AddressSpaceRef = cfg_AddressSpaceRef (aip_IssuanceConfig normalized),
          ipr_IssuanceRefPrefix = cfg_IssuanceRefPrefix (aip_IssuanceConfig normalized)\<rparr>)"

section \<open>Validation at start\<close>

text \<open>Which variable a message names is left out with the messages.\<close>

definition validateConfiguredEnabledBitcoinAddressIssuancePolicy ::
  "('k, 'p) HdLibrary option \<Rightarrow> AddressIssuancePolicy \<Rightarrow> unit result" where
  "validateConfiguredEnabledBitcoinAddressIssuancePolicy bitcoinDeriver policy =
     (case bitcoinDeriver of
        None \<Rightarrow> Inl ErrOther
      | Some lib \<Rightarrow>
          if trim_space (cfg_AddressSpaceRef (aip_IssuanceConfig policy)) = [] then Inl ErrOther
          else case ValidateXPub lib (cfg_AddressSpaceRef (aip_IssuanceConfig policy)) of
              Inl _ \<Rightarrow> Inl ErrOther
            | Inr _ \<Rightarrow> Inr ())"

definition ethereumPolicyRequiresAssetReference :: "AddressPolicyID \<Rightarrow> bool" where
  "ethereumPolicyRequiresAssetReference pid \<longleftrightarrow>
     AddressPolicyID_Normalize pid \<in> {''ethereum-mainnet-usdt-create2'', ''ethereum-sepolia-usdt-create2''}"

definition validateConfiguredEnabledEthereumAddressIssuancePolicy :: "AddressIssuancePolicy \<Rightarrow> unit result" where
  "validateConfiguredEnabledEthereumAddressIssuancePolicy policy =
     (if trim_space (cfg_AddressSpaceRef (aip_IssuanceConfig policy)) = [] then Inl ErrOther
      else let assetReference = trim_space (aip_AssetReference policy)
        in if ethereumPolicyRequiresAssetReference (aip_AddressPolicyID policy) \<and> assetReference = []
             then Inl ErrOther
           else if assetReference = [] then Inr ()
           else case NormalizeEthereumAddress assetReference of Inl _ \<Rightarrow> Inl ErrOther | Inr _ \<Rightarrow> Inr ())"

fun validateConfiguredAddressIssuancePolicies ::
  "('k, 'p) HdLibrary option \<Rightarrow> AddressIssuancePolicy list \<Rightarrow> unit result" where
  "validateConfiguredAddressIssuancePolicies deriver [] = Inr ()"
| "validateConfiguredAddressIssuancePolicies deriver (policy # policies) =
     (let normalized = AddressIssuancePolicy_Normalize policy;
          checked = (if \<not> aip_Enabled normalized then Inr ()
            else if aip_Chain normalized = SupportedChainBitcoin
              then validateConfiguredEnabledBitcoinAddressIssuancePolicy deriver normalized
            else if aip_Chain normalized = SupportedChainEthereum
              then validateConfiguredEnabledEthereumAddressIssuancePolicy normalized
            else Inr ())
      in case checked of
          Inl err \<Rightarrow> Inl err
        | Inr _ \<Rightarrow> validateConfiguredAddressIssuancePolicies deriver policies)"

fun validateEnabledEthereumIssuanceReadiness ::
  "Codec \<Rightarrow> (string \<Rightarrow> string) \<Rightarrow> Create2Assets \<Rightarrow> (string \<times> RpcClient) list \<Rightarrow> HttpServer
     \<Rightarrow> AddressIssuancePolicy list \<Rightarrow> nat \<Rightarrow> unit result \<times> nat" where
  "validateEnabledEthereumIssuanceReadiness codec keccak assets checker server [] n = (Inr (), n)"
| "validateEnabledEthereumIssuanceReadiness codec keccak assets checker server (policy # policies) n =
     (let normalized = AddressIssuancePolicy_Normalize policy
      in if aip_Chain normalized \<noteq> SupportedChainEthereum \<or> \<not> aip_Enabled normalized
           then validateEnabledEthereumIssuanceReadiness codec keccak assets checker server policies n
         else case CheckIssuanceReadiness codec keccak assets checker server (boot_policy_record normalized) n of
             (Inl err, n1) \<Rightarrow> (Inl err, n1)
           | (Inr _, n1) \<Rightarrow>
               validateEnabledEthereumIssuanceReadiness codec keccak assets checker server policies n1)"


section \<open>The API\<close>

text \<open>What the programs use of the outside: the libraries, the embedded assets and \<open>time.ParseDuration\<close>.\<close>

record ('k, 'p) Externals =
  ext_codec :: Codec
  ext_keccak :: "string \<Rightarrow> string"
  ext_hmac :: "string \<Rightarrow> string \<Rightarrow> string"
  ext_assets :: Create2Assets
  ext_lib :: "('k, 'p) HdLibrary"
  ext_encoders :: "(string \<times> 'p AddressEncoder) list"
  ext_duration :: DurationParser
  ext_parse_url :: "string \<Rightarrow> ParsedURL option"

record ApiContainer =
  api_allocate :: AllocateDeps
  api_status :: GetStatusDeps

definition openPostgresFromEnv :: "(string \<Rightarrow> bool) \<Rightarrow> Lookup \<Rightarrow> unit result" where
  "openPostgresFromEnv open_db lookup =
     (let databaseURL = trim_space (lookup ''DATABASE_URL'')
      in if databaseURL = [] then Inl ErrOther else if open_db databaseURL then Inr () else Inl ErrOther)"

definition salt_deriver :: "Lookup \<Rightarrow> (string \<rightharpoonup> string)" where
  "salt_deriver env = NewCreate2SaltDeriver (buildEthereumCreate2DerivationKeys
     (env ''ETHEREUM_MAINNET_CREATE2_DERIVATION_KEY'') (env ''ETHEREUM_SEPOLIA_CREATE2_DERIVATION_KEY''))"

text \<open>
  The part that the two builds of the API share: the receipt terms, the policies with their validation
  and the readiness of the Ethereum ones, the reader and the derivers.
\<close>

definition build_api ::
  "('k, 'p) Externals \<Rightarrow> Lookup \<Rightarrow> Lookup \<Rightarrow> int32 \<Rightarrow> duration \<Rightarrow> HttpServer \<Rightarrow> nat
     \<Rightarrow> ApiContainer result \<times> nat" where
  "build_api ext termsEnv env confirmations expiresAfter server n =
     (case loadReceiptRequiredConfirmationsFromLookup termsEnv confirmations of
        Inl err \<Rightarrow> (Inl err, n)
      | Inr requiredConfirmationsByScope \<Rightarrow>
     (case loadReceiptExpiresAfterByScopeFromLookup (ext_duration ext) termsEnv expiresAfter of
        Inl err \<Rightarrow> (Inl err, n)
      | Inr receiptExpiresAfterByScope \<Rightarrow>
     (case buildAddressIssuancePolicies (ext_keccak ext) (ext_assets ext) env (Some (salt_deriver env)) of
        Inl err \<Rightarrow> (Inl err, n)
      | Inr addressIssuancePolicies \<Rightarrow>
     (case validateConfiguredAddressIssuancePolicies (Some (ext_lib ext)) addressIssuancePolicies of
        Inl err \<Rightarrow> (Inl err, n)
      | Inr _ \<Rightarrow>
     (case NewAddressIssuanceReadinessChecker (loadEthereumRPCConfigsFromLookup (ext_duration ext) env) of
        Inl err \<Rightarrow> (Inl err, n)
      | Inr readinessChecker \<Rightarrow>
     (case validateEnabledEthereumIssuanceReadiness (ext_codec ext) (ext_keccak ext) (ext_assets ext)
             readinessChecker server addressIssuancePolicies n of
        (Inl err, n1) \<Rightarrow> (Inl err, n1)
      | (Inr _, n1) \<Rightarrow>
     (let addressPolicyReader = NewAddressPolicyReader (map boot_policy_record addressIssuancePolicies)
      in case NewMultiChainIssuedPaymentAddressDeriver
            [Some (bitcoin_deriver (ext_codec ext) (ext_lib ext) (NewHDXPubAddressDeriver (ext_encoders ext))),
             Some (ethereum_deriver (ext_codec ext) (ext_keccak ext) (ext_hmac ext) (ext_assets ext)
               (Some (salt_deriver env)))] of
          Inl err \<Rightarrow> (Inl err, n1)
        | Inr derivers \<Rightarrow>
            (Inr \<lparr>api_allocate =
                    \<lparr>ad_unitOfWork = Some fullTxScope, ad_deriver = Some (multi_chain_deriver derivers),
                     ad_policyReader = Some addressPolicyReader,
                     ad_issuancePolicy = NewPaymentAddressAllocationIssuancePolicy
                       requiredConfirmationsByScope receiptExpiresAfterByScope,
                     ad_clock = True\<rparr>,
                  api_status = \<lparr>gd_finder = True, gd_policyReader = Some addressPolicyReader\<rparr>\<rparr>, n1))))))))"

definition newAPIContainer ::
  "('k, 'p) Externals \<Rightarrow> (string \<Rightarrow> bool) \<Rightarrow> Lookup \<Rightarrow> HttpServer \<Rightarrow> nat \<Rightarrow> ApiContainer result \<times> nat" where
  "newAPIContainer ext open_db env server n =
     (case openPostgresFromEnv open_db env of
        Inl err \<Rightarrow> (Inl err, n)
      | Inr _ \<Rightarrow> build_api ext env env defaultBitcoinRequiredConfirmations defaultBitcoinReceiptExpiresAfter
          server n)"

definition APIHandler ::
  "Codec \<Rightarrow> (string \<Rightarrow> Header \<Rightarrow> ServerReply) \<Rightarrow> Env \<Rightarrow> ApiContainer \<Rightarrow> ServerRequest \<Rightarrow> World
     \<Rightarrow> ServerReply \<times> (string \<times> string \<times> int) \<times> World" where
  "APIHandler codec redirect env c =
     NewPublicRouter redirect (api_controllers codec env (api_allocate c) (api_status c))"

section \<open>The poller and the dispatcher\<close>

text \<open>A chain is observed when the program is not scoped or scoped to it, and an endpoint is configured.\<close>

definition poller_observers ::
  "Codec \<Rightarrow> DurationParser \<Rightarrow> Lookup \<Rightarrow> ChainID \<times> bool \<Rightarrow> (nat \<Rightarrow> HttpServer)
     \<Rightarrow> (string \<times> ChainReceiptObserver option) list result" where
  "poller_observers codec dur env scope net =
     (case scope of (scopeChain, scoped) \<Rightarrow>
      let bitcoinConfigs = loadBitcoinEsploraConfigs dur env;
          ethereumConfigs = loadEthereumRPCConfigsFromLookup dur env
      in case (if (\<not> scoped \<or> scopeChain = ChainIDBitcoin) \<and> bitcoinConfigs \<noteq> [] then
                 (case NewBitcoinEsploraReceiptObserver bitcoinConfigs of
                    Inl err \<Rightarrow> Inl err
                  | Inr clients \<Rightarrow> Inr [(ChainIDBitcoin, Some (bitcoin_observer codec clients net))])
               else Inr []) of
           Inl err \<Rightarrow> Inl err
         | Inr chainObservers \<Rightarrow>
             if (\<not> scoped \<or> scopeChain = ChainIDEthereum) \<and> ethereumConfigs \<noteq> [] then
               (case NewEthereumRPCReceiptObserver ethereumConfigs of
                  Inl err \<Rightarrow> Inl err
                | Inr clients \<Rightarrow>
                    Inr (chainObservers @ [(ChainIDEthereum, Some (ethereum_observer codec clients net))]))
             else Inr chainObservers)"

definition newPollerContainer ::
  "('k, 'p) Externals \<Rightarrow> (string \<Rightarrow> bool) \<Rightarrow> Lookup \<Rightarrow> (nat \<Rightarrow> HttpServer) \<Rightarrow> PollDeps result" where
  "newPollerContainer ext open_db env net =
     (case openPostgresFromEnv open_db env of
        Inl err \<Rightarrow> Inl err
      | Inr _ \<Rightarrow>
     (case loadConfiguredPollerChainFromLookup env of
        Inl err \<Rightarrow> Inl err
      | Inr scope \<Rightarrow>
     (case poller_observers (ext_codec ext) (ext_duration ext) env scope net of
        Inl err \<Rightarrow> Inl err
      | Inr chainObservers \<Rightarrow>
     (case NewMultiChainReceiptObserver chainObservers of
        Inl err \<Rightarrow> Inl err
      | Inr receiptObserver \<Rightarrow>
          Inr \<lparr>pd_unitOfWork = Some fullTxScope, pd_observer = Some (multi_chain_observer receiptObserver),
               pd_clock = True\<rparr>))))"

text \<open>The dispatcher reads the policies for their identity and asset only: there is no salt deriver.\<close>

definition newReceiptWebhookDispatcherContainer ::
  "('k, 'p) Externals \<Rightarrow> (string \<Rightarrow> bool) \<Rightarrow> Lookup \<Rightarrow> HttpServer \<Rightarrow> DispatchDeps result" where
  "newReceiptWebhookDispatcherContainer ext open_db env server =
     (case openPostgresFromEnv open_db env of
        Inl err \<Rightarrow> Inl err
      | Inr _ \<Rightarrow>
     (case loadPaymentReceiptWebhookNotifierConfig (ext_duration ext) env of
        Inl err \<Rightarrow> Inl err
      | Inr notifierConfig \<Rightarrow>
     (case NewPaymentReceiptStatusWebhookNotifier (ext_parse_url ext) notifierConfig of
        Inl err \<Rightarrow> Inl err
      | Inr notifier \<Rightarrow>
     (case buildAddressIssuancePolicies (ext_keccak ext) (ext_assets ext) env None of
        Inl err \<Rightarrow> Inl err
      | Inr addressIssuancePolicies \<Rightarrow>
          Inr \<lparr>dd_unitOfWork = Some fullTxScope,
               dd_policyReader = Some (NewAddressPolicyReader (map boot_policy_record addressIssuancePolicies)),
               dd_notifier = Some (Webhook_NotifyStatusChanged (ext_codec ext) (ext_hmac ext) server notifier),
               dd_clock = True\<rparr>))))"

section \<open>The loops\<close>

text \<open>
  A program runs a cycle at once and one more at each tick, until it is told to stop. \<open>gaps\<close> has one
  entry for each tick: what others did to the world while the program waited for it. What a cycle
  reports, an error or counters, is logged and forgotten.
\<close>

fun run_ticks :: "(World \<Rightarrow> World) \<Rightarrow> (World \<Rightarrow> World) list \<Rightarrow> World \<Rightarrow> World" where
  "run_ticks cycle [] w = w"
| "run_ticks cycle (gap # gaps) w = run_ticks cycle gaps (cycle (gap w))"

definition RunPoller ::
  "('k, 'p) Externals \<Rightarrow> (string \<Rightarrow> bool) \<Rightarrow> Lookup \<Rightarrow> (nat \<Rightarrow> HttpServer) \<Rightarrow> Env \<Rightarrow> PollerConfig
     \<Rightarrow> (World \<Rightarrow> World) list \<Rightarrow> World \<Rightarrow> unit result \<times> World" where
  "RunPoller ext open_db env net e config0 gaps w =
     (let config = poller_run_config config0
      in case newPollerContainer ext open_db env net of
          Inl err \<Rightarrow> (Inl err, w)
        | Inr deps \<Rightarrow>
            (let runCycle = \<lambda>w. snd (PollerHandler_Handle (Some (Poll_Execute e deps)) (poller_request config) w)
             in (Inr (), run_ticks runCycle gaps (runCycle w))))"

definition RunReceiptWebhookDispatcher ::
  "('k, 'p) Externals \<Rightarrow> (string \<Rightarrow> bool) \<Rightarrow> Lookup \<Rightarrow> HttpServer \<Rightarrow> Env \<Rightarrow> ReceiptWebhookDispatcherConfig
     \<Rightarrow> (World \<Rightarrow> World) list \<Rightarrow> World \<Rightarrow> unit result \<times> World" where
  "RunReceiptWebhookDispatcher ext open_db env server e config0 gaps w =
     (let config = dispatcher_run_config config0
      in case newReceiptWebhookDispatcherContainer ext open_db env server of
          Inl err \<Rightarrow> (Inl err, w)
        | Inr deps \<Rightarrow>
            (let runCycle = \<lambda>w. snd (WebhookDispatcherHandler_Handle (Some (Dispatch_Execute e deps))
                   (dispatcher_request config) w)
             in (Inr (), run_ticks runCycle gaps (runCycle w))))"

end
