(* ===== verification/Bootstrap_Worker.thy ===== *)
theory Bootstrap_Worker
  imports Bootstrap_Wiring "HOL-Library.List_Lexorder" "HOL-Library.Char_ord"
begin

text \<open>
  The entry points of the Cloudflare build: \<open>payrune_worker.go\<close>, \<open>api_worker.go\<close>,
  \<open>poller_worker.go\<close> and \<open>receipt_webhook_dispatcher_worker.go\<close> of \<open>src/internal/bootstrap\<close>. A payload is a
  JSON text with the request and the environment of the worker; every request builds its program
  anew. A Go map of an envelope is the list of its members, in the order of the payload.

  The stores of this build send the statements of the PostgreSQL stores over a bridge; they are not
  modelled, and the use cases run here on the modelled stores.
\<close>

section \<open>Envelopes\<close>

type_synonym StringMap = "(string \<times> string) list"

definition map_lookup :: "StringMap \<Rightarrow> Lookup" where
  "map_lookup env key = (case map_of env key of None \<Rightarrow> [] | Some v \<Rightarrow> v)"

definition cloudflareAPIEnvValue :: "StringMap \<Rightarrow> Lookup" where
  "cloudflareAPIEnvValue env key = trim_space (map_lookup env key)"

text \<open>\<open>null\<close> empties a map; an object sets its members, and \<open>null\<close> as a member is the empty string.\<close>

fun decode_string_members :: "(string \<times> json) list \<Rightarrow> StringMap \<Rightarrow> StringMap option" where
  "decode_string_members [] cur = Some cur"
| "decode_string_members ((name, v) # ms) cur =
     (case decode_string v [] of
        None \<Rightarrow> None
      | Some s \<Rightarrow> decode_string_members ms (AList.update name s cur))"

fun decode_string_map :: "StringMap json_decoder" where
  "decode_string_map JNull cur = Some []"
| "decode_string_map (JObj ms) cur = decode_string_members ms cur"
| "decode_string_map _ cur = None"

record apiWorkerRequest =
  awr_Method :: string
  awr_Path :: string
  awr_RawQuery :: string
  awr_Headers :: StringMap
  awr_Body :: string

record apiWorkerResponse =
  aws_Status :: int
  aws_Headers :: StringMap
  aws_Body :: string

record apiWorkerRequestEnvelope =
  awe_Request :: apiWorkerRequest
  awe_Env :: StringMap
  awe_BridgeID :: string

definition decode_api_request :: "apiWorkerRequest json_decoder" where
  "decode_api_request = decode_struct False
     [(''method'', struct_field decode_string awr_Method awr_Method_update),
      (''path'', struct_field decode_string awr_Path awr_Path_update),
      (''rawQuery'', struct_field decode_string awr_RawQuery awr_RawQuery_update),
      (''headers'', struct_field decode_string_map awr_Headers awr_Headers_update),
      (''body'', struct_field decode_string awr_Body awr_Body_update)]"

definition decode_api_envelope :: "apiWorkerRequestEnvelope json_decoder" where
  "decode_api_envelope = decode_struct False
     [(''request'', struct_field decode_api_request awe_Request awe_Request_update),
      (''env'', struct_field decode_string_map awe_Env awe_Env_update),
      (''bridgeId'', struct_field decode_string awe_BridgeID awe_BridgeID_update)]"

definition no_api_envelope :: apiWorkerRequestEnvelope where
  "no_api_envelope =
     \<lparr>awe_Request = \<lparr>awr_Method = [], awr_Path = [], awr_RawQuery = [], awr_Headers = [], awr_Body = []\<rparr>,
      awe_Env = [], awe_BridgeID = []\<rparr>"

text \<open>A response as \<open>json.Marshal\<close> prints it: the keys of a map are sorted.\<close>

definition api_response_json :: "apiWorkerResponse \<Rightarrow> json" where
  "api_response_json response =
     JObj [(''response'', JObj [(''status'', JNum (format_int (word_of_int (aws_Status response)))),
        (''headers'', JObj (map (\<lambda>(k, v). (k, JStr v)) (sort_key fst (aws_Headers response)))),
        (''body'', JStr (aws_Body response))])]"

record scheduledWorkerEnvelope =
  swe_Env :: StringMap
  swe_PostgresBridgeID :: string
  swe_BitcoinBridgeID :: string
  swe_ScheduledTime :: string
  swe_Cron :: string

text \<open>The envelopes of the two scheduled workers; the dispatcher's has no Bitcoin bridge.\<close>

definition decode_scheduled_envelope :: "bool \<Rightarrow> scheduledWorkerEnvelope json_decoder" where
  "decode_scheduled_envelope bitcoin = decode_struct False
     ([(''env'', struct_field decode_string_map swe_Env swe_Env_update),
       (''postgresBridgeId'', struct_field decode_string swe_PostgresBridgeID swe_PostgresBridgeID_update)] @
      (if bitcoin then [(''bitcoinBridgeId'',
         struct_field decode_string swe_BitcoinBridgeID swe_BitcoinBridgeID_update)] else []) @
      [(''scheduledTime'', struct_field decode_string swe_ScheduledTime swe_ScheduledTime_update),
       (''cron'', struct_field decode_string swe_Cron swe_Cron_update)])"

definition no_scheduled_envelope :: scheduledWorkerEnvelope where
  "no_scheduled_envelope = \<lparr>swe_Env = [], swe_PostgresBridgeID = [], swe_BitcoinBridgeID = [],
     swe_ScheduledTime = [], swe_Cron = []\<rparr>"

definition poller_output_json :: "PollerResponse \<Rightarrow> json" where
  "poller_output_json output =
     JObj [(''output'', JObj [(''claimedCount'', JNum (format_int (prs_ClaimedCount output))),
        (''updatedCount'', JNum (format_int (prs_UpdatedCount output))),
        (''terminalFailedCount'', JNum (format_int (prs_TerminalFailedCount output))),
        (''processingErrorCount'', JNum (format_int (prs_ProcessingErrorCount output)))])]"

definition dispatcher_output_json :: "WebhookDispatcherResponse \<Rightarrow> json" where
  "dispatcher_output_json output =
     JObj [(''output'', JObj [(''claimedCount'', JNum (format_int (wrs_ClaimedCount output))),
        (''sentCount'', JNum (format_int (wrs_SentCount output))),
        (''retriedCount'', JNum (format_int (wrs_RetriedCount output))),
        (''failedCount'', JNum (format_int (wrs_FailedCount output)))])]"

section \<open>A request of the worker\<close>

text \<open>Tokens of HTTP: methods must be tokens, and the names of headers are made canonical when they are.\<close>

definition token_char :: "char \<Rightarrow> bool" where
  "token_char c \<longleftrightarrow>
     (let n = (of_char c :: nat)
      in 48 \<le> n \<and> n \<le> 57 \<or> 65 \<le> n \<and> n \<le> 90 \<or> 97 \<le> n \<and> n \<le> 122 \<or>
         n \<in> {33, 35, 36, 37, 38, 39, 42, 43, 45, 46, 94, 95, 96, 124, 126})"

definition worker_header_key :: "string \<Rightarrow> string" where
  "worker_header_key name = (if list_all token_char name then header_key name else name)"

fun worker_headers :: "StringMap \<Rightarrow> Header \<Rightarrow> Header" where
  "worker_headers [] h = h"
| "worker_headers ((name, v) # headers) h =
     (let trimmedName = trim_space name
      in worker_headers headers
           (if trimmedName = [] then h
            else filter (\<lambda>kv. fst kv \<noteq> worker_header_key trimmedName) h
                   @ [(worker_header_key trimmedName, v)]))"

text \<open>
  The path as \<open>URL.String\<close> escapes it, with a slash in front. The printed address is parsed again:
  that fails on a control character before a \<open>#\<close> of the query and on a bad escape after it.
\<close>

definition path_kept :: "char \<Rightarrow> bool" where
  "path_kept c \<longleftrightarrow>
     (let n = (of_char c :: nat)
      in 48 \<le> n \<and> n \<le> 57 \<or> 65 \<le> n \<and> n \<le> 90 \<or> 97 \<le> n \<and> n \<le> 122 \<or>
         n \<in> {36, 38, 43, 44, 45, 46, 47, 58, 59, 61, 64, 95, 126})"

definition escaped_path :: "string \<Rightarrow> string" where
  "escaped_path path =
     (let escaped = (if path = ''*'' then ''*''
        else concat (map (\<lambda>c. if path_kept c then [c]
               else let n = (of_char c :: nat)
                 in [CHR ''%'', upper_hex_digit (n div 16), upper_hex_digit (n mod 16)]) path))
      in if has_prefix escaped ''/'' then escaped else CHR ''/'' # escaped)"

definition query_parses :: "string \<Rightarrow> bool" where
  "query_parses rawQuery \<longleftrightarrow>
     (let (query, fragment) = (case cut_at (CHR ''#'') rawQuery of None \<Rightarrow> (rawQuery, []) | Some qf \<Rightarrow> qf)
      in list_all (\<lambda>c. 32 \<le> (of_char c :: nat) \<and> (of_char c :: nat) \<noteq> 127) query \<and>
         path_unescape fragment \<noteq> None)"

fun join_texts :: "string \<Rightarrow> string list \<Rightarrow> string" where
  "join_texts sep [] = []"
| "join_texts sep [x] = x"
| "join_texts sep (x # xs) = x @ sep @ join_texts sep xs"

definition joined_headers :: "Header \<Rightarrow> StringMap" where
  "joined_headers h =
     map (\<lambda>name. (name, join_texts '', '' (map snd (filter (\<lambda>kv. fst kv = name) h)))) (remdups (map fst h))"

type_synonym ApiHandler = "ServerRequest \<Rightarrow> World \<Rightarrow> ServerReply \<times> (string \<times> string \<times> int) \<times> World"

definition executeAPIWorkerRequest ::
  "ApiHandler option \<Rightarrow> apiWorkerRequest \<Rightarrow> World \<Rightarrow> apiWorkerResponse result \<times> World" where
  "executeAPIWorkerRequest handler request w =
     (case handler of
        None \<Rightarrow> (Inl ErrOther, w)
      | Some serveHTTP \<Rightarrow>
          (let method0 = trim_space (awr_Method request);
               method = (if method0 = [] then ''GET'' else method0);
               path0 = trim_space (awr_Path request);
               path = (if path0 = [] then ''/'' else path0)
           in if \<not> list_all token_char method \<or> \<not> query_parses (trim_space (awr_RawQuery request))
                then (Inl ErrOther, w)
              else case serveHTTP \<lparr>sq_Method = method, sq_Path = escaped_path path,
                       sq_Headers = worker_headers (awr_Headers request) [], sq_Body = Some (awr_Body request)\<rparr> w of
                  (reply, _, w1) \<Rightarrow>
                    (Inr \<lparr>aws_Status = sp_Status reply, aws_Headers = joined_headers (sp_Headers reply),
                          aws_Body = sp_Body reply\<rparr>, w1)))"

definition cfDefaultBitcoinRequiredConfirmations :: int32 where
  "cfDefaultBitcoinRequiredConfirmations = 2"

definition cfDefaultBitcoinReceiptExpiresAfter :: duration where
  "cfDefaultBitcoinReceiptExpiresAfter = 86400000000000"

definition buildCloudflareAPIHTTPHandler ::
  "('k, 'p) Externals \<Rightarrow> StringMap \<Rightarrow> HttpServer \<Rightarrow> ApiContainer result" where
  "buildCloudflareAPIHTTPHandler ext env server =
     fst (build_api ext (map_lookup env) (cloudflareAPIEnvValue env) cfDefaultBitcoinRequiredConfirmations
            cfDefaultBitcoinReceiptExpiresAfter server 0)"

definition handleCloudflareAPIRequest ::
  "('k, 'p) Externals \<Rightarrow> (string \<Rightarrow> Header \<Rightarrow> ServerReply) \<Rightarrow> HttpServer \<Rightarrow> Env \<Rightarrow> apiWorkerRequestEnvelope
     \<Rightarrow> World \<Rightarrow> apiWorkerResponse result \<times> World" where
  "handleCloudflareAPIRequest ext redirect server e envelope w =
     (case buildCloudflareAPIHTTPHandler ext (awe_Env envelope) server of
        Inl err \<Rightarrow> (Inl err, w)
      | Inr c \<Rightarrow>
          executeAPIWorkerRequest (Some (APIHandler (ext_codec ext) redirect e c)) (awe_Request envelope) w)"

definition HandleCloudflareAPIRequestJSON ::
  "('k, 'p) Externals \<Rightarrow> (string \<Rightarrow> Header \<Rightarrow> ServerReply) \<Rightarrow> HttpServer \<Rightarrow> Env \<Rightarrow> string
     \<Rightarrow> World \<Rightarrow> string result \<times> World" where
  "HandleCloudflareAPIRequestJSON ext redirect server e payload w =
     (case Option.bind (json_value (ext_codec ext) payload) (\<lambda>v. decode_api_envelope v no_api_envelope) of
        None \<Rightarrow> (Inl ErrOther, w)
      | Some envelope \<Rightarrow>
          (case handleCloudflareAPIRequest ext redirect server e envelope w of
             (Inl err, w1) \<Rightarrow> (Inl err, w1)
           | (Inr response, w1) \<Rightarrow> (Inr (json_text (ext_codec ext) (api_response_json response)), w1)))"

section \<open>The scheduled workers\<close>

definition cf_poller_observers ::
  "('k, 'p) Externals \<Rightarrow> StringMap \<Rightarrow> string \<Rightarrow> string \<Rightarrow> (nat \<Rightarrow> EsploraBridge) \<Rightarrow> (nat \<Rightarrow> HttpServer)
     \<Rightarrow> (string \<times> ChainReceiptObserver option) list result" where
  "cf_poller_observers ext env chain bitcoinBridgeID bridge net =
     (let bitcoin = (if chain = [] \<or> chain = ChainIDBitcoin
            then [(ChainIDBitcoin, Some (NewCloudflareBitcoinEsploraReceiptObserver bitcoinBridgeID (Some bridge)))]
            else []);
          ethereumConfigs = loadEthereumRPCConfigsFromLookup (ext_duration ext) (map_lookup env)
      in if (chain = [] \<or> chain = ChainIDEthereum) \<and> ethereumConfigs \<noteq> [] then
           (case NewEthereumRPCReceiptObserver ethereumConfigs of
              Inl err \<Rightarrow> Inl err
            | Inr clients \<Rightarrow>
                Inr (bitcoin @ [(ChainIDEthereum, Some (ethereum_observer (ext_codec ext) clients net))]))
         else Inr bitcoin)"

definition buildCloudflarePollerRuntime ::
  "('k, 'p) Externals \<Rightarrow> StringMap \<Rightarrow> string \<Rightarrow> (nat \<Rightarrow> EsploraBridge) \<Rightarrow> (nat \<Rightarrow> HttpServer)
     \<Rightarrow> (PollDeps \<times> PollerRequest) result" where
  "buildCloudflarePollerRuntime ext env bitcoinBridgeID bridge net =
     (case buildCloudflarePollerRequest (ext_duration ext) (map_lookup env) of
        Inl err \<Rightarrow> Inl err
      | Inr request \<Rightarrow>
     (case cf_poller_observers ext env (prq_Chain request) bitcoinBridgeID bridge net of
        Inl err \<Rightarrow> Inl err
      | Inr chainObservers \<Rightarrow>
     (case NewMultiChainReceiptObserver chainObservers of
        Inl err \<Rightarrow> Inl err
      | Inr receiptObserver \<Rightarrow>
          Inr (\<lparr>pd_unitOfWork = Some fullTxScope, pd_observer = Some (multi_chain_observer receiptObserver),
                pd_clock = True\<rparr>, request))))"

definition HandleCloudflarePollerRequestJSON ::
  "('k, 'p) Externals \<Rightarrow> (nat \<Rightarrow> EsploraBridge) \<Rightarrow> (nat \<Rightarrow> HttpServer) \<Rightarrow> Env \<Rightarrow> string
     \<Rightarrow> World \<Rightarrow> string result \<times> World" where
  "HandleCloudflarePollerRequestJSON ext bridge net e payload w =
     (case Option.bind (json_value (ext_codec ext) payload)
             (\<lambda>v. decode_scheduled_envelope True v no_scheduled_envelope) of
        None \<Rightarrow> (Inl ErrOther, w)
      | Some envelope \<Rightarrow>
     (case buildCloudflarePollerRuntime ext (swe_Env envelope) (swe_BitcoinBridgeID envelope) bridge net of
        Inl err \<Rightarrow> (Inl err, w)
      | Inr (deps, request) \<Rightarrow>
     (case PollerHandler_Handle (Some (Poll_Execute e deps)) request w of
        ((_, Some err), w1) \<Rightarrow> (Inl err, w1)
      | ((output, None), w1) \<Rightarrow> (Inr (json_text (ext_codec ext) (poller_output_json output)), w1))))"

definition buildCloudflareReceiptWebhookDispatcherRuntime ::
  "('k, 'p) Externals \<Rightarrow> StringMap \<Rightarrow> WebhookBridge \<Rightarrow> (DispatchDeps \<times> WebhookDispatcherRequest) result" where
  "buildCloudflareReceiptWebhookDispatcherRuntime ext env bridge =
     (case buildCloudflareReceiptWebhookDispatcherRequest (ext_duration ext) (map_lookup env) of
        Inl err \<Rightarrow> Inl err
      | Inr request \<Rightarrow>
     (case loadCloudflareReceiptWebhookNotifierConfig (ext_duration ext) (map_lookup env) of
        Inl err \<Rightarrow> Inl err
      | Inr notifierConfig \<Rightarrow>
     (case NewCloudflarePaymentReceiptStatusWebhookNotifier notifierConfig (Some bridge) of
        Inl err \<Rightarrow> Inl err
      | Inr notifier \<Rightarrow>
     (case buildAddressIssuancePolicies (ext_keccak ext) (ext_assets ext) (cloudflareAPIEnvValue env) None of
        Inl err \<Rightarrow> Inl err
      | Inr addressIssuancePolicies \<Rightarrow>
          Inr (\<lparr>dd_unitOfWork = Some fullTxScope,
                dd_policyReader = Some (NewAddressPolicyReader (map boot_policy_record addressIssuancePolicies)),
                dd_notifier = Some (Cloudflare_NotifyStatusChanged (ext_codec ext) (ext_hmac ext) notifier),
                dd_clock = True\<rparr>, request)))))"

definition HandleCloudflareReceiptWebhookDispatcherRequestJSON ::
  "('k, 'p) Externals \<Rightarrow> WebhookBridge \<Rightarrow> Env \<Rightarrow> string \<Rightarrow> World \<Rightarrow> string result \<times> World" where
  "HandleCloudflareReceiptWebhookDispatcherRequestJSON ext bridge e payload w =
     (case Option.bind (json_value (ext_codec ext) payload)
             (\<lambda>v. decode_scheduled_envelope False v no_scheduled_envelope) of
        None \<Rightarrow> (Inl ErrOther, w)
      | Some envelope \<Rightarrow>
     (case buildCloudflareReceiptWebhookDispatcherRuntime ext (swe_Env envelope) bridge of
        Inl err \<Rightarrow> (Inl err, w)
      | Inr (deps, request) \<Rightarrow>
     (case WebhookDispatcherHandler_Handle (Some (Dispatch_Execute e deps)) request w of
        ((_, Some err), w1) \<Rightarrow> (Inl err, w1)
      | ((output, None), w1) \<Rightarrow> (Inr (json_text (ext_codec ext) (dispatcher_output_json output)), w1))))"

section \<open>The worker\<close>

record WorkerOutside =
  wo_redirect :: "string \<Rightarrow> Header \<Rightarrow> ServerReply"
  wo_net :: "nat \<Rightarrow> HttpServer"
  wo_esplora :: "nat \<Rightarrow> EsploraBridge"
  wo_webhook :: WebhookBridge

definition DispatchCloudflareWorkerOperationJSON ::
  "('k, 'p) Externals \<Rightarrow> WorkerOutside \<Rightarrow> Env \<Rightarrow> string \<Rightarrow> string \<Rightarrow> World \<Rightarrow> string result \<times> World" where
  "DispatchCloudflareWorkerOperationJSON ext outside e operation payload w =
     (let name = trim_space operation
      in if name = ''api'' then
           HandleCloudflareAPIRequestJSON ext (wo_redirect outside) (wo_net outside (w_step w)) e payload w
         else if name = ''poller'' then
           HandleCloudflarePollerRequestJSON ext (wo_esplora outside) (wo_net outside) e payload w
         else if name = ''webhook_dispatcher'' then
           HandleCloudflareReceiptWebhookDispatcherRequestJSON ext (wo_webhook outside) e payload w
         else (Inl ErrOther, w))"

end
