(* ===== verification/Policy_Catalog.thy ===== *)
theory Policy_Catalog
  imports Bootstrap_Worker
begin

text \<open>
  The configured policies of \<open>src/internal/bootstrap/api.go\<close> as a catalogue: what is fixed about them and
  what the policy reader of any program built from them finds.
\<close>

lemma networks_portable [simp]: "portable_id NetworkIDMainnet" "portable_id NetworkIDSepolia"
    "portable_id NetworkIDTestnet4"
  by (simp_all add: portable_id_def portable_char_def maxIDLength_def go_consts Let_def)

section \<open>The catalogue of policies\<close>

text \<open>
  Whatever is configured, the twelve policies have fixed identifiers, chains, networks, schemes and
  decimals; the configuration decides on what is enabled, on the address spaces and on the assets.
\<close>

definition policy_catalog :: "(string \<times> string \<times> string \<times> string \<times> uint8) list" where
  "policy_catalog =
     [(''bitcoin-mainnet-legacy'', ''bitcoin'', ''mainnet'', ''legacy'', 8),
      (''bitcoin-mainnet-segwit'', ''bitcoin'', ''mainnet'', ''segwit'', 8),
      (''bitcoin-mainnet-native-segwit'', ''bitcoin'', ''mainnet'', ''nativeSegwit'', 8),
      (''bitcoin-mainnet-taproot'', ''bitcoin'', ''mainnet'', ''taproot'', 8),
      (''bitcoin-testnet4-legacy'', ''bitcoin'', ''testnet4'', ''legacy'', 8),
      (''bitcoin-testnet4-segwit'', ''bitcoin'', ''testnet4'', ''segwit'', 8),
      (''bitcoin-testnet4-native-segwit'', ''bitcoin'', ''testnet4'', ''nativeSegwit'', 8),
      (''bitcoin-testnet4-taproot'', ''bitcoin'', ''testnet4'', ''taproot'', 8),
      (''ethereum-mainnet-create2'', ''ethereum'', ''mainnet'', ''create2'', 18),
      (''ethereum-mainnet-usdt-create2'', ''ethereum'', ''mainnet'', ''create2'', 6),
      (''ethereum-sepolia-create2'', ''ethereum'', ''sepolia'', ''create2'', 18),
      (''ethereum-sepolia-usdt-create2'', ''ethereum'', ''sepolia'', ''create2'', 6)]"

definition catalog_entry :: "AddressIssuancePolicy \<Rightarrow> string \<times> string \<times> string \<times> string \<times> uint8" where
  "catalog_entry p = (aip_AddressPolicyID p, aip_Chain p, aip_Network p, aip_Scheme p, aip_Decimals p)"

definition record_entry :: "AddressIssuancePolicyRecord \<Rightarrow> string \<times> string \<times> string \<times> string \<times> uint8" where
  "record_entry p = (ipr_AddressPolicyID p, ipr_Chain p, ipr_Network p, ipr_Scheme p, ipr_Decimals p)"

definition entry_normal :: "string \<times> string \<times> string \<times> string \<times> uint8 \<Rightarrow> bool" where
  "entry_normal e \<longleftrightarrow> (case e of (pid, chain, network, scheme, decimals) \<Rightarrow>
     portable_id pid \<and> ParseSupportedChain chain = Some chain \<and> portable_id network \<and>
     ParseAddressScheme scheme = Some scheme)"

lemma catalog_all: "list_all entry_normal policy_catalog"
  using ParseSupportedChain_self ParseAddressScheme_self
  by (simp add: policy_catalog_def entry_normal_def go_consts portable_id_def portable_char_def maxIDLength_def Let_def)

lemmas catalog_rows = catalog_all [unfolded policy_catalog_def list.pred_inject]

lemma configured_entry:
  assumes "entry_normal (catalog_entry x)"
  shows "\<exists>p. normalized_policy_record (boot_policy_record x) = Some p \<and> record_entry p = catalog_entry x"
  using assms
  by (simp add: entry_normal_def catalog_entry_def record_entry_def normalized_policy_record_def
      boot_policy_record_def Let_def AddressPolicyID_Normalize_portable ParseChainID_of_portable
      AddressScheme_Normalize_def)

lemma bitcoin_entry:
  "entry_normal (pid, ''bitcoin'', network, scheme, 8) \<Longrightarrow>
     catalog_entry (newBitcoinAddressIssuancePolicy pid network scheme enabled ref pre) =
       (pid, ''bitcoin'', network, scheme, 8)"
  by (simp add: entry_normal_def catalog_entry_def newBitcoinAddressIssuancePolicy_def SupportedChainBitcoin_def
      AddressPolicyID_Normalize_portable ParseChainID_of_portable AddressScheme_Normalize_def)

lemma ethereum_entries:
  "entry_normal (EthereumCreate2AddressPolicyID network, ''ethereum'', network, ''create2'', 18) \<Longrightarrow>
     catalog_entry (newEthereumCreate2AddressIssuancePolicy keccak assets salts network enabled collector) =
       (EthereumCreate2AddressPolicyID network, ''ethereum'', network, ''create2'', 18)"
  "entry_normal (EthereumUSDTCreate2AddressPolicyID network, ''ethereum'', network, ''create2'', 6) \<Longrightarrow>
     catalog_entry (newEthereumUSDTCreate2AddressIssuancePolicy keccak assets salts network enabled collector asset) =
       (EthereumUSDTCreate2AddressPolicyID network, ''ethereum'', network, ''create2'', 6)"
  by (simp_all add: entry_normal_def catalog_entry_def newEthereumCreate2AddressIssuancePolicy_def
      newEthereumUSDTCreate2AddressIssuancePolicy_def SupportedChainEthereum_def AddressSchemeCreate2_def
      AddressPolicyID_Normalize_portable ParseChainID_of_portable AddressScheme_Normalize_def)

lemma ethereum_policy_ids:
  "EthereumCreate2AddressPolicyID ''mainnet'' = ''ethereum-mainnet-create2''"
  "EthereumUSDTCreate2AddressPolicyID ''mainnet'' = ''ethereum-mainnet-usdt-create2''"
  "EthereumCreate2AddressPolicyID ''sepolia'' = ''ethereum-sepolia-create2''"
  "EthereumUSDTCreate2AddressPolicyID ''sepolia'' = ''ethereum-sepolia-usdt-create2''"
  using networks_portable [THEN ParseChainID_of_portable]
  by (simp_all add: EthereumCreate2AddressPolicyID_def EthereumUSDTCreate2AddressPolicyID_def go_consts)

lemma table_catalog:
  "map (\<lambda>(flag, policy). catalog_entry (policy (enabled flag))) (policy_table keccak assets env salts) = policy_catalog"
  using catalog_rows unfolding policy_table_def policy_catalog_def go_consts
  by (simp add: bitcoin_entry ethereum_entries ethereum_policy_ids)


lemma table_entry_fixed:
  assumes "(flag, policy) \<in> set (policy_table keccak assets env salts)"
  shows "catalog_entry (policy enabled) = catalog_entry (policy False)"
proof -
  let ?t = "policy_table keccak assets env salts"
  have "map (\<lambda>(flag, policy). catalog_entry (policy enabled)) ?t = map (\<lambda>(flag, policy). catalog_entry (policy False)) ?t"
    using table_catalog [where enabled = "\<lambda>_. enabled"] table_catalog [where enabled = "\<lambda>_. False"] by simp
  then show ?thesis
    using assms by (auto dest: map_eq_conv [THEN iffD1])
qed

lemma built_catalog:
  assumes "buildAddressIssuancePolicies keccak assets env salts = Inr ps"
  shows "map catalog_entry ps = policy_catalog"
proof -
  have "list_all2 (\<lambda>x p. x \<in> set (policy_table keccak assets env salts) \<and> p \<in> range (snd x))
      (policy_table keccak assets env salts) ps"
    using assms unfolding buildAddressIssuancePolicies_def map_results_Inr_iff
    by (auto simp: list.rel_eq split: prod.splits sum.splits elim!: list.rel_mono_strong)
  then have "list_all2 (\<lambda>x p. catalog_entry p = catalog_entry (snd x False)) (policy_table keccak assets env salts) ps"
    by (rule list.rel_mono_strong) (auto dest: table_entry_fixed)
  then have "map catalog_entry ps = map (\<lambda>x. catalog_entry (snd x False)) (policy_table keccak assets env salts)"
    by (induction rule: list_all2_induct) simp_all
  also have "\<dots> = policy_catalog"
    using table_catalog [where enabled = "\<lambda>_. False"] by (simp add: case_prod_unfold)
  finally show ?thesis .
qed

text \<open>A reader of records that all normalise finds the first of every identifier.\<close>

lemma reader_fold_map:
  "(\<And>r. r \<in> set rs \<Longrightarrow> portable_id (ipr_AddressPolicyID r) \<and> (\<exists>q. normalized_policy_record r = Some q)) \<Longrightarrow>
     rd_issuanceByID (fold reader_add rs st) =
       map_of (map (\<lambda>r. (ipr_AddressPolicyID r, the (normalized_policy_record r))) rs) ++ rd_issuanceByID st"
proof (induction rs arbitrary: st)
  case (Cons r rs)
  obtain q where q: "normalized_policy_record r = Some q" and p: "portable_id (ipr_AddressPolicyID r)"
    using Cons.prems [of r] by auto
  have id: "ipr_AddressPolicyID q = ipr_AddressPolicyID r"
    using normalized_policy_record_Some(1) [OF q] p by (simp add: ParseChainID_of_portable)
  have "rd_issuanceByID (reader_add r st) = [ipr_AddressPolicyID r \<mapsto> q] ++ rd_issuanceByID st"
    using q p id by (auto simp: reader_add_def ParseChainID_of_portable map_add_def fun_eq_iff split: option.splits)
  then show ?case
    using Cons.IH [of "reader_add r st"] Cons.prems q by (auto simp: map_add_def fun_eq_iff split: option.splits)
qed simp

text \<open>Every configured policy has an entry, so its record normalises.\<close>

lemma built_entry:
  assumes "buildAddressIssuancePolicies keccak assets env salts = Inr ps" "x \<in> set ps"
  shows "\<exists>p. normalized_policy_record (boot_policy_record x) = Some p \<and> record_entry p = catalog_entry x"
    and "portable_id (aip_AddressPolicyID x)"
    and "ipr_AddressPolicyID (boot_policy_record x) = aip_AddressPolicyID x"
proof -
  have "catalog_entry x \<in> set policy_catalog"
    using built_catalog [OF assms(1)] assms(2) by (metis image_eqI list.set_map)
  then have e: "entry_normal (catalog_entry x)"
    using catalog_all by (simp add: list_all_iff)
  then show "\<exists>p. normalized_policy_record (boot_policy_record x) = Some p \<and> record_entry p = catalog_entry x"
    by (rule configured_entry)
  show "portable_id (aip_AddressPolicyID x)"
    using e by (simp add: entry_normal_def catalog_entry_def)
  then show "ipr_AddressPolicyID (boot_policy_record x) = aip_AddressPolicyID x"
    by (simp add: boot_policy_record_def Let_def AddressPolicyID_Normalize_portable)
qed

text \<open>The reader of a program finds the records of its policies, each by its identifier.\<close>

lemma configured_finds:
  assumes b: "buildAddressIssuancePolicies keccak assets env salts = Inr ps"
    and r: "reader = NewAddressPolicyReader (map boot_policy_record ps)"
  shows "rdr_FindIssuanceByID reader pid = Inr (Some p) \<longleftrightarrow>
    (\<exists>x \<in> set ps. ParseChainID pid = Some (aip_AddressPolicyID x) \<and>
       normalized_policy_record (boot_policy_record x) = Some p)"
proof -
  let ?f = "\<lambda>x. the (normalized_policy_record (boot_policy_record x))"
  note entry = built_entry [OF b]
  have "rd_issuanceByID (reader_build (map boot_policy_record ps)) =
      map_of (map (\<lambda>r. (ipr_AddressPolicyID r, the (normalized_policy_record r))) (map boot_policy_record ps)) ++ Map.empty"
    unfolding reader_build_def using entry by (subst reader_fold_map) fastforce+
  then have rd: "rd_issuanceByID (reader_build (map boot_policy_record ps)) = map_of (map (\<lambda>x. (aip_AddressPolicyID x, ?f x)) ps)"
    using entry(3) by (simp add: comp_def cong: map_cong)
  have "distinct (map fst policy_catalog)"
    by (simp add: policy_catalog_def)
  then have "distinct (map aip_AddressPolicyID ps)"
    by (simp add: built_catalog [OF b, symmetric] comp_def catalog_entry_def)
  then have "map_of (map (\<lambda>x. (aip_AddressPolicyID x, ?f x)) ps) i = Some p \<longleftrightarrow>
      (\<exists>x \<in> set ps. i = aip_AddressPolicyID x \<and> p = ?f x)" for i
    by (subst map_of_eq_Some_iff) (auto simp: comp_def)
  moreover have "p = ?f x \<longleftrightarrow> normalized_policy_record (boot_policy_record x) = Some p" if "x \<in> set ps" for x
    using entry(1) [OF that] by auto
  ultimately show ?thesis
    by (auto simp: r NewAddressPolicyReader_def reader_FindIssuanceByID_def rd split: option.split)
qed

text \<open>Seen from the catalogue: one record for each entry.\<close>

lemma configured_reader:
  assumes b: "buildAddressIssuancePolicies keccak assets env salts = Inr ps"
    and r: "reader = NewAddressPolicyReader (map boot_policy_record ps)"
  shows "(\<exists>p. rdr_FindIssuanceByID reader pid = Inr (Some p) \<and> record_entry p = e) \<longleftrightarrow>
    e \<in> set policy_catalog \<and> ParseChainID pid = Some (fst e)"
proof -
  have "(\<exists>p. rdr_FindIssuanceByID reader pid = Inr (Some p) \<and> record_entry p = e) \<longleftrightarrow>
      (\<exists>x \<in> set ps. ParseChainID pid = Some (aip_AddressPolicyID x) \<and> catalog_entry x = e)"
    unfolding configured_finds [OF assms] using built_entry(1) [OF b] by fastforce
  also have "\<dots> \<longleftrightarrow> e \<in> set (map catalog_entry ps) \<and> ParseChainID pid = Some (fst e)"
    by (auto simp: catalog_entry_def)
  finally show ?thesis
    by (simp only: built_catalog [OF b])
qed

end
