(* ===== verification/Boot_Sample.thy ===== *)
theory Boot_Sample
  imports Policy_Catalog
begin

text \<open>
  A configuration that starts: one Ethereum policy on the test network is enabled, its factory is
  deployed with the embedded code, one endpoint of each chain and the webhook are configured. The
  hash functions are stand-ins of the right length.
\<close>

section \<open>When the API starts\<close>

lemma built_from_flags:
  assumes "\<And>flag policy. (flag, policy) \<in> set (policy_table keccak assets env salts) \<Longrightarrow>
    parseEnabledPolicyEnv env flag = Inr (on flag)"
  shows "buildAddressIssuancePolicies keccak assets env salts =
    Inr (map (\<lambda>(flag, policy). policy (on flag)) (policy_table keccak assets env salts))"
  unfolding buildAddressIssuancePolicies_def map_results_Inr_iff list_all2_map2
  by (rule list.rel_refl_strong) (auto simp: assms)

lemma validated_ethereum:
  assumes "\<And>p. p \<in> set ps \<Longrightarrow> aip_Enabled p \<Longrightarrow>
    ParseSupportedChain (aip_Chain p) = Some SupportedChainEthereum \<and>
    validateConfiguredEnabledEthereumAddressIssuancePolicy (AddressIssuancePolicy_Normalize p) = Inr ()"
  shows "validateConfiguredAddressIssuancePolicies deriver ps = Inr ()"
  using assms by (induction deriver ps rule: validateConfiguredAddressIssuancePolicies.induct) (auto simp: Let_def)

lemma ready_policies:
  assumes "\<And>p n. p \<in> set ps \<Longrightarrow> aip_Enabled p \<Longrightarrow>
    \<exists>n1. CheckIssuanceReadiness codec keccak assets checker server
      (boot_policy_record (AddressIssuancePolicy_Normalize p)) n = (Inr (), n1)"
  shows "\<exists>n1. validateEnabledEthereumIssuanceReadiness codec keccak assets checker server ps n = (Inr (), n1)"
  using assms
proof (induction ps arbitrary: n)
  case (Cons p ps)
  show ?case
  proof (cases "aip_Enabled p")
    case True
    then obtain n1 where "CheckIssuanceReadiness codec keccak assets checker server
        (boot_policy_record (AddressIssuancePolicy_Normalize p)) n = (Inr (), n1)"
      using Cons.prems [of p n] by auto
    then show ?thesis
      using Cons.IH [of n1] Cons.IH [of n] Cons.prems by (auto simp: Let_def)
  qed (use Cons in \<open>auto simp: Let_def\<close>)
qed simp

section \<open>The configuration\<close>

definition boot_keccak :: "string \<Rightarrow> string" where
  "boot_keccak d = take 32 (rev d @ replicate 32 (CHR 0x00))"

definition boot_hmac :: "string \<Rightarrow> string \<Rightarrow> string" where
  "boot_hmac key m = take 32 (m @ key @ replicate 32 (CHR 0x00))"

definition boot_collector :: string where
  "boot_collector = ''0x'' @ replicate 40 (CHR ''2'')"

definition boot_env :: StringMap where
  "boot_env =
     [(''DATABASE_URL'', ''db''), (''ETHEREUM_SEPOLIA_CREATE2_ENABLED'', ''true''),
      (''ETHEREUM_SEPOLIA_CREATE2_COLLECTOR_ADDRESS'', boot_collector),
      (''ETHEREUM_SEPOLIA_CREATE2_DERIVATION_KEY'', ''0x'' @ replicate 64 (CHR ''5'')),
      (''ETHEREUM_SEPOLIA_RPC_URL'', ''http://n''), (''PAYMENT_RECEIPT_WEBHOOK_URL'', ''https://h''),
      (''PAYMENT_RECEIPT_WEBHOOK_SECRET'', ''s'')]"

definition boot_metadata :: DeploymentMetadata where
  "boot_metadata = \<lparr>dm_Network = ''sepolia'', dm_FactoryAddress = ''0x'' @ replicate 40 (CHR ''1''),
     dm_ReceiverArtifact = ReceiverArtifactName, dm_Mode = [],
     dm_Receiver = no_artifact\<lparr>ra_CreationCodeHex := ''0x6001''\<rparr>\<rparr>"

definition boot_assets :: Create2Assets where
  "boot_assets = \<lparr>ca_metadata = [''sepolia'' \<mapsto> boot_metadata],
     ca_artifacts = [''Create2ReceiverFactory.json'' \<mapsto> no_artifact\<lparr>ra_RuntimeCodeHex := ''0x6002''\<rparr>]\<rparr>"

definition boot_codec :: Codec where
  "boot_codec = \<lparr>json_text = (\<lambda>v. []), json_value = (\<lambda>s. None),
     json_first = (\<lambda>s. Some (JObj [(''jsonrpc'', JStr ''2.0''), (''id'', JNum ''1''), (''result'', JStr s)], []))\<rparr>"

definition boot_node :: HttpServer where
  "boot_node n req = Some \<lparr>rp_Status = 200, rp_Body = ''0x6002''\<rparr>"

definition boot_ext :: "(unit, unit) Externals" where
  "boot_ext = \<lparr>ext_codec = boot_codec, ext_keccak = boot_keccak, ext_hmac = boot_hmac, ext_assets = boot_assets,
     ext_lib = \<lparr>hd_NewKeyFromString = (\<lambda>_. None), hd_Depth = (\<lambda>_. 0), hd_ChildIndex = (\<lambda>_. 0),
                hd_Derive = (\<lambda>_ _. None), hd_ECPubKey = (\<lambda>_. None)\<rparr>,
     ext_encoders = [], ext_duration = (\<lambda>_. None),
     ext_parse_url = (\<lambda>u. Some \<lparr>pu_Scheme = ''https'', pu_Host = ''h'', pu_String = u\<rparr>)\<rparr>"

abbreviation "boot_lookup \<equiv> map_lookup boot_env"

lemma boot_hashes: "length (boot_keccak d) = 32" "length (boot_hmac key m) = 32"
  by (simp_all add: boot_keccak_def boot_hmac_def)

lemma boot_trims:
  "trim_space ''db'' = ''db''" "trim_space ''true'' = ''true''" "trim_space ''http://n'' = ''http://n''"
  "trim_space ''https://h'' = ''https://h''" "trim_space ''s'' = ''s''"
  by (rule trim_space_plain; simp add: printable_def)+

lemma boot_flag:
  assumes "(flag, policy) \<in> set (policy_table keccak assets boot_lookup salts)"
  shows "parseEnabledPolicyEnv boot_lookup flag = Inr (flag = ''ETHEREUM_SEPOLIA_CREATE2_ENABLED'')"
  using assms boot_trims(2)
  by (auto simp: policy_table_def parseEnabledPolicyEnv_def map_lookup_def boot_env_def parse_bool_def)

text \<open>The one policy that is enabled, its address space and its readiness.\<close>

definition boot_policy :: "(string \<rightharpoonup> string) option \<Rightarrow> AddressIssuancePolicy" where
  "boot_policy salts =
     newEthereumCreate2AddressIssuancePolicy boot_keccak boot_assets salts NetworkIDSepolia True boot_collector"

lemma boot_enabled:
  assumes "(flag, policy) \<in> set (policy_table boot_keccak boot_assets boot_lookup salts)"
    and "aip_Enabled (policy (flag = ''ETHEREUM_SEPOLIA_CREATE2_ENABLED''))"
  shows "policy (flag = ''ETHEREUM_SEPOLIA_CREATE2_ENABLED'') = boot_policy salts"
  using assms
  by (auto simp: policy_table_def boot_policy_def map_lookup_def boot_env_def newBitcoinAddressIssuancePolicy_def
      newEthereumCreate2AddressIssuancePolicy_def newEthereumUSDTCreate2AddressIssuancePolicy_def)

lemma boot_space_ref: "BuildAddressSpaceRef boot_keccak boot_assets ''sepolia'' boot_collector \<noteq> []"
proof -
  have "normalizeNetworkKey ''sepolia'' = ''sepolia''"
    by code_simp
  moreover have "BuildAddressSpaceRefFromMetadata boot_keccak boot_metadata boot_collector \<noteq> []"
    by code_simp
  ultimately show ?thesis
    by (simp add: BuildAddressSpaceRef_def LookupDeploymentMetadata_def boot_assets_def)
qed

lemma boot_salts: "HasNetwork (Some (salt_deriver boot_lookup)) ''sepolia''"
proof -
  have "to_lower (trim_space ''sepolia'') = ''sepolia''"
    using portable_id_lower_trim [OF networks_portable(2)] by (simp add: go_consts)
  moreover have "normalizeCreate2SaltSecret (trim_space (''0x'' @ replicate 64 (CHR ''5''))) = Some (replicate 32 (CHR 0x55))"
    by code_simp
  ultimately show ?thesis
    by (simp add: HasNetwork_def salt_deriver_def NewCreate2SaltDeriver_def buildEthereumCreate2DerivationKeys_def
        map_lookup_def boot_env_def go_consts split: option.split)
qed

lemma boot_policy_valid:
  "ParseSupportedChain (aip_Chain (boot_policy salts)) = Some SupportedChainEthereum"
  "validateConfiguredEnabledEthereumAddressIssuancePolicy
     (AddressIssuancePolicy_Normalize (boot_policy (Some (salt_deriver boot_lookup)))) = Inr ()"
proof -
  show "ParseSupportedChain (aip_Chain (boot_policy salts)) = Some SupportedChainEthereum"
    by (simp add: boot_policy_def newEthereumCreate2AddressIssuancePolicy_def)
  have "EthereumCreate2AddressPolicyID NetworkIDSepolia = ''ethereum-sepolia-create2''"
    using ethereum_policy_ids(3) by (simp add: go_consts)
  moreover have "AddressPolicyID_Normalize ''ethereum-sepolia-create2'' = ''ethereum-sepolia-create2''"
    using catalog_rows by (simp add: entry_normal_def AddressPolicyID_Normalize_portable)
  ultimately show "validateConfiguredEnabledEthereumAddressIssuancePolicy
     (AddressIssuancePolicy_Normalize (boot_policy (Some (salt_deriver boot_lookup)))) = Inr ()"
    using boot_space_ref boot_salts
    by (simp add: boot_policy_def newEthereumCreate2AddressIssuancePolicy_def create2_space_ref_def
        BuildAddressSpaceRef_trimmed AddressIssuanceConfig_Normalize_def Normalize_asset
        validateConfiguredEnabledEthereumAddressIssuancePolicy_def ethereumPolicyRequiresAssetReference_def go_consts)
qed

definition boot_client :: RpcClient where
  "boot_client = \<lparr>erc_endpoint = ''http://n'', erc_username = [], erc_password = [], erc_timeout = 10000000000\<rparr>"

lemma boot_clients:
  "rpc_clients (loadEthereumRPCConfigsFromLookup (\<lambda>_. None) boot_lookup) [] = Inr [(''sepolia'', boot_client)]"
  using boot_trims(3) networks_portable(2) [THEN ParseChainID_of_portable]
  by (simp add: loadEthereumRPCConfigsFromLookup_def loadEthereumRPCConfigFromLookup_def config_if_def
      ethereum_mainnet_keys_def ethereum_sepolia_keys_def map_lookup_def boot_env_def endpoint_timeout_def
      newEthereumRPCClient_def boot_client_def go_consts)

lemma boot_factory:
  "checkFactory boot_codec boot_keccak boot_assets boot_node policy boot_client n =
     (if ipr_Network policy = ''sepolia'' then (Inr (), n + 1)
      else checkFactory boot_codec boot_keccak boot_assets boot_node policy boot_client n)"
proof (cases "ipr_Network policy = ''sepolia''")
  case True
  have "normalizeNetworkKey ''sepolia'' = ''sepolia''"
    by code_simp
  then have m: "LookupDeploymentMetadata boot_assets ''sepolia'' = Some boot_metadata"
    by (simp add: LookupDeploymentMetadata_def boot_assets_def)
  have f: "NormalizeEthereumAddress (dm_FactoryAddress boot_metadata) = Inr (''0x'' @ replicate 40 (CHR ''1''))"
    by code_simp
  have r: "decode_rpc_response (JObj [(''jsonrpc'', JStr ''2.0''), (''id'', JNum ''1''), (''result'', JStr q)]) no_rpc_response =
      Some \<lparr>rr_JSONRPC = ''2.0'', rr_ID = Some (JNum ''1''), rr_Result = Some (JStr q), rr_Error = None\<rparr>" for q
    by (simp add: decode_rpc_response_def no_rpc_response_def field_of_def struct_field_def decode_raw_def)
  have c: "parseEthereumHexBytes ''0x6002'' = Inr [CHR 0x60, CHR 0x02]" "to_lower (trim_space ''0x6002'') = ''0x6002''"
    by code_simp+
  have h: "ExpectedFactoryRuntimeCodeHashHex boot_keccak boot_assets =
      Some (''0x'' @ hex_encode (keccak256Hash boot_keccak [CHR 0x60, CHR 0x02]))"
    by code_simp
  show ?thesis
    using True by (simp add: checkFactory_def m f h fetchCode_def rpc_call_def boot_node_def boot_codec_def r c runtimeCodeHashHex_def)
qed simp

lemma boot_ready:
  "CheckIssuanceReadiness boot_codec boot_keccak boot_assets [(''sepolia'', boot_client)] boot_node
     (boot_policy_record (AddressIssuancePolicy_Normalize (boot_policy salts))) n = (Inr (), n + 1)"
proof -
  let ?p = "boot_policy_record (AddressIssuancePolicy_Normalize (boot_policy salts))"
  have "ipr_Chain ?p = ''ethereum''" "ipr_Enabled ?p" "ipr_Network ?p = ''sepolia''" "ipr_AssetReference ?p = []"
    using networks_portable(2) [THEN ParseChainID_of_portable] ParseSupportedChain_self
    by (simp_all add: boot_policy_record_def Let_def boot_policy_def newEthereumCreate2AddressIssuancePolicy_def
        Normalize_asset go_consts)
  then show ?thesis
    by (simp add: CheckIssuanceReadiness_def boot_factory)
qed

section \<open>It starts\<close>

lemma boot_terms:
  "\<exists>t. loadReceiptRequiredConfirmationsFromLookup boot_lookup fallback = Inr t"
  "\<exists>t. loadReceiptExpiresAfterByScopeFromLookup dur boot_lookup expires = Inr t"
  by (simp_all add: loadReceiptRequiredConfirmationsFromLookup_def loadReceiptExpiresAfterByScopeFromLookup_def
      parsePositiveInt32LookupWithDefault_def parsePositiveDurationLookupWithDefault_def map_lookup_def boot_env_def)

definition boot_policies :: "(string \<rightharpoonup> string) option \<Rightarrow> AddressIssuancePolicy list" where
  "boot_policies salts =
     map (\<lambda>(flag, policy). policy (flag = ''ETHEREUM_SEPOLIA_CREATE2_ENABLED''))
       (policy_table boot_keccak boot_assets boot_lookup salts)"

lemma boot_policies_enabled: "p \<in> set (boot_policies salts) \<Longrightarrow> aip_Enabled p \<Longrightarrow> p = boot_policy salts"
  using boot_enabled by (auto simp: boot_policies_def)

lemma boot_built: "buildAddressIssuancePolicies boot_keccak boot_assets boot_lookup salts = Inr (boot_policies salts)"
  unfolding boot_policies_def by (rule built_from_flags) (rule boot_flag)

lemma two_derivers:
  "NewMultiChainIssuedPaymentAddressDeriver
     [Some (bitcoin_deriver codec lib encoders), Some (ethereum_deriver codec k h a s)] \<noteq> Inl err"
  using ParseSupportedChain_self
  by (simp add: NewMultiChainIssuedPaymentAddressDeriver_def bitcoin_deriver_def ethereum_deriver_def go_consts)

lemma boot_database: "openPostgresFromEnv (\<lambda>_. True) boot_lookup = Inr ()"
  using boot_trims(1) by (simp add: openPostgresFromEnv_def map_lookup_def boot_env_def)

lemma boot_starts: "\<exists>c n. newAPIContainer boot_ext (\<lambda>_. True) boot_lookup boot_node 0 = (Inr c, n)"
proof -
  let ?s = "Some (salt_deriver boot_lookup)"
  have v: "validateConfiguredAddressIssuancePolicies deriver (boot_policies ?s) = Inr ()" for deriver :: "(unit, unit) HdLibrary option"
    by (rule validated_ethereum) (auto dest: boot_policies_enabled simp: boot_policy_valid)
  have "\<exists>n1. validateEnabledEthereumIssuanceReadiness boot_codec boot_keccak boot_assets [(''sepolia'', boot_client)]
      boot_node (boot_policies ?s) 0 = (Inr (), n1)"
    by (rule ready_policies) (auto dest!: boot_policies_enabled simp: boot_ready)
  then show ?thesis
    using boot_terms(1) [of defaultBitcoinRequiredConfirmations] boot_database
      boot_terms(2) [of "\<lambda>_. None" defaultBitcoinReceiptExpiresAfter] boot_built [of ?s] v boot_clients
    by (auto simp: newAPIContainer_def build_api_def boot_ext_def NewAddressIssuanceReadinessChecker_def
        two_derivers Let_def split: sum.split)
qed

text \<open>Requests find the enabled policy.\<close>

lemma boot_found:
  assumes "newAPIContainer boot_ext (\<lambda>_. True) boot_lookup boot_node 0 = (Inr c, n)"
    and "ad_policyReader (api_allocate c) = Some reader"
  shows "\<exists>p. rdr_FindIssuanceByID reader ''ethereum-sepolia-create2'' = Inr (Some p) \<and>
    ipr_Enabled p \<and> ipr_Chain p = ''ethereum''"
proof -
  let ?s = "Some (salt_deriver boot_lookup)"
  have reader: "reader = NewAddressPolicyReader (map boot_policy_record (boot_policies ?s))"
    using assms boot_built [of ?s]
    by (auto simp: newAPIContainer_def build_api_def boot_ext_def Let_def split: sum.splits prod.splits)
  have b: "boot_policy ?s \<in> set (boot_policies ?s)"
    by (simp add: boot_policies_def policy_table_def boot_policy_def map_lookup_def boot_env_def)
  then obtain p where p: "normalized_policy_record (boot_policy_record (boot_policy ?s)) = Some p"
      "record_entry p = catalog_entry (boot_policy ?s)"
    using built_entry(1) [OF boot_built b] by blast
  have e: "catalog_entry (boot_policy ?s) = (''ethereum-sepolia-create2'', ''ethereum'', ''sepolia'', ''create2'', 18)"
    using catalog_rows by (simp add: boot_policy_def ethereum_entries ethereum_policy_ids go_consts)
  have "ParseChainID ''ethereum-sepolia-create2'' = Some ''ethereum-sepolia-create2''"
    using catalog_rows by (simp add: entry_normal_def ParseChainID_of_portable)
  moreover have "aip_AddressPolicyID (boot_policy ?s) = ''ethereum-sepolia-create2''"
    using e by (simp add: catalog_entry_def)
  ultimately have "rdr_FindIssuanceByID reader ''ethereum-sepolia-create2'' = Inr (Some p)"
    unfolding configured_finds [OF boot_built reader] using b p(1) by (metis (no_types))
  moreover have "ipr_Enabled p"
    using p(1) by (auto simp: normalized_policy_record_def boot_policy_record_def boot_policy_def Let_def
        newEthereumCreate2AddressIssuancePolicy_def split: option.splits)
  ultimately show ?thesis
    using p(2) e by (auto simp: record_entry_def)
qed

section \<open>The scheduled programs start\<close>

lemma boot_poller_config: "\<exists>pc. loadPollerConfigFromLookup dur boot_lookup = Inr pc"
  "loadConfiguredPollerChainFromLookup boot_lookup = Inr ([], False)"
  "\<exists>request. buildCloudflarePollerRequest dur boot_lookup = Inr request \<and> prq_Chain request = []"
  by (simp_all add: loadPollerConfigFromLookup_def loadPollerDispatchConfigFromLookup_def
      loadConfiguredPollerChainFromLookup_def parsePollerPositiveDurationLookupWithDefault_def
      buildCloudflarePollerRequest_def parsePollerPositiveIntLookupWithDefault_def parsePollerChainLookup_def
      parsePollerNetworkLookup_def map_lookup_def boot_env_def)

lemma observers_build:
  "NewMultiChainReceiptObserver [(ChainIDEthereum, Some e)] \<noteq> Inl err"
  "NewMultiChainReceiptObserver [(ChainIDBitcoin, Some b), (ChainIDEthereum, Some e)] \<noteq> Inl err"
  by (simp_all add: NewMultiChainReceiptObserver_def supported_chain_eq ParseChainID_of_portable)

lemma boot_esplora: "loadBitcoinEsploraConfigs dur boot_lookup = []"
  by (simp add: loadBitcoinEsploraConfigs_def loadBitcoinEsploraConfigFromLookup_def config_if_def
      bitcoin_mainnet_keys_def bitcoin_testnet4_keys_def map_lookup_def boot_env_def)

lemma boot_ethereum_observer:
  "loadEthereumRPCConfigsFromLookup (\<lambda>_. None) boot_lookup \<noteq> []"
  "NewEthereumRPCReceiptObserver (loadEthereumRPCConfigsFromLookup (\<lambda>_. None) boot_lookup) =
     Inr [(''sepolia'', boot_client)]"
  using boot_clients by (auto simp: NewEthereumRPCReceiptObserver_def)

lemma boot_poller_starts:
  "\<exists>deps. newPollerContainer boot_ext (\<lambda>_. True) boot_lookup net = Inr deps"
  "\<exists>deps request. buildCloudflarePollerRuntime boot_ext boot_env bridge_id bridge net = Inr (deps, request)"
proof -
  show "\<exists>deps. newPollerContainer boot_ext (\<lambda>_. True) boot_lookup net = Inr deps"
    using observers_build(1)
    by (simp add: newPollerContainer_def boot_database boot_poller_config poller_observers_def boot_esplora
        boot_ethereum_observer boot_ext_def Let_def split: sum.split)
  obtain request where "buildCloudflarePollerRequest (\<lambda>_. None) boot_lookup = Inr request" "prq_Chain request = []"
    using boot_poller_config(3) by blast
  then show "\<exists>deps request. buildCloudflarePollerRuntime boot_ext boot_env bridge_id bridge net = Inr (deps, request)"
    using observers_build(2)
    by (simp add: buildCloudflarePollerRuntime_def cf_poller_observers_def boot_ethereum_observer boot_ext_def Let_def
        split: sum.split)
qed

lemma boot_worker_env: "cloudflareAPIEnvValue boot_env = boot_lookup"
proof -
  have "trim_space boot_collector = boot_collector"
      "trim_space (''0x'' @ replicate 64 (CHR ''5'')) = ''0x'' @ replicate 64 (CHR ''5'')"
    by (rule trim_space_plain; simp add: boot_collector_def list_all_iff printable_def)+
  then show ?thesis
    using boot_trims by (auto simp: fun_eq_iff cloudflareAPIEnvValue_def map_lookup_def boot_env_def)
qed

lemma boot_dispatcher_starts:
  "\<exists>deps. newReceiptWebhookDispatcherContainer boot_ext (\<lambda>_. True) boot_lookup server = Inr deps"
  "\<exists>deps request. buildCloudflareReceiptWebhookDispatcherRuntime boot_ext boot_env bridge = Inr (deps, request)"
proof -
  have n: "loadPaymentReceiptWebhookNotifierConfig (\<lambda>_. None) boot_lookup =
      Inr \<lparr>wc_URL = ''https://h'', wc_CloudflareBinding = [], wc_CloudflarePath = [], wc_Secret = ''s'',
           wc_Timeout = 0, wc_InsecureSkipVerify = False\<rparr>"
    using boot_trims(4)
    by (simp add: loadPaymentReceiptWebhookNotifierConfig_def loadReceiptWebhookNotifierSettingsFromLookup_def
        parseReceiptWebhookDispatcherPositiveDurationLookup_def parseReceiptWebhookDispatcherBoolLookup_def
        map_lookup_def boot_env_def)
  show "\<exists>deps. newReceiptWebhookDispatcherContainer boot_ext (\<lambda>_. True) boot_lookup server = Inr deps"
    using boot_built [of None] boot_trims(4,5)
    by (simp add: newReceiptWebhookDispatcherContainer_def boot_database n boot_ext_def
        NewPaymentReceiptStatusWebhookNotifier_def Let_def)
  show "\<exists>deps request. buildCloudflareReceiptWebhookDispatcherRuntime boot_ext boot_env bridge = Inr (deps, request)"
  proof -
    have request: "\<exists>request. buildCloudflareReceiptWebhookDispatcherRequest (\<lambda>_. None) boot_lookup = Inr request"
      by (simp add: buildCloudflareReceiptWebhookDispatcherRequest_def loadReceiptWebhookDispatchSettingsFromLookup_def
          parseReceiptWebhookDispatcherPositiveIntLookup_def parseReceiptWebhookDispatcherPositiveDurationLookup_def
          parseReceiptWebhookDispatcherPositiveInt32Lookup_def map_lookup_def boot_env_def)
    have config: "loadCloudflareReceiptWebhookNotifierConfig (\<lambda>_. None) boot_lookup =
        Inr \<lparr>wc_URL = [], wc_CloudflareBinding = ''RECEIPT_WEBHOOK_MOCK'', wc_CloudflarePath = ''/receipt-status'',
             wc_Secret = ''s'', wc_Timeout = 10000000000, wc_InsecureSkipVerify = False\<rparr>"
      by (simp add: loadCloudflareReceiptWebhookNotifierConfig_def loadReceiptWebhookNotifierSettingsFromLookup_def
          parseReceiptWebhookDispatcherPositiveDurationLookup_def parseReceiptWebhookDispatcherBoolLookup_def
          map_lookup_def boot_env_def)
    have "trim_space ''RECEIPT_WEBHOOK_MOCK'' = ''RECEIPT_WEBHOOK_MOCK''" "trim_space ''/receipt-status'' = ''/receipt-status''"
      by (rule trim_space_plain; simp add: printable_def)+
    then show ?thesis
      using request boot_built [of None] boot_trims(5)
      by (auto simp: buildCloudflareReceiptWebhookDispatcherRuntime_def config boot_worker_env boot_ext_def
          NewCloudflarePaymentReceiptStatusWebhookNotifier_def has_prefix_def Let_def)
  qed
qed

end
