(* ===== verification/Http_System.thy ===== *)
theory Http_System
  imports Http_Properties
begin

text \<open>
  The API of \<open>src/internal/adapters/inbound/http\<close> as steps of the system. The locale \<open>system_handler\<close> is
  what the program asks of an HTTP handler: serving a request, by a process that is alone, moves the
  database by executions of use cases only. The controllers and the router satisfy it, and the
  middleware keeps it.
\<close>

lemma one_step: "system_step d d' \<Longrightarrow> system_run d d'"
  by (rule system_run.sys_step [OF sys_refl])

lemma system_run_trans: "system_run d d' \<Longrightarrow> system_run d' d'' \<Longrightarrow> system_run d d''"
  by (rotate_tac, induction rule: system_run.induct) (auto intro: system_run.intros)

locale system_handler =
  fixes handler :: "Env \<Rightarrow> Handler"
  assumes runs: "alone env \<Longrightarrow> system_run (w_db w) (w_db (snd (handler env h r vals w)))"
begin

lemma CORS_runs: "alone env \<Longrightarrow> system_run (w_db w) (w_db (snd (CORS (handler env) h r vals w)))"
  by (simp add: CORS_def Let_def sys_refl runs)

lemma public_runs:
  "alone env \<Longrightarrow> system_run (w_db w) (w_db (snd (snd (RequestLog (CORS (handler env)) h r vals w))))"
  using CORS_runs [of env w h r vals]
  by (cases "CORS (handler env) h r vals w") (simp add: RequestLog_def)

end

interpretation health: system_handler "\<lambda>env. HealthController codec (CheckHealth_Execute env clock)"
  for codec clock
  by unfold_locales (auto simp: HealthController_def CheckHealth_Execute_def read_clock_def sys_refl
      split: prod.splits sum.splits)

interpretation listing: system_handler "\<lambda>env. ListAddressPoliciesController codec (ListPolicies_Execute reader)"
  for codec reader
  by unfold_locales (auto simp: ListAddressPoliciesController_def sys_refl split: sum.splits prod.splits)

interpretation allocation: system_handler "\<lambda>env. AllocatePaymentAddressController codec (Allocate_Execute env deps)"
  for codec deps
  by unfold_locales (auto simp: AllocatePaymentAddressController_def sys_refl Let_def
      intro!: one_step elim: sys_allocate split: prod.splits sum.splits option.splits)

interpretation status: system_handler "\<lambda>env. GetPaymentAddressStatusController codec (GetStatus_Execute env deps)"
  for codec deps
  by unfold_locales (auto simp: GetPaymentAddressStatusController_def sys_refl Let_def
      intro!: one_step elim: sys_status split: prod.splits sum.splits option.splits)

interpretation router: system_handler "\<lambda>env. newRouter redirect (api_controllers codec env deps sd)"
  for redirect codec deps sd
proof
  fix env w h r vals
  assume a: "alone env"
  let ?c = "api_controllers codec env deps sd"
  show "system_run (w_db w) (w_db (snd (newRouter redirect ?c h r vals w)))"
    using health.runs [OF a] listing.runs [OF a] allocation.runs [OF a] status.runs [OF a]
    by (auto simp: newRouter_def serve_mux_def api_controllers_def route_if_def sys_refl
        dest!: find_route_set split: option.splits prod.splits)
qed

lemma NewPublicRouter_runs:
  "alone env \<Longrightarrow>
     system_run (w_db w) (w_db (snd (snd (NewPublicRouter redirect (api_controllers codec env deps sd) r w))))"
  unfolding NewPublicRouter_def by (rule router.public_runs)

end
