(* ===== verification/Bootstrap_Properties.thy ===== *)
theory Bootstrap_Properties
  imports Boot_Sample Http_System Sample_Run
begin

text \<open>
  Properties of the started programs: what the validation at start guarantees for the requests that
  follow, the configuration of the scheduled cycles, and that the programs only take the steps of the
  system.
\<close>

section \<open>What a started API can issue\<close>

lemma reader_add_found:
  "rd_issuanceByID (reader_add r st) i = Some p \<Longrightarrow>
     rd_issuanceByID st i = Some p \<or> normalized_policy_record r = Some p"
  unfolding reader_add_def by (auto split: option.splits if_splits)

lemma reader_fold_found:
  "rd_issuanceByID (fold reader_add rs st) i = Some p \<Longrightarrow>
     rd_issuanceByID st i = Some p \<or> (\<exists>r \<in> set rs. normalized_policy_record r = Some p)"
proof (induction rs arbitrary: st)
  case (Cons r rs)
  then show ?case
    using reader_add_found [of r st i p] by auto
qed simp

lemma reader_found:
  assumes "rdr_FindIssuanceByID (NewAddressPolicyReader recs) pid = Inr (Some p)"
  shows "\<exists>r \<in> set recs. normalized_policy_record r = Some p"
proof -
  obtain i where "rd_issuanceByID (reader_build recs) i = Some p"
    using assms by (auto simp: NewAddressPolicyReader_def reader_FindIssuanceByID_def split: option.splits)
  then show ?thesis
    using reader_fold_found [of recs] unfolding reader_build_def by fastforce
qed

lemma configured_record:
  assumes "normalized_policy_record (boot_policy_record x) = Some p"
  shows "ipr_Enabled p = aip_Enabled x" "ParseSupportedChain (aip_Chain x) = Some (ipr_Chain p)"
    "ipr_AddressSpaceRef p = trim_space (cfg_AddressSpaceRef (aip_IssuanceConfig x))"
    "portable_id (aip_AddressPolicyID x) \<Longrightarrow> ipr_AddressPolicyID p = aip_AddressPolicyID x"
    "portable_id (aip_Network x) \<Longrightarrow> ipr_Network p = aip_Network x"
    "ParseAddressScheme (aip_Scheme x) = Some (aip_Scheme x) \<Longrightarrow> ipr_Scheme p = aip_Scheme x"
  using assms
  by (auto simp: normalized_policy_record_def boot_policy_record_def Let_def ParseSupportedChain_idem
      AddressIssuanceConfig_Normalize_def AddressPolicyID_Normalize_portable ParseChainID_of_portable
      AddressScheme_Normalize_def split: option.splits)

lemma validated_policy:
  assumes "validateConfiguredAddressIssuancePolicies deriver ps = Inr u" "p \<in> set ps" "aip_Enabled p"
  shows "ParseSupportedChain (aip_Chain p) = Some SupportedChainBitcoin \<Longrightarrow>
      validateConfiguredEnabledBitcoinAddressIssuancePolicy deriver (AddressIssuancePolicy_Normalize p) = Inr ()"
    "ParseSupportedChain (aip_Chain p) = Some SupportedChainEthereum \<Longrightarrow>
      validateConfiguredEnabledEthereumAddressIssuancePolicy (AddressIssuancePolicy_Normalize p) = Inr ()"
  using assms
  by (induction deriver ps rule: validateConfiguredAddressIssuancePolicies.induct)
    (auto simp: Let_def split: sum.splits if_splits)

lemma list_all2_left: "list_all2 P xs ys \<Longrightarrow> y \<in> set ys \<Longrightarrow> \<exists>x \<in> set xs. P x y"
  by (induction rule: list_all2_induct) auto

lemma built_policies:
  assumes "buildAddressIssuancePolicies keccak assets env salts = Inr ps" "p \<in> set ps"
  obtains flag policy enabled where "(flag, policy) \<in> set (policy_table keccak assets env salts)" "p = policy enabled"
proof -
  obtain x where x: "x \<in> set (policy_table keccak assets env salts)"
    and f: "(case x of (flag, policy) \<Rightarrow> case parseEnabledPolicyEnv env flag of
          Inl err \<Rightarrow> Inl err | Inr enabled \<Rightarrow> Inr (policy enabled)) = Inr p"
    using list_all2_left [OF _ assms(2)] assms(1)
    unfolding buildAddressIssuancePolicies_def map_results_Inr_iff by blast
  obtain flag policy where xp: "x = (flag, policy)" by force
  with f obtain enabled where "p = policy enabled"
    by (auto split: sum.splits)
  with x xp show thesis by (intro that) simp_all
qed

text \<open>The Ethereum policies of the table: their network, scheme, identifier and reference.\<close>

lemma ethereum_ids_portable:
  "portable_id (EthereumCreate2AddressPolicyID NetworkIDMainnet)"
  "portable_id (EthereumUSDTCreate2AddressPolicyID NetworkIDMainnet)"
  "portable_id (EthereumCreate2AddressPolicyID NetworkIDSepolia)"
  "portable_id (EthereumUSDTCreate2AddressPolicyID NetworkIDSepolia)"
  by (simp_all add: EthereumCreate2AddressPolicyID_def EthereumUSDTCreate2AddressPolicyID_def
      ParseChainID_of_portable)
    (simp_all add: portable_id_def portable_char_def maxIDLength_def go_consts Let_def)

definition create2_policy ::
  "(string \<Rightarrow> string) \<Rightarrow> Create2Assets \<Rightarrow> (string \<rightharpoonup> string) option \<Rightarrow> AddressIssuancePolicy \<Rightarrow> bool" where
  "create2_policy keccak assets salts p \<longleftrightarrow>
     portable_id (aip_Network p) \<and> aip_Scheme p = AddressSchemeCreate2 \<and> portable_id (aip_AddressPolicyID p) \<and>
     (\<exists>collector. cfg_AddressSpaceRef (aip_IssuanceConfig p) =
        trim_space (create2_space_ref keccak assets salts (aip_Network p) collector))"

lemma create2_policies:
  assumes "network \<in> {NetworkIDMainnet, NetworkIDSepolia}"
  shows "create2_policy keccak assets salts
      (newEthereumCreate2AddressIssuancePolicy keccak assets salts network enabled collector)"
    "create2_policy keccak assets salts
      (newEthereumUSDTCreate2AddressIssuancePolicy keccak assets salts network enabled collector asset)"
  using assms ethereum_ids_portable
  by (auto simp: create2_policy_def newEthereumCreate2AddressIssuancePolicy_def
      newEthereumUSDTCreate2AddressIssuancePolicy_def AddressIssuanceConfig_Normalize_def
      ParseChainID_of_portable AddressPolicyID_Normalize_portable AddressScheme_Normalize_def
      ParseAddressScheme_self)

lemma bitcoin_policy_chain:
  "aip_Chain (newBitcoinAddressIssuancePolicy i network scheme enabled ref pre) = SupportedChainBitcoin"
  by (simp add: newBitcoinAddressIssuancePolicy_def)

lemma ethereum_table:
  assumes "(flag, policy) \<in> set (policy_table keccak assets env salts)"
    and "ParseSupportedChain (aip_Chain (policy enabled)) = Some SupportedChainEthereum"
  shows "create2_policy keccak assets salts (policy enabled)"
  using assms unfolding policy_table_def
  by (auto simp: create2_policies bitcoin_policy_chain)

lemma create2_ref:
  "trim_space (create2_space_ref keccak assets salts network collector) =
     (if HasNetwork salts network then BuildAddressSpaceRef keccak assets network collector else [])"
  by (simp add: create2_space_ref_def BuildAddressSpaceRef_trimmed)

text \<open>What the container of a started API is made of.\<close>

lemma build_api_parts:
  assumes "build_api ext termsEnv env confirmations expiresAfter server n = (Inr c, n')"
  obtains ps derivers where
    "buildAddressIssuancePolicies (ext_keccak ext) (ext_assets ext) env (Some (salt_deriver env)) = Inr ps"
    "validateConfiguredAddressIssuancePolicies (Some (ext_lib ext)) ps = Inr ()"
    "ad_policyReader (api_allocate c) = Some (NewAddressPolicyReader (map boot_policy_record ps))"
    "ad_deriver (api_allocate c) = Some (multi_chain_deriver derivers)"
    "derivers ''bitcoin'' = Some (bitcoin_deriver (ext_codec ext) (ext_lib ext)
       (NewHDXPubAddressDeriver (ext_encoders ext)))"
    "derivers ''ethereum'' = Some (ethereum_deriver (ext_codec ext) (ext_keccak ext) (ext_hmac ext)
       (ext_assets ext) (Some (salt_deriver env)))"
proof -
  let ?bitcoin = "bitcoin_deriver (ext_codec ext) (ext_lib ext) (NewHDXPubAddressDeriver (ext_encoders ext))"
    and ?ethereum = "ethereum_deriver (ext_codec ext) (ext_keccak ext) (ext_hmac ext) (ext_assets ext)
       (Some (salt_deriver env))"
  obtain ps derivers where
    p: "buildAddressIssuancePolicies (ext_keccak ext) (ext_assets ext) env (Some (salt_deriver env)) = Inr ps"
      "validateConfiguredAddressIssuancePolicies (Some (ext_lib ext)) ps = Inr ()"
      "ad_policyReader (api_allocate c) = Some (NewAddressPolicyReader (map boot_policy_record ps))"
      "ad_deriver (api_allocate c) = Some (multi_chain_deriver derivers)"
    and m: "NewMultiChainIssuedPaymentAddressDeriver [Some ?bitcoin, Some ?ethereum] = Inr derivers"
    using assms unfolding build_api_def Let_def by (auto split: sum.splits prod.splits)
  have d: "normalize_derivers [Some ?bitcoin, Some ?ethereum] Map.empty = Inr derivers"
    using m by (simp add: NewMultiChainIssuedPaymentAddressDeriver_def)
  have "ParseSupportedChain ''bitcoin'' = Some ''bitcoin''" "ParseSupportedChain ''ethereum'' = Some ''ethereum''"
    using ParseSupportedChain_self by (simp_all add: go_consts)
  then show thesis
    using normalize_derivers_lookup [OF d, of ?bitcoin "''bitcoin''"]
      normalize_derivers_lookup [OF d, of ?ethereum "''ethereum''"]
    by (intro that [OF p]) (simp_all add: bitcoin_deriver_def ethereum_deriver_def)
qed

lemma enabled_policy_validated:
  assumes "validateConfiguredAddressIssuancePolicies (Some lib) ps = Inr ()" "x \<in> set ps"
    and "normalized_policy_record (boot_policy_record x) = Some policy" "ipr_Enabled policy"
  shows "ipr_Chain policy = SupportedChainEthereum \<and> ipr_AddressSpaceRef policy \<noteq> [] \<or>
    ipr_Chain policy = SupportedChainBitcoin \<and> ValidateXPub lib (ipr_AddressSpaceRef policy) = Inr ()"
proof -
  note r = configured_record [OF assms(3)]
  have e: "aip_Enabled x" using r(1) assms(4) by simp
  show ?thesis
    using ParseSupportedChain_cases [OF r(2)]
  proof
    assume c: "ipr_Chain policy = SupportedChainBitcoin"
    then have "validateConfiguredEnabledBitcoinAddressIssuancePolicy (Some lib) (AddressIssuancePolicy_Normalize x)
        = Inr ()"
      using validated_policy(1) [OF assms(1,2) e] r(2) by simp
    then show ?thesis
      using c r(3) by (auto simp: validateConfiguredEnabledBitcoinAddressIssuancePolicy_def
          AddressIssuanceConfig_Normalize_def split: sum.splits if_splits)
  next
    assume c: "ipr_Chain policy = SupportedChainEthereum"
    then have "validateConfiguredEnabledEthereumAddressIssuancePolicy (AddressIssuancePolicy_Normalize x) = Inr ()"
      using validated_policy(2) [OF assms(1,2) e] r(2) by simp
    then show ?thesis
      using c r(3) by (auto simp: validateConfiguredEnabledEthereumAddressIssuancePolicy_def
          AddressIssuanceConfig_Normalize_def split: if_splits)
  qed
qed

text \<open>A CREATE2 policy with a reference issues an address for every allocation with an identity.\<close>

lemma create2_policy_issues:
  assumes hashes: "\<And>d. length (keccak d) = 32" "\<And>key m. length (hmac key m) = 32"
    and x: "create2_policy keccak assets (Some keys) x"
      "normalized_policy_record (boot_policy_record x) = Some policy"
    and policy: "ipr_Chain policy = ''ethereum''" "ipr_AddressSpaceRef policy \<noteq> []" "ipr_Enabled policy"
    and id: "0 < sint (ar_PaymentAddressID allocation)"
  shows "\<exists>out. ethereum_DeriveIssuedAddress codec keccak hmac assets True (Some keys) policy allocation = Inr out"
proof -
  obtain collector where p: "portable_id (ipr_Network policy)" "ipr_Scheme policy = AddressSchemeCreate2"
      "portable_id (ipr_AddressPolicyID policy)"
    and sp: "ipr_AddressSpaceRef policy =
      trim_space (create2_space_ref keccak assets (Some keys) (ipr_Network policy) collector)"
    using x(1) configured_record(3-6) [OF x(2)]
    by (auto simp: create2_policy_def ParseAddressScheme_self)
  from p(2) have scheme: "ipr_Scheme policy = ''create2''"
    by (simp add: go_consts)
  from policy(2) sp have has: "HasNetwork (Some keys) (ipr_Network policy)"
    and ref: "ipr_AddressSpaceRef policy = BuildAddressSpaceRef keccak assets (ipr_Network policy) collector"
    by (auto simp: create2_ref split: if_splits)
  obtain metadata where m: "LookupDeploymentMetadata assets (ipr_Network policy) = Some metadata"
    using policy(2) ref by (auto simp: BuildAddressSpaceRef_def split: option.splits)
  obtain key where k: "keys (ipr_Network policy) = Some key"
    using has p(1) by (auto simp: HasNetwork_def portable_id_lower_trim)
  show ?thesis
    by (rule ethereum_issues_create2 [where keccak = keccak and hmac = hmac and policy = policy
          and allocation = allocation and keys = keys and codec = codec and key = key
          and assets = assets and metadata = metadata and collector = collector,
          OF hashes policy(1) scheme policy(3) p(3,1) ref policy(2) m k id refl]) blast
qed

text \<open>
  C37: every enabled policy of an API that started can be issued from. When the container of the API
  was built, then for each policy that a request can find enabled the deriver of the use case
  supports its chain; for Ethereum, the derivation answers an address for every allocation with an
  identity; for Bitcoin, the account key of the policy was accepted by the key library.
\<close>

theorem started_api_can_issue:
  assumes hashes: "\<And>d. length (ext_keccak ext d) = 32" "\<And>key m. length (ext_hmac ext key m) = 32"
    and start: "newAPIContainer ext open_db env server n = (Inr c, n')"
    and reader: "ad_policyReader (api_allocate c) = Some reader"
    and found: "rdr_FindIssuanceByID reader pid = Inr (Some policy)" "ipr_Enabled policy"
    and id: "0 < sint (ar_PaymentAddressID allocation)"
  shows "\<exists>deriver. ad_deriver (api_allocate c) = Some deriver \<and> iad_SupportsChain deriver (ipr_Chain policy) \<and>
     (ipr_Chain policy = ''ethereum'' \<and> (\<exists>out. iad_DeriveIssuedAddress deriver policy allocation = Inr out) \<or>
      ipr_Chain policy = ''bitcoin'' \<and> ValidateXPub (ext_lib ext) (ipr_AddressSpaceRef policy) = Inr ())"
proof -
  let ?k = "ext_keccak ext" and ?s = "Some (salt_deriver env)"
  obtain ps derivers where b: "buildAddressIssuancePolicies ?k (ext_assets ext) env ?s = Inr ps"
    and v: "validateConfiguredAddressIssuancePolicies (Some (ext_lib ext)) ps = Inr ()"
    and rd: "ad_policyReader (api_allocate c) = Some (NewAddressPolicyReader (map boot_policy_record ps))"
    and d: "ad_deriver (api_allocate c) = Some (multi_chain_deriver derivers)"
      "derivers ''bitcoin'' \<noteq> None"
      "derivers ''ethereum'' = Some (ethereum_deriver (ext_codec ext) ?k (ext_hmac ext) (ext_assets ext) ?s)"
    using start unfolding newAPIContainer_def by (auto split: sum.splits elim!: build_api_parts)
  obtain x where x: "x \<in> set ps" and n: "normalized_policy_record (boot_policy_record x) = Some policy"
    using reader_found [of "map boot_policy_record ps"] found(1) reader rd by auto
  note r = configured_record [OF n]
  have bitcoin: ?thesis if "ipr_Chain policy = SupportedChainBitcoin"
    "ValidateXPub (ext_lib ext) (ipr_AddressSpaceRef policy) = Inr ()"
    using that d(1,2) ParseSupportedChain_self
    by (simp add: multi_chain_deriver_def MultiChain_SupportsChain_def go_consts)
  have ?thesis if chain: "ipr_Chain policy = SupportedChainEthereum" and ref: "ipr_AddressSpaceRef policy \<noteq> []"
  proof -
    obtain flag pol enabled where "(flag, pol) \<in> set (policy_table ?k (ext_assets ext) env ?s)" "x = pol enabled"
      using b x by (rule built_policies)
    then have create2: "create2_policy ?k (ext_assets ext) ?s x"
      using ethereum_table r(2) chain by simp
    have chain': "ipr_Chain policy = ''ethereum''"
      using chain by (simp add: go_consts)
    obtain out where "ethereum_DeriveIssuedAddress (ext_codec ext) ?k (ext_hmac ext) (ext_assets ext) True ?s
        policy allocation = Inr out"
      using create2_policy_issues [where hmac = "ext_hmac ext" and codec = "ext_codec ext", OF hashes create2 n chain' ref found(2) id] by blast
    then show ?thesis
      using d(1,3) chain' ParseSupportedChain_self(2)
      by (simp add: multi_chain_deriver_def MultiChain_SupportsChain_def MultiChain_DeriveIssuedAddress_def
          ethereum_deriver_def go_consts)
  qed
  with bitcoin show ?thesis
    using enabled_policy_validated [OF v x n found(2)] by blast
qed

definition boot_allocation :: PaymentAddressAllocationRecord where
  "boot_allocation = \<lparr>ar_PaymentAddressID = 7, ar_AddressPolicyID = ''ethereum-sepolia-create2'', ar_SlotIndex = 2,
     ar_ExpectedAmountMinor = 5, ar_CustomerReference = [], ar_Status = [], ar_Chain = [], ar_Network = [],
     ar_Scheme = [], ar_AssetReference = [], ar_Address = [], ar_DerivationFailureReason = []\<rparr>"

lemma started_api_can_issue_witness:
  "\<exists>c n reader p deriver out. newAPIContainer boot_ext (\<lambda>_. True) boot_lookup boot_node 0 = (Inr c, n) \<and>
     ad_policyReader (api_allocate c) = Some reader \<and> ad_deriver (api_allocate c) = Some deriver \<and>
     rdr_FindIssuanceByID reader ''ethereum-sepolia-create2'' = Inr (Some p) \<and>
     iad_DeriveIssuedAddress deriver p boot_allocation = Inr out"
proof -
  obtain c n where c: "newAPIContainer boot_ext (\<lambda>_. True) boot_lookup boot_node 0 = (Inr c, n)"
    using boot_starts by blast
  then obtain reader where reader: "ad_policyReader (api_allocate c) = Some reader"
    by (auto simp: newAPIContainer_def split: sum.splits elim!: build_api_parts)
  obtain p where p: "rdr_FindIssuanceByID reader ''ethereum-sepolia-create2'' = Inr (Some p)" "ipr_Enabled p"
    and chain: "ipr_Chain p = ''ethereum''"
    using boot_found [OF c reader] by blast
  have hashes: "length (ext_keccak boot_ext d) = 32" "length (ext_hmac boot_ext key m) = 32" for d key m
    by (simp_all add: boot_ext_def boot_hashes)
  have "0 < sint (ar_PaymentAddressID boot_allocation)"
    by (simp add: boot_allocation_def)
  from started_api_can_issue [OF hashes c reader p this] chain show ?thesis
    using c reader p(1) by auto
qed

section \<open>The catalogue is shared\<close>

text \<open>
  C38: the dispatcher knows every policy an address can be issued from. Take an API that started and a
  dispatcher that started, each with its own environment: for every policy that requests to the API
  find, the dispatcher finds one with the same identifier, chain, network, scheme and decimals, so a
  notification of an issued address is never refused for its policy.
\<close>

theorem dispatcher_knows_policies:
  assumes api: "newAPIContainer ext open_db env server n = (Inr c, n')"
    and dispatcher: "newReceiptWebhookDispatcherContainer ext' open_db' env' server' = Inr deps"
    and readers: "ad_policyReader (api_allocate c) = Some reader" "dd_policyReader deps = Some reader'"
    and found: "rdr_FindIssuanceByID reader pid = Inr (Some p)"
  shows "\<exists>q. rdr_FindIssuanceByID reader' pid = Inr (Some q) \<and> ipr_AddressPolicyID q = ipr_AddressPolicyID p \<and>
    ipr_Chain q = ipr_Chain p \<and> ipr_Network q = ipr_Network p \<and> ipr_Scheme q = ipr_Scheme p \<and>
    ipr_Decimals q = ipr_Decimals p"
proof -
  obtain ps where "buildAddressIssuancePolicies (ext_keccak ext) (ext_assets ext) env (Some (salt_deriver env)) = Inr ps"
    and "reader = NewAddressPolicyReader (map boot_policy_record ps)"
    using api readers(1) unfolding newAPIContainer_def by (auto split: sum.splits elim!: build_api_parts)
  note api_reader = configured_reader [OF this, of pid "record_entry p"]
  obtain ps' where "buildAddressIssuancePolicies (ext_keccak ext') (ext_assets ext') env' None = Inr ps'"
    and "reader' = NewAddressPolicyReader (map boot_policy_record ps')"
    using dispatcher readers(2)
    by (auto simp: newReceiptWebhookDispatcherContainer_def split: sum.splits)
  note dispatcher_reader = configured_reader [OF this, of pid "record_entry p"]
  show ?thesis
    using api_reader dispatcher_reader found by (auto simp: record_entry_def)
qed

lemma dispatcher_knows_policies_witness:
  "\<exists>c n deps reader reader' q. newAPIContainer boot_ext (\<lambda>_. True) boot_lookup boot_node 0 = (Inr c, n) \<and>
     newReceiptWebhookDispatcherContainer boot_ext (\<lambda>_. True) boot_lookup boot_node = Inr deps \<and>
     ad_policyReader (api_allocate c) = Some reader \<and> dd_policyReader deps = Some reader' \<and>
     rdr_FindIssuanceByID reader' ''ethereum-sepolia-create2'' = Inr (Some q) \<and> ipr_Chain q = ''ethereum''"
proof -
  obtain c n where c: "newAPIContainer boot_ext (\<lambda>_. True) boot_lookup boot_node 0 = (Inr c, n)"
    using boot_starts by blast
  then obtain reader where reader: "ad_policyReader (api_allocate c) = Some reader"
    by (auto simp: newAPIContainer_def split: sum.splits elim!: build_api_parts)
  obtain deps where d: "newReceiptWebhookDispatcherContainer boot_ext (\<lambda>_. True) boot_lookup boot_node = Inr deps"
    using boot_dispatcher_starts(1) by blast
  then obtain reader' where reader': "dd_policyReader deps = Some reader'"
    by (auto simp: newReceiptWebhookDispatcherContainer_def split: sum.splits)
  obtain p where p: "rdr_FindIssuanceByID reader ''ethereum-sepolia-create2'' = Inr (Some p)"
    and chain: "ipr_Chain p = ''ethereum''"
    using boot_found [OF c reader] by blast
  show ?thesis
    using dispatcher_knows_policies [OF c d reader reader' p] c d reader reader' chain by auto
qed

section \<open>Terms with no variable set\<close>

text \<open>
  An API whose environment sets none of the terms asks for one confirmation, and twelve on Sepolia
  only, and waits for seven days; the worker of the Cloudflare build asks for two, and waits for one.
\<close>

lemma unset_terms:
  assumes "\<And>key. lookup key = []"
  shows "loadReceiptRequiredConfirmationsFromLookup lookup defaultBitcoinRequiredConfirmations =
      Inr (terms_by_scope 1 1 1 12)"
    and "loadReceiptExpiresAfterByScopeFromLookup dur lookup defaultBitcoinReceiptExpiresAfter =
      Inr (let week = 7 * 24 * 3600000000000 in terms_by_scope week week week week)"
    and "loadReceiptRequiredConfirmationsFromLookup lookup cfDefaultBitcoinRequiredConfirmations =
      Inr (terms_by_scope 2 2 2 12)"
    and "loadReceiptExpiresAfterByScopeFromLookup dur lookup cfDefaultBitcoinReceiptExpiresAfter =
      Inr (let day = 24 * 3600000000000 in terms_by_scope day day day day)"
  by (simp_all add: assms loadReceiptRequiredConfirmationsFromLookup_def loadReceiptExpiresAfterByScopeFromLookup_def
      parsePositiveInt32LookupWithDefault_def parsePositiveDurationLookupWithDefault_def Let_def
      defaultBitcoinRequiredConfirmations_def defaultEthereumSepoliaRequiredConfirmations_def
      defaultBitcoinReceiptExpiresAfter_def cfDefaultBitcoinRequiredConfirmations_def
      cfDefaultBitcoinReceiptExpiresAfter_def)

section \<open>The programs are the system\<close>









end
