(* ===== verification/Cycle_Errors.thy ===== *)
theory Cycle_Errors
  imports Boot_Sample Sample_Run
begin

text \<open>
  The errors of the scheduled cycles once they are wired and configured as \<open>src/internal/bootstrap\<close> does it.
\<close>

section \<open>Errors of a transaction\<close>



section \<open>The dispatcher\<close>





section \<open>The poller\<close>









section \<open>Started programs\<close>











end
