(* ===== verification/Cf_Properties.thy ===== *)
theory Cf_Properties
  imports Cf_JsBridge Sample_Run
begin

text \<open>
  Properties of the stores of the Cloudflare build: on the database behind the bridge they are the
  native stores, and their transactions are the native transactions.
\<close>

section \<open>Transactions\<close>

lemma same_transaction:
  assumes body: "\<And>e w snap. serves c env e \<Longrightarrow> schema_ok (w_db w) \<Longrightarrow> db_era (w_db w) \<Longrightarrow>
      fn e (w, snap) = on_world f (w, snap)"
    and schema: "schema_ok (env_others env (w_step w) (w_db w))" "db_era (env_others env (w_step w) (w_db w))"
  shows "\<exists>snap'. Cf_WithinTransaction bridgeID (Some (pg_bridge c env acks)) fn (w, snap) =
    (if \<exists>err. fst (WithinTransaction env f w) = Inl err \<and> \<not> env_fault env (w_step w) \<and>
          fst (f (begin_tx env w)) = Inl err \<and> \<not> acks (w_step (snd (f (begin_tx env w))))
       then Inl (OutUow out_ErrUnitOfWorkFailed) else fst (WithinTransaction env f w),
     (snd (WithinTransaction env f w), snap'))"
proof (cases "env_fault env (w_step w)")
  case False
  have e: "serves c env (newTxExecutor bridgeID ''tx'' (Some (pg_bridge c env acks)))"
    by (auto simp: serves_def newTxExecutor_def)
  have s: "schema_ok (w_db (begin_tx env w))" "db_era (w_db (begin_tx env w))"
    using schema by (simp_all add: begin_tx_def)
  show ?thesis
    using False
    by (cases "f (begin_tx env w)"; cases "fst (f (begin_tx env w))")
      (auto simp: Cf_WithinTransaction_def WithinTransaction_def pg_bridge_def body [OF e [unfolded pg_bridge_def] s]
        Let_def split: commit_outcome.split)
qed (auto simp: Cf_WithinTransaction_def WithinTransaction_def pg_bridge_def)

section \<open>The builds agree\<close>

text \<open>
  C40: the two builds store the same. On one database, reached through a bridge whose columns the
  scan can read, every method of the Cloudflare stores leaves the database that the method of the
  native store leaves and returns what it returns, on every branch; the times of the claimed trackings
  and messages and of a status are those that the bridge sees (for the JavaScript bridge: down to the
  millisecond), which is the only difference. A transaction whose rollbacks are acknowledged ends as
  the native one, whatever its body does with the stores.
\<close>

theorem cloudflare_stores_agree:
  assumes columns: "postgres_columns c lib seen" and served: "serves c env e"
    and schema: "schema_ok (w_db w)" "schema_ok (env_others env (w_step w) (w_db w))"
    and era: "db_era (w_db w)" "db_era (env_others env (w_step w) (w_db w))"
    and body: "\<forall>e w snap. serves c env e \<and> schema_ok (w_db w) \<and> db_era (w_db w) \<longrightarrow>
      fn e (w, snap) = on_world f (w, snap)"
    and acks: "\<forall>n. acks n"
  shows "Cf_AllocationStore_FindIssuedByID lib e pid (w, snap) = on_world (AllocationStore_FindIssuedByID env pid) (w, snap) \<and>
    Cf_AllocationStore_Complete e completion (w, snap) = on_world (AllocationStore_Complete env completion) (w, snap) \<and>
    Cf_AllocationStore_MarkDerivationFailed e allocation (w, snap) =
      on_world (AllocationStore_MarkDerivationFailed env allocation) (w, snap) \<and>
    Cf_AllocationStore_ReopenFailedReservation lib e reserve (w, snap) =
      on_world (AllocationStore_ReopenFailedReservation env reserve) (w, snap) \<and>
    Cf_AllocationStore_ReserveFresh lib e reserve (w, snap) =
      on_world (AllocationStore_ReserveFresh env reserve) (w, snap) \<and>
    Cf_IdempotencyStore_FindByKey lib e chain key (w, snap) =
      on_world (IdempotencyStore_FindByKey env chain key) (w, snap) \<and>
    Cf_IdempotencyStore_Claim e claim (w, snap) = on_world (IdempotencyStore_Claim env claim) (w, snap) \<and>
    Cf_IdempotencyStore_Complete e chain key pid (w, snap) =
      on_world (IdempotencyStore_Complete env chain key pid) (w, snap) \<and>
    Cf_IdempotencyStore_Release e chain key (w, snap) = on_world (IdempotencyStore_Release env chain key) (w, snap) \<and>
    Cf_TrackingStore_Create e t next (w, snap) = on_world (TrackingStore_Create env t next) (w, snap) \<and>
    Cf_TrackingStore_ClaimDue lib e due (w, snap) =
      on_world (seeing (map (see_tracking seen)) (TrackingStore_ClaimDue env due)) (w, snap) \<and>
    Cf_TrackingStore_Save e t polled next (w, snap) = on_world (TrackingStore_Save env t polled next) (w, snap) \<and>
    Cf_Outbox_EnqueueStatusChanged e event (w, snap) = on_world (Outbox_EnqueueStatusChanged env event) (w, snap) \<and>
    Cf_Outbox_ClaimPending lib e now limit until (w, snap) =
      on_world (seeing (map (see_message seen)) (Outbox_ClaimPending env now limit until)) (w, snap) \<and>
    Cf_Outbox_SaveDeliveryResult e delivered (w, snap) = on_world (Outbox_SaveDeliveryResult env delivered) (w, snap) \<and>
    Cf_StatusFinder_FindByID lib e chain pid (w, snap) =
      on_world (seeing (map_option (see_status seen)) (StatusFinder_FindByID env chain pid)) (w, snap) \<and>
    (\<exists>snap'. Cf_WithinTransaction bridgeID (Some (pg_bridge c env acks)) fn (w, snap) =
       (fst (WithinTransaction env f w), (snd (WithinTransaction env f w), snap')))"
proof -
  have tx: "\<exists>snap'. Cf_WithinTransaction bridgeID (Some (pg_bridge c env acks)) fn (w, snap) =
      (fst (WithinTransaction env f w), (snd (WithinTransaction env f w), snap'))"
    using same_transaction [where fn = fn and f = f and c = c and env = env and w = w and acks = acks] body schema(2) era(2) acks
    by simp
  show ?thesis
    using served schema(1) era(1) tx
    by (simp only: postgres_columns.same_Complete [OF columns] postgres_columns.same_MarkDerivationFailed [OF columns]
        postgres_columns.same_key_updates [OF columns] postgres_columns.same_Claim [OF columns]
        postgres_columns.same_FindByKey [OF columns] postgres_columns.same_tracking_updates [OF columns]
        postgres_columns.same_ClaimDue [OF columns] postgres_columns.same_FindIssuedByID [OF columns]
        postgres_columns.same_outbox [OF columns] postgres_columns.same_ClaimPending [OF columns]
        postgres_columns.same_ReopenFailedReservation [OF columns]
        postgres_columns.same_ReserveFresh [OF columns] postgres_columns.same_FindByID [OF columns])
qed

definition sample_executor :: "(World \<times> DB) bridgeExecutor" where
  "sample_executor = newTxExecutor ''b'' ''tx'' (Some (pg_bridge (js_columns go_lib ''failed'') sample_env (\<lambda>_. True)))"

lemma cloudflare_stores_agree_witness:
  "Cf_TrackingStore_ClaimDue go_lib sample_executor sample_claim (sample_live, sample_db) =
     on_world (seeing (map (see_tracking to_ms)) (TrackingStore_ClaimDue sample_env sample_claim)) (sample_live, sample_db) \<and>
   (\<exists>snap. Cf_WithinTransaction ''b'' (Some (pg_bridge (js_columns go_lib ''failed'') sample_env (\<lambda>_. True)))
       (\<lambda>e. Cf_TrackingStore_ClaimDue go_lib e sample_claim) (sample_live, sample_db) =
     (fst (WithinTransaction sample_env (seeing (map (see_tracking to_ms)) (TrackingStore_ClaimDue sample_env sample_claim)) sample_live),
      (snd (WithinTransaction sample_env (seeing (map (see_tracking to_ms)) (TrackingStore_ClaimDue sample_env sample_claim)) sample_live), snap)))"
proof -
  have served: "serves (js_columns go_lib ''failed'') sample_env sample_executor"
    by (auto simp: serves_def sample_executor_def newTxExecutor_def)
  have schema: "schema_ok (w_db sample_live)" "schema_ok (env_others sample_env (w_step sample_live) (w_db sample_live))"
    using sample_db_inv by (simp_all add: sample_live_def sample_env_def db_inv_def)
  have "db_era sample_db"
    by code_simp
  then have era: "db_era (w_db sample_live)" "db_era (env_others sample_env (w_step sample_live) (w_db sample_live))"
    by (simp_all add: sample_live_def sample_env_def)
  have body: "\<forall>e w snap. serves (js_columns go_lib ''failed'') sample_env e \<and> schema_ok (w_db w) \<and> db_era (w_db w) \<longrightarrow>
      Cf_TrackingStore_ClaimDue go_lib e sample_claim (w, snap) =
      on_world (seeing (map (see_tracking to_ms)) (TrackingStore_ClaimDue sample_env sample_claim)) (w, snap)"
    using js.same_ClaimDue by blast
  show ?thesis
    using cloudflare_stores_agree [where due = sample_claim and bridgeID = "''b''", OF js.postgres_columns_axioms served schema era body, of "\<lambda>_. True"]
    by blast
qed

end
