(* ===== verification/Spec2Isabelle.thy ===== *)
theory Spec2Isabelle
  imports Receipt_Properties Store_Properties Cycle_Properties System_Properties
    Bitcoin_Properties Ethereum_Properties Hd_Properties Webhook_Properties Http_Properties Schedulers
    Bootstrap_Properties Cycle_Errors Cf_Properties
begin

text \<open>
  Payrune, \<open>src/\<close>: a Go service that issues payment addresses, watches the chain for the
  payments to them and notifies its customers of every change of a payment's status.

  Parts and how they interact. An HTTP request reaches the allocation use case, which reserves a
  derivation slot, derives an address, marks the allocation issued and creates its receipt
  tracking, in one transaction. The poller claims due trackings, asks a blockchain observer for
  the amounts paid, applies them to the tracking and saves it together with a notification when
  the status changed. The dispatcher claims pending notifications, sends them to a webhook and
  saves the outcome. Status and policy queries read. All of them share one PostgreSQL database
  through stores and a unit of work.

  Theories, bottom up.

    \<^item> \<open>Go_Errors\<close>, \<open>Go_Base\<close>: the prelude. The sentinel errors of all packages as one error type
      with the result type \<open>go_error + 'a\<close>; 64 and 32 bit integers as words; times as integers
      (0 is the zero time); the functions of \<open>strings\<close> and \<open>strconv\<close> the code uses.
    \<^item> \<open>Value_Objects\<close>, \<open>Entities\<close>, \<open>Policies\<close>: \<open>internal/domain\<close>. Identifiers and vocabularies with their
      parsers, the allocation and the receipt tracking with their transitions, the issuance plan.
    \<^item> \<open>Ports\<close>: \<open>internal/application/ports/outbound\<close> and the conversions between records and entities
      in \<open>usecases/port_record_conversions.go\<close>.
    \<^item> \<open>Sql_Db\<close>: the tables of \<open>deployments/postgresql/migrations\<close> as lists of rows with their
      constraints, the transaction \<open>WithinTransaction\<close> of \<open>adapters/outbound/persistence/postgres\<close>,
      and the environment: clock, statement faults, rows locked by others, commit outcomes
      (a commit may fail, or succeed without the answer arriving) and the steps of other
      processes between transactions.
    \<^item> \<open>Allocation_Store\<close>, \<open>Idempotency_Store\<close>, \<open>Tracking_Store\<close>, \<open>Outbox_Store\<close>, \<open>Status_Finder\<close>: the
      PostgreSQL stores, one function per method, one per SQL statement.
    \<^item> \<open>Policy_Reader\<close>: the configured policies, \<open>adapters/outbound/policy\<close>.
    \<^item> \<open>Allocate_UseCase\<close>, \<open>Polling_UseCase\<close>, \<open>Dispatch_UseCase\<close>, \<open>Query_UseCases\<close>: \<open>internal/application/usecases\<close>.
    \<^item> \<open>Go_Net\<close>: a second prelude, for the adapters. JSON values and the decoding rules of
      \<open>encoding/json\<close>, HTTP requests and replies, hexadecimal and path escaping.
      \<open>Go_Web\<close> adds headers, handlers and the text of times.
    \<^item> \<open>Webhook\<close>: \<open>adapters/outbound/webhook\<close> and the receiver of \<open>adapters/inbound/http/fakewebhook\<close>.
    \<^item> \<open>Http_Api\<close>, \<open>Http_Router\<close>: \<open>adapters/inbound/http\<close>, the controllers, the router with the matching
      of its patterns, the middleware, and the public API over the use cases. \<open>Schedulers\<close>:
      \<open>adapters/inbound/scheduler\<close>.
    \<^item> \<open>Multi_Chain\<close>: \<open>adapters/outbound/blockchain\<close>, the choice of an observer or deriver by chain.
    \<^item> \<open>Bitcoin_Observer\<close>, \<open>Bitcoin_Issuance\<close>: \<open>adapters/outbound/bitcoin\<close>, the Esplora client and its
      paging, the sums of a history, key derivation and derivation paths.
    \<^item> \<open>Ethereum_Rpc\<close>, \<open>Ethereum_Issuance\<close>: \<open>adapters/outbound/ethereum\<close>, the JSON RPC client, balances
      and contract reads, source references, salts, CREATE2 addresses and the readiness check.
      \<open>Create2_Assets\<close>: \<open>internal/infrastructure/ethereumcreate2assets\<close>.
    \<^item> \<open>Bootstrap_Config\<close>, \<open>Bootstrap_Wiring\<close>, \<open>Bootstrap_Worker\<close>: \<open>internal/bootstrap\<close>. The terms,
      endpoints and defaults read from the environment; the policies and their validation, the
      containers of the three programs and the loops of their ticks; the requests of the Cloudflare
      worker. \<open>Policy_Catalog\<close>: which policies a configured reader finds, without its maps.
      \<open>Http_System\<close>: every answer of the router is an execution of the system.
    \<^item> \<open>Cf_Executor\<close>, \<open>Cf_Stores\<close>: \<open>adapters/outbound/persistence/cloudflarepostgres\<close>, the same stores
      over values of a bridge. \<open>Cf_Database\<close>: the database behind that bridge; \<open>Cf_Refinement\<close>: that
      every method does what the native one does. \<open>Cf_JsBridge\<close>: the conversions of
      \<open>internal/infrastructure/cloudflarepostgres\<close>. \<open>Go_Time\<close>: the reading of times that they need.
      \<open>Js_Bridges\<close>: the bridges to the webhook and to an Esplora server.
    \<^item> \<open>Allocate_Effects\<close>, \<open>Issuance_Ledger\<close>, \<open>Allocate_Replay\<close>, \<open>Allocate_Failures\<close>: what the allocation
      writes, the ledger it keeps, the answer to a repeated request, what a failure leaves.
    \<^item> \<open>Payment_Lifecycle\<close>: the abstract specification of a receipt, a step relation and a machine of
      six phases it refines. \<open>Polling_Effects\<close>, \<open>Polling_History\<close>, \<open>Polling_Invariants\<close>,
      \<open>Dispatch_Effects\<close>: that the cycles implement it.
    \<^item> \<open>Payment_System\<close>: the step relation of the whole service and its invariant.
    \<^item> \<open>Sample_Run\<close>, \<open>Boot_Sample\<close> hold concrete executions and a configuration that starts, for the
      witnesses; \<open>Receipt_Properties\<close>,
      \<open>Store_Properties\<close>, \<open>Allocation_Properties\<close>, \<open>Cycle_Properties\<close>, \<open>System_Properties\<close>,
      \<open>Bitcoin_Properties\<close>, \<open>Ethereum_Properties\<close>, \<open>Hd_Properties\<close>, \<open>Webhook_Properties\<close>,
      \<open>Http_Properties\<close>, \<open>Bootstrap_Properties\<close>, \<open>Cycle_Errors\<close>, \<open>Cf_Properties\<close> state the
      properties.

  State. The database is a record of five tables and three identity sequences. A use case is a
  function from an environment, its dependencies, its input and a world (the database, a step
  counter and the transaction's time) to a result and a world. A dependency that Go may leave
  \<open>nil\<close> is an option. Interfaces to code outside the repository (observer, deriver, notifier) are
  parameters; those whose answers may change from call to call take the step counter.

  Interfaces. The locale \<open>db_guarantee\<close> is a guarantee between databases that a transaction
  keeps if its body and the other processes do; \<open>allocation_guarantee\<close>, \<open>polling_guarantee\<close> and
  \<open>dispatch_guarantee\<close> extend it to the use cases, once, and are interpreted for each invariant of
  the development (the schema's constraints, the ledger, the delivery frame, the absence of
  failed reservations, the invariant of the system). \<open>policy_reader\<close> is the contract of the policy
  reader that the allocation relies on; \<open>configured\<close> interprets it on the reader built from a
  configuration. \<open>system_handler\<close> is the contract of an HTTP handler that leads the database along
  executions of the use cases; the controllers and the router interpret it. \<open>postgres_columns\<close> is
  what the stores of the Cloudflare build need of the values of a row, with the resolution at which
  the bridge sees a time; the columns of the JavaScript bridge interpret it, at the millisecond.

  Remote services and libraries. A server is a function from the number of the request and the
  request to a reply or none; the theorems that say what a server answers state the documented
  behaviour of Esplora and of an Ethereum node as hypotheses. Hash functions, the HD key library,
  the address encoders and the reading of JSON text are parameters of the definitions that use
  them.

  Bounds. Recursion is structural, on lists, or on the number of pages left, which the code bounds
  by 10,000: no fuel is used. Sequences end at \<open>2^63 - 1\<close> and
  slots at \<open>2^31 - 1\<close>, as in the code.

  Assumptions that a reader should know. The isolation of transactions is the one that the row
  locks and the unique constraints of the statements give: the steps of other processes are
  placed before a transaction and the statements of one transaction run without interleaving.
  The use cases of \<open>Payment_System\<close> run one at a time; the theorems about one execution of the
  allocation hold beside any other processes that keep the guarantee.

  Not modelled: the commands; the start and shutdown of HTTP servers, the opening and closing of the
  database, the ticker (its ticks are a list), logging; the JavaScript of the Cloudflare build other
  than the function behind the webhook. Its workers run on the native stores here, which
  \<open>Cf_Properties\<close> shows to be the same as its own but for the milliseconds of a JavaScript date; the
  microseconds of PostgreSQL are left out. Not modelled either: the four address encoders, each a
  call of a third-party library; the certificate of the fake webhook receiver.
  Errors are compared by identity, so their message texts are left out.
\<close>

end
